(* ===== verification/Prelude.thy ===== *)
theory Prelude
  imports Complex_Main "HOL-Library.Signed_Division" "HOL-Library.Word" "HOL-Library.Multiset"
begin

text \<open>
  Shared vocabulary of the development: how C++ scalars, arrays and strings are represented, the
  fact collections the component theories extend, and generic lemmas on lists, options and
  truncated division that several components use.

  \<^item> C++ \<open>int\<close> indices are \<^typ>\<open>int\<close>; where a theorem depends on the width, the component uses a
    word type instead. The remainder operator of C++ truncates: it is \<open>smod\<close>.
  \<^item> \<open>float\<close> and \<open>double\<close> are \<^typ>\<open>real\<close>: rounding, NaN and infinities are outside the model.
  \<^item> A fixed-size array is a list; reading outside of it is \<^term>\<open>None\<close> (\<open>c_index\<close>).
\<close>

type_synonym cfloat = real
type_synonym byte = "8 word"
type_synonym u64 = "64 word"

named_theorems slot_simps \<open>index arithmetic of the cyclic containers\<close>
named_theorems frame_simps \<open>fields an operation does not write\<close>
named_theorems inv_intros \<open>operations that keep a component's invariant\<close>

section \<open>Arrays\<close>

definition c_index :: "'a list \<Rightarrow> int \<Rightarrow> 'a option" where
  "c_index xs i = (if 0 \<le> i \<and> i < int (length xs) then Some (xs ! nat i) else None)"

lemma c_index_in [simp]:
  "0 \<le> i \<Longrightarrow> i < int (length xs) \<Longrightarrow> c_index xs i = Some (xs ! nat i)"
  by (simp add: c_index_def)

lemma c_index_None_iff: "c_index xs i = None \<longleftrightarrow> i < 0 \<or> int (length xs) \<le> i"
  by (auto simp: c_index_def)

lemma list_update_nth_other:
  "0 \<le> i \<Longrightarrow> 0 \<le> j \<Longrightarrow> i \<noteq> j \<Longrightarrow> xs[nat i := v] ! nat j = xs ! nat j"
  by (simp add: nth_list_update_neq)

lemma butlast_map_upt: "butlast (map f [0..<k]) = map f [0..<k - 1]"
  by (cases k) simp_all

lemma tl_map_upt: "tl (map f [0..<k]) = map (\<lambda>i. f (Suc i)) [0..<k - 1]"
  by (cases k) (simp_all add: upt_conv_Cons map_Suc_upt [symmetric] del: upt_Suc)

lemma mset_map_perm:
  assumes "inj_on f {..<k}" "f ` {..<k} \<subseteq> {..<k}" "k = length xs"
  shows "mset (map (\<lambda>i. xs ! f i) [0..<k]) = mset xs"
proof -
  have "f ` {..<k} = {..<k}" using assms by (intro endo_inj_surj) auto
  then have "mset (map f [0..<k]) = mset [0..<k]"
    using assms(1) by (intro set_eq_iff_mset_eq_distinct [THEN iffD1])
      (auto simp: distinct_map atLeast0LessThan)
  then have "mset (map (nth xs) (map f [0..<k])) = mset (map (nth xs) [0..<k])"
    by (metis mset_map)
  then show ?thesis using assms(3) by (simp add: map_nth comp_def)
qed

lemma length_tl_dropWhile: "dropWhile P xs \<noteq> [] \<Longrightarrow> length (tl (dropWhile P xs)) < length xs"
  using length_dropWhile_le [of P xs] by (cases "dropWhile P xs") auto

section \<open>Truncated remainder\<close>

text \<open>The idiom \<open>j %= n; if (j < 0) j += n;\<close> computes the Euclidean remainder.\<close>

lemma smod_fixup [slot_simps]:
  "0 < n \<Longrightarrow> (if a smod n < 0 then a smod n + n else a smod n) = a mod (n::int)"
  by (simp add: smod_int_alt_def sgn_if zmod_zminus1_eq_if abs_if not_less not_le)

lemma mod_succ_eq [slot_simps]:
  "0 \<le> c \<Longrightarrow> c < n \<Longrightarrow> (if c + 1 = n then 0 else c + 1) = (c + 1) mod (n::int)"
  by simp

lemma mod_add_eq_iff_window:
  assumes "\<bar>i - j\<bar> < n"
  shows "(c + i) mod n = (c + j) mod (n::int) \<longleftrightarrow> i = j"
proof
  assume "(c + i) mod n = (c + j) mod n"
  then have "n dvd i - j" by (simp add: mod_eq_dvd_iff)
  then show "i = j" using assms dvd_imp_le_int [of "i - j" n] by (cases "i = j") auto
qed simp

lemma mod_int_eq_iff_window:
  assumes "0 \<le> i" "0 \<le> j" "i < n" "j < n"
  shows "(c - i) mod n = (c - j) mod (n::int) \<longleftrightarrow> i = j"
  using mod_add_eq_iff_window [of "- i" "- j" n c] assms by auto

lemma mod_succ_minus_one:
  "0 < n \<Longrightarrow> (k + 1) mod n \<noteq> 0 \<Longrightarrow> (k + 1) mod n - 1 = k mod (n::int)"
  by (smt (verit) mod_add_left_eq mod_pos_pos_trivial pos_mod_bound pos_mod_sign mod_self)

section \<open>Processes that run for a known number of frames\<close>

text \<open>
  Several modules are called once per frame and work through a sequence for a number of frames that
  is known at the start. The contract of such a process: while it is active, a frame with something
  left uses up one unit, and the frame with nothing left ends it.
\<close>

locale countdown =
  fixes frame :: "'m \<Rightarrow> 'm" and active :: "'m \<Rightarrow> bool" and remaining :: "'m \<Rightarrow> nat"
  assumes frame_last: "active m \<Longrightarrow> remaining m = 0 \<Longrightarrow> \<not> active (frame m)"
    and frame_more: "active m \<Longrightarrow> 0 < remaining m \<Longrightarrow> active (frame m)"
    and frame_count: "active m \<Longrightarrow> 0 < remaining m \<Longrightarrow> remaining (frame m) = remaining m - 1"
begin

lemma run_active:
  assumes "active m" "k \<le> remaining m"
  shows "active ((frame ^^ k) m) \<and> remaining ((frame ^^ k) m) = remaining m - k"
  using assms(2)
proof (induction k)
  case (Suc k)
  then show ?case using frame_more frame_count by simp
qed (simp add: assms(1))

lemma run_ends: "active m \<Longrightarrow> \<not> active ((frame ^^ Suc (remaining m)) m)"
  using run_active [of m "remaining m"] frame_last by simp

end

end
