(* ===== verification/Ring_Containers.thy ===== *)
theory Ring_Containers
  imports Prelude
begin

text \<open>
  The four cyclic containers of \<open>src/core/common\<close>: \<open>RingBuffer\<close>, \<open>RingBufferWithSum\<close>,
  \<open>RingQueue\<close> and \<open>RingQueueWithSum\<close>. The template parameter \<open>n\<close> is the first argument of
  every operation. The records hold the private members of the classes; the storage array is a
  list whose length the invariants fix to \<open>n\<close>. The abstraction (\<open>*_view\<close>) is the list of
  buffered values, newest first; the locale \<open>sliding_window\<close> states what all four promise about it
  and \<open>summed_window\<close> what the two summing variants add.
\<close>

section \<open>RingBuffer\<close>

record 'v ring_buffer =
  rb_current :: int
  rb_numberOfEntries :: int
  rb_buffer :: "'v list"

definition rb_init :: "int \<Rightarrow> 'v ring_buffer \<Rightarrow> 'v ring_buffer" where
  "rb_init n s = s\<lparr>rb_current := n - 1, rb_numberOfEntries := 0\<rparr>"

definition rb_advanceIndex :: "int \<Rightarrow> 'v ring_buffer \<Rightarrow> 'v ring_buffer" where
  "rb_advanceIndex n s =
     (let c = rb_current s + 1; c = (if c = n then 0 else c);
          k = rb_numberOfEntries s + 1
      in s\<lparr>rb_current := c, rb_numberOfEntries := (if k \<ge> n then n else k)\<rparr>)"

definition rb_add :: "int \<Rightarrow> 'v \<Rightarrow> 'v ring_buffer \<Rightarrow> 'v ring_buffer" where
  "rb_add n v s =
     (let s = rb_advanceIndex n s
      in s\<lparr>rb_buffer := (rb_buffer s)[nat (rb_current s) := v]\<rparr>)"

definition rb_removeFirst :: "'v ring_buffer \<Rightarrow> 'v ring_buffer" where
  "rb_removeFirst s = s\<lparr>rb_numberOfEntries := rb_numberOfEntries s - 1\<rparr>"

definition rb_slot :: "int \<Rightarrow> int \<Rightarrow> int \<Rightarrow> int" where
  "rb_slot n current i =
     (let j = current - i; j = j smod n in if j < 0 then j + n else j)"

definition rb_getEntry :: "int \<Rightarrow> 'v ring_buffer \<Rightarrow> int \<Rightarrow> 'v option" where
  "rb_getEntry n s i = c_index (rb_buffer s) (rb_slot n (rb_current s) i)"

definition rb_updateEntry :: "int \<Rightarrow> 'v \<Rightarrow> int \<Rightarrow> 'v ring_buffer \<Rightarrow> 'v ring_buffer" where
  "rb_updateEntry n v i s =
     s\<lparr>rb_buffer := (rb_buffer s)[nat (rb_slot n (rb_current s) i) := v]\<rparr>"

text \<open>The \<open>const\<close> overload of \<open>operator[]\<close> computes the slot differently from \<open>getEntry\<close>.\<close>

definition rb_at_const :: "int \<Rightarrow> 'v ring_buffer \<Rightarrow> int \<Rightarrow> 'v option" where
  "rb_at_const n s i =
     c_index (rb_buffer s)
       (if i > rb_current s then n + rb_current s - i else rb_current s - i)"

definition rb_getNumberOfEntries :: "'v ring_buffer \<Rightarrow> int" where
  "rb_getNumberOfEntries s = rb_numberOfEntries s"

definition rb_getMaxEntries :: "int \<Rightarrow> 'v ring_buffer \<Rightarrow> int" where
  "rb_getMaxEntries n s = n"

definition rb_inv :: "int \<Rightarrow> ('v, 'z) ring_buffer_scheme \<Rightarrow> bool" where
  "rb_inv n s \<longleftrightarrow> 0 < n \<and> 0 \<le> rb_current s \<and> rb_current s < n \<and>
     0 \<le> rb_numberOfEntries s \<and> rb_numberOfEntries s \<le> n \<and> int (length (rb_buffer s)) = n"

definition rb_view :: "int \<Rightarrow> ('v, 'z) ring_buffer_scheme \<Rightarrow> 'v list" where
  "rb_view n s =
     map (\<lambda>i. rb_buffer s ! nat (rb_slot n (rb_current s) (int i))) [0..<nat (rb_numberOfEntries s)]"

section \<open>RingBufferWithSum\<close>

record ring_buffer_sum = "real ring_buffer" +
  rbs_sum :: real

definition rbs_init :: "int \<Rightarrow> ring_buffer_sum \<Rightarrow> ring_buffer_sum" where
  "rbs_init n s = s\<lparr>rb_current := n - 1, rb_numberOfEntries := 0, rbs_sum := 0\<rparr>"

definition rbs_getEntry :: "int \<Rightarrow> ring_buffer_sum \<Rightarrow> int \<Rightarrow> real option" where
  "rbs_getEntry n s i = c_index (rb_buffer s) (rb_slot n (rb_current s) i)"

definition rbs_add :: "int \<Rightarrow> real \<Rightarrow> ring_buffer_sum \<Rightarrow> ring_buffer_sum" where
  "rbs_add n value s =
     (let sum = (if rb_numberOfEntries s = n
                 then rbs_sum s - rb_buffer s ! nat (rb_slot n (rb_current s) (rb_numberOfEntries s - 1))
                 else rbs_sum s);
          sum = sum + value;
          c = rb_current s + 1; c = (if c = n then 0 else c);
          k = rb_numberOfEntries s + 1
      in s\<lparr>rb_current := c, rb_numberOfEntries := (if k \<ge> n then n else k),
           rb_buffer := (rb_buffer s)[nat c := value], rbs_sum := sum\<rparr>)"

definition rbs_getSum :: "ring_buffer_sum \<Rightarrow> real" where
  "rbs_getSum s = rbs_sum s"

text \<open>The loop of \<open>getMinimum\<close> over \<open>buffer[i]\<close>, \<open>buffer[i+1]\<close>, \dots: the running minimum.\<close>

fun scan_min :: "real \<Rightarrow> real list \<Rightarrow> real" where
  "scan_min m [] = m"
| "scan_min m (x # xs) = scan_min (if x < m then x else m) xs"

definition rbs_getMinimum :: "ring_buffer_sum \<Rightarrow> real" where
  "rbs_getMinimum s =
     (if rb_numberOfEntries s = 0 then 0
      else scan_min (rb_buffer s ! 0) (take (nat (rb_numberOfEntries s)) (rb_buffer s)))"

definition rbs_getAverage :: "ring_buffer_sum \<Rightarrow> real" where
  "rbs_getAverage s =
     (if rb_numberOfEntries s = 0 then 0 else rbs_sum s / of_int (rb_numberOfEntries s))"

definition rbs_at_const :: "int \<Rightarrow> ring_buffer_sum \<Rightarrow> int \<Rightarrow> real option" where
  "rbs_at_const n s i =
     c_index (rb_buffer s)
       (if i > rb_current s then n + rb_current s - i else rb_current s - i)"

text \<open>
  \<open>std::nth_element(temp, temp+mid, temp+n)\<close> leaves at \<open>mid\<close> the element that sorting the
  range would put there; the whole array is copied, whether or not all of it has been filled.
\<close>

definition rbs_getMedian :: "int \<Rightarrow> ring_buffer_sum \<Rightarrow> real" where
  "rbs_getMedian n s = (let temp = take (nat n) (rb_buffer s); mid = n sdiv 2 in sort temp ! nat mid)"

text \<open>
  Until the buffer is full its values occupy the slots \<open>0..numberOfEntries-1\<close>: \<open>getMinimum\<close>
  depends on it.
\<close>

definition rbs_inv :: "int \<Rightarrow> ring_buffer_sum \<Rightarrow> bool" where
  "rbs_inv n s \<longleftrightarrow> rb_inv n s \<and>
     (rb_numberOfEntries s < n \<longrightarrow> rb_current s = (rb_numberOfEntries s - 1) mod n) \<and>
     rbs_sum s = sum_list (rb_view n s)"

section \<open>RingQueue\<close>

record 'v ring_queue =
  rq_frontIndex :: int
  rq_backIndex :: int
  rq_numberOfEntries :: int
  rq_buffer :: "'v list"

definition rq_init :: "'v ring_queue \<Rightarrow> 'v ring_queue" where
  "rq_init s = s\<lparr>rq_frontIndex := 0, rq_backIndex := 0, rq_numberOfEntries := 0\<rparr>"

definition rq_incrementIndex :: "int \<Rightarrow> int \<Rightarrow> int" where
  "rq_incrementIndex n index = (let index = index + 1 in if index = n then 0 else index)"

definition rq_push :: "int \<Rightarrow> 'v \<Rightarrow> 'v ring_queue \<Rightarrow> 'v ring_queue" where
  "rq_push n v s =
     (let s = (if rq_numberOfEntries s = n
               then s\<lparr>rq_numberOfEntries := n - 1,
                      rq_frontIndex := rq_incrementIndex n (rq_frontIndex s)\<rparr>
               else s)
      in s\<lparr>rq_buffer := (rq_buffer s)[nat (rq_backIndex s) := v],
           rq_backIndex := rq_incrementIndex n (rq_backIndex s),
           rq_numberOfEntries := rq_numberOfEntries s + 1\<rparr>)"

definition rq_pop :: "int \<Rightarrow> 'v ring_queue \<Rightarrow> 'v option \<times> 'v ring_queue" where
  "rq_pop n s =
     (if rq_numberOfEntries s \<le> 0 then (c_index (rq_buffer s) 0, s)
      else let temp = rq_frontIndex s
           in (c_index (rq_buffer s) temp,
               s\<lparr>rq_frontIndex := rq_incrementIndex n (rq_frontIndex s),
                 rq_numberOfEntries := rq_numberOfEntries s - 1\<rparr>))"

definition rq_front :: "'v ring_queue \<Rightarrow> 'v option" where
  "rq_front s = c_index (rq_buffer s) (rq_frontIndex s)"

definition rq_back :: "'v ring_queue \<Rightarrow> 'v option" where
  "rq_back s = c_index (rq_buffer s) (rq_backIndex s - 1)"

text \<open>The loop \<open>while (index >= n) index -= n\<close>; an array bound \<open>n\<close> is positive in C++.\<close>

function rq_wrap :: "int \<Rightarrow> int \<Rightarrow> int" where
  "rq_wrap n index = (if 0 < n \<and> index \<ge> n then rq_wrap n (index - n) else index)"
  by pat_completeness auto
termination
  by (relation "measure (\<lambda>(n, index). nat index)") auto

declare rq_wrap.simps [simp del]

definition rq_getEntry :: "int \<Rightarrow> 'v ring_queue \<Rightarrow> int \<Rightarrow> 'v option" where
  "rq_getEntry n s i = c_index (rq_buffer s) (rq_wrap n (rq_frontIndex s + i))"

definition rq_getNumberOfEntries :: "'v ring_queue \<Rightarrow> int" where
  "rq_getNumberOfEntries s = rq_numberOfEntries s"

definition rq_inv :: "int \<Rightarrow> ('v, 'z) ring_queue_scheme \<Rightarrow> bool" where
  "rq_inv n s \<longleftrightarrow> 0 < n \<and> 0 \<le> rq_frontIndex s \<and> rq_frontIndex s < n \<and>
     0 \<le> rq_numberOfEntries s \<and> rq_numberOfEntries s \<le> n \<and> int (length (rq_buffer s)) = n \<and>
     rq_backIndex s = (rq_frontIndex s + rq_numberOfEntries s) mod n"

definition rq_contents :: "int \<Rightarrow> ('v, 'z) ring_queue_scheme \<Rightarrow> 'v list" where
  "rq_contents n s =
     map (\<lambda>i. rq_buffer s ! nat ((rq_frontIndex s + int i) mod n)) [0..<nat (rq_numberOfEntries s)]"

definition rq_view :: "int \<Rightarrow> ('v, 'z) ring_queue_scheme \<Rightarrow> 'v list" where
  "rq_view n s = rev (rq_contents n s)"

section \<open>RingQueueWithSum\<close>

record 'v ring_queue_sum = "'v ring_queue" +
  rqs_sum :: 'v

definition rqs_init :: "'v::real_vector ring_queue_sum \<Rightarrow> 'v ring_queue_sum" where
  "rqs_init s = s\<lparr>rq_frontIndex := 0, rq_backIndex := 0, rq_numberOfEntries := 0, rqs_sum := 0\<rparr>"

definition rqs_push :: "int \<Rightarrow> 'v::real_vector \<Rightarrow> 'v ring_queue_sum \<Rightarrow> 'v ring_queue_sum" where
  "rqs_push n v s =
     (let s = (if rq_numberOfEntries s = n
               then s\<lparr>rq_numberOfEntries := n - 1,
                      rqs_sum := rqs_sum s - rq_buffer s ! nat (rq_frontIndex s),
                      rq_frontIndex := rq_incrementIndex n (rq_frontIndex s)\<rparr>
               else s)
      in s\<lparr>rqs_sum := rqs_sum s + v,
           rq_buffer := (rq_buffer s)[nat (rq_backIndex s) := v],
           rq_backIndex := rq_incrementIndex n (rq_backIndex s),
           rq_numberOfEntries := rq_numberOfEntries s + 1\<rparr>)"

definition rqs_pop :: "int \<Rightarrow> 'v::real_vector ring_queue_sum \<Rightarrow> 'v option \<times> 'v ring_queue_sum" where
  "rqs_pop n s =
     (if rq_numberOfEntries s \<le> 0 then (c_index (rq_buffer s) 0, s)
      else let temp = rq_frontIndex s
           in (c_index (rq_buffer s) temp,
               s\<lparr>rqs_sum := rqs_sum s - rq_buffer s ! nat temp,
                 rq_frontIndex := rq_incrementIndex n (rq_frontIndex s),
                 rq_numberOfEntries := rq_numberOfEntries s - 1\<rparr>))"

definition rqs_getSum :: "'v ring_queue_sum \<Rightarrow> 'v" where
  "rqs_getSum s = rqs_sum s"

definition rqs_getAverage :: "'v::real_vector ring_queue_sum \<Rightarrow> 'v" where
  "rqs_getAverage s =
     (if rq_numberOfEntries s = 0 then 0 else inverse (of_int (rq_numberOfEntries s)) *\<^sub>R rqs_sum s)"

definition rqs_inv :: "int \<Rightarrow> 'v::real_vector ring_queue_sum \<Rightarrow> bool" where
  "rqs_inv n s \<longleftrightarrow> rq_inv n s \<and> rqs_sum s = sum_list (rq_contents n s)"

section \<open>The contract of a sliding window\<close>

text \<open>
  What a client of any of the four containers relies on: a push keeps the invariant, the newest
  value comes first, and the window never holds more than \<open>capacity\<close> values. From these laws
  follows what a whole sequence of pushes leaves in the window.
\<close>

locale sliding_window =
  fixes capacity :: nat
    and push :: "'v \<Rightarrow> 's \<Rightarrow> 's"
    and view :: "'s \<Rightarrow> 'v list"
    and invar :: "'s \<Rightarrow> bool"
  assumes view_push: "invar s \<Longrightarrow> view (push v s) = take capacity (v # view s)"
    and invar_push: "invar s \<Longrightarrow> invar (push v s)"
    and view_bound: "invar s \<Longrightarrow> length (view s) \<le> capacity"
begin

lemma invar_fold: "invar s \<Longrightarrow> invar (fold push vs s)"
  by (induction vs arbitrary: s) (auto intro: invar_push)

lemma view_fold: "invar s \<Longrightarrow> view (fold push vs s) = take capacity (rev vs @ view s)"
proof (induction vs arbitrary: s)
  case Nil
  then show ?case by (simp add: view_bound)
next
  case (Cons v vs)
  have "view (fold push (v # vs) s) = take capacity (rev vs @ take capacity (v # view s))"
    using Cons by (simp add: invar_push view_push)
  also have "\<dots> = take capacity (rev vs @ v # view s)"
    by (simp add: min_def)
  finally show ?case by simp
qed

lemma view_fold_full:
  assumes "invar s" and "capacity \<le> length vs"
  shows "view (fold push vs s) = take capacity (rev vs)"
  using assms by (simp add: view_fold)

end

text \<open>Reading a queue until \<open>k\<close> values have come out.\<close>

fun drain :: "('s \<Rightarrow> 'v option \<times> 's) \<Rightarrow> nat \<Rightarrow> 's \<Rightarrow> 'v option list \<times> 's" where
  "drain pop 0 s = ([], s)"
| "drain pop (Suc k) s = (let (v, s) = pop s; (vs, s) = drain pop k s in (v # vs, s))"

locale fifo_window = sliding_window capacity push view invar
  for capacity :: nat
    and push :: "'v \<Rightarrow> 's \<Rightarrow> 's"
    and view :: "'s \<Rightarrow> 'v list"
    and invar :: "'s \<Rightarrow> bool" +
  fixes pop :: "'s \<Rightarrow> 'v option \<times> 's"
  assumes pop_value: "invar s \<Longrightarrow> view s \<noteq> [] \<Longrightarrow> fst (pop s) = Some (last (view s))"
    and pop_view: "invar s \<Longrightarrow> view (snd (pop s)) = butlast (view s)"
    and invar_pop: "invar s \<Longrightarrow> invar (snd (pop s))"
begin

lemma drain_all:
  assumes "invar s"
  shows "fst (drain pop (length (view s)) s) = map Some (rev (view s)) \<and>
    view (snd (drain pop (length (view s)) s)) = [] \<and> invar (snd (drain pop (length (view s)) s))"
  using assms
proof (induction "view s" arbitrary: s rule: rev_induct)
  case Nil
  then show ?case by simp
next
  case (snoc x xs)
  then have v: "view (snd (pop s)) = xs" "fst (pop s) = Some x" "invar (snd (pop s))"
    using pop_view [of s] pop_value [of s] invar_pop [of s] by (metis butlast_snoc last_snoc snoc_eq_iff_butlast)+
  have len: "length (view s) = Suc (length xs)" using snoc.hyps(2) by (metis length_append_singleton)
  show ?case
    using snoc.hyps(1) [of "snd (pop s)"] v snoc.hyps(2) [symmetric]
    by (simp add: len split_def Let_def)
qed

lemma drain_pushed:
  assumes "invar s" and "view s = []"
  shows "fst (drain pop (min capacity (length vs)) (fold push vs s))
       = map Some (drop (length vs - capacity) vs)"
proof -
  have v: "view (fold push vs s) = take capacity (rev vs)"
    using assms by (simp add: view_fold)
  show ?thesis
    using drain_all [OF invar_fold [OF assms(1), of vs]] v by (simp add: min.commute rev_take)
qed

end

locale summed_window = sliding_window capacity push view invar
  for capacity :: nat
    and push :: "'v::real_vector \<Rightarrow> 's \<Rightarrow> 's"
    and view :: "'s \<Rightarrow> 'v list"
    and invar :: "'s \<Rightarrow> bool" +
  fixes total :: "'s \<Rightarrow> 'v"
    and average :: "'s \<Rightarrow> 'v"
  assumes total_view: "invar s \<Longrightarrow> total s = sum_list (view s)"
    and average_view:
      "invar s \<Longrightarrow> average s = (if view s = [] then 0 else inverse (real (length (view s))) *\<^sub>R total s)"
begin

lemma total_fold: "invar s \<Longrightarrow> total (fold push vs s) = sum_list (take capacity (rev vs @ view s))"
  by (simp add: total_view view_fold invar_fold)

lemma average_scaled: "invar s \<Longrightarrow> real (length (view s)) *\<^sub>R average s = sum_list (view s)"
  by (simp add: average_view total_view)

end

section \<open>Index arithmetic\<close>

lemma rb_slot_mod [slot_simps]: "0 < n \<Longrightarrow> rb_slot n c i = (c - i) mod n"
  by (simp add: rb_slot_def Let_def smod_fixup)

lemma rq_wrap_mod [slot_simps]: "0 < n \<Longrightarrow> 0 \<le> i \<Longrightarrow> rq_wrap n i = i mod n"
proof (induction n i rule: rq_wrap.induct)
  case (1 n i)
  then show ?case
    by (cases "i \<ge> n") (simp_all add: rq_wrap.simps [of n i])
qed

lemma rq_incrementIndex_mod [slot_simps]:
  "0 \<le> i \<Longrightarrow> i < n \<Longrightarrow> rq_incrementIndex n i = (i + 1) mod n"
  by (simp add: rq_incrementIndex_def Let_def)

lemma window_shift:
  assumes n: "0 < n" "int (length b) = n" and c: "0 \<le> c" "c < n" and k: "0 \<le> k" "k \<le> n"
  shows "map (\<lambda>i. b[nat ((c + 1) mod n) := v] ! nat (((c + 1) mod n - int i) mod n))
           [0..<nat (min n (k + 1))]
       = take (nat n) (v # map (\<lambda>i. b ! nat ((c - int i) mod n)) [0..<nat k])"
    (is "?l = ?r")
proof (rule nth_equalityI)
  show "length ?l = length ?r" using n k by auto
next
  fix i assume i: "i < length ?l"
  let ?c = "(c + 1) mod n"
  have slot: "(?c - int i) mod n = (c + 1 - int i) mod n"
    by (simp add: mod_diff_left_eq)
  show "?l ! i = ?r ! i"
  proof (cases i)
    case 0
    then show ?thesis using n k c by (simp add: nat_less_iff)
  next
    case (Suc m)
    have m: "int m + 1 < n" and mk: "m < nat k" using i Suc k by auto
    have "(c + 1 - int i) mod n \<noteq> (c + 1 - 0) mod n"
      using mod_int_eq_iff_window [of "int i" 0 n "c + 1"] n m Suc by auto
    then have "(c - int m) mod n \<noteq> ?c" using Suc by simp
    then have "b[nat ?c := v] ! nat ((c - int m) mod n) = b ! nat ((c - int m) mod n)"
      using n by (intro list_update_nth_other) auto
    then show ?thesis using Suc i m mk slot k by (simp add: nth_Cons')
  qed
qed

section \<open>RingBuffer keeps the last \<open>n\<close> values\<close>

lemma rb_inv_init [inv_intros]:
  "0 < n \<Longrightarrow> int (length (rb_buffer s)) = n \<Longrightarrow> rb_inv n (rb_init n s)"
  by (simp add: rb_inv_def rb_init_def)

lemma rb_view_init [simp]: "rb_view n (rb_init n s) = []"
  by (simp add: rb_view_def rb_init_def)

lemma rb_view_mod:
  "rb_inv n s \<Longrightarrow> rb_view n s =
     map (\<lambda>i. rb_buffer s ! nat ((rb_current s - int i) mod n)) [0..<nat (rb_numberOfEntries s)]"
  by (simp add: rb_view_def rb_inv_def rb_slot_mod)

lemma rb_length_view: "rb_inv n s \<Longrightarrow> int (length (rb_view n s)) = rb_numberOfEntries s"
  by (simp add: rb_view_def rb_inv_def)

lemma rb_add_fields [slot_simps]:
  assumes "rb_inv n s"
  shows "rb_current (rb_add n v s) = (rb_current s + 1) mod n"
    and "rb_numberOfEntries (rb_add n v s) = min n (rb_numberOfEntries s + 1)"
    and "rb_buffer (rb_add n v s) = (rb_buffer s)[nat ((rb_current s + 1) mod n) := v]"
  using assms by (simp_all add: rb_inv_def rb_add_def rb_advanceIndex_def Let_def)

lemma rb_inv_add [inv_intros]: "rb_inv n s \<Longrightarrow> rb_inv n (rb_add n v s)"
  using rb_add_fields [of n s v] by (auto simp: rb_inv_def)

lemma rb_view_add: "rb_inv n s \<Longrightarrow> rb_view n (rb_add n v s) = take (nat n) (v # rb_view n s)"
  using window_shift [of n "rb_buffer s" "rb_current s" "rb_numberOfEntries s" v]
  by (simp add: rb_view_mod rb_inv_add rb_add_fields) (simp add: rb_inv_def)

interpretation rb: sliding_window "nat n" "rb_add n" "rb_view n" "rb_inv n" for n :: int
proof unfold_locales
  fix s :: "'a ring_buffer" and v
  assume s: "rb_inv n s"
  show "rb_view n (rb_add n v s) = take (nat n) (v # rb_view n s)" using s by (rule rb_view_add)
  show "rb_inv n (rb_add n v s)" using s by (rule rb_inv_add)
  show "length (rb_view n s) \<le> nat n" using s rb_length_view [OF s] unfolding rb_inv_def by linarith
qed

lemma rb_slot_in_array: "rb_inv n s \<Longrightarrow> nat (rb_slot n (rb_current s) i) < length (rb_buffer s)"
  by (simp add: rb_inv_def rb_slot_mod nat_less_iff)

lemma rb_getEntry_view:
  assumes "rb_inv n s" "0 \<le> i" "i < rb_numberOfEntries s"
  shows "rb_getEntry n s i = Some (rb_view n s ! nat i)"
proof -
  have "0 \<le> (rb_current s - i) mod n" "(rb_current s - i) mod n < int (length (rb_buffer s))"
    using assms by (simp_all add: rb_inv_def)
  then show ?thesis
    using assms by (simp add: rb_view_mod rb_getEntry_def rb_inv_def rb_slot_mod)
qed

lemma rb_view_removeFirst:
  "rb_inv n s \<Longrightarrow> rb_view n s \<noteq> [] \<Longrightarrow>
     rb_inv n (rb_removeFirst s) \<and> rb_view n (rb_removeFirst s) = butlast (rb_view n s)"
  by (auto simp: rb_inv_def rb_removeFirst_def rb_view_def butlast_map_upt nat_diff_distrib)

lemma rb_inv_updateEntry [inv_intros]: "rb_inv n s \<Longrightarrow> rb_inv n (rb_updateEntry n v i s)"
  by (simp add: rb_inv_def rb_updateEntry_def)

lemma rb_view_updateEntry:
  assumes s: "rb_inv n s" and i: "0 \<le> i" "i < rb_numberOfEntries s"
  shows "rb_view n (rb_updateEntry n v i s) = (rb_view n s)[nat i := v]"
proof (rule nth_equalityI)
  show "length (rb_view n (rb_updateEntry n v i s)) = length ((rb_view n s)[nat i := v])"
    by (simp add: rb_view_def rb_updateEntry_def)
next
  fix j assume "j < length (rb_view n (rb_updateEntry n v i s))"
  then have j: "int j < rb_numberOfEntries s" by (simp add: rb_view_def rb_updateEntry_def)
  have n: "0 < n" "int (length (rb_buffer s)) = n" "rb_numberOfEntries s \<le> n"
    using s by (simp_all add: rb_inv_def)
  have eq: "(rb_current s - i) mod n = (rb_current s - int j) mod n \<longleftrightarrow> i = int j"
    using mod_int_eq_iff_window [of i "int j" n "rb_current s"] i j n by simp
  have slots: "nat ((rb_current s - i) mod n) = nat ((rb_current s - int j) mod n) \<longleftrightarrow> i = int j"
    using eq n by (simp add: eq_nat_nat_iff)
  have "nat ((rb_current s - i) mod n) < length (rb_buffer s)" using n by (simp add: nat_less_iff)
  then show "rb_view n (rb_updateEntry n v i s) ! j = (rb_view n s)[nat i := v] ! j"
    using slots i j n
    by (auto simp: rb_view_def rb_updateEntry_def rb_slot_mod nth_list_update)
qed

section \<open>RingBufferWithSum: sum, average, minimum, median\<close>

lemma rbs_inv_init [inv_intros]:
  "0 < n \<Longrightarrow> int (length (rb_buffer s)) = n \<Longrightarrow> rbs_inv n (rbs_init n s)"
  by (simp add: rbs_inv_def rb_inv_def rbs_init_def rb_view_def zmod_minus1)

lemma rbs_view_init [simp]: "rb_view n (rbs_init n s) = []"
  by (simp add: rb_view_def rbs_init_def)

lemma rbs_add_fields [slot_simps]:
  assumes "rb_inv n s"
  shows "rb_current (rbs_add n v s) = (rb_current s + 1) mod n"
    and "rb_numberOfEntries (rbs_add n v s) = min n (rb_numberOfEntries s + 1)"
    and "rb_buffer (rbs_add n v s) = (rb_buffer s)[nat ((rb_current s + 1) mod n) := v]"
  using assms by (simp_all add: rb_inv_def rbs_add_def Let_def)

lemma rbs_rb_inv_add: "rb_inv n s \<Longrightarrow> rb_inv n (rbs_add n v s)"
  using rbs_add_fields [of n s v] by (auto simp: rb_inv_def)

lemma rbs_view_add: "rb_inv n s \<Longrightarrow> rb_view n (rbs_add n v s) = take (nat n) (v # rb_view n s)"
  using window_shift [of n "rb_buffer s" "rb_current s" "rb_numberOfEntries s" v]
  by (simp add: rb_view_mod rbs_rb_inv_add rbs_add_fields) (simp add: rb_inv_def)

lemma rbs_sum_add:
  assumes "rbs_inv n s"
  shows "rbs_sum (rbs_add n v s) = sum_list (take (nat n) (v # rb_view n s))"
proof (cases "rb_numberOfEntries s = n")
  case True
  have s: "rb_inv n s" "rbs_sum s = sum_list (rb_view n s)" using assms by (simp_all add: rbs_inv_def)
  have n: "0 < n" using s by (simp add: rb_inv_def)
  have len: "length (rb_view n s) = nat n" using rb_length_view [OF s(1)] True by linarith
  then have ne: "rb_view n s \<noteq> []" using n by auto
  have last: "last (rb_view n s) = rb_buffer s ! nat (rb_slot n (rb_current s) (n - 1))"
    using ne n True by (simp add: last_conv_nth len) (simp add: rb_view_def True nat_diff_distrib)
  have "sum_list (rb_view n s) = sum_list (butlast (rb_view n s)) + last (rb_view n s)"
    using ne by (metis append_butlast_last_id sum_list.append sum_list_simps(1) sum_list.Cons add.right_neutral)
  moreover have "take (nat n) (v # rb_view n s) = v # butlast (rb_view n s)"
    using n len by (simp add: take_Cons' butlast_conv_take nat_diff_distrib)
  ultimately show ?thesis
    using True s last by (simp add: rbs_add_def Let_def)
next
  case False
  then have "take (nat n) (v # rb_view n s) = v # rb_view n s"
    using assms rb_length_view [of n s] by (auto simp: rbs_inv_def rb_inv_def take_Cons' )
  then show ?thesis
    using assms False by (simp add: rbs_add_def Let_def rbs_inv_def)
qed

lemma rbs_inv_add [inv_intros]:
  assumes "rbs_inv n s" shows "rbs_inv n (rbs_add n v s)"
proof -
  have s: "rb_inv n s" and n: "0 < n" using assms by (simp_all add: rbs_inv_def rb_inv_def)
  have "rb_current (rbs_add n v s) = (rb_numberOfEntries (rbs_add n v s) - 1) mod n"
    if "rb_numberOfEntries (rbs_add n v s) < n"
    using that assms n by (simp add: rbs_add_fields [OF s] rbs_inv_def mod_add_left_eq min_def split: if_splits)
  then show ?thesis
    using assms rbs_sum_add [OF assms, of v] rbs_view_add [OF s, of v] rbs_rb_inv_add [OF s, of v]
    by (simp add: rbs_inv_def)
qed

interpretation rbs: summed_window "nat n" "rbs_add n" "rb_view n" "rbs_inv n" rbs_getSum rbs_getAverage
  for n :: int
proof unfold_locales
  fix s :: ring_buffer_sum and v
  assume s: "rbs_inv n s"
  then have r: "rb_inv n s" by (simp add: rbs_inv_def)
  show "rb_view n (rbs_add n v s) = take (nat n) (v # rb_view n s)" using r by (rule rbs_view_add)
  show "rbs_inv n (rbs_add n v s)" using s by (rule rbs_inv_add)
  show "length (rb_view n s) \<le> nat n" using r rb_length_view [OF r] unfolding rb_inv_def by linarith
  show "rbs_getSum s = sum_list (rb_view n s)" using s by (simp add: rbs_inv_def rbs_getSum_def)
  have "real (length (rb_view n s)) = of_int (rb_numberOfEntries s)"
    using rb_length_view [OF r] by (metis of_int_of_nat_eq)
  moreover have "rb_view n s = [] \<longleftrightarrow> rb_numberOfEntries s = 0"
    using rb_length_view [OF r] by auto
  ultimately show "rbs_getAverage s =
      (if rb_view n s = [] then 0 else inverse (real (length (rb_view n s))) *\<^sub>R rbs_getSum s)"
    by (simp add: rbs_getAverage_def rbs_getSum_def divide_inverse)
qed

text \<open>The values in the array, as a multiset, are the values in the window.\<close>

lemma rbs_mset_view:
  assumes "rbs_inv n s"
  shows "mset (rb_view n s) = mset (take (nat (rb_numberOfEntries s)) (rb_buffer s))"
proof -
  define c where "c = rb_current s"
  have s: "rb_inv n s" and n: "0 < n" "int (length (rb_buffer s)) = n" "0 \<le> c" "c < n"
    and k: "0 \<le> rb_numberOfEntries s" "rb_numberOfEntries s \<le> n"
    using assms by (simp_all add: rbs_inv_def rb_inv_def c_def)
  have len: "length (rb_buffer s) = nat n" using n by linarith
  show ?thesis
  proof (cases "rb_numberOfEntries s = n")
    case True
    have "inj_on (\<lambda>i. nat ((c - int i) mod n)) {..<nat n}"
      using n by (auto simp: inj_on_def mod_int_eq_iff_window eq_nat_nat_iff)
    moreover have "(\<lambda>i. nat ((c - int i) mod n)) ` {..<nat n} \<subseteq> {..<nat n}"
      using n(1) by (auto simp: nat_less_eq_zless)
    ultimately have "mset (map (\<lambda>i. rb_buffer s ! nat ((c - int i) mod n)) [0..<nat n]) = mset (rb_buffer s)"
      using len by (intro mset_map_perm) auto
    then show ?thesis using True len by (simp add: rb_view_mod [OF s] c_def)
  next
    case False
    let ?k = "nat (rb_numberOfEntries s)"
    have "rb_view n s = rev (take ?k (rb_buffer s))"
    proof (rule nth_equalityI)
      show "length (rb_view n s) = length (rev (take ?k (rb_buffer s)))"
        using k len by (simp add: rb_view_def min_def) linarith
      fix i assume "i < length (rb_view n s)"
      then have i: "int i < rb_numberOfEntries s" using rb_length_view [OF s] by linarith
      then have "c = rb_numberOfEntries s - 1"
        using False assms k n by (simp add: rbs_inv_def c_def)
      then have "(c - int i) mod n = rb_numberOfEntries s - 1 - int i"
        using i k by simp
      then have "nat ((c - int i) mod n) = ?k - Suc i" using i k by simp
      moreover have "i < length (take ?k (rb_buffer s))" "?k \<le> length (rb_buffer s)"
        using i k len by auto
      ultimately show "rb_view n s ! i = rev (take ?k (rb_buffer s)) ! i"
        using i by (simp add: rb_view_mod [OF s] c_def rev_nth)
    qed
    then show ?thesis by simp
  qed
qed

lemma scan_min_Min: "scan_min m xs = Min (insert m (set xs))"
proof (induction m xs rule: scan_min.induct)
  case (2 m x xs)
  have "Min (insert (if x < m then x else m) (set xs)) = Min (insert m (insert x (set xs)))"
    by (cases "set xs = {}") (auto simp: min_def)
  then show ?case using 2 by simp
qed simp

lemma rbs_getMinimum_view:
  assumes "rbs_inv n s" "rb_view n s \<noteq> []"
  shows "rbs_getMinimum s = Min (set (rb_view n s))"
proof -
  let ?t = "take (nat (rb_numberOfEntries s)) (rb_buffer s)"
  have set: "set (rb_view n s) = set ?t"
    using rbs_mset_view [OF assms(1)] by (metis set_mset_mset)
  then have ne: "?t \<noteq> []" using assms(2) by auto
  then have "rb_buffer s ! 0 \<in> set ?t" and "rb_numberOfEntries s \<noteq> 0"
    by (cases "rb_buffer s"; auto simp: take_Cons')+
  then show ?thesis by (simp add: rbs_getMinimum_def scan_min_Min set insert_absorb)
qed

lemma rbs_getMedian_view:
  assumes "rbs_inv n s" "rb_numberOfEntries s = n"
  shows "rbs_getMedian n s = sort (rb_view n s) ! nat (n div 2)"
proof -
  have n: "0 < n" "int (length (rb_buffer s)) = n" using assms by (simp_all add: rbs_inv_def rb_inv_def)
  have "sort (rb_view n s) = sort (take (nat n) (rb_buffer s))"
    using rbs_mset_view [OF assms(1)] assms(2) by (metis sorted_list_of_multiset_mset)
  then show ?thesis using n by (simp add: rbs_getMedian_def Let_def signed_divide_int_def sgn_if)
qed

section \<open>RingQueue is a bounded first-in first-out queue\<close>

lemma rq_inv_init [inv_intros]:
  "0 < n \<Longrightarrow> int (length (rq_buffer s)) = n \<Longrightarrow> rq_inv n (rq_init s)"
  by (simp add: rq_inv_def rq_init_def)

lemma rq_contents_init [simp]: "rq_contents n (rq_init s) = []"
  by (simp add: rq_contents_def rq_init_def)

lemma rq_length_contents: "rq_inv n s \<Longrightarrow> int (length (rq_contents n s)) = rq_numberOfEntries s"
  by (simp add: rq_contents_def rq_inv_def)

text \<open>Writing at the back slot and advancing, in terms of the array alone.\<close>

lemma queue_append_slots:
  assumes n: "0 < n" "int (length b) = n" and f: "0 \<le> f" "f < n" and k: "0 \<le> k" "k < n"
  shows "map (\<lambda>i. b[nat ((f + k) mod n) := v] ! nat ((f + int i) mod n)) [0..<nat (k + 1)]
       = map (\<lambda>i. b ! nat ((f + int i) mod n)) [0..<nat k] @ [v]"
proof -
  have len: "nat ((f + k) mod n) < length b" using n by (simp add: nat_less_iff)
  have old: "b[nat ((f + k) mod n) := v] ! nat ((f + int i) mod n) = b ! nat ((f + int i) mod n)"
    if "i < nat k" for i
    using mod_add_eq_iff_window [of k "int i" n f] that k n by (intro list_update_nth_other) auto
  have "[0..<nat (k + 1)] = [0..<nat k] @ [nat k]" using k by (simp add: nat_add_distrib)
  then show ?thesis using old len k by simp
qed

lemma queue_drop_slots:
  assumes "0 < n" "0 < k"
  shows "map (\<lambda>i. b ! nat (((f + 1) mod n + int i) mod n)) [0..<nat (k - 1)]
       = tl (map (\<lambda>i. b ! nat ((f + int i) mod n)) [0..<nat k])"
  using assms by (simp add: tl_map_upt nat_diff_distrib mod_simps algebra_simps)

lemmas rq_unfold = rq_inv_def rq_contents_def rq_push_def rq_pop_def Let_def

lemma rq_contents_push:
  assumes "rq_inv n s"
  shows "rq_inv n (rq_push n v s)"
    and "rq_contents n (rq_push n v s) =
      (if rq_numberOfEntries s = n then tl (rq_contents n s) else rq_contents n s) @ [v]"
proof -
  define f b k where "f = rq_frontIndex s" and "b = rq_buffer s" and "k = rq_numberOfEntries s"
  have s: "0 < n" "0 \<le> f" "f < n" "0 \<le> k" "k \<le> n" "int (length b) = n" "rq_backIndex s = (f + k) mod n"
    using assms by (simp_all add: rq_inv_def f_def b_def k_def)
  have inc: "rq_incrementIndex n f = (f + 1) mod n"
      "rq_incrementIndex n ((f + k) mod n) = ((f + k) mod n + 1) mod n"
    using s by (simp_all add: rq_incrementIndex_mod)
  show "rq_inv n (rq_push n v s)"
    using s inc by (auto simp: rq_unfold f_def b_def k_def mod_simps algebra_simps)
  show "rq_contents n (rq_push n v s) =
      (if rq_numberOfEntries s = n then tl (rq_contents n s) else rq_contents n s) @ [v]"
  proof (cases "k = n")
    case True
    have "((f + 1) mod n + (n - 1)) mod n = (f + k) mod n"
      using True by (simp add: mod_add_left_eq)
    then show ?thesis
      using queue_append_slots [of n b "(f + 1) mod n" "n - 1" v] queue_drop_slots [of n n b f] True s inc
      by (simp add: rq_unfold f_def b_def k_def)
  next
    case False
    then show ?thesis
      using queue_append_slots [of n b f k v] s inc by (simp add: rq_unfold f_def b_def k_def)
  qed
qed

lemma rq_contents_pop:
  assumes "rq_inv n s" "rq_contents n s \<noteq> []"
  shows "fst (rq_pop n s) = Some (hd (rq_contents n s))"
    and "rq_contents n (snd (rq_pop n s)) = tl (rq_contents n s)"
    and "rq_inv n (snd (rq_pop n s))"
proof -
  have s: "0 < n" "0 \<le> rq_frontIndex s" "rq_frontIndex s < n" "0 < rq_numberOfEntries s"
      "rq_numberOfEntries s \<le> n" "int (length (rq_buffer s)) = n"
      "rq_backIndex s = (rq_frontIndex s + rq_numberOfEntries s) mod n"
    using assms rq_length_contents [OF assms(1)] by (auto simp: rq_inv_def simp flip: length_greater_0_conv)
  show "fst (rq_pop n s) = Some (hd (rq_contents n s))"
    using s by (simp add: rq_pop_def rq_contents_def Let_def hd_map)
  show "rq_contents n (snd (rq_pop n s)) = tl (rq_contents n s)"
    using s queue_drop_slots [of n "rq_numberOfEntries s" "rq_buffer s" "rq_frontIndex s"]
    by (simp add: rq_pop_def rq_contents_def Let_def rq_incrementIndex_mod)
  have "((rq_frontIndex s + 1) mod n + (rq_numberOfEntries s - 1)) mod n = rq_backIndex s"
    using s by (simp add: mod_simps)
  then show "rq_inv n (snd (rq_pop n s))"
    using s by (auto simp: rq_inv_def rq_pop_def Let_def rq_incrementIndex_mod)
qed

lemma rq_pop_empty: "rq_inv n s \<Longrightarrow> rq_contents n s = [] \<Longrightarrow> snd (rq_pop n s) = s"
  using rq_length_contents [of n s] by (simp add: rq_pop_def)

interpretation rq: fifo_window "nat n" "rq_push n" "rq_view n" "rq_inv n" "rq_pop n" for n :: int
proof unfold_locales
  fix s :: "'a ring_queue" and v
  assume s: "rq_inv n s"
  have len: "int (length (rq_contents n s)) = rq_numberOfEntries s" "rq_numberOfEntries s \<le> n" "0 < n"
    using rq_length_contents [OF s] s by (simp_all add: rq_inv_def)
  show "rq_inv n (rq_push n v s)" using s by (rule rq_contents_push)
  show "length (rq_view n s) \<le> nat n" using len by (simp add: rq_view_def)
  have "take (nat n) (v # rev xs) = v # rev (if int (length xs) = n then tl xs else xs)"
    if "int (length xs) \<le> n" for xs :: "'a list"
    using that len(3) by (cases xs) (auto simp: take_Cons' nat_diff_distrib)
  then show "rq_view n (rq_push n v s) = take (nat n) (v # rq_view n s)"
    using rq_contents_push(2) [OF s] len by (simp add: rq_view_def)
  show "fst (rq_pop n s) = Some (last (rq_view n s))" if "rq_view n s \<noteq> []"
    using rq_contents_pop [OF s] that by (simp add: rq_view_def last_rev)
  show "rq_view n (snd (rq_pop n s)) = butlast (rq_view n s)"
    using rq_contents_pop [OF s] rq_pop_empty [OF s]
    by (cases "rq_contents n s = []") (simp_all add: rq_view_def butlast_rev)
  show "rq_inv n (snd (rq_pop n s))"
    using rq_contents_pop [OF s] rq_pop_empty [OF s] s by (cases "rq_contents n s = []") auto
qed

lemma rq_getEntry_contents:
  assumes "rq_inv n s" "0 \<le> i" "i < rq_numberOfEntries s"
  shows "rq_getEntry n s i = Some (rq_contents n s ! nat i)"
proof -
  have "rq_wrap n (rq_frontIndex s + i) = (rq_frontIndex s + i) mod n"
    using assms by (intro rq_wrap_mod) (auto simp: rq_inv_def)
  then show ?thesis using assms by (simp add: rq_getEntry_def rq_contents_def rq_inv_def)
qed

section \<open>RingQueueWithSum\<close>

text \<open>Forgetting the sum, the class behaves as \<open>RingQueue\<close>.\<close>

lemma rqs_truncate:
  "ring_queue.truncate (rqs_push n v s) = rq_push n v (ring_queue.truncate s)"
  "ring_queue.truncate (snd (rqs_pop n s)) = snd (rq_pop n (ring_queue.truncate s))"
  "fst (rqs_pop n s) = fst (rq_pop n (ring_queue.truncate s))"
  "rq_contents n (ring_queue.truncate s) = rq_contents n s"
  "rq_inv n (ring_queue.truncate s) = rq_inv n s"
  "rq_numberOfEntries (ring_queue.truncate s) = rq_numberOfEntries s"
  by (cases s; simp add: ring_queue.truncate_def rqs_push_def rq_push_def rqs_pop_def rq_pop_def
      rq_contents_def rq_inv_def Let_def)+

lemma rqs_contents_push:
  assumes "rq_inv n s"
  shows "rq_inv n (rqs_push n v s)"
    and "rq_contents n (rqs_push n v s) =
      (if rq_numberOfEntries s = n then tl (rq_contents n s) else rq_contents n s) @ [v]"
  using rq_contents_push [of n "ring_queue.truncate s" v] assms
  by (simp_all add: rqs_truncate(1) [symmetric] rqs_truncate(4-6))

lemma rq_hd_contents:
  "rq_inv n s \<Longrightarrow> rq_contents n s \<noteq> [] \<Longrightarrow> hd (rq_contents n s) = rq_buffer s ! nat (rq_frontIndex s)"
  by (simp add: rq_contents_def rq_inv_def hd_map)

lemma sum_list_tl: "xs \<noteq> [] \<Longrightarrow> sum_list (tl xs) = sum_list xs - (hd xs :: 'a::ab_group_add)"
  by (cases xs) simp_all

lemma rqs_inv_init [inv_intros]:
  "0 < n \<Longrightarrow> int (length (rq_buffer s)) = n \<Longrightarrow> rqs_inv n (rqs_init s)"
  by (simp add: rqs_inv_def rq_inv_def rqs_init_def rq_contents_def)

lemma rqs_contents_init [simp]: "rq_contents n (rqs_init s) = []"
  by (simp add: rq_contents_def rqs_init_def)

lemma rqs_inv_push [inv_intros]:
  assumes "rqs_inv n s" shows "rqs_inv n (rqs_push n v s)"
proof -
  have s: "rq_inv n s" and sum: "rqs_sum s = sum_list (rq_contents n s)"
    using assms by (simp_all add: rqs_inv_def)
  have ne: "rq_contents n s \<noteq> []" if "rq_numberOfEntries s = n"
    using that s rq_length_contents [OF s] by (auto simp: rq_inv_def)
  have "rqs_sum (rqs_push n v s) = sum_list (rq_contents n (rqs_push n v s))"
    using rqs_contents_push(2) [OF s, of v] sum ne rq_hd_contents [OF s]
    by (auto simp: rqs_push_def Let_def sum_list_tl)
  then show ?thesis using rqs_contents_push(1) [OF s] by (simp add: rqs_inv_def)
qed

lemma rqs_inv_pop [inv_intros]:
  assumes "rqs_inv n s" shows "rqs_inv n (snd (rqs_pop n s))"
proof (cases "rq_contents n s = []")
  case True
  then show ?thesis
    using assms rq_length_contents [of n s] by (simp add: rqs_inv_def rqs_pop_def)
next
  case False
  have s: "rq_inv n s" and sum: "rqs_sum s = sum_list (rq_contents n s)"
    using assms by (simp_all add: rqs_inv_def)
  have pos: "0 < rq_numberOfEntries s"
    using False rq_length_contents [OF s] by (auto simp flip: length_greater_0_conv)
  have "rq_contents n (snd (rqs_pop n s)) = tl (rq_contents n s)" "rq_inv n (snd (rqs_pop n s))"
    using rq_contents_pop [of n "ring_queue.truncate s"] s False
      rqs_truncate(4,5) [of n "snd (rqs_pop n s)"] by (simp_all add: rqs_truncate)
  then show ?thesis
    using sum pos rq_hd_contents [OF s False]
    by (simp add: rqs_inv_def sum_list_tl [OF False] rqs_pop_def Let_def)
qed

interpretation rqs: summed_window "nat n" "rqs_push n" "rq_view n" "rqs_inv n" rqs_getSum rqs_getAverage
  for n :: int
proof unfold_locales
  fix s :: "'a::real_vector ring_queue_sum" and v
  assume s: "rqs_inv n s"
  then have q: "rq_inv n s" and sum: "rqs_sum s = sum_list (rq_contents n s)"
    by (simp_all add: rqs_inv_def)
  have t: "rq_inv n (ring_queue.truncate s)" using q by (simp add: rqs_truncate)
  have v: "rq_view n (ring_queue.truncate s') = rq_view n s'" for s' :: "'a ring_queue_sum"
    by (simp add: rq_view_def rqs_truncate)
  show "rqs_inv n (rqs_push n v s)" using s by (rule rqs_inv_push)
  show "rq_view n (rqs_push n v s) = take (nat n) (v # rq_view n s)"
    using rq.view_push [OF t, of v] by (simp only: rqs_truncate(1) [symmetric] v)
  show "length (rq_view n s) \<le> nat n" using rq.view_bound [OF t] by (simp only: v)
  show "rqs_getSum s = sum_list (rq_view n s)"
    using sum by (simp add: rqs_getSum_def rq_view_def sum_list_rev)
  have "real (length (rq_view n s)) = of_int (rq_numberOfEntries s)"
    using rq_length_contents [OF q] by (metis length_rev of_int_of_nat_eq rq_view_def)
  moreover have "rq_view n s = [] \<longleftrightarrow> rq_numberOfEntries s = 0"
    using rq_length_contents [OF q] by (auto simp: rq_view_def)
  ultimately show "rqs_getAverage s =
      (if rq_view n s = [] then 0 else inverse (real (length (rq_view n s))) *\<^sub>R rqs_getSum s)"
    by (simp add: rqs_getAverage_def rqs_getSum_def)
qed

lemma rb_const_index:
  assumes "rb_inv n s" "0 \<le> i" "i < n"
  shows "rb_at_const n s i = rb_getEntry n s i"
proof -
  have "(rb_current s - i) mod n = (if i > rb_current s then n + rb_current s - i else rb_current s - i)"
    using assms mod_add_self1 [of n "rb_current s - i"]
    by (auto simp: rb_inv_def algebra_simps simp del: mod_add_self1)
  then show ?thesis
    using assms by (simp add: rb_at_const_def rb_getEntry_def rb_inv_def rb_slot_mod)
qed

text \<open>Each push moves the back index one slot on, whether or not the queue was full.\<close>

lemma rq_push_fields:
  assumes "rq_inv n s"
  shows "rq_backIndex (rq_push n v s) = (rq_backIndex s + 1) mod n"
    and "rq_buffer (rq_push n v s) = (rq_buffer s)[nat (rq_backIndex s) := v]"
  using assms by (simp_all add: rq_push_def Let_def rq_inv_def rq_incrementIndex_mod)

lemma rq_backIndex_fold:
  "rq_inv n s \<Longrightarrow> rq_backIndex (fold (rq_push n) vs s) = (rq_backIndex s + int (length vs)) mod n"
proof (induction vs arbitrary: s)
  case Nil
  then show ?case by (simp add: rq_inv_def)
next
  case (Cons v vs)
  then show ?case
    by (simp add: rq.invar_push rq_push_fields(1) mod_simps algebra_simps)
qed

lemma rq_back_after_push:
  assumes "rq_inv n s"
  shows "rq_back (rq_push n v s) = (if (rq_backIndex s + 1) mod n = 0 then None else Some v)"
proof -
  have s: "0 < n" "0 \<le> rq_backIndex s" "rq_backIndex s < int (length (rq_buffer s))" "int (length (rq_buffer s)) = n"
    using assms by (simp_all add: rq_inv_def)
  then have "(rq_backIndex s + 1) mod n \<noteq> 0 \<Longrightarrow> (rq_backIndex s + 1) mod n - 1 = rq_backIndex s"
    using mod_succ_minus_one [of n "rq_backIndex s"] by simp
  moreover have "nat (rq_backIndex s) < length (rq_buffer s)" using s by (simp add: nat_less_iff)
  ultimately show ?thesis
    using s by (cases "(rq_backIndex s + 1) mod n = 0") (simp_all add: rq_back_def rq_push_fields [OF assms] c_index_def)
qed

section \<open>Properties\<close>

text \<open>
  After any sequence of \<open>add\<close> calls on a freshly initialised \<open>RingBuffer\<close> of size \<open>n\<close>,
  \<open>getNumberOfEntries\<close> is the number of calls capped at \<open>n\<close>, and \<open>getEntry(i)\<close> as well as the
  \<open>const\<close> \<open>operator[]\<close>, which computes its index differently, return the \<open>i\<close>-th most recently
  added value, whatever the array held before.
\<close>

theorem rb_last_n:
  assumes "0 < n" and "int (length (rb_buffer s)) = n" and "i < length vs" and "int i < n"
  shows "rb_getNumberOfEntries (fold (rb_add n) vs (rb_init n s)) = min n (int (length vs)) \<and>
    rb_getEntry n (fold (rb_add n) vs (rb_init n s)) (int i) = Some (rev vs ! i) \<and>
    rb_at_const n (fold (rb_add n) vs (rb_init n s)) (int i) = Some (rev vs ! i)"
proof -
  let ?s = "fold (rb_add n) vs (rb_init n s)"
  have init: "rb_inv n (rb_init n s)" using assms by (intro rb_inv_init)
  have inv: "rb_inv n ?s" using init by (rule rb.invar_fold)
  have view: "rb_view n ?s = take (nat n) (rev vs)"
    using rb.view_fold [OF init, of vs] by simp
  have num: "rb_numberOfEntries ?s = min n (int (length vs))"
    using rb_length_view [OF inv] assms(1) by (simp add: view min_def split: if_splits) linarith+
  have get: "rb_getEntry n ?s (int i) = Some (rev vs ! i)"
    using rb_getEntry_view [OF inv, of "int i"] assms by (simp add: num view nat_less_iff)
  moreover have "rb_at_const n ?s (int i) = rb_getEntry n ?s (int i)"
    using inv assms(1,4) rb_const_index [of n ?s "int i"] by simp
  ultimately show ?thesis using num by (simp add: rb_getNumberOfEntries_def)
qed

theorem rb_last_n_witness:
  "rb_getEntry 2 (fold (rb_add 2) [7, 8, 9] (rb_init 2 \<lparr>rb_current = 5, rb_numberOfEntries = 1, rb_buffer = [0, 0 :: nat]\<rparr>)) 1 = Some 8"
  using rb_last_n [of 2 "\<lparr>rb_current = 5, rb_numberOfEntries = 1, rb_buffer = [0, 0 :: nat]\<rparr>" 1 "[7, 8, 9]"]
  by simp

text \<open>
  After any non-empty sequence of \<open>add\<close> calls on a freshly initialised \<open>RingBufferWithSum\<close>,
  \<open>getSum\<close>, \<open>getAverage\<close> and \<open>getMinimum\<close> are the sum, mean and minimum of the last \<open>n\<close> values
  added: the running sum never drifts from the window, and the scan over the array prefix sees
  exactly the values in the window.
\<close>

theorem rbs_statistics:
  assumes "0 < n" and "int (length (rb_buffer s)) = n" and "vs \<noteq> []"
  shows "let w = take (nat n) (rev vs); t = fold (rbs_add n) vs (rbs_init n s)
    in rbs_getSum t = sum_list w \<and> rbs_getAverage t = sum_list w / real (length w) \<and>
       rbs_getMinimum t = Min (set w)"
proof -
  let ?t = "fold (rbs_add n) vs (rbs_init n s)" and ?w = "take (nat n) (rev vs)"
  have init: "rbs_inv n (rbs_init n s)" using assms by (intro rbs_inv_init)
  have inv: "rbs_inv n ?t" using init by (rule rbs.invar_fold)
  have view: "rb_view n ?t = ?w" using rbs.view_fold [OF init, of vs] by simp
  have ne: "?w \<noteq> []" using assms by simp
  show ?thesis
    using rbs.total_view [OF inv] rbs.average_view [OF inv] rbs_getMinimum_view [OF inv] ne
    by (simp add: Let_def view divide_inverse)
qed

theorem rbs_statistics_witness:
  "rbs_getSum (fold (rbs_add 2) [4, 1, 3] (rbs_init 2 \<lparr>rb_current = 0, rb_numberOfEntries = 0, rb_buffer = [9, 9], rbs_sum = 0\<rparr>)) = 4"
  using rbs_statistics [of 2 "\<lparr>rb_current = 0, rb_numberOfEntries = 0, rb_buffer = [9, 9], rbs_sum = 0\<rparr>" "[4, 1, 3]"]
  by (simp add: Let_def)

text \<open>
  \<open>RingQueue\<close> is first-in first-out and drops the oldest values when it overflows: pushing
  \<open>vs\<close> onto an empty queue and then popping as many values as it holds returns the last \<open>n\<close>
  values of \<open>vs\<close>, oldest first.
\<close>

theorem rq_fifo:
  assumes "0 < n" and "int (length (rq_buffer s)) = n"
  shows "fst (drain (rq_pop n) (min (nat n) (length vs)) (fold (rq_push n) vs (rq_init s)))
       = map Some (drop (length vs - nat n) vs)"
  using rq.drain_pushed [OF rq_inv_init [OF assms], of vs] by (simp add: rq_view_def)

theorem rq_fifo_witness:
  "fst (drain (rq_pop 2) 2 (fold (rq_push 2) [5, 6, 7]
      (rq_init \<lparr>rq_frontIndex = 0, rq_backIndex = 1, rq_numberOfEntries = 2, rq_buffer = [0, 0 :: nat]\<rparr>))) = [Some 6, Some 7]"
  using rq_fifo [of 2 "\<lparr>rq_frontIndex = 0, rq_backIndex = 1, rq_numberOfEntries = 2, rq_buffer = [0, 0 :: nat]\<rparr>" "[5, 6, 7]"]
  by (simp add: numeral_2_eq_2 del: drain.simps)

text \<open>
  \<open>RingQueue::back\<close> reads \<open>buffer[backIndex-1]\<close> without wrapping. It returns the value pushed
  last exactly when the number of pushes since initialisation is not a multiple of \<open>n\<close>; on a
  multiple the index is \<open>-1\<close>, outside the array.
\<close>

theorem rq_back_characterised:
  assumes "0 < n" and "int (length (rq_buffer s)) = n" and "vs \<noteq> []"
  shows "rq_back (fold (rq_push n) vs (rq_init s)) =
    (if int (length vs) mod n = 0 then None else Some (last vs))"
proof -
  obtain us u where vs: "vs = us @ [u]" using assms(3) by (metis rev_exhaust)
  have init: "rq_inv n (rq_init s)" using assms by (intro rq_inv_init)
  let ?p = "fold (rq_push n) us (rq_init s)"
  have "rq_backIndex ?p = int (length us) mod n"
    using rq_backIndex_fold [OF init, of us] by (simp add: rq_init_def)
  then show ?thesis
    using rq_back_after_push [OF rq.invar_fold [OF init, of us], of u]
    by (simp add: vs mod_simps add.commute)
qed

theorem rq_back_characterised_witness:
  "rq_back (fold (rq_push 2) [5, 6] (rq_init \<lparr>rq_frontIndex = 0, rq_backIndex = 0, rq_numberOfEntries = 0, rq_buffer = [0, 0 :: nat]\<rparr>)) = None"
  using rq_back_characterised [of 2 "\<lparr>rq_frontIndex = 0, rq_backIndex = 0, rq_numberOfEntries = 0, rq_buffer = [0, 0 :: nat]\<rparr>" "[5, 6]"]
  by simp

end
