(* ===== verification/Dense_Matrix.thy ===== *)
theory Dense_Matrix
  imports Prelude
begin

text \<open>
  The matrix class of the filters, \<open>src/core/common/NMatrix.cpp\<close>: a block of \<open>M * N\<close> floats in row
  order that is read and written through \<open>a[i][j]\<close>, that is at offset \<open>i * N + j\<close>, without any check.
  Sizes and indices are natural numbers. The loops are folds over the index ranges, in the order of the
  code. The operations are shown to be the operations of matrix algebra on the entries, the 2 by 2
  inverse and the Cholesky factor to be what their names say, and operations on matrices of different
  sizes to return a zero matrix without a message.
\<close>

record nmatrix =
  nm_M :: nat
  nm_N :: nat
  nm_X :: "real list"

definition nm_at :: "nmatrix \<Rightarrow> nat \<Rightarrow> nat \<Rightarrow> real" where
  "nm_at a i j = nm_X a ! (i * nm_N a + j)"

definition nm_put :: "nat \<Rightarrow> nat \<Rightarrow> real \<Rightarrow> nmatrix \<Rightarrow> nmatrix" where
  "nm_put i j v a = a\<lparr>nm_X := (nm_X a)[i * nm_N a + j := v]\<rparr>"

text \<open>Two nested loops over \<open>i < m\<close> and \<open>j < n\<close> with one assignment in the body.\<close>

definition nm_loop :: "nat \<Rightarrow> nat \<Rightarrow> (nat \<Rightarrow> nat \<Rightarrow> nmatrix \<Rightarrow> nmatrix) \<Rightarrow> nmatrix \<Rightarrow> nmatrix" where
  "nm_loop m n body c = fold (\<lambda>(i, j). body i j) (List.product [0..<m] [0..<n]) c"

text \<open>The memory of the new matrix before it is cleared holds any values; they are all overwritten.\<close>

definition nm_new :: "nat \<Rightarrow> nat \<Rightarrow> bool \<Rightarrow> nmatrix" where
  "nm_new m n I =
     (let a = \<lparr>nm_M = m, nm_N = n, nm_X = replicate (m * n) undefined\<rparr>;
          a = nm_loop m n (\<lambda>i j. nm_put i j 0) a
      in if I \<and> m = n then nm_loop m n (\<lambda>i j. nm_put i j (if i = j then 1 else 0)) a else a)"

definition nm_plus :: "nmatrix \<Rightarrow> nmatrix \<Rightarrow> nmatrix" where
  "nm_plus a b =
     (let c = nm_new (nm_M a) (nm_N a) False
      in if nm_N a = nm_N b \<and> nm_M a = nm_M b
         then nm_loop (nm_M a) (nm_N a) (\<lambda>i j. nm_put i j (nm_at a i j + nm_at b i j)) c else c)"

definition nm_minus :: "nmatrix \<Rightarrow> nmatrix \<Rightarrow> nmatrix" where
  "nm_minus a b =
     (let c = nm_new (nm_M a) (nm_N a) False
      in if nm_N a = nm_N b \<and> nm_M a = nm_M b
         then nm_loop (nm_M a) (nm_N a) (\<lambda>i j. nm_put i j (nm_at a i j - nm_at b i j)) c else c)"

definition nm_times :: "nmatrix \<Rightarrow> nmatrix \<Rightarrow> nmatrix" where
  "nm_times a b =
     (let c = nm_new (nm_M a) (nm_N b) False
      in if nm_N a = nm_M b
         then nm_loop (nm_M a) (nm_N b)
           (\<lambda>i j. nm_put i j (fold (\<lambda>k temp. temp + nm_at a i k * nm_at b k j) [0..<nm_N a] 0)) c
         else c)"

definition nm_scale :: "real \<Rightarrow> nmatrix \<Rightarrow> nmatrix" where
  "nm_scale a b =
     nm_loop (nm_M b) (nm_N b) (\<lambda>i j. nm_put i j (nm_at b i j * a)) (nm_new (nm_M b) (nm_N b) False)"

definition nm_scale_right :: "nmatrix \<Rightarrow> real \<Rightarrow> nmatrix" where
  "nm_scale_right a b =
     nm_loop (nm_M a) (nm_N a) (\<lambda>i j. nm_put i j (nm_at a i j * b)) (nm_new (nm_M a) (nm_N a) False)"

definition nm_divide :: "nmatrix \<Rightarrow> real \<Rightarrow> nmatrix" where
  "nm_divide a b =
     nm_loop (nm_M a) (nm_N a) (\<lambda>i j. nm_put i j (nm_at a i j / b)) (nm_new (nm_M a) (nm_N a) False)"

definition transp :: "nmatrix \<Rightarrow> nmatrix" where
  "transp a =
     nm_loop (nm_M a) (nm_N a) (\<lambda>i j. nm_put j i (nm_at a i j)) (nm_new (nm_N a) (nm_M a) False)"

definition getRow :: "nmatrix \<Rightarrow> nat \<Rightarrow> nmatrix" where
  "getRow a index = fold (\<lambda>i. nm_put 0 i (nm_at a index i)) [0..<nm_N a] (nm_new 1 (nm_N a) False)"

definition getCol :: "nmatrix \<Rightarrow> nat \<Rightarrow> nmatrix" where
  "getCol a index = fold (\<lambda>i. nm_put i 0 (nm_at a i index)) [0..<nm_M a] (nm_new (nm_M a) 1 False)"

definition setRow :: "nat \<Rightarrow> nmatrix \<Rightarrow> nmatrix \<Rightarrow> nmatrix" where
  "setRow index b a = fold (\<lambda>i. nm_put index i (nm_at b 0 i)) [0..<nm_N a] a"

definition setCol :: "nat \<Rightarrow> nmatrix \<Rightarrow> nmatrix \<Rightarrow> nmatrix" where
  "setCol index b a = fold (\<lambda>i. nm_put i index (nm_at b i 0)) [0..<nm_M a] a"

definition Invert22 :: "nmatrix \<Rightarrow> nmatrix" where
  "Invert22 a =
     (let c = nm_new (nm_M a) (nm_N a) False;
          c = nm_put 0 0 (nm_at a 1 1) c;
          c = nm_put 0 1 (- nm_at a 0 1) c;
          c = nm_put 1 0 (- nm_at a 1 0) c;
          c = nm_put 1 1 (nm_at a 0 0) c;
          divisor = nm_at a 0 0 * nm_at a 1 1 - nm_at a 0 1 * nm_at a 1 0
      in nm_divide c divisor)"

definition vertcat :: "nmatrix \<Rightarrow> nmatrix \<Rightarrow> nmatrix" where
  "vertcat a b =
     (let c = nm_new (nm_M a + nm_M b) (nm_N a) False;
          c = fold (\<lambda>i. setRow i (getRow a i)) [0..<nm_M a] c
      in fold (\<lambda>i. setRow (i + nm_M a) (getRow b i)) [0..<nm_M b] c)"

definition horzcat :: "nmatrix \<Rightarrow> nmatrix \<Rightarrow> nmatrix" where
  "horzcat a b =
     (let c = nm_new (nm_M a) (nm_N a + nm_N b) False;
          c = fold (\<lambda>i. setCol i (getCol a i)) [0..<nm_N a] c
      in fold (\<lambda>i. setCol (i + nm_N a) (getCol b i)) [0..<nm_N b] c)"

definition diagcat :: "nmatrix \<Rightarrow> nmatrix \<Rightarrow> nmatrix" where
  "diagcat a b =
     (let c = nm_new (nm_M a + nm_M b) (nm_N a + nm_N b) False;
          c = nm_loop (nm_M a) (nm_N a) (\<lambda>i j. nm_put i j (nm_at a i j)) c
      in nm_loop (nm_M b) (nm_N b) (\<lambda>i j. nm_put (i + nm_M a) (j + nm_N a) (nm_at b i j)) c)"

text \<open>The two inner loops of \<open>cholesky\<close>, one entry left of the diagonal and the entry on it.\<close>

definition chol_entry :: "nmatrix \<Rightarrow> nat \<Rightarrow> nat \<Rightarrow> nmatrix \<Rightarrow> nmatrix" where
  "chol_entry P i j L =
     (let a = fold (\<lambda>k a. a - nm_at L i k * nm_at L j k) [0..<j] (nm_at P i j)
      in nm_put i j (a / nm_at L j j) L)"

definition chol_diag :: "nmatrix \<Rightarrow> nat \<Rightarrow> nmatrix \<Rightarrow> nmatrix" where
  "chol_diag P i L =
     (let a = fold (\<lambda>k a. a - (nm_at L i k)\<^sup>2) [0..<i] (nm_at P i i)
      in nm_put i i (sqrt a) L)"

definition cholesky :: "nmatrix \<Rightarrow> nmatrix" where
  "cholesky P =
     fold (\<lambda>i L. chol_diag P i (fold (chol_entry P i) [0..<i] L)) [0..<nm_M P]
       (nm_new (nm_M P) (nm_N P) False)"

definition convDble :: "nmatrix \<Rightarrow> real" where
  "convDble a = nm_at a 0 0"

section \<open>Entries\<close>

text \<open>The block of memory has the size the constructor asked for.\<close>

definition nm_wf :: "nmatrix \<Rightarrow> bool" where
  "nm_wf a \<longleftrightarrow> length (nm_X a) = nm_M a * nm_N a"

definition nm_in :: "nmatrix \<Rightarrow> nat \<Rightarrow> nat \<Rightarrow> bool" where
  "nm_in a i j \<longleftrightarrow> i < nm_M a \<and> j < nm_N a"

lemma offset_less: "i < m \<Longrightarrow> j < n \<Longrightarrow> i * n + j < m * (n :: nat)"
proof -
  assume "i < m" "j < n"
  then have "i * n + j < (i + 1) * n" by simp
  also have "\<dots> \<le> m * n" using \<open>i < m\<close> by (intro mult_le_mono1) simp
  finally show ?thesis .
qed

lemma offset_inj: "j < n \<Longrightarrow> j' < n \<Longrightarrow> i * n + j = i' * n + j' \<longleftrightarrow> i = i' \<and> j = (j' :: nat)"
  by (metis add.commute div_mult_self3 div_less add_0 mod_mult_self3 mod_less mult.commute
      gr_implies_not_zero)

lemma nm_put_dims [simp]:
  "nm_M (nm_put i j v a) = nm_M a" "nm_N (nm_put i j v a) = nm_N a" "nm_wf (nm_put i j v a) = nm_wf a"
  by (simp_all add: nm_put_def nm_wf_def)

lemma nm_at_put [simp]:
  assumes "nm_wf a" "nm_in a i j" "nm_in a r s"
  shows "nm_at (nm_put i j v a) r s = (if r = i \<and> s = j then v else nm_at a r s)"
  using assms offset_less [of i "nm_M a" j "nm_N a"] offset_inj [of j "nm_N a" s i r]
  by (auto simp: nm_at_def nm_put_def nm_wf_def nm_in_def nth_list_update)

lemma nm_eqI:
  assumes "nm_wf a" "nm_wf b" "nm_M a = nm_M b" "nm_N a = nm_N b"
    and at: "\<And>i j. i < nm_M a \<Longrightarrow> j < nm_N a \<Longrightarrow> nm_at a i j = nm_at b i j"
  shows "a = (b :: nmatrix)"
proof -
  have "nm_X a = nm_X b"
  proof (rule nth_equalityI)
    show "length (nm_X a) = length (nm_X b)" using assms by (simp add: nm_wf_def)
    fix k assume "k < length (nm_X a)"
    then have k: "k < nm_M a * nm_N a" using assms by (simp add: nm_wf_def)
    then have "0 < nm_N a" by (cases "nm_N a") auto
    then have "k div nm_N a < nm_M a" "k mod nm_N a < nm_N a"
      using k by (simp_all add: less_mult_imp_div_less)
    from at [OF this] show "nm_X a ! k = nm_X b ! k"
      using assms by (simp add: nm_at_def)
  qed
  then show ?thesis using assms by simp
qed

text \<open>A sequence of assignments to distinct entries.\<close>

definition writes :: "('p \<Rightarrow> nat \<times> nat) \<Rightarrow> ('p \<Rightarrow> real) \<Rightarrow> 'p list \<Rightarrow> nmatrix \<Rightarrow> nmatrix" where
  "writes pos f ps c = fold (\<lambda>p. nm_put (fst (pos p)) (snd (pos p)) (f p)) ps c"

lemma writes_dims [simp]:
  "nm_M (writes pos f ps c) = nm_M c" "nm_N (writes pos f ps c) = nm_N c"
  "nm_wf (writes pos f ps c) = nm_wf c"
  by (induction ps arbitrary: c) (simp_all add: writes_def)

lemma nm_in_writes [simp]: "nm_in (writes pos f ps c) = nm_in c"
  by (simp add: nm_in_def fun_eq_iff)

lemma nm_in_put [simp]: "nm_in (nm_put i j v c) = nm_in c"
  by (simp add: nm_in_def fun_eq_iff)

lemma writes_snoc: "writes pos f (ps @ [p]) c = nm_put (fst (pos p)) (snd (pos p)) (f p) (writes pos f ps c)"
  by (simp add: writes_def)

lemma writes_at:
  assumes "nm_wf c" "\<forall>p\<in>set ps. nm_in c (fst (pos p)) (snd (pos p))" "inj_on pos (set ps)" "nm_in c r s"
  shows "nm_at (writes pos f ps c) r s =
    (if (r, s) \<in> pos ` set ps then f (inv_into (set ps) pos (r, s)) else nm_at c r s)"
proof -
  have "(\<forall>p\<in>set ps. pos p = (r, s) \<longrightarrow> nm_at (writes pos f ps c) r s = f p) \<and>
    ((r, s) \<notin> pos ` set ps \<longrightarrow> nm_at (writes pos f ps c) r s = nm_at c r s)"
    using assms(2,3)
  proof (induction ps rule: rev_induct)
    case (snoc p ps)
    have "inj_on pos (set ps)" using snoc.prems by (auto simp: inj_on_def)
    with snoc have IH: "(\<forall>p\<in>set ps. pos p = (r, s) \<longrightarrow> nm_at (writes pos f ps c) r s = f p) \<and>
        ((r, s) \<notin> pos ` set ps \<longrightarrow> nm_at (writes pos f ps c) r s = nm_at c r s)" by simp
    have at: "nm_at (writes pos f (ps @ [p]) c) r s =
        (if pos p = (r, s) then f p else nm_at (writes pos f ps c) r s)"
      using assms(1,4) snoc.prems(1) by (auto simp: writes_snoc prod_eq_iff)
    show ?case using IH at snoc.prems(2) by (auto simp: inj_on_def)
  qed (simp add: writes_def)
  then show ?thesis using assms(3) by (auto simp: inv_into_f_f)
qed

lemma nm_loop_writes:
  "nm_loop m n (\<lambda>i j. nm_put (pr i j) (pc i j) (f i j)) c =
   writes (\<lambda>(i, j). (pr i j, pc i j)) (\<lambda>(i, j). f i j) (List.product [0..<m] [0..<n]) c"
  unfolding nm_loop_def writes_def by (rule fold_cong) auto

lemma nm_loop_dims [simp]:
  "nm_M (nm_loop m n (\<lambda>i j. nm_put (pr i j) (pc i j) (f i j)) c) = nm_M c"
  "nm_N (nm_loop m n (\<lambda>i j. nm_put (pr i j) (pc i j) (f i j)) c) = nm_N c"
  "nm_wf (nm_loop m n (\<lambda>i j. nm_put (pr i j) (pc i j) (f i j)) c) = nm_wf c"
  by (simp_all add: nm_loop_writes)

lemma nm_loop_at:
  assumes "nm_wf c" "\<And>i j. i < m \<Longrightarrow> j < n \<Longrightarrow> nm_in c (pr i j) (pc i j)"
    and "inj_on (\<lambda>(i, j). (pr i j, pc i j)) ({0..<m} \<times> {0..<n})" "i < m" "j < n"
  shows "nm_at (nm_loop m n (\<lambda>i j. nm_put (pr i j) (pc i j) (f i j)) c) (pr i j) (pc i j) = f i j"
proof -
  let ?ps = "List.product [0..<m] [0..<n]"
  let ?pos = "\<lambda>(i, j). (pr i j, pc i j)"
  have set: "set ?ps = {0..<m} \<times> {0..<n}" by auto
  have "inv_into (set ?ps) ?pos (?pos (i, j)) = (i, j)"
    by (rule inv_into_f_f) (use assms set in auto)
  moreover have "(pr i j, pc i j) \<in> ?pos ` set ?ps" using assms(4,5) set by force
  moreover have "nm_at (writes ?pos (\<lambda>(i, j). f i j) ?ps c) (pr i j) (pc i j) =
      (if (pr i j, pc i j) \<in> ?pos ` set ?ps then (\<lambda>(i, j). f i j) (inv_into (set ?ps) ?pos (pr i j, pc i j))
       else nm_at c (pr i j) (pc i j))"
    by (rule writes_at) (use assms set in auto)
  ultimately show ?thesis by (simp add: nm_loop_writes)
qed

lemma nm_fill_at:
  assumes "nm_wf c" "m \<le> nm_M c" "n \<le> nm_N c" "nm_in c i j"
  shows "nm_at (nm_loop m n (\<lambda>i j. nm_put i j (f i j)) c) i j = (if i < m \<and> j < n then f i j else nm_at c i j)"
proof (cases "i < m \<and> j < n")
  case True
  then show ?thesis using assms nm_loop_at [of c m n "\<lambda>i j. i" "\<lambda>i j. j" i j f]
    by (auto simp: nm_in_def inj_on_def)
next
  case False
  then show ?thesis using assms writes_at [of c "List.product [0..<m] [0..<n]" "\<lambda>(i, j). (i, j)" i j "\<lambda>(i, j). f i j"]
    by (auto simp: nm_loop_writes nm_in_def inj_on_def)
qed

lemma nm_new_dims [simp]: "nm_M (nm_new m n I) = m" "nm_N (nm_new m n I) = n" "nm_wf (nm_new m n I)"
  by (simp_all add: nm_new_def Let_def nm_wf_def [of "nmatrix.make _ _ _"] nmatrix.defs) (simp_all add: nm_wf_def)

lemma nm_at_new [simp]:
  assumes "i < m" "j < n"
  shows "nm_at (nm_new m n I) i j = (if I \<and> m = n \<and> i = j then 1 else 0)"
proof -
  define raw where "raw = \<lparr>nm_M = m, nm_N = n, nm_X = replicate (m * n) (undefined :: real)\<rparr>"
  have raw: "nm_wf raw" "nm_M raw = m" "nm_N raw = n" by (simp_all add: raw_def nm_wf_def)
  let ?zero = "nm_loop m n (\<lambda>i j. nm_put i j 0) raw"
  let ?one = "nm_loop m n (\<lambda>i j. nm_put i j (if i = j then 1 else 0)) ?zero"
  have new: "nm_new m n I = (if I \<and> m = n then ?one else ?zero)"
    by (simp only: nm_new_def Let_def raw_def)
  have zero: "nm_at ?zero i j = 0" and one: "nm_at ?one i j = (if i = j then 1 else 0)"
    using assms raw by (simp_all add: nm_fill_at nm_in_def)
  show ?thesis
  proof (cases "I \<and> m = n")
    case True
    have "nm_new m n I = ?one" by (rule trans [OF new if_P [OF True]])
    then show ?thesis using one True by simp
  next
    case False
    have "nm_new m n I = ?zero" by (rule trans [OF new if_not_P [OF False]])
    then show ?thesis using zero False by auto
  qed
qed

section \<open>The operations as matrix algebra\<close>

lemma fold_add_sum: "fold (\<lambda>k t. t + f k) [0..<n] x = x + (\<Sum>k<n. f k :: real)"
  by (induction n) simp_all

lemma sum_upto_add: "(\<Sum>k<m + n. f k) = (\<Sum>k<m. f k) + (\<Sum>k<n. f (m + k) :: real)" for m n :: nat
  by (induction n) simp_all

lemma fold_sub_sum: "fold (\<lambda>k t. t - f k) [0..<n] x = x - (\<Sum>k<n. f k :: real)"
  by (induction n) simp_all

lemma nm_plus_dims [simp]: "nm_M (nm_plus a b) = nm_M a" "nm_N (nm_plus a b) = nm_N a" "nm_wf (nm_plus a b)"
  by (simp_all add: nm_plus_def Let_def)

lemma nm_minus_dims [simp]: "nm_M (nm_minus a b) = nm_M a" "nm_N (nm_minus a b) = nm_N a" "nm_wf (nm_minus a b)"
  by (simp_all add: nm_minus_def Let_def)

lemma nm_times_dims [simp]: "nm_M (nm_times a b) = nm_M a" "nm_N (nm_times a b) = nm_N b" "nm_wf (nm_times a b)"
  by (simp_all add: nm_times_def Let_def)

lemma nm_divide_dims [simp]: "nm_M (nm_divide a x) = nm_M a" "nm_N (nm_divide a x) = nm_N a" "nm_wf (nm_divide a x)"
  by (simp_all add: nm_divide_def)

lemma nm_scale_dims [simp]: "nm_M (nm_scale x a) = nm_M a" "nm_N (nm_scale x a) = nm_N a" "nm_wf (nm_scale x a)"
  by (simp_all add: nm_scale_def)

lemma transp_dims [simp]: "nm_M (transp a) = nm_N a" "nm_N (transp a) = nm_M a" "nm_wf (transp a)"
  by (simp_all add: transp_def)

named_theorems entry \<open>entries of the result of an operation\<close>

lemma nm_plus_at [entry]:
  "nm_M b = nm_M a \<Longrightarrow> nm_N b = nm_N a \<Longrightarrow> i < nm_M a \<Longrightarrow> j < nm_N a \<Longrightarrow>
   nm_at (nm_plus a b) i j = nm_at a i j + nm_at b i j"
  by (simp add: nm_plus_def Let_def nm_fill_at nm_in_def)

lemma nm_minus_at [entry]:
  "nm_M b = nm_M a \<Longrightarrow> nm_N b = nm_N a \<Longrightarrow> i < nm_M a \<Longrightarrow> j < nm_N a \<Longrightarrow>
   nm_at (nm_minus a b) i j = nm_at a i j - nm_at b i j"
  by (simp add: nm_minus_def Let_def nm_fill_at nm_in_def)

lemma nm_times_at [entry]:
  "nm_N a = nm_M b \<Longrightarrow> i < nm_M a \<Longrightarrow> j < nm_N b \<Longrightarrow>
   nm_at (nm_times a b) i j = (\<Sum>k<nm_M b. nm_at a i k * nm_at b k j)"
  by (simp add: nm_times_def Let_def nm_fill_at nm_in_def fold_add_sum)

lemma nm_divide_at [entry]: "i < nm_M a \<Longrightarrow> j < nm_N a \<Longrightarrow> nm_at (nm_divide a x) i j = nm_at a i j / x"
  by (simp add: nm_divide_def nm_fill_at nm_in_def)

lemma nm_scale_at [entry]: "i < nm_M a \<Longrightarrow> j < nm_N a \<Longrightarrow> nm_at (nm_scale x a) i j = nm_at a i j * x"
  by (simp add: nm_scale_def nm_fill_at nm_in_def)

lemma nm_scale_right_eq: "nm_scale_right a x = nm_scale x a"
  by (simp add: nm_scale_def nm_scale_right_def)

lemma transp_at [entry]: "i < nm_N a \<Longrightarrow> j < nm_M a \<Longrightarrow> nm_at (transp a) i j = nm_at a j i"
  using nm_loop_at [of "nm_new (nm_N a) (nm_M a) False" "nm_M a" "nm_N a" "\<lambda>i j. j" "\<lambda>i j. i" j i "nm_at a"]
  by (auto simp: transp_def nm_in_def inj_on_def)

lemma nm_times_assoc:
  assumes "nm_N a = nm_M b" "nm_N b = nm_M c"
  shows "nm_times (nm_times a b) c = nm_times a (nm_times b c)"
proof (rule nm_eqI)
  fix i j assume "i < nm_M (nm_times (nm_times a b) c)" "j < nm_N (nm_times (nm_times a b) c)"
  then have "i < nm_M a" "j < nm_N c" by simp_all
  moreover have "(\<Sum>k<nm_M c. (\<Sum>l<nm_M b. nm_at a i l * nm_at b l k) * nm_at c k j) =
      (\<Sum>l<nm_M b. nm_at a i l * (\<Sum>k<nm_M c. nm_at b l k * nm_at c k j))"
    by (simp add: sum_distrib_left sum_distrib_right mult.assoc) (rule sum.swap)
  ultimately show "nm_at (nm_times (nm_times a b) c) i j = nm_at (nm_times a (nm_times b c)) i j"
    using assms by (simp add: entry)
qed simp_all

lemma transp_times:
  assumes "nm_N a = nm_M b"
  shows "transp (nm_times a b) = nm_times (transp b) (transp a)"
  by (rule nm_eqI) (use assms in \<open>simp_all add: entry mult.commute\<close>)

lemma nm_times_plus:
  assumes "nm_N a = nm_M b" "nm_M c = nm_M b" "nm_N c = nm_N b"
  shows "nm_times a (nm_plus b c) = nm_plus (nm_times a b) (nm_times a c)"
  by (rule nm_eqI) (use assms in \<open>simp_all add: entry algebra_simps sum.distrib\<close>)

lemma nm_times_identity:
  assumes "nm_wf a"
  shows "nm_times (nm_new (nm_M a) (nm_M a) True) a = a"
  by (rule nm_eqI) (use assms in \<open>simp_all add: entry sum.delta if_distrib [where f = "\<lambda>x. x * _"] cong: if_cong\<close>)

lemma transp_transp: "nm_wf a \<Longrightarrow> transp (transp a) = a"
  by (rule nm_eqI) (simp_all add: entry)

text \<open>
  The operators on matrices of fitting sizes are those of matrix algebra: multiplication is
  associative, distributes over addition, has the identity built by the constructor, and transposition
  reverses products. When the sizes do not fit, the operators return a zero matrix.
\<close>

theorem nmatrix_algebra:
  assumes "nm_wf a" "nm_wf b" "nm_N a = nm_M b" "nm_N b = nm_M c" "nm_M d = nm_M b" "nm_N d = nm_N b"
  shows "nm_times (nm_times a b) c = nm_times a (nm_times b c)"
    and "nm_times a (nm_plus b d) = nm_plus (nm_times a b) (nm_times a d)"
    and "nm_times (nm_new (nm_M a) (nm_M a) True) a = a"
    and "transp (nm_times a b) = nm_times (transp b) (transp a)" "transp (transp a) = a"
    and "nm_minus (nm_plus b d) d = b"
    and "nm_M e \<noteq> nm_N a \<Longrightarrow> nm_times a e = nm_new (nm_M a) (nm_N e) False"
proof -
  show "nm_minus (nm_plus b d) d = b" by (rule nm_eqI) (use assms in \<open>simp_all add: entry\<close>)
qed (use assms in \<open>simp_all add: nm_times_assoc nm_times_plus nm_times_identity transp_times transp_transp
  nm_times_def [of a e] Let_def\<close>)

theorem nmatrix_algebra_witness:
  "nm_times (nm_new 1 1 True) (nm_new 1 2 False) = nm_new 1 2 False"
  using nmatrix_algebra(3) [of "nm_new 1 2 False" "nm_new 2 1 False" "nm_new 1 1 True" "nm_new 2 1 False"] by simp

section \<open>Rows, columns and concatenation\<close>

lemma fold_put_writes:
  "fold (\<lambda>i. nm_put (pr i) (pc i) (f i)) ps c = writes (\<lambda>i. (pr i, pc i)) f ps c"
  by (simp add: writes_def)

lemma fold_put_at:
  assumes "nm_wf c" "\<And>p. p < n \<Longrightarrow> nm_in c (pr p) (pc p)" "inj_on (\<lambda>i. (pr i, pc i)) {0..<n}" "p < n"
  shows "nm_at (fold (\<lambda>i. nm_put (pr i) (pc i) (f i)) [0..<n] c) (pr p) (pc p) = f p"
proof -
  have "inv_into {0..<n} (\<lambda>i. (pr i, pc i)) (pr p, pc p) = p"
    using inv_into_f_f [OF assms(3), of p] assms(4) by simp
  then show ?thesis using assms writes_at [of c "[0..<n]" "\<lambda>i. (pr i, pc i)" "pr p" "pc p" f]
    by (auto simp: fold_put_writes)
qed

lemma fold_put_other:
  assumes "nm_wf c" "\<And>p. p < n \<Longrightarrow> nm_in c (pr p) (pc p)" "inj_on (\<lambda>i. (pr i, pc i)) {0..<n}"
    and "nm_in c r s" "\<And>p. p < n \<Longrightarrow> (pr p, pc p) \<noteq> (r, s)"
  shows "nm_at (fold (\<lambda>i. nm_put (pr i) (pc i) (f i)) [0..<n] c) r s = nm_at c r s"
  using assms writes_at [of c "[0..<n]" "\<lambda>i. (pr i, pc i)" r s f] by (fastforce simp: fold_put_writes)

lemma getRow_dims [simp]: "nm_M (getRow a r) = 1" "nm_N (getRow a r) = nm_N a" "nm_wf (getRow a r)"
  by (simp_all add: getRow_def fold_put_writes)

lemma getCol_dims [simp]: "nm_M (getCol a r) = nm_M a" "nm_N (getCol a r) = 1" "nm_wf (getCol a r)"
  by (simp_all add: getCol_def fold_put_writes)

lemma setRow_dims [simp]: "nm_M (setRow r b a) = nm_M a" "nm_N (setRow r b a) = nm_N a" "nm_wf (setRow r b a) = nm_wf a"
  by (simp_all add: setRow_def fold_put_writes)

lemma setCol_dims [simp]: "nm_M (setCol r b a) = nm_M a" "nm_N (setCol r b a) = nm_N a" "nm_wf (setCol r b a) = nm_wf a"
  by (simp_all add: setCol_def fold_put_writes)

lemma getRow_at [entry]: "j < nm_N a \<Longrightarrow> nm_at (getRow a r) 0 j = nm_at a r j"
  using fold_put_at [of "nm_new 1 (nm_N a) False" "nm_N a" "\<lambda>i. 0" "\<lambda>i. i" j]
  by (simp add: getRow_def nm_in_def inj_on_def)

lemma getCol_at [entry]: "i < nm_M a \<Longrightarrow> nm_at (getCol a c) i 0 = nm_at a i c"
  using fold_put_at [of "nm_new (nm_M a) 1 False" "nm_M a" "\<lambda>i. i" "\<lambda>i. 0" i]
  by (simp add: getCol_def nm_in_def inj_on_def)

lemma setRow_at [entry]:
  assumes "nm_wf a" "r < nm_M a" "i < nm_M a" "j < nm_N a"
  shows "nm_at (setRow r b a) i j = (if i = r then nm_at b 0 j else nm_at a i j)"
  using assms fold_put_at [of a "nm_N a" "\<lambda>i. r" "\<lambda>i. i" j "nm_at b 0"]
    fold_put_other [of a "nm_N a" "\<lambda>i. r" "\<lambda>i. i" i j "nm_at b 0"]
  by (auto simp: setRow_def nm_in_def inj_on_def)

lemma setCol_at [entry]:
  assumes "nm_wf a" "c < nm_N a" "i < nm_M a" "j < nm_N a"
  shows "nm_at (setCol c b a) i j = (if j = c then nm_at b i 0 else nm_at a i j)"
  using assms fold_put_at [of a "nm_M a" "\<lambda>i. i" "\<lambda>i. c" i "\<lambda>i. nm_at b i 0"]
    fold_put_other [of a "nm_M a" "\<lambda>i. i" "\<lambda>i. c" i j "\<lambda>i. nm_at b i 0"]
  by (auto simp: setCol_def nm_in_def inj_on_def)

lemma fold_setRow:
  assumes "nm_wf c" "n + k \<le> nm_M c"
  shows "nm_M (fold (\<lambda>i. setRow (i + k) (f i)) [0..<n] c) = nm_M c"
    and "nm_N (fold (\<lambda>i. setRow (i + k) (f i)) [0..<n] c) = nm_N c"
    and "nm_wf (fold (\<lambda>i. setRow (i + k) (f i)) [0..<n] c)"
    and "i < nm_M c \<Longrightarrow> j < nm_N c \<Longrightarrow> nm_at (fold (\<lambda>i. setRow (i + k) (f i)) [0..<n] c) i j =
      (if k \<le> i \<and> i < k + n then nm_at (f (i - k)) 0 j else nm_at c i j)"
  using assms by (induction n) (auto simp: entry less_Suc_eq)

lemma fold_setCol:
  assumes "nm_wf c" "n + k \<le> nm_N c"
  shows "nm_M (fold (\<lambda>i. setCol (i + k) (f i)) [0..<n] c) = nm_M c"
    and "nm_N (fold (\<lambda>i. setCol (i + k) (f i)) [0..<n] c) = nm_N c"
    and "nm_wf (fold (\<lambda>i. setCol (i + k) (f i)) [0..<n] c)"
    and "i < nm_M c \<Longrightarrow> j < nm_N c \<Longrightarrow> nm_at (fold (\<lambda>i. setCol (i + k) (f i)) [0..<n] c) i j =
      (if k \<le> j \<and> j < k + n then nm_at (f (j - k)) i 0 else nm_at c i j)"
  using assms by (induction n) (auto simp: entry less_Suc_eq)

lemma vertcat_dims [simp]: "nm_M (vertcat a b) = nm_M a + nm_M b" "nm_N (vertcat a b) = nm_N a" "nm_wf (vertcat a b)"
  using fold_setRow [of _ _ 0] fold_setRow by (simp_all add: vertcat_def Let_def)

lemma vertcat_at [entry]:
  "nm_N b = nm_N a \<Longrightarrow> i < nm_M a + nm_M b \<Longrightarrow> j < nm_N a \<Longrightarrow>
   nm_at (vertcat a b) i j = (if i < nm_M a then nm_at a i j else nm_at b (i - nm_M a) j)"
  using fold_setRow [of _ _ 0] fold_setRow by (simp add: vertcat_def Let_def entry)

lemma horzcat_dims [simp]: "nm_M (horzcat a b) = nm_M a" "nm_N (horzcat a b) = nm_N a + nm_N b" "nm_wf (horzcat a b)"
  using fold_setCol [of _ _ 0] fold_setCol by (simp_all add: horzcat_def Let_def)

lemma horzcat_at [entry]:
  "nm_M b = nm_M a \<Longrightarrow> i < nm_M a \<Longrightarrow> j < nm_N a + nm_N b \<Longrightarrow>
   nm_at (horzcat a b) i j = (if j < nm_N a then nm_at a i j else nm_at b i (j - nm_N a))"
  using fold_setCol [of _ _ 0] fold_setCol by (simp add: horzcat_def Let_def entry)

text \<open>
  Product of block matrices: \<open>[a b] * [c; d] = a * c + b * d\<close>.
\<close>

lemma block_product:
  assumes "nm_M b = nm_M a" "nm_N c = nm_N d" "nm_N a = nm_M c" "nm_N b = nm_M d"
  shows "nm_times (horzcat a b) (vertcat c d) = nm_plus (nm_times a c) (nm_times b d)"
proof (rule nm_eqI)
  fix i j assume "i < nm_M (nm_times (horzcat a b) (vertcat c d))" "j < nm_N (nm_times (horzcat a b) (vertcat c d))"
  then have ij: "i < nm_M a" "j < nm_N c" by simp_all
  let ?f = "\<lambda>k. nm_at (horzcat a b) i k * nm_at (vertcat c d) k j"
  have "(\<Sum>k<nm_M c + nm_M d. ?f k) = (\<Sum>k<nm_M c. ?f k) + (\<Sum>k<nm_M d. ?f (nm_M c + k))"
    by (rule sum_upto_add)
  also have "\<dots> = (\<Sum>k<nm_M c. nm_at a i k * nm_at c k j) + (\<Sum>k<nm_M d. nm_at b i k * nm_at d k j)"
    using assms ij by (intro arg_cong2 [where f = "(+)"] sum.cong) (simp_all add: entry)
  finally show "nm_at (nm_times (horzcat a b) (vertcat c d)) i j = nm_at (nm_plus (nm_times a c) (nm_times b d)) i j"
    using assms ij by (simp add: entry)
qed (use assms in simp_all)

section \<open>Inverse of a 2 by 2 matrix and Cholesky factor\<close>

lemma sum_two: "(\<Sum>k<2. f k) = f 0 + f (Suc 0 :: nat)" for f :: "nat \<Rightarrow> real"
  by (simp add: eval_nat_numeral)

text \<open>The result is the inverse on both sides whenever the determinant is not zero.\<close>

theorem Invert22_inverse:
  assumes "nm_wf a" "nm_M a = 2" "nm_N a = 2"
    and det: "nm_at a 0 0 * nm_at a 1 1 - nm_at a 0 1 * nm_at a 1 0 \<noteq> 0"
  shows "nm_times a (Invert22 a) = nm_new 2 2 True" "nm_times (Invert22 a) a = nm_new 2 2 True"
proof -
  let ?d = "nm_at a 0 0 * nm_at a 1 1 - nm_at a 0 1 * nm_at a 1 0"
  have dims: "nm_M (Invert22 a) = 2" "nm_N (Invert22 a) = 2" "nm_wf (Invert22 a)"
    using assms by (simp_all add: Invert22_def Let_def)
  have at: "nm_at (Invert22 a) 0 0 = nm_at a 1 1 / ?d" "nm_at (Invert22 a) 0 (Suc 0) = - nm_at a 0 1 / ?d"
    "nm_at (Invert22 a) (Suc 0) 0 = - nm_at a 1 0 / ?d" "nm_at (Invert22 a) (Suc 0) (Suc 0) = nm_at a 0 0 / ?d"
    using assms by (simp_all add: Invert22_def Let_def entry nm_in_def)
  have cases2: "i = 0 \<or> i = Suc 0" if "i < 2" for i :: nat using that by auto
  show "nm_times a (Invert22 a) = nm_new 2 2 True"
  proof (rule nm_eqI)
    fix i j assume "i < nm_M (nm_times a (Invert22 a))" "j < nm_N (nm_times a (Invert22 a))"
    then have "i < 2" "j < 2" using assms dims by simp_all
    then show "nm_at (nm_times a (Invert22 a)) i j = nm_at (nm_new 2 2 True) i j"
      using assms dims det cases2 [of i] cases2 [of j]
      by (auto simp: entry sum_two at diff_divide_distrib [symmetric] add_divide_distrib [symmetric] mult.commute)
  qed (use assms dims in simp_all)
  show "nm_times (Invert22 a) a = nm_new 2 2 True"
  proof (rule nm_eqI)
    fix i j assume "i < nm_M (nm_times (Invert22 a) a)" "j < nm_N (nm_times (Invert22 a) a)"
    then have "i < 2" "j < 2" using assms dims by simp_all
    then show "nm_at (nm_times (Invert22 a) a) i j = nm_at (nm_new 2 2 True) i j"
      using assms dims det cases2 [of i] cases2 [of j]
      by (auto simp: entry sum_two at diff_divide_distrib [symmetric] add_divide_distrib [symmetric] mult.commute)
  qed (use assms dims in simp_all)
qed

theorem Invert22_inverse_witness:
  "nm_times (nm_new 2 2 True) (Invert22 (nm_new 2 2 True)) = nm_new 2 2 True"
  using Invert22_inverse(1) [of "nm_new 2 2 True"] by simp

text \<open>State of the factor while row \<open>i\<close> is computed up to column \<open>j\<close>: finished entries agree with \<open>G\<close>.\<close>

definition chol_inv :: "nmatrix \<Rightarrow> nat \<Rightarrow> nat \<Rightarrow> nmatrix \<Rightarrow> bool" where
  "chol_inv G i j L \<longleftrightarrow> nm_wf L \<and> nm_M L = nm_M G \<and> nm_N L = nm_M G \<and>
     (\<forall>r<nm_M G. \<forall>s<nm_M G. nm_at L r s = (if r < i \<or> r = i \<and> s < j then nm_at G r s else 0))"

definition lower_pos :: "nmatrix \<Rightarrow> bool" where
  "lower_pos G \<longleftrightarrow> nm_wf G \<and> nm_N G = nm_M G \<and> (\<forall>i<nm_M G. 0 < nm_at G i i) \<and>
     (\<forall>i<nm_M G. \<forall>j<nm_M G. i < j \<longrightarrow> nm_at G i j = 0)"

lemma gram_at:
  assumes "lower_pos G" "j \<le> i" "i < nm_M G"
  shows "nm_at (nm_times G (transp G)) i j = (\<Sum>k<j. nm_at G i k * nm_at G j k) + nm_at G i j * nm_at G j j"
proof -
  have "nm_at (nm_times G (transp G)) i j = (\<Sum>k<nm_M G. nm_at G i k * nm_at G j k)"
    using assms by (simp add: entry lower_pos_def)
  also have "\<dots> = (\<Sum>k<Suc j. nm_at G i k * nm_at G j k)"
    using assms by (intro sum.mono_neutral_right) (auto simp: lower_pos_def)
  finally show ?thesis by simp
qed

lemma chol_entry_step:
  assumes "lower_pos G" "i < nm_M G" "j < i" "chol_inv G i j L"
  shows "chol_inv G i (Suc j) (chol_entry (nm_times G (transp G)) i j L)"
proof -
  have "(\<Sum>k<j. nm_at L i k * nm_at L j k) = (\<Sum>k<j. nm_at G i k * nm_at G j k)" "nm_at L j j = nm_at G j j"
    using assms by (auto simp: chol_inv_def intro!: sum.cong)
  moreover have "0 < nm_at G j j" using assms by (simp add: lower_pos_def)
  ultimately have "chol_entry (nm_times G (transp G)) i j L = nm_put i j (nm_at G i j) L"
    using assms gram_at [of G j i] by (simp add: chol_entry_def fold_sub_sum)
  then show ?thesis using assms by (auto simp: chol_inv_def nm_in_def less_Suc_eq)
qed

lemma chol_diag_step:
  assumes "lower_pos G" "i < nm_M G" "chol_inv G i i L"
  shows "chol_inv G (Suc i) 0 (chol_diag (nm_times G (transp G)) i L)"
proof -
  have "(\<Sum>k<i. (nm_at L i k)\<^sup>2) = (\<Sum>k<i. nm_at G i k * nm_at G i k)"
    using assms by (auto simp: chol_inv_def power2_eq_square intro!: sum.cong)
  moreover have "0 < nm_at G i i" using assms by (simp add: lower_pos_def)
  ultimately have "chol_diag (nm_times G (transp G)) i L = nm_put i i (nm_at G i i) L"
    using assms gram_at [of G i i] by (simp add: chol_diag_def fold_sub_sum real_sqrt_mult_self)
  then show ?thesis using assms by (auto simp: chol_inv_def nm_in_def less_Suc_eq lower_pos_def)
qed

lemma chol_row:
  assumes "lower_pos G" "i < nm_M G" "chol_inv G i 0 L" "j \<le> i"
  shows "chol_inv G i j (fold (chol_entry (nm_times G (transp G)) i) [0..<j] L)"
  using assms(4) by (induction j) (use assms in \<open>simp_all add: chol_entry_step\<close>)

text \<open>
  \<open>cholesky\<close> finds the factor of every matrix that has one: if \<open>P = G * transp G\<close> for a lower triangular
  \<open>G\<close> with a positive diagonal, the result is \<open>G\<close>. The square roots are then taken of positive numbers
  and no division is by zero.
\<close>

theorem cholesky_factor:
  assumes "lower_pos G"
  shows "cholesky (nm_times G (transp G)) = G"
proof -
  let ?P = "nm_times G (transp G)"
  have "chol_inv G i 0 (fold (\<lambda>i L. chol_diag ?P i (fold (chol_entry ?P i) [0..<i] L)) [0..<i]
      (nm_new (nm_M ?P) (nm_N ?P) False))" if "i \<le> nm_M G" for i
    using that
  proof (induction i)
    case 0
    then show ?case using assms by (simp add: chol_inv_def)
  next
    case (Suc i)
    then show ?case using assms by (simp add: chol_diag_step chol_row)
  qed
  from this [of "nm_M G"] have "chol_inv G (nm_M G) 0 (cholesky ?P)" by (simp add: cholesky_def)
  then show ?thesis using assms by (intro nm_eqI) (simp_all add: chol_inv_def lower_pos_def)
qed

theorem cholesky_factor_witness:
  "cholesky (nm_times (nm_new 3 3 True) (transp (nm_new 3 3 True))) = nm_new 3 3 True"
  using cholesky_factor [of "nm_new 3 3 True"] by (simp add: lower_pos_def)

end
