(* ===== verification/Cmath.thy ===== *)
theory Cmath
  imports Prelude
begin

text \<open>
  The functions of the C mathematical library that the geometry code calls, over the reals, and the
  scalar helpers of \<open>src/core/math/Common.h\<close> and of the beginning of \<open>src/core/math/Geometry.cpp\<close>
  (clamping, signs, positive remainders, powers of two, normalisation of angles).

  \<open>sinf\<close>, \<open>cosf\<close>, \<open>sqrtf\<close>, \<open>atan\<close>, \<open>asinf\<close> and \<open>acosf\<close> are the real functions of the same name.
  \<open>atan2f\<close> and \<open>fmod\<close> are defined here by cases as the C standard describes them; signed zeros do
  not exist over the reals.
\<close>

section \<open>The C library\<close>

definition c_trunc :: "real \<Rightarrow> int" where
  "c_trunc r = (if 0 \<le> r then \<lfloor>r\<rfloor> else \<lceil>r\<rceil>)"

definition c_fmod :: "real \<Rightarrow> real \<Rightarrow> real" where
  "c_fmod a b = a - b * of_int (c_trunc (a / b))"

definition c_atan2 :: "real \<Rightarrow> real \<Rightarrow> real" where
  "c_atan2 y x =
     (if 0 < x then arctan (y / x)
      else if x < 0 then (if 0 \<le> y then arctan (y / x) + pi else arctan (y / x) - pi)
      else if 0 < y then pi / 2
      else if y < 0 then - (pi / 2)
      else 0)"

lemma c_fmod_less: "0 < b \<Longrightarrow> \<bar>c_fmod a b\<bar> < b"
proof -
  assume b: "0 < b"
  have "c_fmod a b = b * (a / b - of_int (c_trunc (a / b)))"
    using b by (simp add: c_fmod_def right_diff_distrib)
  moreover have "\<bar>q - of_int (c_trunc q)\<bar> < 1" for q :: real
    by (simp add: c_trunc_def) linarith
  ultimately show ?thesis using b by (simp add: abs_mult)
qed

lemma c_fmod_cong: "\<exists>k::int. c_fmod a b = a - b * of_int k"
  by (auto simp: c_fmod_def)

text \<open>The polar form of a vector: \<open>atan2f\<close> finds the angle of every vector.\<close>

lemma sqrt_one_plus_div:
  assumes "x \<noteq> 0"
  shows "sqrt (1 + (y / x)\<^sup>2) = sqrt (x * x + y * y) / \<bar>x\<bar>"
proof -
  have "1 + (y / x)\<^sup>2 = (x * x + y * y) / x\<^sup>2"
    using assms by (simp add: power2_eq_square field_simps)
  then show ?thesis by (simp add: real_sqrt_divide)
qed

lemma cos_c_atan2: "sqrt (x * x + y * y) * cos (c_atan2 y x) = x"
  and sin_c_atan2: "sqrt (x * x + y * y) * sin (c_atan2 y x) = y"
proof -
  have pos: "0 < sqrt (x * x + y * y)" if "x \<noteq> 0"
    using that by (simp add: add_pos_nonneg flip: power2_eq_square)
  have cs: "cos (arctan (y / x)) = \<bar>x\<bar> / sqrt (x * x + y * y)"
    "sin (arctan (y / x)) = y / x * \<bar>x\<bar> / sqrt (x * x + y * y)" if "x \<noteq> 0"
    using that sqrt_one_plus_div [OF that, of y] by (simp_all add: cos_arctan sin_arctan)
  show "sqrt (x * x + y * y) * cos (c_atan2 y x) = x"
    using pos cs by (auto simp: c_atan2_def)
  show "sqrt (x * x + y * y) * sin (c_atan2 y x) = y"
    using pos cs by (auto simp: c_atan2_def)
qed

lemma c_atan2_bound: "\<bar>c_atan2 y x\<bar> \<le> pi"
proof -
  have "0 \<le> y \<Longrightarrow> x < 0 \<Longrightarrow> arctan (y / x) \<le> 0" "y < 0 \<Longrightarrow> x < 0 \<Longrightarrow> 0 \<le> arctan (y / x)"
    by (simp_all add: divide_nonneg_neg divide_neg_neg less_imp_le)
  then show ?thesis using arctan_bounded [of "y / x"] pi_gt_zero
    by (auto simp: c_atan2_def abs_le_iff not_le simp del: arctan_le_zero_iff zero_le_arctan_iff)
qed

section \<open>Scalar helpers\<close>

definition square :: "real \<Rightarrow> real" where
  "square d1 = d1 * d1"

definition minmax :: "real \<Rightarrow> real \<Rightarrow> real \<Rightarrow> real" where
  "minmax minx x maxx = min (max minx x) maxx"

definition crop :: "real \<Rightarrow> real \<Rightarrow> real \<Rightarrow> real" where
  "crop val minval maxval = minmax minval val maxval"

text \<open>\<open>static_math\<close>: \<open>log2\<close>, \<open>round2\<close>, \<open>sgn\<close>, \<open>sqr\<close>, \<open>posmod\<close>, \<open>posfmod\<close>, \<open>crop\<close> (whose assertion is
  the \<^term>\<open>None\<close> case).\<close>

function sm_log2 :: "int \<Rightarrow> int" where
  "sm_log2 v = (if v < 2 then 1 else 1 + sm_log2 (v sdiv 2))"
  by auto
termination
  by (relation "measure nat") (auto simp: signed_divide_int_def)

declare sm_log2.simps [simp del]

definition sm_round2 :: "int \<Rightarrow> int" where
  "sm_round2 v = push_bit (nat (sm_log2 v)) 1"

definition sm_sgn :: "real \<Rightarrow> real" where
  "sm_sgn v = (if v < 0 then - 1 else if v = 0 then 0 else 1)"

definition sm_sqr :: "real \<Rightarrow> real" where
  "sm_sqr v = v * v"

definition sm_posmod :: "int \<Rightarrow> int \<Rightarrow> int" where
  "sm_posmod i n = (i smod n + n) smod n"

definition sm_posfmod :: "real \<Rightarrow> real \<Rightarrow> real" where
  "sm_posfmod i n = c_fmod (c_fmod i n + n) n"

definition sm_crop :: "real \<Rightarrow> real \<Rightarrow> real \<Rightarrow> real option" where
  "sm_crop v lower upper =
     (if \<not> lower \<le> upper then None
      else let v = (if v < lower then lower else v) in Some (if v > upper then upper else v))"

definition normalize :: "real \<Rightarrow> real" where
  "normalize v =
     (let v = c_fmod v (2 * pi)
      in if v > pi then v - 2 * pi else if v < - pi then v + 2 * pi else v)"

text \<open>In \<open>Geometry.cpp\<close>; a real number is never infinite, so the first test of \<open>normalizeAngle\<close> is false.\<close>

definition normalizeAngle :: "real \<Rightarrow> real" where
  "normalizeAngle ang =
     (let ang = c_fmod ang (pi * 2)
      in if ang > pi then ang - pi * 2 else if ang < - pi then ang + pi * 2 else ang)"

definition normalizeAngleNinety :: "real \<Rightarrow> real" where
  "normalizeAngleNinety ang =
     (let ang = c_fmod ang pi;
          ang = (if ang < - pi / 2 then ang + pi else ang)
      in if ang > pi / 2 then ang - pi else ang)"

definition isAngInInterval :: "real \<Rightarrow> real \<Rightarrow> real \<Rightarrow> bool" where
  "isAngInInterval ang angMin angMax =
     (let ang = (if ang + pi * 2 < pi * 2 then ang + pi * 2 else ang);
          angMin = (if angMin + pi * 2 < pi * 2 then angMin + pi * 2 else angMin);
          angMax = (if angMax + pi * 2 < pi * 2 then angMax + pi * 2 else angMax)
      in if angMin < angMax then angMin < ang \<and> ang < angMax
         else \<not> (angMax < ang \<and> ang < angMin))"

definition getBisectorTwoAngles :: "real \<Rightarrow> real \<Rightarrow> real" where
  "getBisectorTwoAngles angMin angMax =
     normalizeAngle (c_atan2 ((sin angMin + sin angMax) / 2) ((cos angMin + cos angMax) / 2))"

section \<open>Lemmas\<close>

lemma normalize_eq_normalizeAngle: "normalize v = normalizeAngle v"
  by (simp add: normalize_def normalizeAngle_def Let_def mult.commute)

lemma normalizeAngle_bound: "\<bar>normalizeAngle a\<bar> \<le> pi"
  using c_fmod_less [of "pi * 2" a] by (auto simp: normalizeAngle_def Let_def abs_if split: if_splits)

lemma normalizeAngle_cong: "\<exists>k::int. normalizeAngle a = a + 2 * pi * of_int k"
proof -
  obtain k :: int where k: "c_fmod a (pi * 2) = a - pi * 2 * of_int k" using c_fmod_cong by blast
  have "normalizeAngle a \<in> {a + 2 * pi * of_int (- k), a + 2 * pi * of_int (- k - 1), a + 2 * pi * of_int (- k + 1)}"
    by (auto simp: normalizeAngle_def Let_def k algebra_simps)
  then show ?thesis by blast
qed

lemma cos_normalizeAngle [simp]: "cos (normalizeAngle a) = cos a"
  and sin_normalizeAngle [simp]: "sin (normalizeAngle a) = sin a"
proof -
  obtain k :: int where "normalizeAngle a = a + 2 * pi * of_int k" using normalizeAngle_cong by blast
  moreover have "cos (a + 2 * pi * of_int k) = cos a" "sin (a + 2 * pi * of_int k) = sin a"
    using cos_int_2pin [of k] sin_int_2pin [of k]
    by (simp_all add: cos_add sin_add)
  ultimately show "cos (normalizeAngle a) = cos a" "sin (normalizeAngle a) = sin a" by simp_all
qed

lemma minmax_bounds: "minx \<le> maxx \<Longrightarrow> minx \<le> minmax minx x maxx \<and> minmax minx x maxx \<le> maxx"
  by (auto simp: minmax_def)

lemma c_fmod_id: "0 < b \<Longrightarrow> \<bar>a\<bar> < b \<Longrightarrow> c_fmod a b = a"
proof -
  assume b: "0 < b" and a: "\<bar>a\<bar> < b"
  have q: "- 1 < a / b" "a / b < 1" using a b by (auto simp: field_simps abs_less_iff)
  have "c_trunc (a / b) = 0"
  proof (cases "0 \<le> a / b")
    case True
    then show ?thesis using q(2) by (simp add: c_trunc_def floor_eq_iff del: zero_le_divide_iff)
  next
    case False
    then show ?thesis using q(1) by (simp add: c_trunc_def ceiling_eq_iff del: zero_le_divide_iff)
  qed
  then show ?thesis by (simp add: c_fmod_def)
qed

lemma normalizeAngle_id: "\<bar>a\<bar> \<le> pi \<Longrightarrow> normalizeAngle a = a"
proof -
  assume a: "\<bar>a\<bar> \<le> pi"
  then have "c_fmod a (pi * 2) = a" using pi_gt_zero by (intro c_fmod_id) linarith+
  then show ?thesis using a by (auto simp: normalizeAngle_def Let_def)
qed

lemma sm_log2_bounds:
  "1 \<le> v \<Longrightarrow> 1 \<le> sm_log2 v \<and> v < 2 ^ nat (sm_log2 v) \<and> 2 ^ nat (sm_log2 v) \<le> 2 * v"
proof (induction v rule: sm_log2.induct)
  case (1 v)
  show ?case
  proof (cases "v < 2")
    case True
    then have "v = 1" using 1 by simp
    then show ?thesis by (simp add: sm_log2.simps [of 1])
  next
    case False
    have d: "v sdiv 2 = v div 2" using False by (simp add: signed_divide_int_def)
    have ih: "1 \<le> sm_log2 (v div 2)" "v div 2 < 2 ^ nat (sm_log2 (v div 2))"
      "2 ^ nat (sm_log2 (v div 2)) \<le> 2 * (v div 2)"
      using 1(1) [OF False] False d by auto
    have l: "sm_log2 v = 1 + sm_log2 (v div 2)" using False d by (subst sm_log2.simps) simp
    have e: "(2::int) ^ nat (sm_log2 v) = 2 * 2 ^ nat (sm_log2 (v div 2))"
      using ih(1) by (simp add: l nat_add_distrib)
    have "2 * (v div 2) \<le> v" "v < 2 * (v div 2) + 2" by presburger+
    then show ?thesis unfolding e using ih l by linarith
  qed
qed

text \<open>The bisector of two angles less than half a turn apart points halfway between them.\<close>

lemma c_atan2_polar:
  assumes "0 < r"
  shows "cos (c_atan2 (r * sin t) (r * cos t)) = cos t" "sin (c_atan2 (r * sin t) (r * cos t)) = sin t"
proof -
  have "sqrt (r * cos t * (r * cos t) + r * sin t * (r * sin t)) = r"
  proof -
    have "r * cos t * (r * cos t) + r * sin t * (r * sin t) = r\<^sup>2 * ((sin t)\<^sup>2 + (cos t)\<^sup>2)"
      unfolding distrib_left by (simp add: power2_eq_square mult_ac)
    then show ?thesis using assms by simp
  qed
  then show "cos (c_atan2 (r * sin t) (r * cos t)) = cos t" "sin (c_atan2 (r * sin t) (r * cos t)) = sin t"
    using cos_c_atan2 [of "r * cos t" "r * sin t"] sin_c_atan2 [of "r * cos t" "r * sin t"] assms by auto
qed

section \<open>Properties\<close>

text \<open>
  \<open>normalizeAngle\<close> (and \<open>normalize\<close> of \<open>Common.h\<close>, which computes the same) returns an angle of
  \<open>[-pi, pi]\<close> that differs from its argument by a whole number of turns, and leaves such an angle alone.
\<close>

theorem normalizeAngle_spec:
  "\<bar>normalizeAngle a\<bar> \<le> pi \<and> (\<exists>k::int. normalizeAngle a = a + 2 * pi * of_int k) \<and>
   normalizeAngle (normalizeAngle a) = normalizeAngle a \<and> normalize a = normalizeAngle a"
  using normalizeAngle_bound normalizeAngle_cong normalizeAngle_id normalize_eq_normalizeAngle by blast

text \<open>
  The bisector of two angles less than half a turn apart is, up to whole turns, their mean.
\<close>

theorem bisector_spec:
  assumes "\<bar>a - b\<bar> < pi"
  shows "cos (getBisectorTwoAngles a b) = cos ((a + b) / 2) \<and> sin (getBisectorTwoAngles a b) = sin ((a + b) / 2)"
proof -
  have r: "0 < cos ((a - b) / 2)" using assms by (intro cos_gt_zero_pi) auto
  have "(sin a + sin b) / 2 = cos ((a - b) / 2) * sin ((a + b) / 2)"
    "(cos a + cos b) / 2 = cos ((a - b) / 2) * cos ((a + b) / 2)"
    by (simp_all add: sin_plus_sin cos_plus_cos)
  then show ?thesis using c_atan2_polar [OF r] by (simp add: getBisectorTwoAngles_def)
qed

theorem bisector_spec_witness: "cos (getBisectorTwoAngles 0 1) = cos (1 / 2)"
  using bisector_spec [of 0 1] pi_ge_two by simp

text \<open>
  \<open>round2\<close> returns the power of two strictly above its argument and at most twice it; on a power
  of two it doubles.
\<close>

theorem round2_spec:
  assumes "1 \<le> v"
  shows "v < sm_round2 v \<and> sm_round2 v \<le> 2 * v \<and> (\<exists>k. sm_round2 v = 2 ^ k)"
  using sm_log2_bounds [OF assms] by (auto simp: sm_round2_def push_bit_eq_mult)

theorem round2_spec_witness: "(4::int) < sm_round2 4 \<and> sm_round2 4 \<le> 8"
  using round2_spec [of 4] by simp

end
