(* ===== verification/Geometry_Points.thy ===== *)
theory Geometry_Points
  imports Cmath
begin

text \<open>
  Points and rectangles of \<open>src/core/math/Geometry.cpp\<close>: the classes \<open>Point2D\<close>, \<open>Point3D\<close> and
  \<open>Rectangle\<close>. A method that changes its object returns the changed object. The operators of the
  class are functions named after them (\<open>p2_add\<close> for \<open>operator+\<close>, \<open>p2_adds\<close> for the variant that takes a
  number); the assigning variants (\<open>+=\<close> and so on) compute the same components and are the same
  functions. Printing is not modelled.
\<close>

section \<open>Point2D\<close>

datatype coordSystemT = CARTESIAN | POLAR

record point2D =
  px :: real
  py :: real

abbreviation EPSILON :: real where "EPSILON \<equiv> 1 / 10000"

definition p2_getPointFromPolar :: "real \<Rightarrow> real \<Rightarrow> point2D" where
  "p2_getPointFromPolar mag ang = \<lparr>px = mag * cos ang, py = mag * sin ang\<rparr>"

definition p2_setPoint :: "point2D \<Rightarrow> real \<Rightarrow> real \<Rightarrow> coordSystemT \<Rightarrow> point2D" where
  "p2_setPoint p xx yy cs =
     (if cs = CARTESIAN then p\<lparr>px := xx, py := yy\<rparr> else p2_getPointFromPolar xx yy)"

definition p2_new :: "real \<Rightarrow> real \<Rightarrow> coordSystemT \<Rightarrow> point2D" where
  "p2_new xx yy cs = p2_setPoint \<lparr>px = 0, py = 0\<rparr> xx yy cs"

definition p2_neg :: "point2D \<Rightarrow> point2D" where
  "p2_neg p = \<lparr>px = - px p, py = - py p\<rparr>"

definition p2_adds :: "point2D \<Rightarrow> real \<Rightarrow> point2D" where
  "p2_adds p d = \<lparr>px = px p + d, py = py p + d\<rparr>"

definition p2_add :: "point2D \<Rightarrow> point2D \<Rightarrow> point2D" where
  "p2_add p q = \<lparr>px = px p + px q, py = py p + py q\<rparr>"

definition p2_subs :: "point2D \<Rightarrow> real \<Rightarrow> point2D" where
  "p2_subs p d = \<lparr>px = px p - d, py = py p - d\<rparr>"

definition p2_sub :: "point2D \<Rightarrow> point2D \<Rightarrow> point2D" where
  "p2_sub p q = \<lparr>px = px p - px q, py = py p - py q\<rparr>"

definition p2_scale :: "point2D \<Rightarrow> real \<Rightarrow> point2D" where
  "p2_scale p d = \<lparr>px = px p * d, py = py p * d\<rparr>"

definition p2_mul :: "point2D \<Rightarrow> point2D \<Rightarrow> point2D" where
  "p2_mul p q = \<lparr>px = px p * px q, py = py p * py q\<rparr>"

definition p2_divs :: "point2D \<Rightarrow> real \<Rightarrow> point2D" where
  "p2_divs p d = \<lparr>px = px p / d, py = py p / d\<rparr>"

definition p2_div :: "point2D \<Rightarrow> point2D \<Rightarrow> point2D" where
  "p2_div p q = \<lparr>px = px p / px q, py = py p / py q\<rparr>"

definition p2_assign :: "point2D \<Rightarrow> real \<Rightarrow> point2D" where
  "p2_assign p d = p\<lparr>px := d, py := d\<rparr>"

definition p2_neq :: "point2D \<Rightarrow> point2D \<Rightarrow> bool" where
  "p2_neq p q = (px p \<noteq> px q \<or> py p \<noteq> py q)"

definition p2_neqs :: "point2D \<Rightarrow> real \<Rightarrow> bool" where
  "p2_neqs p d = (px p \<noteq> d \<or> py p \<noteq> d)"

definition p2_eq :: "point2D \<Rightarrow> point2D \<Rightarrow> bool" where
  "p2_eq p q = (px p = px q \<and> py p = py q)"

definition p2_eqs :: "point2D \<Rightarrow> real \<Rightarrow> bool" where
  "p2_eqs p d = (px p = d \<and> py p = d)"

definition p2_getSquaredMagnitude :: "point2D \<Rightarrow> real" where
  "p2_getSquaredMagnitude p = px p * px p + py p * py p"

definition p2_getMagnitude :: "point2D \<Rightarrow> real" where
  "p2_getMagnitude p = sqrt (p2_getSquaredMagnitude p)"

definition p2_getDirection :: "point2D \<Rightarrow> real" where
  "p2_getDirection p = c_atan2 (py p) (px p)"

definition p2_getDistanceTo :: "point2D \<Rightarrow> point2D \<Rightarrow> real" where
  "p2_getDistanceTo p q = p2_getMagnitude (p2_sub p q)"

definition p2_getBearingTo :: "point2D \<Rightarrow> point2D \<Rightarrow> real \<Rightarrow> real" where
  "p2_getBearingTo this p ori =
     (let relPoint = p2_sub p this; absDir = p2_getDirection relPoint
      in normalizeAngle (absDir - ori))"

definition p2_getAngleTo :: "point2D \<Rightarrow> point2D \<Rightarrow> real" where
  "p2_getAngleTo this p =
     (let relPoint = p2_sub p this in normalizeAngle (p2_getDirection relPoint))"

definition p2_setMagnitude :: "point2D \<Rightarrow> real \<Rightarrow> point2D" where
  "p2_setMagnitude this d =
     (if p2_getMagnitude this > EPSILON then p2_scale this (d / p2_getMagnitude this) else this)"

definition p2_isInFrontOf :: "point2D \<Rightarrow> point2D \<Rightarrow> bool" where
  "p2_isInFrontOf this p = (py this > py p)"

definition p2_isInFrontOfs :: "point2D \<Rightarrow> real \<Rightarrow> bool" where
  "p2_isInFrontOfs this yy = (py this > yy)"

definition p2_isBehind :: "point2D \<Rightarrow> point2D \<Rightarrow> bool" where
  "p2_isBehind this p = (py this < py p)"

definition p2_isBehinds :: "point2D \<Rightarrow> real \<Rightarrow> bool" where
  "p2_isBehinds this yy = (py this < yy)"

definition p2_isLeftOf :: "point2D \<Rightarrow> point2D \<Rightarrow> bool" where
  "p2_isLeftOf this p = (px this < px p)"

definition p2_isLeftOfs :: "point2D \<Rightarrow> real \<Rightarrow> bool" where
  "p2_isLeftOfs this xx = (px this < xx)"

definition p2_isRightOf :: "point2D \<Rightarrow> point2D \<Rightarrow> bool" where
  "p2_isRightOf this p = (px this > px p)"

definition p2_isRightOfs :: "point2D \<Rightarrow> real \<Rightarrow> bool" where
  "p2_isRightOfs this xx = (px this > xx)"

definition p2_isBetweenX :: "point2D \<Rightarrow> point2D \<Rightarrow> point2D \<Rightarrow> bool" where
  "p2_isBetweenX this p1 p2 = (p2_isRightOf this p1 \<and> p2_isLeftOf this p2)"

definition p2_isBetweenXs :: "point2D \<Rightarrow> real \<Rightarrow> real \<Rightarrow> bool" where
  "p2_isBetweenXs this x1 x2 = (p2_isRightOfs this x1 \<and> p2_isLeftOfs this x2)"

definition p2_isBetweenY :: "point2D \<Rightarrow> point2D \<Rightarrow> point2D \<Rightarrow> bool" where
  "p2_isBetweenY this p1 p2 = (p2_isInFrontOf this p1 \<and> p2_isBehind this p2)"

definition p2_isBetweenYs :: "point2D \<Rightarrow> real \<Rightarrow> real \<Rightarrow> bool" where
  "p2_isBetweenYs this y1 y2 = (p2_isInFrontOfs this y1 \<and> p2_isBehinds this y2)"

definition p2_pointIsBetweenX :: "point2D \<Rightarrow> point2D \<Rightarrow> point2D \<Rightarrow> bool" where
  "p2_pointIsBetweenX this p1 p2 =
     ((p2_isRightOf this p1 \<and> p2_isLeftOf this p2) \<or> (p2_isLeftOf this p1 \<and> p2_isRightOf this p2))"

definition p2_pointIsBetweenY :: "point2D \<Rightarrow> point2D \<Rightarrow> point2D \<Rightarrow> bool" where
  "p2_pointIsBetweenY this p1 p2 =
     ((p2_isInFrontOf this p1 \<and> p2_isBehind this p2) \<or> (p2_isBehind this p1 \<and> p2_isInFrontOf this p2))"

definition p2_isBetweenTwoPoints :: "point2D \<Rightarrow> point2D \<Rightarrow> point2D \<Rightarrow> bool" where
  "p2_isBetweenTwoPoints this p1 p2 =
     (if px p1 < px p2 \<and> (px this < px p1 - EPSILON \<or> px this > px p2 + EPSILON) then False
      else if \<not> px p1 < px p2 \<and> (px this < px p2 - EPSILON \<or> px this > px p1 + EPSILON) then False
      else if py p1 < py p2 \<and> (py this < py p1 - EPSILON \<or> py this > py p2 + EPSILON) then False
      else if \<not> py p1 < py p2 \<and> (py this < py p2 - EPSILON \<or> py this > py p1 + EPSILON) then False
      else True)"

definition p2_normalize :: "point2D \<Rightarrow> point2D" where
  "p2_normalize this = p2_setMagnitude this 1"

definition p2_rotate :: "point2D \<Rightarrow> real \<Rightarrow> point2D" where
  "p2_rotate this ang =
     (let dMag = p2_getMagnitude this; dNewDir = p2_getDirection this + ang
      in p2_setPoint this dMag dNewDir POLAR)"

definition p2_rotate_about :: "point2D \<Rightarrow> point2D \<Rightarrow> real \<Rightarrow> point2D" where
  "p2_rotate_about this origin ang =
     (let this = p2_sub this origin; this = p2_rotate this ang in p2_add this origin)"

definition p2_globalToRelative :: "point2D \<Rightarrow> point2D \<Rightarrow> real \<Rightarrow> point2D" where
  "p2_globalToRelative this origin ang =
     (let retVal = p2_new (px this) (py this) CARTESIAN;
          retVal = p2_sub retVal origin
      in p2_rotate retVal (- ang))"

definition p2_relativeToGlobal :: "point2D \<Rightarrow> point2D \<Rightarrow> real \<Rightarrow> point2D" where
  "p2_relativeToGlobal this origin ang =
     (let retVal = p2_new (px this) (py this) CARTESIAN;
          retVal = p2_rotate retVal ang
      in p2_add retVal origin)"

definition p2_getPointOnLineFraction :: "point2D \<Rightarrow> point2D \<Rightarrow> real \<Rightarrow> point2D" where
  "p2_getPointOnLineFraction this p fraction = p2_add (p2_scale this (1 - fraction)) (p2_scale p fraction)"

definition p2_getAngleBetweenPoints :: "point2D \<Rightarrow> point2D \<Rightarrow> point2D \<Rightarrow> real" where
  "p2_getAngleBetweenPoints this p1 p2 =
     (let v1 = p2_sub this p1; v2 = p2_sub this p2; vec = p2_mul v1 v2;
          dotProduct = px vec + py vec
      in \<bar>normalizeAngle (arccos (dotProduct / p2_getMagnitude v1 / p2_getMagnitude v2))\<bar>)"

definition p2_minmax :: "point2D \<Rightarrow> point2D \<Rightarrow> point2D \<Rightarrow> point2D" where
  "p2_minmax minP P maxP =
     (let tempP = p2_new 0 0 CARTESIAN;
          tempP = tempP\<lparr>px := minmax (px minP) (px P) (px maxP)\<rparr>
      in tempP\<lparr>py := minmax (py minP) (py P) (py maxP)\<rparr>)"

section \<open>Point3D\<close>

record point3D =
  x3 :: real
  y3 :: real
  z3 :: real

text \<open>In polar mode \<open>setPoint\<close> does nothing; the fields of a new point are then not initialised.\<close>

definition p3_setPoint :: "point3D \<Rightarrow> real \<Rightarrow> real \<Rightarrow> real \<Rightarrow> coordSystemT \<Rightarrow> point3D" where
  "p3_setPoint p xx yy zz cs = (if cs = CARTESIAN then p\<lparr>x3 := xx, y3 := yy, z3 := zz\<rparr> else p)"

definition p3_neg :: "point3D \<Rightarrow> point3D" where
  "p3_neg p = \<lparr>x3 = - x3 p, y3 = - y3 p, z3 = - z3 p\<rparr>"

definition p3_adds :: "point3D \<Rightarrow> real \<Rightarrow> point3D" where
  "p3_adds p d = \<lparr>x3 = x3 p + d, y3 = y3 p + d, z3 = z3 p + d\<rparr>"

definition p3_add :: "point3D \<Rightarrow> point3D \<Rightarrow> point3D" where
  "p3_add p q = \<lparr>x3 = x3 p + x3 q, y3 = y3 p + y3 q, z3 = z3 p + z3 q\<rparr>"

definition p3_subs :: "point3D \<Rightarrow> real \<Rightarrow> point3D" where
  "p3_subs p d = \<lparr>x3 = x3 p - d, y3 = y3 p - d, z3 = z3 p - d\<rparr>"

definition p3_sub :: "point3D \<Rightarrow> point3D \<Rightarrow> point3D" where
  "p3_sub p q = \<lparr>x3 = x3 p - x3 q, y3 = y3 p - y3 q, z3 = z3 p - z3 q\<rparr>"

text \<open>The third component of \<open>operator*\<close> by a number is \<open>y * z\<close> in the source; \<open>operator*=\<close> scales it.\<close>

definition p3_scale :: "point3D \<Rightarrow> real \<Rightarrow> point3D" where
  "p3_scale p d = \<lparr>x3 = x3 p * d, y3 = y3 p * d, z3 = y3 p * z3 p\<rparr>"

definition p3_scale_assign :: "point3D \<Rightarrow> real \<Rightarrow> point3D" where
  "p3_scale_assign p d = p\<lparr>x3 := x3 p * d, y3 := y3 p * d, z3 := z3 p * d\<rparr>"

definition p3_mul :: "point3D \<Rightarrow> point3D \<Rightarrow> point3D" where
  "p3_mul p q = \<lparr>x3 = x3 p * x3 q, y3 = y3 p * y3 q, z3 = z3 p * z3 q\<rparr>"

definition p3_divs :: "point3D \<Rightarrow> real \<Rightarrow> point3D" where
  "p3_divs p d = \<lparr>x3 = x3 p / d, y3 = y3 p / d, z3 = z3 p / d\<rparr>"

definition p3_div :: "point3D \<Rightarrow> point3D \<Rightarrow> point3D" where
  "p3_div p q = \<lparr>x3 = x3 p / x3 q, y3 = y3 p / y3 q, z3 = z3 p / z3 q\<rparr>"

definition p3_assign :: "point3D \<Rightarrow> real \<Rightarrow> point3D" where
  "p3_assign p d = p\<lparr>x3 := d, y3 := d, z3 := d\<rparr>"

definition p3_neq :: "point3D \<Rightarrow> point3D \<Rightarrow> bool" where
  "p3_neq p q = (x3 p \<noteq> x3 q \<or> y3 p \<noteq> y3 q \<or> z3 p \<noteq> z3 q)"

definition p3_neqs :: "point3D \<Rightarrow> real \<Rightarrow> bool" where
  "p3_neqs p d = (x3 p \<noteq> d \<or> y3 p \<noteq> d \<or> z3 p \<noteq> d)"

definition p3_eq :: "point3D \<Rightarrow> point3D \<Rightarrow> bool" where
  "p3_eq p q = (x3 p = x3 q \<and> y3 p = y3 q \<and> z3 p = z3 q)"

definition p3_eqs :: "point3D \<Rightarrow> real \<Rightarrow> bool" where
  "p3_eqs p d = (x3 p = d \<and> y3 p = d \<and> z3 p = d)"

section \<open>Rectangle\<close>

record rectangle =
  m_pTopLeft :: point2D
  m_pBottomRight :: point2D

definition rc_setRectanglePoints :: "rectangle \<Rightarrow> point2D \<Rightarrow> point2D \<Rightarrow> rectangle" where
  "rc_setRectanglePoints r p1 p2 =
     (let r = r\<lparr>m_pTopLeft := (m_pTopLeft r)\<lparr>px := min (px p1) (px p2)\<rparr>\<rparr>;
          r = r\<lparr>m_pTopLeft := (m_pTopLeft r)\<lparr>py := max (py p1) (py p2)\<rparr>\<rparr>;
          r = r\<lparr>m_pBottomRight := (m_pBottomRight r)\<lparr>px := max (px p1) (px p2)\<rparr>\<rparr>
      in r\<lparr>m_pBottomRight := (m_pBottomRight r)\<lparr>py := min (py p1) (py p2)\<rparr>\<rparr>)"

definition rc_new :: "point2D \<Rightarrow> point2D \<Rightarrow> rectangle" where
  "rc_new p1 p2 =
     rc_setRectanglePoints \<lparr>m_pTopLeft = p2_new 0 0 CARTESIAN, m_pBottomRight = p2_new 0 0 CARTESIAN\<rparr> p1 p2"

definition rc_neg :: "rectangle \<Rightarrow> rectangle" where
  "rc_neg r = rc_new (p2_neg (m_pBottomRight r)) (p2_neg (m_pTopLeft r))"

definition rc_isInside :: "rectangle \<Rightarrow> point2D \<Rightarrow> bool" where
  "rc_isInside r p =
     (p2_isBetweenXs p (px (m_pTopLeft r)) (px (m_pBottomRight r)) \<and>
      p2_isBetweenYs p (py (m_pBottomRight r)) (py (m_pTopLeft r)))"

definition rc_setTopLeft :: "rectangle \<Rightarrow> point2D \<Rightarrow> rectangle" where
  "rc_setTopLeft r p = r\<lparr>m_pTopLeft := p\<rparr>"

definition rc_setBottomRight :: "rectangle \<Rightarrow> point2D \<Rightarrow> rectangle" where
  "rc_setBottomRight r p = r\<lparr>m_pBottomRight := p\<rparr>"

definition rc_getBottomLeft :: "rectangle \<Rightarrow> point2D" where
  "rc_getBottomLeft r = p2_new (px (m_pTopLeft r)) (py (m_pBottomRight r)) CARTESIAN"

definition rc_getTopRight :: "rectangle \<Rightarrow> point2D" where
  "rc_getTopRight r = p2_new (px (m_pBottomRight r)) (py (m_pTopLeft r)) CARTESIAN"

definition rc_getCenter :: "rectangle \<Rightarrow> point2D" where
  "rc_getCenter r = p2_divs (p2_add (m_pBottomRight r) (m_pTopLeft r)) 2"

definition rc_getPosOutside :: "rectangle \<Rightarrow> point2D" where
  "rc_getPosOutside r = p2_adds (rc_getTopRight r) 1"

definition rc_getWidth :: "rectangle \<Rightarrow> real" where
  "rc_getWidth r = px (p2_sub (m_pBottomRight r) (m_pTopLeft r))"

definition rc_getLength :: "rectangle \<Rightarrow> real" where
  "rc_getLength r = py (p2_sub (m_pTopLeft r) (m_pBottomRight r))"

definition rc_getDiagonalLength :: "rectangle \<Rightarrow> real" where
  "rc_getDiagonalLength r = p2_getDistanceTo (m_pTopLeft r) (m_pBottomRight r)"

section \<open>Rotation\<close>

lemma p2_eqI: "px p = px q \<Longrightarrow> py p = py q \<Longrightarrow> p = (q :: point2D)"
  by simp

lemma p2_eq_iff: "p2_eq p q \<longleftrightarrow> p = q" "p2_neq p q \<longleftrightarrow> p \<noteq> q"
  by (auto simp: p2_eq_def p2_neq_def)

lemmas p2_defs = p2_add_def p2_sub_def p2_neg_def p2_scale_def p2_mul_def p2_divs_def p2_adds_def
  p2_subs_def p2_new_def p2_setPoint_def

lemma p2_polar: "p2_getMagnitude p * cos (p2_getDirection p) = px p"
  "p2_getMagnitude p * sin (p2_getDirection p) = py p"
  by (simp_all add: p2_getMagnitude_def p2_getSquaredMagnitude_def p2_getDirection_def
      cos_c_atan2 sin_c_atan2)

text \<open>The polar computation of \<open>rotate\<close> is the rotation matrix.\<close>

lemma px_rotate: "px (p2_rotate p a) = px p * cos a - py p * sin a"
  and py_rotate: "py (p2_rotate p a) = px p * sin a + py p * cos a"
proof -
  have "p2_getMagnitude p * cos (p2_getDirection p + a)
      = p2_getMagnitude p * cos (p2_getDirection p) * cos a - p2_getMagnitude p * sin (p2_getDirection p) * sin a"
    "p2_getMagnitude p * sin (p2_getDirection p + a)
      = p2_getMagnitude p * sin (p2_getDirection p) * cos a + p2_getMagnitude p * cos (p2_getDirection p) * sin a"
    by (simp_all add: cos_add sin_add algebra_simps)
  then show "px (p2_rotate p a) = px p * cos a - py p * sin a"
    "py (p2_rotate p a) = px p * sin a + py p * cos a"
    by (simp_all add: p2_rotate_def p2_setPoint_def p2_getPointFromPolar_def p2_polar)
qed

lemma p2_rotate_add: "p2_rotate (p2_rotate p a) b = p2_rotate p (a + b)"
  by (rule p2_eqI) (simp_all add: px_rotate py_rotate cos_add sin_add algebra_simps)

lemma p2_rotate_0 [simp]: "p2_rotate p 0 = p"
  by (rule p2_eqI) (simp_all add: px_rotate py_rotate)

lemma p2_sqmag_rotate: "p2_getSquaredMagnitude (p2_rotate p a) = p2_getSquaredMagnitude p"
proof -
  have "(x * c - y * s) * (x * c - y * s) + (x * s + y * c) * (x * s + y * c)
      = (x * x + y * y) * (s\<^sup>2 + c\<^sup>2)" for x y s c :: real
    by (simp add: power2_eq_square algebra_simps)
  then show ?thesis by (simp add: p2_getSquaredMagnitude_def px_rotate py_rotate)
qed

lemma p2_rotate_sub: "p2_sub (p2_rotate p a) (p2_rotate q a) = p2_rotate (p2_sub p q) a"
  by (rule p2_eqI) (simp_all add: p2_defs px_rotate py_rotate algebra_simps)

lemma p2_new_cartesian [simp]: "p2_new (px p) (py p) CARTESIAN = p"
  by (simp add: p2_defs)

section \<open>Coordinate frames\<close>

text \<open>
  What the rest of the program relies on when it changes between the field frame and a robot's
  frame: the two conversions are inverse to each other and keep distances.
\<close>

locale coordinate_frame =
  fixes to_relative to_global :: "'p \<Rightarrow> 'f \<Rightarrow> 'p"
    and distance :: "'p \<Rightarrow> 'p \<Rightarrow> real"
  assumes global_of_relative: "to_global (to_relative p f) f = p"
    and relative_of_global: "to_relative (to_global p f) f = p"
    and distance_relative: "distance (to_relative p f) (to_relative q f) = distance p q"
begin

lemma distance_global: "distance (to_global p f) (to_global q f) = distance p q"
  by (metis distance_relative relative_of_global)

lemma relative_inj: "to_relative p f = to_relative q f \<longleftrightarrow> p = q"
  by (metis global_of_relative)

lemma frame_change: "to_global (to_relative p f) g = to_global (to_relative q f) g \<longleftrightarrow> p = q"
  by (metis global_of_relative relative_of_global)

lemma frame_transfer:
  "distance (to_global (to_relative p f) g) (to_global (to_relative q f) g) = distance p q"
  by (simp add: distance_global distance_relative)

end

interpretation p2: coordinate_frame "\<lambda>p f. p2_globalToRelative p (fst f) (snd f)"
  "\<lambda>p f. p2_relativeToGlobal p (fst f) (snd f)" p2_getDistanceTo
proof unfold_locales
  fix p q :: point2D and f :: "point2D \<times> real"
  have cancel: "p2_add (p2_sub r s) s = r" "p2_sub (p2_add r s) s = r" for r s
    by (simp_all add: p2_defs)
  show "p2_relativeToGlobal (p2_globalToRelative p (fst f) (snd f)) (fst f) (snd f) = p"
    "p2_globalToRelative (p2_relativeToGlobal p (fst f) (snd f)) (fst f) (snd f) = p"
    by (simp_all add: p2_relativeToGlobal_def p2_globalToRelative_def p2_rotate_add cancel)
  have "p2_sub (p2_sub p r) (p2_sub q r) = p2_sub p q" for r by (simp add: p2_defs)
  then show "p2_getDistanceTo (p2_globalToRelative p (fst f) (snd f)) (p2_globalToRelative q (fst f) (snd f)) = p2_getDistanceTo p q"
    by (simp add: p2_getDistanceTo_def p2_globalToRelative_def p2_rotate_sub p2_getMagnitude_def p2_sqmag_rotate)
qed

section \<open>Properties\<close>

text \<open>
  Converting a point to a frame and back gives the point, in both directions, and both
  conversions keep the distance between any two points.
\<close>

theorem point_frame_roundtrip:
  "p2_relativeToGlobal (p2_globalToRelative p f a) f a = p \<and>
   p2_globalToRelative (p2_relativeToGlobal p f a) f a = p \<and>
   p2_getDistanceTo (p2_globalToRelative p f a) (p2_globalToRelative q f a) = p2_getDistanceTo p q \<and>
   p2_getDistanceTo (p2_relativeToGlobal p f a) (p2_relativeToGlobal q f a) = p2_getDistanceTo p q"
  using p2.global_of_relative [of p "(f, a)"] p2.relative_of_global [of p "(f, a)"]
    p2.distance_relative [of p "(f, a)" q] p2.distance_global [of p "(f, a)" q] by simp

text \<open>
  Distance and bearing determine a point: the point at the measured distance in the measured
  direction, taken in the frame of the observer, is the point that was measured.
\<close>

theorem bearing_distance_determine:
  "p2_relativeToGlobal (p2_getPointFromPolar (p2_getDistanceTo p this) (p2_getBearingTo this p ori)) this ori = p"
proof -
  let ?v = "p2_sub p this"
  have "p2_rotate (p2_getPointFromPolar (p2_getDistanceTo p this) (p2_getBearingTo this p ori)) ori = ?v"
  proof -
    have "p2_getPointFromPolar (p2_getDistanceTo p this) (p2_getBearingTo this p ori) = p2_rotate ?v (- ori)"
      by (simp add: p2_getPointFromPolar_def p2_getDistanceTo_def p2_getBearingTo_def p2_rotate_def
          p2_setPoint_def Let_def)
    then show ?thesis by (simp add: p2_rotate_add)
  qed
  then show ?thesis by (simp add: p2_relativeToGlobal_def) (simp add: p2_defs)
qed

text \<open>
  \<open>rotate\<close>, which goes through polar coordinates, multiplies by the rotation matrix; about the
  origin it keeps the magnitude, and rotations compose by adding their angles.
\<close>

theorem rotate_matrix:
  "p2_rotate p a = \<lparr>px = px p * cos a - py p * sin a, py = px p * sin a + py p * cos a\<rparr> \<and>
   p2_getMagnitude (p2_rotate p a) = p2_getMagnitude p \<and>
   p2_rotate (p2_rotate p a) b = p2_rotate p (a + b)"
  by (auto intro!: p2_eqI simp: px_rotate py_rotate p2_rotate_add p2_getMagnitude_def p2_sqmag_rotate)

lemma abs_dot_le: "\<bar>px v * px w + py v * py w\<bar> \<le> p2_getMagnitude v * p2_getMagnitude w"
proof (rule power2_le_imp_le)
  have "(a * c + b * d)\<^sup>2 \<le> (a\<^sup>2 + b\<^sup>2) * (c\<^sup>2 + d\<^sup>2)" for a b c d :: real
  proof -
    have "(a\<^sup>2 + b\<^sup>2) * (c\<^sup>2 + d\<^sup>2) - (a * c + b * d)\<^sup>2 = (a * d - b * c)\<^sup>2"
      by (simp add: power2_eq_square algebra_simps)
    then show ?thesis using zero_le_power2 [of "a * d - b * c"] by linarith
  qed
  then show "\<bar>px v * px w + py v * py w\<bar>\<^sup>2 \<le> (p2_getMagnitude v * p2_getMagnitude w)\<^sup>2"
    by (simp add: p2_getMagnitude_def p2_getSquaredMagnitude_def power_mult_distrib flip: power2_eq_square)
qed (simp add: p2_getMagnitude_def p2_getSquaredMagnitude_def)

lemma cos_angle_between:
  assumes "v = p2_sub c p" "w = p2_sub c q" "p2_getMagnitude v \<noteq> 0" "p2_getMagnitude w \<noteq> 0"
  shows "p2_getMagnitude v * p2_getMagnitude w * cos (p2_getAngleBetweenPoints c p q) = px v * px w + py v * py w"
proof -
  let ?d = "(px v * px w + py v * py w) / p2_getMagnitude v / p2_getMagnitude w"
  have pos: "0 < p2_getMagnitude v" "0 < p2_getMagnitude w"
    using assms(3,4) by (auto simp: p2_getMagnitude_def p2_getSquaredMagnitude_def less_le)
  have d: "- 1 \<le> ?d" "?d \<le> 1"
    using abs_dot_le [of v w] pos by (auto simp: abs_le_iff field_simps)
  have "p2_getAngleBetweenPoints c p q = arccos ?d"
    using arccos_bounded [OF d] by (simp add: p2_getAngleBetweenPoints_def Let_def assms(1,2) p2_mul_def normalizeAngle_id)
  then show ?thesis using d pos by simp
qed

text \<open>
  \<open>getAngleBetweenPoints\<close> satisfies the law of cosines in the triangle of the three points.
\<close>

theorem law_of_cosines:
  assumes "p2_getDistanceTo c p \<noteq> 0" and "p2_getDistanceTo c q \<noteq> 0"
  shows "(p2_getDistanceTo p q)\<^sup>2 = (p2_getDistanceTo c p)\<^sup>2 + (p2_getDistanceTo c q)\<^sup>2
     - 2 * p2_getDistanceTo c p * p2_getDistanceTo c q * cos (p2_getAngleBetweenPoints c p q)"
proof -
  let ?v = "p2_sub c p" and ?w = "p2_sub c q"
  have "p2_getDistanceTo c p * p2_getDistanceTo c q * cos (p2_getAngleBetweenPoints c p q) = px ?v * px ?w + py ?v * py ?w"
    using cos_angle_between [of ?v c p ?w q] assms by (simp add: p2_getDistanceTo_def)
  then show ?thesis
    by (simp add: p2_getDistanceTo_def p2_getMagnitude_def p2_getSquaredMagnitude_def p2_sub_def)
      (simp add: power2_eq_square algebra_simps)
qed

theorem law_of_cosines_witness:
  "(p2_getDistanceTo \<lparr>px = 1, py = 0\<rparr> \<lparr>px = 0, py = 1\<rparr>)\<^sup>2
   = 2 - 2 * cos (p2_getAngleBetweenPoints \<lparr>px = 0, py = 0\<rparr> \<lparr>px = 1, py = 0\<rparr> \<lparr>px = 0, py = 1\<rparr>)"
  using law_of_cosines [of "\<lparr>px = 0, py = 0\<rparr>" "\<lparr>px = 1, py = 0\<rparr>" "\<lparr>px = 0, py = 1\<rparr>"]
  by (simp add: p2_getDistanceTo_def p2_getMagnitude_def p2_getSquaredMagnitude_def p2_sub_def)

text \<open>
  A rectangle built from two opposite corners, in any order, contains exactly the points
  strictly between them in both coordinates, and \<open>getPosOutside\<close> is never inside.
\<close>

theorem rectangle_inside:
  "(rc_isInside (rc_new p q) r \<longleftrightarrow>
      min (px p) (px q) < px r \<and> px r < max (px p) (px q) \<and>
      min (py p) (py q) < py r \<and> py r < max (py p) (py q)) \<and>
   rc_new p q = rc_new q p \<and> \<not> rc_isInside (rc_new p q) (rc_getPosOutside (rc_new p q)) \<and>
   (rc_isInside (rc_neg (rc_new p q)) (p2_neg r) \<longleftrightarrow> rc_isInside (rc_new p q) r)"
  by (auto simp: rc_new_def rc_setRectanglePoints_def rc_isInside_def rc_getPosOutside_def
      rc_getTopRight_def rc_neg_def p2_defs p2_isBetweenXs_def p2_isBetweenYs_def p2_isRightOfs_def
      p2_isLeftOfs_def p2_isInFrontOfs_def p2_isBehinds_def min.commute max.commute min_def max_def)

text \<open>
  \<open>isBetweenTwoPoints\<close> holds exactly in the box spanned by the two points, widened by the
  tolerance; the order of the two points does not matter.
\<close>

theorem between_two_points:
  "(p2_isBetweenTwoPoints r p q \<longleftrightarrow>
     min (px p) (px q) - EPSILON \<le> px r \<and> px r \<le> max (px p) (px q) + EPSILON \<and>
     min (py p) (py q) - EPSILON \<le> py r \<and> py r \<le> max (py p) (py q) + EPSILON) \<and>
   p2_isBetweenTwoPoints r p q = p2_isBetweenTwoPoints r q p"
  by (auto simp: p2_isBetweenTwoPoints_def min_def max_def)

text \<open>
  \<open>operator*\<close> of \<open>Point3D\<close> by a number agrees with \<open>operator*=\<close> only when the point's third
  coordinate is zero or its second one equals the number.
\<close>

theorem point3D_scale_divergence:
  "p3_scale p d = p3_scale_assign p d \<longleftrightarrow> z3 p = 0 \<or> y3 p = d"
  by (cases p) (auto simp: p3_scale_def p3_scale_assign_def)

end
