(* ===== verification/Pose_Math.thy ===== *)
theory Pose_Math
  imports Geometry_Points
begin

text \<open>
  Planar vectors, matrices, poses and ranges: \<open>src/core/math/Vector2.h\<close>, \<open>Matrix2x2.h\<close>, \<open>Pose2D.h\<close> and
  \<open>Range.h\<close>, at the element type \<open>float\<close>. As for points, methods that change their object return the
  changed object, and an assigning operator is the same function as the operator it implements.
\<close>

section \<open>Vector2\<close>

record vector2 =
  vx :: real
  vy :: real

definition v2_zero :: vector2 where
  "v2_zero = \<lparr>vx = 0, vy = 0\<rparr>"

definition v2_add :: "vector2 \<Rightarrow> vector2 \<Rightarrow> vector2" where
  "v2_add v w = \<lparr>vx = vx v + vx w, vy = vy v + vy w\<rparr>"

definition v2_sub :: "vector2 \<Rightarrow> vector2 \<Rightarrow> vector2" where
  "v2_sub v w = \<lparr>vx = vx v - vx w, vy = vy v - vy w\<rparr>"

definition v2_scale :: "vector2 \<Rightarrow> real \<Rightarrow> vector2" where
  "v2_scale v factor = \<lparr>vx = vx v * factor, vy = vy v * factor\<rparr>"

definition v2_divs :: "vector2 \<Rightarrow> real \<Rightarrow> vector2" where
  "v2_divs v factor = (if factor = 0 then v else \<lparr>vx = vx v / factor, vy = vy v / factor\<rparr>)"

definition v2_neg :: "vector2 \<Rightarrow> vector2" where
  "v2_neg v = v2_sub v2_zero v"

definition v2_inner :: "vector2 \<Rightarrow> vector2 \<Rightarrow> real" where
  "v2_inner v w = vx v * vx w + vy v * vy w"

definition v2_eq :: "vector2 \<Rightarrow> vector2 \<Rightarrow> bool" where
  "v2_eq v w = (vx v = vx w \<and> vy v = vy w)"

definition v2_abs :: "vector2 \<Rightarrow> real" where
  "v2_abs v = sqrt (vx v * vx v + vy v * vy v)"

definition v2_squareAbs :: "vector2 \<Rightarrow> real" where
  "v2_squareAbs v = vx v * vx v + vy v * vy v"

definition v2_normalize_to :: "vector2 \<Rightarrow> real \<Rightarrow> vector2" where
  "v2_normalize_to v len =
     (let length = v2_abs v in if length = 0 then v else v2_divs (v2_scale v len) length)"

definition v2_normalize :: "vector2 \<Rightarrow> vector2" where
  "v2_normalize v = (let length = v2_abs v in if length = 0 then v else v2_divs v length)"

definition v2_transpose :: "vector2 \<Rightarrow> vector2" where
  "v2_transpose v = (let buffer = vx v; v = v\<lparr>vx := vy v\<rparr> in v\<lparr>vy := buffer\<rparr>)"

definition v2_rotateLeft :: "vector2 \<Rightarrow> vector2" where
  "v2_rotateLeft v = (let buffer = - vy v; v = v\<lparr>vy := vx v\<rparr> in v\<lparr>vx := buffer\<rparr>)"

definition v2_rotateRight :: "vector2 \<Rightarrow> vector2" where
  "v2_rotateRight v = (let buffer = - vx v; v = v\<lparr>vx := vy v\<rparr> in v\<lparr>vy := buffer\<rparr>)"

definition v2_rotate :: "vector2 \<Rightarrow> real \<Rightarrow> vector2" where
  "v2_rotate v alpha =
     (let buffer = vx v; a = cos alpha; b = sin alpha;
          v = v\<lparr>vx := a * vx v - b * vy v\<rparr>
      in v\<lparr>vy := b * buffer + a * vy v\<rparr>)"

definition v2_relativeToGlobal :: "vector2 \<Rightarrow> vector2 \<Rightarrow> real \<Rightarrow> vector2" where
  "v2_relativeToGlobal v old_origin old_rot =
     (let retVal = v; retVal = v2_rotate retVal old_rot in v2_add retVal old_origin)"

definition v2_globalToRelative :: "vector2 \<Rightarrow> vector2 \<Rightarrow> real \<Rightarrow> vector2" where
  "v2_globalToRelative v new_origin new_rot =
     (let retVal = v; retVal = v2_sub retVal new_origin in v2_rotate retVal (- new_rot))"

definition v2_angle :: "vector2 \<Rightarrow> real" where
  "v2_angle v = c_atan2 (vy v) (vx v)"

definition v2_toPoint2D :: "vector2 \<Rightarrow> point2D" where
  "v2_toPoint2D v = p2_new (vx v) (vy v) CARTESIAN"

section \<open>Matrix2x2\<close>

text \<open>A matrix is its two columns.\<close>

record matrix2x2 =
  col0 :: vector2
  col1 :: vector2

definition m2_identity :: matrix2x2 where
  "m2_identity = \<lparr>col0 = \<lparr>vx = 1, vy = 0\<rparr>, col1 = \<lparr>vx = 0, vy = 1\<rparr>\<rparr>"

definition m2_new :: "real \<Rightarrow> real \<Rightarrow> real \<Rightarrow> real \<Rightarrow> matrix2x2" where
  "m2_new a11 a12 a21 a22 = \<lparr>col0 = \<lparr>vx = a11, vy = a21\<rparr>, col1 = \<lparr>vx = a12, vy = a22\<rparr>\<rparr>"

definition m2_apply :: "matrix2x2 \<Rightarrow> vector2 \<Rightarrow> vector2" where
  "m2_apply m v = v2_add (v2_scale (col0 m) (vx v)) (v2_scale (col1 m) (vy v))"

definition m2_mul :: "matrix2x2 \<Rightarrow> matrix2x2 \<Rightarrow> matrix2x2" where
  "m2_mul m n =
     \<lparr>col0 = \<lparr>vx = vx (col0 m) * vx (col0 n) + vx (col1 m) * vy (col0 n),
              vy = vy (col0 m) * vx (col0 n) + vy (col1 m) * vy (col0 n)\<rparr>,
      col1 = \<lparr>vx = vx (col0 m) * vx (col1 n) + vx (col1 m) * vy (col1 n),
              vy = vy (col0 m) * vx (col1 n) + vy (col1 m) * vy (col1 n)\<rparr>\<rparr>"

definition m2_scale :: "matrix2x2 \<Rightarrow> real \<Rightarrow> matrix2x2" where
  "m2_scale m factor = \<lparr>col0 = v2_scale (col0 m) factor, col1 = v2_scale (col1 m) factor\<rparr>"

definition m2_divs :: "matrix2x2 \<Rightarrow> real \<Rightarrow> matrix2x2" where
  "m2_divs m factor = m2_scale m (1 / factor)"

definition m2_add :: "matrix2x2 \<Rightarrow> matrix2x2 \<Rightarrow> matrix2x2" where
  "m2_add m n =
     \<lparr>col0 = \<lparr>vx = vx (col0 m) + vx (col0 n), vy = vy (col0 m) + vy (col0 n)\<rparr>,
      col1 = \<lparr>vx = vx (col1 m) + vx (col1 n), vy = vy (col1 m) + vy (col1 n)\<rparr>\<rparr>"

definition m2_sub :: "matrix2x2 \<Rightarrow> matrix2x2 \<Rightarrow> matrix2x2" where
  "m2_sub m n =
     \<lparr>col0 = \<lparr>vx = vx (col0 m) - vx (col0 n), vy = vy (col0 m) - vy (col0 n)\<rparr>,
      col1 = \<lparr>vx = vx (col1 m) - vx (col1 n), vy = vy (col1 m) - vy (col1 n)\<rparr>\<rparr>"

definition m2_det :: "matrix2x2 \<Rightarrow> real" where
  "m2_det m = vx (col0 m) * vy (col1 m) - vx (col1 m) * vy (col0 m)"

text \<open>\<open>tiny\<close> is \<open>std::numeric_limits<V>::min()\<close>, the smallest positive normal number of the element type.\<close>

definition m2_invert :: "real \<Rightarrow> matrix2x2 \<Rightarrow> matrix2x2" where
  "m2_invert tiny m =
     (let factor = m2_det m;
          factor = (if \<bar>factor\<bar> < tiny then tiny else 1 / factor)
      in \<lparr>col0 = \<lparr>vx = factor * vy (col1 m), vy = - factor * vy (col0 m)\<rparr>,
          col1 = \<lparr>vx = - factor * vx (col1 m), vy = factor * vx (col0 m)\<rparr>\<rparr>)"

definition m2_transpose :: "matrix2x2 \<Rightarrow> matrix2x2" where
  "m2_transpose m =
     \<lparr>col0 = \<lparr>vx = vx (col0 m), vy = vx (col1 m)\<rparr>, col1 = \<lparr>vx = vy (col0 m), vy = vy (col1 m)\<rparr>\<rparr>"

section \<open>Pose2D\<close>

record pose2D =
  rotation :: real
  translation :: vector2

definition po_new :: "real \<Rightarrow> real \<Rightarrow> real \<Rightarrow> pose2D" where
  "po_new rot x y = \<lparr>rotation = rot, translation = \<lparr>vx = x, vy = y\<rparr>\<rparr>"

definition po_apply :: "pose2D \<Rightarrow> vector2 \<Rightarrow> vector2" where
  "po_apply p point =
     (let s = sin (rotation p); c = cos (rotation p)
      in v2_add \<lparr>vx = vx point * c - vy point * s, vy = vx point * s + vy point * c\<rparr> (translation p))"

definition po_scale :: "pose2D \<Rightarrow> real \<Rightarrow> pose2D" where
  "po_scale p scalar =
     (let res = p; res = res\<lparr>translation := v2_scale (translation res) scalar\<rparr>
      in res\<lparr>rotation := rotation res * scalar\<rparr>)"

definition po_divs :: "pose2D \<Rightarrow> real \<Rightarrow> pose2D" where
  "po_divs p scalar =
     (let res = p; res = res\<lparr>translation := v2_divs (translation res) scalar\<rparr>
      in res\<lparr>rotation := rotation res / scalar\<rparr>)"

definition po_setValues :: "pose2D \<Rightarrow> real list \<Rightarrow> pose2D" where
  "po_setValues p vals =
     (if length vals \<noteq> 3 then p
      else p\<lparr>translation := \<lparr>vx = vals ! 0, vy = vals ! 1\<rparr>, rotation := vals ! 2\<rparr>)"

definition po_eq :: "pose2D \<Rightarrow> pose2D \<Rightarrow> bool" where
  "po_eq p q = (v2_eq (translation p) (translation q) \<and> rotation p = rotation q)"

definition po_add :: "pose2D \<Rightarrow> pose2D \<Rightarrow> pose2D" where
  "po_add p q =
     (let p = p\<lparr>translation := po_apply p (translation q)\<rparr>;
          p = p\<lparr>rotation := rotation p + rotation q\<rparr>
      in p\<lparr>rotation := normalize (rotation p)\<rparr>)"

definition po_minusDiff :: "pose2D \<Rightarrow> pose2D \<Rightarrow> pose2D" where
  "po_minusDiff p diff =
     (let rot = rotation p - rotation diff; s = sin rot; c = cos rot
      in po_new rot
           (vx (translation p) - c * vx (translation diff) + s * vy (translation diff))
           (vy (translation p) - c * vy (translation diff) - s * vx (translation diff)))"

definition po_sub :: "pose2D \<Rightarrow> pose2D \<Rightarrow> pose2D" where
  "po_sub this other =
     (let this = this\<lparr>translation := v2_sub (translation this) (translation other)\<rparr>;
          p = po_new (- rotation other) 0 0
      in po_add p this)"

definition po_translate :: "pose2D \<Rightarrow> vector2 \<Rightarrow> pose2D" where
  "po_translate p shift = p\<lparr>translation := po_apply p shift\<rparr>"

definition po_rotate :: "pose2D \<Rightarrow> real \<Rightarrow> pose2D" where
  "po_rotate p angle = p\<lparr>rotation := rotation p + angle\<rparr>"

definition po_invert :: "pose2D \<Rightarrow> pose2D" where
  "po_invert p =
     (let invRotation = - rotation p
      in \<lparr>rotation = invRotation, translation = v2_rotate (v2_sub v2_zero (translation p)) invRotation\<rparr>)"

definition po_relativeToGlobal :: "pose2D \<Rightarrow> pose2D \<Rightarrow> pose2D" where
  "po_relativeToGlobal this old_origin =
     (let retVal = this;
          retVal = retVal\<lparr>translation := v2_rotate (translation retVal) (rotation old_origin)\<rparr>;
          retVal = retVal\<lparr>translation := v2_add (translation retVal) (translation old_origin)\<rparr>
      in retVal\<lparr>rotation := rotation retVal + rotation old_origin\<rparr>)"

definition po_globalToRelative :: "pose2D \<Rightarrow> pose2D \<Rightarrow> pose2D" where
  "po_globalToRelative this new_origin =
     (let retVal = this;
          retVal = retVal\<lparr>translation := v2_sub (translation retVal) (translation new_origin)\<rparr>;
          retVal = retVal\<lparr>translation := v2_rotate (translation retVal) (- rotation new_origin)\<rparr>
      in retVal\<lparr>rotation := rotation retVal - rotation new_origin\<rparr>)"

section \<open>Range\<close>

record range =
  rg_min :: real
  rg_max :: real

definition rg_default :: range where
  "rg_default = \<lparr>rg_min = 0, rg_max = 0\<rparr>"

definition rg_add :: "range \<Rightarrow> real \<Rightarrow> range" where
  "rg_add r t =
     (let r = (if rg_min r > t then r\<lparr>rg_min := t\<rparr> else r)
      in if rg_max r < t then r\<lparr>rg_max := t\<rparr> else r)"

definition rg_add_range :: "range \<Rightarrow> range \<Rightarrow> range" where
  "rg_add_range r s = rg_add (rg_add r (rg_min s)) (rg_max s)"

definition rg_isInside :: "range \<Rightarrow> real \<Rightarrow> bool" where
  "rg_isInside r t =
     (if rg_min r \<le> rg_max r then t \<ge> rg_min r \<and> t \<le> rg_max r else t \<ge> rg_min r \<or> t \<le> rg_max r)"

definition rg_limit :: "range \<Rightarrow> real \<Rightarrow> real" where
  "rg_limit r t = (if t < rg_min r then rg_min r else if t > rg_max r then rg_max r else t)"

definition rg_limit_range :: "range \<Rightarrow> range \<Rightarrow> range" where
  "rg_limit_range r s = \<lparr>rg_min = rg_limit r (rg_min s), rg_max = rg_limit r (rg_max s)\<rparr>"

definition rg_getSize :: "range \<Rightarrow> real" where
  "rg_getSize r = rg_max r - rg_min r"

definition rg_getCenter :: "range \<Rightarrow> real" where
  "rg_getCenter r = (rg_max r + rg_min r) / 2"

text \<open>The thirteen relations of Allen, in the order of the source.\<close>

definition rg_allen :: "range \<Rightarrow> range \<Rightarrow> bool list" where
  "rg_allen s r =
     [rg_min s = rg_min r \<and> rg_max s = rg_max r,
      rg_max s < rg_min r,
      rg_min s > rg_max r,
      rg_max s = rg_min r,
      rg_min s = rg_max r,
      rg_min s < rg_min r \<and> rg_max s < rg_max r \<and> rg_max s > rg_min r,
      rg_min s > rg_min r \<and> rg_max s > rg_max r \<and> rg_min s < rg_max r,
      rg_min s = rg_min r \<and> rg_max s < rg_max r,
      rg_min s = rg_min r \<and> rg_max s > rg_max r,
      rg_max s = rg_max r \<and> rg_min s > rg_min r,
      rg_max s = rg_max r \<and> rg_min s < rg_min r,
      rg_min s > rg_min r \<and> rg_max s < rg_max r,
      rg_min s < rg_min r \<and> rg_max s > rg_max r]"

section \<open>Lemmas\<close>

lemma v2_eqI: "vx v = vx w \<Longrightarrow> vy v = vy w \<Longrightarrow> v = (w :: vector2)"
  by simp

lemma po_eqI: "rotation p = rotation q \<Longrightarrow> translation p = translation q \<Longrightarrow> p = (q :: pose2D)"
  by simp

lemma v2_rotate_coords: "vx (v2_rotate v a) = cos a * vx v - sin a * vy v" "vy (v2_rotate v a) = sin a * vx v + cos a * vy v"
  by (simp_all add: v2_rotate_def Let_def)

lemma v2_rotate_add: "v2_rotate (v2_rotate v a) b = v2_rotate v (a + b)"
  by (rule v2_eqI) (simp_all add: v2_rotate_coords cos_add sin_add algebra_simps)

lemma v2_rotate_0 [simp]: "v2_rotate v 0 = v"
  by (rule v2_eqI) (simp_all add: v2_rotate_coords)

lemma v2_cancel [simp]: "v2_add (v2_sub v w) w = v" "v2_sub (v2_add v w) w = v"
  by (simp_all add: v2_add_def v2_sub_def)

lemma v2_squareAbs_rotate: "v2_squareAbs (v2_rotate v a) = v2_squareAbs v"
proof -
  have "(c * x - s * y) * (c * x - s * y) + (s * x + c * y) * (s * x + c * y) = (s\<^sup>2 + c\<^sup>2) * (x * x + y * y)"
    for x y s c :: real by (simp add: power2_eq_square algebra_simps)
  then show ?thesis by (simp add: v2_squareAbs_def v2_rotate_coords)
qed

lemma v2_sub_rotate: "v2_sub (v2_rotate v a) (v2_rotate w a) = v2_rotate (v2_sub v w) a"
  by (rule v2_eqI) (simp_all add: v2_sub_def v2_rotate_coords algebra_simps)

lemma po_apply_rotate: "po_apply p v = v2_add (v2_rotate v (rotation p)) (translation p)"
  by (rule v2_eqI) (simp_all add: po_apply_def Let_def v2_add_def v2_rotate_coords mult.commute)

text \<open>Vectors and poses provide the coordinate frames of the geometry library.\<close>

interpretation v2: coordinate_frame "\<lambda>p f. v2_globalToRelative p (fst f) (snd f)"
  "\<lambda>p f. v2_relativeToGlobal p (fst f) (snd f)" "\<lambda>p q. v2_abs (v2_sub p q)"
proof unfold_locales
  fix p q :: vector2 and f :: "vector2 \<times> real"
  show "v2_relativeToGlobal (v2_globalToRelative p (fst f) (snd f)) (fst f) (snd f) = p"
    "v2_globalToRelative (v2_relativeToGlobal p (fst f) (snd f)) (fst f) (snd f) = p"
    by (simp_all add: v2_relativeToGlobal_def v2_globalToRelative_def v2_rotate_add)
  have "v2_sub (v2_sub p r) (v2_sub q r) = v2_sub p q" for r by (simp add: v2_sub_def)
  then show "v2_abs (v2_sub (v2_globalToRelative p (fst f) (snd f)) (v2_globalToRelative q (fst f) (snd f))) = v2_abs (v2_sub p q)"
    using v2_squareAbs_rotate [of "v2_sub p q"]
    by (simp add: v2_globalToRelative_def v2_sub_rotate) (simp add: v2_abs_def v2_squareAbs_def)
qed

interpretation po: coordinate_frame po_globalToRelative po_relativeToGlobal
  "\<lambda>p q. v2_abs (v2_sub (translation p) (translation q))"
proof unfold_locales
  fix p q f :: pose2D
  show "po_relativeToGlobal (po_globalToRelative p f) f = p" "po_globalToRelative (po_relativeToGlobal p f) f = p"
    by (simp_all add: po_relativeToGlobal_def po_globalToRelative_def v2_rotate_add)
  show "v2_abs (v2_sub (translation (po_globalToRelative p f)) (translation (po_globalToRelative q f))) = v2_abs (v2_sub (translation p) (translation q))"
    using v2.distance_relative [of "translation p" "(translation f, rotation f)" "translation q"]
    by (simp add: po_globalToRelative_def v2_globalToRelative_def)
qed

section \<open>Properties\<close>

text \<open>
  Converting a pose to another pose's frame and back is the identity in both directions, and keeps
  the distance between the positions of two poses.
\<close>

theorem pose_frame_roundtrip:
  "po_relativeToGlobal (po_globalToRelative p f) f = p \<and> po_globalToRelative (po_relativeToGlobal p f) f = p \<and>
   v2_abs (v2_sub (translation (po_relativeToGlobal p f)) (translation (po_relativeToGlobal q f)))
     = v2_abs (v2_sub (translation p) (translation q))"
  using po.global_of_relative po.relative_of_global po.distance_global by blast

text \<open>
  A pose acts as a transformation: applying a concatenation is applying the second and then the
  first, and the inverted pose undoes the pose.
\<close>

theorem pose_action:
  "po_apply (po_add p q) v = po_apply p (po_apply q v) \<and>
   po_apply (po_invert p) (po_apply p v) = v \<and> po_apply p (po_apply (po_invert p) v) = v"
proof -
  have norm: "v2_rotate w (normalize a) = v2_rotate w a" for w a
    by (rule v2_eqI) (simp_all add: v2_rotate_coords normalize_eq_normalizeAngle)
  have lin: "v2_rotate (v2_add u w) a = v2_add (v2_rotate u a) (v2_rotate w a)" for u w a
    by (rule v2_eqI) (simp_all add: v2_add_def v2_rotate_coords algebra_simps)
  have assoc: "v2_add (v2_add u w) t = v2_add u (v2_add w t)" for u w t by (simp add: v2_add_def)
  have "po_apply (po_add p q) v = po_apply p (po_apply q v)"
    by (simp add: po_apply_rotate po_add_def Let_def norm lin v2_rotate_add assoc add.commute)
  moreover have "po_apply (po_invert p) (po_apply p v) = v" "po_apply p (po_apply (po_invert p) v) = v"
    by (simp_all add: po_apply_rotate po_invert_def Let_def lin v2_rotate_add)
      (simp_all add: v2_add_def v2_sub_def v2_zero_def v2_rotate_coords algebra_simps)
  ultimately show ?thesis by blast
qed

text \<open>
  Subtraction and \<open>minusDiff\<close> undo concatenation: with \<open>A + B = C\<close>, \<open>C - A\<close> is \<open>B\<close> and
  \<open>C.minusDiff(B)\<close> is \<open>A\<close>, up to the normalisation of the rotation.
\<close>

theorem pose_differences:
  "po_sub (po_add p q) p = q\<lparr>rotation := rotation (po_sub (po_add p q) p)\<rparr> \<and>
   cos (rotation (po_sub (po_add p q) p)) = cos (rotation q) \<and> sin (rotation (po_sub (po_add p q) p)) = sin (rotation q) \<and>
   translation (po_minusDiff (po_add p q) q) = translation p \<and>
   cos (rotation (po_minusDiff (po_add p q) q)) = cos (rotation p)"
proof -
  have sum: "cos (normalizeAngle (a + b) - c) = cos (a + b - c)" "sin (normalizeAngle (a + b) - c) = sin (a + b - c)" for a b c
    by (simp_all add: cos_diff sin_diff)
  have tr: "translation (po_sub (po_add p q) p) = translation q"
    by (simp add: po_sub_def po_add_def po_new_def Let_def po_apply_rotate v2_rotate_add)
      (simp add: v2_add_def)
  have "po_sub (po_add p q) p = q\<lparr>rotation := rotation (po_sub (po_add p q) p)\<rparr>"
    by (rule po_eqI) (simp_all add: tr)
  moreover have "cos (rotation (po_sub (po_add p q) p)) = cos (rotation q)" "sin (rotation (po_sub (po_add p q) p)) = sin (rotation q)"
    using sum [of "rotation p" "rotation q" "rotation p"]
    by (simp_all add: po_sub_def po_add_def po_new_def Let_def normalize_eq_normalizeAngle algebra_simps)
  moreover have "cos (rotation (po_minusDiff (po_add p q) q)) = cos (rotation p)"
    using sum [of "rotation p" "rotation q" "rotation q"]
    by (simp add: po_minusDiff_def po_add_def po_new_def Let_def normalize_eq_normalizeAngle)
  moreover have "translation (po_minusDiff (po_add p q) q) = translation p"
    using sum [of "rotation p" "rotation q" "rotation q"]
    by (simp add: po_minusDiff_def po_add_def po_new_def Let_def normalize_eq_normalizeAngle po_apply_def v2_add_def algebra_simps)
  ultimately show ?thesis by blast
qed

text \<open>
  Inverting a planar matrix whose determinant is not tiny gives its inverse on both sides;
  determinants multiply.
\<close>

theorem matrix2x2_inverse:
  assumes "0 < tiny" and "tiny \<le> \<bar>m2_det m\<bar>"
  shows "m2_mul m (m2_invert tiny m) = m2_identity \<and> m2_mul (m2_invert tiny m) m = m2_identity \<and>
    m2_det (m2_mul m n) = m2_det m * m2_det n \<and> m2_apply (m2_invert tiny m) (m2_apply m v) = v"
proof -
  let ?d = "m2_det m" and ?f = "1 / m2_det m"
  have d: "?d \<noteq> 0" using assms by auto
  have f: "?f * ?d = 1" using d by simp
  have inv: "m2_invert tiny m = \<lparr>col0 = \<lparr>vx = ?f * vy (col1 m), vy = - ?f * vy (col0 m)\<rparr>,
      col1 = \<lparr>vx = - ?f * vx (col1 m), vy = ?f * vx (col0 m)\<rparr>\<rparr>"
    using assms(2) by (simp add: m2_invert_def Let_def)
  have diag: "vx (col0 m) * (f * vy (col1 m)) + vx (col1 m) * (- f * vy (col0 m)) = f * ?d"
    "f * vy (col1 m) * vx (col0 m) + - f * vx (col1 m) * vy (col0 m) = f * ?d" for f
    by (simp_all add: m2_det_def algebra_simps)
  have one: "m2_mul m (m2_invert tiny m) = m2_identity" "m2_mul (m2_invert tiny m) m = m2_identity"
    unfolding inv m2_mul_def m2_identity_def using diag [of ?f] f by (simp_all add: algebra_simps)
  moreover have "m2_det (m2_mul m n) = m2_det m * m2_det n"
    by (simp add: m2_det_def m2_mul_def algebra_simps)
  moreover have "m2_apply (m2_mul a b) v = m2_apply a (m2_apply b v)" for a b
    by (simp add: m2_apply_def m2_mul_def v2_add_def v2_scale_def algebra_simps)
  then have "m2_apply (m2_invert tiny m) (m2_apply m v) = m2_apply m2_identity v" using one(2) by metis
  then have "m2_apply (m2_invert tiny m) (m2_apply m v) = v"
    by (simp add: m2_apply_def m2_identity_def v2_add_def v2_scale_def)
  ultimately show ?thesis by blast
qed

theorem matrix2x2_inverse_witness:
  "m2_mul (m2_new 2 1 1 1) (m2_invert (1/1000) (m2_new 2 1 1 1)) = m2_identity"
  using matrix2x2_inverse [of "1/1000" "m2_new 2 1 1 1"] by (simp add: m2_det_def m2_new_def)

text \<open>
  \<open>limit\<close> of a proper range returns a value of the range, leaves values of the range alone, and
  \<open>add\<close> returns a range that contains the new value and every value of the old one.
\<close>

theorem range_limit_add:
  assumes "rg_min r \<le> rg_max r"
  shows "rg_isInside r (rg_limit r t) \<and> (rg_isInside r t \<longleftrightarrow> rg_limit r t = t) \<and>
    rg_isInside (rg_add r t) t \<and> (\<forall>u. rg_isInside r u \<longrightarrow> rg_isInside (rg_add r t) u)"
  using assms by (auto simp: rg_isInside_def rg_limit_def rg_add_def)

theorem range_limit_add_witness: "rg_isInside rg_default (rg_limit rg_default 5)"
  using range_limit_add [of rg_default 5] by (simp add: rg_default_def)

end
