(* ===== verification/Robot_Info.thy ===== *)
theory Robot_Info
  imports Prelude
begin

text \<open>
  The robot's tables in \<open>src/core/common/RobotInfo.h\<close>, \<open>RobotInfo.cpp\<close> and \<open>InterfaceInfo.cpp\<close>: the joints with their
  names, limits and signs, the sensors with their names and memory keys, and the lights. An enumeration is
  a datatype with the position of its constructors; an array with one entry per joint is a function on
  the datatype. Lights are used with computed indices and are the numbers of their enumeration.
\<close>

section \<open>Joints\<close>

datatype joint =
    HeadYaw | HeadPitch | LHipYawPitch | LHipRoll | LHipPitch | LKneePitch | LAnklePitch |
    LAnkleRoll | RHipYawPitch | RHipRoll | RHipPitch | RKneePitch | RAnklePitch | RAnkleRoll |
    LShoulderPitch | LShoulderRoll | LElbowYaw | LElbowRoll | RShoulderPitch | RShoulderRoll |
    RElbowYaw | RElbowRoll

primrec joint_index :: "joint \<Rightarrow> nat" where
  "joint_index HeadYaw = 0"
| "joint_index HeadPitch = 1"
| "joint_index LHipYawPitch = 2"
| "joint_index LHipRoll = 3"
| "joint_index LHipPitch = 4"
| "joint_index LKneePitch = 5"
| "joint_index LAnklePitch = 6"
| "joint_index LAnkleRoll = 7"
| "joint_index RHipYawPitch = 8"
| "joint_index RHipRoll = 9"
| "joint_index RHipPitch = 10"
| "joint_index RKneePitch = 11"
| "joint_index RAnklePitch = 12"
| "joint_index RAnkleRoll = 13"
| "joint_index LShoulderPitch = 14"
| "joint_index LShoulderRoll = 15"
| "joint_index LElbowYaw = 16"
| "joint_index LElbowRoll = 17"
| "joint_index RShoulderPitch = 18"
| "joint_index RShoulderRoll = 19"
| "joint_index RElbowYaw = 20"
| "joint_index RElbowRoll = 21"

abbreviation NUM_JOINTS :: nat where "NUM_JOINTS \<equiv> 22"

definition all_joints :: "joint list" where
  "all_joints =
    [HeadYaw, HeadPitch, LHipYawPitch, LHipRoll, LHipPitch, LKneePitch, LAnklePitch, LAnkleRoll,
    RHipYawPitch, RHipRoll, RHipPitch, RKneePitch, RAnklePitch, RAnkleRoll, LShoulderPitch,
    LShoulderRoll, LElbowYaw, LElbowRoll, RShoulderPitch, RShoulderRoll, RElbowYaw, RElbowRoll]"

definition JointNames :: "string list" where
  "JointNames =
    [''HeadYaw'', ''HeadPitch'', ''LHipYawPitch'', ''LHipRoll'', ''LHipPitch'', ''LKneePitch'',
    ''LAnklePitch'', ''LAnkleRoll'', ''RHipYawPitch'', ''RHipRoll'', ''RHipPitch'', ''RKneePitch'',
    ''RAnklePitch'', ''RAnkleRoll'', ''LShoulderPitch'', ''LShoulderRoll'', ''LElbowYaw'',
    ''LElbowRoll'', ''RShoulderPitch'', ''RShoulderRoll'', ''RElbowYaw'', ''RElbowRoll'']"

primrec getJointName :: "joint \<Rightarrow> string" where
  "getJointName HeadYaw = ''HeadYaw''"
| "getJointName HeadPitch = ''HeadPitch''"
| "getJointName LShoulderPitch = ''LShoulderPitch''"
| "getJointName LShoulderRoll = ''LShoulderRoll''"
| "getJointName LElbowYaw = ''LElbowYaw''"
| "getJointName LElbowRoll = ''LElbowRoll''"
| "getJointName RShoulderPitch = ''RShoulderPitch''"
| "getJointName RShoulderRoll = ''RShoulderRoll''"
| "getJointName RElbowYaw = ''RElbowYaw''"
| "getJointName RElbowRoll = ''RElbowRoll''"
| "getJointName LHipYawPitch = ''LHipYawPitch''"
| "getJointName LHipRoll = ''LHipRoll''"
| "getJointName LHipPitch = ''LHipPitch''"
| "getJointName LKneePitch = ''LKneePitch''"
| "getJointName LAnklePitch = ''LAnklePitch''"
| "getJointName LAnkleRoll = ''LAnkleRoll''"
| "getJointName RHipYawPitch = ''RHipYawPitch''"
| "getJointName RHipRoll = ''RHipRoll''"
| "getJointName RHipPitch = ''RHipPitch''"
| "getJointName RKneePitch = ''RKneePitch''"
| "getJointName RAnklePitch = ''RAnklePitch''"
| "getJointName RAnkleRoll = ''RAnkleRoll''"

text \<open>\<open>DEG_T_RAD\<close> and \<open>RAD_T_DEG\<close>; \<open>SIGMA\<close> is one degree.\<close>

abbreviation (input) DEG_T_RAD :: real where "DEG_T_RAD \<equiv> pi / 180"
abbreviation (input) RAD_T_DEG :: real where "RAD_T_DEG \<equiv> 180 / pi"
abbreviation (input) SIGMA_DEG :: real where "SIGMA_DEG \<equiv> 1"

primrec minJointLimits :: "joint \<Rightarrow> real" where
  "minJointLimits HeadYaw = DEG_T_RAD * (- 110 + SIGMA_DEG)"
| "minJointLimits HeadPitch = DEG_T_RAD * (- 45 + SIGMA_DEG)"
| "minJointLimits LHipYawPitch = DEG_T_RAD * (- 90 + SIGMA_DEG)"
| "minJointLimits LHipRoll = DEG_T_RAD * (- 25 + SIGMA_DEG)"
| "minJointLimits LHipPitch = DEG_T_RAD * (- 100 + SIGMA_DEG)"
| "minJointLimits LKneePitch = DEG_T_RAD * (0 + SIGMA_DEG)"
| "minJointLimits LAnklePitch = DEG_T_RAD * (- 75 + SIGMA_DEG)"
| "minJointLimits LAnkleRoll = DEG_T_RAD * (- 45 + SIGMA_DEG)"
| "minJointLimits RHipYawPitch = DEG_T_RAD * (- 90 + SIGMA_DEG)"
| "minJointLimits RHipRoll = DEG_T_RAD * (- 45 + SIGMA_DEG)"
| "minJointLimits RHipPitch = DEG_T_RAD * (- 100 + SIGMA_DEG)"
| "minJointLimits RKneePitch = DEG_T_RAD * (0 + SIGMA_DEG)"
| "minJointLimits RAnklePitch = DEG_T_RAD * (- 75 + SIGMA_DEG)"
| "minJointLimits RAnkleRoll = DEG_T_RAD * (- 25 + SIGMA_DEG)"
| "minJointLimits LShoulderPitch = DEG_T_RAD * (- 115 + SIGMA_DEG)"
| "minJointLimits LShoulderRoll = DEG_T_RAD * (0 + SIGMA_DEG)"
| "minJointLimits LElbowYaw = DEG_T_RAD * (- 120 + SIGMA_DEG)"
| "minJointLimits LElbowRoll = DEG_T_RAD * (- 90 + SIGMA_DEG)"
| "minJointLimits RShoulderPitch = DEG_T_RAD * (- 115 + SIGMA_DEG)"
| "minJointLimits RShoulderRoll = DEG_T_RAD * (- 95 + SIGMA_DEG)"
| "minJointLimits RElbowYaw = DEG_T_RAD * (- 120 + SIGMA_DEG)"
| "minJointLimits RElbowRoll = DEG_T_RAD * (0 + SIGMA_DEG)"

primrec maxJointLimits :: "joint \<Rightarrow> real" where
  "maxJointLimits HeadYaw = DEG_T_RAD * (110 - SIGMA_DEG)"
| "maxJointLimits HeadPitch = DEG_T_RAD * (45 - SIGMA_DEG)"
| "maxJointLimits LHipYawPitch = DEG_T_RAD * (0 - SIGMA_DEG)"
| "maxJointLimits LHipRoll = DEG_T_RAD * (45 - SIGMA_DEG)"
| "maxJointLimits LHipPitch = DEG_T_RAD * (25 - SIGMA_DEG)"
| "maxJointLimits LKneePitch = DEG_T_RAD * (130 - SIGMA_DEG)"
| "maxJointLimits LAnklePitch = DEG_T_RAD * (45 - SIGMA_DEG)"
| "maxJointLimits LAnkleRoll = DEG_T_RAD * (25 - SIGMA_DEG)"
| "maxJointLimits RHipYawPitch = DEG_T_RAD * (0 - SIGMA_DEG)"
| "maxJointLimits RHipRoll = DEG_T_RAD * (25 - SIGMA_DEG)"
| "maxJointLimits RHipPitch = DEG_T_RAD * (25 - SIGMA_DEG)"
| "maxJointLimits RKneePitch = DEG_T_RAD * (130 - SIGMA_DEG)"
| "maxJointLimits RAnklePitch = DEG_T_RAD * (45 - SIGMA_DEG)"
| "maxJointLimits RAnkleRoll = DEG_T_RAD * (45 - SIGMA_DEG)"
| "maxJointLimits LShoulderPitch = DEG_T_RAD * (115 - SIGMA_DEG)"
| "maxJointLimits LShoulderRoll = DEG_T_RAD * (95 - SIGMA_DEG)"
| "maxJointLimits LElbowYaw = DEG_T_RAD * (120 - SIGMA_DEG)"
| "maxJointLimits LElbowRoll = DEG_T_RAD * (0 - SIGMA_DEG)"
| "maxJointLimits RShoulderPitch = DEG_T_RAD * (115 - SIGMA_DEG)"
| "maxJointLimits RShoulderRoll = DEG_T_RAD * (0 - SIGMA_DEG)"
| "maxJointLimits RElbowYaw = DEG_T_RAD * (120 - SIGMA_DEG)"
| "maxJointLimits RElbowRoll = DEG_T_RAD * (90 - SIGMA_DEG)"

primrec robot_joint_signs :: "joint \<Rightarrow> real" where
  "robot_joint_signs HeadYaw = 1"
| "robot_joint_signs HeadPitch = - 1"
| "robot_joint_signs LHipYawPitch = 1"
| "robot_joint_signs LHipRoll = - 1"
| "robot_joint_signs LHipPitch = 1"
| "robot_joint_signs LKneePitch = 1"
| "robot_joint_signs LAnklePitch = 1"
| "robot_joint_signs LAnkleRoll = - 1"
| "robot_joint_signs RHipYawPitch = 1"
| "robot_joint_signs RHipRoll = 1"
| "robot_joint_signs RHipPitch = 1"
| "robot_joint_signs RKneePitch = 1"
| "robot_joint_signs RAnklePitch = 1"
| "robot_joint_signs RAnkleRoll = 1"
| "robot_joint_signs LShoulderPitch = - 1"
| "robot_joint_signs LShoulderRoll = 1"
| "robot_joint_signs LElbowYaw = 1"
| "robot_joint_signs LElbowRoll = 1"
| "robot_joint_signs RShoulderPitch = - 1"
| "robot_joint_signs RShoulderRoll = - 1"
| "robot_joint_signs RElbowYaw = - 1"
| "robot_joint_signs RElbowRoll = - 1"

primrec spark_joint_signs :: "joint \<Rightarrow> real" where
  "spark_joint_signs HeadYaw = 1"
| "spark_joint_signs HeadPitch = 1"
| "spark_joint_signs LHipYawPitch = 1"
| "spark_joint_signs LHipRoll = - 1"
| "spark_joint_signs LHipPitch = - 1"
| "spark_joint_signs LKneePitch = - 1"
| "spark_joint_signs LAnklePitch = - 1"
| "spark_joint_signs LAnkleRoll = - 1"
| "spark_joint_signs RHipYawPitch = 1"
| "spark_joint_signs RHipRoll = 1"
| "spark_joint_signs RHipPitch = - 1"
| "spark_joint_signs RKneePitch = - 1"
| "spark_joint_signs RAnklePitch = - 1"
| "spark_joint_signs RAnkleRoll = 1"
| "spark_joint_signs LShoulderPitch = 1"
| "spark_joint_signs LShoulderRoll = 1"
| "spark_joint_signs LElbowYaw = 1"
| "spark_joint_signs LElbowRoll = 1"
| "spark_joint_signs RShoulderPitch = 1"
| "spark_joint_signs RShoulderRoll = - 1"
| "spark_joint_signs RElbowYaw = - 1"
| "spark_joint_signs RElbowRoll = - 1"

section \<open>Sensors\<close>

datatype sensor =
    gyroX | gyroY | gyroZ | accelX | accelY | accelZ | angleX | angleY | angleZ | battery |
    fsrLFL | fsrLFR | fsrLRL | fsrLRR | fsrRFL | fsrRFR | fsrRRL | fsrRRR | bumperLL | bumperLR |
    bumperRL | bumperRR | centerButton | headFront | headMiddle | headRear

primrec sensor_index :: "sensor \<Rightarrow> nat" where
  "sensor_index gyroX = 0"
| "sensor_index gyroY = 1"
| "sensor_index gyroZ = 2"
| "sensor_index accelX = 3"
| "sensor_index accelY = 4"
| "sensor_index accelZ = 5"
| "sensor_index angleX = 6"
| "sensor_index angleY = 7"
| "sensor_index angleZ = 8"
| "sensor_index battery = 9"
| "sensor_index fsrLFL = 10"
| "sensor_index fsrLFR = 11"
| "sensor_index fsrLRL = 12"
| "sensor_index fsrLRR = 13"
| "sensor_index fsrRFL = 14"
| "sensor_index fsrRFR = 15"
| "sensor_index fsrRRL = 16"
| "sensor_index fsrRRR = 17"
| "sensor_index bumperLL = 18"
| "sensor_index bumperLR = 19"
| "sensor_index bumperRL = 20"
| "sensor_index bumperRR = 21"
| "sensor_index centerButton = 22"
| "sensor_index headFront = 23"
| "sensor_index headMiddle = 24"
| "sensor_index headRear = 25"

definition SensorNames :: "string list" where
  "SensorNames =
    [''gyroX'', ''gyroY'', ''gyroZ'', ''accelX'', ''accelY'', ''accelZ'', ''angleX'', ''angleY'',
    ''angleZ'', ''battery'', ''fsrLFL'', ''fsrLFR'', ''fsrLRL'', ''fsrLRR'', ''fsrRFL'',
    ''fsrRFR'', ''fsrRRL'', ''fsrRRR'', ''centerButton'', ''bumperLL'', ''bumperLR'', ''bumperRL'',
    ''bumperRR'', ''headFront'', ''headMiddle'', ''headRear'']"

primrec getSensorString :: "sensor \<Rightarrow> string" where
  "getSensorString gyroX = ''InertialSensor/GyrX''"
| "getSensorString gyroY = ''InertialSensor/GyrY''"
| "getSensorString gyroZ = ''InertialSensor/GyrZ''"
| "getSensorString accelX = ''InertialSensor/AccX''"
| "getSensorString accelY = ''InertialSensor/AccY''"
| "getSensorString accelZ = ''InertialSensor/AccZ''"
| "getSensorString angleX = ''InertialSensor/AngleX''"
| "getSensorString angleY = ''InertialSensor/AngleY''"
| "getSensorString angleZ = ''InertialSensor/AngleZ''"
| "getSensorString battery = ''Battery/Charge''"
| "getSensorString fsrLFL = ''LFoot/FSR/FrontLeft''"
| "getSensorString fsrLFR = ''LFoot/FSR/FrontRight''"
| "getSensorString fsrLRL = ''LFoot/FSR/RearLeft''"
| "getSensorString fsrLRR = ''LFoot/FSR/RearRight''"
| "getSensorString fsrRFL = ''RFoot/FSR/FrontLeft''"
| "getSensorString fsrRFR = ''RFoot/FSR/FrontRight''"
| "getSensorString fsrRRL = ''RFoot/FSR/RearLeft''"
| "getSensorString fsrRRR = ''RFoot/FSR/RearRight''"
| "getSensorString bumperLL = ''LFoot/Bumper/Left''"
| "getSensorString bumperLR = ''LFoot/Bumper/Right''"
| "getSensorString bumperRL = ''RFoot/Bumper/Left''"
| "getSensorString bumperRR = ''RFoot/Bumper/Right''"
| "getSensorString centerButton = ''ChestBoard/Button''"
| "getSensorString headFront = ''Head/Touch/Front''"
| "getSensorString headMiddle = ''Head/Touch/Middle''"
| "getSensorString headRear = ''Head/Touch/Rear''"

section \<open>Lights\<close>

type_synonym led = nat

abbreviation (input) EarLeft0 :: led where "EarLeft0 \<equiv> 0"
abbreviation (input) EarLeft324 :: led where "EarLeft324 \<equiv> 9"
abbreviation (input) EarRight0 :: led where "EarRight0 \<equiv> 10"
abbreviation (input) EarRight324 :: led where "EarRight324 \<equiv> 19"
abbreviation (input) FaceRedLeft0 :: led where "FaceRedLeft0 \<equiv> 20"
abbreviation (input) FaceRedLeft315 :: led where "FaceRedLeft315 \<equiv> 27"
abbreviation (input) FaceGreenLeft0 :: led where "FaceGreenLeft0 \<equiv> 28"
abbreviation (input) FaceGreenLeft315 :: led where "FaceGreenLeft315 \<equiv> 35"
abbreviation (input) FaceBlueLeft0 :: led where "FaceBlueLeft0 \<equiv> 36"
abbreviation (input) FaceBlueLeft315 :: led where "FaceBlueLeft315 \<equiv> 43"
abbreviation (input) FaceRedRight0 :: led where "FaceRedRight0 \<equiv> 44"
abbreviation (input) FaceRedRight315 :: led where "FaceRedRight315 \<equiv> 51"
abbreviation (input) FaceGreenRight0 :: led where "FaceGreenRight0 \<equiv> 52"
abbreviation (input) FaceGreenRight315 :: led where "FaceGreenRight315 \<equiv> 59"
abbreviation (input) FaceBlueRight0 :: led where "FaceBlueRight0 \<equiv> 60"
abbreviation (input) FaceBlueRight315 :: led where "FaceBlueRight315 \<equiv> 67"
abbreviation (input) ChestRed :: led where "ChestRed \<equiv> 68"
abbreviation (input) ChestGreen :: led where "ChestGreen \<equiv> 69"
abbreviation (input) ChestBlue :: led where "ChestBlue \<equiv> 70"
abbreviation (input) LFootRed :: led where "LFootRed \<equiv> 71"
abbreviation (input) LFootGreen :: led where "LFootGreen \<equiv> 72"
abbreviation (input) LFootBlue :: led where "LFootBlue \<equiv> 73"
abbreviation (input) RFootRed :: led where "RFootRed \<equiv> 74"
abbreviation (input) RFootGreen :: led where "RFootGreen \<equiv> 75"
abbreviation (input) RFootBlue :: led where "RFootBlue \<equiv> 76"
abbreviation (input) LHead0 :: led where "LHead0 \<equiv> 77"
abbreviation (input) LHead1 :: led where "LHead1 \<equiv> 78"
abbreviation (input) LHead2 :: led where "LHead2 \<equiv> 79"
abbreviation (input) LHead3 :: led where "LHead3 \<equiv> 80"
abbreviation (input) LHead4 :: led where "LHead4 \<equiv> 81"
abbreviation (input) LHead5 :: led where "LHead5 \<equiv> 82"
abbreviation (input) RHead5 :: led where "RHead5 \<equiv> 83"
abbreviation (input) RHead4 :: led where "RHead4 \<equiv> 84"
abbreviation (input) RHead3 :: led where "RHead3 \<equiv> 85"
abbreviation (input) RHead2 :: led where "RHead2 \<equiv> 86"
abbreviation (input) RHead1 :: led where "RHead1 \<equiv> 87"
abbreviation (input) RHead0 :: led where "RHead0 \<equiv> 88"
abbreviation (input) NUM_LEDS :: nat where "NUM_LEDS \<equiv> 89"
abbreviation (input) LEDS_PER_EYE :: nat where "LEDS_PER_EYE \<equiv> FaceRedLeft315 - FaceRedLeft0 + 1"

definition LEDStrings :: "string list" where
  "LEDStrings =
    [''Ears/Led/Left/0Deg/Actuator/Value'', ''Ears/Led/Left/36Deg/Actuator/Value'',
    ''Ears/Led/Left/72Deg/Actuator/Value'', ''Ears/Led/Left/108Deg/Actuator/Value'',
    ''Ears/Led/Left/144Deg/Actuator/Value'', ''Ears/Led/Left/180Deg/Actuator/Value'',
    ''Ears/Led/Left/216Deg/Actuator/Value'', ''Ears/Led/Left/252Deg/Actuator/Value'',
    ''Ears/Led/Left/288Deg/Actuator/Value'', ''Ears/Led/Left/324Deg/Actuator/Value'',
    ''Ears/Led/Right/0Deg/Actuator/Value'', ''Ears/Led/Right/36Deg/Actuator/Value'',
    ''Ears/Led/Right/72Deg/Actuator/Value'', ''Ears/Led/Right/108Deg/Actuator/Value'',
    ''Ears/Led/Right/144Deg/Actuator/Value'', ''Ears/Led/Right/180Deg/Actuator/Value'',
    ''Ears/Led/Right/216Deg/Actuator/Value'', ''Ears/Led/Right/252Deg/Actuator/Value'',
    ''Ears/Led/Right/288Deg/Actuator/Value'', ''Ears/Led/Right/324Deg/Actuator/Value'',
    ''Face/Led/Red/Left/0Deg/Actuator/Value'', ''Face/Led/Red/Left/45Deg/Actuator/Value'',
    ''Face/Led/Red/Left/90Deg/Actuator/Value'', ''Face/Led/Red/Left/135Deg/Actuator/Value'',
    ''Face/Led/Red/Left/180Deg/Actuator/Value'', ''Face/Led/Red/Left/225Deg/Actuator/Value'',
    ''Face/Led/Red/Left/270Deg/Actuator/Value'', ''Face/Led/Red/Left/315Deg/Actuator/Value'',
    ''Face/Led/Green/Left/0Deg/Actuator/Value'', ''Face/Led/Green/Left/45Deg/Actuator/Value'',
    ''Face/Led/Green/Left/90Deg/Actuator/Value'', ''Face/Led/Green/Left/135Deg/Actuator/Value'',
    ''Face/Led/Green/Left/180Deg/Actuator/Value'', ''Face/Led/Green/Left/225Deg/Actuator/Value'',
    ''Face/Led/Green/Left/270Deg/Actuator/Value'', ''Face/Led/Green/Left/315Deg/Actuator/Value'',
    ''Face/Led/Blue/Left/0Deg/Actuator/Value'', ''Face/Led/Blue/Left/45Deg/Actuator/Value'',
    ''Face/Led/Blue/Left/90Deg/Actuator/Value'', ''Face/Led/Blue/Left/135Deg/Actuator/Value'',
    ''Face/Led/Blue/Left/180Deg/Actuator/Value'', ''Face/Led/Blue/Left/225Deg/Actuator/Value'',
    ''Face/Led/Blue/Left/270Deg/Actuator/Value'', ''Face/Led/Blue/Left/315Deg/Actuator/Value'',
    ''Face/Led/Red/Right/0Deg/Actuator/Value'', ''Face/Led/Red/Right/45Deg/Actuator/Value'',
    ''Face/Led/Red/Right/90Deg/Actuator/Value'', ''Face/Led/Red/Right/135Deg/Actuator/Value'',
    ''Face/Led/Red/Right/180Deg/Actuator/Value'', ''Face/Led/Red/Right/225Deg/Actuator/Value'',
    ''Face/Led/Red/Right/270Deg/Actuator/Value'', ''Face/Led/Red/Right/315Deg/Actuator/Value'',
    ''Face/Led/Green/Right/0Deg/Actuator/Value'', ''Face/Led/Green/Right/45Deg/Actuator/Value'',
    ''Face/Led/Green/Right/90Deg/Actuator/Value'', ''Face/Led/Green/Right/135Deg/Actuator/Value'',
    ''Face/Led/Green/Right/180Deg/Actuator/Value'', ''Face/Led/Green/Right/225Deg/Actuator/Value'',
    ''Face/Led/Green/Right/270Deg/Actuator/Value'', ''Face/Led/Green/Right/315Deg/Actuator/Value'',
    ''Face/Led/Blue/Right/0Deg/Actuator/Value'', ''Face/Led/Blue/Right/45Deg/Actuator/Value'',
    ''Face/Led/Blue/Right/90Deg/Actuator/Value'', ''Face/Led/Blue/Right/135Deg/Actuator/Value'',
    ''Face/Led/Blue/Right/180Deg/Actuator/Value'', ''Face/Led/Blue/Right/225Deg/Actuator/Value'',
    ''Face/Led/Blue/Right/270Deg/Actuator/Value'', ''Face/Led/Blue/Right/315Deg/Actuator/Value'',
    ''ChestBoard/Led/Red/Actuator/Value'', ''ChestBoard/Led/Green/Actuator/Value'',
    ''ChestBoard/Led/Blue/Actuator/Value'', ''LFoot/Led/Red/Actuator/Value'',
    ''LFoot/Led/Green/Actuator/Value'', ''LFoot/Led/Blue/Actuator/Value'',
    ''RFoot/Led/Red/Actuator/Value'', ''RFoot/Led/Green/Actuator/Value'',
    ''RFoot/Led/Blue/Actuator/Value'', ''Head/Led/Front/Left/1/Actuator/Value'',
    ''Head/Led/Front/Left/0/Actuator/Value'', ''Head/Led/Middle/Left/0/Actuator/Value'',
    ''Head/Led/Rear/Left/0/Actuator/Value'', ''Head/Led/Rear/Left/1/Actuator/Value'',
    ''Head/Led/Rear/Left/2/Actuator/Value'', ''Head/Led/Rear/Right/2/Actuator/Value'',
    ''Head/Led/Rear/Right/1/Actuator/Value'', ''Head/Led/Rear/Right/0/Actuator/Value'',
    ''Head/Led/Middle/Right/0/Actuator/Value'', ''Head/Led/Front/Right/0/Actuator/Value'',
    ''Head/Led/Front/Right/1/Actuator/Value'']"

definition getLEDString :: "led \<Rightarrow> string" where
  "getLEDString l = (if l < NUM_LEDS then LEDStrings ! l else ''unknown'')"

section \<open>Lemmas\<close>

lemma all_joints_index: "all_joints ! joint_index j = j" "joint_index j < length all_joints"
  by (cases j; simp add: all_joints_def)+

lemma joint_index_inj: "joint_index i = joint_index j \<Longrightarrow> i = j"
  by (metis all_joints_index(1))

instantiation joint :: linorder
begin

definition less_eq_joint :: "joint \<Rightarrow> joint \<Rightarrow> bool" where
  "less_eq_joint i j \<longleftrightarrow> joint_index i \<le> joint_index j"

definition less_joint :: "joint \<Rightarrow> joint \<Rightarrow> bool" where
  "less_joint i j \<longleftrightarrow> joint_index i < joint_index j"

instance
proof
  fix i j :: joint
  show "i \<le> j \<Longrightarrow> j \<le> i \<Longrightarrow> i = j" by (simp add: less_eq_joint_def joint_index_inj)
qed (auto simp: less_eq_joint_def less_joint_def)

end

lemma signs_square:
  "robot_joint_signs j * robot_joint_signs j = 1" "spark_joint_signs j * spark_joint_signs j = 1"
  by (cases j; simp)+

section \<open>Properties\<close>

text \<open>
  The tables of the joints agree: the names table lists at each joint's position the name \<open>getJointName\<close>
  returns, no two joints share a name, every joint has a range of more than zero size between its limits, and the
  signs of both platforms are plus or minus one.
\<close>

theorem joint_tables_consistent:
  "JointNames ! joint_index j = getJointName j \<and> distinct JointNames \<and> minJointLimits j < maxJointLimits j \<and>
   robot_joint_signs j * robot_joint_signs j = 1 \<and> spark_joint_signs j * spark_joint_signs j = 1"
proof -
  have "JointNames ! joint_index j = getJointName j" by (cases j; simp add: JointNames_def)
  moreover have "distinct JointNames" by (simp add: JointNames_def)
  moreover have "minJointLimits j < maxJointLimits j"
    using pi_gt_zero by (cases j; simp; linarith)
  ultimately show ?thesis using signs_square by simp
qed

text \<open>
  The display names of the sensors follow the enumeration only outside the buttons: at the
  positions of the four bumpers and of the centre button the table has another sensor's name.
\<close>

theorem sensor_names_shifted:
  "SensorNames ! sensor_index bumperLL = ''centerButton'' \<and> SensorNames ! sensor_index bumperLR = ''bumperLL'' \<and>
   SensorNames ! sensor_index bumperRL = ''bumperLR'' \<and> SensorNames ! sensor_index bumperRR = ''bumperRL'' \<and>
   SensorNames ! sensor_index centerButton = ''bumperRR'' \<and> SensorNames ! sensor_index headFront = ''headFront'' \<and>
   length SensorNames = 26"
  by (simp add: SensorNames_def)

end
