(* ===== verification/Memory_Blocks.thy ===== *)
theory Memory_Blocks
  imports Ring_Containers Pose_Math Robot_Info
begin

text \<open>
  The blocks of shared memory through which the motion modules exchange commands: joint angles
  (\<open>src/core/memory/JointBlock.h\<close>), joint commands (\<open>JointCommandBlock.h\<close>), kick requests
  (\<open>KickRequestBlock.h\<close>), walk requests (\<open>WalkRequestBlock.h\<close>, \<open>WalkRequestBlock.cpp\<close>) and
  odometry (\<open>OdometryBlock.h\<close>). A block is a record with the fields of the class (less the trailing
  underscore, and less the header with version and size). A constructor assigns only some of the
  fields: it is a function of the storage the object is built in. Arrays over the joints are
  functions from \<^typ>\<open>joint\<close>, so an index is always in range.
\<close>

section \<open>Joint angles\<close>

record joint_block =
  prevValues :: "joint \<Rightarrow> real"
  joint_values :: "joint \<Rightarrow> real"
  joint_stiffness :: "joint \<Rightarrow> real"

definition jb_new :: "joint_block \<Rightarrow> joint_block" where
  "jb_new b = b\<lparr>joint_values := (\<lambda>i. 0)\<rparr>"

definition getJointValue :: "joint_block \<Rightarrow> joint \<Rightarrow> real" where
  "getJointValue b i = joint_values b i"

definition getJointDelta :: "joint_block \<Rightarrow> joint \<Rightarrow> real" where
  "getJointDelta b i = joint_values b i - prevValues b i"

section \<open>Joint commands\<close>

record joint_command_block =
  send_head_pitch_angle :: bool
  send_head_yaw_angle :: bool
  head_pitch_angle_change :: bool
  head_yaw_angle_change :: bool
  head_pitch_angle_time :: real
  head_yaw_angle_time :: real
  send_body_angles :: bool
  send_stiffness :: bool
  send_arm_angles :: bool
  arm_command_time :: real
  angles :: "joint \<Rightarrow> real"
  stiffness :: "joint \<Rightarrow> real"
  body_angle_time :: real
  stiffness_time :: real
  send_back_standup :: bool
  send_sonar_command :: bool
  sonar_command :: real

definition jc_new :: "joint_command_block \<Rightarrow> joint_command_block" where
  "jc_new b = b\<lparr>body_angle_time := 1000, head_pitch_angle_time := 1000, head_yaw_angle_time := 1000,
     stiffness_time := 1000, angles := (\<lambda>i. 0), stiffness := (\<lambda>i. 0), send_sonar_command := False,
     send_body_angles := False, send_arm_angles := False, send_head_pitch_angle := False,
     send_head_yaw_angle := False, send_stiffness := False, sonar_command := 0,
     send_back_standup := False, head_pitch_angle_change := False, head_yaw_angle_change := False\<rparr>"

definition setSendAllAngles :: "bool \<Rightarrow> real \<Rightarrow> joint_command_block \<Rightarrow> joint_command_block" where
  "setSendAllAngles send angle_time b =
     b\<lparr>send_body_angles := send, send_head_pitch_angle := send, send_head_yaw_angle := send,
       body_angle_time := angle_time, head_pitch_angle_time := angle_time,
       head_yaw_angle_time := angle_time, head_pitch_angle_change := False,
       head_yaw_angle_change := False\<rparr>"

definition setPoseRad :: "(joint \<Rightarrow> real) \<Rightarrow> joint_command_block \<Rightarrow> joint_command_block" where
  "setPoseRad src b = b\<lparr>angles := (\<lambda>i. src i)\<rparr>"

definition setPoseDeg :: "(joint \<Rightarrow> real) \<Rightarrow> joint_command_block \<Rightarrow> joint_command_block" where
  "setPoseDeg src b = b\<lparr>angles := (\<lambda>i. DEG_T_RAD * src i)\<rparr>"

definition setJointCommand :: "joint \<Rightarrow> real \<Rightarrow> joint_command_block \<Rightarrow> joint_command_block" where
  "setJointCommand i val b = b\<lparr>angles := (angles b)(i := val)\<rparr>"

definition setJointCommandDeg :: "joint \<Rightarrow> real \<Rightarrow> joint_command_block \<Rightarrow> joint_command_block" where
  "setJointCommandDeg i val b = b\<lparr>angles := (angles b)(i := DEG_T_RAD * val)\<rparr>"

definition setJointStiffness :: "joint \<Rightarrow> real \<Rightarrow> joint_command_block \<Rightarrow> joint_command_block" where
  "setJointStiffness i val b = b\<lparr>stiffness := (stiffness b)(i := val)\<rparr>"

definition setHeadPan ::
  "real \<Rightarrow> real \<Rightarrow> bool \<Rightarrow> real \<Rightarrow> joint_command_block \<Rightarrow> joint_command_block" where
  "setHeadPan target time is_change stiff b =
     b\<lparr>send_head_yaw_angle := True, angles := (angles b)(HeadYaw := target),
       head_yaw_angle_time := time, head_yaw_angle_change := is_change,
       stiffness := (stiffness b)(HeadYaw := stiff)\<rparr>"

definition setHeadTilt ::
  "real \<Rightarrow> real \<Rightarrow> bool \<Rightarrow> real \<Rightarrow> joint_command_block \<Rightarrow> joint_command_block" where
  "setHeadTilt target time is_change stiff b =
     b\<lparr>send_head_pitch_angle := True, angles := (angles b)(HeadPitch := target),
       head_pitch_angle_time := time, head_pitch_angle_change := is_change,
       stiffness := (stiffness b)(HeadPitch := stiff)\<rparr>"

definition setAllStiffness :: "real \<Rightarrow> real \<Rightarrow> joint_command_block \<Rightarrow> joint_command_block" where
  "setAllStiffness target time b =
     b\<lparr>send_stiffness := True, stiffness_time := time, stiffness := (\<lambda>i. target)\<rparr>"

section \<open>Kick requests\<close>

datatype kick_type = NO_KICK | STRAIGHT | IKSTRAIGHT | SIDE | ANGLE | DEG30 | ABORT

datatype kick_leg = LEFT | RIGHT | SWITCHABLE

record kick_request_block =
  kick_type :: kick_type
  kick_leg :: kick_leg
  desired_angle :: real
  desired_distance :: real
  ball_image_center_x :: int
  ball_image_center_y :: int
  ball_seen :: bool
  new_head :: bool
  kick_running :: bool
  vision_kick_running :: bool
  allow_correction_walk :: bool
  ball_rel_x :: real
  ball_rel_y :: real
  finished_with_step :: bool
  accelX :: ring_buffer_sum
  accelY :: ring_buffer_sum
  kick_aborted :: bool

text \<open>The two ring buffers of ten samples are built by their default constructor, which calls \<open>init\<close>.\<close>

definition kr_new :: "kick_request_block \<Rightarrow> kick_request_block" where
  "kr_new k = k\<lparr>kick_type := NO_KICK, kick_leg := RIGHT, desired_angle := 0, desired_distance := 3000,
     ball_image_center_x := 0, ball_image_center_y := 0, ball_seen := False, new_head := True,
     kick_running := False, vision_kick_running := False, allow_correction_walk := False,
     ball_rel_x := 0, ball_rel_y := 0, finished_with_step := False,
     accelX := rbs_init 10 (accelX k), accelY := rbs_init 10 (accelY k), kick_aborted := False\<rparr>"

definition kr_set ::
  "kick_type \<Rightarrow> kick_leg \<Rightarrow> real \<Rightarrow> real \<Rightarrow> kick_request_block \<Rightarrow> kick_request_block" where
  "kr_set kick leg angle distance k =
     k\<lparr>kick_type := kick, kick_leg := leg, desired_angle := angle, desired_distance := distance\<rparr>"

definition setNoKick :: "kick_request_block \<Rightarrow> kick_request_block" where
  "setNoKick k = kr_set NO_KICK LEFT 0 3000 k"

definition setFwdKick :: "kick_leg \<Rightarrow> real \<Rightarrow> kick_request_block \<Rightarrow> kick_request_block" where
  "setFwdKick leg distance k = kr_set STRAIGHT leg 0 distance k"

definition setSideKick :: "kick_leg \<Rightarrow> real \<Rightarrow> kick_request_block \<Rightarrow> kick_request_block" where
  "setSideKick leg distance k =
     (let angle = DEG_T_RAD * 90
      in if leg = SWITCHABLE then setNoKick k
         else let angle = (if leg = LEFT then angle * (- 1) else angle)
              in kr_set SIDE leg angle distance k)"

definition setAngleKick :: "kick_leg \<Rightarrow> real \<Rightarrow> real \<Rightarrow> kick_request_block \<Rightarrow> kick_request_block" where
  "setAngleKick leg angle distance k = kr_set ANGLE leg angle distance k"

definition setDeg30Kick :: "kick_leg \<Rightarrow> real \<Rightarrow> real \<Rightarrow> kick_request_block \<Rightarrow> kick_request_block" where
  "setDeg30Kick leg angle distance k = kr_set DEG30 leg angle distance k"

definition abortKick :: "kick_request_block \<Rightarrow> kick_request_block" where
  "abortKick k = k\<lparr>kick_type := ABORT\<rparr>"

definition finishedWithStep :: "kick_request_block \<Rightarrow> kick_request_block" where
  "finishedWithStep k = k\<lparr>finished_with_step := True\<rparr>"

definition initAccelX :: "kick_request_block \<Rightarrow> kick_request_block" where
  "initAccelX k = k\<lparr>accelX := rbs_init 10 (accelX k)\<rparr>"

definition addAccelX :: "real \<Rightarrow> kick_request_block \<Rightarrow> kick_request_block" where
  "addAccelX accel k = k\<lparr>accelX := rbs_add 10 accel (accelX k)\<rparr>"

definition getAvgAccelX :: "kick_request_block \<Rightarrow> real" where
  "getAvgAccelX k = rbs_getAverage (accelX k)"

text \<open>\<open>initAccelY\<close> clears the buffer of the other axis.\<close>

definition initAccelY :: "kick_request_block \<Rightarrow> kick_request_block" where
  "initAccelY k = k\<lparr>accelX := rbs_init 10 (accelX k)\<rparr>"

definition addAccelY :: "real \<Rightarrow> kick_request_block \<Rightarrow> kick_request_block" where
  "addAccelY accel k = k\<lparr>accelY := rbs_add 10 accel (accelY k)\<rparr>"

definition getAvgAccelY :: "kick_request_block \<Rightarrow> real" where
  "getAvgAccelY k = rbs_getAverage (accelY k)"

section \<open>Walk requests\<close>

datatype walk_motion =
    M_WALK | M_STAND | M_FALLING | M_GETUP | M_FALL_PREVENTION | M_NONE | M_STEP_LEFT | M_STEP_RIGHT
  | M_WAIT | M_STAND_STRAIGHT | M_LINE_UP | M_STAND_PENALTY

datatype walk_type = INVALID_WALK | BHUMAN2011_WALK | BHUMAN2013_WALK | RUNSWIFT2014_WALK

datatype walk_control = WALK_CONTROL_OFF | WALK_CONTROL_SET | WALK_CONTROL_DONE

datatype dive_type =
    Dive_NONE | Dive_LEFT | Dive_RIGHT | Dive_CENTER | Dive_PENALTY_LEFT | Dive_PENALTY_RIGHT | Dive_DONE

record walk_request_block =
  new_command :: bool
  start_command :: bool
  motion :: walk_motion
  speed :: pose2D
  percentage_speed :: bool
  pedantic_walk :: bool
  is_penalised :: bool
  target_point :: pose2D
  walk_to_target :: bool
  target_walk_is_active :: bool
  finished_standing :: bool
  rotate_around_target :: bool
  rotate_distance :: real
  rotate_heading :: real
  perform_kick :: bool
  kick_heading :: real
  kick_distance :: real
  kick_with_left :: bool
  step_into_kick :: bool
  set_kick_step_params :: bool
  step_kick_type :: int
  pre_kick_step :: pose2D
  kick_step :: pose2D
  kick_step_ref_x :: real
  tilt_fallen_counter :: int
  roll_fallen_counter :: int
  getup_from_keeper_dive :: bool
  odometry_fwd_offset :: real
  odometry_side_offset :: real
  odometry_turn_offset :: real
  keep_arms_out :: bool
  dive_type :: dive_type
  slow_stand :: bool
  walk_decides_finished_with_target :: bool
  finished_with_target_max_x_error :: real
  finished_with_target_min_y_error :: real
  finished_with_target_max_y_error :: real
  stand_in_place :: bool
  walk_type :: walk_type
  walk_control_status :: walk_control
  kick_forward_gap :: real
  kick_left_gap :: real
  kick_over_forward_threshold :: real
  kick_under_forward_threshold :: real
  kick_left_threshold :: real
  kick_max_forward :: real
  kick_max_left :: real
  kick_done_ct :: real
  kick_turn_speed :: real
  is_rotate :: bool

definition wr_new :: "walk_request_block \<Rightarrow> walk_request_block" where
  "wr_new w = w\<lparr>new_command := False, motion := M_NONE, speed := po_new 0 0 0, percentage_speed := True,
     target_point := po_new 0 0 0, pre_kick_step := po_new 0 0 0, kick_step := po_new 0 0 0,
     pedantic_walk := False, walk_to_target := False, target_walk_is_active := False,
     rotate_around_target := False, rotate_heading := 0, perform_kick := False, kick_heading := 0,
     kick_distance := 3000, kick_with_left := False, step_into_kick := False,
     set_kick_step_params := False, tilt_fallen_counter := 0, roll_fallen_counter := 0,
     getup_from_keeper_dive := False, odometry_fwd_offset := 0, odometry_side_offset := 0,
     odometry_turn_offset := 0, keep_arms_out := False, dive_type := Dive_NONE, slow_stand := False,
     stand_in_place := False, walk_type := INVALID_WALK, walk_control_status := WALK_CONTROL_OFF\<rparr>"

definition wr_set ::
  "walk_motion \<Rightarrow> pose2D \<Rightarrow> bool \<Rightarrow> bool \<Rightarrow> walk_request_block \<Rightarrow> walk_request_block" where
  "wr_set m sp percentage pedantic w =
     w\<lparr>new_command := True, motion := m, speed := sp, percentage_speed := percentage,
       pedantic_walk := pedantic, walk_to_target := False, rotate_around_target := False,
       perform_kick := False, kick_heading := 0, kick_distance := 3000, kick_with_left := False,
       step_into_kick := False, rotate_distance := 0, rotate_heading := 0\<rparr>"

definition noWalk :: "walk_request_block \<Rightarrow> walk_request_block" where
  "noWalk w = wr_set M_NONE (po_new 0 0 0) True False w"

definition stand :: "walk_request_block \<Rightarrow> walk_request_block" where
  "stand w = wr_set M_STAND (po_new 0 0 0) True False (w\<lparr>finished_standing := False\<rparr>)"

definition standStraight :: "walk_request_block \<Rightarrow> walk_request_block" where
  "standStraight w = wr_set M_STAND_STRAIGHT (po_new 0 0 0) True False (w\<lparr>finished_standing := False\<rparr>)"

definition standPenalty :: "walk_request_block \<Rightarrow> walk_request_block" where
  "standPenalty w = wr_set M_STAND_PENALTY (po_new 0 0 0) True False (w\<lparr>finished_standing := False\<rparr>)"

definition wr_wait :: "walk_request_block \<Rightarrow> walk_request_block" where
  "wr_wait w = wr_set M_WAIT (po_new 0 0 0) True False w"

definition setStep :: "bool \<Rightarrow> real \<Rightarrow> real \<Rightarrow> real \<Rightarrow> walk_request_block \<Rightarrow> walk_request_block" where
  "setStep isLeft x y rot w =
     (let walk = M_STEP_RIGHT; walk = (if isLeft then M_STEP_LEFT else walk)
      in wr_set walk (po_new rot x y) False False w)"

definition setWalk :: "real \<Rightarrow> real \<Rightarrow> real \<Rightarrow> walk_request_block \<Rightarrow> walk_request_block" where
  "setWalk x y rot w =
     (wr_set M_WALK (po_new rot x y) True False w)\<lparr>walk_control_status := WALK_CONTROL_OFF, is_rotate := False\<rparr>"

definition setPedanticWalk :: "real \<Rightarrow> real \<Rightarrow> real \<Rightarrow> walk_request_block \<Rightarrow> walk_request_block" where
  "setPedanticWalk x y rot w = wr_set M_WALK (po_new rot x y) True True w"

definition setFalling :: "walk_request_block \<Rightarrow> walk_request_block" where
  "setFalling w = wr_set M_FALLING (po_new 0 0 0) True False w"

definition setKick :: "real \<Rightarrow> real \<Rightarrow> bool \<Rightarrow> bool \<Rightarrow> walk_request_block \<Rightarrow> walk_request_block" where
  "setKick distance heading with_left into w =
     w\<lparr>new_command := True, motion := M_WALK, perform_kick := True, kick_heading := heading,
       kick_distance := distance, kick_with_left := with_left, step_into_kick := into\<rparr>"

definition setLineUp :: "real \<Rightarrow> real \<Rightarrow> real \<Rightarrow> bool \<Rightarrow> walk_request_block \<Rightarrow> walk_request_block" where
  "setLineUp relx rely rot with_left w =
     w\<lparr>new_command := True, motion := M_LINE_UP, kick_heading := 0, kick_with_left := with_left,
       target_point := \<lparr>rotation = rot, translation = \<lparr>vx = relx, vy = rely\<rparr>\<rparr>, is_rotate := False\<rparr>"

definition setLineUpParameters ::
  "real \<Rightarrow> real \<Rightarrow> real \<Rightarrow> real \<Rightarrow> real \<Rightarrow> real \<Rightarrow> real \<Rightarrow> real \<Rightarrow> real \<Rightarrow> walk_request_block \<Rightarrow> walk_request_block" where
  "setLineUpParameters forward_gap left_gap forward_over forward_under left_threshold max_forward max_left done_ct turn_speed w =
     w\<lparr>kick_forward_gap := forward_gap, kick_left_gap := left_gap,
       kick_over_forward_threshold := forward_over, kick_under_forward_threshold := forward_under,
       kick_left_threshold := left_threshold, kick_max_forward := max_forward,
       kick_max_left := max_left, kick_done_ct := done_ct, kick_turn_speed := turn_speed\<rparr>"

definition setWalkKick ::
  "real \<Rightarrow> real \<Rightarrow> real \<Rightarrow> bool \<Rightarrow> real \<Rightarrow> walk_request_block \<Rightarrow> walk_request_block" where
  "setWalkKick relx rely rot with_left heading w =
     (setLineUp relx rely rot with_left w)\<lparr>motion := M_WALK, perform_kick := True,
       kick_heading := heading, is_rotate := False\<rparr>"

definition setOdometryOffsets :: "real \<Rightarrow> real \<Rightarrow> real \<Rightarrow> walk_request_block \<Rightarrow> walk_request_block" where
  "setOdometryOffsets fwd side turn w =
     w\<lparr>odometry_fwd_offset := fwd, odometry_side_offset := side, odometry_turn_offset := turn\<rparr>"

definition setWalkTarget :: "real \<Rightarrow> real \<Rightarrow> real \<Rightarrow> bool \<Rightarrow> walk_request_block \<Rightarrow> walk_request_block" where
  "setWalkTarget relx rely relang pedantic w =
     w\<lparr>new_command := True, motion := M_WALK, walk_to_target := True, rotate_around_target := False,
       target_point := \<lparr>rotation = relang, translation = \<lparr>vx = relx, vy = rely\<rparr>\<rparr>,
       pedantic_walk := pedantic\<rparr>"

definition setKickStepParams :: "int \<Rightarrow> pose2D \<Rightarrow> pose2D \<Rightarrow> real \<Rightarrow> walk_request_block \<Rightarrow> walk_request_block" where
  "setKickStepParams type preStep step refX w =
     w\<lparr>set_kick_step_params := True, step_kick_type := type, pre_kick_step := preStep,
       kick_step := step, kick_step_ref_x := refX\<rparr>"

definition setWalkType :: "walk_type \<Rightarrow> walk_request_block \<Rightarrow> walk_request_block" where
  "setWalkType type w = w\<lparr>walk_type := type\<rparr>"

definition isStandingStraight :: "walk_request_block \<Rightarrow> bool" where
  "isStandingStraight w = (motion w = M_STAND_STRAIGHT)"

section \<open>Odometry\<close>

datatype getup_type = Getup_NONE | Getup_UNKNOWN | Getup_FRONT | Getup_BACK

datatype fall_dir =
    Fall_NONE | Fall_UNKNOWN | Fall_FORWARD | Fall_BACKWARD | Fall_LEFT | Fall_RIGHT

record odometry_block =
  displacement :: pose2D
  standing :: bool
  walkDisabled :: bool
  didKick :: bool
  kickVelocity :: real
  kickHeading :: real
  getting_up_side :: getup_type
  fall_direction :: fall_dir

definition od_new :: "odometry_block \<Rightarrow> odometry_block" where
  "od_new b = b\<lparr>displacement := po_new 0 0 0, walkDisabled := False, standing := True, didKick := False,
     getting_up_side := Getup_NONE, fall_direction := Fall_NONE\<rparr>"

definition od_reset :: "odometry_block \<Rightarrow> odometry_block" where
  "od_reset b = b\<lparr>displacement := po_new 0 0 0, didKick := False, getting_up_side := Getup_NONE\<rparr>"

section \<open>Sequences of requests\<close>

text \<open>
  A walk request as the behaviors build it: any sequence of the setters after construction.
\<close>

inductive walk_requested :: "walk_request_block \<Rightarrow> bool" where
  wr_new: "walk_requested (wr_new w)"
| wr_set: "walk_requested w \<Longrightarrow> walk_requested (wr_set m sp percentage pedantic w)"
| stand: "walk_requested w \<Longrightarrow> walk_requested (stand w)"
| standStraight: "walk_requested w \<Longrightarrow> walk_requested (standStraight w)"
| standPenalty: "walk_requested w \<Longrightarrow> walk_requested (standPenalty w)"
| setWalk: "walk_requested w \<Longrightarrow> walk_requested (setWalk x y rot w)"
| setKick: "walk_requested w \<Longrightarrow> walk_requested (setKick distance heading with_left into w)"
| setLineUp: "walk_requested w \<Longrightarrow> walk_requested (setLineUp relx rely rot with_left w)"
| setLineUpParameters: "walk_requested w \<Longrightarrow> walk_requested (setLineUpParameters a b c d e f g h i w)"
| setWalkKick: "walk_requested w \<Longrightarrow> walk_requested (setWalkKick relx rely rot with_left heading w)"
| setOdometryOffsets: "walk_requested w \<Longrightarrow> walk_requested (setOdometryOffsets fwd side turn w)"
| setWalkTarget: "walk_requested w \<Longrightarrow> walk_requested (setWalkTarget relx rely relang pedantic w)"
| setKickStepParams: "walk_requested w \<Longrightarrow> walk_requested (setKickStepParams type preStep step refX w)"
| setWalkType: "walk_requested w \<Longrightarrow> walk_requested (setWalkType wt w)"

lemma walk_requested_other_setters [intro]:
  assumes "walk_requested w"
  shows "walk_requested (noWalk w)" "walk_requested (wr_wait w)" "walk_requested (setFalling w)"
    "walk_requested (setStep isLeft x y rot w)" "walk_requested (setPedanticWalk x y rot w)"
  using assms
  by (simp_all add: noWalk_def wr_wait_def setFalling_def setStep_def setPedanticWalk_def walk_requested.wr_set)

definition wr_inv :: "walk_request_block \<Rightarrow> bool" where
  "wr_inv w \<longleftrightarrow> \<not> rotate_around_target w \<and> rotate_heading w = 0 \<and>
     (walk_to_target w \<or> perform_kick w \<longrightarrow> motion w = M_WALK \<or> motion w = M_LINE_UP)"

lemma wr_inv_setters [inv_intros]:
  "wr_inv (wr_new w)" "wr_inv (wr_set m sp percentage pedantic w)"
  "wr_inv (stand w)" "wr_inv (standStraight w)" "wr_inv (standPenalty w)" "wr_inv (setWalk x y rot w)"
  "wr_inv w \<Longrightarrow> wr_inv (setKick distance heading with_left into w)"
  "wr_inv w \<Longrightarrow> wr_inv (setLineUp relx rely rot with_left w)"
  "wr_inv w \<Longrightarrow> wr_inv (setLineUpParameters a b c d e f g h i w)"
  "wr_inv w \<Longrightarrow> wr_inv (setWalkKick relx rely rot with_left heading w)"
  "wr_inv w \<Longrightarrow> wr_inv (setOdometryOffsets fwd side turn w)"
  "wr_inv w \<Longrightarrow> wr_inv (setWalkTarget relx rely relang pedantic w)"
  "wr_inv w \<Longrightarrow> wr_inv (setKickStepParams type preStep step refX w)"
  "wr_inv w \<Longrightarrow> wr_inv (setWalkType wt w)"
  subgoal by (simp add: wr_inv_def wr_new_def)
  subgoal by (simp add: wr_inv_def wr_set_def)
  subgoal by (simp add: wr_inv_def wr_set_def stand_def)
  subgoal by (simp add: wr_inv_def wr_set_def standStraight_def)
  subgoal by (simp add: wr_inv_def wr_set_def standPenalty_def)
  subgoal by (simp add: wr_inv_def wr_set_def setWalk_def)
  subgoal by (simp add: wr_inv_def setKick_def)
  subgoal by (simp add: wr_inv_def setLineUp_def)
  subgoal by (simp add: wr_inv_def setLineUpParameters_def)
  subgoal by (simp add: wr_inv_def setLineUp_def setWalkKick_def)
  subgoal by (simp add: wr_inv_def setOdometryOffsets_def)
  subgoal by (simp add: wr_inv_def setWalkTarget_def)
  subgoal by (simp add: wr_inv_def setKickStepParams_def)
  subgoal by (simp add: wr_inv_def setWalkType_def)
  done

section \<open>Properties\<close>

text \<open>
  However the setters of the walk request are combined, a pending walk target or kick goes
  with the motion \<open>WALK\<close> or \<open>LINE_UP\<close>, and rotation around the target stays off: a stand, a step,
  a fall or a wait never carries a kick or a target over from an earlier request.
\<close>

theorem walk_request_consistent: "walk_requested w \<Longrightarrow> wr_inv w"
  by (induction rule: walk_requested.induct) (simp_all add: wr_inv_setters)

theorem walk_request_consistent_witness:
  "\<forall>w. wr_inv (stand (setKick 1500 0 True False (wr_new w))) \<and>
       wr_inv (setLineUp 100 20 0 False (setWalkTarget 500 0 0 False (wr_new w)))"
proof (intro allI conjI)
  fix w
  show "wr_inv (stand (setKick 1500 0 True False (wr_new w)))"
    by (rule walk_request_consistent) (intro walk_requested.stand walk_requested.setKick walk_requested.wr_new)
  show "wr_inv (setLineUp 100 20 0 False (setWalkTarget 500 0 0 False (wr_new w)))"
    by (rule walk_request_consistent)
      (intro walk_requested.setLineUp walk_requested.setWalkTarget walk_requested.wr_new)
qed

text \<open>
  Clearing the samples of one axis and adding a new one: the average of the x acceleration
  is the new sample, whatever was buffered; on the y axis, whose initialisation clears the x buffer
  instead, the buffered samples keep their weight and the cleared axis is the other one.
\<close>

theorem accel_init_only_clears_x:
  "getAvgAccelX (addAccelX a (initAccelX k)) = a \<and>
   getAvgAccelX (initAccelY k) = 0 \<and> getAvgAccelY (initAccelY k) = getAvgAccelY k"
  by (simp add: getAvgAccelX_def addAccelX_def initAccelX_def initAccelY_def getAvgAccelY_def
      rbs_getAverage_def rbs_add_def rbs_init_def)

text \<open>
  A side kick is requested for a definite leg only: with a switchable leg the request becomes
  the empty one, otherwise the angle is 90 degrees, negative for the left leg. Requests change nothing about the running kick.
\<close>

theorem side_kick_request:
  "kick_type (setSideKick leg d k) = (if leg = SWITCHABLE then NO_KICK else SIDE) \<and>
   desired_angle (setSideKick leg d k) = (case leg of LEFT \<Rightarrow> - pi / 2 | RIGHT \<Rightarrow> pi / 2 | SWITCHABLE \<Rightarrow> 0) \<and>
   kick_running (setSideKick leg d k) = kick_running k"
  by (cases leg) (simp_all add: setSideKick_def setNoKick_def kr_set_def)

end
