(* ===== verification/Rotation_3D.thy ===== *)
theory Rotation_3D
  imports Pose_Math
begin

text \<open>
  Spatial vectors, matrices, rotations and poses: \<open>src/core/math/Vector3.h\<close>, \<open>Matrix3x3.h\<close>,
  \<open>RotationMatrix.h\<close>, \<open>RotationMatrix.cpp\<close> and \<open>Pose3D.h\<close>, at the element type \<open>float\<close>. A matrix is its three
  columns, as in the code; \<open>RotationMatrix\<close> adds no state to \<open>Matrix3x3\<close>.
\<close>

section \<open>Vector3\<close>

record vector3 =
  wx :: real
  wy :: real
  wz :: real

abbreviation vec3 :: "real \<Rightarrow> real \<Rightarrow> real \<Rightarrow> vector3" where
  "vec3 x y z \<equiv> \<lparr>wx = x, wy = y, wz = z\<rparr>"

definition v3_add :: "vector3 \<Rightarrow> vector3 \<Rightarrow> vector3" where
  "v3_add v w = vec3 (wx v + wx w) (wy v + wy w) (wz v + wz w)"

definition v3_sub :: "vector3 \<Rightarrow> vector3 \<Rightarrow> vector3" where
  "v3_sub v w = vec3 (wx v - wx w) (wy v - wy w) (wz v - wz w)"

definition v3_scale :: "vector3 \<Rightarrow> real \<Rightarrow> vector3" where
  "v3_scale v factor = vec3 (wx v * factor) (wy v * factor) (wz v * factor)"

definition v3_divs :: "vector3 \<Rightarrow> real \<Rightarrow> vector3" where
  "v3_divs v factor = (if factor = 0 then v else vec3 (wx v / factor) (wy v / factor) (wz v / factor))"

definition v3_neg :: "vector3 \<Rightarrow> vector3" where
  "v3_neg v = v3_sub (vec3 0 0 0) v"

definition v3_inner :: "vector3 \<Rightarrow> vector3 \<Rightarrow> real" where
  "v3_inner v w = wx v * wx w + wy v * wy w + wz v * wz w"

definition v3_eq :: "vector3 \<Rightarrow> vector3 \<Rightarrow> bool" where
  "v3_eq v w = (wx v = wx w \<and> wy v = wy w \<and> wz v = wz w)"

definition v3_abs :: "vector3 \<Rightarrow> real" where
  "v3_abs v = sqrt (wx v * wx v + wy v * wy v + wz v * wz v)"

definition v3_squareAbs :: "vector3 \<Rightarrow> real" where
  "v3_squareAbs v = wx v * wx v + wy v * wy v + wz v * wz v"

definition v3_cross :: "vector3 \<Rightarrow> vector3 \<Rightarrow> vector3" where
  "v3_cross v w = vec3 (wy v * wz w - wz v * wy w) (wz v * wx w - wx v * wz w) (wx v * wy w - wy v * wx w)"

definition v3_normalize_to :: "vector3 \<Rightarrow> real \<Rightarrow> vector3" where
  "v3_normalize_to v len =
     (let lenghtOfVector = v3_abs v
      in if lenghtOfVector = 0 then v else v3_divs (v3_scale v len) lenghtOfVector)"

definition v3_normalize :: "vector3 \<Rightarrow> vector3" where
  "v3_normalize v =
     (let lenghtOfVector = v3_abs v in if lenghtOfVector = 0 then v else v3_divs v lenghtOfVector)"

section \<open>Matrix3x3\<close>

record matrix3x3 =
  mc0 :: vector3
  mc1 :: vector3
  mc2 :: vector3

abbreviation mat3 :: "vector3 \<Rightarrow> vector3 \<Rightarrow> vector3 \<Rightarrow> matrix3x3" where
  "mat3 u v w \<equiv> \<lparr>mc0 = u, mc1 = v, mc2 = w\<rparr>"

definition m3_identity :: matrix3x3 where
  "m3_identity = mat3 (vec3 1 0 0) (vec3 0 1 0) (vec3 0 0 1)"

definition m3_new :: "real \<Rightarrow> real \<Rightarrow> real \<Rightarrow> real \<Rightarrow> real \<Rightarrow> real \<Rightarrow> real \<Rightarrow> real \<Rightarrow> real \<Rightarrow> matrix3x3" where
  "m3_new a11 a12 a13 a21 a22 a23 a31 a32 a33 = mat3 (vec3 a11 a21 a31) (vec3 a12 a22 a32) (vec3 a13 a23 a33)"

definition m3_add :: "matrix3x3 \<Rightarrow> matrix3x3 \<Rightarrow> matrix3x3" where
  "m3_add m n = mat3 (v3_add (mc0 m) (mc0 n)) (v3_add (mc1 m) (mc1 n)) (v3_add (mc2 m) (mc2 n))"

definition m3_sub :: "matrix3x3 \<Rightarrow> matrix3x3 \<Rightarrow> matrix3x3" where
  "m3_sub m n = mat3 (v3_sub (mc0 m) (mc0 n)) (v3_sub (mc1 m) (mc1 n)) (v3_sub (mc2 m) (mc2 n))"

definition m3_apply :: "matrix3x3 \<Rightarrow> vector3 \<Rightarrow> vector3" where
  "m3_apply m v = v3_add (v3_add (v3_scale (mc0 m) (wx v)) (v3_scale (mc1 m) (wy v))) (v3_scale (mc2 m) (wz v))"

definition m3_mul :: "matrix3x3 \<Rightarrow> matrix3x3 \<Rightarrow> matrix3x3" where
  "m3_mul m n = mat3 (m3_apply m (mc0 n)) (m3_apply m (mc1 n)) (m3_apply m (mc2 n))"

definition m3_scale :: "matrix3x3 \<Rightarrow> real \<Rightarrow> matrix3x3" where
  "m3_scale m factor = mat3 (v3_scale (mc0 m) factor) (v3_scale (mc1 m) factor) (v3_scale (mc2 m) factor)"

definition m3_divs :: "matrix3x3 \<Rightarrow> real \<Rightarrow> matrix3x3" where
  "m3_divs m factor = m3_scale m (1 / factor)"

definition m3_eq :: "matrix3x3 \<Rightarrow> matrix3x3 \<Rightarrow> bool" where
  "m3_eq m n = (v3_eq (mc0 m) (mc0 n) \<and> v3_eq (mc1 m) (mc1 n) \<and> v3_eq (mc2 m) (mc2 n))"

definition m3_transpose :: "matrix3x3 \<Rightarrow> matrix3x3" where
  "m3_transpose m =
     mat3 (vec3 (wx (mc0 m)) (wx (mc1 m)) (wx (mc2 m)))
          (vec3 (wy (mc0 m)) (wy (mc1 m)) (wy (mc2 m)))
          (vec3 (wz (mc0 m)) (wz (mc1 m)) (wz (mc2 m)))"

definition m3_det :: "matrix3x3 \<Rightarrow> real" where
  "m3_det m =
     wx (mc0 m) * (wy (mc1 m) * wz (mc2 m) - wz (mc1 m) * wy (mc2 m)) +
     wy (mc0 m) * (wz (mc1 m) * wx (mc2 m) - wx (mc1 m) * wz (mc2 m)) +
     wz (mc0 m) * (wx (mc1 m) * wy (mc2 m) - wy (mc1 m) * wx (mc2 m))"

definition m3_det2 :: "real \<Rightarrow> real \<Rightarrow> real \<Rightarrow> real \<Rightarrow> real" where
  "m3_det2 a b c d = a * d - b * c"

definition m3_adjoint :: "matrix3x3 \<Rightarrow> matrix3x3" where
  "m3_adjoint m =
     mat3 (vec3 (m3_det2 (wy (mc1 m)) (wy (mc2 m)) (wz (mc1 m)) (wz (mc2 m)))
                (m3_det2 (wx (mc2 m)) (wx (mc1 m)) (wz (mc2 m)) (wz (mc1 m)))
                (m3_det2 (wx (mc1 m)) (wx (mc2 m)) (wy (mc1 m)) (wy (mc2 m))))
          (vec3 (m3_det2 (wy (mc2 m)) (wy (mc0 m)) (wz (mc2 m)) (wz (mc0 m)))
                (m3_det2 (wx (mc0 m)) (wx (mc2 m)) (wz (mc0 m)) (wz (mc2 m)))
                (m3_det2 (wx (mc2 m)) (wx (mc0 m)) (wy (mc2 m)) (wy (mc0 m))))
          (vec3 (m3_det2 (wy (mc0 m)) (wy (mc1 m)) (wz (mc0 m)) (wz (mc1 m)))
                (m3_det2 (wx (mc1 m)) (wx (mc0 m)) (wz (mc1 m)) (wz (mc0 m)))
                (m3_det2 (wx (mc0 m)) (wx (mc1 m)) (wy (mc0 m)) (wy (mc1 m))))"

definition m3_invert :: "matrix3x3 \<Rightarrow> matrix3x3" where
  "m3_invert m = m3_divs (m3_transpose (m3_adjoint m)) (m3_det m)"

section \<open>RotationMatrix\<close>

definition rm_ypr :: "real \<Rightarrow> real \<Rightarrow> real \<Rightarrow> matrix3x3" where
  "rm_ypr yaw pitch roll =
     (let cy = cos yaw; sy = sin yaw; cp = cos pitch; sp = sin pitch; cr = cos roll; sr = sin roll
      in mat3 (vec3 (cr * cp) (- sr * cy + cr * sp * sy) (sr * sy + cr * sp * cy))
              (vec3 (sr * cp) (cr * cy + sr * sp * sy) (- cr * sy + sr * sp * cy))
              (vec3 (- sp) (cp * sy) (cp * cy)))"

definition rm_axis_unit :: "vector3 \<Rightarrow> real \<Rightarrow> matrix3x3" where
  "rm_axis_unit axis angle =
     (let x = wx axis; y = wy axis; z = wz axis; si = sin angle; co = cos angle; v = 1 - co;
          xyv = x * y * v; xzv = x * z * v; yzv = y * z * v; xs = x * si; ys = y * si; zs = z * si
      in mat3 (vec3 (x * x * v + co) (xyv + zs) (xzv - ys))
              (vec3 (xyv - zs) (y * y * v + co) (yzv + xs))
              (vec3 (xzv + ys) (yzv - xs) (z * z * v + co)))"

definition rm_axis_angle :: "vector3 \<Rightarrow> real \<Rightarrow> matrix3x3" where
  "rm_axis_angle a angle = rm_axis_unit (v3_normalize a) angle"

definition rm_axis :: "vector3 \<Rightarrow> matrix3x3" where
  "rm_axis a = (let angle = v3_abs a in rm_axis_unit (v3_divs a angle) angle)"

definition rm_invert :: "matrix3x3 \<Rightarrow> matrix3x3" where
  "rm_invert m = m3_transpose m"

definition rm_rotateX :: "matrix3x3 \<Rightarrow> real \<Rightarrow> matrix3x3" where
  "rm_rotateX m angle =
     (let c = cos angle; s = sin angle
      in mat3 (mc0 m) (v3_add (v3_scale (mc1 m) c) (v3_scale (mc2 m) s)) (v3_sub (v3_scale (mc2 m) c) (v3_scale (mc1 m) s)))"

definition rm_rotateY :: "matrix3x3 \<Rightarrow> real \<Rightarrow> matrix3x3" where
  "rm_rotateY m angle =
     (let c = cos angle; s = sin angle
      in mat3 (v3_sub (v3_scale (mc0 m) c) (v3_scale (mc2 m) s)) (mc1 m) (v3_add (v3_scale (mc2 m) c) (v3_scale (mc0 m) s)))"

definition rm_rotateZ :: "matrix3x3 \<Rightarrow> real \<Rightarrow> matrix3x3" where
  "rm_rotateZ m angle =
     (let c = cos angle; s = sin angle
      in mat3 (v3_add (v3_scale (mc0 m) c) (v3_scale (mc1 m) s)) (v3_sub (v3_scale (mc1 m) c) (v3_scale (mc0 m) s)) (mc2 m))"

definition rm_getXAngle :: "matrix3x3 \<Rightarrow> real" where
  "rm_getXAngle m =
     (let h = sqrt (wy (mc2 m) * wy (mc2 m) + wz (mc2 m) * wz (mc2 m))
      in if h \<noteq> 0 then arccos (wz (mc2 m) / h) * (if wy (mc2 m) > 0 then - 1 else 1) else 0)"

definition rm_getYAngle :: "matrix3x3 \<Rightarrow> real" where
  "rm_getYAngle m =
     (let h = sqrt (wx (mc0 m) * wx (mc0 m) + wz (mc0 m) * wz (mc0 m))
      in if h \<noteq> 0 then arccos (wx (mc0 m) / h) * (if wz (mc0 m) > 0 then - 1 else 1) else 0)"

definition rm_getZAngle :: "matrix3x3 \<Rightarrow> real" where
  "rm_getZAngle m =
     (let h = sqrt (wx (mc0 m) * wx (mc0 m) + wy (mc0 m) * wy (mc0 m))
      in if h \<noteq> 0 then arccos (wx (mc0 m) / h) * (if wy (mc0 m) < 0 then - 1 else 1) else 0)"

definition rm_fromRotationX :: "real \<Rightarrow> matrix3x3" where
  "rm_fromRotationX angle = rm_rotateX m3_identity angle"

definition rm_fromRotationY :: "real \<Rightarrow> matrix3x3" where
  "rm_fromRotationY angle = rm_rotateY m3_identity angle"

definition rm_fromRotationZ :: "real \<Rightarrow> matrix3x3" where
  "rm_fromRotationZ angle = rm_rotateZ m3_identity angle"

text \<open>\<open>MVTools::isNearZero\<close> and the two conversions to an axis and an angle.\<close>

definition isNearZero :: "real \<Rightarrow> bool" where
  "isNearZero value = (value > - (1 / 10 ^ 18) \<and> value < 1 / 10 ^ 18)"

definition rm_getAngleAxis :: "matrix3x3 \<Rightarrow> vector3 \<times> real" where
  "rm_getAngleAxis m =
     (let cosAngle = ((wx (mc0 m) + wy (mc1 m) + wz (mc2 m)) - 1) / 2;
          angle = arccos (rg_limit \<lparr>rg_min = - 1, rg_max = 1\<rparr> cosAngle)
      in if isNearZero angle then (vec3 1 0 0, angle)
         else (v3_normalize (vec3 (wz (mc1 m) - wy (mc2 m)) (wx (mc2 m) - wz (mc0 m)) (wy (mc0 m) - wx (mc1 m))), angle))"

definition rm_getAngleAxisVector :: "matrix3x3 \<Rightarrow> vector3" where
  "rm_getAngleAxisVector m =
     (let co = (wx (mc0 m) + wy (mc1 m) + wz (mc2 m) - 1) * (1 / 2);
          co = (if co > 1 then 1 else if co < - 1 then 1 else co);
          angle = arccos co
      in if angle = 0 then vec3 0 0 0
         else v3_scale (vec3 (wz (mc1 m) - wy (mc2 m)) (wx (mc2 m) - wz (mc0 m)) (wy (mc0 m) - wx (mc1 m)))
                (angle / (2 * sin angle)))"

section \<open>Pose3D\<close>

record pose3D =
  rot3 :: matrix3x3
  trans3 :: vector3

definition p3d_default :: pose3D where
  "p3d_default = \<lparr>rot3 = m3_identity, trans3 = vec3 0 0 0\<rparr>"

definition p3d_of_pose2D :: "pose2D \<Rightarrow> pose3D" where
  "p3d_of_pose2D p =
     \<lparr>rot3 = rm_rotateZ m3_identity (- rotation p), trans3 = vec3 (vx (translation p)) (vy (translation p)) 0\<rparr>"

definition p3d_apply :: "pose3D \<Rightarrow> vector3 \<Rightarrow> vector3" where
  "p3d_apply p point = v3_add (m3_apply (rot3 p) point) (trans3 p)"

definition p3d_conc :: "pose3D \<Rightarrow> pose3D \<Rightarrow> pose3D" where
  "p3d_conc p other =
     (let p = p\<lparr>trans3 := p3d_apply p (trans3 other)\<rparr> in p\<lparr>rot3 := m3_mul (rot3 p) (rot3 other)\<rparr>)"

definition p3d_relativeTo :: "pose3D \<Rightarrow> pose3D \<Rightarrow> pose3D" where
  "p3d_relativeTo this other =
     \<lparr>rot3 = m3_mul (rm_invert (rot3 other)) (rot3 this),
      trans3 = m3_apply (rm_invert (rot3 other)) (v3_add (v3_neg (trans3 other)) (trans3 this))\<rparr>"

definition p3d_invert :: "pose3D \<Rightarrow> pose3D" where
  "p3d_invert this =
     (let r = rm_invert (rot3 this)
      in \<lparr>rot3 = r, trans3 = m3_apply r (v3_sub (vec3 0 0 0) (trans3 this))\<rparr>)"

definition p3d_translate :: "pose3D \<Rightarrow> vector3 \<Rightarrow> pose3D" where
  "p3d_translate p shift = p\<lparr>trans3 := p3d_apply p shift\<rparr>"

definition p3d_rotate :: "pose3D \<Rightarrow> matrix3x3 \<Rightarrow> pose3D" where
  "p3d_rotate p rot = p\<lparr>rot3 := m3_mul (rot3 p) rot\<rparr>"

definition p3d_rotateX :: "pose3D \<Rightarrow> real \<Rightarrow> pose3D" where
  "p3d_rotateX p angle = p\<lparr>rot3 := rm_rotateX (rot3 p) angle\<rparr>"

definition p3d_rotateY :: "pose3D \<Rightarrow> real \<Rightarrow> pose3D" where
  "p3d_rotateY p angle = p\<lparr>rot3 := rm_rotateY (rot3 p) angle\<rparr>"

definition p3d_rotateZ :: "pose3D \<Rightarrow> real \<Rightarrow> pose3D" where
  "p3d_rotateZ p angle = p\<lparr>rot3 := rm_rotateZ (rot3 p) angle\<rparr>"

definition p3d_relativeToGlobal2 :: "pose3D \<Rightarrow> pose2D \<Rightarrow> pose3D" where
  "p3d_relativeToGlobal2 this origin =
     (let retval = this; rot = rm_rotateZ m3_identity (rotation origin);
          t = m3_apply rot (trans3 retval);
          t = t\<lparr>wx := wx t + vx (translation origin)\<rparr>;
          t = t\<lparr>wy := wy t + vy (translation origin)\<rparr>
      in retval\<lparr>trans3 := t, rot3 := rm_rotateZ (rot3 retval) (rotation origin)\<rparr>)"

definition p3d_relativeToGlobal :: "pose3D \<Rightarrow> pose3D \<Rightarrow> pose3D" where
  "p3d_relativeToGlobal this origin =
     (let retval = this;
          retval = retval\<lparr>trans3 := m3_apply (rot3 origin) (trans3 retval)\<rparr>;
          retval = retval\<lparr>trans3 := v3_add (trans3 retval) (trans3 origin)\<rparr>
      in retval\<lparr>rot3 := m3_mul (rot3 origin) (rot3 retval)\<rparr>)"

definition p3d_globalToRelative2 :: "pose3D \<Rightarrow> pose2D \<Rightarrow> pose3D" where
  "p3d_globalToRelative2 this origin =
     (let retval = this; t = trans3 retval;
          t = t\<lparr>wx := wx t - vx (translation origin)\<rparr>;
          t = t\<lparr>wy := wy t - vy (translation origin)\<rparr>;
          rot = rm_rotateZ m3_identity (- rotation origin)
      in retval\<lparr>trans3 := m3_apply rot t, rot3 := rm_rotateZ (rot3 retval) (- rotation origin)\<rparr>)"

definition p3d_globalToRelative :: "pose3D \<Rightarrow> pose3D \<Rightarrow> pose3D" where
  "p3d_globalToRelative this origin =
     (let origin_2d = po_new 0 0 0;
          origin_2d = origin_2d\<lparr>translation := \<lparr>vx = wx (trans3 origin), vy = wy (trans3 origin)\<rparr>\<rparr>;
          origin_2d = origin_2d\<lparr>rotation := rm_getZAngle (rot3 origin)\<rparr>
      in p3d_globalToRelative2 this origin_2d)"

section \<open>Matrix algebra\<close>

lemma v3_eqI: "wx v = wx w \<Longrightarrow> wy v = wy w \<Longrightarrow> wz v = wz w \<Longrightarrow> v = (w :: vector3)"
  by simp

lemma m3_eqI: "mc0 m = mc0 n \<Longrightarrow> mc1 m = mc1 n \<Longrightarrow> mc2 m = mc2 n \<Longrightarrow> m = (n :: matrix3x3)"
  by simp

lemmas v3_defs = v3_add_def v3_sub_def v3_scale_def v3_neg_def

lemma m3_apply_mul: "m3_apply (m3_mul m n) v = m3_apply m (m3_apply n v)"
  by (rule v3_eqI) (simp_all add: m3_apply_def m3_mul_def v3_defs algebra_simps)

lemma m3_mul_assoc: "m3_mul (m3_mul m n) k = m3_mul m (m3_mul n k)"
  by (simp only: m3_mul_def [of "m3_mul m n" k] m3_apply_mul) (simp add: m3_mul_def)

lemma m3_apply_identity [simp]: "m3_apply m3_identity v = v"
  by (rule v3_eqI) (simp_all add: m3_apply_def m3_identity_def v3_defs)

lemma m3_identity_mul [simp]: "m3_mul m3_identity m = m" "m3_mul m m3_identity = m"
  by (simp add: m3_mul_def) (simp add: m3_mul_def m3_identity_def m3_apply_def v3_defs)

lemma m3_transpose_mul: "m3_transpose (m3_mul m n) = m3_mul (m3_transpose n) (m3_transpose m)"
  by (rule m3_eqI) (simp_all add: m3_transpose_def m3_mul_def m3_apply_def v3_defs algebra_simps)

lemma m3_transpose_transpose [simp]: "m3_transpose (m3_transpose m) = m"
  by (simp add: m3_transpose_def)

lemma m3_det_mul: "m3_det (m3_mul m n) = m3_det m * m3_det n"
  by (simp add: m3_det_def m3_mul_def m3_apply_def v3_defs algebra_simps)

lemma m3_det_transpose [simp]: "m3_det (m3_transpose m) = m3_det m"
  by (simp add: m3_det_def m3_transpose_def algebra_simps)

lemma m3_apply_add: "m3_apply m (v3_add v w) = v3_add (m3_apply m v) (m3_apply m w)"
  by (rule v3_eqI) (simp_all add: m3_apply_def v3_defs algebra_simps)

text \<open>Proper rotations: orthogonal matrices of determinant one.\<close>

definition is_rotation :: "matrix3x3 \<Rightarrow> bool" where
  "is_rotation m \<longleftrightarrow> m3_mul m (m3_transpose m) = m3_identity \<and> m3_mul (m3_transpose m) m = m3_identity \<and> m3_det m = 1"

lemma is_rotation_mul: "is_rotation m \<Longrightarrow> is_rotation n \<Longrightarrow> is_rotation (m3_mul m n)"
  unfolding is_rotation_def m3_transpose_mul m3_det_mul
  by (metis m3_identity_mul(1) m3_mul_assoc mult_1)

lemma is_rotation_transpose: "is_rotation (m3_transpose m) \<longleftrightarrow> is_rotation m"
  by (auto simp: is_rotation_def)

lemma is_rotation_identity [simp]: "is_rotation m3_identity"
  by (simp add: is_rotation_def m3_det_def) (simp add: m3_identity_def m3_transpose_def)

lemma sc1: "sin a * sin a + cos a * cos a = (1::real)"
  using sin_cos_squared_add [of a] by (simp add: power2_eq_square)

lemma elementary_matrices:
  "rm_fromRotationX a = mat3 (vec3 1 0 0) (vec3 0 (cos a) (sin a)) (vec3 0 (- sin a) (cos a))"
  "rm_fromRotationY a = mat3 (vec3 (cos a) 0 (- sin a)) (vec3 0 1 0) (vec3 (sin a) 0 (cos a))"
  "rm_fromRotationZ a = mat3 (vec3 (cos a) (sin a) 0) (vec3 (- sin a) (cos a) 0) (vec3 0 0 1)"
  by (simp_all add: rm_fromRotationX_def rm_fromRotationY_def rm_fromRotationZ_def rm_rotateX_def
      rm_rotateY_def rm_rotateZ_def m3_identity_def v3_defs Let_def)

lemma is_rotation_elementary [simp]:
  "is_rotation (rm_fromRotationX a)" "is_rotation (rm_fromRotationY a)" "is_rotation (rm_fromRotationZ a)"
  using sc1 [of a]
  by (simp_all add: is_rotation_def elementary_matrices m3_identity_def m3_mul_def m3_apply_def m3_transpose_def v3_defs m3_det_def add.commute)

lemma rotate_is_mul:
  "rm_rotateX m a = m3_mul m (rm_fromRotationX a)" "rm_rotateY m a = m3_mul m (rm_fromRotationY a)"
  "rm_rotateZ m a = m3_mul m (rm_fromRotationZ a)"
  by (simp_all add: elementary_matrices rm_rotateX_def rm_rotateY_def
      rm_rotateZ_def m3_mul_def m3_apply_def v3_defs Let_def)

lemma rm_ypr_transpose:
  "rm_ypr y p r = m3_transpose (m3_mul (m3_mul (rm_fromRotationZ r) (rm_fromRotationY p)) (rm_fromRotationX y))"
  by (rule m3_eqI) (simp_all add: rm_ypr_def elementary_matrices m3_mul_def m3_apply_def v3_defs m3_transpose_def Let_def algebra_simps)

lemma is_rotation_axis_unit:
  assumes "v3_squareAbs u = 1"
  shows "is_rotation (rm_axis_unit u a)"
proof -
  have "\<And>x y z s c :: real. x * x + y * y + z * z = 1 \<Longrightarrow> s * s + c * c = 1 \<Longrightarrow>
    is_rotation (mat3 (vec3 (x * x * (1 - c) + c) (x * y * (1 - c) + z * s) (x * z * (1 - c) - y * s))
              (vec3 (x * y * (1 - c) - z * s) (y * y * (1 - c) + c) (y * z * (1 - c) + x * s))
              (vec3 (x * z * (1 - c) + y * s) (y * z * (1 - c) - x * s) (z * z * (1 - c) + c)))"
    unfolding is_rotation_def m3_mul_def m3_apply_def m3_transpose_def v3_defs m3_det_def m3_identity_def
    by (simp, intro conjI; algebra)
  then show ?thesis using assms sc1 [of a] by (simp add: rm_axis_unit_def Let_def v3_squareAbs_def)
qed

lemma v3_squareAbs_normalize: "v \<noteq> vec3 0 0 0 \<Longrightarrow> v3_squareAbs (v3_normalize v) = 1"
proof -
  assume "v \<noteq> vec3 0 0 0"
  then have "wx v \<noteq> 0 \<or> wy v \<noteq> 0 \<or> wz v \<noteq> 0" by (metis v3_eqI vector3.select_convs)
  then have pos: "0 < v3_squareAbs v"
    unfolding v3_squareAbs_def power2_eq_square [symmetric]
    by (smt (verit) zero_less_power2 zero_le_power2)
  have a: "v3_abs v = sqrt (v3_squareAbs v)" by (simp add: v3_abs_def v3_squareAbs_def)
  have "v3_squareAbs (v3_divs v k) = v3_squareAbs v / (k * k)" if "k \<noteq> 0" for k
    using that by (simp add: v3_squareAbs_def v3_divs_def add_divide_distrib)
  then show ?thesis using pos a by (simp add: v3_normalize_def Let_def)
qed

lemma rotation_cancel:
  "is_rotation m \<Longrightarrow> m3_apply (rm_invert m) (m3_apply m v) = v"
  "is_rotation m \<Longrightarrow> m3_apply m (m3_apply (rm_invert m) v) = v"
  by (simp_all add: is_rotation_def rm_invert_def flip: m3_apply_mul)

lemma rotation_mul_cancel:
  "is_rotation m \<Longrightarrow> m3_mul (rm_invert m) (m3_mul m n) = n" "is_rotation m \<Longrightarrow> m3_mul m (m3_mul (rm_invert m) n) = n"
  by (simp_all add: is_rotation_def rm_invert_def flip: m3_mul_assoc)

lemma arccos_signed:
  assumes "- pi < a" "a \<le> pi"
  shows "arccos (cos a) * (if sin a < 0 then - 1 else 1) = a"
proof (cases "0 \<le> a")
  case True
  then have "0 \<le> sin a" using assms by (intro sin_ge_zero) auto
  then show ?thesis using True assms by (simp add: arccos_cos)
next
  case False
  then have "0 < sin (- a)" using assms by (intro sin_gt_zero) auto
  then show ?thesis using False assms arccos_cos2 [of a] by simp
qed

section \<open>Properties\<close>

text \<open>
  Every way to build or change a rotation gives a proper rotation: the RPY constructor, the
  axis-angle constructor on a non-zero axis, the elementary rotations, products, and the rotations
  about the axes applied to a proper rotation.
\<close>

theorem rotations_are_proper:
  "is_rotation (rm_ypr y p r) \<and>
   (v \<noteq> vec3 0 0 0 \<longrightarrow> is_rotation (rm_axis_angle v a) \<and> is_rotation (rm_axis v)) \<and>
   (is_rotation m \<longrightarrow> is_rotation (rm_rotateX m a) \<and> is_rotation (rm_rotateY m a) \<and> is_rotation (rm_rotateZ m a) \<and>
      is_rotation (rm_invert m) \<and> (is_rotation n \<longrightarrow> is_rotation (m3_mul m n)))"
proof -
  have "rm_axis v = rm_axis_unit (v3_normalize v) (v3_abs v)" if "v \<noteq> vec3 0 0 0"
    using v3_squareAbs_normalize [OF that]
    by (auto simp: rm_axis_def Let_def v3_normalize_def v3_divs_def)
  then show ?thesis
    by (auto simp: rm_ypr_transpose is_rotation_transpose rotate_is_mul rm_axis_angle_def rm_invert_def
        intro!: is_rotation_mul is_rotation_axis_unit v3_squareAbs_normalize)
qed

theorem rotations_are_proper_witness: "is_rotation (rm_rotateX (rm_axis_angle (vec3 1 2 3) 1) 2)"
  using rotations_are_proper [of 0 0 0 "vec3 1 2 3" 1 "rm_axis_angle (vec3 1 2 3) 1" m3_identity]
    rotations_are_proper [of 0 0 0 "vec3 1 2 3" 2 "rm_axis_angle (vec3 1 2 3) 1" m3_identity] by simp

text \<open>
  The RPY constructor returns the transpose, that is the inverse, of the product
  \<open>R(z,roll)*R(y,pitch)*R(x,yaw)\<close> that its documentation names.
\<close>

theorem rpy_is_inverse:
  "m3_mul (rm_ypr yaw pitch roll) (m3_mul (m3_mul (rm_fromRotationZ roll) (rm_fromRotationY pitch)) (rm_fromRotationX yaw)) = m3_identity"
proof -
  let ?m = "m3_mul (m3_mul (rm_fromRotationZ roll) (rm_fromRotationY pitch)) (rm_fromRotationX yaw)"
  have "is_rotation ?m" by (intro is_rotation_mul) simp_all
  then show ?thesis by (simp add: rm_ypr_transpose is_rotation_def)
qed

text \<open>
  The angle of an elementary rotation is recovered: \<open>getXAngle\<close>, \<open>getYAngle\<close> and \<open>getZAngle\<close> invert
  \<open>fromRotationX\<close>, \<open>fromRotationY\<close> and \<open>fromRotationZ\<close> on \<open>(-pi, pi]\<close>.
\<close>

theorem elementary_angles:
  assumes "- pi < a" and "a \<le> pi"
  shows "rm_getXAngle (rm_fromRotationX a) = a \<and> rm_getYAngle (rm_fromRotationY a) = a \<and> rm_getZAngle (rm_fromRotationZ a) = a"
  using arccos_signed [OF assms] sc1 [of a]
  by (simp add: rm_getXAngle_def rm_getYAngle_def rm_getZAngle_def elementary_matrices Let_def add.commute)

theorem elementary_angles_witness: "rm_getZAngle (rm_fromRotationZ 1) = 1"
  using elementary_angles [of 1] pi_ge_two by simp

lemma axis_unit_trace:
  assumes "v3_squareAbs u = 1"
  shows "wx (mc0 (rm_axis_unit u a)) + wy (mc1 (rm_axis_unit u a)) + wz (mc2 (rm_axis_unit u a)) = 1 + 2 * cos a"
proof -
  have "wx (mc0 (rm_axis_unit u a)) + wy (mc1 (rm_axis_unit u a)) + wz (mc2 (rm_axis_unit u a))
      = v3_squareAbs u * (1 - cos a) + 3 * cos a"
    by (simp add: rm_axis_unit_def Let_def v3_squareAbs_def algebra_simps)
  then show ?thesis using assms by simp
qed

lemma axis_unit_skew:
  "vec3 (wz (mc1 (rm_axis_unit u a)) - wy (mc2 (rm_axis_unit u a))) (wx (mc2 (rm_axis_unit u a)) - wz (mc0 (rm_axis_unit u a)))
      (wy (mc0 (rm_axis_unit u a)) - wx (mc1 (rm_axis_unit u a))) = v3_scale u (2 * sin a)"
  by (simp add: rm_axis_unit_def Let_def v3_scale_def)

lemma normalize_scaled: "v3_squareAbs u = 1 \<Longrightarrow> 0 < k \<Longrightarrow> v3_normalize (v3_scale u k) = u"
proof -
  assume u: "v3_squareAbs u = 1" and k: "0 < k"
  have "wx u * k * (wx u * k) + wy u * k * (wy u * k) + wz u * k * (wz u * k) = v3_squareAbs u * (k * k)"
    by (simp add: v3_squareAbs_def algebra_simps)
  then have "v3_abs (v3_scale u k) = k" using u k by (simp add: v3_abs_def v3_scale_def)
  then show ?thesis using k by (simp add: v3_normalize_def v3_divs_def v3_scale_def)
qed

text \<open>
  \<open>getAngleAxis\<close> inverts the axis-angle constructor: for an axis that is not zero and an angle
  between the threshold for zero and pi it returns the normalised axis and the angle.
\<close>

theorem angle_axis_roundtrip:
  assumes "v \<noteq> vec3 0 0 0" and "1 / 10 ^ 18 \<le> a" and "a < pi"
  shows "rm_getAngleAxis (rm_axis_angle v a) = (v3_normalize v, a)"
proof -
  have a: "0 < a" using assms(2) by (rule less_le_trans [rotated]) simp
  let ?u = "v3_normalize v"
  have u: "v3_squareAbs ?u = 1" using v3_squareAbs_normalize [OF assms(1)] .
  have "rg_limit \<lparr>rg_min = - 1, rg_max = 1\<rparr> (cos a) = cos a"
    by (simp add: rg_limit_def not_less)
  moreover have "arccos (cos a) = a" using a assms(3) by (simp add: arccos_cos)
  moreover have "\<not> isNearZero a" using assms(2) by (simp add: isNearZero_def)
  moreover have "v3_normalize (v3_scale ?u (2 * sin a)) = ?u"
    using sin_gt_zero [OF a assms(3)] by (intro normalize_scaled u) simp
  ultimately show ?thesis
    using axis_unit_trace [OF u, of a] unfolding rm_getAngleAxis_def rm_axis_angle_def axis_unit_skew by simp
qed

theorem angle_axis_roundtrip_witness: "snd (rm_getAngleAxis (rm_axis_angle (vec3 0 3 4) 1)) = 1"
  using angle_axis_roundtrip [of "vec3 0 3 4" 1] pi_ge_two by simp

text \<open>
  Inverting a spatial matrix with non-zero determinant through its adjoint gives its inverse.
\<close>

theorem matrix3x3_inverse:
  assumes "m3_det m \<noteq> 0"
  shows "m3_mul m (m3_invert m) = m3_identity \<and> m3_mul (m3_invert m) m = m3_identity \<and> m3_det (m3_mul m n) = m3_det m * m3_det n"
proof -
  let ?f = "1 / m3_det m"
  have f: "m3_det m * ?f = 1" using assms by simp
  have adj: "m3_mul m (m3_transpose (m3_adjoint m)) = m3_scale m3_identity (m3_det m)"
    "m3_mul (m3_transpose (m3_adjoint m)) m = m3_scale m3_identity (m3_det m)"
    by (simp_all add: m3_mul_def m3_apply_def m3_transpose_def m3_adjoint_def m3_det2_def m3_identity_def m3_scale_def
        v3_defs m3_det_def algebra_simps)
  have sc: "m3_mul m (m3_scale n k) = m3_scale (m3_mul m n) k" "m3_mul (m3_scale n k) m = m3_scale (m3_mul n m) k" for n k
    by (simp_all add: m3_mul_def m3_scale_def m3_apply_def v3_defs algebra_simps)
  have "m3_scale (m3_scale m3_identity (m3_det m)) ?f = m3_identity"
    using f by (simp add: m3_scale_def m3_identity_def v3_scale_def)
  then show ?thesis by (simp add: m3_invert_def m3_divs_def sc adj m3_det_mul)
qed

theorem matrix3x3_inverse_witness: "m3_mul (m3_new 2 0 0 0 3 0 0 0 4) (m3_invert (m3_new 2 0 0 0 3 0 0 0 4)) = m3_identity"
  using matrix3x3_inverse [of "m3_new 2 0 0 0 3 0 0 0 4"] by (simp add: m3_det_def m3_new_def)

text \<open>
  A spatial pose acts as a transformation: concatenation composes, the inverse undoes, and
  \<open>relativeTo\<close> is the difference of concatenation.
\<close>

theorem pose3D_action:
  assumes "is_rotation (rot3 p)"
  shows "p3d_apply (p3d_conc p q) v = p3d_apply p (p3d_apply q v) \<and>
    p3d_apply (p3d_invert p) (p3d_apply p v) = v \<and> p3d_apply p (p3d_apply (p3d_invert p) v) = v \<and>
    p3d_conc p (p3d_relativeTo q p) = q \<and> p3d_relativeTo (p3d_conc p q) p = q"
proof -
  note c = rotation_cancel [OF assms] rotation_mul_cancel [OF assms]
  have z: "v3_add (v3_add u (v3_sub (vec3 0 0 0) t)) t = u" "v3_add (v3_add u t) (v3_sub (vec3 0 0 0) t) = u"
      "v3_add (v3_add (v3_neg t) u) t = u" "v3_add (v3_neg t) (v3_add u t) = u" for t u
    by (simp_all add: v3_defs)
  have assoc: "v3_add (v3_add t u) w = v3_add t (v3_add u w)" for t u w by (simp add: v3_defs)
  have sum: "v3_add (m3_apply r (v3_add u t)) (m3_apply r (v3_sub (vec3 0 0 0) t)) = m3_apply r u"
    "v3_add (m3_apply r u) (m3_apply r t) = m3_apply r (v3_add u t)" for r u t
    using m3_apply_add [of r "v3_add u t" "v3_sub (vec3 0 0 0) t"] m3_apply_add [of r u t] by (simp_all only: z)
  have "p3d_apply (p3d_invert p) (p3d_apply p v) = v"
    unfolding p3d_apply_def p3d_invert_def Let_def by (simp only: pose3D.simps sum c z)
  moreover have "p3d_apply p (p3d_apply (p3d_invert p) v) = v"
    unfolding p3d_apply_def p3d_invert_def Let_def by (simp only: pose3D.simps sum(2) c z)
  moreover have "p3d_conc p (p3d_relativeTo q p) = q" "p3d_relativeTo (p3d_conc p q) p = q"
    by (simp_all add: p3d_conc_def p3d_relativeTo_def p3d_apply_def Let_def c z)
  ultimately show ?thesis
    by (simp add: p3d_conc_def p3d_apply_def Let_def m3_apply_mul m3_apply_add assoc)
qed

theorem pose3D_action_witness: "p3d_apply (p3d_invert p3d_default) (p3d_apply p3d_default (vec3 1 2 3)) = vec3 1 2 3"
  using pose3D_action [of p3d_default p3d_default "vec3 1 2 3"] by (simp add: p3d_default_def)

lemma relativeToGlobal2_alt:
  "p3d_relativeToGlobal2 p f = \<lparr>rot3 = rm_rotateZ (rot3 p) (rotation f),
     trans3 = v3_add (m3_apply (rm_rotateZ m3_identity (rotation f)) (trans3 p)) (vec3 (vx (translation f)) (vy (translation f)) 0)\<rparr>"
  by (simp add: p3d_relativeToGlobal2_def Let_def v3_add_def)

lemma globalToRelative2_alt:
  "p3d_globalToRelative2 p f = \<lparr>rot3 = rm_rotateZ (rot3 p) (- rotation f),
     trans3 = m3_apply (rm_rotateZ m3_identity (- rotation f)) (v3_sub (trans3 p) (vec3 (vx (translation f)) (vy (translation f)) 0))\<rparr>"
  by (cases p; cases "trans3 p") (simp add: p3d_globalToRelative2_def Let_def v3_sub_def)

text \<open>
  The conversions of a spatial pose by a planar origin are inverse to each other. The conversion
  from a planar pose, however, turns the opposite way: on the field plane it acts as the planar pose with
  the negated rotation.
\<close>

theorem pose3D_planar_frames:
  "p3d_globalToRelative2 (p3d_relativeToGlobal2 p f) f = p \<and> p3d_relativeToGlobal2 (p3d_globalToRelative2 p f) f = p \<and>
   p3d_apply (p3d_of_pose2D f) (vec3 x y 0) =
     (let w = po_apply (f\<lparr>rotation := - rotation f\<rparr>) \<lparr>vx = x, vy = y\<rparr> in vec3 (vx w) (vy w) 0)"
proof -
  have zz: "m3_mul (rm_fromRotationZ a) (rm_fromRotationZ b) = rm_fromRotationZ (a + b)" for a b
    by (simp add: elementary_matrices m3_mul_def m3_apply_def v3_defs cos_add sin_add algebra_simps)
  have z0: "rm_fromRotationZ 0 = m3_identity" by (simp add: elementary_matrices m3_identity_def)
  have rr: "rm_rotateZ (rm_rotateZ m a) (- a) = m" "rm_rotateZ (rm_rotateZ m (- a)) a = m" for m a
    by (simp_all add: rotate_is_mul m3_mul_assoc zz z0)
  have aa: "m3_apply (rm_rotateZ m3_identity (- a)) (m3_apply (rm_rotateZ m3_identity a) v) = v"
    "m3_apply (rm_rotateZ m3_identity a) (m3_apply (rm_rotateZ m3_identity (- a)) v) = v" for a v
    unfolding rotate_is_mul m3_identity_mul m3_apply_mul [symmetric] zz by (simp_all add: z0)
  have c: "v3_sub (v3_add u t) t = u" "v3_add (v3_sub u t) t = u" for u t by (simp_all add: v3_defs)
  have "p3d_globalToRelative2 (p3d_relativeToGlobal2 p f) f = p" "p3d_relativeToGlobal2 (p3d_globalToRelative2 p f) f = p"
    unfolding relativeToGlobal2_alt globalToRelative2_alt by (simp_all add: rr aa c)
  moreover have "p3d_apply (p3d_of_pose2D f) (vec3 x y 0) =
     (let w = po_apply (f\<lparr>rotation := - rotation f\<rparr>) \<lparr>vx = x, vy = y\<rparr> in vec3 (vx w) (vy w) 0)"
    by (rule v3_eqI) (simp_all add: p3d_apply_def p3d_of_pose2D_def rotate_is_mul elementary_matrices
        m3_apply_def v3_defs po_apply_def v2_add_def Let_def)
  ultimately show ?thesis by blast
qed

end
