(* ===== verification/Body_Blocks.thy ===== *)
theory Body_Blocks
  imports Memory_Blocks Rotation_3D
begin

text \<open>
  The description of the body and the blocks of the sensor and kinematics modules: body parts
  (\<open>core/common/RobotInfo.h\<close>), the measures and masses of the robot models (\<open>RobotDimensions.h\<close>,
  \<open>MassCalibration.h\<close>), the sensor block, its calibration and the body model block (\<open>core/memory\<close>).
  Parts and measures are used with computed indices and are the numbers of their enumerations; an array
  over them is a function on these numbers.
\<close>

section \<open>Body parts\<close>

type_synonym body_part = nat

abbreviation (input) neck :: body_part where "neck \<equiv> 0"
abbreviation (input) head :: body_part where "head \<equiv> 1"
abbreviation (input) top_camera :: body_part where "top_camera \<equiv> 2"
abbreviation (input) bottom_camera :: body_part where "bottom_camera \<equiv> 3"
abbreviation (input) left_shoulder :: body_part where "left_shoulder \<equiv> 4"
abbreviation (input) left_bicep :: body_part where "left_bicep \<equiv> 5"
abbreviation (input) left_elbow :: body_part where "left_elbow \<equiv> 6"
abbreviation (input) left_forearm :: body_part where "left_forearm \<equiv> 7"
abbreviation (input) left_hand :: body_part where "left_hand \<equiv> 8"
abbreviation (input) right_shoulder :: body_part where "right_shoulder \<equiv> 9"
abbreviation (input) right_bicep :: body_part where "right_bicep \<equiv> 10"
abbreviation (input) right_elbow :: body_part where "right_elbow \<equiv> 11"
abbreviation (input) right_forearm :: body_part where "right_forearm \<equiv> 12"
abbreviation (input) right_hand :: body_part where "right_hand \<equiv> 13"
abbreviation (input) left_pelvis :: body_part where "left_pelvis \<equiv> 14"
abbreviation (input) left_hip :: body_part where "left_hip \<equiv> 15"
abbreviation (input) left_thigh :: body_part where "left_thigh \<equiv> 16"
abbreviation (input) left_tibia :: body_part where "left_tibia \<equiv> 17"
abbreviation (input) left_ankle :: body_part where "left_ankle \<equiv> 18"
abbreviation (input) left_foot :: body_part where "left_foot \<equiv> 19"
abbreviation (input) left_bottom_foot :: body_part where "left_bottom_foot \<equiv> 20"
abbreviation (input) right_pelvis :: body_part where "right_pelvis \<equiv> 21"
abbreviation (input) right_hip :: body_part where "right_hip \<equiv> 22"
abbreviation (input) right_thigh :: body_part where "right_thigh \<equiv> 23"
abbreviation (input) right_tibia :: body_part where "right_tibia \<equiv> 24"
abbreviation (input) right_ankle :: body_part where "right_ankle \<equiv> 25"
abbreviation (input) right_foot :: body_part where "right_foot \<equiv> 26"
abbreviation (input) right_bottom_foot :: body_part where "right_bottom_foot \<equiv> 27"
abbreviation (input) torso :: body_part where "torso \<equiv> 28"
abbreviation (input) virtual_base :: body_part where "virtual_base \<equiv> 29"
abbreviation (input) NUM_PARTS :: nat where "NUM_PARTS \<equiv> 30"

section \<open>Measures\<close>

type_synonym dimension = nat

abbreviation (input) hipOffsetY :: dimension where "hipOffsetY \<equiv> 0"
abbreviation (input) lengthBetweenLegs :: dimension where "lengthBetweenLegs \<equiv> 1"
abbreviation (input) upperLegLength :: dimension where "upperLegLength \<equiv> 2"
abbreviation (input) lowerLegLength :: dimension where "lowerLegLength \<equiv> 3"
abbreviation (input) torsoHipRoll :: dimension where "torsoHipRoll \<equiv> 4"
abbreviation (input) torsoToHip :: dimension where "torsoToHip \<equiv> 5"
abbreviation (input) torsoToHipZ :: dimension where "torsoToHipZ \<equiv> 6"
abbreviation (input) torsoToHeadPan :: dimension where "torsoToHeadPan \<equiv> 7"
abbreviation (input) zLegJoint1ToHeadPan :: dimension where "zLegJoint1ToHeadPan \<equiv> 8"
abbreviation (input) hipOffsetZ :: dimension where "hipOffsetZ \<equiv> 9"
abbreviation (input) neckOffsetZ :: dimension where "neckOffsetZ \<equiv> 10"
abbreviation (input) armOffset1 :: dimension where "armOffset1 \<equiv> 11"
abbreviation (input) armOffset2 :: dimension where "armOffset2 \<equiv> 12"
abbreviation (input) armOffset3 :: dimension where "armOffset3 \<equiv> 13"
abbreviation (input) upperArmLength :: dimension where "upperArmLength \<equiv> 14"
abbreviation (input) lowerArmLength :: dimension where "lowerArmLength \<equiv> 15"
abbreviation (input) elbowOffsetY :: dimension where "elbowOffsetY \<equiv> 16"
abbreviation (input) footHeight :: dimension where "footHeight \<equiv> 17"
abbreviation (input) headTiltOffset :: dimension where "headTiltOffset \<equiv> 18"
abbreviation (input) headPanOffset :: dimension where "headPanOffset \<equiv> 19"
abbreviation (input) xHeadTiltToBottomCamera :: dimension where "xHeadTiltToBottomCamera \<equiv> 20"
abbreviation (input) zHeadTiltToBottomCamera :: dimension where "zHeadTiltToBottomCamera \<equiv> 21"
abbreviation (input) xHeadTiltToTopCamera :: dimension where "xHeadTiltToTopCamera \<equiv> 22"
abbreviation (input) zHeadTiltToTopCamera :: dimension where "zHeadTiltToTopCamera \<equiv> 23"
abbreviation (input) tiltOffsetToBottomCamera :: dimension where "tiltOffsetToBottomCamera \<equiv> 24"
abbreviation (input) rollOffsetToBottomCamera :: dimension where "rollOffsetToBottomCamera \<equiv> 25"
abbreviation (input) yawOffsetToBottomCamera :: dimension where "yawOffsetToBottomCamera \<equiv> 26"
abbreviation (input) tiltOffsetToTopCamera :: dimension where "tiltOffsetToTopCamera \<equiv> 27"
abbreviation (input) rollOffsetToTopCamera :: dimension where "rollOffsetToTopCamera \<equiv> 28"
abbreviation (input) yawOffsetToTopCamera :: dimension where "yawOffsetToTopCamera \<equiv> 29"
abbreviation (input) headTiltFactorBottomCamera :: dimension where "headTiltFactorBottomCamera \<equiv> 30"
abbreviation (input) headTiltFactorTopCamera :: dimension where "headTiltFactorTopCamera \<equiv> 31"
abbreviation (input) headRollFactorBottomCamera :: dimension where "headRollFactorBottomCamera \<equiv> 32"
abbreviation (input) headRollFactorTopCamera :: dimension where "headRollFactorTopCamera \<equiv> 33"
abbreviation (input) motionCycleTime :: dimension where "motionCycleTime \<equiv> 34"
abbreviation (input) footLength :: dimension where "footLength \<equiv> 35"
abbreviation (input) footWidth :: dimension where "footWidth \<equiv> 36"
abbreviation (input) backOfFootToAnkle :: dimension where "backOfFootToAnkle \<equiv> 37"
abbreviation (input) ankleToFootCenter :: dimension where "ankleToFootCenter \<equiv> 38"
abbreviation (input) FSR_LFL_Offset1 :: dimension where "FSR_LFL_Offset1 \<equiv> 39"
abbreviation (input) FSR_LFL_Offset2 :: dimension where "FSR_LFL_Offset2 \<equiv> 40"
abbreviation (input) FSR_LFL_Offset3 :: dimension where "FSR_LFL_Offset3 \<equiv> 41"
abbreviation (input) FSR_LFR_Offset1 :: dimension where "FSR_LFR_Offset1 \<equiv> 42"
abbreviation (input) FSR_LFR_Offset2 :: dimension where "FSR_LFR_Offset2 \<equiv> 43"
abbreviation (input) FSR_LFR_Offset3 :: dimension where "FSR_LFR_Offset3 \<equiv> 44"
abbreviation (input) FSR_LRL_Offset1 :: dimension where "FSR_LRL_Offset1 \<equiv> 45"
abbreviation (input) FSR_LRL_Offset2 :: dimension where "FSR_LRL_Offset2 \<equiv> 46"
abbreviation (input) FSR_LRL_Offset3 :: dimension where "FSR_LRL_Offset3 \<equiv> 47"
abbreviation (input) FSR_LRR_Offset1 :: dimension where "FSR_LRR_Offset1 \<equiv> 48"
abbreviation (input) FSR_LRR_Offset2 :: dimension where "FSR_LRR_Offset2 \<equiv> 49"
abbreviation (input) FSR_LRR_Offset3 :: dimension where "FSR_LRR_Offset3 \<equiv> 50"
abbreviation (input) NUM_DIMENSIONS :: nat where "NUM_DIMENSIONS \<equiv> 51"

record robot_dimensions =
  dim_values :: "dimension \<Rightarrow> real"
  isAngle :: "dimension \<Rightarrow> bool"

definition set_dim :: "dimension \<Rightarrow> ((dimension \<Rightarrow> real) \<Rightarrow> real) \<Rightarrow> robot_dimensions \<Rightarrow> robot_dimensions" where
  "set_dim d e r = r\<lparr>dim_values := (dim_values r)(d := e (dim_values r))\<rparr>"

definition set_angle :: "dimension \<Rightarrow> robot_dimensions \<Rightarrow> robot_dimensions" where
  "set_angle d r = r\<lparr>isAngle := (isAngle r)(d := True)\<rparr>"

definition rd_setNaoH21 :: "robot_dimensions \<Rightarrow> robot_dimensions" where
  "rd_setNaoH21 r =
     fold (\<lambda>f. f)
      [set_dim torsoHipRoll (\<lambda>v. 48 * DEG_T_RAD),
       set_angle torsoHipRoll,
       set_dim hipOffsetY (\<lambda>v. 47),
       set_dim torsoToHip (\<lambda>v. v hipOffsetY / sin (v torsoHipRoll)),
       set_dim torsoToHipZ (\<lambda>v. v hipOffsetY / tan (v torsoHipRoll)),
       set_dim lengthBetweenLegs (\<lambda>v. 2 * v hipOffsetY),
       set_dim upperLegLength (\<lambda>v. 100),
       set_dim lowerLegLength (\<lambda>v. (1029 / 10)),
       set_dim neckOffsetZ (\<lambda>v. (1265 / 10)),
       set_dim hipOffsetZ (\<lambda>v. 85),
       set_dim torsoToHeadPan (\<lambda>v. v hipOffsetZ + v neckOffsetZ - v torsoToHipZ),
       set_dim zLegJoint1ToHeadPan (\<lambda>v. 85 + (1265 / 10)),
       set_dim armOffset1 (\<lambda>v. 0),
       set_dim armOffset2 (\<lambda>v. 98),
       set_dim armOffset3 (\<lambda>v. 137),
       set_dim upperArmLength (\<lambda>v. 105),
       set_dim lowerArmLength (\<lambda>v. 120),
       set_dim elbowOffsetY (\<lambda>v. 15),
       set_dim footHeight (\<lambda>v. (4519 / 100)),
       set_dim headTiltOffset (\<lambda>v. 0),
       set_dim headPanOffset (\<lambda>v. 0),
       set_dim xHeadTiltToBottomCamera (\<lambda>v. (5071 / 100)),
       set_dim zHeadTiltToBottomCamera (\<lambda>v. (1774 / 100)),
       set_dim xHeadTiltToTopCamera (\<lambda>v. (5871 / 100)),
       set_dim zHeadTiltToTopCamera (\<lambda>v. (6364 / 100)),
       set_dim tiltOffsetToBottomCamera (\<lambda>v. (397 / 10) * DEG_T_RAD),
       set_angle tiltOffsetToBottomCamera,
       set_dim rollOffsetToBottomCamera (\<lambda>v. 0),
       set_angle rollOffsetToBottomCamera,
       set_dim yawOffsetToBottomCamera (\<lambda>v. 0),
       set_angle yawOffsetToBottomCamera,
       set_dim tiltOffsetToTopCamera (\<lambda>v. (12 / 10) * DEG_T_RAD),
       set_angle tiltOffsetToTopCamera,
       set_dim rollOffsetToTopCamera (\<lambda>v. 0),
       set_angle rollOffsetToTopCamera,
       set_dim yawOffsetToTopCamera (\<lambda>v. 0),
       set_angle yawOffsetToTopCamera,
       set_dim headTiltFactorBottomCamera (\<lambda>v. (15 / 10) * DEG_T_RAD),
       set_angle headTiltFactorBottomCamera,
       set_dim headTiltFactorTopCamera (\<lambda>v. (15 / 10) * DEG_T_RAD),
       set_angle headTiltFactorTopCamera,
       set_dim headRollFactorBottomCamera (\<lambda>v. 0),
       set_angle headRollFactorBottomCamera,
       set_dim headRollFactorTopCamera (\<lambda>v. 0),
       set_angle headRollFactorTopCamera,
       set_dim motionCycleTime (\<lambda>v. (1 / 100)),
       set_dim footLength (\<lambda>v. 160),
       set_dim footWidth (\<lambda>v. 75),
       set_dim backOfFootToAnkle (\<lambda>v. (33 / 100) * v footLength),
       set_dim ankleToFootCenter (\<lambda>v. (v footLength / 2) - v backOfFootToAnkle),
       set_dim FSR_LFL_Offset1 (\<lambda>v. (7025 / 100)),
       set_dim FSR_LFL_Offset2 (\<lambda>v. (299 / 10)),
       set_dim FSR_LFL_Offset3 (\<lambda>v. 0),
       set_dim FSR_LFR_Offset1 (\<lambda>v. (7025 / 100)),
       set_dim FSR_LFR_Offset2 (\<lambda>v. (299 / 10)),
       set_dim FSR_LFR_Offset3 (\<lambda>v. 0),
       set_dim FSR_LRL_Offset1 (\<lambda>v. - (3025 / 100)),
       set_dim FSR_LRL_Offset2 (\<lambda>v. (299 / 10)),
       set_dim FSR_LRL_Offset3 (\<lambda>v. 0),
       set_dim FSR_LRR_Offset1 (\<lambda>v. - (2965 / 100)),
       set_dim FSR_LRR_Offset2 (\<lambda>v. - (191 / 10)),
       set_dim FSR_LRR_Offset3 (\<lambda>v. 0)]
      (r\<lparr>isAngle := (\<lambda>d. False)\<rparr>)"

definition getLeftFSROffsets :: "robot_dimensions \<Rightarrow> vector3 list" where
  "getLeftFSROffsets r =
     (let v = dim_values r
      in [vec3 (v FSR_LFL_Offset1) (v FSR_LFL_Offset2) (v FSR_LFL_Offset3),
          vec3 (v FSR_LFR_Offset1) (v FSR_LFR_Offset2) (v FSR_LFR_Offset3),
          vec3 (v FSR_LRL_Offset1) (v FSR_LRL_Offset2) (v FSR_LRL_Offset3),
          vec3 (v FSR_LRR_Offset1) (v FSR_LRR_Offset2) (v FSR_LRR_Offset3)])"

section \<open>Masses\<close>

record mass_info =
  mass :: real
  mass_offset :: vector3

type_synonym mass_calibration = "body_part \<Rightarrow> mass_info"

definition mi_new :: mass_info where
  "mi_new = \<lparr>mass = 0, mass_offset = vec3 0 0 0\<rparr>"

definition mi_set :: "body_part \<Rightarrow> real \<Rightarrow> real \<Rightarrow> real \<Rightarrow> real \<Rightarrow> mass_calibration \<Rightarrow> mass_calibration" where
  "mi_set p m x y z masses = masses(p := \<lparr>mass = m, mass_offset = vec3 x y z\<rparr>)"

definition mc_setNaoH21 :: "mass_calibration \<Rightarrow> mass_calibration" where
  "mc_setNaoH21 masses =
     fold (\<lambda>f. f)
      [mi_set neck (6442 / 100) (- 1 / 100) (14 / 100) (- 2742 / 100),
       mi_set head (60533 / 100) (- 112 / 100) (3 / 100) (5258 / 100),
       mi_set top_camera 0 0 0 0,
       mi_set bottom_camera 0 0 0 0,
       mi_set left_shoulder (7504 / 100) (- 165 / 100) (- 2663 / 100) (14 / 100),
       mi_set left_bicep (15777 / 100) (2455 / 100) (563 / 100) (33 / 10),
       mi_set left_elbow (6483 / 100) (- 2744 / 100) 0 (- 14 / 100),
       mi_set left_forearm (18405 / 100) (653 / 10) (114 / 100) (51 / 100),
       mi_set left_hand 0 0 0 0,
       mi_set right_shoulder (7504 / 100) (- 165 / 100) (- 2663 / 100) (14 / 100),
       mi_set right_bicep (15794 / 100) (2429 / 100) (- 952 / 100) (32 / 10),
       mi_set right_elbow (6483 / 100) (- 2744 / 100) 0 (- 14 / 100),
       mi_set right_forearm (18405 / 100) (653 / 10) (114 / 100) (51 / 100),
       mi_set right_hand 0 0 0 0,
       mi_set left_pelvis (6981 / 100) (- 781 / 100) (- 1114 / 100) (2661 / 100),
       mi_set left_hip (13053 / 100) (- 1549 / 100) (29 / 100) (- 515 / 100),
       mi_set left_thigh (38968 / 100) (138 / 100) (221 / 100) (- 5373 / 100),
       mi_set left_tibia (29142 / 100) (453 / 100) (225 / 100) (- 4936 / 100),
       mi_set left_ankle (13415 / 100) (45 / 100) (29 / 100) (685 / 100),
       mi_set left_foot (16171 / 100) (254 / 10) (33 / 10) (- 3239 / 100),
       mi_set left_bottom_foot 0 0 0 0,
       mi_set right_pelvis (7118 / 100) (- 766 / 100) 12 (2716 / 100),
       mi_set right_hip (13053 / 100) (- 1549 / 100) (- 29 / 100) (- 516 / 100),
       mi_set right_thigh (38976 / 100) (139 / 100) (- 225 / 100) (- 5374 / 100),
       mi_set right_tibia (29163 / 100) (394 / 100) (- 221 / 100) (- 4938 / 100),
       mi_set right_ankle (13415 / 100) (45 / 100) (- 3 / 10) (684 / 100),
       mi_set right_foot (16171 / 100) (254 / 10) (- 332 / 100) (- 3239 / 100),
       mi_set right_bottom_foot 0 0 0 0,
       mi_set torso (104956 / 100) (- 413 / 100) (9 / 100) (12842 / 100)]
      masses"

definition mc_setNaoH24 :: "mass_calibration \<Rightarrow> mass_calibration" where
  "mc_setNaoH24 masses =
     fold (\<lambda>f. f)
      [mi_set left_forearm (18533 / 100 + 7761 / 100) (653 / 10) (114 / 100) (51 / 100),
       mi_set right_forearm (18533 / 100 + 7778 / 100) (653 / 10) (114 / 100) (51 / 100)]
      (mc_setNaoH21 masses)"

definition mc_setNao33 :: "mass_calibration \<Rightarrow> mass_calibration" where
  "mc_setNao33 masses =
     fold (\<lambda>f. f)
      [mi_set neck (5939 / 100) (- 2 / 100) (17 / 100) (- 2556 / 100),
       mi_set head (52065 / 100) (12 / 10) (- 84 / 100) (5353 / 100),
       mi_set top_camera 0 0 0 0,
       mi_set bottom_camera 0 0 0 0,
       mi_set left_shoulder (6996 / 100) (- 178 / 100) (2496 / 100) (18 / 100),
       mi_set left_bicep (12309 / 100) (1885 / 100) (- 577 / 100) (65 / 100),
       mi_set left_elbow (5971 / 100) (- 256 / 10) (1 / 100) (- 19 / 100),
       mi_set left_forearm (11282 / 100) (6992 / 100) (- 96 / 100) (- 114 / 100),
       mi_set left_hand 0 0 0 0,
       mi_set right_shoulder (6996 / 100) (- 178 / 100) (2496 / 100) (18 / 100),
       mi_set right_bicep (12309 / 100) (1885 / 100) (- 577 / 100) (65 / 100),
       mi_set right_elbow (5971 / 100) (- 256 / 10) (1 / 100) (- 19 / 100),
       mi_set right_forearm (11282 / 100) (6992 / 100) (- 96 / 100) (- 114 / 100),
       mi_set right_hand 0 0 0 0,
       mi_set left_pelvis (7177 / 100) (- 766 / 100) 12 (2717 / 100),
       mi_set left_hip (1353 / 10) (- 1649 / 100) (- 29 / 100) (- 475 / 100),
       mi_set left_thigh (39421 / 100) (132 / 100) (- 235 / 100) (- 5352 / 100),
       mi_set left_tibia (29159 / 100) (422 / 100) (- 252 / 100) (- 4868 / 100),
       mi_set left_ankle (13892 / 100) (142 / 100) (- 28 / 100) (638 / 100),
       mi_set left_foot (16175 / 100) (254 / 10) (- 332 / 100) (- 3241 / 100),
       mi_set left_bottom_foot 0 0 0 0,
       mi_set right_pelvis (7177 / 100) (- 766 / 100) 12 (2717 / 100),
       mi_set right_hip (1353 / 10) (- 1649 / 100) (- 29 / 100) (- 475 / 100),
       mi_set right_thigh (39421 / 100) (132 / 100) (- 235 / 100) (- 5352 / 100),
       mi_set right_tibia (29159 / 100) (422 / 100) (- 252 / 100) (- 4868 / 100),
       mi_set right_ankle (13892 / 100) (142 / 100) (- 28 / 100) (638 / 100),
       mi_set right_foot (16175 / 100) (254 / 10) (- 332 / 100) (- 3241 / 100),
       mi_set right_bottom_foot 0 0 0 0,
       mi_set torso (103948 / 100) (- 415 / 100) (7 / 100) (12758 / 100)]
      masses"

definition mc_setNao32 :: "mass_calibration \<Rightarrow> mass_calibration" where
  "mc_setNao32 masses =
     fold (\<lambda>f. f)
      [mi_set neck (5959 / 100) (- 3 / 100) (18 / 100) (- 2573 / 100),
       mi_set head (47671 / 100) (383 / 100) (- 93 / 100) (5156 / 100),
       mi_set top_camera 0 0 0 0,
       mi_set bottom_camera 0 0 0 0,
       mi_set left_shoulder (6984 / 100) (- 178 / 100) (- 2507 / 100) (19 / 100),
       mi_set left_bicep (12166 / 100) (2067 / 100) (388 / 100) (362 / 100),
       mi_set left_elbow (5959 / 100) (- 2573 / 100) (- 1 / 100) (- 2 / 10),
       mi_set left_forearm (11282 / 100) (6992 / 100) (96 / 100) (- 114 / 100),
       mi_set left_hand 0 0 0 0,
       mi_set right_shoulder (6984 / 100) (- 178 / 100) (2507 / 100) (19 / 100),
       mi_set right_bicep (12166 / 100) (2067 / 100) (- 388 / 100) (362 / 100),
       mi_set right_elbow (5959 / 100) (- 2573 / 100) (1 / 100) (- 2 / 10),
       mi_set right_forearm (11282 / 100) (6992 / 100) (- 96 / 100) (- 114 / 100),
       mi_set right_hand 0 0 0 0,
       mi_set left_pelvis (7244 / 100) (- 717 / 100) (- 1187 / 100) (2705 / 100),
       mi_set left_hip (1353 / 10) (- 1649 / 100) (29 / 100) (- 475 / 100),
       mi_set left_thigh (39798 / 100) (131 / 100) (201 / 100) (- 5386 / 100),
       mi_set left_tibia (29706 / 100) (471 / 100) (21 / 10) (- 4891 / 100),
       mi_set left_ankle (13892 / 100) (142 / 100) (28 / 100) (638 / 100),
       mi_set left_foot (16304 / 100) (2489 / 100) (33 / 10) (- 3208 / 100),
       mi_set left_bottom_foot 0 0 0 0,
       mi_set right_pelvis (7244 / 100) (- 717 / 100) (1187 / 100) (2705 / 100),
       mi_set right_hip (1353 / 10) (- 1649 / 100) (- 29 / 100) (- 475 / 100),
       mi_set right_thigh (39798 / 100) (131 / 100) (- 201 / 100) (- 5386 / 100),
       mi_set right_tibia (29706 / 100) (471 / 100) (- 21 / 10) (- 4891 / 100),
       mi_set right_ankle (13892 / 100) (142 / 100) (- 28 / 100) (638 / 100),
       mi_set right_foot (16304 / 100) (2489 / 100) (- 33 / 10) (- 3208 / 100),
       mi_set right_bottom_foot 0 0 0 0,
       mi_set torso (102628 / 100) (- 48 / 10) (6 / 100) (12727 / 100)]
      masses"

definition mc_new :: mass_calibration where
  "mc_new = mc_setNaoH21 (\<lambda>p. mi_new)"

section \<open>Sensor block\<close>

abbreviation (input) NUM_SONAR_VALS :: nat where "NUM_SONAR_VALS \<equiv> 10"

record sensor_block =
  prev_svalues :: "sensor \<Rightarrow> real"
  svalues :: "sensor \<Rightarrow> real"
  sonar_left :: "nat \<Rightarrow> real"
  sonar_right :: "nat \<Rightarrow> real"
  joint_temperatures :: "joint \<Rightarrow> real"
  angleXVel :: real
  angleYVel :: real
  angleZVel :: real
  futureRoll :: real
  futureTilt :: real
  fsr_feet :: real
  fsr_left_side :: real
  fsr_left_front :: real
  fsr_right_side :: real
  fsr_right_front :: real

definition sen_new :: "sensor_block \<Rightarrow> sensor_block" where
  "sen_new b = b\<lparr>svalues := (\<lambda>i. 0), joint_temperatures := (\<lambda>i. 0), fsr_feet := 0, fsr_left_side := 0,
     fsr_left_front := 0, fsr_right_side := 0, fsr_right_front := 0\<rparr>"

definition getJointTemperature :: "sensor_block \<Rightarrow> joint \<Rightarrow> real" where
  "getJointTemperature b i = joint_temperatures b i"

definition sen_getValue :: "sensor_block \<Rightarrow> sensor \<Rightarrow> real" where
  "sen_getValue b index = svalues b index"

definition sen_getDelta :: "sensor_block \<Rightarrow> sensor \<Rightarrow> real" where
  "sen_getDelta b index = svalues b index - prev_svalues b index"

definition copyPrevValues :: "sensor_block \<Rightarrow> sensor_block" where
  "copyPrevValues b = b\<lparr>prev_svalues := svalues b\<rparr>"

section \<open>Calibration block\<close>

record sensor_calibration_block =
  is_calibrated :: bool
  inertial_offsets :: "nat \<Rightarrow> real"
  fsr_feet_offset :: real
  fsr_left_side_offset :: real
  fsr_left_front_offset :: real
  fsr_right_side_offset :: real
  fsr_right_front_offset :: real

definition sc_reset :: "sensor_calibration_block \<Rightarrow> sensor_calibration_block" where
  "sc_reset b = b\<lparr>is_calibrated := False, inertial_offsets := (\<lambda>i. if i < 6 then 0 else inertial_offsets b i),
     fsr_feet_offset := 0, fsr_left_side_offset := 0, fsr_left_front_offset := 0,
     fsr_right_side_offset := 0, fsr_right_front_offset := 0\<rparr>"

section \<open>Body model block\<close>

record tilt_roll =
  tr_tilt :: real
  tr_roll :: real

record torso_matrix = pose3D +
  tm_offset :: pose3D
  tm_isValid :: bool

record body_model_block =
  is_calculated :: bool
  rel_parts :: "body_part \<Rightarrow> pose3D"
  abs_parts :: "body_part \<Rightarrow> pose3D"
  torso_matrix_ :: torso_matrix
  center_of_mass :: vector3
  left_foot_body_tilt_roll :: tilt_roll
  right_foot_body_tilt_roll :: tilt_roll
  sensors_tilt_roll :: tilt_roll
  zmpFromFSRs :: vector2
  feet_on_ground :: bool
  feet_on_ground_inst :: bool

definition bodym_new :: "body_model_block \<Rightarrow> body_model_block" where
  "bodym_new b = b\<lparr>is_calculated := False, feet_on_ground := True, feet_on_ground_inst := True\<rparr>"

end
