(* ===== verification/Forward_Kinematics.thy ===== *)
theory Forward_Kinematics
  imports Body_Blocks
begin

text \<open>
  Forward kinematics, \<open>src/core/kinematics/ForwardKinematics.cpp\<close> and \<open>KinematicsModule.cpp\<close>: the
  poses of all body parts from the joint angles, first relative to the torso and then relative to the
  ground below it, the centre of mass, and whether the feet are on the ground. Shown are that all
  poses are rigid, that the legs are mirror images of each other, that the stance foot is flat on the
  ground, and what the code makes of the foot pressure sensors.
\<close>

section \<open>Poses of the parts\<close>

definition joint_at :: "joint \<Rightarrow> nat \<Rightarrow> joint" where
  "joint_at j k = all_joints ! (joint_index j + k)"

definition p3d_xyz :: "real \<Rightarrow> real \<Rightarrow> real \<Rightarrow> pose3D" where
  "p3d_xyz x y z = \<lparr>rot3 = m3_identity, trans3 = vec3 x y z\<rparr>"

definition p3d_move :: "real \<Rightarrow> real \<Rightarrow> real \<Rightarrow> pose3D \<Rightarrow> pose3D" where
  "p3d_move x y z p = p3d_translate p (vec3 x y z)"

type_synonym parts = "body_part \<Rightarrow> pose3D"

definition kin_head :: "(joint \<Rightarrow> real) \<Rightarrow> (dimension \<Rightarrow> real) \<Rightarrow> parts \<Rightarrow> parts" where
  "kin_head ja d r =
     (let r = r(neck := p3d_rotateZ (p3d_move 0 0 (d torsoToHeadPan) (r torso)) (ja HeadYaw));
          r = r(head := p3d_rotateY (r neck) (- ja HeadPitch));
          r = r(top_camera :=
                p3d_rotateZ (p3d_rotateX (p3d_rotateY
                    (p3d_move (d xHeadTiltToTopCamera) 0 (d zHeadTiltToTopCamera) (r head))
                  (d tiltOffsetToTopCamera + d headTiltFactorTopCamera * (pi / 2 - \<bar>ja HeadYaw\<bar>) / (pi / 2)))
                  (d rollOffsetToTopCamera + d headRollFactorTopCamera * ja HeadYaw))
                  (d yawOffsetToTopCamera));
          r = r(bottom_camera :=
                p3d_rotateZ (p3d_rotateX (p3d_rotateY
                    (p3d_move (d xHeadTiltToBottomCamera) 0 (d zHeadTiltToBottomCamera) (r head))
                  (d tiltOffsetToBottomCamera + d headTiltFactorBottomCamera * (pi / 2 - \<bar>ja HeadYaw\<bar>) / (pi / 2)))
                  (d rollOffsetToBottomCamera + d headRollFactorBottomCamera * ja HeadYaw))
                  (d yawOffsetToBottomCamera))
      in r)"

definition kin_arm :: "bool \<Rightarrow> (joint \<Rightarrow> real) \<Rightarrow> (dimension \<Rightarrow> real) \<Rightarrow> parts \<Rightarrow> parts" where
  "kin_arm left ja d r =
     (let sign = (if left then - 1 else 1);
          shoulder = (if left then left_shoulder else right_shoulder);
          arm0 = (if left then LShoulderPitch else RShoulderPitch);
          r = r(shoulder + 0 := p3d_rotateY
                (p3d_move (d armOffset1) (d armOffset2 * - sign) (d armOffset3) (r torso)) (- ja (joint_at arm0 0)));
          r = r(shoulder + 1 := p3d_rotateZ (r (shoulder + 0)) (ja (joint_at arm0 1) * - sign));
          r = r(shoulder + 2 := p3d_rotateX
                (p3d_move (d upperArmLength) (d elbowOffsetY) 0 (r (shoulder + 1))) (ja (joint_at arm0 2) * - sign));
          r = r(shoulder + 3 := p3d_rotateZ (r (shoulder + 2)) (ja (joint_at arm0 3) * - sign));
          r = r(shoulder + 4 := p3d_move (d lowerArmLength) 0 0 (r (shoulder + 3)))
      in r)"

definition kin_leg :: "bool \<Rightarrow> (joint \<Rightarrow> real) \<Rightarrow> (dimension \<Rightarrow> real) \<Rightarrow> parts \<Rightarrow> parts" where
  "kin_leg left ja d r =
     (let sign = (if left then - 1 else 1);
          pelvis = (if left then left_pelvis else right_pelvis);
          leg0 = (if left then LHipYawPitch else RHipYawPitch);
          r = r(pelvis + 0 := p3d_rotateZ (p3d_move 0 0 (- d torsoToHip)
                (p3d_rotateX (r torso) (d torsoHipRoll * - sign))) (ja (joint_at leg0 0) * sign));
          r = r(pelvis + 1 := p3d_rotateX (r (pelvis + 0)) ((ja (joint_at leg0 1) + d torsoHipRoll) * sign));
          r = r(pelvis + 2 := p3d_rotateY (r (pelvis + 1)) (ja (joint_at leg0 2)));
          r = r(pelvis + 3 := p3d_rotateY (p3d_move 0 0 (- d upperLegLength) (r (pelvis + 2))) (ja (joint_at leg0 3)));
          r = r(pelvis + 4 := p3d_rotateY (p3d_move 0 0 (- d lowerLegLength) (r (pelvis + 3))) (ja (joint_at leg0 4)));
          r = r(pelvis + 5 := p3d_rotateX (r (pelvis + 4)) (ja (joint_at leg0 5) * sign));
          r = r(pelvis + 6 := p3d_move 0 0 (- d footHeight) (r (pelvis + 5)))
      in r)"

definition calculateRelativePose ::
  "(joint \<Rightarrow> real) \<Rightarrow> real \<Rightarrow> real \<Rightarrow> parts \<Rightarrow> (dimension \<Rightarrow> real) \<Rightarrow> parts" where
  "calculateRelativePose ja angleXval angleYval r d =
     (let base = p3d_rotateY (p3d_rotateX (p3d_xyz 0 0 0) angleXval) angleYval;
          r = r(torso := base);
          r = kin_head ja d r
      in fold (\<lambda>left r. kin_leg left ja d (kin_arm left ja d r)) [True, False] r)"

definition calculateVirtualBase :: "bool \<Rightarrow> parts \<Rightarrow> pose3D" where
  "calculateVirtualBase useLeft r =
     (let baseFoot = (if useLeft then r left_bottom_foot else r right_bottom_foot);
          torsoInFootFrame = p3d_relativeTo (r torso) baseFoot;
          baseInFootFrame = p3d_xyz (wx (trans3 torsoInFootFrame)) (wy (trans3 torsoInFootFrame)) 0;
          baseInFootFrame = p3d_rotateZ baseInFootFrame (rm_getZAngle (rot3 torsoInFootFrame))
      in p3d_relativeTo baseInFootFrame torsoInFootFrame)"

definition sum_sensors :: "sensor list \<Rightarrow> (sensor \<Rightarrow> real) \<Rightarrow> real" where
  "sum_sensors is s = fold (\<lambda>i f. f + s i) is 0"

definition virtualBase_of_sensors :: "(sensor \<Rightarrow> real) \<Rightarrow> parts \<Rightarrow> pose3D" where
  "virtualBase_of_sensors s r =
     (let leftForce = sum_sensors [fsrLFL, fsrLFR, fsrLRL, fsrLRR] s;
          rightForce = sum_sensors [fsrRFL, fsrRFR, fsrRRL, fsrRRR] s
      in calculateVirtualBase (leftForce > rightForce) r)"

text \<open>Both arrays are written: the result is the pair of relative and absolute parts.\<close>

definition calculateAbsolutePose :: "pose3D \<Rightarrow> parts \<Rightarrow> parts \<Rightarrow> parts \<times> parts" where
  "calculateAbsolutePose base r a =
     (let r = r(virtual_base := base)
      in (r, fold (\<lambda>i a. a(i := p3d_relativeTo (r i) base)) [0..<NUM_PARTS] a))"

definition absolutePose_of_sensors :: "(sensor \<Rightarrow> real) \<Rightarrow> parts \<Rightarrow> parts \<Rightarrow> parts \<times> parts" where
  "absolutePose_of_sensors s r a =
     (let base = virtualBase_of_sensors s r in calculateAbsolutePose base r a)"

definition com_step :: "parts \<Rightarrow> mass_calibration \<Rightarrow> body_part \<Rightarrow> real \<times> vector3 \<Rightarrow> real \<times> vector3" where
  "com_step a masses i st =
     (let limb = masses i
      in (fst st + mass limb, v3_add (snd st) (v3_scale (p3d_apply (a i) (mass_offset limb)) (mass limb))))"

definition calculateCoM :: "parts \<Rightarrow> mass_calibration \<Rightarrow> vector3" where
  "calculateCoM a masses =
     (let st = fold (com_step a masses) [0..<NUM_PARTS] (0, vec3 0 0 0) in v3_divs (snd st) (fst st))"

definition calculateTiltRollFromLeg :: "bool \<Rightarrow> (joint \<Rightarrow> real) \<Rightarrow> robot_dimensions \<Rightarrow> tilt_roll" where
  "calculateTiltRollFromLeg left ja d = \<lparr>tr_tilt = 0, tr_roll = 0\<rparr>"

section \<open>The kinematics module\<close>

definition pressure_sensors :: "sensor list" where
  "pressure_sensors = [fsrLFL, fsrLFR, fsrLRL, fsrLRR, fsrRFL, fsrRFR, fsrRRL, fsrRRR]"

text \<open>
  The offset of pressure sensor \<open>i\<close> on its foot. The case for sensor 2 has no \<open>break\<close> and runs on into the
  next one; sensors 4 to 7 have no case and keep the default vector.
\<close>

definition fsr_offset :: "(dimension \<Rightarrow> real) \<Rightarrow> nat \<Rightarrow> vector3" where
  "fsr_offset d i =
     (if i = 0 then vec3 (d FSR_LFL_Offset1) (d FSR_LFL_Offset2) (d FSR_LFL_Offset3)
      else if i = 1 then vec3 (d FSR_LFR_Offset1) (d FSR_LFR_Offset2) (d FSR_LFR_Offset3)
      else if i = 2 \<or> i = 3 then vec3 (d FSR_LRR_Offset1) (d FSR_LRR_Offset2) (d FSR_LRR_Offset3)
      else vec3 0 0 0)"

definition fsr_point :: "(dimension \<Rightarrow> real) \<Rightarrow> parts \<Rightarrow> nat \<Rightarrow> vector3" where
  "fsr_point d r i =
     (let foot = (if i \<ge> 4 then right_bottom_foot else left_bottom_foot);
          sign = (if i \<ge> 4 then - 1 else 1);
          offset = fsr_offset d i;
          offset = offset\<lparr>wy := wy offset * sign\<rparr>
      in trans3 (p3d_translate (r foot) offset))"

definition zmp_step ::
  "(sensor \<Rightarrow> real) \<Rightarrow> (dimension \<Rightarrow> real) \<Rightarrow> parts \<Rightarrow> nat \<Rightarrow> vector2 \<times> real \<Rightarrow> vector2 \<times> real" where
  "zmp_step s d r i st =
     (let point = fsr_point d r i; force = s (pressure_sensors ! i)
      in if force > 1 / 10
         then (\<lparr>vx = vx (fst st) + wx point * force, vy = vy (fst st) + wy point * force\<rparr>, snd st + force)
         else st)"

definition calcRelCenterOfMassFromFSRs ::
  "(sensor \<Rightarrow> real) \<Rightarrow> (dimension \<Rightarrow> real) \<Rightarrow> body_model_block \<Rightarrow> body_model_block" where
  "calcRelCenterOfMassFromFSRs s d b =
     (let st = fold (zmp_step s d (rel_parts b)) [0..<8] (\<lparr>vx = 0, vy = 0\<rparr>, 0)
      in b\<lparr>zmpFromFSRs := v2_divs (fst st) (snd st)\<rparr>)"

record kinematics_module =
  frames_in_air :: int
  km_body_model :: body_model_block

definition kinm_new :: "kinematics_module \<Rightarrow> kinematics_module" where
  "kinm_new m = m\<lparr>frames_in_air := 0\<rparr>"

definition ground_contact :: "(sensor \<Rightarrow> real) \<Rightarrow> kinematics_module \<Rightarrow> kinematics_module" where
  "ground_contact s m =
     (let totalForce = sum_sensors pressure_sensors s;
          b = km_body_model m;
          m = (if totalForce < 1
               then m\<lparr>frames_in_air := frames_in_air m + 1, km_body_model := b\<lparr>feet_on_ground_inst := False\<rparr>\<rparr>
               else m\<lparr>frames_in_air := 0, km_body_model := b\<lparr>feet_on_ground_inst := True\<rparr>\<rparr>);
          b = km_body_model m
      in m\<lparr>km_body_model := b\<lparr>feet_on_ground := \<not> frames_in_air m > 75\<rparr>\<rparr>)"

definition calculatePose_of ::
  "(joint \<Rightarrow> real) \<Rightarrow> (sensor \<Rightarrow> real) \<Rightarrow> (dimension \<Rightarrow> real) \<Rightarrow> kinematics_module \<Rightarrow> kinematics_module" where
  "calculatePose_of joints s d m =
     (let b = km_body_model m;
          r = calculateRelativePose joints 0 0 (rel_parts b) d;
          base = virtualBase_of_sensors s r;
          (r, a) = calculateAbsolutePose base r (abs_parts b);
          m = m\<lparr>km_body_model := b\<lparr>rel_parts := r, abs_parts := a, is_calculated := True\<rparr>\<rparr>;
          m = ground_contact s m
      in m\<lparr>km_body_model := calcRelCenterOfMassFromFSRs s d (km_body_model m)\<rparr>)"

definition calculatePose ::
  "joint_block \<Rightarrow> sensor_block \<Rightarrow> robot_dimensions \<Rightarrow> mass_calibration \<Rightarrow> kinematics_module \<Rightarrow> kinematics_module" where
  "calculatePose joints sensors dimensions masses m =
     (let m = calculatePose_of (joint_values joints) (svalues sensors) (dim_values dimensions) m;
          b = km_body_model m
      in m\<lparr>km_body_model := b\<lparr>center_of_mass := calculateCoM (abs_parts b) masses\<rparr>\<rparr>)"

section \<open>All poses are rigid\<close>

lemma pose_rotations [simp]:
  "is_rotation (rot3 (p3d_xyz x y z))"
  "is_rotation (rot3 p) \<Longrightarrow> is_rotation (rot3 (p3d_rotateX p a))"
  "is_rotation (rot3 p) \<Longrightarrow> is_rotation (rot3 (p3d_rotateY p a))"
  "is_rotation (rot3 p) \<Longrightarrow> is_rotation (rot3 (p3d_rotateZ p a))"
  "rot3 (p3d_move x y z p) = rot3 p"
  by (simp_all add: p3d_xyz_def p3d_rotateX_def p3d_rotateY_def p3d_rotateZ_def p3d_move_def p3d_translate_def
      rotate_is_mul is_rotation_mul)

lemma is_rotation_relativeTo:
  "is_rotation (rot3 p) \<Longrightarrow> is_rotation (rot3 q) \<Longrightarrow> is_rotation (rot3 (p3d_relativeTo p q))"
  by (simp add: p3d_relativeTo_def rm_invert_def is_rotation_mul is_rotation_transpose)

definition rigid :: "parts \<Rightarrow> bool" where
  "rigid r \<longleftrightarrow> (\<forall>p. is_rotation (rot3 (r p)))"

lemma rigid_upd: "rigid r \<Longrightarrow> is_rotation (rot3 p) \<Longrightarrow> rigid (r(i := p))"
  by (simp add: rigid_def)

lemma rigid_part: "rigid r \<Longrightarrow> is_rotation (rot3 (r p))"
  by (simp add: rigid_def)

lemma rigid_head: "rigid r \<Longrightarrow> rigid (kin_head ja d r)"
  unfolding kin_head_def Let_def by (intro rigid_upd pose_rotations) (simp_all add: rigid_part rigid_upd)

lemma rigid_arm: "rigid r \<Longrightarrow> rigid (kin_arm left ja d r)"
  unfolding kin_arm_def Let_def by (intro rigid_upd pose_rotations) (simp_all add: rigid_part rigid_upd)

lemma rigid_leg: "rigid r \<Longrightarrow> rigid (kin_leg left ja d r)"
  unfolding kin_leg_def Let_def by (intro rigid_upd pose_rotations) (simp_all add: rigid_part rigid_upd)

lemma rigid_relativePose: "rigid r \<Longrightarrow> rigid (calculateRelativePose ja ax ay r d)"
  by (simp add: calculateRelativePose_def Let_def rigid_head rigid_arm rigid_leg rigid_upd)

lemma fold_upd_part:
  "fold (\<lambda>i a. a(i := f i)) [0..<n] a p = (if p < n then f p else a p)"
  by (induction n) auto

lemma absolute_part:
  "p < NUM_PARTS \<Longrightarrow> snd (calculateAbsolutePose base r a) p = p3d_relativeTo ((r(virtual_base := base)) p) base"
  by (simp add: calculateAbsolutePose_def Let_def fold_upd_part)

section \<open>The stance foot\<close>

lemma pose_of_inverse:
  assumes "rot3 q = m3_identity" "trans3 q = vec3 0 0 0"
  shows "p3d_relativeTo q p = p3d_invert p"
  using assms by (simp add: p3d_relativeTo_def p3d_invert_def Let_def v3_defs)

lemma m3_apply_neg: "m3_apply m (v3_neg v) = v3_neg (m3_apply m v)"
  by (simp add: m3_apply_def v3_defs)

lemma relativeTo_invert:
  assumes "is_rotation (rot3 p)"
  shows "p3d_relativeTo b (p3d_invert p) = p3d_conc p b"
proof -
  have "v3_neg (v3_neg v) = v" "v3_sub (vec3 0 0 0) v = v3_neg v" "v3_add v w = v3_add w v" for v w
    by (simp_all add: v3_defs)
  then show ?thesis
    using assms
    by (simp add: p3d_relativeTo_def p3d_invert_def Let_def p3d_conc_def p3d_apply_def m3_apply_add m3_apply_neg
        rotation_cancel [unfolded rm_invert_def]) (simp add: rm_invert_def rotation_cancel [unfolded rm_invert_def] m3_apply_neg)
qed

lemma relativeTo_conc:
  assumes "is_rotation (rot3 p)"
  shows "p3d_relativeTo q (p3d_conc p b) = p3d_relativeTo (p3d_relativeTo q p) b"
proof -
  have z: "v3_add (v3_neg (v3_add u t)) w = v3_add (v3_neg u) (v3_add (v3_neg t) w)" for u t w by (simp add: v3_defs)
  have "m3_apply (rm_invert (rot3 p)) (v3_add (v3_neg (p3d_apply p (trans3 b))) (trans3 q)) =
      v3_add (v3_neg (trans3 b)) (m3_apply (rm_invert (rot3 p)) (v3_add (v3_neg (trans3 p)) (trans3 q)))"
    using assms by (simp add: p3d_apply_def z m3_apply_add m3_apply_neg rotation_cancel)
  then show ?thesis
    by (simp add: p3d_relativeTo_def p3d_conc_def Let_def m3_apply_mul m3_mul_assoc)
      (simp add: rm_invert_def m3_transpose_mul m3_apply_mul m3_mul_assoc)
qed

lemma relativeTo_self:
  assumes "is_rotation (rot3 p)"
  shows "rot3 (p3d_relativeTo p p) = m3_identity" "trans3 (p3d_relativeTo p p) = vec3 0 0 0"
  using assms by (simp_all add: p3d_relativeTo_def is_rotation_def rm_invert_def v3_defs m3_apply_def)

text \<open>Undoing the yaw of a rotation leaves a rotation without yaw.\<close>

lemma getZAngle_undone:
  "rm_getZAngle (m3_mul (rm_invert (rm_fromRotationZ (rm_getZAngle m))) m) = 0"
proof -
  define x y where "x = wx (mc0 m)" and "y = wy (mc0 m)"
  define h where "h = sqrt (x * x + y * y)"
  define z where "z = rm_getZAngle m"
  have hh: "h * h = x * x + y * y" by (simp add: h_def)
  show ?thesis
  proof (cases "h = 0")
    case True
    then have "x * x + y * y = 0" using hh by simp
    then have "x = 0" "y = 0" by (simp_all add: sum_squares_eq_zero_iff)
    then show ?thesis
      by (simp add: rm_getZAngle_def Let_def elementary_matrices m3_mul_def m3_apply_def rm_invert_def m3_transpose_def
          v3_defs x_def [symmetric] y_def [symmetric])
  next
    case False
    then have h: "0 < h" by (simp add: h_def less_le sum_squares_gt_zero_iff)
    have le: "\<bar>x / h\<bar> \<le> 1"
    proof -
      have "\<bar>x\<bar> \<le> h" unfolding h_def by (rule real_le_rsqrt) (simp add: power2_eq_square)
      then show ?thesis using h by (simp add: abs_divide)
    qed
    have z: "z = arccos (x / h) * (if y < 0 then - 1 else 1)"
      using False by (simp add: z_def rm_getZAngle_def Let_def h_def x_def y_def)
    have c: "cos z = x / h" using le by (simp add: z cos_arccos_abs)
    have "sin (arccos (x / h)) = \<bar>y\<bar> / h"
    proof -
      have "x * x / (h * h) + y * y / (h * h) = 1"
        using h by (simp add: hh [symmetric] add_divide_distrib [symmetric])
      then have "1 - (x / h)\<^sup>2 = (\<bar>y\<bar> / h)\<^sup>2" by (simp add: power2_eq_square)
      then show ?thesis using le h by (simp add: sin_arccos_abs)
    qed
    then have s: "sin z = y / h" by (simp add: z)
    have "cos z * x + sin z * y = h" "- (sin z * x) + cos z * y = 0"
      using h by (simp_all add: c s add_divide_distrib [symmetric] hh [symmetric])
    then show ?thesis using h
      by (simp add: z_def [symmetric] elementary_matrices m3_mul_def m3_apply_def rm_invert_def
          m3_transpose_def v3_defs x_def [symmetric] y_def [symmetric] mult.commute) (simp add: rm_getZAngle_def Let_def)
  qed
qed

lemma relativePose_torso:
  "calculateRelativePose ja ax ay r d torso = p3d_rotateY (p3d_rotateX (p3d_xyz 0 0 0) ax) ay"
  by (simp add: calculateRelativePose_def Let_def kin_leg_def kin_arm_def kin_head_def)

lemma relativePose_feet:
  "is_rotation (rot3 (calculateRelativePose ja ax ay r d left_bottom_foot))"
  "is_rotation (rot3 (calculateRelativePose ja ax ay r d right_bottom_foot))"
  by (simp_all add: calculateRelativePose_def Let_def kin_leg_def kin_arm_def kin_head_def)

lemma rotate_zero: "p3d_rotateY (p3d_rotateX (p3d_xyz 0 0 0) 0) 0 = p3d_default"
  by (simp add: p3d_rotateY_def p3d_rotateX_def p3d_xyz_def p3d_default_def rotate_is_mul elementary_matrices m3_identity_def
      m3_mul_def m3_apply_def v3_defs)

text \<open>
  C24: The absolute poses are relative to the ground: for either choice of the stance foot, its sole is at
  height zero and not tilted, and the torso is straight above the origin and looks along the x axis.
\<close>

theorem stance_foot_flat:
  fixes left :: bool
  defines "foot \<equiv> if left then left_bottom_foot else right_bottom_foot"
  shows "let r = calculateRelativePose ja 0 0 r0 d;
             a = snd (calculateAbsolutePose (calculateVirtualBase left r) r a0)
         in wz (trans3 (a foot)) = 0 \<and> mc2 (rot3 (a foot)) = vec3 0 0 1 \<and>
            wx (trans3 (a torso)) = 0 \<and> wy (trans3 (a torso)) = 0 \<and> rm_getZAngle (rot3 (a torso)) = 0"
proof -
  define r where "r = calculateRelativePose ja 0 0 r0 d"
  have torso: "r torso = p3d_default" by (simp add: r_def relativePose_torso rotate_zero)
  have foot: "is_rotation (rot3 (r foot))" "foot \<noteq> virtual_base" "foot < NUM_PARTS"
    by (simp_all add: r_def foot_def relativePose_feet)
  define tf where "tf = p3d_invert (r foot)"
  define B where "B = p3d_rotateZ (p3d_xyz (wx (trans3 tf)) (wy (trans3 tf)) 0) (rm_getZAngle (rot3 tf))"
  define a where "a = snd (calculateAbsolutePose (calculateVirtualBase left r) r a0)"
  have base: "calculateVirtualBase left r = p3d_conc (r foot) B"
    using foot by (auto simp: calculateVirtualBase_def Let_def torso B_def tf_def foot_def pose_of_inverse p3d_default_def
        relativeTo_invert split: if_splits)
  have af: "a foot = p3d_relativeTo (p3d_relativeTo (r foot) (r foot)) B"
    using foot by (simp add: a_def absolute_part base relativeTo_conc)
  have at: "a torso = p3d_relativeTo tf B"
    using foot pose_of_inverse [of "r torso" "r foot"]
    by (simp add: a_def absolute_part base relativeTo_conc tf_def torso) (simp add: p3d_default_def)
  have B: "rot3 B = rm_fromRotationZ (rm_getZAngle (rot3 tf))" "trans3 B = vec3 (wx (trans3 tf)) (wy (trans3 tf)) 0"
    by (simp_all add: B_def p3d_rotateZ_def p3d_xyz_def rm_fromRotationZ_def)
  have "wz (trans3 (a foot)) = 0" "mc2 (rot3 (a foot)) = vec3 0 0 1"
    unfolding af using relativeTo_self [OF foot(1)]
    by (simp_all add: p3d_relativeTo_def [of _ B] B elementary_matrices rm_invert_def m3_transpose_def m3_apply_def v3_defs)
  moreover have "wx (trans3 (a torso)) = 0" "wy (trans3 (a torso)) = 0"
    unfolding at by (simp_all add: p3d_relativeTo_def B elementary_matrices rm_invert_def m3_transpose_def m3_apply_def v3_defs)
  moreover have "rm_getZAngle (rot3 (a torso)) = 0"
    unfolding at by (simp add: p3d_relativeTo_def B getZAngle_undone)
  ultimately show ?thesis by (simp add: r_def [symmetric] a_def [symmetric] Let_def)
qed

section \<open>Left and right\<close>

text \<open>The mirror image in the plane through the middle of the body.\<close>

definition p3d_mirror :: "pose3D \<Rightarrow> pose3D" where
  "p3d_mirror p = \<lparr>rot3 = (let m = rot3 p
      in mat3 (vec3 (wx (mc0 m)) (- wy (mc0 m)) (wz (mc0 m))) (vec3 (- wx (mc1 m)) (wy (mc1 m)) (- wz (mc1 m)))
              (vec3 (wx (mc2 m)) (- wy (mc2 m)) (wz (mc2 m)))),
    trans3 = vec3 (wx (trans3 p)) (- wy (trans3 p)) (wz (trans3 p))\<rparr>"

lemma mirror_steps:
  "p3d_mirror (p3d_rotateX p a) = p3d_rotateX (p3d_mirror p) (- a)"
  "p3d_mirror (p3d_rotateY p a) = p3d_rotateY (p3d_mirror p) a"
  "p3d_mirror (p3d_rotateZ p a) = p3d_rotateZ (p3d_mirror p) (- a)"
  "p3d_mirror (p3d_move x y z p) = p3d_move x (- y) z (p3d_mirror p)"
  "p3d_mirror (p3d_xyz x y z) = p3d_xyz x (- y) z"
  by (simp_all add: p3d_mirror_def p3d_rotateX_def p3d_rotateY_def p3d_rotateZ_def p3d_move_def p3d_translate_def p3d_xyz_def
      rm_rotateX_def rm_rotateY_def rm_rotateZ_def Let_def v3_defs p3d_apply_def m3_apply_def m3_identity_def)

lemma leg_parts:
  assumes "k < 7" "p3d_mirror (r torso) = r torso" "r' torso = r torso"
    and "\<forall>k<6. ja (joint_at RHipYawPitch k) = ja (joint_at LHipYawPitch k)"
  shows "kin_leg False ja d r (right_pelvis + k) = p3d_mirror (kin_leg True ja d r' (left_pelvis + k))"
proof -
  have k: "k = 0 \<or> k = 1 \<or> k = 2 \<or> k = 3 \<or> k = 4 \<or> k = 5 \<or> k = 6" using assms(1) by linarith
  have ja: "ja (joint_at RHipYawPitch i) = ja (joint_at LHipYawPitch i)" if "i < 6" for i using assms(4) that by simp
  show ?thesis using k assms(2,3)
    by (elim disjE) (simp_all add: kin_leg_def Let_def mirror_steps ja add.commute)
qed

lemma kin_leg_other: "p \<notin> {14..<21} \<Longrightarrow> left \<Longrightarrow> kin_leg left ja d r p = r p"
  "p \<notin> {21..<28} \<Longrightarrow> \<not> left \<Longrightarrow> kin_leg left ja d r p = r p"
  by (auto simp: kin_leg_def Let_def)

lemma kin_arm_other: "p \<notin> {4..<9} \<Longrightarrow> left \<Longrightarrow> kin_arm left ja d r p = r p"
  "p \<notin> {9..<14} \<Longrightarrow> \<not> left \<Longrightarrow> kin_arm left ja d r p = r p"
  by (auto simp: kin_arm_def Let_def)

text \<open>
  Equal angles in both legs give mirror images: every part of the right leg is the mirror image of the
  same part of the left leg.
\<close>

theorem legs_mirrored:
  assumes "\<forall>k<6. ja (joint_at RHipYawPitch k) = ja (joint_at LHipYawPitch k)" "k < 7"
  shows "calculateRelativePose ja 0 ay r0 d (right_pelvis + k) =
    p3d_mirror (calculateRelativePose ja 0 ay r0 d (left_pelvis + k))"
proof -
  let ?h = "kin_head ja d (r0(torso := p3d_rotateY (p3d_rotateX (p3d_xyz 0 0 0) 0) ay))"
  let ?l = "kin_arm True ja d ?h"
  let ?r = "kin_arm False ja d (kin_leg True ja d ?l)"
  have t: "?l torso = p3d_rotateY (p3d_rotateX (p3d_xyz 0 0 0) 0) ay" "?r torso = ?l torso"
    by (simp_all add: kin_arm_def kin_leg_def kin_head_def Let_def)
  have "calculateRelativePose ja 0 ay r0 d (left_pelvis + k) = kin_leg True ja d ?l (left_pelvis + k)"
    using assms(2) by (simp add: calculateRelativePose_def Let_def kin_leg_other kin_arm_other)
  moreover have "calculateRelativePose ja 0 ay r0 d (right_pelvis + k) = kin_leg False ja d ?r (right_pelvis + k)"
    by (simp add: calculateRelativePose_def Let_def)
  ultimately show ?thesis using leg_parts [OF assms(2) _ _ assms(1), of ?r ?l] t by (simp add: mirror_steps)
qed

theorem legs_mirrored_witness:
  "calculateRelativePose (\<lambda>j. 1) 0 0 (\<lambda>p. p3d_default) (\<lambda>i. 10) right_bottom_foot =
   p3d_mirror (calculateRelativePose (\<lambda>j. 1) 0 0 (\<lambda>p. p3d_default) (\<lambda>i. 10) left_bottom_foot)"
  using legs_mirrored [of "\<lambda>j. 1" 6 0 "\<lambda>p. p3d_default" "\<lambda>i. 10"] by simp

text \<open>
  The arms are not: the sideways offset of the elbow has no sign, so that with stretched arms the left
  elbow is 113 mm left of the body's middle and the right elbow only 83 mm right of it.
\<close>

theorem elbows_asymmetric:
  "let r = calculateRelativePose (\<lambda>j. 0) 0 0 r0 (dim_values (rd_setNaoH21 r1))
   in wy (trans3 (r left_elbow)) = 113 \<and> wy (trans3 (r right_elbow)) = - 83"
proof -
  let ?d = "dim_values (rd_setNaoH21 r1)"
  have d: "?d armOffset1 = 0" "?d armOffset2 = 98" "?d armOffset3 = 137" "?d upperArmLength = 105" "?d elbowOffsetY = 15"
    by (simp_all add: rd_setNaoH21_def set_dim_def set_angle_def)
  have z: "p3d_rotateX p 0 = p" "p3d_rotateY p 0 = p" "p3d_rotateZ p 0 = p" for p
    by (simp_all add: p3d_rotateX_def p3d_rotateY_def p3d_rotateZ_def rm_rotateX_def rm_rotateY_def rm_rotateZ_def Let_def v3_defs)
  show ?thesis
    by (simp add: calculateRelativePose_def Let_def kin_leg_other kin_arm_def kin_head_def d z p3d_move_def p3d_translate_def
        p3d_xyz_def p3d_apply_def m3_apply_def m3_identity_def v3_defs)
qed

section \<open>Centre of mass, ground contact and pressure\<close>

lemma com_fold:
  "fold (com_step a masses) [0..<n] (0, vec3 0 0 0) =
   ((\<Sum>i<n. mass (masses i)),
    vec3 (\<Sum>i<n. wx (p3d_apply (a i) (mass_offset (masses i))) * mass (masses i))
         (\<Sum>i<n. wy (p3d_apply (a i) (mass_offset (masses i))) * mass (masses i))
         (\<Sum>i<n. wz (p3d_apply (a i) (mass_offset (masses i))) * mass (masses i)))"
  by (induction n) (simp_all add: com_step_def Let_def v3_defs)

lemma weighted_mean_bounds:
  fixes w x :: "nat \<Rightarrow> real"
  assumes "\<forall>i<n. 0 \<le> w i" "0 < (\<Sum>i<n. w i)" "\<forall>i<n. l \<le> x i \<and> x i \<le> u"
  shows "l \<le> (\<Sum>i<n. x i * w i) / (\<Sum>i<n. w i)" "(\<Sum>i<n. x i * w i) / (\<Sum>i<n. w i) \<le> u"
proof -
  have "(\<Sum>i<n. l * w i) \<le> (\<Sum>i<n. x i * w i)" "(\<Sum>i<n. x i * w i) \<le> (\<Sum>i<n. u * w i)"
    using assms by (auto intro!: sum_mono mult_right_mono)
  then show "l \<le> (\<Sum>i<n. x i * w i) / (\<Sum>i<n. w i)" "(\<Sum>i<n. x i * w i) / (\<Sum>i<n. w i) \<le> u"
    using assms(2) by (simp_all add: pos_le_divide_eq pos_divide_le_eq sum_distrib_left)
qed

lemma upt_parts:
  "[0..<30] = [0, 1, 2, 3, 4, 5, 6, 7, 8, 9, 10, 11, 12, 13, 14, 15, 16, 17, 18, 19, 20, 21, 22, 23,
     24, 25, 26, 27, 28, 29 :: nat]"
  by code_simp

lemma sum_parts: "(\<Sum>i<30. f i) = (\<Sum>i\<leftarrow>[0..<30]. f i)" for f :: "nat \<Rightarrow> real"
  by (simp only: interv_sum_list_conv_sum_set_nat lessThan_atLeast0 set_upt)

lemma H21_masses:
  "\<forall>i<NUM_PARTS. 0 \<le> mass (mc_new i)" "(\<Sum>i<NUM_PARTS. mass (mc_new i)) = 503912 / 100"
proof -
  have "\<forall>i\<in>set [0..<30]. 0 \<le> mass (mc_new i)"
    unfolding upt_parts by (simp add: mc_new_def mc_setNaoH21_def mi_set_def mi_new_def)
  then show "\<forall>i<NUM_PARTS. 0 \<le> mass (mc_new i)" by simp
  show "(\<Sum>i<NUM_PARTS. mass (mc_new i)) = 503912 / 100"
    unfolding sum_parts upt_parts by (simp add: mc_new_def mc_setNaoH21_def mi_set_def mi_new_def)
qed

text \<open>
  The centre of mass is the mean of the limbs' mass points weighted with their masses; when all mass
  points are inside a range of heights, so is the centre of mass.
\<close>

theorem com_weighted_mean:
  fixes masses :: mass_calibration and a :: parts
  defines "x \<equiv> \<lambda>i. p3d_apply (a i) (mass_offset (masses i))" and "M \<equiv> \<Sum>i<NUM_PARTS. mass (masses i)"
  assumes "\<forall>i<NUM_PARTS. 0 \<le> mass (masses i)" "0 < M"
  shows "v3_scale (calculateCoM a masses) M =
      vec3 (\<Sum>i<NUM_PARTS. wx (x i) * mass (masses i)) (\<Sum>i<NUM_PARTS. wy (x i) * mass (masses i))
        (\<Sum>i<NUM_PARTS. wz (x i) * mass (masses i))"
    and "\<forall>i<NUM_PARTS. l \<le> wz (x i) \<and> wz (x i) \<le> u \<Longrightarrow>
      l \<le> wz (calculateCoM a masses) \<and> wz (calculateCoM a masses) \<le> u"
proof -
  have com: "calculateCoM a masses = vec3 ((\<Sum>i<NUM_PARTS. wx (x i) * mass (masses i)) / M)
      ((\<Sum>i<NUM_PARTS. wy (x i) * mass (masses i)) / M) ((\<Sum>i<NUM_PARTS. wz (x i) * mass (masses i)) / M)"
    using assms by (simp add: calculateCoM_def Let_def com_fold v3_divs_def x_def M_def)
  then show "v3_scale (calculateCoM a masses) M =
      vec3 (\<Sum>i<NUM_PARTS. wx (x i) * mass (masses i)) (\<Sum>i<NUM_PARTS. wy (x i) * mass (masses i))
        (\<Sum>i<NUM_PARTS. wz (x i) * mass (masses i))"
    using assms(4) by (simp add: v3_scale_def)
  assume "\<forall>i<NUM_PARTS. l \<le> wz (x i) \<and> wz (x i) \<le> u"
  with assms show "l \<le> wz (calculateCoM a masses) \<and> wz (calculateCoM a masses) \<le> u"
    using weighted_mean_bounds [of NUM_PARTS "\<lambda>i. mass (masses i)" l "\<lambda>i. wz (x i)" u]
    by (simp add: com M_def)
qed

theorem com_weighted_mean_witness:
  "v3_scale (calculateCoM (\<lambda>i. p3d_default) mc_new) (\<Sum>i<NUM_PARTS. mass (mc_new i)) =
   vec3 (\<Sum>i<NUM_PARTS. wx (p3d_apply p3d_default (mass_offset (mc_new i))) * mass (mc_new i))
     (\<Sum>i<NUM_PARTS. wy (p3d_apply p3d_default (mass_offset (mc_new i))) * mass (mc_new i))
     (\<Sum>i<NUM_PARTS. wz (p3d_apply p3d_default (mass_offset (mc_new i))) * mass (mc_new i))"
  by (rule com_weighted_mean(1)) (use H21_masses in simp_all)

definition in_air :: "(sensor \<Rightarrow> real) \<Rightarrow> bool" where
  "in_air s \<longleftrightarrow> sum_sensors pressure_sensors s < 1"

definition air_time :: "('a \<times> (sensor \<Rightarrow> real)) list \<Rightarrow> nat" where
  "air_time fs = length (takeWhile (\<lambda>f. in_air (snd f)) (rev fs))"

definition kin_run ::
  "(dimension \<Rightarrow> real) \<Rightarrow> ((joint \<Rightarrow> real) \<times> (sensor \<Rightarrow> real)) list \<Rightarrow> kinematics_module \<Rightarrow> kinematics_module" where
  "kin_run d fs m = fold (\<lambda>f. calculatePose_of (fst f) (snd f) d) fs m"

lemma pose_frame_contact:
  "frames_in_air (calculatePose_of j s d m) = (if in_air s then frames_in_air m + 1 else 0)"
  "feet_on_ground_inst (km_body_model (calculatePose_of j s d m)) = (\<not> in_air s)"
  "feet_on_ground (km_body_model (calculatePose_of j s d m)) = (\<not> frames_in_air (calculatePose_of j s d m) > 75)"
  by (simp_all add: calculatePose_of_def ground_contact_def calcRelCenterOfMassFromFSRs_def in_air_def Let_def
      split: prod.split)

lemma air_time_snoc: "air_time (fs @ [f]) = (if in_air (snd f) then Suc (air_time fs) else 0)"
  by (simp add: air_time_def)

lemma kin_run_frames_in_air: "frames_in_air (kin_run d fs (kinm_new m)) = int (air_time fs)"
proof (induction fs rule: rev_induct)
  case Nil
  then show ?case by (simp add: kin_run_def kinm_new_def air_time_def)
next
  case (snoc f fs)
  then show ?case by (simp add: kin_run_def pose_frame_contact air_time_snoc)
qed

text \<open>
  C37: After any sequence of frames the feet count as off the ground exactly when the last 76 frames, without
  a gap, all had a total pressure below 1; one frame with pressure puts them back on the ground at once.
\<close>

theorem flying_after_76_frames:
  assumes "fs \<noteq> []"
  shows "(feet_on_ground (km_body_model (kin_run d fs (kinm_new m))) \<longleftrightarrow> air_time fs < 76) \<and>
    (feet_on_ground_inst (km_body_model (kin_run d fs (kinm_new m))) \<longleftrightarrow> \<not> in_air (snd (last fs)))"
proof
  from assms obtain gs f where fs: "fs = gs @ [f]" by (metis rev_exhaust)
  have step: "kin_run d fs (kinm_new m) = calculatePose_of (fst f) (snd f) d (kin_run d gs (kinm_new m))"
    by (simp add: fs kin_run_def)
  show "feet_on_ground (km_body_model (kin_run d fs (kinm_new m))) \<longleftrightarrow> air_time fs < 76"
    using kin_run_frames_in_air [of d fs m] unfolding step pose_frame_contact(3) by linarith
  show "feet_on_ground_inst (km_body_model (kin_run d fs (kinm_new m))) \<longleftrightarrow> \<not> in_air (snd (last fs))"
    by (simp add: step pose_frame_contact(2)) (simp add: fs)
qed

theorem flying_after_76_frames_witness:
  "\<forall>m. \<not> feet_on_ground (km_body_model (kin_run (\<lambda>i. 1) (replicate 76 (\<lambda>j. 0, \<lambda>s. 0)) (kinm_new m)))"
proof
  fix m
  have "takeWhile P (replicate n x) = replicate n x" if "P x" for P n and x :: "(joint \<Rightarrow> real) \<times> (sensor \<Rightarrow> real)"
    using that by (induction n) simp_all
  then have "air_time (replicate 76 (\<lambda>j :: joint. 0 :: real, \<lambda>s. 0)) = 76"
    by (simp add: air_time_def in_air_def sum_sensors_def pressure_sensors_def)
  then show "\<not> feet_on_ground (km_body_model (kin_run (\<lambda>i. 1) (replicate 76 (\<lambda>j. 0, \<lambda>s. 0)) (kinm_new m)))"
    using flying_after_76_frames [of "replicate 76 (\<lambda>j. 0, \<lambda>s. 0)" "\<lambda>i. 1" m] by simp
qed

lemma upt8: "[0..<8] = [0, 1, 2, 3, 4, 5, 6, 7 :: nat]"
  by code_simp

text \<open>
  The pressure point of a robot that stands on its right foot does not depend on how the pressure is
  distributed over the four sensors of that foot: their offsets are never set.
\<close>

theorem right_foot_pressure_ignored:
  assumes "\<forall>f\<in>{fsrLFL, fsrLFR, fsrLRL, fsrLRR}. s f \<le> 1 / 10" "\<exists>f\<in>{fsrRFL, fsrRFR, fsrRRL, fsrRRR}. s f > 1 / 10"
  shows "zmpFromFSRs (calcRelCenterOfMassFromFSRs s d b) =
    \<lparr>vx = wx (trans3 (rel_parts b right_bottom_foot)), vy = wy (trans3 (rel_parts b right_bottom_foot))\<rparr>"
proof -
  let ?t = "trans3 (rel_parts b right_bottom_foot)"
  have point: "fsr_point d (rel_parts b) i = ?t" if "4 \<le> i" for i
    using that by (simp add: fsr_point_def fsr_offset_def Let_def p3d_translate_def p3d_apply_def m3_apply_def v3_defs)
  define act where "act = (\<lambda>f. if s f > 1 / 10 then s f else 0)"
  define F where "F = act fsrRFL + act fsrRFR + act fsrRRL + act fsrRRR"
  have "fold (zmp_step s d (rel_parts b)) [0..<8] (\<lparr>vx = 0, vy = 0\<rparr>, 0) = (\<lparr>vx = wx ?t * F, vy = wy ?t * F\<rparr>, F)"
    using assms(1) unfolding upt8
    by (simp add: zmp_step_def Let_def pressure_sensors_def point act_def F_def algebra_simps)
  moreover have "0 < F"
    using assms(2) unfolding F_def act_def by (auto simp: add_pos_nonneg add_nonneg_pos)
  ultimately show ?thesis by (simp add: calcRelCenterOfMassFromFSRs_def Let_def v2_divs_def)
qed

theorem right_foot_pressure_ignored_witness:
  "\<forall>b. zmpFromFSRs (calcRelCenterOfMassFromFSRs ((\<lambda>s. 0)(fsrRFL := 3)) (\<lambda>i. 0) b) =
    \<lparr>vx = wx (trans3 (rel_parts b right_bottom_foot)), vy = wy (trans3 (rel_parts b right_bottom_foot))\<rparr>"
  using right_foot_pressure_ignored [of "(\<lambda>s. 0)(fsrRFL := 3)" "\<lambda>i. 0"] by simp

end
