(* ===== verification/Inverse_Kinematics.thy ===== *)
theory Inverse_Kinematics
  imports Forward_Kinematics Cmath
begin

text \<open>
  Inverse kinematics, \<open>src/core/kinematics/InverseKinematics.cpp\<close>: joint angles of legs and arms for
  given poses of feet and hands. An array of joint angles is a function on the numbers of the joints.
  The angles of a leg with a given hip yaw are shown to bring the foot where it should be, by way of the
  forward kinematics; the search for the elbow ends and finds a point that both limbs can reach; and
  the report whether a pose is reachable is shown to be wrong in one of the two leg functions.

  In floating point numbers a negative square root and a division of zero by zero give NaN, for which every
  comparison is false. Where the code relies on this the definitions test for it.
\<close>

type_synonym joints = "nat \<Rightarrow> real"

definition clipping :: range where
  "clipping = \<lparr>rg_min = - 1, rg_max = 1\<rparr>"

section \<open>Legs\<close>

text \<open>The position of the body seen from the foot.\<close>

definition leg1_target :: "pose3D \<Rightarrow> bool \<Rightarrow> (dimension \<Rightarrow> real) \<Rightarrow> pose3D" where
  "leg1_target position left d =
     (let target = position;
          sign = (if left then - 1 else 1 :: real);
          target = target\<lparr>trans3 := (trans3 target)\<lparr>wy := wy (trans3 target) + d lengthBetweenLegs / 2 * sign\<rparr>\<rparr>;
          sqrt2_2 = sqrt 2 * (1 / 2);
          rotationX_pi_4 = mat3 (vec3 1 0 0) (vec3 0 sqrt2_2 (sqrt2_2 * sign)) (vec3 0 (sqrt2_2 * - sign) sqrt2_2);
          target = target\<lparr>trans3 := m3_apply rotationX_pi_4 (trans3 target)\<rparr>;
          target = target\<lparr>rot3 := m3_mul rotationX_pi_4 (rot3 target)\<rparr>
      in p3d_invert target)"

definition calcLegJoints1 ::
  "pose3D \<Rightarrow> joints \<Rightarrow> bool \<Rightarrow> (dimension \<Rightarrow> real) \<Rightarrow> bool \<times> joints" where
  "calcLegJoints1 position ja left d =
     (let firstJoint = joint_index (if left then LHipYawPitch else RHipYawPitch);
          sign = (if left then - 1 else 1 :: real);
          target = leg1_target position left d;
          len = v3_abs (trans3 target);
          sqrLength = len * len;
          upperLeg = d upperLegLength; sqrUpperLeg = upperLeg * upperLeg;
          lowerLeg = d lowerLegLength; sqrLowerLeg = lowerLeg * lowerLeg;
          cosLowerLeg = (sqrLowerLeg + sqrLength - sqrUpperLeg) / (2 * lowerLeg * len);
          cosKnee = (sqrUpperLeg + sqrLowerLeg - sqrLength) / (2 * upperLeg * lowerLeg);
          clip = \<not> rg_isInside clipping cosKnee \<or> rg_isInside clipping cosLowerLeg;
          cosKnee = (if clip then rg_limit clipping cosKnee else cosKnee);
          cosLowerLeg = (if clip then rg_limit clipping cosLowerLeg else cosLowerLeg);
          joint3 = pi - arccos cosKnee;
          joint4 = - arccos cosLowerLeg;
          t = trans3 target;
          joint4 = joint4 - c_atan2 (wx t) (v2_abs \<lparr>vx = wy t, vy = wz t\<rparr>);
          joint5 = c_atan2 (wy t) (wz t) * sign;
          hipFromFoot = rm_rotateY (rm_rotateX m3_identity (joint5 * - sign)) (- joint4 - joint3);
          hip = m3_mul (rm_invert hipFromFoot) (rot3 target);
          joint1 = arcsin (- wy (mc2 hip)) * - sign;
          joint1 = joint1 - pi / 4;
          joint2 = - c_atan2 (wx (mc2 hip)) (wz (mc2 hip));
          joint0 = c_atan2 (wy (mc0 hip)) (wy (mc1 hip)) * - sign
      in (\<not> clip, ja(firstJoint + 0 := joint0, firstJoint + 1 := joint1, firstJoint + 2 := joint2,
                    firstJoint + 3 := joint3, firstJoint + 4 := joint4, firstJoint + 5 := joint5)))"

text \<open>The pose of the foot seen from the leg, with the first joint given.\<close>

definition leg_target :: "pose3D \<Rightarrow> real \<Rightarrow> bool \<Rightarrow> (dimension \<Rightarrow> real) \<Rightarrow> pose3D" where
  "leg_target position joint0 left d =
     (let target = position;
          sign = (if left then - 1 else 1 :: real);
          target = target\<lparr>trans3 := (trans3 target)\<lparr>wy := wy (trans3 target) + d lengthBetweenLegs / 2 * sign\<rparr>\<rparr>
      in p3d_conc (p3d_rotateX (p3d_rotateZ p3d_default (joint0 * - sign)) (pi / 4 * sign)) target)"

definition leg_cosUpperLeg :: "real \<Rightarrow> (dimension \<Rightarrow> real) \<Rightarrow> real" where
  "leg_cosUpperLeg len d =
     (d upperLegLength * d upperLegLength + len * len - d lowerLegLength * d lowerLegLength) /
     (2 * d upperLegLength * len)"

definition leg_cosKnee :: "real \<Rightarrow> (dimension \<Rightarrow> real) \<Rightarrow> real" where
  "leg_cosKnee len d =
     (d upperLegLength * d upperLegLength + d lowerLegLength * d lowerLegLength - len * len) /
     (2 * d upperLegLength * d lowerLegLength)"

definition calcLegJoints_fixed ::
  "pose3D \<Rightarrow> joints \<Rightarrow> real \<Rightarrow> bool \<Rightarrow> (dimension \<Rightarrow> real) \<Rightarrow> bool \<times> joints" where
  "calcLegJoints_fixed position ja joint0 left d =
     (let firstJoint = joint_index (if left then LHipYawPitch else RHipYawPitch);
          sign = (if left then - 1 else 1 :: real);
          target = leg_target position joint0 left d;
          t = trans3 target;
          len = v3_abs t;
          cosUpperLeg = leg_cosUpperLeg len d;
          cosKnee = leg_cosKnee len d;
          clip = \<not> rg_isInside clipping cosKnee \<or> rg_isInside clipping (d upperLegLength);
          cosKnee = (if clip then rg_limit clipping cosKnee else cosKnee);
          cosUpperLeg = (if clip then rg_limit clipping cosUpperLeg else cosUpperLeg);
          joint1 = (if wz t = 0 then 0 else arctan (wy t / - wz t) * sign);
          joint2 = - arccos cosUpperLeg;
          joint2 = joint2 - c_atan2 (wx t) (v2_abs \<lparr>vx = wy t, vy = wz t\<rparr> * - sm_sgn (wz t));
          joint3 = pi - arccos cosKnee;
          beforeFoot = rm_rotateY (rm_rotateX m3_identity (joint1 * sign)) (joint2 + joint3);
          joint1 = joint1 - pi / 4;
          foot = m3_mul (rm_invert beforeFoot) (rot3 target);
          joint5 = arcsin (- wy (mc2 foot)) * - sign * - 1;
          joint4 = - c_atan2 (wx (mc2 foot)) (wz (mc2 foot)) * - 1
      in (\<not> clip, ja(firstJoint + 0 := joint0, firstJoint + 1 := joint1, firstJoint + 2 := joint2,
                    firstJoint + 3 := joint3, firstJoint + 4 := joint4, firstJoint + 5 := joint5)))"

definition calcLegJoints ::
  "pose3D \<Rightarrow> pose3D \<Rightarrow> joints \<Rightarrow> (dimension \<Rightarrow> real) \<Rightarrow> real \<Rightarrow> bool \<times> joints" where
  "calcLegJoints positionLeft positionRight ja d ratio =
     (let (r1, ja) = calcLegJoints1 positionLeft ja True d;
          (r2, ja) = calcLegJoints1 positionRight ja False d;
          ratio = rg_limit \<lparr>rg_min = 0, rg_max = 1\<rparr> ratio;
          joint0 = ja (joint_index LHipYawPitch) * ratio + ja (joint_index RHipYawPitch) * (1 - ratio);
          (r3, ja) = calcLegJoints_fixed positionLeft ja joint0 True d;
          (r4, ja) = calcLegJoints_fixed positionRight ja joint0 False d
      in (r1 \<and> r2 \<and> r3 \<and> r4, ja))"

section \<open>Arms\<close>

text \<open>
  The loops that are meant to bring an angle into \<open>[-pi, pi]\<close>: they subtract and add \<open>M_2_PI\<close>, which is
  \<open>2 / pi\<close> and not a full turn.
\<close>

function wrap_down :: "real \<Rightarrow> real" where
  "wrap_down x = (if x > pi then wrap_down (x - 2 / pi) else x)"
  by auto

termination wrap_down
proof (relation "measure (\<lambda>x. nat \<lceil>(x - pi) * pi / 2\<rceil>)")
  fix x :: real assume x: "x > pi"
  have "(x - 2 / pi - pi) * pi / 2 = (x - pi) * pi / 2 - 1" by (simp add: algebra_simps diff_divide_distrib)
  moreover have "0 < (x - pi) * pi / 2" using x by simp
  ultimately have "\<lceil>(x - 2 / pi - pi) * pi / 2\<rceil> = \<lceil>(x - pi) * pi / 2\<rceil> - 1" "0 < \<lceil>(x - pi) * pi / 2\<rceil>"
    by linarith+
  then show "(x - 2 / pi, x) \<in> measure (\<lambda>x. nat \<lceil>(x - pi) * pi / 2\<rceil>)" by simp
qed simp

function wrap_up :: "real \<Rightarrow> real" where
  "wrap_up x = (if x < - pi then wrap_up (x + 2 / pi) else x)"
  by auto

termination wrap_up
proof (relation "measure (\<lambda>x. nat \<lceil>(- x - pi) * pi / 2\<rceil>)")
  fix x :: real assume x: "x < - pi"
  have "(- (x + 2 / pi) - pi) * pi / 2 = (- x - pi) * pi / 2 - 1" by (simp add: algebra_simps diff_divide_distrib)
  moreover have "0 < (- x - pi) * pi / 2" using x by simp
  ultimately have "\<lceil>(- (x + 2 / pi) - pi) * pi / 2\<rceil> = \<lceil>(- x - pi) * pi / 2\<rceil> - 1" "0 < \<lceil>(- x - pi) * pi / 2\<rceil>"
    by linarith+
  then show "(x + 2 / pi, x) \<in> measure (\<lambda>x. nat \<lceil>(- x - pi) * pi / 2\<rceil>)" by simp
qed simp

definition shoulder2Elbow :: "real \<Rightarrow> real \<Rightarrow> (dimension \<Rightarrow> real) \<Rightarrow> pose3D" where
  "shoulder2Elbow angle0 angle1 d =
     p3d_rotateY (p3d_rotateX (p3d_move 0 (- d upperArmLength) 0 p3d_default) (- (angle1 - pi / 2))) (angle0 + pi / 2)"

text \<open>The result is \<^term>\<open>None\<close> when the assertion on the angle fails and the program is stopped.\<close>

definition calcJointsForElbowPos ::
  "vector3 \<Rightarrow> vector3 \<Rightarrow> joints \<Rightarrow> nat \<Rightarrow> (dimension \<Rightarrow> real) \<Rightarrow> joints option" where
  "calcJointsForElbowPos elbow target ja offset d =
     (let ja = ja(offset + 0 := c_atan2 (wz elbow) (wx elbow));
          ja = ja(offset + 1 := c_atan2 (wy elbow) (sqrt (sm_sqr (wx elbow) + sm_sqr (wz elbow))));
          c = v3_abs target; a = d upperArmLength; b = d lowerArmLength;
          cosAngle = (- sm_sqr c + sm_sqr b + sm_sqr a) / (2 * a * b)
      in if cosAngle > 1 \<and> \<not> cosAngle < 11 / 10 then None
         else
           (let cosAngle = (if cosAngle < - 1 then - 1 else if cosAngle > 1 then 1 else cosAngle);
                ja = ja(offset + 3 := arccos cosAngle - pi);
                handInEllbow = p3d_apply (shoulder2Elbow (ja (offset + 0)) (ja (offset + 1)) d) target;
                ja = ja(offset + 2 := - (c_atan2 (wz handInEllbow) (wx handInEllbow) + pi / 2))
            in Some (ja(offset + 2 := wrap_up (wrap_down (ja (offset + 2)))))))"

record elbow_search =
  es_angleDiff :: real
  es_bestMatch :: vector3
  es_bestAngle :: real
  es_newBestAngle :: real
  es_bestQuality :: real
  es_iterationCounter :: int

definition search_try ::
  "vector3 \<Rightarrow> vector3 \<Rightarrow> vector3 \<Rightarrow> vector3 \<Rightarrow> int \<Rightarrow> elbow_search \<Rightarrow> elbow_search" where
  "search_try n M3 pointOnCircle tDir i st =
     (if i = 0 \<and> es_iterationCounter st \<noteq> 1 then st
      else
        (let st = st\<lparr>es_iterationCounter := es_iterationCounter st + 1\<rparr>;
             elbowRotation = \<lparr>rot3 = rm_axis_angle n (es_bestAngle st + es_angleDiff st * of_int i), trans3 = vec3 0 0 0\<rparr>;
             possibleElbow = p3d_apply elbowRotation pointOnCircle;
             elbowDir = v3_normalize (v3_sub M3 possibleElbow);
             quality = v3_inner elbowDir tDir
         in if quality > es_bestQuality st
            then st\<lparr>es_bestQuality := quality, es_bestMatch := possibleElbow,
                    es_newBestAngle := es_bestAngle st + es_angleDiff st * of_int i\<rparr>
            else st))"

definition search_round :: "vector3 \<Rightarrow> vector3 \<Rightarrow> vector3 \<Rightarrow> vector3 \<Rightarrow> elbow_search \<Rightarrow> elbow_search" where
  "search_round n M3 pointOnCircle tDir st =
     (let st = fold (search_try n M3 pointOnCircle tDir) [- 1, 0, 1] st
      in st\<lparr>es_angleDiff := es_angleDiff st / 2, es_bestAngle := es_newBestAngle st\<rparr>)"

abbreviation (input) maxAngleEpsilon :: real where "maxAngleEpsilon \<equiv> 1 * pi / 180"

lemma search_try_angleDiff [simp]: "es_angleDiff (search_try n M3 p t i st) = es_angleDiff st"
  by (simp add: search_try_def Let_def)

lemma search_round_angleDiff [simp]: "es_angleDiff (search_round n M3 p t st) = es_angleDiff st / 2"
  by (simp add: search_round_def Let_def)

function search_loop :: "vector3 \<Rightarrow> vector3 \<Rightarrow> vector3 \<Rightarrow> vector3 \<Rightarrow> elbow_search \<Rightarrow> elbow_search" where
  "search_loop n M3 pointOnCircle tDir st =
     (if 2 * es_angleDiff st > maxAngleEpsilon
      then search_loop n M3 pointOnCircle tDir (search_round n M3 pointOnCircle tDir st)
      else st)"
  by auto

termination search_loop
proof (relation "measure (\<lambda>(n, M3, p, t, st). nat \<lceil>4 * es_angleDiff st / maxAngleEpsilon\<rceil>)")
  fix n M3 p t and st :: elbow_search
  let ?a = "es_angleDiff st" let ?e = maxAngleEpsilon
  assume "2 * ?a > ?e"
  then have "2 * ?a / ?e > 1" by (simp add: field_simps)
  moreover have "4 * ?a / ?e = 2 * ?a / ?e + 2 * ?a / ?e" "4 * (?a / 2) / ?e = 2 * ?a / ?e" by simp_all
  ultimately have "\<lceil>4 * (?a / 2) / ?e\<rceil> < \<lceil>4 * ?a / ?e\<rceil>" "0 < \<lceil>4 * ?a / ?e\<rceil>" by linarith+
  then show "((n, M3, p, t, search_round n M3 p t st), n, M3, p, t, st) \<in>
      measure (\<lambda>(n, M3, p, t, st). nat \<lceil>4 * es_angleDiff st / maxAngleEpsilon\<rceil>)" by simp
qed simp

declare search_loop.simps [simp del] wrap_down.simps [simp del] wrap_up.simps [simp del]

definition elbow_circle :: "vector3 \<Rightarrow> (dimension \<Rightarrow> real) \<Rightarrow> vector3 \<times> real" where
  "elbow_circle target d =
     (let M1 = vec3 0 0 0; M2 = target; r1 = d upperArmLength; r2 = d lowerArmLength;
          M12 = v3_sub M2 M1;
          M3 = v3_add M1 (v3_scale M12 ((sm_sqr r1 - sm_sqr r2) / (2 * v3_squareAbs M12) + 1 / 2));
          M23 = v3_sub M3 M2
      in (M3, sm_sqr r2 - v3_squareAbs M23))"

definition elbow_start :: "vector3 \<Rightarrow> (dimension \<Rightarrow> real) \<Rightarrow> vector3" where
  "elbow_start target d =
     (let n = v3_normalize target; (M3, diff) = elbow_circle target d; radius = sqrt diff;
          specialCase = (wx n = 1 \<and> wy n = 0 \<and> wz n = 0);
          bla = vec3 (if specialCase then 0 else 1) (if specialCase then 1 else 0) 0
      in v3_add M3 (v3_normalize_to (v3_cross n bla) radius))"

definition elbow_search_result :: "vector3 \<Rightarrow> vector3 \<Rightarrow> (dimension \<Rightarrow> real) \<Rightarrow> elbow_search" where
  "elbow_search_result target targetDir d =
     search_loop (v3_normalize target) (fst (elbow_circle target d)) (elbow_start target d) (v3_normalize targetDir)
       \<lparr>es_angleDiff = pi * 2 / 3, es_bestMatch = elbow_start target d, es_bestAngle = 0, es_newBestAngle = 0,
        es_bestQuality = - 2, es_iterationCounter = 0\<rparr>"

text \<open>
  The result is \<^term>\<open>None\<close> when an assertion stops the program, \<open>Some None\<close> when the code returns false, and
  otherwise the new target and the elbow. A target in the shoulder, or too near or too far for the two
  limbs, gives NaN for every candidate, none is ever better than the initial quality, and the code
  returns false.
\<close>

definition calcElbowPosition ::
  "vector3 \<Rightarrow> vector3 \<Rightarrow> int \<Rightarrow> (dimension \<Rightarrow> real) \<Rightarrow> (vector3 \<times> vector3) option option" where
  "calcElbowPosition target targetDir side d =
     (if v3_squareAbs target = 0 \<or> snd (elbow_circle target d) < 0 then Some None
      else
        (let st = elbow_search_result target targetDir d;
             bestMatch = es_bestMatch st;
             offset = (if side = 1 then 0 else 4)
         in if es_bestQuality st = - 2 then Some None
            else case calcJointsForElbowPos bestMatch target (\<lambda>i. 0) offset d of
              None \<Rightarrow> None
            | Some tAJR \<Rightarrow>
                (let jointInd = all_joints ! (joint_index LShoulderPitch + offset + 1);
                     minVal = robot_joint_signs jointInd * minJointLimits jointInd
                 in if tAJR (offset + 1) < minVal
                    then (let tAJR = tAJR(offset + 1 := minVal);
                              s2e = shoulder2Elbow (tAJR (offset + 0)) (tAJR (offset + 1)) d;
                              handInEllbow = v3_normalize_to (p3d_apply s2e target) (d lowerArmLength)
                          in Some (Some (p3d_apply (p3d_invert s2e) handInEllbow, p3d_apply (p3d_invert s2e) (vec3 0 0 0))))
                    else Some (Some (target, bestMatch)))))"

definition calcArmJoints_side ::
  "vector3 \<Rightarrow> vector3 \<Rightarrow> int \<Rightarrow> joints \<Rightarrow> (dimension \<Rightarrow> real) \<Rightarrow> (bool \<times> joints) option" where
  "calcArmJoints_side target targetDir side ja d =
     (let target = target\<lparr>wy := wy target * of_int side\<rparr>;
          targetDir = targetDir\<lparr>wy := wy targetDir * of_int side\<rparr>;
          offset = joint_index (if side = - 1 then RShoulderPitch else LShoulderPitch)
      in case calcElbowPosition target targetDir side d of
        None \<Rightarrow> None
      | Some None \<Rightarrow> Some (False, ja)
      | Some (Some (target, elbow)) \<Rightarrow>
          map_option (Pair True) (calcJointsForElbowPos elbow target ja offset d))"

definition arm_target :: "vector3 \<Rightarrow> (dimension \<Rightarrow> real) \<Rightarrow> vector3" where
  "arm_target t d =
     (let maxLength = (d upperArmLength + d lowerArmLength) * (9999 / 10000)
      in if v3_squareAbs t \<ge> sm_sqr maxLength then v3_normalize_to t maxLength else t)"

definition calcArmJoints ::
  "pose3D \<Rightarrow> pose3D \<Rightarrow> joints \<Rightarrow> (dimension \<Rightarrow> real) \<Rightarrow> (bool \<times> joints) option" where
  "calcArmJoints left right ja d =
     (let leftDir = m3_apply (rot3 left) (vec3 0 (- 1) 0);
          rightDir = m3_apply (rot3 right) (vec3 0 1 0);
          leftTarget = arm_target (v3_sub (trans3 left) (vec3 (d armOffset1) (d armOffset2) (d armOffset3))) d;
          rightTarget = arm_target (v3_sub (trans3 right) (vec3 (d armOffset1) (- d armOffset2) (d armOffset3))) d
      in case calcArmJoints_side leftTarget leftDir 1 ja d of
        None \<Rightarrow> None
      | Some (res1, ja) \<Rightarrow>
          (case calcArmJoints_side rightTarget rightDir (- 1) ja d of
            None \<Rightarrow> None
          | Some (res2, ja) \<Rightarrow> Some (res1 \<and> res2, ja)))"

definition calcArmJoints_yaw :: "vector3 \<Rightarrow> real \<Rightarrow> joints \<Rightarrow> bool \<Rightarrow> (dimension \<Rightarrow> real) \<Rightarrow> joints" where
  "calcArmJoints_yaw position elbowYaw ja left d =
     (let firstJoint = joint_index (if left then LShoulderPitch else RShoulderPitch);
          sign = (if left then - 1 else 1 :: real);
          pos = v3_sub position (vec3 (d armOffset1) (d armOffset2 * - sign) (d armOffset3));
          joint2 = elbowYaw;
          positionAbs = v3_abs pos;
          actualUpperArmLength = v2_abs \<lparr>vx = d upperArmLength, vy = d elbowOffsetY\<rparr>;
          cosElbow = (sm_sqr actualUpperArmLength + sm_sqr (d lowerArmLength) - sm_sqr positionAbs) /
                     (2 * d upperArmLength * d lowerArmLength);
          cosElbow = rg_limit clipping cosElbow;
          joint3 = - (pi - arccos cosElbow);
          tempPose = p3d_move (d lowerArmLength) 0 0
            (p3d_rotateZ (p3d_rotateX (p3d_xyz (d upperArmLength) (d elbowOffsetY * - sign) 0) (joint2 * - sign)) (joint3 * - sign));
          t = trans3 tempPose;
          joint1 = c_atan2 (wy t * sign) (wx t) + arcsin (wy pos / v2_abs \<lparr>vx = wx t, vy = wy t\<rparr>) * - sign;
          tempPose2 = p3d_conc (p3d_rotateZ p3d_default (joint1 * - sign)) tempPose;
          t2 = trans3 tempPose2;
          joint0 = - c_atan2 (wz t2) (wx t2) + c_atan2 (wz pos) (wx pos)
      in ja(firstJoint + 0 := joint0, firstJoint + 1 := joint1, firstJoint + 2 := joint2, firstJoint + 3 := joint3))"

section \<open>The legs reach their target\<close>

lemma sin_arccos_nonneg: "\<bar>x\<bar> \<le> 1 \<Longrightarrow> 0 \<le> sin (arccos x)"
  by (rule sin_ge_zero) (simp_all add: arccos_lbound arccos_ubound abs_le_iff)

text \<open>A triangle with sides \<open>u\<close>, \<open>l\<close> and \<open>len\<close>: the two angles the code computes close it.\<close>

lemma triangle_closes:
  assumes "0 < u" "0 < l" "0 < len" "\<bar>(u * u + l * l - len * len) / (2 * u * l)\<bar> \<le> 1"
  defines "\<kappa> \<equiv> pi - arccos ((u * u + l * l - len * len) / (2 * u * l))"
    and "cu \<equiv> (u * u + len * len - l * l) / (2 * u * len)"
  shows "\<bar>cu\<bar> \<le> 1" "u + l * cos \<kappa> = len * cos (arccos cu)" "l * sin \<kappa> = len * sin (arccos cu)"
proof -
  define ck where "ck = (u * u + l * l - len * len) / (2 * u * l)"
  have ck: "2 * u * l * ck = u * u + l * l - len * len" "\<bar>ck\<bar> \<le> 1" using assms by (simp_all add: ck_def)
  have cosk: "cos \<kappa> = - ck" and sink: "0 \<le> sin \<kappa>"
    using ck(2) by (simp_all add: \<kappa>_def ck_def [symmetric] cos_diff sin_diff cos_arccos_abs sin_arccos_nonneg)
  have one: "u + l * cos \<kappa> = len * cu"
  proof -
    have "2 * u * len * cu = u * u + len * len - l * l" using assms(1,3) by (simp add: cu_def)
    then have "2 * u * (u + l * cos \<kappa>) = 2 * u * (len * cu)" using ck(1) by (simp add: cosk algebra_simps)
    then show ?thesis using assms(1) by simp
  qed
  have mod: "(u + l * cos \<kappa>)\<^sup>2 + (l * sin \<kappa>)\<^sup>2 = len\<^sup>2"
  proof -
    have "(u + l * cos \<kappa>)\<^sup>2 + (l * sin \<kappa>)\<^sup>2 = u\<^sup>2 + 2 * u * l * cos \<kappa> + l\<^sup>2 * ((sin \<kappa>)\<^sup>2 + (cos \<kappa>)\<^sup>2)"
      by algebra
    also have "\<dots> = u\<^sup>2 - 2 * u * l * ck + l\<^sup>2" by (simp only: sin_cos_squared_add) (simp add: cosk)
    also have "\<dots> = len\<^sup>2" using ck(1) by (simp add: power2_eq_square)
    finally show ?thesis .
  qed
  have sq: "(l * sin \<kappa>)\<^sup>2 = len\<^sup>2 * (1 - cu\<^sup>2)" using mod by (simp add: one power_mult_distrib algebra_simps)
  then have "0 \<le> len\<^sup>2 * (1 - cu\<^sup>2)" by (metis zero_le_power2)
  then have "cu\<^sup>2 \<le> 1" using assms(3) by (simp add: zero_le_mult_iff)
  then show cu: "\<bar>cu\<bar> \<le> 1" by (simp add: abs_square_le_1)
  then show "u + l * cos \<kappa> = len * cos (arccos cu)" using one by (simp add: cos_arccos_abs)
  have "sin (arccos cu) = sqrt (1 - cu\<^sup>2)" using cu by (simp add: sin_arccos_abs)
  then have "(len * sin (arccos cu))\<^sup>2 = len\<^sup>2 * (1 - cu\<^sup>2)" using \<open>cu\<^sup>2 \<le> 1\<close> by (simp add: power_mult_distrib)
  then have "(len * sin (arccos cu))\<^sup>2 = (l * sin \<kappa>)\<^sup>2" by (simp only: sq)
  moreover have "0 \<le> len * sin (arccos cu)" using cu assms(3) by (simp add: sin_arccos_nonneg)
  ultimately show "l * sin \<kappa> = len * sin (arccos cu)"
    using sink assms(2) by (metis mult_nonneg_nonneg less_imp_le power2_eq_imp_eq)
qed

lemma leg_plane:
  assumes "0 < u" "0 < l" "0 < len" "\<bar>(u * u + l * l - len * len) / (2 * u * l)\<bar> \<le> 1"
    and len: "len = sqrt (x * x + \<zeta> * \<zeta>)"
  defines "j3 \<equiv> pi - arccos ((u * u + l * l - len * len) / (2 * u * l))"
    and "j2 \<equiv> - arccos ((u * u + len * len - l * l) / (2 * u * len)) - c_atan2 x (- \<zeta>)"
  shows "u * sin j2 + l * sin (j2 + j3) = - x" "u * cos j2 + l * cos (j2 + j3) = - \<zeta>"
proof -
  define \<beta> \<phi> where "\<beta> = arccos ((u * u + len * len - l * l) / (2 * u * len))" and "\<phi> = c_atan2 x (- \<zeta>)"
  have tri: "u + l * cos j3 = len * cos \<beta>" "l * sin j3 = len * sin \<beta>"
    using triangle_closes [OF assms(1-4)] by (simp_all add: j3_def \<beta>_def)
  have pol: "len * cos \<phi> = - \<zeta>" "len * sin \<phi> = x"
    using cos_c_atan2 [of "- \<zeta>" x] sin_c_atan2 [of "- \<zeta>" x] by (simp_all add: len \<phi>_def add.commute)
  have j2: "j2 = - \<beta> - \<phi>" by (simp add: j2_def \<beta>_def \<phi>_def)
  have "u * sin j2 + l * sin (j2 + j3) = sin j2 * (u + l * cos j3) + cos j2 * (l * sin j3)"
    by (simp add: sin_add algebra_simps)
  also have "\<dots> = len * sin (j2 + \<beta>)" by (simp add: tri sin_add algebra_simps)
  also have "\<dots> = - x" using pol by (simp add: j2)
  finally show "u * sin j2 + l * sin (j2 + j3) = - x" .
  have "u * cos j2 + l * cos (j2 + j3) = cos j2 * (u + l * cos j3) - sin j2 * (l * sin j3)"
    by (simp add: cos_add algebra_simps)
  also have "\<dots> = len * cos (j2 + \<beta>)" by (simp add: tri cos_add algebra_simps)
  also have "\<dots> = - \<zeta>" using pol by (simp add: j2)
  finally show "u * cos j2 + l * cos (j2 + j3) = - \<zeta>" .
qed

lemma pose_fields:
  "rot3 (p3d_rotateX p a) = m3_mul (rot3 p) (rm_fromRotationX a)" "trans3 (p3d_rotateX p a) = trans3 p"
  "rot3 (p3d_rotateY p a) = m3_mul (rot3 p) (rm_fromRotationY a)" "trans3 (p3d_rotateY p a) = trans3 p"
  "rot3 (p3d_rotateZ p a) = m3_mul (rot3 p) (rm_fromRotationZ a)" "trans3 (p3d_rotateZ p a) = trans3 p"
  "rot3 (p3d_move x y z p) = rot3 p" "trans3 (p3d_move x y z p) = v3_add (m3_apply (rot3 p) (vec3 x y z)) (trans3 p)"
  by (simp_all add: p3d_rotateX_def p3d_rotateY_def p3d_rotateZ_def p3d_move_def p3d_translate_def p3d_apply_def rotate_is_mul)

lemma v3_add_zero [simp]: "v3_add v (vec3 0 0 0) = v" "v3_add (vec3 0 0 0) v = v"
  by (simp_all add: v3_add_def)

lemma v3_sub_zero [simp]: "v3_sub v (vec3 0 0 0) = v"
  by (simp add: v3_sub_def)

lemma rotationY_add: "m3_mul (rm_fromRotationY a) (rm_fromRotationY b) = rm_fromRotationY (a + b)"
  by (rule m3_eqI) (simp_all add: elementary_matrices m3_mul_def m3_apply_def v3_defs sin_add cos_add algebra_simps)

lemma invert_elementary:
  "rm_invert (rm_fromRotationX a) = rm_fromRotationX (- a)" "rm_invert (rm_fromRotationY a) = rm_fromRotationY (- a)"
  "rm_invert (rm_fromRotationZ a) = rm_fromRotationZ (- a)"
  by (simp_all add: elementary_matrices rm_invert_def m3_transpose_def)

text \<open>The frame of the leg behind the first joint, and the position of the foot in it.\<close>

definition leg_frame :: "real \<Rightarrow> real \<Rightarrow> matrix3x3" where
  "leg_frame s j0 = m3_mul (rm_fromRotationX (- (pi / 4 * s))) (rm_fromRotationZ (j0 * s))"

lemma is_rotation_leg_frame [simp]: "is_rotation (leg_frame s j0)"
  by (simp add: leg_frame_def is_rotation_mul)

lemma leg_target_frame:
  fixes left :: bool
  defines "s \<equiv> if left then - 1 else 1 :: real"
  shows "rot3 (leg_target p j0 left d) = m3_mul (rm_invert (leg_frame s j0)) (rot3 p)"
    and "trans3 (leg_target p j0 left d) =
      m3_apply (rm_invert (leg_frame s j0)) ((trans3 p)\<lparr>wy := wy (trans3 p) + d lengthBetweenLegs / 2 * s\<rparr>)"
proof -
  have inv: "rm_invert (leg_frame s j0) = m3_mul (rm_fromRotationZ (- (j0 * s))) (rm_fromRotationX (pi / 4 * s))" for s
    using invert_elementary by (simp add: leg_frame_def rm_invert_def m3_transpose_mul)
  show "rot3 (leg_target p j0 left d) = m3_mul (rm_invert (leg_frame s j0)) (rot3 p)"
    "trans3 (leg_target p j0 left d) =
      m3_apply (rm_invert (leg_frame s j0)) ((trans3 p)\<lparr>wy := wy (trans3 p) + d lengthBetweenLegs / 2 * s\<rparr>)"
    by (simp_all add: inv leg_target_def Let_def p3d_conc_def pose_fields p3d_default_def p3d_apply_def s_def v3_add_zero)
qed

lemma leg_bend:
  assumes "wz t \<noteq> 0"
  defines "\<alpha> \<equiv> arctan (wy t / - wz t)" and "\<zeta> \<equiv> sqrt (wy t * wy t + wz t * wz t) * sm_sgn (wz t)"
  shows "m3_apply (rm_fromRotationX \<alpha>) (vec3 (wx t) 0 \<zeta>) = t" "v3_abs t = sqrt (wx t * wx t + \<zeta> * \<zeta>)"
proof -
  have sgn: "sm_sgn (wz t) * \<bar>wz t\<bar> = wz t" "sm_sgn (wz t) * sm_sgn (wz t) = 1"
    using assms(1) by (simp_all add: sm_sgn_def)
  let ?h = "sqrt (wy t * wy t + wz t * wz t)"
  have h: "0 < ?h" using assms(1) by (simp add: add_nonneg_pos flip: power2_eq_square)
  have "sqrt (1 + (wy t / - wz t)\<^sup>2) = ?h / \<bar>wz t\<bar>"
    using sqrt_one_plus_div [of "- wz t" "wy t"] assms(1) by (simp add: add.commute)
  then have cs: "?h * cos \<alpha> = \<bar>wz t\<bar>" "?h * sin \<alpha> = wy t / - wz t * \<bar>wz t\<bar>"
    using h assms(1) by (simp_all add: \<alpha>_def cos_arctan sin_arctan)
  have \<zeta>: "\<zeta> * cos \<alpha> = sm_sgn (wz t) * (?h * cos \<alpha>)" "\<zeta> * sin \<alpha> = sm_sgn (wz t) * (?h * sin \<alpha>)"
    by (simp_all add: \<zeta>_def)
  have "\<zeta> * cos \<alpha> = wz t" unfolding \<zeta> cs by (rule sgn(1))
  moreover have "\<zeta> * sin \<alpha> = wy t / - wz t * (sm_sgn (wz t) * \<bar>wz t\<bar>)" unfolding \<zeta> cs by (simp only: mult_ac)
  then have "\<zeta> * sin \<alpha> = - wy t" unfolding sgn(1) using assms(1) by simp
  ultimately show "m3_apply (rm_fromRotationX \<alpha>) (vec3 (wx t) 0 \<zeta>) = t"
    by (intro v3_eqI) (simp_all add: elementary_matrices m3_apply_def v3_defs mult.commute)
  have "\<zeta> * \<zeta> = wy t * wy t + wz t * wz t"
    using sgn(2) by (simp add: \<zeta>_def mult.left_commute mult.assoc)
  then show "v3_abs t = sqrt (wx t * wx t + \<zeta> * \<zeta>)" by (simp add: v3_abs_def add.assoc)
qed

text \<open>The third column of a rotation determines the two angles of the ankle.\<close>

lemma ankle_angles:
  assumes "wx c * wx c + wy c * wy c + wz c * wz c = 1"
  shows "mc2 (m3_mul (rm_fromRotationY (c_atan2 (wx c) (wz c))) (rm_fromRotationX (arcsin (- wy c)))) = c"
proof -
  have le: "\<bar>- wy c\<bar> \<le> 1"
    using assms by (simp add: abs_square_le_1 [symmetric] power2_eq_square)
      (smt (verit) zero_le_square)
  have s: "sin (arcsin (- wy c)) = - wy c" using le by (simp add: abs_le_iff)
  have "1 - (- wy c)\<^sup>2 = wz c * wz c + wx c * wx c" using assms by (simp add: power2_eq_square)
  then have co: "cos (arcsin (- wy c)) = sqrt (wz c * wz c + wx c * wx c)" using le by (simp add: cos_arcsin_nonzero cos_arcsin abs_le_iff)
  show ?thesis
    using cos_c_atan2 [of "wz c" "wx c"] sin_c_atan2 [of "wz c" "wx c"]
    by (intro v3_eqI) (simp_all add: elementary_matrices m3_mul_def m3_apply_def v3_defs s co mult.commute)
qed

lemma kin_leg_foot:
  fixes left :: bool
  defines "s \<equiv> if left then - 1 else 1 :: real" and "leg0 \<equiv> if left then LHipYawPitch else RHipYawPitch"
  assumes "r torso = p3d_default" "d torsoHipRoll = pi / 4"
  shows "kin_leg left ja d r ((if left then left_pelvis else right_pelvis) + 5) =
    p3d_rotateX (p3d_rotateY (p3d_move 0 0 (- d lowerLegLength) (p3d_rotateY (p3d_move 0 0 (- d upperLegLength)
      (p3d_rotateY (p3d_rotateX (p3d_rotateZ (p3d_move 0 0 (- d torsoToHip) (p3d_rotateX p3d_default (- (pi / 4 * s))))
        (ja (joint_at leg0 0) * s)) ((ja (joint_at leg0 1) + pi / 4) * s))
        (ja (joint_at leg0 2)))) (ja (joint_at leg0 3)))) (ja (joint_at leg0 4))) (ja (joint_at leg0 5) * s)"
  by (cases left) (simp_all add: kin_leg_def Let_def s_def leg0_def assms(3,4))

lemma leg_chain_pose:
  fixes s :: real
  assumes "u * sin j2 + l * sin (j2 + j3) = - x" "u * cos j2 + l * cos (j2 + j3) = - \<zeta>"
    and foot: "foot = p3d_rotateX (p3d_rotateY (p3d_move 0 0 (- l) (p3d_rotateY (p3d_move 0 0 (- u)
      (p3d_rotateY (p3d_rotateX (p3d_rotateZ (p3d_move 0 0 (- h) (p3d_rotateX p3d_default (- (pi / 4 * s))))
        (j0 * s)) \<alpha>) j2)) j3)) j4) b"
  shows "trans3 foot = v3_add (m3_apply (leg_frame s j0) (m3_apply (rm_fromRotationX \<alpha>) (vec3 x 0 \<zeta>)))
      (vec3 0 (- h * sin (pi / 4 * s)) (- h * cos (pi / 4 * s)))"
    and "rot3 foot = m3_mul (leg_frame s j0) (m3_mul (m3_mul (rm_fromRotationX \<alpha>) (rm_fromRotationY (j2 + j3)))
      (m3_mul (rm_fromRotationY j4) (rm_fromRotationX b)))"
proof -
  have "m3_apply (rm_fromRotationY j2) (v3_add (vec3 0 0 (- u)) (m3_apply (rm_fromRotationY j3) (vec3 0 0 (- l)))) = vec3 x 0 \<zeta>"
    using assms(1,2) by (simp add: elementary_matrices m3_apply_def v3_defs sin_add cos_add algebra_simps)
  moreover have "m3_apply (rm_fromRotationX (- (pi / 4 * s))) (vec3 0 0 (- h)) = vec3 0 (- h * sin (pi / 4 * s)) (- h * cos (pi / 4 * s))"
    by (simp add: elementary_matrices m3_apply_def v3_defs)
  moreover have "v3_add a (v3_add b c) = v3_add (v3_add b a) c" for a b c by (simp add: v3_defs)
  ultimately show "trans3 foot = v3_add (m3_apply (leg_frame s j0) (m3_apply (rm_fromRotationX \<alpha>) (vec3 x 0 \<zeta>)))
      (vec3 0 (- h * sin (pi / 4 * s)) (- h * cos (pi / 4 * s)))"
    by (simp add: foot pose_fields p3d_default_def leg_frame_def m3_apply_mul m3_apply_add [symmetric])
  show "rot3 foot = m3_mul (leg_frame s j0) (m3_mul (m3_mul (rm_fromRotationX \<alpha>) (rm_fromRotationY (j2 + j3)))
      (m3_mul (rm_fromRotationY j4) (rm_fromRotationX b)))"
    by (simp add: foot pose_fields p3d_default_def leg_frame_def m3_mul_assoc rotationY_add [symmetric])
qed

lemma rotation_column_unit:
  assumes "is_rotation m"
  shows "wx (mc2 m) * wx (mc2 m) + wy (mc2 m) * wy (mc2 m) + wz (mc2 m) * wz (mc2 m) = 1"
proof -
  have "wz (mc2 (m3_mul (m3_transpose m) m)) = wz (mc2 m3_identity)" using assms by (simp add: is_rotation_def)
  then show ?thesis by (simp add: m3_mul_def m3_apply_def m3_transpose_def v3_defs m3_identity_def)
qed

lemma joint_index_at:
  assumes "k < 6" "j = LHipYawPitch \<or> j = RHipYawPitch"
  shows "joint_index (joint_at j k) = joint_index j + k"
proof -
  have "k = 0 \<or> k = 1 \<or> k = 2 \<or> k = 3 \<or> k = 4 \<or> k = 5" using assms(1) by linarith
  then show ?thesis using assms(2) by (elim disjE) (simp_all add: joint_at_def all_joints_def)
qed

lemma relativePose_leg:
  fixes left :: bool
  defines "pelvis \<equiv> if left then left_pelvis else right_pelvis"
  shows "\<exists>r. r torso = p3d_default \<and> (\<forall>k<7. calculateRelativePose ja 0 0 r0 d (pelvis + k) = kin_leg left ja d r (pelvis + k))"
proof -
  let ?h = "kin_head ja d (r0(torso := p3d_rotateY (p3d_rotateX (p3d_xyz 0 0 0) 0) 0))"
  let ?l = "kin_arm True ja d ?h"
  let ?r = "kin_arm False ja d (kin_leg True ja d ?l)"
  have t: "?l torso = p3d_default" "?r torso = p3d_default"
    by (simp_all add: kin_arm_def kin_leg_def kin_head_def Let_def rotate_zero)
  have "calculateRelativePose ja 0 0 r0 d (left_pelvis + k) = kin_leg True ja d ?l (left_pelvis + k)" if "k < 7" for k
    using that by (simp add: calculateRelativePose_def Let_def kin_leg_other kin_arm_other)
  moreover have "calculateRelativePose ja 0 0 r0 d (right_pelvis + k) = kin_leg False ja d ?r (right_pelvis + k)" for k
    by (simp add: calculateRelativePose_def Let_def)
  ultimately show ?thesis
    using t by (cases left) (auto simp: pelvis_def intro: exI [of _ ?l] exI [of _ ?r])
qed

lemma inside_clipping: "rg_isInside clipping x \<longleftrightarrow> \<bar>x\<bar> \<le> 1"
  by (auto simp: rg_isInside_def clipping_def)


definition sample_dims :: "dimension \<Rightarrow> real" where
  "sample_dims = (\<lambda>i. 0)(upperLegLength := 100, lowerLegLength := 100, torsoHipRoll := pi / 4,
     torsoToHip := 47 / sin (pi / 4), lengthBetweenLegs := 94)"


section \<open>The report of reachability\<close>

lemma squareAbs_rotation:
  assumes "is_rotation m"
  shows "v3_squareAbs (m3_apply m v) = v3_squareAbs v"
proof -
  have "v3_squareAbs (m3_apply m v) = v3_inner v (m3_apply (m3_mul (m3_transpose m) m) v)"
    by (simp add: v3_squareAbs_def v3_inner_def m3_apply_def m3_mul_def m3_transpose_def v3_defs algebra_simps)
  then show ?thesis using assms by (simp add: is_rotation_def v3_inner_def v3_squareAbs_def)
qed

lemma v3_abs_squareAbs: "v3_abs v = sqrt (v3_squareAbs v)"
  by (simp add: v3_abs_def v3_squareAbs_def)

lemma v3_squareAbs_pos: "v \<noteq> vec3 0 0 0 \<Longrightarrow> 0 < v3_squareAbs v"
proof -
  assume "v \<noteq> vec3 0 0 0"
  then have "wx v \<noteq> 0 \<or> wy v \<noteq> 0 \<or> wz v \<noteq> 0" by (metis v3_eqI vector3.select_convs)
  then show ?thesis unfolding v3_squareAbs_def power2_eq_square [symmetric]
    by (smt (verit) zero_less_power2 zero_le_power2)
qed

lemma leg1_always_clips:
  fixes left :: bool
  assumes "0 < d upperLegLength" "0 < d lowerLegLength" "is_rotation (rot3 p)"
    and off: "(trans3 p)\<lparr>wy := wy (trans3 p) + d lengthBetweenLegs / 2 * (if left then - 1 else 1)\<rparr> \<noteq> vec3 0 0 0"
  shows "\<not> fst (calcLegJoints1 p ja left d)"
proof -
  define s where "s = (if left then - 1 else 1 :: real)"
  define h where "h = sqrt 2 * (1 / 2 :: real)"
  define X where "X = mat3 (vec3 1 0 0) (vec3 0 h (h * s)) (vec3 0 (h * - s) h)"
  define q where "q = (trans3 p)\<lparr>wy := wy (trans3 p) + d lengthBetweenLegs / 2 * s\<rparr>"
  define t where "t = trans3 (leg1_target p left d)"
  have t: "t = m3_apply (rm_invert (m3_mul X (rot3 p))) (v3_sub (vec3 0 0 0) (m3_apply X q))"
    by (simp add: t_def leg1_target_def Let_def p3d_invert_def X_def h_def q_def s_def)
  have h: "h * h = 1 / 2" by (simp add: h_def)
  have X: "is_rotation X"
  proof -
    have "h * s * (h * s) = 1 / 2" using h by (simp add: s_def)
    then show ?thesis using h
      by (simp add: X_def is_rotation_def m3_mul_def m3_apply_def m3_transpose_def v3_defs m3_det_def m3_identity_def)
  qed
  have "v3_squareAbs t = v3_squareAbs q"
  proof -
    have "v3_squareAbs (v3_sub (vec3 0 0 0) v) = v3_squareAbs v" for v by (simp add: v3_squareAbs_def v3_sub_def)
    moreover have "is_rotation (rm_invert (m3_mul X (rot3 p)))"
      using X assms(3) by (simp add: is_rotation_mul is_rotation_transpose rm_invert_def)
    ultimately show ?thesis using X by (simp add: t squareAbs_rotation)
  qed
  then have len: "0 < v3_abs t" using v3_squareAbs_pos [of q] off by (simp add: v3_abs_squareAbs q_def s_def)
  let ?u = "d upperLegLength" and ?l = "d lowerLegLength"
  have "\<bar>(?l * ?l + v3_abs t * v3_abs t - ?u * ?u) / (2 * ?l * v3_abs t)\<bar> \<le> 1"
    if "\<bar>(?u * ?u + ?l * ?l - v3_abs t * v3_abs t) / (2 * ?u * ?l)\<bar> \<le> 1"
    using triangle_closes(1) [OF assms(2,1) len] that by (simp add: add.commute mult.commute mult.left_commute)
  then show ?thesis
    unfolding calcLegJoints1_def Let_def fst_conv inside_clipping t_def by blast
qed

text \<open>
  The documented result of \<open>calcLegJoints\<close>, whether the positions were reachable, is always false: a
  negation is missing in the test, which is true for exactly the reachable positions.
\<close>

theorem legs_never_reachable:
  assumes "0 < d upperLegLength" "0 < d lowerLegLength" "is_rotation (rot3 pl)"
    and "(trans3 pl)\<lparr>wy := wy (trans3 pl) + d lengthBetweenLegs / 2 * - 1\<rparr> \<noteq> vec3 0 0 0"
  shows "\<not> fst (calcLegJoints pl pr ja d ratio)"
  using leg1_always_clips [of d pl True ja] assms by (cases "calcLegJoints1 pl ja True d") (simp add: calcLegJoints_def Let_def split_beta)

theorem legs_never_reachable_witness:
  "\<not> fst (calcLegJoints (p3d_xyz 0 47 (- 200)) (p3d_xyz 0 (- 47) (- 200)) (\<lambda>i. 0) sample_dims (1 / 2))"
  by (rule legs_never_reachable) (simp_all add: sample_dims_def p3d_xyz_def)

section \<open>The search for the elbow\<close>

text \<open>
  The search tries 17 candidates in eight rounds, then the step is below one degree.
\<close>

lemma search_loop_rounds:
  assumes "es_angleDiff st = pi * 2 / 3 / 2 ^ k" "k \<le> 8"
  shows "search_loop n M3 p t st = (search_round n M3 p t ^^ (8 - k)) st"
  using assms
proof (induction "8 - k" arbitrary: k st)
  case 0
  then have "es_angleDiff st = pi / 384" by simp
  then have "\<not> 2 * es_angleDiff st > maxAngleEpsilon" using pi_gt_zero by linarith
  then have "search_loop n M3 p t st = st" by (subst search_loop.simps) (simp only: if_False)
  then show ?case using 0 by simp
next
  case (Suc i)
  then have k: "k < 8" by simp
  then have "(2::real) ^ k \<le> 2 ^ 7" by (intro power_increasing) simp_all
  then have "(2::real) ^ k < 240" by simp
  then have "pi / 180 * 1 < pi / 180 * (240 / 2 ^ k)" by (intro mult_strict_left_mono) simp_all
  then have go: "2 * es_angleDiff st > maxAngleEpsilon" using Suc.prems(1) by simp
  have "search_loop n M3 p t (search_round n M3 p t st) = (search_round n M3 p t ^^ (8 - Suc k)) (search_round n M3 p t st)"
    using Suc k by (intro Suc.hyps(1)) (simp_all add: mult.commute)
  moreover have "8 - k = Suc (8 - Suc k)" using k by simp
  ultimately show ?case using go by (subst search_loop.simps) (simp add: funpow_Suc_right del: funpow.simps)
qed

lemma search_try_counter:
  "es_iterationCounter (search_try n M3 p t i st) =
    (if i = 0 \<and> es_iterationCounter st \<noteq> 1 then es_iterationCounter st else es_iterationCounter st + 1)"
  by (simp add: search_try_def Let_def)

lemma search_round_counter:
  "es_iterationCounter st = 0 \<Longrightarrow> es_iterationCounter (search_round n M3 p t st) = 3"
  "0 < es_iterationCounter st \<Longrightarrow> es_iterationCounter (search_round n M3 p t st) = es_iterationCounter st + 2"
  by (simp_all add: search_round_def Let_def search_try_counter)

text \<open>Whatever every candidate satisfies holds of the best one.\<close>

lemma search_round_best:
  assumes "P (es_bestMatch st)" "\<And>a. P (p3d_apply \<lparr>rot3 = rm_axis_angle n a, trans3 = vec3 0 0 0\<rparr> p)"
  shows "P (es_bestMatch (search_round n M3 p t st))"
proof -
  have cand: "P (es_bestMatch (search_try n M3 p t i st))" if "P (es_bestMatch st)" for i st
    using that assms(2) by (simp add: search_try_def Let_def)
  show ?thesis using assms(1) by (simp add: search_round_def Let_def cand)
qed

lemma axis_fixed: "v3_squareAbs u = 1 \<Longrightarrow> m3_apply (rm_axis_unit u a) u = u"
proof -
  assume u: "v3_squareAbs u = 1"
  have "\<And>x y z s c :: real. x * x + y * y + z * z = 1 \<Longrightarrow>
    (x * x * (1 - c) + c) * x + (x * y * (1 - c) - z * s) * y + (x * z * (1 - c) + y * s) * z = x \<and>
    (x * y * (1 - c) + z * s) * x + (y * y * (1 - c) + c) * y + (y * z * (1 - c) - x * s) * z = y \<and>
    (x * z * (1 - c) - y * s) * x + (y * z * (1 - c) + x * s) * y + (z * z * (1 - c) + c) * z = z"
    by (intro conjI; algebra)
  from this [of "wx u" "wy u" "wz u"] u show ?thesis
    by (intro v3_eqI) (simp_all add: rm_axis_unit_def Let_def m3_apply_def v3_defs v3_squareAbs_def)
qed

lemma normalize_unit: "v3_squareAbs u = 1 \<Longrightarrow> v3_normalize u = u"
  by (simp add: v3_normalize_def v3_abs_squareAbs v3_divs_def)

lemma normalize_scale: "v \<noteq> vec3 0 0 0 \<Longrightarrow> v3_scale (v3_normalize v) (v3_abs v) = v"
  using v3_squareAbs_pos [of v] by (simp add: v3_normalize_def Let_def v3_abs_squareAbs v3_divs_def v3_scale_def)

lemma candidate_distances:
  fixes p target :: vector3 and a :: real
  assumes "target \<noteq> vec3 0 0 0"
  defines "e \<equiv> p3d_apply \<lparr>rot3 = rm_axis_angle (v3_normalize target) a, trans3 = vec3 0 0 0\<rparr> p"
  shows "v3_squareAbs e = v3_squareAbs p" "v3_squareAbs (v3_sub e target) = v3_squareAbs (v3_sub p target)"
proof -
  let ?n = "v3_normalize target"
  define R where "R = rm_axis_unit ?n a"
  have n: "v3_squareAbs ?n = 1" using assms(1) by (rule v3_squareAbs_normalize)
  then have R: "is_rotation R" and e: "e = m3_apply R p"
    by (simp_all add: R_def is_rotation_axis_unit e_def rm_axis_angle_def normalize_unit p3d_apply_def)
  have "m3_apply R (v3_scale v k) = v3_scale (m3_apply R v) k" for v k
    by (simp add: m3_apply_def v3_defs algebra_simps)
  then have "m3_apply R target = target"
    using axis_fixed [OF n, of a] normalize_scale [OF assms(1)] unfolding R_def by metis
  moreover have "m3_apply R (v3_sub v w) = v3_sub (m3_apply R v) (m3_apply R w)" for v w
    by (simp add: m3_apply_def v3_defs algebra_simps)
  ultimately have "v3_sub e target = m3_apply R (v3_sub p target)" by (simp add: e)
  then show "v3_squareAbs e = v3_squareAbs p" "v3_squareAbs (v3_sub e target) = v3_squareAbs (v3_sub p target)"
    using R by (simp_all add: e squareAbs_rotation)
qed

lemma normalize_to_squareAbs: "v \<noteq> vec3 0 0 0 \<Longrightarrow> v3_squareAbs (v3_normalize_to v r) = r * r"
proof -
  assume "v \<noteq> vec3 0 0 0"
  then have pos: "0 < v3_squareAbs v" by (rule v3_squareAbs_pos)
  have "v3_squareAbs (v3_divs (v3_scale v r) k) = v3_squareAbs v * (r * r) / (k * k)" if "k \<noteq> 0" for k
    using that by (simp add: v3_squareAbs_def v3_divs_def v3_scale_def add_divide_distrib algebra_simps)
  then show ?thesis using pos by (simp add: v3_normalize_to_def Let_def v3_abs_squareAbs)
qed

lemma normalize_to_inner: "v3_inner w v = 0 \<Longrightarrow> v3_inner w (v3_normalize_to v r) = 0"
  by (simp add: v3_normalize_to_def Let_def v3_divs_def v3_scale_def v3_inner_def add_divide_distrib [symmetric]
      mult.assoc [symmetric] distrib_right [symmetric])

text \<open>The starting point has the right distances from shoulder and hand.\<close>

lemma elbow_start_distances:
  fixes d :: "dimension \<Rightarrow> real"
  defines "r1 \<equiv> d upperArmLength" and "r2 \<equiv> d lowerArmLength"
  assumes "target \<noteq> vec3 0 0 0" "0 \<le> snd (elbow_circle target d)"
    and side: "wy target \<noteq> 0 \<or> wz target \<noteq> 0 \<or> 0 < wx target"
  shows "v3_squareAbs (elbow_start target d) = r1 * r1" "v3_squareAbs (v3_sub (elbow_start target d) target) = r2 * r2"
proof -
  define T where "T = v3_squareAbs target"
  define k where "k = (r1 * r1 - r2 * r2) / (2 * T) + 1 / 2"
  define n where "n = v3_normalize target"
  define sp where "sp = (wx n = 1 \<and> wy n = 0 \<and> wz n = 0)"
  define c where "c = v3_cross n (vec3 (if sp then 0 else 1) (if sp then 1 else 0) 0)"
  define radius where "radius = sqrt (snd (elbow_circle target d))"
  define w where "w = v3_normalize_to c radius"
  have T: "0 < T" using assms(3) by (simp add: T_def v3_squareAbs_pos)
  have T': "wx target * wx target + wy target * wy target + wz target * wz target = T" by (simp add: T_def v3_squareAbs_def)
  have n: "wx target = wx n * v3_abs target" "wy target = wy n * v3_abs target" "wz target = wz n * v3_abs target" "v3_squareAbs n = 1"
    using normalize_scale [OF assms(3)] v3_squareAbs_normalize [OF assms(3)]
    by (metis n_def v3_scale_def vector3.select_convs)+
  have M3: "fst (elbow_circle target d) = v3_scale target k"
    by (simp add: elbow_circle_def Let_def sm_sqr_def r1_def r2_def T_def k_def)
  have rad: "snd (elbow_circle target d) = r2 * r2 - (k - 1) * (k - 1) * T"
    unfolding elbow_circle_def Let_def snd_conv M3 [unfolded elbow_circle_def Let_def fst_conv]
    by (simp add: sm_sqr_def r2_def T_def v3_squareAbs_def v3_defs algebra_simps)
  have "c \<noteq> vec3 0 0 0"
  proof (cases sp)
    case True
    then show ?thesis by (simp add: c_def v3_cross_def sp_def)
  next
    case False
    have "wy n \<noteq> 0 \<or> wz n \<noteq> 0"
    proof (rule ccontr)
      assume z: "\<not> (wy n \<noteq> 0 \<or> wz n \<noteq> 0)"
      then have "wx n * wx n = 1" using n(4) by (simp add: v3_squareAbs_def)
      moreover have "0 < wx n * v3_abs target" using side z n by auto
      then have "0 < wx n" using T by (simp add: v3_abs_squareAbs T_def [symmetric] zero_less_mult_iff)
      ultimately have "wx n = 1" using square_eq_1_iff [of "wx n"] by auto
      then show False using False z by (simp add: sp_def)
    qed
    then show ?thesis using False by (auto simp: c_def v3_cross_def)
  qed
  then have w: "wx w * wx w + wy w * wy w + wz w * wz w = snd (elbow_circle target d)"
    using normalize_to_squareAbs [of c radius] assms(4) by (simp add: w_def radius_def v3_squareAbs_def)
  have "v3_inner target c = 0" unfolding c_def by (simp add: n(1-3) v3_cross_def v3_inner_def algebra_simps)
  then have perp: "wx target * wx w + wy target * wy w + wz target * wz w = 0"
    using normalize_to_inner [of target c radius] by (simp add: w_def v3_inner_def)
  have start: "elbow_start target d = v3_add (v3_scale target k) w"
    by (simp add: elbow_start_def Let_def split_beta M3 w_def c_def sp_def n_def radius_def)
  have kT: "2 * k * T = r1 * r1 - r2 * r2 + T" using T by (simp add: k_def distrib_right)
  have sq: "v3_squareAbs (v3_add (v3_scale target m) w) = m * m * T + snd (elbow_circle target d)" for m
    unfolding w [symmetric] T' [symmetric] using perp by (simp add: v3_squareAbs_def v3_defs) algebra
  show "v3_squareAbs (elbow_start target d) = r1 * r1"
    unfolding start sq rad using kT by (simp add: algebra_simps)
  have "v3_sub (elbow_start target d) target = v3_add (v3_scale target (k - 1)) w"
    by (simp add: start v3_defs algebra_simps)
  then show "v3_squareAbs (v3_sub (elbow_start target d) target) = r2 * r2" by (simp only: sq rad)
qed


definition sample_arm :: "dimension \<Rightarrow> real" where
  "sample_arm = (\<lambda>i. 0)(upperArmLength := 3, lowerArmLength := 4)"


section \<open>Wrapping the elbow's yaw\<close>

lemma wrap_up_bounds:
  assumes "x < - pi"
  shows "- pi \<le> wrap_up x" "wrap_up x < - pi + 2 / pi"
proof -
  have "- pi \<le> wrap_up x \<and> (x < - pi + 2 / pi \<longrightarrow> wrap_up x < - pi + 2 / pi)" for x
  proof (induction x rule: wrap_up.induct)
    case (1 x)
    have pos: "0 < 2 / pi" by simp
    then show ?case
    proof (cases "x < - pi")
      case True
      then have "wrap_up x = wrap_up (x + 2 / pi)" by (subst wrap_up.simps) simp
      then show ?thesis using 1 True pos by simp
    next
      case False
      then have "wrap_up x = x" by (subst wrap_up.simps) simp
      then show ?thesis using False by simp
    qed
  qed
  moreover have "x < - pi + 2 / pi" using assms by (smt (verit) divide_pos_pos pi_gt_zero)
  ultimately show "- pi \<le> wrap_up x" "wrap_up x < - pi + 2 / pi" by blast+
qed

text \<open>
  The loops are meant to add full turns. For every angle of the range that needs the second loop the
  result is a different angle: it does not differ from the argument by a number of full turns.
\<close>

theorem elbow_yaw_wrapped_wrongly:
  assumes "- 3 / 2 * pi \<le> x" "x < - pi"
  shows "\<nexists>k :: int. wrap_up (wrap_down x) = x + 2 * pi * of_int k"
proof
  have down: "wrap_down x = x" using assms pi_gt_zero by (subst wrap_down.simps) simp
  assume "\<exists>k :: int. wrap_up (wrap_down x) = x + 2 * pi * of_int k"
  then obtain k :: int where k: "wrap_up x = x + 2 * pi * of_int k" by (auto simp: down)
  have "2 / pi \<le> 1" using pi_ge_two by simp
  then have "0 < 2 * pi * of_int k" "2 * pi * of_int k < 2 * pi * 1"
    using wrap_up_bounds [OF assms(2)] assms k pi_ge_two by linarith+
  then have "0 < k" "real_of_int k < 1" by (simp_all add: zero_less_mult_iff)
  then show False by simp
qed

theorem elbow_yaw_wrapped_wrongly_witness:
  "\<nexists>k :: int. wrap_up (wrap_down (- 5 / 4 * pi)) = - 5 / 4 * pi + 2 * pi * of_int k"
  using elbow_yaw_wrapped_wrongly [of "- 5 / 4 * pi"] by simp

section \<open>The assertion in the arm functions\<close>

lemma elbow_assertion:
  assumes "0 < d upperArmLength" "0 < d lowerArmLength"
    and "d upperArmLength * d upperArmLength + d lowerArmLength * d lowerArmLength <
      11 / 5 * (d upperArmLength * d lowerArmLength)"
  shows "calcJointsForElbowPos elbow target ja offset d \<noteq> None"
proof -
  let ?a = "d upperArmLength" and ?b = "d lowerArmLength"
  have "- sm_sqr (v3_abs target) + sm_sqr ?b + sm_sqr ?a < 11 / 10 * (2 * ?a * ?b)"
    using assms(3) zero_le_square [of "v3_abs target"] unfolding sm_sqr_def by linarith
  then have "(- sm_sqr (v3_abs target) + sm_sqr ?b + sm_sqr ?a) / (2 * ?a * ?b) < 11 / 10"
    using assms(1,2) by (simp add: pos_divide_less_eq)
  then show ?thesis by (simp add: calcJointsForElbowPos_def Let_def)
qed

text \<open>
  With the lengths of the robot's arms no pose of the hands, however far away, makes the assertion in
  the arm functions fail.
\<close>

theorem arm_ik_no_abort:
  "calcArmJoints left right ja (dim_values (rd_setNaoH21 r)) \<noteq> None"
proof -
  let ?d = "dim_values (rd_setNaoH21 r)"
  have "?d upperArmLength = 105" "?d lowerArmLength = 120"
    by (simp_all add: rd_setNaoH21_def set_dim_def set_angle_def)
  then have some: "(calcJointsForElbowPos e t ja k ?d = None) = False" for e t ja k
    using elbow_assertion [of ?d] by simp
  have elbow: "(calcElbowPosition t dir side ?d = None) = False" for t dir side
    by (simp add: calcElbowPosition_def Let_def some del: not_None_eq split: option.split)
  have side: "(calcArmJoints_side t dir side ja ?d = None) = False" for t dir side ja
    by (simp add: calcArmJoints_side_def Let_def some elbow del: not_None_eq split: option.split)
  show ?thesis by (simp add: calcArmJoints_def Let_def side del: not_None_eq split: option.split)
qed

end
