(* ===== verification/Sensor_Processing.thy ===== *)
theory Sensor_Processing
  imports Body_Blocks Dense_Matrix Cmath
begin

text \<open>
  The sensor module, \<open>src/core/sensor/SensorModule.cpp\<close>, with the inertial filter it uses
  (\<open>InertialFilter.cpp\<close>, \<open>initInertialFilter.cpp\<close>): copying and scaling of the raw values, the Kalman
  filter for tilt and roll, the balance of the foot pressure sensors, the calibration of the gyroscopes
  and the report of hot joints. Shown are that the calibration takes exactly 50 frames and removes the mean
  of the gyroscopes over them for good, that the filter keeps a right estimate of a robot at rest,
  and that the prediction is the motion with constant acceleration.
\<close>

section \<open>The inertial filter\<close>

record inertial_filter =
  x_acc :: real
  y_acc :: real
  z_acc :: real
  x_gyro :: real
  y_gyro :: real
  filtRoll :: real
  filtTilt :: real
  filtRollVel :: real
  filtTiltVel :: real
  rawRoll :: real
  rawTilt :: real
  gyro_scale :: real
  kf_A :: nmatrix
  kf_B :: nmatrix
  kf_C :: nmatrix
  kf_Cz :: nmatrix
  kf_Cz1 :: nmatrix
  kf_Q :: nmatrix
  kf_R :: nmatrix
  kf_L :: nmatrix
  xhRoll :: nmatrix
  xhTilt :: nmatrix
  xhRollFuture :: nmatrix
  xhTiltFuture :: nmatrix

text \<open>A new matrix with the entries assigned one after the other.\<close>

definition nm_table :: "nat \<Rightarrow> nat \<Rightarrow> real list list \<Rightarrow> nmatrix" where
  "nm_table m n rows = nm_loop m n (\<lambda>i j. nm_put i j (rows ! i ! j)) (nm_new m n False)"

definition initMatrices :: "bool \<Rightarrow> inertial_filter \<Rightarrow> inertial_filter" where
  "initMatrices in_simulation f =
     (if \<not> in_simulation
      then f\<lparr>kf_A := nm_table 4 4 [[1, 1 / 100, 5 / 100000, 0], [0, 1, 1 / 100, 0], [0, 0, 1, 0], [0, 0, 0, 1]],
        kf_B := nm_table 4 2 [[1666667 / 10 ^ 13, 0], [5 / 100000, 0], [1 / 100, 0], [0, 1]],
        kf_C := nm_table 2 4 [[981 / 100, 0, 3 / 10, 0], [0, 1, 0, 1]],
        kf_Cz := nm_table 1 4 [[1, 0, 0, 0]],
        kf_Cz1 := nm_table 1 4 [[0, 1, 0, 0]],
        kf_Q := nm_table 4 4 [[25 / 10 ^ 14, 75 / 10 ^ 12, 15 / 10 ^ 9, 0], [75 / 10 ^ 12, 225 / 10 ^ 10, 45 / 10 ^ 7, 0],
          [15 / 10 ^ 9, 45 / 10 ^ 7, 9 / 10 ^ 4, 0], [0, 0, 0, 1 / 10 ^ 8]],
        kf_R := nm_table 2 2 [[1089 / 10000, 0], [0, 3046174 / 10 ^ 10]],
        kf_L := nm_table 4 2 [[8951342 / 10 ^ 10, 4405798 / 10 ^ 9], [1673560 / 10 ^ 9, 1624577 / 10 ^ 7],
          [2358349 / 10 ^ 8, 1504474 / 10 ^ 6], [- (2901578 / 10 ^ 10), 1515192 / 10 ^ 9]]\<rparr>
      else f\<lparr>kf_A := nm_table 4 4 [[1, 2 / 100, 2 / 10000, 0], [0, 1, 2 / 100, 0], [0, 0, 1, 0], [0, 0, 0, 1]],
        kf_B := nm_table 4 2 [[1333333 / 10 ^ 12, 0], [2 / 10000, 0], [2 / 100, 0], [0, 1]],
        kf_C := nm_table 2 4 [[981 / 100, 0, 3 / 10, 0], [0, 1, 0, 1]],
        kf_Cz := nm_table 1 4 [[1, 0, 0, 0]],
        kf_Cz1 := nm_table 1 4 [[0, 1, 0, 0]],
        kf_Q := nm_table 4 4 [[16 / 10 ^ 12, 24 / 10 ^ 10, 24 / 10 ^ 8, 0], [24 / 10 ^ 10, 36 / 10 ^ 8, 36 / 10 ^ 6, 0],
          [24 / 10 ^ 8, 36 / 10 ^ 6, 36 / 10 ^ 4, 0], [0, 0, 0, 1 / 10 ^ 8]],
        kf_R := nm_table 2 2 [[1089 / 10000, 0], [0, 3046174 / 10 ^ 10]],
        kf_L := nm_table 4 2 [[1433561 / 10 ^ 9, 9441112 / 10 ^ 9], [2846235 / 10 ^ 9, 2983561 / 10 ^ 7],
          [4484365 / 10 ^ 8, 2738228 / 10 ^ 6], [- (2893348 / 10 ^ 10), 1468981 / 10 ^ 9]]\<rparr>)"

definition updateIUHeight :: "real \<Rightarrow> inertial_filter \<Rightarrow> inertial_filter" where
  "updateIUHeight torsoZ f =
     (let iu_height = (torsoZ + 85) * (1 / 1000) - 29 / 1000
      in f\<lparr>kf_C := nm_put 0 2 iu_height (kf_C f)\<rparr>)"

definition if_init :: "bool \<Rightarrow> inertial_filter \<Rightarrow> inertial_filter" where
  "if_init in_simulation f =
     initMatrices in_simulation
      (f\<lparr>x_acc := 1 / 10000, y_acc := 1 / 10000, z_acc := 1 / 10000, x_gyro := 1 / 10000, y_gyro := 1 / 10000,
         filtRoll := 0, filtTilt := 0, filtRollVel := 0, filtTiltVel := 0, rawRoll := 0, rawTilt := 0,
         gyro_scale := pi / 180 * (405 / 1000),
         xhRoll := nm_new 4 1 False, xhTilt := nm_new 4 1 False,
         xhTiltFuture := nm_new 4 1 False, xhRollFuture := nm_new 4 1 False\<rparr>)"

definition kf_update :: "nmatrix \<Rightarrow> nmatrix \<Rightarrow> inertial_filter \<Rightarrow> nmatrix" where
  "kf_update xh sen f =
     nm_minus (nm_times (kf_A f) xh) (nm_times (kf_L f) (nm_minus (nm_times (kf_C f) xh) sen))"

definition if_processFrame :: "bool \<Rightarrow> inertial_filter \<Rightarrow> inertial_filter" where
  "if_processFrame calibrated f =
     (let f = f\<lparr>rawTilt := - c_atan2 (x_acc f) (z_acc f), rawRoll := - c_atan2 (y_acc f) (z_acc f)\<rparr>;
          f = (if \<not> calibrated
               then f\<lparr>xhRoll := nm_put 0 0 (rawRoll f) (xhRoll f), xhTilt := nm_put 0 0 (rawTilt f) (xhTilt f)\<rparr>
               else f);
          x_g = x_gyro f * gyro_scale f; y_g = y_gyro f * gyro_scale f;
          xSen = nm_put 1 0 x_g (nm_put 0 0 (- y_acc f) (nm_new 2 1 False));
          f = f\<lparr>xhRoll := kf_update (xhRoll f) xSen f\<rparr>;
          f = f\<lparr>filtRoll := convDble (nm_times (kf_Cz f) (xhRoll f)), filtRollVel := convDble (nm_times (kf_Cz1 f) (xhRoll f))\<rparr>;
          ySen = nm_put 1 0 y_g (nm_put 0 0 (- x_acc f) (nm_new 2 1 False));
          f = f\<lparr>xhTilt := kf_update (xhTilt f) ySen f\<rparr>
      in f\<lparr>filtTilt := convDble (nm_times (kf_Cz f) (xhTilt f)), filtTiltVel := convDble (nm_times (kf_Cz1 f) (xhTilt f))\<rparr>)"

definition setInertialData :: "real \<Rightarrow> real \<Rightarrow> real \<Rightarrow> real \<Rightarrow> real \<Rightarrow> inertial_filter \<Rightarrow> inertial_filter" where
  "setInertialData aX aY aZ gX gy f = f\<lparr>x_acc := aX, y_acc := aY, z_acc := aZ, x_gyro := gX, y_gyro := gy\<rparr>"

text \<open>The result is the filter with its work matrices, the tilt and the roll.\<close>

definition predictFuture :: "nat \<Rightarrow> inertial_filter \<Rightarrow> inertial_filter \<times> real \<times> real" where
  "predictFuture numFrames f =
     (let f = f\<lparr>xhRollFuture := xhRoll f, xhTiltFuture := xhTilt f\<rparr>;
          f = fold (\<lambda>i f. f\<lparr>xhRollFuture := nm_times (kf_A f) (xhRollFuture f),
                           xhTiltFuture := nm_times (kf_A f) (xhTiltFuture f)\<rparr>) [0..<numFrames] f
      in (f, convDble (nm_times (kf_Cz f) (xhTiltFuture f)), convDble (nm_times (kf_Cz f) (xhRollFuture f))))"

section \<open>The module\<close>

abbreviation (input) NUM_CALIBRATION_READINGS :: int where "NUM_CALIBRATION_READINGS \<equiv> 50"

record sensor_module =
  sm_raw_sensors :: sensor_block
  sm_sensors :: sensor_block
  sm_calibration :: sensor_calibration_block
  sm_filter :: inertial_filter
  stand_start_time :: real
  calibration_ind :: int
  calibration_inertial_sum :: "nat \<Rightarrow> real"
  last_temperature_check_time :: real

definition inertial_sensors :: "sensor list" where
  "inertial_sensors = [gyroX, gyroY, gyroZ, sensor.accelX, sensor.accelY, accelZ]"

definition initSensorModule :: "bool \<Rightarrow> sensor_module \<Rightarrow> sensor_module" where
  "initSensorModule sim m =
     m\<lparr>sm_filter := if_init sim (sm_filter m), sm_calibration := (sm_calibration m)\<lparr>is_calibrated := False\<rparr>,
       last_temperature_check_time := - 1\<rparr>"

definition add_offsets :: "sensor_calibration_block \<Rightarrow> sensor_block \<Rightarrow> sensor_block" where
  "add_offsets c b =
     fold (\<lambda>i b.
        let ind = inertial_sensors ! i; offset = (if i \<ge> 3 then 0 else inertial_offsets c i)
        in b\<lparr>svalues := (svalues b)(ind := svalues b ind + offset)\<rparr>) [0..<6] b"

definition filterInertial :: "bool \<Rightarrow> real \<Rightarrow> sensor_module \<Rightarrow> sensor_module" where
  "filterInertial body_calculated torsoZ m =
     (let m = (if body_calculated then m\<lparr>sm_filter := updateIUHeight torsoZ (sm_filter m)\<rparr> else m);
          m = m\<lparr>sm_sensors := add_offsets (sm_calibration m) (sm_sensors m)\<rparr>
      in if is_calibrated (sm_calibration m)
         then (let v = svalues (sm_sensors m);
                   f = setInertialData (v sensor.accelX) (v sensor.accelY) (v accelZ) (v gyroX) (v gyroY) (sm_filter m);
                   f = if_processFrame (is_calibrated (sm_calibration m)) f;
                   b = sm_sensors m;
                   b = b\<lparr>svalues := (svalues b)(angleX := filtRoll f, angleY := filtTilt f)\<rparr>;
                   b = b\<lparr>angleXVel := filtRollVel f, angleYVel := filtTiltVel f\<rparr>;
                   (f, future_tilt, future_roll) = predictFuture 7 f
               in m\<lparr>sm_filter := f, sm_sensors := b\<lparr>futureTilt := future_tilt, futureRoll := future_roll\<rparr>\<rparr>)
         else m)"

definition sumFSRs :: "sensor list \<Rightarrow> sensor_block \<Rightarrow> real" where
  "sumFSRs inds b = fold (\<lambda>i sum. sum + svalues b i) inds 0"

definition filterFSR :: "sensor_module \<Rightarrow> sensor_module" where
  "filterFSR m =
     (let b = sm_sensors m; c = sm_calibration m;
          b = b\<lparr>fsr_feet := sumFSRs [fsrLFL, fsrLFR, fsrLRL, fsrLRR] b - sumFSRs [fsrRFL, fsrRFR, fsrRRL, fsrRRR] b + fsr_feet_offset c\<rparr>;
          b = b\<lparr>fsr_left_side := sumFSRs [fsrLFL, fsrLRL] b - sumFSRs [fsrLFR, fsrLRR] b + fsr_left_side_offset c\<rparr>;
          b = b\<lparr>fsr_left_front := sumFSRs [fsrLFL, fsrLFR] b - sumFSRs [fsrLRL, fsrLRR] b + fsr_left_front_offset c\<rparr>;
          b = b\<lparr>fsr_right_side := sumFSRs [fsrRFL, fsrRRL] b - sumFSRs [fsrRFR, fsrRRR] b + fsr_right_side_offset c\<rparr>;
          b = b\<lparr>fsr_right_front := sumFSRs [fsrRFL, fsrRFR] b - sumFSRs [fsrRRL, fsrRRR] b + fsr_right_front_offset c\<rparr>
      in m\<lparr>sm_sensors := b\<rparr>)"

definition getOffset :: "(nat \<Rightarrow> real) \<Rightarrow> real" where
  "getOffset arr = fold (\<lambda>i sum. sum + arr i) [0..<50] 0 / 50"

definition setCalibration :: "sensor_module \<Rightarrow> sensor_module" where
  "setCalibration m =
     (let m = fold (\<lambda>i m.
            let baseVal = (if inertial_sensors ! i = accelZ then 98 / 10 else 0);
                offset = calibration_inertial_sum m i / of_int (calibration_ind m);
                c = sm_calibration m
            in m\<lparr>sm_calibration := c\<lparr>inertial_offsets := (inertial_offsets c)(i := baseVal - offset)\<rparr>\<rparr>) [0..<6] m
      in m\<lparr>calibration_ind := 0, sm_calibration := (sm_calibration m)\<lparr>is_calibrated := True\<rparr>\<rparr>)"

text \<open>
  The code is built with \<open>CALIBRATE_ONCE\<close>: a calibrated module returns at once, and the branch for a
  repeated calibration is never reached.
\<close>

definition handleCalibration :: "sensor_module \<Rightarrow> sensor_module" where
  "handleCalibration m =
     (if is_calibrated (sm_calibration m) then m
      else
        (let m = (if calibration_ind m = 0
                  then m\<lparr>calibration_inertial_sum := (\<lambda>i. if i < 6 then 0 else calibration_inertial_sum m i)\<rparr>
                  else m);
             m = m\<lparr>calibration_inertial_sum := (\<lambda>i. if i < 6
                  then calibration_inertial_sum m i + svalues (sm_raw_sensors m) (inertial_sensors ! i)
                  else calibration_inertial_sum m i)\<rparr>;
             m = m\<lparr>calibration_ind := calibration_ind m + 1\<rparr>
         in if calibration_ind m \<ge> NUM_CALIBRATION_READINGS then setCalibration m else m))"

text \<open>The joints printed as hot and as warm, when the report is due.\<close>

definition checkTemperatures :: "real \<Rightarrow> sensor_module \<Rightarrow> sensor_module \<times> (joint list \<times> joint list) option" where
  "checkTemperatures time m =
     (if time - last_temperature_check_time m < 5 then (m, None)
      else
        (let m = m\<lparr>last_temperature_check_time := time\<rparr>;
             eps = 1 / 100; hotTemp = 75 - eps; warmTemp = 70 - eps; temp = joint_temperatures (sm_sensors m)
         in (m, Some (filter (\<lambda>i. temp i \<ge> hotTemp) all_joints,
                      filter (\<lambda>i. temp i \<ge> warmTemp \<and> temp i < hotTemp) all_joints))))"

definition copy_sensors :: "sensor_module \<Rightarrow> sensor_module" where
  "copy_sensors m =
     (let raw = copyPrevValues (sm_raw_sensors m); b = copyPrevValues (sm_sensors m);
          b = b\<lparr>svalues := svalues raw\<rparr>;
          k = - (981 / 100) / 56;
          b = b\<lparr>svalues := (svalues b)(sensor.accelX := svalues b sensor.accelX * k, sensor.accelY := svalues b sensor.accelY * k,
                                      accelZ := svalues b accelZ * k)\<rparr>;
          b = b\<lparr>joint_temperatures := joint_temperatures raw\<rparr>;
          b = b\<lparr>sonar_left := (\<lambda>i. if i < NUM_SONAR_VALS then sonar_left raw i else sonar_left b i),
                sonar_right := (\<lambda>i. if i < NUM_SONAR_VALS then sonar_right raw i else sonar_right b i)\<rparr>
      in m\<lparr>sm_raw_sensors := raw, sm_sensors := b\<rparr>)"

definition processSensors ::
  "bool \<Rightarrow> real \<Rightarrow> real \<Rightarrow> sensor_module \<Rightarrow> sensor_module \<times> (joint list \<times> joint list) option" where
  "processSensors body_calculated torsoZ time m =
     (let m = copy_sensors m;
          m = filterInertial body_calculated torsoZ m;
          m = filterFSR m;
          m = handleCalibration m
      in checkTemperatures time m)"

section \<open>The filter\<close>

lemma nm_table_dims [simp]: "nm_M (nm_table m n rows) = m" "nm_N (nm_table m n rows) = n" "nm_wf (nm_table m n rows)"
  by (simp_all add: nm_table_def)

lemma nm_table_at [entry]: "i < m \<Longrightarrow> j < n \<Longrightarrow> nm_at (nm_table m n rows) i j = rows ! i ! j"
  by (simp add: nm_table_def nm_fill_at nm_in_def)

lemma sum_four: "(\<Sum>k<4. f k) = f 0 + f 1 + f 2 + f (3 :: nat)" for f :: "nat \<Rightarrow> real"
  by (simp add: eval_nat_numeral)

definition kf_dt :: "bool \<Rightarrow> real" where
  "kf_dt sim = (if sim then 2 / 100 else 1 / 100)"

text \<open>The matrices a filter has after it was initialised; only the height of the sensor changes later.\<close>

definition kf_ready :: "bool \<Rightarrow> inertial_filter \<Rightarrow> bool" where
  "kf_ready sim f \<longleftrightarrow> (\<exists>h. kf_C f = nm_put 0 2 h (nm_table 2 4 [[981 / 100, 0, 3 / 10, 0], [0, 1, 0, 1]])) \<and>
     kf_A f = kf_A (if_init sim f) \<and> kf_Cz f = kf_Cz (if_init sim f) \<and> kf_Cz1 f = kf_Cz1 (if_init sim f) \<and>
     kf_L f = kf_L (if_init sim f)"

lemma kf_A_init: "kf_A (if_init sim f) =
    nm_table 4 4 [[1, kf_dt sim, kf_dt sim * kf_dt sim / 2, 0], [0, 1, kf_dt sim, 0], [0, 0, 1, 0], [0, 0, 0, 1]]"
  by (simp add: if_init_def initMatrices_def kf_dt_def)

lemma kf_Cz_init: "kf_Cz (if_init sim f) = nm_table 1 4 [[1, 0, 0, 0]]" "kf_Cz1 (if_init sim f) = nm_table 1 4 [[0, 1, 0, 0]]"
  by (simp_all add: if_init_def initMatrices_def)

lemma kf_L_dims: "nm_M (kf_L (if_init sim f)) = 4" "nm_N (kf_L (if_init sim f)) = 2"
  by (simp_all add: if_init_def initMatrices_def)

lemma kf_ready_init: "kf_ready sim (if_init sim f)"
proof -
  have "nm_table 2 4 [[981 / 100, 0, 3 / 10, 0], [0, 1, 0, 1]] =
      nm_put 0 2 (3 / 10) (nm_table 2 4 [[981 / 100, 0, 3 / 10, 0], [0, 1, 0, 1]])"
    by (rule nm_eqI) (auto simp: entry nm_in_def)
  then have "\<exists>h. kf_C (if_init sim f) = nm_put 0 2 h (nm_table 2 4 [[981 / 100, 0, 3 / 10, 0], [0, 1, 0, 1]])"
    by (auto simp: if_init_def initMatrices_def)
  then show ?thesis by (simp add: kf_ready_def) (simp add: if_init_def initMatrices_def)
qed

lemma nm_put_twice: "nm_put i j v (nm_put i j w a) = nm_put i j v a"
  by (simp add: nm_put_def)

lemma kf_ready_steps:
  assumes "kf_ready sim f"
  shows "kf_ready sim (updateIUHeight h f)" "kf_ready sim (setInertialData a b c d e f)" "kf_ready sim (if_processFrame cal f)"
proof -
  have init: "kf_A (if_init sim g) = kf_A (if_init sim f)" "kf_L (if_init sim g) = kf_L (if_init sim f)" for g
    by (simp_all add: if_init_def initMatrices_def)
  have cong: "kf_ready sim g" if "kf_A g = kf_A f" "kf_Cz g = kf_Cz f" "kf_Cz1 g = kf_Cz1 f" "kf_L g = kf_L f"
    "kf_C g = kf_C f \<or> (\<exists>h. kf_C g = nm_put 0 2 h (kf_C f))" for g
    using assms that init [of g] unfolding kf_ready_def kf_Cz_init by (auto simp only: nm_put_twice)
  show "kf_ready sim (updateIUHeight h f)"
    by (rule cong) (auto simp: updateIUHeight_def Let_def)
  show "kf_ready sim (setInertialData a b c d e f)"
    by (rule cong) (simp_all add: setInertialData_def)
  show "kf_ready sim (if_processFrame cal f)"
    by (rule cong) (simp_all add: if_processFrame_def Let_def)
qed

text \<open>A column with the angle \<open>r\<close> and no motion.\<close>

definition kf_rest :: "real \<Rightarrow> nmatrix" where
  "kf_rest r = nm_put 0 0 r (nm_new 4 1 False)"

lemma kf_update_rest:
  assumes "kf_ready sim f" "sen = nm_put 1 0 0 (nm_put 0 0 (981 / 100 * r) (nm_new 2 1 False))"
  shows "kf_update (kf_rest r) sen f = kf_rest r"
proof -
  from assms obtain h where C: "kf_C f = nm_put 0 2 h (nm_table 2 4 [[981 / 100, 0, 3 / 10, 0], [0, 1, 0, 1]])"
    by (auto simp: kf_ready_def)
  have cases4: "i = 0 \<or> i = 1 \<or> i = 2 \<or> i = 3" if "i < 4" for i :: nat using that by linarith
  have cases2: "i = 0 \<or> i = Suc 0" if "i < 2" for i :: nat using that by linarith
  have "nm_times (kf_C f) (kf_rest r) = sen"
  proof (rule nm_eqI)
    fix i j assume "i < nm_M (nm_times (kf_C f) (kf_rest r))" "j < nm_N (nm_times (kf_C f) (kf_rest r))"
    then have "i < 2" "j = 0" by (simp_all add: C kf_rest_def)
    then show "nm_at (nm_times (kf_C f) (kf_rest r)) i j = nm_at sen i j"
      using cases2 [of i] assms(2) by (auto simp: C entry kf_rest_def sum_four nm_in_def)
  qed (simp_all add: C kf_rest_def assms(2))
  moreover have "nm_minus sen sen = nm_new 2 1 False"
    by (rule nm_eqI) (simp_all add: assms(2) entry)
  moreover have "nm_times (kf_L f) (nm_new 2 1 False) = nm_new 4 1 False"
    using assms(1) by (intro nm_eqI) (simp_all add: kf_ready_def kf_L_dims entry)
  moreover have "nm_minus (nm_times (kf_A f) (kf_rest r)) (nm_new 4 1 False) = kf_rest r"
  proof (rule nm_eqI)
    have A: "kf_A f = kf_A (if_init sim f)" using assms(1) by (simp add: kf_ready_def)
    fix i j assume "i < nm_M (nm_minus (nm_times (kf_A f) (kf_rest r)) (nm_new 4 1 False))"
      "j < nm_N (nm_minus (nm_times (kf_A f) (kf_rest r)) (nm_new 4 1 False))"
    then have "i < 4" "j = 0" by (simp_all add: A kf_A_init kf_rest_def)
    then show "nm_at (nm_minus (nm_times (kf_A f) (kf_rest r)) (nm_new 4 1 False)) i j = nm_at (kf_rest r) i j"
      using cases4 [of i] by (auto simp: A kf_A_init entry kf_rest_def sum_four nm_in_def)
  qed (use assms(1) in \<open>simp_all add: kf_ready_def kf_A_init kf_rest_def\<close>)
  ultimately show ?thesis by (simp add: kf_update_def)
qed

lemma Cz_rest: "convDble (nm_times (nm_table 1 4 [[1, 0, 0, 0]]) (kf_rest r)) = r"
  "convDble (nm_times (nm_table (Suc 0) 4 [[1, 0, 0, 0]]) (kf_rest r)) = r"
  by (simp_all add: convDble_def entry kf_rest_def sum_four nm_in_def)

text \<open>
  A robot at rest: when the estimate is the true roll and tilt without motion and the sensors measure
  gravity for these angles and no rotation, a frame of the filter leaves the estimate alone.
\<close>

theorem rest_is_fixed_point:
  assumes "kf_ready sim f" "xhRoll f = kf_rest r" "xhTilt f = kf_rest t"
    and "y_acc f = - (981 / 100 * r)" "x_acc f = - (981 / 100 * t)" "x_gyro f = 0" "y_gyro f = 0"
  shows "let f' = if_processFrame True f
         in xhRoll f' = kf_rest r \<and> xhTilt f' = kf_rest t \<and> filtRoll f' = r \<and> filtTilt f' = t"
proof -
  have up: "kf_update (kf_rest q) (nm_put 1 0 0 (nm_put 0 0 (981 / 100 * q) (nm_new 2 1 False))) (f\<lparr>rawTilt := a, rawRoll := b, xhRoll := c, filtRoll := x, filtRollVel := y\<rparr>) = kf_rest q"
    "kf_update (kf_rest q) (nm_put 1 0 0 (nm_put 0 0 (981 / 100 * q) (nm_new 2 1 False))) (f\<lparr>rawTilt := a, rawRoll := b\<rparr>) = kf_rest q"
    for q a b c x y using kf_update_rest [OF assms(1) refl, of q] by (simp_all add: kf_update_def)
  have "kf_Cz f = nm_table 1 4 [[1, 0, 0, 0]]" using assms(1) by (simp add: kf_ready_def kf_Cz_init)
  then show ?thesis
    using assms(2-7) up by (simp add: if_processFrame_def Let_def Cz_rest)
qed

theorem rest_is_fixed_point_witness:
  "\<forall>f. let f' = if_processFrame True ((if_init False f)\<lparr>xhRoll := kf_rest 0, xhTilt := kf_rest 1, y_acc := 0,
     x_acc := - (981 / 100), x_gyro := 0, y_gyro := 0\<rparr>) in filtTilt f' = 1"
proof
  fix f
  let ?f = "(if_init False f)\<lparr>xhRoll := kf_rest 0, xhTilt := kf_rest 1, y_acc := 0, x_acc := - (981 / 100), x_gyro := 0, y_gyro := 0\<rparr>"
  have "kf_ready False ?f" using kf_ready_init [of False f] unfolding kf_ready_def
    by (simp add: kf_A_init kf_Cz_init) (simp add: if_init_def initMatrices_def)
  then show "let f' = if_processFrame True ?f in filtTilt f' = 1"
    using rest_is_fixed_point [of False ?f 0 1] by (simp add: Let_def)
qed

lemma predict_entries:
  fixes x :: nmatrix and n :: nat and sim :: bool and f :: inertial_filter
  defines "A \<equiv> kf_A (if_init sim f)" and "t \<equiv> kf_dt sim"
  assumes "nm_M x = 4" "nm_N x = 1"
  defines "y \<equiv> (nm_times A ^^ n) x"
  shows "nm_M y = 4" "nm_N y = 1"
    "nm_at y 0 0 = nm_at x 0 0 + real n * t * nm_at x 1 0 + (real n * t) * (real n * t) / 2 * nm_at x 2 0"
    "nm_at y 1 0 = nm_at x 1 0 + real n * t * nm_at x 2 0" "nm_at y 2 0 = nm_at x 2 0"
  unfolding y_def
proof (induction n)
  case 0
  { case 1 then show ?case using assms by simp next case 2 then show ?case using assms by simp
  next case 3 then show ?case by simp next case 4 then show ?case by simp next case 5 then show ?case by simp }
next
  case (Suc n)
  have A: "A = nm_table 4 4 [[1, t, t * t / 2, 0], [0, 1, t, 0], [0, 0, 1, 0], [0, 0, 0, 1]]"
    by (simp add: A_def t_def kf_A_init)
  { case 1 then show ?case by (simp add: A)
  next case 2 then show ?case using Suc(2) by simp
  next case 3 then show ?case using Suc by (simp add: A entry sum_four) (simp add: algebra_simps add_divide_distrib)
  next case 4 then show ?case using Suc by (simp add: A entry sum_four algebra_simps)
  next case 5 then show ?case using Suc by (simp add: A entry sum_four) }
qed

lemma predict_fold:
  "fold (\<lambda>i f. f\<lparr>xhRollFuture := nm_times (kf_A f) (xhRollFuture f), xhTiltFuture := nm_times (kf_A f) (xhTiltFuture f)\<rparr>) is f =
   f\<lparr>xhRollFuture := (nm_times (kf_A f) ^^ length is) (xhRollFuture f),
     xhTiltFuture := (nm_times (kf_A f) ^^ length is) (xhTiltFuture f)\<rparr>"
  by (induction "is" arbitrary: f) (simp_all add: funpow_swap1)

lemma Cz_at:
  assumes "nm_M x = 4" "nm_N x = 1"
  shows "convDble (nm_times (nm_table 1 4 [[1, 0, 0, 0]]) x) = nm_at x 0 0"
  using assms by (simp add: convDble_def entry sum_four)

text \<open>The angle of a state after the time \<open>t\<close> of motion with its velocity and its constant acceleration.\<close>

definition extrapolate :: "real \<Rightarrow> nmatrix \<Rightarrow> real" where
  "extrapolate t x = nm_at x 0 0 + t * nm_at x 1 0 + t ^ 2 / 2 * nm_at x 2 0"

text \<open>
  The prediction: \<open>n\<close> frames ahead the angle is the estimated angle moved on for the time of \<open>n\<close> frames with the
  estimated velocity and the estimated constant acceleration, a frame being 10 ms on the robot and 20 ms in the simulator.
  The estimate itself is not touched.
\<close>

theorem prediction_extrapolates:
  assumes "kf_ready sim f" "nm_M (xhTilt f) = 4" "nm_N (xhTilt f) = 1" "nm_M (xhRoll f) = 4" "nm_N (xhRoll f) = 1"
  shows "\<exists>f'. predictFuture n f =
      (f', extrapolate (real n * kf_dt sim) (xhTilt f), extrapolate (real n * kf_dt sim) (xhRoll f)) \<and>
      xhTilt f' = xhTilt f \<and> xhRoll f' = xhRoll f"
proof -
  have A: "kf_A f = kf_A (if_init sim f)" and Cz: "kf_Cz f = nm_table 1 4 [[1, 0, 0, 0]]"
    using assms(1) by (simp_all add: kf_ready_def kf_Cz_init)
  have "convDble (nm_times (nm_table 1 4 [[1, 0, 0, 0]]) ((nm_times (kf_A (if_init sim f)) ^^ n) x)) =
      extrapolate (real n * kf_dt sim) x"
    if "nm_M x = 4" "nm_N x = 1" for x
    using predict_entries [OF that, where sim = sim and f = f and n = n] Cz_at by (simp add: extrapolate_def power2_eq_square)
  then show ?thesis
    using assms(2-5) by (simp only: predictFuture_def Let_def predict_fold) (simp add: A Cz)
qed

text \<open>The prediction of a robot that tilts with 1 rad/s from the upright position, 7 frames ahead.\<close>

theorem prediction_extrapolates_witness:
  "\<forall>f. \<exists>f' roll. predictFuture 7 ((if_init False f)\<lparr>xhTilt := nm_put 1 0 1 (nm_new 4 1 False)\<rparr>) = (f', 7 / 100, roll)"
proof
  fix f
  let ?f = "(if_init False f)\<lparr>xhTilt := nm_put 1 0 1 (nm_new 4 1 False)\<rparr>"
  have "kf_ready False ?f" using kf_ready_init [of False f] unfolding kf_ready_def
    by (simp add: kf_A_init kf_Cz_init) (simp add: if_init_def initMatrices_def)
  moreover have "nm_M (xhRoll ?f) = 4" "nm_N (xhRoll ?f) = 1" by (simp_all add: if_init_def initMatrices_def)
  ultimately show "\<exists>f' roll. predictFuture 7 ?f = (f', 7 / 100, roll)"
    using prediction_extrapolates [of False ?f 7]
    by (auto simp: extrapolate_def kf_dt_def entry nm_in_def)
qed

section \<open>Calibration\<close>

text \<open>
  A frame: the values read from the robot, whether the body model is calculated, the height of the torso
  in it and the time.
\<close>

type_synonym sensor_input = "(sensor \<Rightarrow> real) \<times> bool \<times> real \<times> real"

definition sensor_frame :: "sensor_input \<Rightarrow> sensor_module \<Rightarrow> sensor_module" where
  "sensor_frame inp m = (case inp of (raw, calc, z, time) \<Rightarrow>
     fst (processSensors calc z time (m\<lparr>sm_raw_sensors := (sm_raw_sensors m)\<lparr>svalues := raw\<rparr>\<rparr>)))"

definition sensor_run :: "sensor_input list \<Rightarrow> sensor_module \<Rightarrow> sensor_module" where
  "sensor_run = fold sensor_frame"

definition cal_view :: "sensor_module \<Rightarrow> bool \<times> (nat \<Rightarrow> real) \<times> int \<times> (nat \<Rightarrow> real)" where
  "cal_view m = (is_calibrated (sm_calibration m), inertial_offsets (sm_calibration m), calibration_ind m,
     calibration_inertial_sum m)"

lemma cal_copy: "cal_view (copy_sensors m) = cal_view m" "svalues (sm_raw_sensors (copy_sensors m)) = svalues (sm_raw_sensors m)"
  by (simp_all add: cal_view_def copy_sensors_def copyPrevValues_def Let_def)

lemma cal_inertial: "cal_view (filterInertial c z m) = cal_view m" "sm_raw_sensors (filterInertial c z m) = sm_raw_sensors m"
  by (simp_all add: cal_view_def filterInertial_def Let_def split: prod.split)

lemma cal_fsr: "cal_view (filterFSR m) = cal_view m" "sm_raw_sensors (filterFSR m) = sm_raw_sensors m"
  by (simp_all add: cal_view_def filterFSR_def Let_def)

lemma cal_temp: "cal_view (fst (checkTemperatures t m)) = cal_view m"
  by (simp add: cal_view_def checkTemperatures_def Let_def)

lemma handleCalibration_view:
  "\<exists>m'. cal_view (sensor_frame (raw, c, z, t) m) = cal_view (handleCalibration m') \<and> cal_view m' = cal_view m \<and>
     svalues (sm_raw_sensors m') = raw"
proof (intro exI conjI)
  let ?m = "filterFSR (filterInertial c z (copy_sensors (m\<lparr>sm_raw_sensors := (sm_raw_sensors m)\<lparr>svalues := raw\<rparr>\<rparr>)))"
  show "cal_view (sensor_frame (raw, c, z, t) m) = cal_view (handleCalibration ?m)"
    by (simp add: sensor_frame_def processSensors_def Let_def cal_temp)
  show "cal_view ?m = cal_view m" by (simp add: cal_fsr cal_inertial cal_copy) (simp add: cal_view_def)
  show "svalues (sm_raw_sensors ?m) = raw" by (simp add: cal_fsr cal_inertial cal_copy)
qed

definition sum_raw :: "nat \<Rightarrow> sensor_input list \<Rightarrow> real" where
  "sum_raw i ins = (\<Sum>(raw, r)\<leftarrow>ins. raw (inertial_sensors ! i))"

lemma sum_raw_snoc: "sum_raw i (ins @ [(raw, r)]) = sum_raw i ins + raw (inertial_sensors ! i)"
  by (simp add: sum_raw_def)

lemma calibrated_frame:
  assumes "is_calibrated (sm_calibration m)"
  shows "cal_view (sensor_frame inp m) = cal_view m"
proof (cases inp)
  case (fields raw c z t)
  then obtain m' where "cal_view (sensor_frame inp m) = cal_view (handleCalibration m')" "cal_view m' = cal_view m"
    using handleCalibration_view by metis
  moreover have "is_calibrated (sm_calibration m')" using calculation(2) assms by (simp add: cal_view_def)
  ultimately show ?thesis by (simp add: handleCalibration_def)
qed

lemma calibrated_run:
  "is_calibrated (sm_calibration m) \<Longrightarrow> cal_view (sensor_run ins m) = cal_view m"
proof (induction ins arbitrary: m)
  case (Cons inp ins)
  then show ?case using calibrated_frame [of m inp] by (simp add: sensor_run_def) (metis cal_view_def prod.inject)
qed (simp add: sensor_run_def)

lemma collecting_frame:
  assumes "\<not> is_calibrated (sm_calibration m)" "calibration_ind m = int n" "n < 49"
    and "n > 0 \<Longrightarrow> \<forall>i < 6. calibration_inertial_sum m i = S i" "n = 0 \<Longrightarrow> \<forall>i < 6. S i = 0"
    and m'_def: "m' = sensor_frame (raw, r) m"
  shows "\<not> is_calibrated (sm_calibration m')" "calibration_ind m' = int (Suc n)"
    "\<forall>i < 6. calibration_inertial_sum m' i = S i + raw (inertial_sensors ! i)"
proof -
  obtain c z t where r: "r = (c, z, t)" by (cases r)
  obtain k where k: "cal_view m' = cal_view (handleCalibration k)" "cal_view k = cal_view m" "svalues (sm_raw_sensors k) = raw"
    using handleCalibration_view unfolding m'_def r by metis
  have "\<not> is_calibrated (sm_calibration (handleCalibration k)) \<and> calibration_ind (handleCalibration k) = int (Suc n) \<and>
    (\<forall>i < 6. calibration_inertial_sum (handleCalibration k) i = S i + raw (inertial_sensors ! i))"
    using k(2, 3) assms(1-5) by (auto simp: handleCalibration_def cal_view_def Let_def)
  then show "\<not> is_calibrated (sm_calibration m')" "calibration_ind m' = int (Suc n)"
    "\<forall>i < 6. calibration_inertial_sum m' i = S i + raw (inertial_sensors ! i)"
    using k(1) by (simp_all add: cal_view_def)
qed

lemma collecting_run:
  assumes "\<not> is_calibrated (sm_calibration m)" "calibration_ind m = 0" "length ins < 50"
  shows "\<not> is_calibrated (sm_calibration (sensor_run ins m)) \<and> calibration_ind (sensor_run ins m) = int (length ins) \<and>
    (ins \<noteq> [] \<longrightarrow> (\<forall>i < 6. calibration_inertial_sum (sensor_run ins m) i = sum_raw i ins))"
  using assms(3)
proof (induction ins rule: rev_induct)
  case (snoc inp ins)
  obtain raw r where inp: "inp = (raw, r)" by (cases inp)
  have step: "sensor_run (ins @ [inp]) m = sensor_frame (raw, r) (sensor_run ins m)" by (simp add: sensor_run_def inp)
  have "\<forall>i < 6. sum_raw i ins = 0" if "length ins = 0" using that by (simp add: sum_raw_def)
  then show ?case
    using snoc collecting_frame [of "sensor_run ins m" "length ins" "\<lambda>i. sum_raw i ins" _ raw r, OF _ _ _ _ _ step]
    by (auto simp: inp sum_raw_snoc)
qed (simp add: sensor_run_def assms)

lemma setCalibration_view:
  "is_calibrated (sm_calibration (setCalibration m))"
  "i < 3 \<Longrightarrow> inertial_offsets (sm_calibration (setCalibration m)) i = - (calibration_inertial_sum m i / of_int (calibration_ind m))"
proof -
  have six: "[0..<6] = [0, 1, 2, 3, 4, 5 :: nat]" by (simp add: upt_rec)
  show "is_calibrated (sm_calibration (setCalibration m))" by (simp add: setCalibration_def Let_def)
  assume "i < 3"
  then have "i = 0 \<or> i = 1 \<or> i = 2" by linarith
  then show "inertial_offsets (sm_calibration (setCalibration m)) i = - (calibration_inertial_sum m i / of_int (calibration_ind m))"
    by (auto simp: setCalibration_def Let_def six inertial_sensors_def)
qed

lemma final_frame:
  assumes "\<not> is_calibrated (sm_calibration m)" "calibration_ind m = 49"
    and "\<forall>i < 6. calibration_inertial_sum m i = S i"
  shows "is_calibrated (sm_calibration (sensor_frame (raw, r) m))"
    "i < 3 \<Longrightarrow> inertial_offsets (sm_calibration (sensor_frame (raw, r) m)) i = - ((S i + raw (inertial_sensors ! i)) / 50)"
proof -
  obtain c z t where r: "r = (c, z, t)" by (cases r)
  obtain k where k: "cal_view (sensor_frame (raw, r) m) = cal_view (handleCalibration k)" "cal_view k = cal_view m" "svalues (sm_raw_sensors k) = raw"
    using handleCalibration_view unfolding r by metis
  have set: "handleCalibration k = setCalibration (k\<lparr>calibration_inertial_sum := (\<lambda>i. if i < 6 then S i + raw (inertial_sensors ! i)
      else calibration_inertial_sum k i), calibration_ind := 50\<rparr>)" (is "_ = setCalibration ?k")
    using k(2, 3) assms by (simp add: handleCalibration_def cal_view_def Let_def cong: if_cong)
  show "is_calibrated (sm_calibration (sensor_frame (raw, r) m))"
    using k(1) set setCalibration_view(1) [of ?k] by (simp add: cal_view_def)
  assume "i < 3"
  then show "inertial_offsets (sm_calibration (sensor_frame (raw, r) m)) i = - ((S i + raw (inertial_sensors ! i)) / 50)"
    using k(1) set setCalibration_view(2) [of i ?k] by (simp add: cal_view_def)
qed

text \<open>
  C30: The calibration, from a module that has not collected any reading: it is not calibrated before 50
  frames have passed and it is calibrated after them, for good; the offsets of the three gyroscopes, which are never changed
  again, are then the ones that make the readings of these 50 frames sum to zero.
\<close>

theorem calibration_zeroes_gyros:
  assumes "\<not> is_calibrated (sm_calibration m)" "calibration_ind m = 0"
  shows "(length ins < 50 \<longrightarrow> \<not> is_calibrated (sm_calibration (sensor_run ins m))) \<and>
    (length ins = 50 \<longrightarrow> (\<forall>more.
       let c = sm_calibration (sensor_run (ins @ more) m)
       in is_calibrated c \<and> (\<forall>i < 3. (\<Sum>(raw, r)\<leftarrow>ins. raw (inertial_sensors ! i) + inertial_offsets c i) = 0)))"
proof (intro conjI impI allI)
  assume "length ins < 50" then show "\<not> is_calibrated (sm_calibration (sensor_run ins m))" using assms collecting_run by blast
next
  fix more assume l: "length ins = 50"
  then obtain before raw r where ins: "ins = before @ [(raw, r)]" by (cases ins rule: rev_cases) auto
  then have "length before = 49" "before \<noteq> []" using l by auto
  then have s: "\<not> is_calibrated (sm_calibration (sensor_run before m))" "calibration_ind (sensor_run before m) = 49"
    "\<forall>i < 6. calibration_inertial_sum (sensor_run before m) i = sum_raw i before"
    using collecting_run [OF assms, of before] by auto
  have run: "sensor_run ins m = sensor_frame (raw, r) (sensor_run before m)" by (simp add: ins sensor_run_def)
  have "cal_view (sensor_run (ins @ more) m) = cal_view (sensor_run ins m)"
    using final_frame(1) [OF s] run calibrated_run [of "sensor_run ins m" more] by (simp add: sensor_run_def)
  then have c: "is_calibrated (sm_calibration (sensor_run (ins @ more) m))"
    "i < 3 \<Longrightarrow> inertial_offsets (sm_calibration (sensor_run (ins @ more) m)) i = - (sum_raw i ins / 50)" for i
    using final_frame [OF s, where raw = raw and r = r] run by (simp_all add: cal_view_def ins sum_raw_snoc)
  have "(\<Sum>(raw, r)\<leftarrow>ins. raw j + x) = (\<Sum>(raw, r)\<leftarrow>ins. raw j) + real (length ins) * x" for j x
    by (induction ins) (auto simp: algebra_simps)
  with c l show "let c = sm_calibration (sensor_run (ins @ more) m)
       in is_calibrated c \<and> (\<forall>i < 3. (\<Sum>(raw, r)\<leftarrow>ins. raw (inertial_sensors ! i) + inertial_offsets c i) = 0)"
    by (simp add: Let_def sum_raw_def)
qed

text \<open>Fifty frames with a drift of 2 on the first gyroscope.\<close>

theorem calibration_zeroes_gyros_witness:
  "\<forall>m. inertial_offsets (sm_calibration (sensor_run (replicate 50 ((\<lambda>s. if s = gyroX then 2 else 0), False, 0, 0))
     ((initSensorModule False m)\<lparr>calibration_ind := 0\<rparr>))) 0 = - 2"
proof
  fix m
  let ?ins = "replicate 50 ((\<lambda>s. if s = gyroX then 2 else 0), False, 0, 0)"
  show "inertial_offsets (sm_calibration (sensor_run ?ins ((initSensorModule False m)\<lparr>calibration_ind := 0\<rparr>))) 0 = - 2"
    using calibration_zeroes_gyros [of "(initSensorModule False m)\<lparr>calibration_ind := 0\<rparr>" ?ins]
    by (auto simp: initSensorModule_def Let_def inertial_sensors_def sum_list_replicate dest!: spec [of _ "[]"] spec [of _ 0])
qed

end
