(* ===== verification/Sonar.thy ===== *)
theory Sonar
  imports Body_Blocks Ring_Containers
begin

text \<open>
  The sonar module, \<open>src/core/sonar/SonarModule.cpp\<close> and its block \<open>ProcessedSonarBlock.h\<close>: the schedule
  of the commands for the transmitters and the detection of obstacles from the medians of the last five readings.
  Shown are the order and the distance in time of the commands, that a minority of wrong readings never
  moves a distance out of the range of the right ones, and that the three reports of an obstacle are consistent.
\<close>

section \<open>Blocks and commands\<close>

record processed_sonar_block =
  on_left :: bool
  on_right :: bool
  on_center :: bool
  left_distance :: real
  right_distance :: real
  center_distance :: real
  sonar_module_enabled :: bool
  sonar_module_update :: bool
  bump_left :: bool
  bump_right :: bool

definition psb_new :: "processed_sonar_block" where
  "psb_new = \<lparr>on_left = False, on_right = False, on_center = False, left_distance = 0, right_distance = 0,
     center_distance = 0, sonar_module_enabled = True, sonar_module_update = False, bump_left = False, bump_right = False\<rparr>"

datatype sonar_cmd = LEFT_TO_LEFT | LEFT_TO_RIGHT | RIGHT_TO_LEFT | RIGHT_TO_RIGHT | RECEIVE_BOTH | TRANSMIT_BOTH
  | SONAR_RESET | PERIODICALLY

primrec sonar_value :: "sonar_cmd \<Rightarrow> real" where
  "sonar_value LEFT_TO_LEFT = 0"
| "sonar_value LEFT_TO_RIGHT = 1"
| "sonar_value RIGHT_TO_LEFT = 2"
| "sonar_value RIGHT_TO_RIGHT = 3"
| "sonar_value RECEIVE_BOTH = 4"
| "sonar_value TRANSMIT_BOTH = 8"
| "sonar_value SONAR_RESET = 32"
| "sonar_value PERIODICALLY = 64"

abbreviation (input) MIN_DISTANCE :: real where "MIN_DISTANCE \<equiv> 1 / 10"
abbreviation (input) MAX_DISTANCE_V4 :: real where "MAX_DISTANCE_V4 \<equiv> 35 / 100"
abbreviation (input) MAX_DISTANCE_V5 :: real where "MAX_DISTANCE_V5 \<equiv> 35 / 100"
abbreviation (input) LR_DISTANCE_DIFF_V4 :: real where "LR_DISTANCE_DIFF_V4 \<equiv> 2 / 10"
abbreviation (input) LR_DISTANCE_DIFF_V5 :: real where "LR_DISTANCE_DIFF_V5 \<equiv> 2 / 10"
abbreviation (input) CONFIDENCE :: real where "CONFIDENCE \<equiv> 6 / 10"
abbreviation (input) CONF_HISTORY_WEIGHT :: real where "CONF_HISTORY_WEIGHT \<equiv> 5 / 10"
abbreviation (input) DIST_HISTORY_WEIGHT :: real where "DIST_HISTORY_WEIGHT \<equiv> 5 / 10"

section \<open>The module\<close>

record sonar_module =
  son_commands :: joint_command_block
  son_processed :: processed_sonar_block
  son_modes :: "real list"
  son_mode_ind :: nat
  read_interval :: real
  send_interval :: real
  switch_interval :: real
  ignore_after_switch_interval :: real
  last_read_time :: real
  last_send_time :: real
  last_switch_time :: real
  min_distance :: real
  max_distance :: real
  lr_distance_diff :: real
  son_confidence :: "nat \<Rightarrow> real"
  son_distance :: "nat \<Rightarrow> real"
  left_buf :: ring_buffer_sum
  right_buf :: ring_buffer_sum
  sameReadingCount :: int
  prevLeftReading :: real
  prevRightReading :: real
  sonarModuleEnabled :: bool
  command_map :: "(real \<times> string) list"

definition sonar_names :: "(real \<times> string) list" where
  "sonar_names =
     [(sonar_value LEFT_TO_LEFT, ''LL''), (sonar_value LEFT_TO_RIGHT, ''LR''),
      (sonar_value RIGHT_TO_LEFT, ''RL''), (sonar_value RIGHT_TO_RIGHT, ''RR''),
      (sonar_value LEFT_TO_LEFT + sonar_value RECEIVE_BOTH, ''LL+B''),
      (sonar_value LEFT_TO_RIGHT + sonar_value RECEIVE_BOTH, ''LR+B''),
      (sonar_value RIGHT_TO_LEFT + sonar_value RECEIVE_BOTH, ''RL+B''),
      (sonar_value RIGHT_TO_RIGHT + sonar_value RECEIVE_BOTH, ''RR+B''),
      (sonar_value TRANSMIT_BOTH + sonar_value RECEIVE_BOTH, ''BOTH''), (sonar_value SONAR_RESET, ''RESET'')]"

definition initSonarModule :: "int \<Rightarrow> sonar_module \<Rightarrow> sonar_module" where
  "initSonarModule body_version m =
     (let m = m\<lparr>command_map := sonar_names\<rparr>;
          m = (if body_version \<ge> 50
               then m\<lparr>min_distance := MIN_DISTANCE, max_distance := MAX_DISTANCE_V5, lr_distance_diff := LR_DISTANCE_DIFF_V5\<rparr>
               else m\<lparr>min_distance := MIN_DISTANCE, max_distance := MAX_DISTANCE_V4, lr_distance_diff := LR_DISTANCE_DIFF_V4\<rparr>);
          m = m\<lparr>son_modes := son_modes m @ [sonar_value LEFT_TO_LEFT + sonar_value RECEIVE_BOTH], son_mode_ind := 0\<rparr>;
          m = m\<lparr>send_interval := 70 / 1000, read_interval := 70 / 1000, switch_interval := 100,
                ignore_after_switch_interval := 100 / 1000\<rparr>;
          m = m\<lparr>last_send_time := - 1, last_switch_time := - 1, last_read_time := - 1\<rparr>
      in m\<lparr>sameReadingCount := 0, prevLeftReading := 0, prevRightReading := 0, sonarModuleEnabled := True\<rparr>)"

definition addDistance :: "real \<Rightarrow> nat \<Rightarrow> sonar_module \<Rightarrow> sonar_module" where
  "addDistance distance index m =
     (let m = (if distance < max_distance m
               then m\<lparr>son_confidence := (son_confidence m)(index := (1 - CONF_HISTORY_WEIGHT) + CONF_HISTORY_WEIGHT * son_confidence m index),
                      son_distance := (son_distance m)(index := (1 - DIST_HISTORY_WEIGHT) * distance + DIST_HISTORY_WEIGHT * son_distance m index)\<rparr>
               else m\<lparr>son_confidence := (son_confidence m)(index := CONF_HISTORY_WEIGHT * son_confidence m index)\<rparr>)
      in if index = 0 then m\<lparr>left_buf := rbs_add 5 distance (left_buf m)\<rparr>
         else m\<lparr>right_buf := rbs_add 5 distance (right_buf m)\<rparr>)"

definition filterSonarsFromConfidence :: "sonar_module \<Rightarrow> sonar_module" where
  "filterSonarsFromConfidence m =
     (let p = (son_processed m)\<lparr>on_left := False, on_right := False, on_center := False\<rparr>;
          p = (if son_confidence m 0 > CONFIDENCE then p\<lparr>on_left := True, left_distance := son_distance m 0\<rparr> else p);
          p = (if son_confidence m 1 > CONFIDENCE then p\<lparr>on_right := True, right_distance := son_distance m 1\<rparr> else p);
          p = p\<lparr>on_center := on_left p \<and> on_right p \<and> \<bar>left_distance p - right_distance p\<bar> < lr_distance_diff m\<rparr>;
          p = (if on_center p
               then p\<lparr>on_right := False, on_left := False, center_distance := (left_distance p + right_distance p) / 2\<rparr>
               else p)
      in m\<lparr>son_processed := p\<rparr>)"

definition filterSonarsFromMedian :: "sonar_module \<Rightarrow> sonar_module" where
  "filterSonarsFromMedian m =
     (let p = (son_processed m)\<lparr>on_left := False, on_right := False, on_center := False\<rparr>;
          l = rbs_getMedian 5 (left_buf m);
          p = p\<lparr>left_distance := l\<rparr>;
          p = (if l > min_distance m \<and> l \<le> max_distance m then p\<lparr>on_left := True\<rparr> else p);
          r = rbs_getMedian 5 (right_buf m);
          p = p\<lparr>right_distance := r\<rparr>;
          p = (if r > min_distance m \<and> r \<le> max_distance m then p\<lparr>on_right := True\<rparr> else p);
          p = p\<lparr>on_center := on_left p \<and> on_right p \<and> \<bar>left_distance p - right_distance p\<bar> < lr_distance_diff m\<rparr>;
          p = (if on_center p
               then p\<lparr>on_right := False, on_left := False, center_distance := (left_distance p + right_distance p) / 2\<rparr>
               else p\<lparr>center_distance := 255 / 100\<rparr>)
      in m\<lparr>son_processed := p\<rparr>)"

definition processSonars :: "sensor_block \<Rightarrow> sonar_module \<Rightarrow> sonar_module" where
  "processSonars sensors m =
     (let m = addDistance (sonar_left sensors 0) 0 m;
          m = addDistance (sonar_right sensors 0) 1 m
      in if sonarModuleEnabled m then filterSonarsFromMedian m
         else m\<lparr>son_processed := (son_processed m)\<lparr>on_left := False, on_right := False, on_center := False,
                left_distance := 255 / 100, right_distance := 255 / 100, center_distance := 255 / 100\<rparr>\<rparr>)"

definition processSonarCommands :: "real \<Rightarrow> sonar_module \<Rightarrow> sonar_module" where
  "processSonarCommands time m =
     (let m = m\<lparr>son_commands := (son_commands m)\<lparr>send_sonar_command := False\<rparr>\<rparr>;
          epsilon = 5 / 1000
      in if time - last_send_time m \<ge> send_interval m - epsilon
         then m\<lparr>son_commands := (son_commands m)\<lparr>send_sonar_command := True, sonar_command := son_modes m ! son_mode_ind m\<rparr>,
                last_send_time := time\<rparr>
         else m)"

definition initSonar :: "real \<Rightarrow> sonar_module \<Rightarrow> sonar_module" where
  "initSonar time m =
     m\<lparr>son_commands := (son_commands m)\<lparr>send_sonar_command := True, sonar_command := sonar_value SONAR_RESET\<rparr>,
       last_send_time := time + 1, last_switch_time := time + 1\<rparr>"

definition sonar_processFrame :: "sensor_block \<Rightarrow> real \<Rightarrow> sonar_module \<Rightarrow> sonar_module" where
  "sonar_processFrame sensors time m =
     (if last_send_time m < 0 then initSonar time m
      else processSonarCommands time (processSonars sensors m))"

section \<open>The schedule of the commands\<close>

definition frame_step :: "sensor_block \<times> real \<Rightarrow> sonar_module \<Rightarrow> sonar_module" where
  "frame_step f m = sonar_processFrame (fst f) (snd f) m"

text \<open>The commands that are sent in the frames, with their times.\<close>

fun sonar_sent :: "(sensor_block \<times> real) list \<Rightarrow> sonar_module \<Rightarrow> (real \<times> real) list" where
  "sonar_sent [] m = []"
| "sonar_sent (f # fs) m =
     (let m' = frame_step f m; c = son_commands m'
      in if send_sonar_command c then (snd f, sonar_command c) # sonar_sent fs m' else sonar_sent fs m')"

text \<open>The abstract schedule: a time is taken when it is at least 65 ms after the one before it.\<close>

fun schedule :: "real \<Rightarrow> real list \<Rightarrow> real list" where
  "schedule prev [] = []"
| "schedule prev (t # ts) = (if t - prev \<ge> 65 / 1000 then t # schedule t ts else schedule prev ts)"

definition sonar_ready :: "sonar_module \<Rightarrow> bool" where
  "sonar_ready m \<longleftrightarrow> 0 \<le> last_send_time m \<and> send_interval m = 70 / 1000 \<and> son_mode_ind m = 0 \<and> son_modes m = [4] \<and>
     sonarModuleEnabled m"

lemma addDistance_frame [simp]:
  "last_send_time (addDistance d i m) = last_send_time m" "send_interval (addDistance d i m) = send_interval m"
  "son_mode_ind (addDistance d i m) = son_mode_ind m" "son_modes (addDistance d i m) = son_modes m"
  "sonarModuleEnabled (addDistance d i m) = sonarModuleEnabled m" "son_processed (addDistance d i m) = son_processed m"
  "left_buf (addDistance d i m) = (if i = 0 then rbs_add 5 d (left_buf m) else left_buf m)"
  "right_buf (addDistance d i m) = (if i = 0 then right_buf m else rbs_add 5 d (right_buf m))"
  by (simp_all add: addDistance_def Let_def)

lemma processSonars_frame [simp]:
  "last_send_time (processSonars s m) = last_send_time m" "send_interval (processSonars s m) = send_interval m"
  "son_mode_ind (processSonars s m) = son_mode_ind m" "son_modes (processSonars s m) = son_modes m"
  "sonarModuleEnabled (processSonars s m) = sonarModuleEnabled m"
  "left_buf (processSonars s m) = rbs_add 5 (sonar_left s 0) (left_buf m)"
  "right_buf (processSonars s m) = rbs_add 5 (sonar_right s 0) (right_buf m)"
  by (simp_all add: processSonars_def filterSonarsFromMedian_def Let_def)

lemma processSonarCommands_frame [simp]:
  "son_processed (processSonarCommands t m) = son_processed m" "left_buf (processSonarCommands t m) = left_buf m"
  "right_buf (processSonarCommands t m) = right_buf m" "sonarModuleEnabled (processSonarCommands t m) = sonarModuleEnabled m"
  by (simp_all add: processSonarCommands_def Let_def)

lemma sonar_ready_step:
  assumes "sonar_ready m" "0 \<le> t"
  shows "sonar_ready (frame_step (s, t) m)"
    "send_sonar_command (son_commands (frame_step (s, t) m)) \<longleftrightarrow> t - last_send_time m \<ge> 65 / 1000"
    "t - last_send_time m \<ge> 65 / 1000 \<Longrightarrow> sonar_command (son_commands (frame_step (s, t) m)) = 4"
    "last_send_time (frame_step (s, t) m) = (if t - last_send_time m \<ge> 65 / 1000 then t else last_send_time m)"
  using assms by (auto simp: sonar_ready_def frame_step_def sonar_processFrame_def processSonarCommands_def Let_def)

lemma sonar_sent_schedule:
  "sonar_ready m \<Longrightarrow> \<forall>f \<in> set fs. 0 \<le> snd f \<Longrightarrow>
   sonar_sent fs m = map (\<lambda>t. (t, 4)) (schedule (last_send_time m) (map snd fs))"
proof (induction fs arbitrary: m)
  case (Cons f fs)
  obtain s t where f: "f = (s, t)" by (cases f)
  have "0 \<le> t" using Cons.prems f by simp
  note step = sonar_ready_step [OF Cons.prems(1) this, of s]
  have "sonar_sent fs (frame_step f m) = map (\<lambda>t. (t, 4)) (schedule (last_send_time (frame_step f m)) (map snd fs))"
    using Cons.IH [of "frame_step f m"] Cons.prems step(1) f by simp
  then show ?case using step by (auto simp: Let_def f)
qed simp

lemma schedule_spaced:
  "sorted_wrt (\<lambda>a b. b - a \<ge> 65 / 1000) (prev # schedule prev ts)"
proof (induction ts arbitrary: prev)
  case (Cons t ts)
  show ?case using Cons.IH [of t] Cons.IH [of prev] by (auto; fastforce)
qed simp

lemma init_ready:
  assumes "son_modes m = []" "0 \<le> t"
  shows "sonar_ready (frame_step (s, t) (initSonarModule v m))"
    "last_send_time (frame_step (s, t) (initSonarModule v m)) = t + 1"
    "send_sonar_command (son_commands (frame_step (s, t) (initSonarModule v m)))"
    "sonar_command (son_commands (frame_step (s, t) (initSonarModule v m))) = 32"
  using assms by (simp_all add: frame_step_def sonar_processFrame_def initSonar_def initSonarModule_def Let_def sonar_ready_def)

text \<open>
  C31: The commands of a new module: in the first frame the transmitters are reset, then nothing is sent for more than a
  second, and from there on the command ``left to left, receive both'' is sent in every frame
  that is at least 65 ms after the last one and in no other, so that two commands are never closer than 65 ms.
\<close>

theorem sonar_commands:
  assumes "son_modes m = []" "\<forall>f \<in> set ((s, t) # fs). 0 \<le> snd f"
  shows "sonar_sent ((s, t) # fs) (initSonarModule v m) = (t, 32) # map (\<lambda>t. (t, 4)) (schedule (t + 1) (map snd fs)) \<and>
    sorted_wrt (\<lambda>a b. b - a \<ge> 65 / 1000) ((t + 1) # schedule (t + 1) (map snd fs))"
proof -
  have "0 \<le> t" using assms(2) by simp
  note i = init_ready [OF assms(1) this, of s v]
  show ?thesis using i sonar_sent_schedule [OF i(1), of fs] schedule_spaced [of "t + 1"] assms(2) by (simp add: Let_def)
qed

theorem sonar_commands_witness:
  "\<forall>m s. sonar_sent [(s, 0), (s, 1 / 2), (s, 11 / 10), (s, 112 / 100), (s, 12 / 10)] (initSonarModule 50 (m\<lparr>son_modes := []\<rparr>)) =
     [(0, 32), (11 / 10, 4), (12 / 10, 4)]"
proof (intro allI)
  fix m s
  show "sonar_sent [(s, 0), (s, 1 / 2), (s, 11 / 10), (s, 112 / 100), (s, 12 / 10)] (initSonarModule 50 (m\<lparr>son_modes := []\<rparr>)) =
     [(0, 32), (11 / 10, 4), (12 / 10, 4)]"
    using sonar_commands [of "m\<lparr>son_modes := []\<rparr>" s 0 "[(s, 1 / 2), (s, 11 / 10), (s, 112 / 100), (s, 12 / 10)]" 50] by simp
qed

section \<open>Obstacles\<close>

lemma median5:
  assumes "length xs = 5" "3 \<le> length (filter (\<lambda>x. a \<le> x \<and> x \<le> b) xs)"
  shows "a \<le> sort xs ! 2 \<and> sort xs ! 2 \<le> (b :: real)"
proof -
  have "length (filter P (sort xs)) = length (filter P xs)" for P :: "real \<Rightarrow> bool"
    by (metis mset_filter mset_sort size_mset)
  then have f: "3 \<le> length (filter (\<lambda>x. a \<le> x \<and> x \<le> b) (sort xs))" using assms(2) by simp
  obtain ys where ys: "sort xs = ys" by blast
  then have "length ys = 5" using assms(1) by auto
  then obtain p q r s t where "ys = [p, q, r, s, t]" by (auto simp: eval_nat_numeral length_Suc_conv)
  with ys have e: "sort xs = [p, q, r, s, t]" by simp
  have "p \<le> q" "q \<le> r" "r \<le> s" "s \<le> t" using sorted_sort [of xs] by (simp_all add: e)
  then show ?thesis using f by (auto simp: e split: if_splits)
qed

definition sonar_run :: "(sensor_block \<times> real) list \<Rightarrow> sonar_module \<Rightarrow> sonar_module" where
  "sonar_run = fold frame_step"

lemma sonar_ready_run: "sonar_ready m \<Longrightarrow> \<forall>f \<in> set fs. 0 \<le> snd f \<Longrightarrow> sonar_ready (sonar_run fs m)"
proof (induction fs arbitrary: m)
  case (Cons f fs) then show ?case using sonar_ready_step(1) [of m "snd f" "fst f"] by (simp add: sonar_run_def)
qed (simp add: sonar_run_def)

lemma ready_buffers:
  assumes "sonar_ready m"
  shows "left_buf (frame_step f m) = rbs_add 5 (sonar_left (fst f) 0) (left_buf m)"
    "right_buf (frame_step f m) = rbs_add 5 (sonar_right (fst f) 0) (right_buf m)"
    "son_processed (frame_step f m) = son_processed (processSonars (fst f) m)"
  using assms by (simp_all add: sonar_ready_def frame_step_def sonar_processFrame_def)

lemma buffers_run:
  "sonar_ready m \<Longrightarrow> \<forall>f \<in> set fs. 0 \<le> snd f \<Longrightarrow>
   left_buf (sonar_run fs m) = fold (rbs_add 5) (map (\<lambda>f. sonar_left (fst f) 0) fs) (left_buf m) \<and>
   right_buf (sonar_run fs m) = fold (rbs_add 5) (map (\<lambda>f. sonar_right (fst f) 0) fs) (right_buf m)"
proof (induction fs arbitrary: m)
  case (Cons f fs)
  then show ?case using ready_buffers [of m f] sonar_ready_step(1) [of m "snd f" "fst f"] by (simp add: sonar_run_def)
qed (simp add: sonar_run_def)

lemma rbs_run:
  assumes "rbs_inv 5 b"
  shows "rbs_inv 5 (fold (rbs_add 5) xs b) \<and> rb_view 5 (fold (rbs_add 5) xs b) = take 5 (rev xs @ rb_view 5 b)"
proof (induction xs rule: rev_induct)
  case Nil
  have "length (rb_view 5 b) \<le> 5" using assms by (auto simp: rb_view_def rbs_inv_def rb_inv_def)
  then show ?case using assms by simp
next
  case (snoc x xs)
  let ?b = "fold (rbs_add 5) xs b"
  have "rbs_inv 5 ?b" "rb_inv 5 ?b" "rb_view 5 ?b = take 5 (rev xs @ rb_view 5 b)" using snoc by (simp_all add: rbs_inv_def)
  moreover have "take 5 (x # take 5 ys) = take 5 (x # ys)" for ys :: "real list" by (simp add: take_Cons')
  ultimately show ?case using rbs_inv_add [of 5 ?b x] rbs_view_add [of 5 ?b x]
    by (simp del: take_append)
qed

lemma last_readings_median:
  assumes "rbs_inv 5 b" "5 \<le> length xs"
    and "3 \<le> length (filter (\<lambda>x. lo \<le> x \<and> x \<le> hi) (drop (length xs - 5) xs))"
  shows "lo \<le> rbs_getMedian 5 (fold (rbs_add 5) xs b) \<and> rbs_getMedian 5 (fold (rbs_add 5) xs b) \<le> hi"
proof -
  let ?b = "fold (rbs_add 5) xs b" and ?l = "drop (length xs - 5) xs"
  have r: "rbs_inv 5 ?b" "rb_view 5 ?b = rev ?l" using rbs_run [OF assms(1), of xs] assms(2) by (simp_all add: take_rev)
  have "length (rb_view 5 ?b) = 5" using r(2) assms(2) by simp
  then have "rb_numberOfEntries ?b = 5" by (simp add: rb_view_def)
  then have "rbs_getMedian 5 ?b = sort (rev ?l) ! 2" using rbs_getMedian_view [OF r(1)] r(2) by simp
  moreover have "length (filter P (rev ?l)) = length (filter P ?l)" for P :: "real \<Rightarrow> bool" by (simp add: rev_filter [symmetric])
  ultimately show ?thesis using median5 [of "rev ?l" lo hi] assms(2, 3) by simp
qed

lemma processed_distances:
  assumes "sonar_ready m"
  shows "left_distance (son_processed (frame_step f m)) = rbs_getMedian 5 (left_buf (frame_step f m))"
    "right_distance (son_processed (frame_step f m)) = rbs_getMedian 5 (right_buf (frame_step f m))"
proof -
  have "sonarModuleEnabled m" using assms by (simp add: sonar_ready_def)
  then show "left_distance (son_processed (frame_step f m)) = rbs_getMedian 5 (left_buf (frame_step f m))"
    "right_distance (son_processed (frame_step f m)) = rbs_getMedian 5 (right_buf (frame_step f m))"
    unfolding ready_buffers [OF assms] by (simp_all add: processSonars_def filterSonarsFromMedian_def Let_def)
qed

lemma processed_distances_run:
  assumes "sonar_ready m" "\<forall>f \<in> set fs. 0 \<le> snd f" "fs \<noteq> []"
  shows "left_distance (son_processed (sonar_run fs m)) = rbs_getMedian 5 (left_buf (sonar_run fs m))"
    "right_distance (son_processed (sonar_run fs m)) = rbs_getMedian 5 (right_buf (sonar_run fs m))"
proof -
  obtain before f where fs: "fs = before @ [f]" using assms(3) by (cases fs rule: rev_cases) auto
  then have "sonar_ready (sonar_run before m)" using sonar_ready_run assms by simp
  then show "left_distance (son_processed (sonar_run fs m)) = rbs_getMedian 5 (left_buf (sonar_run fs m))"
    "right_distance (son_processed (sonar_run fs m)) = rbs_getMedian 5 (right_buf (sonar_run fs m))"
    using processed_distances [of "sonar_run before m" f] by (simp_all add: fs sonar_run_def)
qed

text \<open>
  C39: Outliers: as soon as five readings have been taken, a distance the module reports lies between the bounds of any
  three of the last five readings of its side, so that up to two wrong readings in a window cannot move it out of the range of the others.
\<close>

theorem sonar_median_robust:
  assumes "sonar_ready m" "rbs_inv 5 (left_buf m)" "rbs_inv 5 (right_buf m)"
    and "\<forall>f \<in> set fs. 0 \<le> snd f" "5 \<le> length fs"
  shows "(3 \<le> length (filter (\<lambda>f. lo \<le> sonar_left (fst f) 0 \<and> sonar_left (fst f) 0 \<le> hi) (drop (length fs - 5) fs)) \<longrightarrow>
      left_distance (son_processed (sonar_run fs m)) \<in> {lo..hi}) \<and>
    (3 \<le> length (filter (\<lambda>f. lo \<le> sonar_right (fst f) 0 \<and> sonar_right (fst f) 0 \<le> hi) (drop (length fs - 5) fs)) \<longrightarrow>
      right_distance (son_processed (sonar_run fs m)) \<in> {lo..hi})"
proof -
  have "fs \<noteq> []" using assms(5) by auto
  note d = processed_distances_run [OF assms(1, 4) this]
  note b = buffers_run [OF assms(1, 4)]
  have f: "filter P (drop k (map g fs)) = map g (filter (P \<circ> g) (drop k fs))" for P k and g :: "sensor_block \<times> real \<Rightarrow> real"
    by (simp add: drop_map filter_map)
  show ?thesis
    using last_readings_median [OF assms(2), of "map (\<lambda>f. sonar_left (fst f) 0) fs" lo hi]
      last_readings_median [OF assms(3), of "map (\<lambda>f. sonar_right (fst f) 0) fs" lo hi] assms(5) b d
    by (simp add: f comp_def)
qed

text \<open>Two echoes of 0 among readings of 0.3.\<close>

theorem sonar_median_robust_witness:
  "\<forall>m b. left_distance (son_processed (sonar_run (map (\<lambda>d. ((b :: sensor_block)\<lparr>sonar_left := (\<lambda>i. d)\<rparr>, 0)) [3 / 10, 0, 3 / 10, 0, 3 / 10])
     (m\<lparr>last_send_time := 0, send_interval := 70 / 1000, son_mode_ind := 0, son_modes := [4], sonarModuleEnabled := True,
        left_buf := rbs_init 5 \<lparr>rb_current = 0, rb_numberOfEntries = 0, rb_buffer = [9, 9, 9, 9, 9], rbs_sum = 0\<rparr>,
        right_buf := rbs_init 5 \<lparr>rb_current = 0, rb_numberOfEntries = 0, rb_buffer = [9, 9, 9, 9, 9], rbs_sum = 0\<rparr>\<rparr>))) = 3 / 10"
proof (intro allI)
  fix m :: sonar_module and b :: sensor_block
  let ?b = "rbs_init 5 \<lparr>rb_current = 0, rb_numberOfEntries = 0, rb_buffer = [9, 9, 9, 9, 9], rbs_sum = 0\<rparr>"
  let ?m = "m\<lparr>last_send_time := 0, send_interval := 70 / 1000, son_mode_ind := 0, son_modes := [4], sonarModuleEnabled := True,
        left_buf := ?b, right_buf := ?b\<rparr>"
  let ?fs = "map (\<lambda>d. (b\<lparr>sonar_left := (\<lambda>i. d)\<rparr>, 0)) [3 / 10, 0, 3 / 10, 0, 3 / 10]"
  have i: "rbs_inv 5 ?b" by (rule rbs_inv_init) simp_all
  have "sonar_ready ?m" by (simp add: sonar_ready_def)
  then show "left_distance (son_processed (sonar_run ?fs ?m)) = 3 / 10"
    using sonar_median_robust [of ?m ?fs "3 / 10" "3 / 10"] i by simp
qed

text \<open>
  The reports of a frame are consistent: an obstacle in the center excludes the two sides and has as its distance the mean of
  theirs; obstacles on both sides at once are at least 20 cm apart in distance; and whenever an obstacle
  is reported its distance is more than 10 cm and at most 35 cm.
\<close>

theorem sonar_reports_consistent:
  "let m = initSonarModule v m0; p = son_processed (filterSonarsFromMedian m)
   in (on_center p \<longrightarrow> \<not> on_left p \<and> \<not> on_right p \<and> center_distance p = (left_distance p + right_distance p) / 2 \<and>
         1 / 10 < center_distance p \<and> center_distance p \<le> 35 / 100) \<and>
      (on_left p \<longrightarrow> 1 / 10 < left_distance p \<and> left_distance p \<le> 35 / 100) \<and>
      (on_right p \<longrightarrow> 1 / 10 < right_distance p \<and> right_distance p \<le> 35 / 100) \<and>
      (on_left p \<and> on_right p \<longrightarrow> 2 / 10 \<le> \<bar>left_distance p - right_distance p\<bar>) \<and>
      (\<not> on_center p \<longrightarrow> center_distance p = 255 / 100)"
proof -
  have d: "min_distance (initSonarModule v m0) = 1 / 10" "max_distance (initSonarModule v m0) = 35 / 100"
    "lr_distance_diff (initSonarModule v m0) = 2 / 10" by (simp_all add: initSonarModule_def Let_def)
  show ?thesis unfolding filterSonarsFromMedian_def Let_def d by (auto simp: field_simps)
qed

text \<open>An obstacle 20 cm ahead of both receivers.\<close>

theorem sonar_reports_consistent_witness:
  "\<forall>m. let p = son_processed (filterSonarsFromMedian (initSonarModule 50
       (m\<lparr>left_buf := \<lparr>rb_current = 0, rb_numberOfEntries = 5, rb_buffer = replicate 5 (2 / 10), rbs_sum = 1\<rparr>,
          right_buf := \<lparr>rb_current = 0, rb_numberOfEntries = 5, rb_buffer = replicate 5 (2 / 10), rbs_sum = 1\<rparr>\<rparr>)))
     in on_center p \<and> \<not> on_left p \<and> center_distance p = 2 / 10"
proof
  fix m :: sonar_module
  let ?b = "\<lparr>rb_current = 0, rb_numberOfEntries = 5, rb_buffer = replicate 5 (2 / 10), rbs_sum = 1\<rparr>"
  let ?m = "m\<lparr>left_buf := ?b, right_buf := ?b\<rparr>"
  let ?p = "son_processed (filterSonarsFromMedian (initSonarModule 50 ?m))"
  have "rbs_getMedian 5 ?b = 2 / 10" by (simp add: rbs_getMedian_def eval_nat_numeral signed_divide_int_def)
  then have d: "on_center ?p" "left_distance ?p = 2 / 10" "right_distance ?p = 2 / 10"
    by (simp_all add: filterSonarsFromMedian_def initSonarModule_def Let_def)
  then show "let p = ?p in on_center p \<and> \<not> on_left p \<and> center_distance p = 2 / 10"
    using sonar_reports_consistent [of 50 ?m] by (simp add: Let_def)
qed

text \<open>
  The confidence of the method that is not in use: it stays between 0 and 1, and an obstacle needs two readings
  in range in a row before it is reported with it.
\<close>

theorem confidence_needs_two:
  assumes "0 \<le> son_confidence m i" "son_confidence m i \<le> 1"
  shows "let c = son_confidence (addDistance d i m) i
     in 0 \<le> c \<and> c \<le> 1 \<and> (c > 6 / 10 \<longrightarrow> d < max_distance m \<and> son_confidence m i > 2 / 10) \<and>
        (son_confidence m i = 0 \<and> d < max_distance m \<and> d' < max_distance m \<longrightarrow>
           c \<le> 6 / 10 \<and> son_confidence (addDistance d' i (addDistance d i m)) i > 6 / 10)"
  using assms by (auto simp: addDistance_def Let_def)

theorem confidence_needs_two_witness:
  "\<forall>m. let c = son_confidence (addDistance (2 / 10) 0 (m\<lparr>son_confidence := (\<lambda>i. 0), max_distance := 35 / 100\<rparr>)) 0
     in 0 \<le> c \<and> c \<le> 6 / 10"
  using confidence_needs_two [of "m\<lparr>son_confidence := (\<lambda>i. 0), max_distance := 35 / 100\<rparr>" 0 "2 / 10" "2 / 10" for m]
  by (simp add: Let_def)

end
