(* ===== verification/Lights.thy ===== *)
theory Lights
  imports Robot_Info "HOL-Library.Sublist" "HOL-Library.Signed_Division"
begin

text \<open>
  The lights of the robot: the block with the values of the LEDs (\<open>src/core/memory/LEDBlock.h\<close>) and the functions
  that set groups of them (\<open>src/core/lights/LEDModule.cpp\<close>). A write behind the end of the array is the value
  \<open>None\<close>. Shown is that the functions, which use positions in the enumeration of the LEDs, set exactly the LEDs the
  device names of which say what the function says.
\<close>

section \<open>The block and single values\<close>

record led_block =
  send_leds :: bool
  led_values :: "real list"

definition led_new :: led_block where
  "led_new = \<lparr>send_leds = True, led_values = replicate NUM_LEDS 0\<rparr>"

definition led_put :: "int \<Rightarrow> real \<Rightarrow> led_block \<Rightarrow> led_block option" where
  "led_put i v b = (if 0 \<le> i \<and> nat i < length (led_values b) then Some (b\<lparr>led_values := (led_values b)[nat i := v]\<rparr>) else None)"

text \<open>Writes one after the other, and the loop from \<open>lo\<close> up to and including \<open>hi\<close>.\<close>

fun led_puts :: "(int \<times> real) list \<Rightarrow> led_block \<Rightarrow> led_block option" where
  "led_puts [] b = Some b"
| "led_puts ((i, v) # ws) b = Option.bind (led_put i v b) (led_puts ws)"

definition led_range :: "int \<Rightarrow> int \<Rightarrow> real \<Rightarrow> (int \<times> real) list" where
  "led_range lo hi v = map (\<lambda>i. (i, v)) [lo..hi]"

definition led_send :: "(int \<times> real) list \<Rightarrow> led_block \<Rightarrow> led_block option" where
  "led_send ws b = led_puts ws (b\<lparr>send_leds := True\<rparr>)"

section \<open>The functions of the module\<close>

definition lightsOff :: "led_block \<Rightarrow> led_block option" where
  "lightsOff = led_send (led_range 0 (int NUM_LEDS - 1) 0)"

definition lightsOn :: "led_block \<Rightarrow> led_block option" where
  "lightsOn = led_send (led_range 0 (int NUM_LEDS - 1) 1)"

definition partLeftEar :: "real \<Rightarrow> int \<Rightarrow> int \<Rightarrow> led_block \<Rightarrow> led_block option" where
  "partLeftEar val start number = led_send (led_range (int EarLeft0 + start) (int EarLeft0 + start + number) val)"

definition partRightEar :: "real \<Rightarrow> int \<Rightarrow> int \<Rightarrow> led_block \<Rightarrow> led_block option" where
  "partRightEar val start number = led_send (led_range (int EarRight0 + start) (int EarRight0 + start + number) val)"

definition backRightEar :: "real \<Rightarrow> led_block \<Rightarrow> led_block option" where
  "backRightEar val = partRightEar val 5 4"

definition frontRightEar :: "real \<Rightarrow> led_block \<Rightarrow> led_block option" where
  "frontRightEar val = partRightEar val 0 4"

definition backLeftEar :: "real \<Rightarrow> led_block \<Rightarrow> led_block option" where
  "backLeftEar val = partLeftEar val 5 4"

definition frontLeftEar :: "real \<Rightarrow> led_block \<Rightarrow> led_block option" where
  "frontLeftEar val = partLeftEar val 0 4"

definition allLeftEar :: "real \<Rightarrow> led_block \<Rightarrow> led_block option" where
  "allLeftEar val = led_send (led_range (int EarLeft0) (int EarLeft324) val)"

definition allRightEar :: "real \<Rightarrow> led_block \<Rightarrow> led_block option" where
  "allRightEar val = led_send (led_range (int EarRight0) (int EarRight324) val)"

definition allLeftEye :: "real \<Rightarrow> real \<Rightarrow> real \<Rightarrow> led_block \<Rightarrow> led_block option" where
  "allLeftEye r g b = led_send
     (led_range (int FaceRedLeft0) (int FaceRedLeft315) r @ led_range (int FaceGreenLeft0) (int FaceGreenLeft315) g @
      led_range (int FaceBlueLeft0) (int FaceBlueLeft315) b)"

definition allRangeEye :: "int \<Rightarrow> int \<Rightarrow> bool \<Rightarrow> real \<Rightarrow> real \<Rightarrow> real \<Rightarrow> led_block \<Rightarrow> led_block option" where
  "allRangeEye startOffset number right r g b =
     (let startR = (if right then int FaceRedRight0 else int FaceRedLeft0);
          startG = (if right then int FaceGreenRight0 else int FaceGreenLeft0);
          startB = (if right then int FaceBlueRight0 else int FaceBlueLeft0)
      in led_send (concat (map (\<lambda>i.
           [(startR + (startOffset + i) smod int LEDS_PER_EYE, r),
            (startG + (startOffset + i) smod int LEDS_PER_EYE, g),
            (startB + (startOffset + i) smod int LEDS_PER_EYE, b)]) [0..number - 1])))"

definition allTopRightEye :: "real \<Rightarrow> real \<Rightarrow> real \<Rightarrow> led_block \<Rightarrow> led_block option" where
  "allTopRightEye r g b = allRangeEye 6 4 True r g b"

definition allBottomRightEye :: "real \<Rightarrow> real \<Rightarrow> real \<Rightarrow> led_block \<Rightarrow> led_block option" where
  "allBottomRightEye r g b = allRangeEye 2 4 True r g b"

definition allTopLeftEye :: "real \<Rightarrow> real \<Rightarrow> real \<Rightarrow> led_block \<Rightarrow> led_block option" where
  "allTopLeftEye r g b = allRangeEye 6 4 False r g b"

definition allBottomLeftEye :: "real \<Rightarrow> real \<Rightarrow> real \<Rightarrow> led_block \<Rightarrow> led_block option" where
  "allBottomLeftEye r g b = allRangeEye 2 4 False r g b"

definition allRightEye :: "real \<Rightarrow> real \<Rightarrow> real \<Rightarrow> led_block \<Rightarrow> led_block option" where
  "allRightEye r g b = led_send
     (led_range (int FaceRedRight0) (int FaceRedRight315) r @ led_range (int FaceGreenRight0) (int FaceGreenRight315) g @
      led_range (int FaceBlueRight0) (int FaceBlueRight315) b)"

definition chest :: "real \<Rightarrow> real \<Rightarrow> real \<Rightarrow> led_block \<Rightarrow> led_block option" where
  "chest r g b = led_send [(int ChestRed, r), (int ChestGreen, g), (int ChestBlue, b)]"

definition leftFoot :: "real \<Rightarrow> real \<Rightarrow> real \<Rightarrow> led_block \<Rightarrow> led_block option" where
  "leftFoot r g b = led_send [(int LFootRed, r), (int LFootGreen, g), (int LFootBlue, b)]"

definition rightFoot :: "real \<Rightarrow> real \<Rightarrow> real \<Rightarrow> led_block \<Rightarrow> led_block option" where
  "rightFoot r g b = led_send [(int RFootRed, r), (int RFootGreen, g), (int RFootBlue, b)]"

definition led_headFront :: "led_block \<Rightarrow> led_block option" where
  "led_headFront = led_send [(int RHead0, 1), (int RHead1, 1), (int LHead0, 1), (int LHead1, 1)]"

definition led_headMiddle :: "led_block \<Rightarrow> led_block option" where
  "led_headMiddle = led_send [(int RHead2, 1), (int LHead2, 1)]"

definition led_headRear :: "led_block \<Rightarrow> led_block option" where
  "led_headRear = led_send [(int RHead3, 1), (int RHead4, 1), (int RHead5, 1), (int LHead3, 1), (int LHead4, 1), (int LHead5, 1)]"

definition headRight :: "led_block \<Rightarrow> led_block option" where
  "headRight = led_send [(int RHead0, 1), (int RHead1, 1), (int RHead2, 1), (int RHead3, 1), (int RHead4, 1), (int RHead5, 1)]"

definition headLeft :: "led_block \<Rightarrow> led_block option" where
  "headLeft = led_send [(int LHead0, 1), (int LHead1, 1), (int LHead2, 1), (int LHead3, 1), (int LHead4, 1), (int LHead5, 1)]"

definition headAll :: "led_block \<Rightarrow> led_block option" where
  "headAll = led_send
     [(int RHead0, 1), (int RHead1, 1), (int RHead2, 1), (int RHead3, 1), (int RHead4, 1), (int RHead5, 1),
      (int LHead0, 1), (int LHead1, 1), (int LHead2, 1), (int LHead3, 1), (int LHead4, 1), (int LHead5, 1)]"

definition headOff :: "led_block \<Rightarrow> led_block option" where
  "headOff = led_send
     [(int RHead0, 0), (int RHead1, 0), (int RHead2, 0), (int RHead3, 0), (int RHead4, 0), (int RHead5, 0),
      (int LHead0, 0), (int LHead1, 0), (int LHead2, 0), (int LHead3, 0), (int LHead4, 0), (int LHead5, 0)]"

text \<open>
  The static counter of \<open>headCircle\<close> is part of the state; it starts with \<open>-1\<close>, and counting beyond the largest
  \<open>int\<close> is undefined.
\<close>

definition headCircle :: "int \<times> led_block \<Rightarrow> (int \<times> led_block) option" where
  "headCircle s =
     (case s of (i, b) \<Rightarrow>
        if i = 2 ^ 31 - 1 then None
        else let b = b\<lparr>send_leds := True\<rparr>; i = i + 1
        in Option.bind (headOff b) (\<lambda>b.
             let numHeadLEDs = int RHead0 - int LHead0 + 1; framesPerLED = 1;
                 currentIndex = int LHead0 + (i sdiv framesPerLED) smod numHeadLEDs
             in map_option (Pair i) (led_put currentIndex 1 b)))"

section \<open>Writes as finite maps\<close>

definition led_in :: "led_block \<Rightarrow> (int \<times> real) list \<Rightarrow> bool" where
  "led_in b ws \<longleftrightarrow> (\<forall>(i, v) \<in> set ws. 0 \<le> i \<and> i < int (length (led_values b)))"

definition led_upd :: "(int \<Rightarrow> real option) \<Rightarrow> led_block \<Rightarrow> led_block" where
  "led_upd f b = b\<lparr>led_values := map (\<lambda>j. case f (int j) of None \<Rightarrow> led_values b ! j | Some v \<Rightarrow> v) [0..<length (led_values b)]\<rparr>"

lemma led_upd_simps [simp]:
  "length (led_values (led_upd f b)) = length (led_values b)" "send_leds (led_upd f b) = send_leds b"
  "j < length (led_values b) \<Longrightarrow> led_values (led_upd f b) ! j = (case f (int j) of None \<Rightarrow> led_values b ! j | Some v \<Rightarrow> v)"
  by (simp_all add: led_upd_def split: option.split)

lemma led_upd_upd: "led_upd g (led_upd f b) = led_upd (f ++ g) b"
  by (simp add: led_upd_def map_add_def cong: map_cong split: option.splits)

lemma led_puts_total: "led_in b ws \<Longrightarrow> led_puts ws b = Some (led_upd (map_of (rev ws)) b)"
proof (induction ws arbitrary: b)
  case Nil
  then show ?case by (cases b) (simp add: led_upd_def map_nth)
next
  case (Cons w ws)
  obtain i v where w: "w = (i, v)" by (cases w)
  have i: "0 \<le> i" "i < int (length (led_values b))" "led_in b ws" using Cons.prems by (auto simp: led_in_def w)
  have "led_put i v b = Some (led_upd [i \<mapsto> v] b)"
    using i by (auto simp: led_put_def led_upd_def nth_list_update intro!: arg_cong [where f = "\<lambda>l. led_values_update (\<lambda>_. l) b"] nth_equalityI)
  moreover have "led_in (led_upd [i \<mapsto> v] b) ws" using i(3) by (simp add: led_in_def)
  ultimately show ?case using Cons.IH by (simp add: w led_upd_upd)
qed

lemma led_send_total:
  "led_in b ws \<Longrightarrow> led_send ws b = Some (led_upd (map_of (rev ws)) (b\<lparr>send_leds := True\<rparr>))"
  by (simp add: led_send_def led_puts_total led_in_def)

lemma map_of_range: "map_of (rev (led_range lo hi v)) i = (if lo \<le> i \<and> i \<le> hi then Some v else None)"
proof -
  have "map_of (rev (led_range lo hi v)) i = map_of (map (\<lambda>i. (i, v)) (rev [lo..hi])) i" by (simp add: led_range_def rev_map)
  also have "\<dots> = (if lo \<le> i \<and> i \<le> hi then Some v else None)" by (simp add: map_of_map_restrict restrict_map_def)
  finally show ?thesis .
qed

section \<open>Names\<close>

text \<open>
  An operation paints the groups of LEDs given by prefixes of the device names when it is defined, asks for the lights to be sent
  and gives all LEDs of the groups the value of the group and leaves all others alone.
\<close>

definition painted :: "(string \<times> real) list \<Rightarrow> nat \<Rightarrow> real \<Rightarrow> real" where
  "painted cs j old = foldr (\<lambda>(p, v) x. if prefix p (getLEDString j) then v else x) cs old"

definition paints :: "(led_block \<Rightarrow> led_block option) \<Rightarrow> (string \<times> real) list \<Rightarrow> bool" where
  "paints f cs \<longleftrightarrow> (\<forall>b. length (led_values b) = NUM_LEDS \<longrightarrow>
     (\<exists>b'. f b = Some b' \<and> send_leds b' \<and> length (led_values b') = NUM_LEDS \<and>
        (\<forall>j < NUM_LEDS. led_values b' ! j = painted cs j (led_values b ! j))))"

lemma paintsI:
  assumes "\<forall>(i, v) \<in> set ws. 0 \<le> i \<and> i < 89"
    and "\<And>j x. j < 89 \<Longrightarrow> (case map_of (rev ws) (int j) of None \<Rightarrow> x | Some v \<Rightarrow> v) = painted cs j x"
  shows "paints (led_send ws) cs"
  using assms by (auto simp: paints_def led_send_total led_in_def)

definition named :: "string \<Rightarrow> nat list" where
  "named p = filter (\<lambda>j. prefix p (getLEDString j)) [0..<89]"

lemma prefix_named: "j < 89 \<Longrightarrow> prefix p (getLEDString j) \<longleftrightarrow> j \<in> set (named p)"
  by (simp add: named_def)

lemma named_zip: "named p = map fst (filter (\<lambda>(j, s). prefix p s) (zip [0..<89] LEDStrings))"
proof -
  have "length LEDStrings = 89" by (simp add: LEDStrings_def)
  then have "zip [0..<89] LEDStrings = map (\<lambda>j. (j, LEDStrings ! j)) [0..<89]" by (intro nth_equalityI) simp_all
  then show ?thesis by (simp add: named_def getLEDString_def filter_map comp_def) (rule filter_cong; simp)
qed

lemma named_ears: "named ''Ears/Led/Left'' = [0..<10]" "named ''Ears/Led/Right'' = [10..<20]"
  unfolding named_zip by code_simp+

lemma named_left_eye:
  "named ''Face/Led/Red/Left'' = [20..<28]" "named ''Face/Led/Green/Left'' = [28..<36]" "named ''Face/Led/Blue/Left'' = [36..<44]"
  unfolding named_zip by code_simp+

lemma named_right_eye:
  "named ''Face/Led/Red/Right'' = [44..<52]" "named ''Face/Led/Green/Right'' = [52..<60]" "named ''Face/Led/Blue/Right'' = [60..<68]"
  unfolding named_zip by code_simp+

lemma named_chest: "named ''ChestBoard/Led/Red'' = [68]" "named ''ChestBoard/Led/Green'' = [69]" "named ''ChestBoard/Led/Blue'' = [70]"
  unfolding named_zip by code_simp+

lemma named_left_foot: "named ''LFoot/Led/Red'' = [71]" "named ''LFoot/Led/Green'' = [72]" "named ''LFoot/Led/Blue'' = [73]"
  unfolding named_zip by code_simp+

lemma named_right_foot: "named ''RFoot/Led/Red'' = [74]" "named ''RFoot/Led/Green'' = [75]" "named ''RFoot/Led/Blue'' = [76]"
  unfolding named_zip by code_simp+

lemma named_head:
  "named ''Head/Led/Front'' = [77, 78, 87, 88]" "named ''Head/Led/Middle'' = [79, 86]"
  "named ''Head/Led/Rear'' = [80, 81, 82, 83, 84, 85]" "named ''Head/Led'' = [77, 78, 79, 80, 81, 82, 83, 84, 85, 86, 87, 88]"
  unfolding named_zip by code_simp+

lemma prefix_range: "named p = [lo..<hi] \<Longrightarrow> j < 89 \<Longrightarrow> prefix p (getLEDString j) \<longleftrightarrow> lo \<le> j \<and> j < hi"
  by (simp add: prefix_named)

lemma prefix_list: "named p = is \<Longrightarrow> j < 89 \<Longrightarrow> prefix p (getLEDString j) \<longleftrightarrow> j \<in> set is"
  by (simp add: prefix_named)

lemmas paint_simps = painted_def map_of_range named_ears [THEN prefix_range] named_left_eye [THEN prefix_range]
  named_right_eye [THEN prefix_range] named_chest [THEN prefix_list] named_left_foot [THEN prefix_list]
  named_right_foot [THEN prefix_list] named_head [THEN prefix_list]

lemma led_range_in: "led_in b (led_range lo hi v) \<longleftrightarrow> (lo \<le> hi \<longrightarrow> 0 \<le> lo \<and> hi < int (length (led_values b)))"
  by (auto simp: led_in_def led_range_def)

lemma range_set: "(i, x) \<in> set (led_range lo hi v) \<longleftrightarrow> lo \<le> i \<and> i \<le> hi \<and> x = v"
  by (auto simp: led_range_def)

lemma paints_ears: "paints (allLeftEar v) [(''Ears/Led/Left'', v)]" "paints (allRightEar v) [(''Ears/Led/Right'', v)]"
  unfolding allLeftEar_def allRightEar_def by (rule paintsI; auto simp: range_set paint_simps)+

lemma paints_eyes:
  "paints (allLeftEye r g b) [(''Face/Led/Red/Left'', r), (''Face/Led/Green/Left'', g), (''Face/Led/Blue/Left'', b)]"
  "paints (allRightEye r g b) [(''Face/Led/Red/Right'', r), (''Face/Led/Green/Right'', g), (''Face/Led/Blue/Right'', b)]"
  unfolding allLeftEye_def allRightEye_def by (rule paintsI; auto simp: range_set paint_simps map_add_def)+

lemma paints_body:
  "paints (chest r g b) [(''ChestBoard/Led/Red'', r), (''ChestBoard/Led/Green'', g), (''ChestBoard/Led/Blue'', b)]"
  "paints (leftFoot r g b) [(''LFoot/Led/Red'', r), (''LFoot/Led/Green'', g), (''LFoot/Led/Blue'', b)]"
  "paints (rightFoot r g b) [(''RFoot/Led/Red'', r), (''RFoot/Led/Green'', g), (''RFoot/Led/Blue'', b)]"
  unfolding chest_def leftFoot_def rightFoot_def by (rule paintsI; auto simp: paint_simps)+

lemma paints_head:
  "paints led_headFront [(''Head/Led/Front'', 1)]" "paints led_headMiddle [(''Head/Led/Middle'', 1)]"
  "paints led_headRear [(''Head/Led/Rear'', 1)]" "paints headAll [(''Head/Led'', 1)]" "paints headOff [(''Head/Led'', 0)]"
  unfolding led_headFront_def led_headMiddle_def led_headRear_def headAll_def headOff_def
  by (rule paintsI; auto simp: paint_simps)+

text \<open>
  The functions work on ranges of the enumeration; by the device names they set what they are called after: the ears, the eyes in three
  colours, the chest, the feet, and the front, the middle, the rear and all of the head.
  No write is out of bounds and no other light changes.
\<close>

theorem lights_by_name:
  "paints (allLeftEar v) [(''Ears/Led/Left'', v)] \<and> paints (allRightEar v) [(''Ears/Led/Right'', v)] \<and>
   paints (allLeftEye r g b) [(''Face/Led/Red/Left'', r), (''Face/Led/Green/Left'', g), (''Face/Led/Blue/Left'', b)] \<and>
   paints (allRightEye r g b) [(''Face/Led/Red/Right'', r), (''Face/Led/Green/Right'', g), (''Face/Led/Blue/Right'', b)] \<and>
   paints (chest r g b) [(''ChestBoard/Led/Red'', r), (''ChestBoard/Led/Green'', g), (''ChestBoard/Led/Blue'', b)] \<and>
   paints (leftFoot r g b) [(''LFoot/Led/Red'', r), (''LFoot/Led/Green'', g), (''LFoot/Led/Blue'', b)] \<and>
   paints (rightFoot r g b) [(''RFoot/Led/Red'', r), (''RFoot/Led/Green'', g), (''RFoot/Led/Blue'', b)] \<and>
   paints led_headFront [(''Head/Led/Front'', 1)] \<and> paints led_headMiddle [(''Head/Led/Middle'', 1)] \<and>
   paints led_headRear [(''Head/Led/Rear'', 1)] \<and> paints headAll [(''Head/Led'', 1)] \<and> paints headOff [(''Head/Led'', 0)]"
  by (intro conjI paints_ears paints_eyes paints_body paints_head)

section \<open>Parts make up the whole\<close>

lemma send_twice:
  assumes "led_in b ws" "led_in b vs"
  shows "Option.bind (led_send ws b) (led_send vs) = Some (led_upd (map_of (rev ws) ++ map_of (rev vs)) (b\<lparr>send_leds := True\<rparr>))"
proof -
  have "led_in (led_upd (map_of (rev ws)) (b\<lparr>send_leds := True\<rparr>)) vs" using assms(2) by (simp add: led_in_def)
  moreover have "(led_upd f (b\<lparr>send_leds := True\<rparr>))\<lparr>send_leds := True\<rparr> = led_upd f (b\<lparr>send_leds := True\<rparr>)" for f
    by (cases b) (simp add: led_upd_def)
  ultimately show ?thesis
    using led_send_total [OF assms(1)] led_send_total [of "led_upd (map_of (rev ws)) (b\<lparr>send_leds := True\<rparr>)" vs]
    by (simp only: bind.bind_lunit led_upd_upd)
qed

lemma sends_equal:
  assumes "length (led_values b) = 89" "\<forall>(i, v) \<in> set ws \<union> set vs \<union> set us. 0 \<le> i \<and> i < 89"
    and "map_of (rev ws) ++ map_of (rev vs) = map_of (rev us)"
  shows "Option.bind (led_send ws b) (led_send vs) = led_send us b"
proof -
  have "led_in b ws" "led_in b vs" "led_in b us" using assms(1, 2) by (auto simp: led_in_def)
  then show ?thesis using assms(3) send_twice [of b ws vs] led_send_total [of b us] by (simp only:)
qed

lemma smod_eye: "(x :: int) smod 8 = (if 0 \<le> x \<and> x < 8 then x else if 8 \<le> x \<and> x < 16 then x - 8 else x smod 8)"
proof -
  have "x mod 8 = x - 8" if "8 \<le> x" "x < 16" using that by presburger
  then show ?thesis by (auto simp: signed_modulo_int_def signed_divide_int_def sgn_if minus_div_mult_eq_mod)
qed

text \<open>
  The top and the bottom of an eye together are the eye, the front and the back of an ear the ear, and the
  left and the right half of the head the whole head.
\<close>

theorem light_parts:
  assumes "length (led_values x) = NUM_LEDS"
  shows "Option.bind (allTopLeftEye r g b x) (allBottomLeftEye r g b) = allLeftEye r g b x \<and>
    Option.bind (allTopRightEye r g b x) (allBottomRightEye r g b) = allRightEye r g b x \<and>
    Option.bind (frontLeftEar v x) (backLeftEar v) = allLeftEar v x \<and>
    Option.bind (frontRightEar v x) (backRightEar v) = allRightEar v x \<and>
    Option.bind (headLeft x) headRight = headAll x"
proof (intro conjI)
  have n: "length (led_values x) = 89" using assms by simp
  note sends = sends_equal [OF n]
  show "Option.bind (frontLeftEar v x) (backLeftEar v) = allLeftEar v x"
    "Option.bind (frontRightEar v x) (backRightEar v) = allRightEar v x"
    unfolding frontLeftEar_def backLeftEar_def allLeftEar_def frontRightEar_def backRightEar_def allRightEar_def
      partLeftEar_def partRightEar_def
    by (rule sends; force simp: range_set map_of_range map_add_def fun_eq_iff)+
  show "Option.bind (headLeft x) headRight = headAll x"
    unfolding headLeft_def headRight_def headAll_def by (rule sends) (simp_all add: fun_eq_iff)
  show "Option.bind (allTopLeftEye r g b x) (allBottomLeftEye r g b) = allLeftEye r g b x"
    "Option.bind (allTopRightEye r g b x) (allBottomRightEye r g b) = allRightEye r g b x"
    unfolding allTopLeftEye_def allBottomLeftEye_def allLeftEye_def allTopRightEye_def allBottomRightEye_def allRightEye_def
      allRangeEye_def Let_def
    by (rule sends; simp add: upto.simps smod_eye led_range_def fun_eq_iff)+
qed

theorem light_parts_witness:
  "Option.bind (allTopLeftEye 1 0 0 led_new) (allBottomLeftEye 1 0 0) = allLeftEye 1 0 0 led_new"
  using light_parts [of led_new 1 0 0 0] by (simp add: led_new_def)

section \<open>The circle on the head\<close>

fun circle_run :: "nat \<Rightarrow> led_block \<Rightarrow> (int \<times> led_block) option" where
  "circle_run 0 b = Some (- 1, b)"
| "circle_run (Suc n) b = Option.bind (circle_run n b) headCircle"

text \<open>Of the head only the LED with the number \<open>k mod 12\<close> is lit; the rest is as before.\<close>

definition circled :: "nat \<Rightarrow> led_block \<Rightarrow> led_block \<Rightarrow> bool" where
  "circled k b b' \<longleftrightarrow> length (led_values b') = NUM_LEDS \<and>
     (\<forall>j < NUM_LEDS. led_values b' ! j =
        (if prefix ''Head/Led'' (getLEDString j) then if j = LHead0 + k mod 12 then 1 else 0 else led_values b ! j))"

lemma headCircle_step:
  assumes "length (led_values b) = 89" "k < 2 ^ 31"
  shows "\<exists>b'. headCircle (int k - 1, b) = Some (int k, b') \<and> circled k b b'"
proof -
  obtain b' where b': "headOff (b\<lparr>send_leds := True\<rparr>) = Some b'" "length (led_values b') = 89"
    "\<And>j. j < 89 \<Longrightarrow> led_values b' ! j = (if prefix ''Head/Led'' (getLEDString j) then 0 else led_values b ! j)"
    using paints_head(5) [unfolded paints_def, rule_format, of "b\<lparr>send_leds := True\<rparr>"] assms(1) by (auto simp: painted_def)
  let ?l = "77 + k mod 12"
  have l: "?l < 89" by (simp add: mod_less_divisor [THEN less_le_trans])
  have "int k - 1 \<noteq> 2 ^ 31 - 1" "77 + int k sdiv 1 smod 12 = int ?l"
    using assms by (auto simp: signed_modulo_int_def signed_divide_int_def sgn_if minus_div_mult_eq_mod zmod_int)
  then have c: "headCircle (int k - 1, b) = Some (int k, b'\<lparr>led_values := (led_values b')[?l := 1]\<rparr>)"
    using b'(1, 2) l by (simp add: headCircle_def Let_def led_put_def del: of_nat_add)
  have "?l \<in> {77, 78, 79, 80, 81, 82, 83, 84, 85, 86, 87, 88}" using l by (simp; presburger)
  then have "prefix ''Head/Led'' (getLEDString ?l)" using l by (simp add: paint_simps del: add_numeral_left)
  then have "circled k b (b'\<lparr>led_values := (led_values b')[?l := 1]\<rparr>)"
    using b'(2, 3) by (auto simp: circled_def nth_list_update)
  with c show ?thesis by blast
qed

text \<open>
  The light on the head circles: after any number of calls up to the range of the counter exactly one of the twelve
  LEDs of the head is lit, each call moves on by one and after the last one the first follows; the other lights stay as they were.
\<close>

theorem head_circle:
  assumes "length (led_values b) = NUM_LEDS" "n < 2 ^ 31"
  shows "\<exists>b'. circle_run (Suc n) b = Some (int n, b') \<and> circled n b b'"
  using assms(2)
proof (induction n)
  case 0 then show ?case using headCircle_step [of b 0] assms(1) by simp
next
  case (Suc n)
  then obtain c where c: "circle_run (Suc n) b = Some (int n, c)" "circled n b c" by auto
  moreover obtain d where "headCircle (int n, c) = Some (int (Suc n), d)" "circled (Suc n) c d"
    using headCircle_step [of c "Suc n"] Suc.prems c(2) by (auto simp: circled_def)
  moreover have "circled (Suc n) b d" using calculation(2, 4) by (simp add: circled_def)
  ultimately show ?case by simp
qed

text \<open>The 14th call lights the second LED.\<close>

theorem head_circle_witness:
  "\<exists>b'. circle_run 14 led_new = Some (13, b') \<and> led_values b' ! 78 = 1 \<and> led_values b' ! 77 = 0"
  using head_circle [of led_new 13] by (auto simp: led_new_def circled_def paint_simps simp del: circle_run.simps)

end
