(* ===== verification/State_Machine.thy ===== *)
theory State_Machine
  imports Prelude
begin

text \<open>
  The generic state machine of \<open>src/core/common/StateMachine.cpp\<close>: named states with integer ids,
  a list of permitted transitions, and a current state. The iterator \<open>current_state_\<close> (field \<open>current_state\<close>) is the index
  it points to, \<^term>\<open>None\<close> while it has never been assigned; \<open>states_.end()\<close> is the index one past
  the last state. Dereferencing an unassigned or past-the-end iterator is undefined in C++: the
  operation is then \<^term>\<open>None\<close>. The messages printed on errors are not represented.
\<close>

type_synonym state_pair = "string \<times> int"

record state_machine =
  states :: "state_pair list"
  transitions :: "(string \<times> string) list"
  current_state :: "nat option"
  state_machine_name :: string

text \<open>
  The default constructor builds a temporary named \<open>"unnamed"\<close> and drops it: the object under
  construction keeps an empty name.
\<close>

definition sm_default :: state_machine where
  "sm_default = \<lparr>states = [], transitions = [], current_state = None, state_machine_name = ''''\<rparr>"

definition sm_named :: "string \<Rightarrow> state_machine" where
  "sm_named name = \<lparr>states = [], transitions = [], current_state = None, state_machine_name = name\<rparr>"

definition sm_deref :: "state_machine \<Rightarrow> state_pair option" where
  "sm_deref s =
     (case current_state s of None \<Rightarrow> None
      | Some i \<Rightarrow> if i < length (states s) then Some (states s ! i) else None)"

definition sm_currentStateName :: "state_machine \<Rightarrow> string option" where
  "sm_currentStateName s =
     (if length (states s) > 0 then map_option fst (sm_deref s) else Some ''Undefined'')"

definition sm_currentStateID :: "state_machine \<Rightarrow> int option" where
  "sm_currentStateID s =
     (if length (states s) > 0 then map_option snd (sm_deref s) else Some (- 1))"

fun find_from :: "nat \<Rightarrow> state_pair list \<Rightarrow> string \<Rightarrow> nat" where
  "find_from i [] name = i"
| "find_from i (p # ps) name = (if fst p = name then i else find_from (Suc i) ps name)"

definition sm_findState :: "state_machine \<Rightarrow> string \<Rightarrow> nat" where
  "sm_findState s name = find_from 0 (states s) name"

definition sm_stateExists :: "state_machine \<Rightarrow> string \<Rightarrow> bool" where
  "sm_stateExists s name =
     (if states s = [] then False
      else if sm_findState s name = length (states s) then False else True)"

definition sm_transitionExists :: "state_machine \<Rightarrow> string \<Rightarrow> string \<Rightarrow> bool" where
  "sm_transitionExists s state1 state2 =
     (if transitions s = [] then False else List.member (transitions s) (state1, state2))"

definition sm_transition :: "string \<Rightarrow> state_machine \<Rightarrow> (bool \<times> state_machine) option" where
  "sm_transition name s =
     Option.bind (sm_deref s) (\<lambda>cur.
       if \<not> sm_transitionExists s (fst cur) name then Some (False, s)
       else Some (True, s\<lparr>current_state := Some (sm_findState s name)\<rparr>))"

text \<open>On failure the error message dereferences the current state.\<close>

definition sm_forceTransition :: "string \<Rightarrow> state_machine \<Rightarrow> (bool \<times> state_machine) option" where
  "sm_forceTransition name s =
     (let result = sm_findState s name
      in if result = length (states s)
         then Option.bind (sm_deref s) (\<lambda>cur. Some (False, s))
         else Some (True, s\<lparr>current_state := Some result\<rparr>))"

definition sm_addState :: "string \<Rightarrow> int \<Rightarrow> state_machine \<Rightarrow> (bool \<times> state_machine) option" where
  "sm_addState name ID s =
     (let p = (name, ID);
          s = (if \<not> sm_stateExists s name then s\<lparr>states := states s @ [p]\<rparr> else s)
      in Some (True, s\<lparr>current_state := Some 0\<rparr>))"

definition sm_addTransition :: "string \<Rightarrow> string \<Rightarrow> state_machine \<Rightarrow> (bool \<times> state_machine) option" where
  "sm_addTransition state1 state2 s =
     (if \<not> sm_stateExists s state1 then Some (False, s)
      else if \<not> sm_stateExists s state2 then Some (False, s)
      else Some (True, s\<lparr>transitions := transitions s @ [(state1, state2)]\<rparr>))"

text \<open>The public operations that change the machine, and runs of them.\<close>

datatype sm_op =
    AddState string int
  | AddTransition string string
  | Transition string
  | ForceTransition string

fun sm_step :: "sm_op \<Rightarrow> state_machine \<Rightarrow> (bool \<times> state_machine) option" where
  "sm_step (AddState n i) s = sm_addState n i s"
| "sm_step (AddTransition a b) s = sm_addTransition a b s"
| "sm_step (Transition n) s = sm_transition n s"
| "sm_step (ForceTransition n) s = sm_forceTransition n s"

fun sm_run :: "sm_op list \<Rightarrow> state_machine \<Rightarrow> state_machine option" where
  "sm_run [] s = Some s"
| "sm_run (x # xs) s = Option.bind (sm_step x s) (\<lambda>(_, s'). sm_run xs s')"

section \<open>Invariant\<close>

definition sm_names :: "state_machine \<Rightarrow> string list" where
  "sm_names s = map fst (states s)"

text \<open>
  State names are distinct, transitions connect existing states, and once there is a state the
  iterator points at one.
\<close>

definition sm_inv :: "state_machine \<Rightarrow> bool" where
  "sm_inv s \<longleftrightarrow> distinct (sm_names s) \<and>
     set (transitions s) \<subseteq> set (sm_names s) \<times> set (sm_names s) \<and>
     (states s = [] \<longleftrightarrow> current_state s = None) \<and>
     (\<forall>i. current_state s = Some i \<longrightarrow> i < length (states s))"

lemma sm_names_simps [simp]:
  "sm_names (s\<lparr>transitions := t\<rparr>) = sm_names s"
  "sm_names (s\<lparr>current_state := c\<rparr>) = sm_names s"
  "sm_names (s\<lparr>states := states s @ [p]\<rparr>) = sm_names s @ [fst p]"
  "sm_names (s\<lparr>states := [p]\<rparr>) = [fst p]"
  "states s = [] \<Longrightarrow> sm_names s = []"
  by (simp_all add: sm_names_def)

lemma find_from_eq:
  "find_from k ps name = k + length (takeWhile (\<lambda>p. fst p \<noteq> name) ps)"
  by (induction k ps name rule: find_from.induct) simp_all

lemma findState_less: "sm_findState s name < length (states s) \<longleftrightarrow> name \<in> set (sm_names s)"
  and findState_le: "sm_findState s name \<le> length (states s)"
proof -
  have "length (takeWhile (\<lambda>p. fst p \<noteq> name) ps) < length ps \<longleftrightarrow> name \<in> fst ` set ps" for ps :: "state_pair list"
    by (induction ps) auto
  then show "sm_findState s name < length (states s) \<longleftrightarrow> name \<in> set (sm_names s)"
    by (simp add: sm_findState_def find_from_eq sm_names_def)
  show "sm_findState s name \<le> length (states s)"
    by (simp add: sm_findState_def find_from_eq length_takeWhile_le)
qed

lemma findState_name: "name \<in> set (sm_names s) \<Longrightarrow> fst (states s ! sm_findState s name) = name"
  using findState_less [of s name] nth_length_takeWhile [of "\<lambda>p. fst p \<noteq> name" "states s"]
  by (simp add: sm_findState_def find_from_eq)

lemma stateExists_iff: "sm_stateExists s name \<longleftrightarrow> name \<in> set (sm_names s)"
  using findState_less [of s name] findState_le [of s name]
  by (auto simp: sm_stateExists_def sm_names_def)

lemma transitionExists_iff: "sm_transitionExists s a b \<longleftrightarrow> (a, b) \<in> set (transitions s)"
  by (auto simp: sm_transitionExists_def)

lemma sm_deref_inv: "sm_inv s \<Longrightarrow> states s \<noteq> [] \<Longrightarrow> \<exists>i < length (states s). sm_deref s = Some (states s ! i)"
  by (cases "current_state s") (auto simp: sm_inv_def sm_deref_def)

lemma sm_inv_init [inv_intros]: "sm_inv (sm_named name)" "sm_inv sm_default"
  by (simp_all add: sm_inv_def sm_named_def sm_default_def sm_names_def)

lemma sm_inv_addState [inv_intros]:
  "sm_inv s \<Longrightarrow> sm_addState n i s = Some (r, s') \<Longrightarrow> sm_inv s'"
  by (auto simp: sm_addState_def Let_def stateExists_iff sm_inv_def split: if_splits)

lemma sm_inv_addTransition [inv_intros]:
  "sm_inv s \<Longrightarrow> sm_addTransition a b s = Some (r, s') \<Longrightarrow> sm_inv s'"
  by (auto simp: sm_addTransition_def stateExists_iff sm_inv_def split: if_splits)

lemma sm_inv_current:
  "sm_inv s \<Longrightarrow> name \<in> set (sm_names s) \<Longrightarrow> sm_inv (s\<lparr>current_state := Some (sm_findState s name)\<rparr>)"
  using findState_less [of s name] by (auto simp: sm_inv_def)

lemma transition_target: "sm_inv s \<Longrightarrow> sm_transitionExists s a b \<Longrightarrow> b \<in> set (sm_names s)"
  by (auto simp: transitionExists_iff sm_inv_def)

lemma sm_inv_transition [inv_intros]:
  "sm_inv s \<Longrightarrow> sm_transition n s = Some (r, s') \<Longrightarrow> sm_inv s'"
  by (auto simp: sm_transition_def bind_eq_Some_conv intro: sm_inv_current dest: transition_target split: if_splits)

lemma sm_inv_forceTransition [inv_intros]:
  "sm_inv s \<Longrightarrow> sm_forceTransition n s = Some (r, s') \<Longrightarrow> sm_inv s'"
  using findState_less [of s n] findState_le [of s n]
  by (auto simp: sm_forceTransition_def Let_def bind_eq_Some_conv intro: sm_inv_current split: if_splits)

lemma sm_inv_step: "sm_inv s \<Longrightarrow> sm_step x s = Some (r, s') \<Longrightarrow> sm_inv s'"
  by (cases x) (auto intro: inv_intros)

lemma sm_inv_run: "sm_inv s \<Longrightarrow> sm_run xs s = Some s' \<Longrightarrow> sm_inv s'"
proof (induction xs arbitrary: s)
  case (Cons x xs)
  then show ?case by (auto simp: bind_eq_Some_conv dest: sm_inv_step)
qed simp

text \<open>An operation is undefined only on a machine without states.\<close>

lemma sm_step_defined: "sm_inv s \<Longrightarrow> states s \<noteq> [] \<Longrightarrow> \<exists>r s'. sm_step x s = Some (r, s')"
  using sm_deref_inv [of s]
  by (cases x) (auto simp: sm_addState_def sm_addTransition_def sm_transition_def sm_forceTransition_def Let_def)

lemma sm_step_states: "sm_step x s = Some (r, s') \<Longrightarrow> length (states s) \<le> length (states s')"
  by (cases x) (auto simp: sm_addState_def sm_addTransition_def sm_transition_def sm_forceTransition_def
      Let_def bind_eq_Some_conv split: if_splits)

lemma sm_run_defined: "sm_inv s \<Longrightarrow> states s \<noteq> [] \<Longrightarrow> \<exists>s'. sm_run xs s = Some s'"
proof (induction xs arbitrary: s)
  case (Cons x xs)
  obtain r s1 where s1: "sm_step x s = Some (r, s1)" using sm_step_defined [OF Cons.prems] by blast
  then have "sm_inv s1" "states s1 \<noteq> []"
    using Cons.prems sm_inv_step sm_step_states [OF s1] by auto
  then show ?case using Cons.IH [of s1] s1 by simp
qed simp

section \<open>Properties\<close>

text \<open>
  On a machine built by any sequence of public operations whose first one adds a state, no
  further sequence of operations dereferences an invalid iterator; the state names stay distinct,
  transitions stay between existing states and the current state stays an existing one.
\<close>

theorem sm_memory_safe:
  "\<exists>s. sm_run (AddState n i # ops) (sm_named name) = Some s \<and> sm_inv s \<and> (\<exists>c. sm_currentStateName s = Some c \<and> c \<in> set (sm_names s))"
proof -
  obtain s0 where s0: "sm_addState n i (sm_named name) = Some (True, s0)" "states s0 \<noteq> []" "sm_inv s0"
    using sm_inv_addState [OF sm_inv_init(1)]
    by (fastforce simp: sm_addState_def Let_def stateExists_iff sm_named_def sm_names_def)
  obtain s where s: "sm_run ops s0 = Some s" using sm_run_defined [OF s0(3,2)] by blast
  have inv: "sm_inv s" using sm_inv_run [OF s0(3) s] .
  have run: "length (states a) \<le> length (states b)" if "sm_run xs a = Some b" for xs a b
    using that by (induction xs arbitrary: a) (fastforce simp: bind_eq_Some_conv dest: sm_step_states)+
  have "states s \<noteq> []" using run [OF s] s0(2) by auto
  then obtain j where "j < length (states s)" "sm_deref s = Some (states s ! j)"
    using sm_deref_inv [OF inv] by blast
  then show ?thesis
    using s0(1) s inv \<open>states s \<noteq> []\<close> by (auto simp: sm_currentStateName_def sm_names_def)
qed

text \<open>
  In every such machine, \<open>transition(name)\<close> succeeds exactly when a transition from the current
  state to \<open>name\<close> has been added; then the machine is in \<open>name\<close>, and otherwise it is unchanged.
  \<open>forceTransition(name)\<close> needs only that the state exists.
\<close>

theorem sm_transition_spec:
  assumes "sm_inv s" and "sm_currentStateName s = Some cur" and "states s \<noteq> []"
  shows "(case sm_transition name s of None \<Rightarrow> False
      | Some (ok, s') \<Rightarrow> ok = ((cur, name) \<in> set (transitions s)) \<and>
          sm_currentStateName s' = Some (if ok then name else cur)) \<and>
    (case sm_forceTransition name s of None \<Rightarrow> False
      | Some (ok, s') \<Rightarrow> ok = (name \<in> set (sm_names s)) \<and>
          sm_currentStateName s' = Some (if ok then name else cur))"
proof -
  obtain p where p: "sm_deref s = Some p" "fst p = cur"
    using assms sm_deref_inv [OF assms(1,3)] by (auto simp: sm_currentStateName_def)
  have to: "sm_currentStateName (s\<lparr>current_state := Some (sm_findState s name)\<rparr>) = Some name"
    if "name \<in> set (sm_names s)"
    using that findState_less [of s name] findState_name [OF that] assms(3)
    by (simp add: sm_currentStateName_def sm_deref_def)
  have end_iff: "sm_findState s name = length (states s) \<longleftrightarrow> name \<notin> set (sm_names s)"
    using findState_less [of s name] findState_le [of s name] by auto
  have "(cur, name) \<in> set (transitions s) \<Longrightarrow> name \<in> set (sm_names s)"
    using transition_target [OF assms(1), of cur name] by (simp add: transitionExists_iff)
  then show ?thesis
    using p to end_iff assms(2)
    by (auto simp: sm_transition_def sm_forceTransition_def Let_def transitionExists_iff)
qed

definition sm_example :: state_machine where
  "sm_example = \<lparr>states = [(''a'', 1), (''b'', 2)], transitions = [(''a'', ''b'')], current_state = Some 0,
     state_machine_name = ''m''\<rparr>"

theorem sm_transition_spec_witness:
  "case sm_transition ''b'' sm_example of None \<Rightarrow> False
   | Some (ok, s') \<Rightarrow> ok = True \<and> sm_currentStateName s' = Some (if ok then ''b'' else ''a'')"
proof -
  have h: "sm_inv sm_example" "sm_currentStateName sm_example = Some ''a''" "states sm_example \<noteq> []"
    "(''a'', ''b'') \<in> set (transitions sm_example)"
    by (simp_all add: sm_example_def sm_inv_def sm_currentStateName_def sm_deref_def sm_names_def)
  show ?thesis using sm_transition_spec [OF h(1-3), of "''b''"] h(4) by (auto split: option.splits)
qed

end
