(* ===== verification/Geometry_Lines.thy ===== *)
theory Geometry_Lines
  imports Geometry_Points
begin

text \<open>
  Lines, line segments and circles of \<open>src/core/math/Geometry.cpp\<close>. A line is the set of points with
  \<open>a*y + b*x + c = 0\<close>; a \<open>LineSegment\<close> extends its \<open>Line2D\<close> by the two end points, as in the class
  hierarchy, so the methods of \<open>Line2D\<close> apply to it (record extension). Where the code divides by
  zero, C++ yields an infinity or a NaN, which a real number cannot represent: the theorems state
  that the divisor is not zero.
\<close>

section \<open>Line2D\<close>

record line2D =
  m_a :: real
  m_b :: real
  m_c :: real
  l_center :: point2D

abbreviation p2_origin :: point2D where "p2_origin \<equiv> \<lparr>px = 0, py = 0\<rparr>"

definition l2_default :: line2D where
  "l2_default = \<lparr>m_a = 0, m_b = 0, m_c = 0, l_center = p2_origin\<rparr>"

definition l2_coeffs :: "real \<Rightarrow> real \<Rightarrow> real \<Rightarrow> line2D" where
  "l2_coeffs a b c = \<lparr>m_a = a, m_b = b, m_c = c, l_center = p2_origin\<rparr>"

definition l2_points :: "point2D \<Rightarrow> point2D \<Rightarrow> line2D" where
  "l2_points p1 p2 =
     (let dTemp = px p2 - px p1;
          (a, b) = (if \<bar>dTemp\<bar> < EPSILON then (0, 1) else (1, - (py p2 - py p1) / dTemp));
          c = - a * py p2 - b * px p2;
          center = p2_divs (p2_add p1 p2) 2;
          denom = sqrt (a ^ 2 + b ^ 2)
      in \<lparr>m_a = a / denom, m_b = b / denom, m_c = c / denom, l_center = center\<rparr>)"

definition l2_xyxy :: "real \<Rightarrow> real \<Rightarrow> real \<Rightarrow> real \<Rightarrow> line2D" where
  "l2_xyxy x1 y1 x2 y2 = l2_points (p2_new x1 y1 CARTESIAN) (p2_new x2 y2 CARTESIAN)"

definition l2_angle :: "point2D \<Rightarrow> real \<Rightarrow> line2D" where
  "l2_angle p ang = l2_points p (p2_add p (p2_new 100 ang POLAR))"

definition l2_neg :: "'a line2D_scheme \<Rightarrow> line2D" where
  "l2_neg l = l2_coeffs (m_a l) (m_b l) (- m_c l)"

definition l2_getYGivenX :: "'a line2D_scheme \<Rightarrow> real \<Rightarrow> real" where
  "l2_getYGivenX l x = (if m_a l = 0 then 0 else - (m_b l * x + m_c l) / m_a l)"

definition l2_getXGivenY :: "'a line2D_scheme \<Rightarrow> real \<Rightarrow> real" where
  "l2_getXGivenY l y = (if m_b l = 0 then 0 else - (m_a l * y + m_c l) / m_b l)"

definition l2_isParallelTo :: "'a line2D_scheme \<Rightarrow> 'b line2D_scheme \<Rightarrow> bool" where
  "l2_isParallelTo l other =
     (if m_a l = 0 \<or> m_a other = 0 then m_b l = m_b other
      else \<bar>m_b l / m_a l - m_b other / m_a other\<bar> \<le> EPSILON)"

definition l2_getIntersection :: "'a line2D_scheme \<Rightarrow> 'b line2D_scheme \<Rightarrow> point2D" where
  "l2_getIntersection l line =
     (if l2_isParallelTo l line then p2_origin
      else if m_a l = 0 then
        let x = - m_c l / m_b l; y = l2_getYGivenX line x in p2_new x y CARTESIAN
      else if m_a line = 0 then
        let x = - m_c line / m_b line; y = l2_getYGivenX l x in p2_new x y CARTESIAN
      else
        let x = (m_a l * m_c line - m_a line * m_c l) / (m_a line * m_b l - m_a l * m_b line);
            y = l2_getYGivenX l x
        in p2_new x y CARTESIAN)"

definition l2_getOrthogonalLine :: "'a line2D_scheme \<Rightarrow> point2D \<Rightarrow> line2D" where
  "l2_getOrthogonalLine l p = l2_coeffs (m_b l) (- m_a l) (m_a l * px p - m_b l * py p)"

definition l2_getAngleToLine :: "'a line2D_scheme \<Rightarrow> 'b line2D_scheme \<Rightarrow> real" where
  "l2_getAngleToLine l line =
     (if m_a l \<le> EPSILON \<and> m_a line \<le> EPSILON then 0
      else if \<bar>m_a l\<bar> \<le> EPSILON then normalizeAngle (arctan \<bar>m_a line / m_b line\<bar>)
      else if \<bar>m_a line\<bar> \<le> EPSILON then normalizeAngle (arctan \<bar>m_a l / m_b l\<bar>)
      else let m1 = - m_b l / m_a l; m2 = - m_b line / m_a line
           in normalizeAngle (arctan (\<bar>m2 - m1\<bar> / (1 + m1 * m2))))"

definition l2_getAngle :: "'a line2D_scheme \<Rightarrow> real" where
  "l2_getAngle l = (let angle = c_atan2 (- m_b l) (m_a l) in normalizeAngleNinety angle)"

definition l2_getMyIntersection :: "'a line2D_scheme \<Rightarrow> 'b line2D_scheme \<Rightarrow> point2D" where
  "l2_getMyIntersection l line =
     (let SLOPE_DIFF = EPSILON * 10;
          y_num = m_b l * m_c line - m_b line * m_c l;
          denom = m_a l * m_b line - m_a line * m_b l
      in if \<bar>denom\<bar> \<le> SLOPE_DIFF then p2_new 0 0 CARTESIAN
         else let x_num = m_a line * m_c l - m_a l * m_c line;
                  x = x_num / denom; y = y_num / denom
              in p2_new x y CARTESIAN)"

definition l2_getPointOnLineClosestTo :: "'a line2D_scheme \<Rightarrow> point2D \<Rightarrow> point2D" where
  "l2_getPointOnLineClosestTo l p = (let l2 = l2_getOrthogonalLine l p in l2_getMyIntersection l l2)"

definition l2_getDistanceToPoint :: "'a line2D_scheme \<Rightarrow> point2D \<Rightarrow> real" where
  "l2_getDistanceToPoint l p = p2_getDistanceTo p (l2_getPointOnLineClosestTo l p)"

definition l2_isInBetween :: "'a line2D_scheme \<Rightarrow> point2D \<Rightarrow> point2D \<Rightarrow> point2D \<Rightarrow> bool" where
  "l2_isInBetween l p p1 p2 =
     (let p = l2_getPointOnLineClosestTo l p; dDist = p2_getDistanceTo p1 p2
      in p2_getDistanceTo p p1 \<le> dDist \<and> p2_getDistanceTo p p2 \<le> dDist)"

definition l2_getSlope :: "'a line2D_scheme \<Rightarrow> real" where
  "l2_getSlope l = (if m_a l = 0 then 1000 else - m_b l / m_a l)"

definition l2_getYIntercept :: "'a line2D_scheme \<Rightarrow> real" where
  "l2_getYIntercept l = (if m_a l = 0 then - m_c l else - m_c l / m_a l)"

definition l2_getXIntercept :: "'a line2D_scheme \<Rightarrow> real" where
  "l2_getXIntercept l = (if m_b l = 0 then - m_c l else - m_c l / m_b l)"

section \<open>LineSegment\<close>

record line_segment = line2D +
  seg_start :: point2D
  seg_end :: point2D

definition ls_new :: "point2D \<Rightarrow> point2D \<Rightarrow> line_segment" where
  "ls_new start end' = line2D.extend (l2_points start end') (line_segment.fields start end')"

definition ls_xyxy :: "int \<Rightarrow> int \<Rightarrow> int \<Rightarrow> int \<Rightarrow> line_segment" where
  "ls_xyxy x1 y1 x2 y2 =
     line2D.extend (l2_xyxy x1 y1 x2 y2)
       (line_segment.fields \<lparr>px = x1, py = y1\<rparr> \<lparr>px = x2, py = y2\<rparr>)"

definition ls_getDirection :: "line_segment \<Rightarrow> real" where
  "ls_getDirection s = normalizeAngleNinety (p2_getDirection (p2_sub (seg_start s) (seg_end s)))"

definition ls_length :: "line_segment \<Rightarrow> real" where
  "ls_length s = p2_getMagnitude (p2_sub (seg_start s) (seg_end s))"

definition ls_getPointOnSegmentClosestTo :: "line_segment \<Rightarrow> point2D \<Rightarrow> point2D" where
  "ls_getPointOnSegmentClosestTo s p =
     (let len2 = ls_length s * ls_length s
      in if len2 = 0 then seg_start s
         else let vec = p2_mul (p2_sub p (seg_start s)) (p2_sub (seg_end s) (seg_start s));
                  dotProduct = px vec + py vec;
                  t = dotProduct / len2
              in if dotProduct < 0 then seg_start s
                 else if t > 1 then seg_end s
                 else let proj = p2_sub (seg_end s) (seg_start s);
                          proj = proj\<lparr>px := px proj * t\<rparr>;
                          proj = proj\<lparr>py := py proj * t\<rparr>
                      in p2_add proj (seg_start s))"

definition ls_getNearestCircleIntersection :: "line_segment \<Rightarrow> point2D \<Rightarrow> real \<Rightarrow> point2D \<Rightarrow> point2D" where
  "ls_getNearestCircleIntersection s center radius near =
     (let cstart = p2_sub (seg_start s) center; cend = p2_sub (seg_end s) center;
          dx = px cend - px cstart;
          dy = py cend - py cstart;
          dr = sqrt (dx * dx + dy * dy);
          D = px cstart * py cend - px cend * py cstart;
          sy = (if dy < 0 then - 1 else 1);
          disc = radius * radius * dr * dr - D * D
      in if disc < 0 then ls_getPointOnSegmentClosestTo s near
         else let x1 = (D * dy + sy * dx * sqrt disc) / (dr * dr) + px center;
                  x2 = (D * dy - sy * dx * sqrt disc) / (dr * dr) + px center;
                  y1 = (- D * dx + \<bar>dy\<bar> * sqrt disc) / (dr * dr) + py center;
                  y2 = (- D * dx - \<bar>dy\<bar> * sqrt disc) / (dr * dr) + py center;
                  p1 = p2_new x1 y1 CARTESIAN; p2 = p2_new x2 y2 CARTESIAN
              in if p2_getDistanceTo p1 near < p2_getDistanceTo p2 near then p1 else p2)"

definition ls_getDistanceTo :: "line_segment \<Rightarrow> point2D \<Rightarrow> real" where
  "ls_getDistanceTo s p =
     (let closest = ls_getPointOnSegmentClosestTo s p in p2_getMagnitude (p2_sub p closest))"

definition ls_getDistanceTo2 :: "line_segment \<Rightarrow> point2D \<Rightarrow> point2D \<Rightarrow> real" where
  "ls_getDistanceTo2 s p1 p2 =
     (let d1 = ls_getDistanceTo s p1; d2 = ls_getDistanceTo s p2
      in sqrt ((d1 * d1 + d2 * d2) / 2))"

definition ls_getSignedAngleToLine :: "line_segment \<Rightarrow> 'a line2D_scheme \<Rightarrow> real" where
  "ls_getSignedAngleToLine s line =
     (if l2_isParallelTo s line then 0
      else let intersection = l2_getIntersection line s;
               closest = l2_getPointOnLineClosestTo line (seg_start s)
           in if p2_eq closest intersection then pi / 2
              else let other = ls_new closest intersection
                   in normalizeAngleNinety (ls_getDirection other - ls_getDirection s))"

definition ls_getSegmentIntersection :: "line_segment \<Rightarrow> 'a line2D_scheme \<Rightarrow> point2D" where
  "ls_getSegmentIntersection s line =
     (let intersection = l2_getIntersection s line
      in ls_getPointOnSegmentClosestTo s intersection)"

definition ls_intersects :: "line_segment \<Rightarrow> line_segment \<Rightarrow> bool" where
  "ls_intersects s other =
     (let p = ls_getSegmentIntersection s other
      in p2_isBetweenTwoPoints p (seg_start s) (seg_end s) \<and>
         p2_isBetweenTwoPoints p (seg_start other) (seg_end other))"

definition ls_globalToRelative :: "line_segment \<Rightarrow> point2D \<Rightarrow> real \<Rightarrow> line_segment" where
  "ls_globalToRelative s origin ang =
     ls_new (p2_globalToRelative (seg_start s) origin ang) (p2_globalToRelative (seg_end s) origin ang)"

definition ls_relativeToGlobal :: "line_segment \<Rightarrow> point2D \<Rightarrow> real \<Rightarrow> line_segment" where
  "ls_relativeToGlobal s origin ang =
     ls_new (p2_relativeToGlobal (seg_start s) origin ang) (p2_relativeToGlobal (seg_end s) origin ang)"

definition ls_rotate_about :: "line_segment \<Rightarrow> point2D \<Rightarrow> real \<Rightarrow> line_segment" where
  "ls_rotate_about s origin ang =
     (let s = s\<lparr>seg_start := p2_sub (seg_start s) origin\<rparr>;
          s = s\<lparr>seg_end := p2_sub (seg_end s) origin\<rparr>;
          s = s\<lparr>seg_start := p2_rotate (seg_start s) ang\<rparr>;
          s = s\<lparr>seg_end := p2_rotate (seg_end s) ang\<rparr>;
          s = s\<lparr>seg_start := p2_add (seg_start s) origin\<rparr>
      in s\<lparr>seg_end := p2_add (seg_end s) origin\<rparr>)"

definition ls_computeCenter :: "line_segment \<Rightarrow> line_segment" where
  "ls_computeCenter s = s\<lparr>l_center := p2_divs (p2_add (seg_start s) (seg_end s)) 2\<rparr>"

definition ls_rotate :: "line_segment \<Rightarrow> real \<Rightarrow> line_segment" where
  "ls_rotate s ang = (let s = ls_computeCenter s in ls_rotate_about s (l_center s) ang)"

definition ls_getVisiblePortion :: "line_segment \<Rightarrow> point2D \<Rightarrow> real \<Rightarrow> real \<Rightarrow> line_segment" where
  "ls_getVisiblePortion s origin orientation fov =
     (let leftBound = seg_start s; rightBound = seg_end s;
          leftBearing = p2_getBearingTo origin leftBound orientation;
          rightBearing = p2_getBearingTo origin rightBound orientation;
          (leftBound, rightBound, leftBearing, rightBearing) =
            (if leftBearing < rightBearing then (rightBound, leftBound, rightBearing, leftBearing)
             else (leftBound, rightBound, leftBearing, rightBearing));
          vstart = (if leftBearing < fov / 2 then leftBound
                    else let maxleft = orientation + fov / 2;
                             leftLine = l2_angle origin maxleft;
                             leftInt = l2_getIntersection s leftLine
                         in ls_getPointOnSegmentClosestTo s leftInt);
          vend = (if rightBearing > - fov / 2 then rightBound
                  else let maxright = orientation - fov / 2;
                           rightLine = l2_angle origin maxright;
                           rightInt = l2_getIntersection s rightLine
                       in ls_getPointOnSegmentClosestTo s rightInt)
      in ls_new vstart vend)"

definition ls_crop :: "line_segment \<Rightarrow> line_segment \<Rightarrow> line_segment" where
  "ls_crop s bounds =
     (let nearestStart = ls_getPointOnSegmentClosestTo bounds (seg_start s);
          nearestEnd = ls_getPointOnSegmentClosestTo bounds (seg_end s);
          (nearestStart, nearestEnd) =
            (if p2_getDistanceTo nearestStart (seg_start bounds) > p2_getDistanceTo nearestEnd (seg_start bounds)
             then (nearestEnd, nearestStart) else (nearestStart, nearestEnd));
          nstart = ls_getPointOnSegmentClosestTo s nearestStart;
          nend = ls_getPointOnSegmentClosestTo s nearestEnd
      in s\<lparr>seg_start := nstart, seg_end := nend\<rparr>)"

section \<open>Circle\<close>

record circle =
  m_pCenter :: point2D
  m_radius :: real

definition ci_setRadius :: "circle \<Rightarrow> real \<Rightarrow> bool \<times> circle" where
  "ci_setRadius c radius =
     (if radius > 0 then (True, c\<lparr>m_radius := radius\<rparr>) else (False, c\<lparr>m_radius := 0\<rparr>))"

definition ci_setCenter :: "circle \<Rightarrow> point2D \<Rightarrow> circle" where
  "ci_setCenter c pCenter = c\<lparr>m_pCenter := pCenter\<rparr>"

definition ci_setCircle :: "circle \<Rightarrow> point2D \<Rightarrow> real \<Rightarrow> bool \<times> circle" where
  "ci_setCircle c pCenter radius = ci_setRadius (ci_setCenter c pCenter) radius"

definition ci_new :: "point2D \<Rightarrow> real \<Rightarrow> circle" where
  "ci_new pCenter radius = snd (ci_setCircle \<lparr>m_pCenter = p2_origin, m_radius = 0\<rparr> pCenter radius)"

definition ci_default :: circle where
  "ci_default = snd (ci_setCircle \<lparr>m_pCenter = p2_origin, m_radius = 0\<rparr> (p2_new (- 1000) (- 1000) CARTESIAN) 0)"

definition ci_getCircumference :: "circle \<Rightarrow> real" where
  "ci_getCircumference c = 2 * pi * m_radius c"

definition ci_getArea :: "circle \<Rightarrow> real" where
  "ci_getArea c = pi * m_radius c * m_radius c"

definition ci_isInside :: "circle \<Rightarrow> point2D \<Rightarrow> bool" where
  "ci_isInside c p = (p2_getDistanceTo (m_pCenter c) p < m_radius c)"

text \<open>The number of solutions and the two points that are returned through pointers.\<close>

definition ci_getIntersectionPoints :: "circle \<Rightarrow> circle \<Rightarrow> int \<times> point2D \<times> point2D" where
  "ci_getIntersectionPoints this c =
     (let x0 = px (m_pCenter this); y0 = py (m_pCenter this); r0 = m_radius this;
          x1 = px (m_pCenter c); y1 = py (m_pCenter c); r1 = m_radius c;
          dx = x1 - x0; dy = y1 - y0;
          d = sqrt (dx * dx + dy * dy);
          dx = dx / d; dy = dy / d;
          a = (r0 * r0 + d * d - r1 * r1) / (2 * d);
          arg = r0 * r0 - a * a;
          h = (if arg > 0 then sqrt arg else 0);
          p2_x = x0 + a * dx; p2_y = y0 + a * dy;
          p1 = p2_new (p2_x - h * dy) (p2_y + h * dx) CARTESIAN;
          p2 = p2_new (p2_x + h * dy) (p2_y - h * dx) CARTESIAN
      in (if arg < 0 then 0 else if arg = 0 then 1 else 2, p1, p2))"

definition ci_getIntersectionArea :: "circle \<Rightarrow> circle \<Rightarrow> real" where
  "ci_getIntersectionArea this c =
     (let d = p2_getDistanceTo (m_pCenter this) (m_pCenter c)
      in if d > m_radius c + m_radius this then 0
         else if d \<le> \<bar>m_radius c - m_radius this\<bar> then
           let dR = min (m_radius c) (m_radius this) in pi * dR * dR
         else let (iNrSol, p1, p2) = ci_getIntersectionPoints this c
              in if iNrSol \<noteq> 2 then 0
                 else let p3 = p2_getPointOnLineFraction p1 p2 (1 / 2);
                          d = p2_getDistanceTo p1 p3;
                          h = p2_getDistanceTo p3 (m_pCenter this);
                          ang = arcsin (d / m_radius this);
                          dArea = ang * m_radius this * m_radius this;
                          dArea = dArea - d * h;
                          h = p2_getDistanceTo p3 (m_pCenter c);
                          ang = arcsin (d / m_radius c);
                          dArea = dArea + ang * m_radius c * m_radius c
                      in dArea - d * h)"

section \<open>Points on lines and segments\<close>

definition on_line :: "'a line2D_scheme \<Rightarrow> point2D \<Rightarrow> bool" where
  "on_line l p \<longleftrightarrow> m_a l * py p + m_b l * px p + m_c l = 0"

text \<open>Normalised coefficients, as the two-point constructor makes them.\<close>

definition l2_std :: "'a line2D_scheme \<Rightarrow> bool" where
  "l2_std l \<longleftrightarrow> (m_a l)\<^sup>2 + (m_b l)\<^sup>2 = 1 \<and> 0 \<le> m_a l \<and> (m_a l = 0 \<longrightarrow> m_b l = 1)"

definition on_segment :: "'a line_segment_scheme \<Rightarrow> point2D \<Rightarrow> bool" where
  "on_segment s p \<longleftrightarrow> (\<exists>t. 0 \<le> t \<and> t \<le> 1 \<and> p = p2_getPointOnLineFraction (seg_start s) (seg_end s) t)"

lemma l2_points_cases:
  obtains (vertical) "\<bar>px q - px p\<bar> < EPSILON" "m_a (l2_points p q) = 0" "m_b (l2_points p q) = 1"
      "m_c (l2_points p q) = - px q"
  | (sloped) k m where "\<not> \<bar>px q - px p\<bar> < EPSILON" "0 < k" "k\<^sup>2 * (1 + m\<^sup>2) = 1"
      "(px q - px p) * m = py q - py p"
      "m_a (l2_points p q) = k" "m_b (l2_points p q) = - k * m" "m_c (l2_points p q) = k * (m * px q - py q)"
proof (cases "\<bar>px q - px p\<bar> < EPSILON")
  case True
  then show ?thesis using vertical by (simp add: l2_points_def)
next
  case False
  define m where "m = (py q - py p) / (px q - px p)"
  define k where "k = 1 / sqrt (1 + m\<^sup>2)"
  have neg: "- (py q - py p) / (px q - px p) = - m" by (simp only: m_def minus_divide_left)
  have pos: "0 < 1 + m\<^sup>2" by (simp add: add_pos_nonneg)
  have "px q - px p \<noteq> 0" using False by auto
  then have "(px q - px p) * m = py q - py p" by (simp add: m_def)
  moreover have "0 < k" using pos by (simp add: k_def)
  moreover have "k\<^sup>2 * (1 + m\<^sup>2) = 1" using pos by (simp add: k_def power_divide)
  moreover have "m_a (l2_points p q) = k" "m_b (l2_points p q) = - k * m" "m_c (l2_points p q) = k * (m * px q - py q)"
    using False unfolding l2_points_def Let_def neg by (simp_all add: k_def algebra_simps)
  ultimately show ?thesis using sloped False by blast
qed

lemma l2_std_points [simp]: "l2_std (l2_points p q)"
proof (cases rule: l2_points_cases [of q p])
  case vertical
  then show ?thesis by (simp add: l2_std_def)
next
  case (sloped k m)
  then show ?thesis by (simp add: l2_std_def power_mult_distrib distrib_left)
qed

lemma on_line_second [simp]: "on_line (l2_points p q) q"
proof (cases rule: l2_points_cases [of q p])
  case vertical
  then show ?thesis by (simp add: on_line_def)
next
  case (sloped k m)
  then show ?thesis by (simp add: on_line_def algebra_simps)
qed

lemma on_line_first:
  assumes "px p = px q \<or> EPSILON \<le> \<bar>px q - px p\<bar>"
  shows "on_line (l2_points p q) p"
proof (cases rule: l2_points_cases [of q p])
  case vertical
  then show ?thesis using assms by (simp add: on_line_def)
next
  case (sloped k m)
  have "m_a (l2_points p q) * py p + m_b (l2_points p q) * px p + m_c (l2_points p q)
      = k * ((px q - px p) * m - (py q - py p))"
    unfolding sloped(5-7) by (simp add: algebra_simps)
  then show ?thesis using sloped(4) by (simp add: on_line_def)
qed

lemma std_parallel:
  assumes "l2_std l" "l2_std m" "\<not> l2_isParallelTo l m"
  shows "m_a m * m_b l - m_a l * m_b m \<noteq> 0" "m_a l = 0 \<Longrightarrow> m_a m \<noteq> 0 \<and> m_b l = 1"
proof -
  show "m_a l = 0 \<Longrightarrow> m_a m \<noteq> 0 \<and> m_b l = 1"
    using assms by (auto simp: l2_std_def l2_isParallelTo_def)
  show "m_a m * m_b l - m_a l * m_b m \<noteq> 0"
  proof
    assume eq: "m_a m * m_b l - m_a l * m_b m = 0"
    show False
    proof (cases "m_a l = 0 \<or> m_a m = 0")
      case True
      then show False using assms eq by (auto simp: l2_std_def l2_isParallelTo_def)
    next
      case False
      then have "m_b l / m_a l = m_b m / m_a m" using eq by (simp add: field_simps)
      then show False using assms(3) False by (simp add: l2_isParallelTo_def)
    qed
  qed
qed

lemma getYGivenX_on_line: "m_a l \<noteq> 0 \<Longrightarrow> on_line l (p2_new x (l2_getYGivenX l x) CARTESIAN)"
  by (simp add: on_line_def l2_getYGivenX_def p2_defs)

lemma intersection_on_lines:
  assumes "l2_std l" "l2_std m" "\<not> l2_isParallelTo l m"
  shows "on_line l (l2_getIntersection l m) \<and> on_line m (l2_getIntersection l m)"
proof -
  note d = std_parallel [OF assms]
  consider "m_a l = 0" | "m_a l \<noteq> 0" "m_a m = 0" | "m_a l \<noteq> 0" "m_a m \<noteq> 0" by blast
  then show ?thesis
  proof cases
    case 1
    then show ?thesis using d(2) getYGivenX_on_line [of m "- m_c l"] assms(3)
      by (simp add: l2_getIntersection_def Let_def) (simp add: on_line_def p2_defs)
  next
    case 2
    then have "m_b m = 1" using assms(2) by (simp add: l2_std_def)
    then show ?thesis using 2 getYGivenX_on_line [of l "- m_c m"] assms(3)
      by (simp add: l2_getIntersection_def Let_def) (simp add: on_line_def p2_defs)
  next
    case 3
    let ?x = "(m_a l * m_c m - m_a m * m_c l) / (m_a m * m_b l - m_a l * m_b m)"
    have eq: "(m_a m * m_b l - m_a l * m_b m) * ?x = m_a l * m_c m - m_a m * m_c l" using d(1) by simp
    have gen: "a * (b * y + c * x + d) = a * d - b * f - (b * e - a * c) * x"
      if "a * y = - (e * x + f)" for a b c d e f x y :: real
    proof -
      have "a * (b * y + c * x + d) = b * (a * y) + a * (c * x + d)" by (simp add: algebra_simps)
      then show ?thesis unfolding that by (simp add: algebra_simps)
    qed
    have y: "m_a l * l2_getYGivenX l ?x = - (m_b l * ?x + m_c l)" using 3 by (simp add: l2_getYGivenX_def)
    have "m_a l * (m_a m * l2_getYGivenX l ?x + m_b m * ?x + m_c m) = 0"
      unfolding gen [OF y] eq by simp
    then show ?thesis using 3 getYGivenX_on_line [of l ?x] assms(3)
      by (simp add: l2_getIntersection_def Let_def) (simp add: on_line_def p2_defs)
  qed
qed

text \<open>The foot of the perpendicular on a normalised line.\<close>

lemma myIntersection_unit:
  "m_a l * m_b m - m_a m * m_b l = - 1 \<Longrightarrow> l2_getMyIntersection l m =
    \<lparr>px = - (m_a m * m_c l - m_a l * m_c m), py = - (m_b l * m_c m - m_b m * m_c l)\<rparr>"
  by (simp add: l2_getMyIntersection_def p2_defs)

lemma closest_explicit:
  assumes "(m_a l)\<^sup>2 + (m_b l)\<^sup>2 = 1"
  shows "l2_getPointOnLineClosestTo l p =
    \<lparr>px = px p - m_b l * (m_a l * py p + m_b l * px p + m_c l),
     py = py p - m_a l * (m_a l * py p + m_b l * px p + m_c l)\<rparr>"
proof -
  have s: "m_a l * m_a l = 1 - m_b l * m_b l" using assms by (simp add: power2_eq_square)
  have d: "m_a l * - m_a l - m_b l * m_b l = - 1" using s by simp
  have x: "- (m_b l * m_c l - m_a l * (m_a l * px p - m_b l * py p)) = px p - m_b l * (m_a l * py p + m_b l * px p + m_c l)"
  proof -
    have "m_a l * (m_a l * px p) = px p - m_b l * (m_b l * px p)"
      by (simp add: s left_diff_distrib flip: mult.assoc)
    then show ?thesis by (simp add: algebra_simps)
  qed
  have y: "- (m_b l * (m_a l * px p - m_b l * py p) - - m_a l * m_c l) = py p - m_a l * (m_a l * py p + m_b l * px p + m_c l)"
  proof -
    have "m_a l * (m_a l * py p) = py p - m_b l * (m_b l * py p)"
      by (simp add: s left_diff_distrib flip: mult.assoc)
    then show ?thesis by (simp add: algebra_simps)
  qed
  have u: "m_a l * m_b o' - m_a o' * m_b l = - 1" "m_a o' = m_b l" "m_b o' = - m_a l" "m_c o' = m_a l * px p - m_b l * py p"
    if "o' = l2_getOrthogonalLine l p" for o'
    using d by (simp_all add: that l2_getOrthogonalLine_def l2_coeffs_def)
  show ?thesis
    unfolding l2_getPointOnLineClosestTo_def Let_def myIntersection_unit [OF u(1) [OF refl]] u(2-4) [OF refl] x y ..
qed

lemma sqdist: "(p2_getDistanceTo p q)\<^sup>2 = (px p - px q)\<^sup>2 + (py p - py q)\<^sup>2"
  by (simp add: p2_getDistanceTo_def p2_getMagnitude_def p2_getSquaredMagnitude_def p2_sub_def flip: power2_eq_square)

lemma dist_nonneg [simp]: "0 \<le> p2_getDistanceTo p q"
  by (simp add: p2_getDistanceTo_def p2_getMagnitude_def p2_getSquaredMagnitude_def)

lemma dist_le_iff: "p2_getDistanceTo p q \<le> p2_getDistanceTo p r \<longleftrightarrow>
    (px p - px q)\<^sup>2 + (py p - py q)\<^sup>2 \<le> (px p - px r)\<^sup>2 + (py p - py r)\<^sup>2"
  by (simp flip: sqdist)

lemma dist_commute: "p2_getDistanceTo p q = p2_getDistanceTo q p"
  by (simp add: p2_getDistanceTo_def p2_getMagnitude_def p2_getSquaredMagnitude_def p2_sub_def algebra_simps)

text \<open>A quadratic in one variable: the clamped minimiser is the minimum over the unit interval.\<close>

lemma clamped_minimum:
  fixes A B :: real
  assumes "0 < A" "0 \<le> t" "t \<le> 1" and m: "m = (if B < 0 then 0 else if 1 < B / A then 1 else B / A)"
  shows "A * m\<^sup>2 - 2 * B * m \<le> A * t\<^sup>2 - 2 * B * t"
proof -
  have d: "A * t\<^sup>2 - 2 * B * t - (A * m\<^sup>2 - 2 * B * m) = A * (t - m)\<^sup>2 + 2 * ((A * m - B) * (t - m))"
    by (simp add: power2_eq_square algebra_simps)
  have "0 \<le> (A * m - B) * (t - m)"
  proof -
    consider "B < 0" "m = 0" | "0 \<le> B" "A < B" "m = 1" | "0 \<le> B" "A * m = B"
      using m assms(1) by (auto simp: field_simps split: if_splits)
    then show ?thesis
    proof cases
      case 1 then show ?thesis using assms by (simp add: mult_nonpos_nonneg)
    next
      case 2 then show ?thesis using assms by (simp add: mult_nonpos_nonpos)
    qed simp
  qed
  moreover have "0 \<le> A * (t - m)\<^sup>2" using assms(1) by simp
  ultimately show ?thesis using d by linarith
qed

definition seg_param :: "line_segment \<Rightarrow> point2D \<Rightarrow> real" where
  "seg_param s p =
     (let A = (px (seg_end s) - px (seg_start s))\<^sup>2 + (py (seg_end s) - py (seg_start s))\<^sup>2;
          B = (px p - px (seg_start s)) * (px (seg_end s) - px (seg_start s))
            + (py p - py (seg_start s)) * (py (seg_end s) - py (seg_start s))
      in if A = 0 then 0 else if B < 0 then 0 else if 1 < B / A then 1 else B / A)"

lemma ls_len2: "ls_length s * ls_length s = (px (seg_end s) - px (seg_start s))\<^sup>2 + (py (seg_end s) - py (seg_start s))\<^sup>2"
  by (simp add: ls_length_def p2_getMagnitude_def p2_getSquaredMagnitude_def p2_sub_def power2_commute
      flip: power2_eq_square)

lemma fraction_coords:
  "px (p2_getPointOnLineFraction p q t) = px p + t * (px q - px p)"
  "py (p2_getPointOnLineFraction p q t) = py p + t * (py q - py p)"
  by (simp_all add: p2_getPointOnLineFraction_def p2_defs algebra_simps)

lemma closest_is_param:
  "ls_getPointOnSegmentClosestTo s p = p2_getPointOnLineFraction (seg_start s) (seg_end s) (seg_param s p)"
  by (rule p2_eqI)
    (auto simp: ls_getPointOnSegmentClosestTo_def ls_len2 Let_def fraction_coords seg_param_def
      p2_mul_def p2_sub_def p2_add_def add.commute mult.commute)

lemma seg_param_range: "0 \<le> seg_param s p" "seg_param s p \<le> 1"
proof -
  have "0 \<le> (u::real)\<^sup>2 + v\<^sup>2" for u v by simp
  then show "0 \<le> seg_param s p" "seg_param s p \<le> 1" by (auto simp: seg_param_def Let_def not_less)
qed

lemma closest_on_segment: "on_segment s (ls_getPointOnSegmentClosestTo s p)"
  using seg_param_range [of s p] by (auto simp: on_segment_def closest_is_param)

lemma circle_chord_point:
  fixes D S R dx dy e r :: real
  assumes R: "R = dx * dx + dy * dy" "R \<noteq> 0" and e: "e * e = 1" and S: "S * S = r * r * R - D * D"
    and X: "X = (D * dy + e * dx * S) / R" and Y: "Y = (- D * dx + e * dy * S) / R"
  shows "X * X + Y * Y = r * r" "dy * X - dx * Y = D"
proof -
  have X': "R * X = D * dy + e * dx * S" and Y': "R * Y = - D * dx + e * dy * S"
    using R(2) X Y by simp_all
  have "R * R * (X * X + Y * Y) = (R * X) * (R * X) + (R * Y) * (R * Y)" by (simp add: algebra_simps)
  also have "\<dots> = (dx * dx + dy * dy) * (D * D + (e * e) * (S * S))"
    unfolding X' Y' by (simp add: algebra_simps)
  also have "\<dots> = R * R * (r * r)" using R(1) e S by (simp add: mult_ac)
  finally show "X * X + Y * Y = r * r" using R(2) by simp
  have "R * (dy * X - dx * Y) = dy * (R * X) - dx * (R * Y)" by (simp add: algebra_simps)
  also have "\<dots> = D * (dx * dx + dy * dy)" unfolding X' Y' by (simp add: algebra_simps)
  finally show "dy * X - dx * Y = D" using R by auto
qed

text \<open>The two candidate points of \<open>getNearestCircleIntersection\<close>, as a choice of sign.\<close>

lemma nearestCircle_cases:
  assumes "dx = px (seg_end s) - px (seg_start s)" "dy = py (seg_end s) - py (seg_start s)"
    and D: "D = (px (seg_start s) - px c) * (py (seg_end s) - py c) - (px (seg_end s) - px c) * (py (seg_start s) - py c)"
    and R: "R = dx * dx + dy * dy" and S: "S = sqrt (r * r * R - D * D)" and pos: "0 \<le> r * r * R - D * D"
  shows "\<exists>e. e * e = 1 \<and> ls_getNearestCircleIntersection s c r near =
      \<lparr>px = (D * dy + e * dx * S) / R + px c, py = (- D * dx + e * dy * S) / R + py c\<rparr>"
proof -
  define sy :: real where "sy = (if dy < 0 then - 1 else 1)"
  have sy: "sy * sy = 1" "\<bar>dy\<bar> = sy * dy" by (auto simp: sy_def)
  have sq: "sqrt R * sqrt R = R" "r * r * sqrt R * sqrt R = r * r * R" "\<bar>R\<bar> = R" by (simp_all add: R mult.assoc)
  let ?p = "\<lambda>e. \<lparr>px = (D * dy + e * dx * S) / R + px c, py = (- D * dx + e * dy * S) / R + py c\<rparr>"
  have "ls_getNearestCircleIntersection s c r near = ?p sy \<or> ls_getNearestCircleIntersection s c r near = ?p (- sy)"
    using pos unfolding ls_getNearestCircleIntersection_def Let_def p2_sub_def
    by (simp add: p2_new_def p2_setPoint_def sq sy(2) S flip: assms(1) assms(2) D R sy_def)
  then show ?thesis using sy(1) by (metis minus_mult_minus)
qed

section \<open>Properties\<close>

text \<open>
  The line constructed from two points passes through both of them (when they are on one vertical
  or at least the tolerance apart horizontally), always passes through the second, and its coefficients are normalised.
\<close>

theorem line_through_points:
  assumes "px p = px q \<or> EPSILON \<le> \<bar>px q - px p\<bar>"
  shows "on_line (l2_points p q) p \<and> on_line (l2_points p q) q \<and> (m_a (l2_points p q))\<^sup>2 + (m_b (l2_points p q))\<^sup>2 = 1"
  using on_line_first [OF assms] l2_std_points [of p q] by (simp add: l2_std_def)

theorem line_through_points_witness:
  "on_line (l2_points \<lparr>px = 0, py = 0\<rparr> \<lparr>px = 1, py = 2\<rparr>) \<lparr>px = 0, py = 0\<rparr>"
  using line_through_points [of "\<lparr>px = 0, py = 0\<rparr>" "\<lparr>px = 1, py = 2\<rparr>"] by simp

text \<open>
  The intersection of two lines through given points lies on both of them whenever the
  parallelism test fails.
\<close>

theorem lines_intersect:
  assumes "\<not> l2_isParallelTo (l2_points p q) (l2_points r s)"
  shows "on_line (l2_points p q) (l2_getIntersection (l2_points p q) (l2_points r s)) \<and>
    on_line (l2_points r s) (l2_getIntersection (l2_points p q) (l2_points r s))"
  by (rule intersection_on_lines [OF l2_std_points l2_std_points assms])

theorem lines_intersect_witness:
  "on_line (l2_points p2_origin \<lparr>px = 0, py = 1\<rparr>)
    (l2_getIntersection (l2_points p2_origin \<lparr>px = 0, py = 1\<rparr>) (l2_points p2_origin \<lparr>px = 1, py = 0\<rparr>))"
  using lines_intersect [of p2_origin "\<lparr>px = 0, py = 1\<rparr>" p2_origin "\<lparr>px = 1, py = 0\<rparr>"]
  by (simp add: l2_isParallelTo_def l2_points_def)

text \<open>
  \<open>getPointOnLineClosestTo\<close> returns the point of the line nearest to its argument, and
  \<open>getDistanceToPoint\<close> the absolute value of the line's normal form at it.
\<close>

theorem line_closest_point:
  assumes "(m_a l)\<^sup>2 + (m_b l)\<^sup>2 = 1" and "on_line l q"
  shows "on_line l (l2_getPointOnLineClosestTo l p) \<and>
    p2_getDistanceTo p (l2_getPointOnLineClosestTo l p) \<le> p2_getDistanceTo p q \<and>
    l2_getDistanceToPoint l p = \<bar>m_a l * py p + m_b l * px p + m_c l\<bar>"
proof -
  let ?e = "m_a l * py p + m_b l * px p + m_c l"
  have s: "m_a l * m_a l + m_b l * m_b l = 1" using assms(1) by (simp add: power2_eq_square)
  have on: "m_a l * (py p - m_a l * ?e) + m_b l * (px p - m_b l * ?e) + m_c l = ?e - (m_a l * m_a l + m_b l * m_b l) * ?e"
    by (simp only: algebra_simps)
  have e: "?e = m_a l * (py p - py q) + m_b l * (px p - px q)"
    using assms(2) unfolding on_line_def by (simp add: right_diff_distrib)
  have sum: "(m_b l * ?e)\<^sup>2 + (m_a l * ?e)\<^sup>2 = ?e\<^sup>2"
  proof -
    have "(m_b l * t)\<^sup>2 + (m_a l * t)\<^sup>2 = (m_a l * m_a l + m_b l * m_b l) * t\<^sup>2" for t
      by (simp add: power2_eq_square algebra_simps)
    then show ?thesis using s by simp
  qed
  have cs: "(a * u + b * v)\<^sup>2 \<le> v\<^sup>2 + u\<^sup>2" if "a * a + b * b = 1" for a b u v :: real
  proof -
    have "(a * a + b * b) * (v\<^sup>2 + u\<^sup>2) - (a * u + b * v)\<^sup>2 = (a * v - b * u)\<^sup>2"
      by (simp add: power2_eq_square algebra_simps)
    then have "v\<^sup>2 + u\<^sup>2 - (a * u + b * v)\<^sup>2 = (a * v - b * u)\<^sup>2" using that by simp
    then show ?thesis using zero_le_power2 [of "a * v - b * u"] by linarith
  qed
  note c = closest_explicit [OF assms(1), of p]
  have "on_line l (l2_getPointOnLineClosestTo l p)" unfolding c on_line_def using on s by simp
  moreover have "p2_getDistanceTo p (l2_getPointOnLineClosestTo l p) \<le> p2_getDistanceTo p q"
    using cs [OF s, of "py p - py q" "px p - px q"] unfolding dist_le_iff c e [symmetric] by (simp add: sum)
  moreover have "(l2_getDistanceToPoint l p)\<^sup>2 = ?e\<^sup>2"
    unfolding l2_getDistanceToPoint_def sqdist c by (simp add: sum)
  then have "l2_getDistanceToPoint l p = \<bar>?e\<bar>"
    using power2_eq_iff_nonneg [of "l2_getDistanceToPoint l p" "\<bar>?e\<bar>"] by (simp add: l2_getDistanceToPoint_def)
  ultimately show ?thesis by blast
qed

theorem line_closest_point_witness:
  "l2_getDistanceToPoint (l2_coeffs 0 1 0) \<lparr>px = 3, py = 4\<rparr> = 3"
  using line_closest_point [of "l2_coeffs 0 1 0" p2_origin "\<lparr>px = 3, py = 4\<rparr>"]
  by (simp add: l2_coeffs_def on_line_def)

text \<open>
  \<open>getPointOnSegmentClosestTo\<close> returns a point of the segment, and no point of the segment is
  nearer; for a segment of length zero too. \<open>getDistanceTo\<close> is therefore the distance to the segment.
\<close>

theorem segment_closest_point:
  "on_segment s (ls_getPointOnSegmentClosestTo s p) \<and>
   (\<forall>q. on_segment s q \<longrightarrow> ls_getDistanceTo s p \<le> p2_getDistanceTo p q)"
proof (intro conjI allI impI closest_on_segment)
  fix q assume "on_segment s q"
  then obtain t where t: "0 \<le> t" "t \<le> 1" "q = p2_getPointOnLineFraction (seg_start s) (seg_end s) t"
    by (auto simp: on_segment_def)
  let ?a = "px p - px (seg_start s)" and ?b = "py p - py (seg_start s)"
  let ?u = "px (seg_end s) - px (seg_start s)" and ?v = "py (seg_end s) - py (seg_start s)"
  let ?m = "seg_param s p"
  have expand: "(a - t * u)\<^sup>2 + (b - t * v)\<^sup>2 = a\<^sup>2 + b\<^sup>2 + ((u\<^sup>2 + v\<^sup>2) * t\<^sup>2 - 2 * (a * u + b * v) * t)"
    for a b u v t :: real by (simp add: power2_eq_square algebra_simps)
  have "(?u\<^sup>2 + ?v\<^sup>2) * ?m\<^sup>2 - 2 * (?a * ?u + ?b * ?v) * ?m \<le> (?u\<^sup>2 + ?v\<^sup>2) * t\<^sup>2 - 2 * (?a * ?u + ?b * ?v) * t"
  proof (cases "?u\<^sup>2 + ?v\<^sup>2 = 0")
    case True
    then have "?u = 0" "?v = 0" by (simp_all only: sum_power2_eq_zero_iff)
    then show ?thesis by simp
  next
    case False
    then have A: "0 < ?u\<^sup>2 + ?v\<^sup>2" by (metis add_nonneg_nonneg less_le zero_le_power2)
    show ?thesis by (rule clamped_minimum [OF A t(1,2)]) (simp add: seg_param_def Let_def False)
  qed
  then have "(?a - ?m * ?u)\<^sup>2 + (?b - ?m * ?v)\<^sup>2 \<le> (?a - t * ?u)\<^sup>2 + (?b - t * ?v)\<^sup>2"
    unfolding expand by simp
  then have "p2_getDistanceTo p (ls_getPointOnSegmentClosestTo s p) \<le> p2_getDistanceTo p q"
    unfolding dist_le_iff closest_is_param t(3) fraction_coords by (simp add: diff_diff_eq)
  then show "ls_getDistanceTo s p \<le> p2_getDistanceTo p q"
    by (simp add: ls_getDistanceTo_def p2_getDistanceTo_def)
qed

theorem segment_closest_point_witness:
  "ls_getDistanceTo (ls_new p2_origin \<lparr>px = 1, py = 0\<rparr>) \<lparr>px = 5, py = 5\<rparr> \<le> p2_getDistanceTo \<lparr>px = 5, py = 5\<rparr> p2_origin"
proof -
  have "on_segment (ls_new p2_origin \<lparr>px = 1, py = 0\<rparr>) p2_origin"
    unfolding on_segment_def by (rule exI [of _ 0]) (simp add: ls_new_def line2D.defs line_segment.defs p2_getPointOnLineFraction_def p2_defs)
  then show ?thesis using segment_closest_point [of "ls_new p2_origin \<lparr>px = 1, py = 0\<rparr>" "\<lparr>px = 5, py = 5\<rparr>"] by blast
qed

text \<open>
  When the line of a segment meets a circle, \<open>getNearestCircleIntersection\<close> returns a point on the
  circle and collinear with the segment's ends.
\<close>

theorem nearest_circle_intersection:
  assumes "seg_start s \<noteq> seg_end s"
    and "(px (seg_start s) - px c) * (py (seg_end s) - py c) - (px (seg_end s) - px c) * (py (seg_start s) - py c) = D"
    and "D * D \<le> r * r * (p2_getDistanceTo (seg_start s) (seg_end s))\<^sup>2"
  shows "p2_getDistanceTo (ls_getNearestCircleIntersection s c r near) c = \<bar>r\<bar> \<and>
    (py (seg_end s) - py (seg_start s)) * (px (ls_getNearestCircleIntersection s c r near) - px (seg_start s))
      = (px (seg_end s) - px (seg_start s)) * (py (ls_getNearestCircleIntersection s c r near) - py (seg_start s))"
proof -
  let ?dx = "px (seg_end s) - px (seg_start s)" and ?dy = "py (seg_end s) - py (seg_start s)"
  let ?q = "ls_getNearestCircleIntersection s c r near"
  define R where "R = ?dx * ?dx + ?dy * ?dy"
  have R: "(p2_getDistanceTo (seg_start s) (seg_end s))\<^sup>2 = R"
    unfolding sqdist R_def by (simp add: power2_eq_square algebra_simps)
  have "?dx \<noteq> 0 \<or> ?dy \<noteq> 0" using assms(1) by (metis p2_eqI eq_iff_diff_eq_0)
  then have R0: "R \<noteq> 0" unfolding R_def by (metis sum_power2_eq_zero_iff power2_eq_square)
  have pos: "0 \<le> r * r * R - D * D" using assms(3) R by simp
  obtain e where e: "e * e = 1"
    "?q = \<lparr>px = (D * ?dy + e * ?dx * sqrt (r * r * R - D * D)) / R + px c,
      py = (- D * ?dx + e * ?dy * sqrt (r * r * R - D * D)) / R + py c\<rparr>"
    using nearestCircle_cases [OF refl refl assms(2) [symmetric] R_def refl pos] by blast
  have S: "sqrt (r * r * R - D * D) * sqrt (r * r * R - D * D) = r * r * R - D * D" using pos by simp
  note chord = circle_chord_point [OF R_def R0 e(1) S, of "px ?q - px c" "py ?q - py c"]
  have "(px ?q - px c) * (px ?q - px c) + (py ?q - py c) * (py ?q - py c) = r * r"
    "?dy * (px ?q - px c) - ?dx * (py ?q - py c) = D"
    using chord unfolding e(2) by simp_all
  moreover have "p2_getDistanceTo ?q c = sqrt (r * r)"
    using calculation(1) by (simp add: p2_getDistanceTo_def p2_getMagnitude_def p2_getSquaredMagnitude_def p2_sub_def)
  ultimately show ?thesis using assms(2) by (simp add: algebra_simps)
qed

theorem nearest_circle_intersection_witness:
  "p2_getDistanceTo (ls_getNearestCircleIntersection (ls_new p2_origin \<lparr>px = 1, py = 0\<rparr>) p2_origin 5 p2_origin) p2_origin = 5"
  using nearest_circle_intersection [of "ls_new p2_origin \<lparr>px = 1, py = 0\<rparr>" p2_origin 0 5 p2_origin]
  by (simp add: ls_new_def line2D.defs line_segment.defs)

lemma two_circles_point:
  fixes d a h u v r0 r1 e :: real
  assumes uv: "u * u + v * v = 1" and d: "d \<noteq> 0" and a: "a = (r0 * r0 + d * d - r1 * r1) / (2 * d)"
    and h: "h * h = r0 * r0 - a * a" and e: "e * e = 1"
  shows "(a * u - e * h * v)\<^sup>2 + (a * v + e * h * u)\<^sup>2 = r0 * r0"
    "(a * u - e * h * v - d * u)\<^sup>2 + (a * v + e * h * u - d * v)\<^sup>2 = r1 * r1"
proof -
  have ad: "2 * a * d = r0 * r0 + d * d - r1 * r1" using a d by simp
  have gen: "(b * u - e * h * v)\<^sup>2 + (b * v + e * h * u)\<^sup>2 = b * b + h * h" for b
  proof -
    have "(b * u - e * h * v)\<^sup>2 + (b * v + e * h * u)\<^sup>2 = (u * u + v * v) * (b * b + (e * e) * (h * h))"
      by (simp add: power2_eq_square algebra_simps)
    then show ?thesis using uv e by simp
  qed
  show "(a * u - e * h * v)\<^sup>2 + (a * v + e * h * u)\<^sup>2 = r0 * r0" using gen [of a] h by simp
  have "(a * u - e * h * v - d * u)\<^sup>2 + (a * v + e * h * u - d * v)\<^sup>2 = (a - d) * (a - d) + h * h"
    using gen [of "a - d"] by (simp add: algebra_simps)
  also have "\<dots> = r1 * r1" using h ad by (simp add: algebra_simps)
  finally show "(a * u - e * h * v - d * u)\<^sup>2 + (a * v + e * h * u - d * v)\<^sup>2 = r1 * r1" .
qed

lemma dist_eqI: "(px p - px q)\<^sup>2 + (py p - py q)\<^sup>2 = r * r \<Longrightarrow> p2_getDistanceTo p q = \<bar>r\<bar>"
  by (simp add: p2_getDistanceTo_def p2_getMagnitude_def p2_getSquaredMagnitude_def p2_sub_def power2_eq_square)

text \<open>
  When \<open>getIntersectionPoints\<close> reports one or two solutions for circles with distinct centres, both points it
  returns lie on both circles.
\<close>

theorem circle_intersection_points:
  assumes "m_pCenter k \<noteq> m_pCenter c" and "ci_getIntersectionPoints k c = (n, p, q)" and "n \<noteq> 0"
  shows "p2_getDistanceTo p (m_pCenter k) = \<bar>m_radius k\<bar> \<and> p2_getDistanceTo p (m_pCenter c) = \<bar>m_radius c\<bar> \<and>
    p2_getDistanceTo q (m_pCenter k) = \<bar>m_radius k\<bar> \<and> p2_getDistanceTo q (m_pCenter c) = \<bar>m_radius c\<bar>"
proof -
  define dx dy where "dx = px (m_pCenter c) - px (m_pCenter k)" and "dy = py (m_pCenter c) - py (m_pCenter k)"
  define d where "d = sqrt (dx * dx + dy * dy)"
  define a where "a = (m_radius k * m_radius k + d * d - m_radius c * m_radius c) / (2 * d)"
  define arg where "arg = m_radius k * m_radius k - a * a"
  define h where "h = (if arg > 0 then sqrt arg else 0)"
  have res: "n = (if arg < 0 then 0 else if arg = 0 then 1 else 2)"
    "p = \<lparr>px = px (m_pCenter k) + a * (dx / d) - h * (dy / d), py = py (m_pCenter k) + a * (dy / d) + h * (dx / d)\<rparr>"
    "q = \<lparr>px = px (m_pCenter k) + a * (dx / d) + h * (dy / d), py = py (m_pCenter k) + a * (dy / d) - h * (dx / d)\<rparr>"
    using assms(2) unfolding ci_getIntersectionPoints_def Let_def dx_def [symmetric] dy_def [symmetric]
      d_def [symmetric] a_def [symmetric] arg_def [symmetric] h_def [symmetric]
    by (auto simp: p2_new_def p2_setPoint_def split: if_splits)
  have "dx \<noteq> 0 \<or> dy \<noteq> 0" using assms(1) by (metis dx_def dy_def p2_eqI eq_iff_diff_eq_0)
  then have s: "0 < dx\<^sup>2 + dy\<^sup>2" by (simp add: sum_power2_gt_zero_iff)
  then have d: "d \<noteq> 0" "d * d = dx * dx + dy * dy" by (auto simp: d_def power2_eq_square)
  have uv: "(dx / d) * (dx / d) + (dy / d) * (dy / d) = 1"
    unfolding times_divide_times_eq add_divide_distrib [symmetric] d(2) [symmetric] using d(1) by simp
  have h: "h * h = m_radius k * m_radius k - a * a"
    using assms(3) res(1) by (auto simp: h_def arg_def [symmetric] split: if_splits)
  have cu: "d * (dx / d) = dx" "d * (dy / d) = dy" using d by simp_all
  note on = two_circles_point [OF uv d(1) a_def h, of 1] two_circles_point [OF uv d(1) a_def h, of "- 1"]
  note on = on [simplified cu, simplified]
  show ?thesis
    by (intro conjI dist_eqI)
      (use on in \<open>simp_all add: res(2,3) algebra_simps dx_def dy_def\<close>)
qed

theorem circle_intersection_points_witness:
  "case ci_getIntersectionPoints (ci_new p2_origin 5) (ci_new \<lparr>px = 8, py = 0\<rparr> 5) of (n, p, q) \<Rightarrow>
     n = 2 \<and> p2_getDistanceTo p \<lparr>px = 8, py = 0\<rparr> = 5"
proof -
  have r: "ci_getIntersectionPoints (ci_new p2_origin 5) (ci_new \<lparr>px = 8, py = 0\<rparr> 5) = (2, \<lparr>px = 4, py = 3\<rparr>, \<lparr>px = 4, py = - 3\<rparr>)"
    using real_sqrt_unique [of 8 64] real_sqrt_unique [of 3 9]
    by (simp add: ci_getIntersectionPoints_def ci_new_def ci_setCircle_def ci_setRadius_def ci_setCenter_def p2_new_def p2_setPoint_def)
  show ?thesis using circle_intersection_points [OF _ r] unfolding r
    by (simp add: ci_new_def ci_setCircle_def ci_setRadius_def ci_setCenter_def)
qed

text \<open>
  Converting a segment to a frame and back gives the segment, line coefficients included.
\<close>

theorem segment_frame_roundtrip:
  "ls_relativeToGlobal (ls_globalToRelative (ls_new p q) f a) f a = ls_new p q \<and>
   ls_globalToRelative (ls_relativeToGlobal (ls_new p q) f a) f a = ls_new p q \<and>
   ls_length (ls_globalToRelative (ls_new p q) f a) = ls_length (ls_new p q)"
proof -
  have se: "seg_start (ls_new u v) = u" "seg_end (ls_new u v) = v" for u v
    by (simp_all add: ls_new_def line2D.defs line_segment.defs)
  show ?thesis
    using p2.global_of_relative [of _ "(f, a)"] p2.relative_of_global [of _ "(f, a)"] p2.distance_relative [of p "(f, a)" q]
    by (simp add: ls_relativeToGlobal_def ls_globalToRelative_def ls_length_def se p2_getDistanceTo_def)
qed

lemma on_segment_line:
  assumes "on_line s (seg_start s)" "on_line s (seg_end s)" "on_segment s p"
  shows "on_line s p"
proof -
  obtain t where t: "p = p2_getPointOnLineFraction (seg_start s) (seg_end s) t"
    using assms(3) by (auto simp: on_segment_def)
  have "m_a s * py p + m_b s * px p + m_c s
      = (1 - t) * (m_a s * py (seg_start s) + m_b s * px (seg_start s) + m_c s)
        + t * (m_a s * py (seg_end s) + m_b s * px (seg_end s) + m_c s)"
    unfolding t fraction_coords by (simp add: algebra_simps)
  then show ?thesis using assms(1,2) by (simp add: on_line_def)
qed

text \<open>
  \<open>crop\<close> shortens a segment inside itself: both new ends are points of the old segment, so they stay
  on the line whose coefficients the object keeps. \<open>getVisiblePortion\<close> returns ends on the segment.
\<close>

theorem crop_within_segment:
  "on_segment s (seg_start (ls_crop s b)) \<and> on_segment s (seg_end (ls_crop s b)) \<and>
   line2D.truncate (ls_crop s b) = line2D.truncate s \<and>
   (on_segment s (seg_start (ls_getVisiblePortion s f ori fov)) \<and> on_segment s (seg_end (ls_getVisiblePortion s f ori fov)))"
proof -
  have se: "seg_start (ls_new u v) = u" "seg_end (ls_new u v) = v" for u v
    by (simp_all add: ls_new_def line2D.defs line_segment.defs)
  have "on_segment s (seg_start s)" "on_segment s (seg_end s)"
    unfolding on_segment_def by (rule exI [of _ 0], rule_tac [2] exI [of _ 1])
      (simp_all add: p2_getPointOnLineFraction_def p2_defs)
  then show ?thesis
    using closest_on_segment [of s]
    by (simp add: ls_crop_def ls_getVisiblePortion_def Let_def se line2D.defs)
qed

text \<open>
  \<open>rotate\<close> turns the end points of a segment but keeps the coefficients of its line: after a
  quarter turn of a horizontal segment the first end point is no longer on the object's own line.
\<close>

theorem rotate_keeps_line:
  "line2D.truncate (ls_rotate_about s c a) = line2D.truncate s \<and>
   on_line (ls_new p2_origin \<lparr>px = 2, py = 0\<rparr>) p2_origin \<and>
   \<not> on_line (ls_rotate (ls_new p2_origin \<lparr>px = 2, py = 0\<rparr>) (pi / 2))
        (seg_start (ls_rotate (ls_new p2_origin \<lparr>px = 2, py = 0\<rparr>) (pi / 2)))"
  by (simp add: ls_rotate_about_def ls_rotate_def ls_computeCenter_def Let_def line2D.defs ls_new_def
      line_segment.defs l2_points_def on_line_def p2_defs p2_sub_def p2_add_def px_rotate py_rotate)

text \<open>
  \<open>getIntersectionArea\<close> assumes that the two centres lie on different sides of the common chord.
  Two circles for which they do not have a reported common area smaller than the area of a third circle
  that, by the same function, is contained in both.
\<close>

theorem intersection_area_underestimates:
  "let k = ci_new p2_origin 5; c = ci_new \<lparr>px = 7/4, py = 0\<rparr> (15/4); i = ci_new \<lparr>px = 3/2, py = 0\<rparr> (7/2)
   in ci_getIntersectionArea k i = ci_getArea i \<and> ci_getIntersectionArea c i = ci_getArea i \<and>
      ci_getIntersectionArea k c < ci_getArea i"
proof -
  let ?k = "ci_new p2_origin 5" and ?c = "ci_new \<lparr>px = 7/4, py = 0\<rparr> (15/4)" and ?i = "ci_new \<lparr>px = 3/2, py = 0\<rparr> (7/2)"
  note ci = ci_new_def ci_setCircle_def ci_setRadius_def ci_setCenter_def
  have d: "p2_getDistanceTo \<lparr>px = x, py = 0\<rparr> \<lparr>px = y, py = 0\<rparr> = \<bar>x - y\<bar>" for x y
    by (simp add: p2_getDistanceTo_def p2_getMagnitude_def p2_getSquaredMagnitude_def p2_sub_def)
  have pts: "ci_getIntersectionPoints ?k ?c = (2, \<lparr>px = 4, py = 3\<rparr>, \<lparr>px = 4, py = - 3\<rparr>)"
    using real_sqrt_unique [of "7/4" "49/16"] real_sqrt_unique [of 3 9]
    by (simp add: ci_getIntersectionPoints_def ci p2_new_def p2_setPoint_def power2_eq_square)
  have mid: "p2_getPointOnLineFraction \<lparr>px = 4, py = 3\<rparr> \<lparr>px = 4, py = - 3\<rparr> (1/2) = \<lparr>px = 4, py = 0\<rparr>"
    "p2_getDistanceTo \<lparr>px = 4, py = 3\<rparr> \<lparr>px = 4, py = 0\<rparr> = 3"
    using real_sqrt_unique [of 3 9]
    by (simp_all add: p2_getPointOnLineFraction_def p2_defs p2_getDistanceTo_def p2_getMagnitude_def p2_getSquaredMagnitude_def)
  have area: "ci_getIntersectionArea ?k ?c = arcsin (3/5) * 25 - 12 + arcsin (4/5) * (225/16) - 27/4"
    unfolding ci_getIntersectionArea_def Let_def pts by (simp add: ci d mid)
  have a1: "arcsin (3/5) \<le> pi / 4"
  proof -
    have "3/5 \<le> sqrt 2 / 2" using real_le_rsqrt [of "6/5" 2] by (simp add: power2_eq_square)
    then have "arcsin (3/5) \<le> arcsin (sin (pi/4))" using sin_45 sin_le_one [of "pi/4"] by (intro arcsin_le_arcsin) auto
    then show ?thesis by (simp add: arcsin_sin)
  qed
  have a2: "arcsin (4/5) \<le> pi / 3"
  proof -
    have "4/5 \<le> sqrt 3 / 2" using real_le_rsqrt [of "8/5" 3] by (simp add: power2_eq_square)
    then have "arcsin (4/5) \<le> arcsin (sin (pi/3))" using sin_60 sin_le_one [of "pi/3"] by (intro arcsin_le_arcsin) auto
    then show ?thesis using arcsin_sin [of "pi / 3"] pi_gt_zero by auto
  qed
  have "arcsin (3/5) * 25 - 12 + arcsin (4/5) * (225/16) - 27/4 < pi * (7/2) * (7/2)"
    using a1 a2 pi_gt_zero by linarith
  then show ?thesis unfolding Let_def area
    by (simp add: ci_getIntersectionArea_def ci_getArea_def ci d)
qed

end
