(* ===== verification/Polygons.thy ===== *)
theory Polygons
  imports Prelude
begin

text \<open>
  The polygon of \<open>src/core/math/Polygon.cpp\<close>: the ray-crossing test for a point, behind a bounding box and
  a cache of earlier answers. Coordinates are \<open>int\<close>; the test's products are assumed not to overflow and
  its division truncates. The cache is keyed by a 32-bit word made of both coordinates, which is where
  the width matters. A polygon is a state: a query may extend its cache.
\<close>

unbundle bit_operations_syntax

type_synonym ipoint = "int \<times> int"

record polygon =
  left' :: int
  right' :: int
  top' :: int
  bottom' :: int
  pointCache :: "32 word \<Rightarrow> bool option"
  xcoords :: "int list"
  ycoords :: "int list"
  pg_count :: int
  vertices :: "ipoint list"
  enclosed :: "ipoint list"

section \<open>Operations\<close>

text \<open>The four scans start from zero, not from the first vertex.\<close>

definition pg_getTop :: "polygon \<Rightarrow> int" where
  "pg_getTop p = (if pg_count p = 0 then 0 else fold (\<lambda>v top. if top < snd v then snd v else top) (vertices p) 0)"

definition pg_getBottom :: "polygon \<Rightarrow> int" where
  "pg_getBottom p = (if pg_count p = 0 then 0 else fold (\<lambda>v bottom. if bottom > snd v then snd v else bottom) (vertices p) 0)"

definition pg_getLeft :: "polygon \<Rightarrow> int" where
  "pg_getLeft p = (if pg_count p = 0 then 0 else fold (\<lambda>v left. if left > fst v then fst v else left) (vertices p) 0)"

definition pg_getRight :: "polygon \<Rightarrow> int" where
  "pg_getRight p = (if pg_count p = 0 then 0 else fold (\<lambda>v right. if right < fst v then fst v else right) (vertices p) 0)"

definition pg_setBounds :: "polygon \<Rightarrow> polygon" where
  "pg_setBounds p = p\<lparr>left' := pg_getLeft p, top' := pg_getTop p, right' := pg_getRight p, bottom' := pg_getBottom p\<rparr>"

definition pg_new :: "ipoint list \<Rightarrow> polygon" where
  "pg_new vs =
     pg_setBounds \<lparr>left' = 0, right' = 0, top' = 0, bottom' = 0, pointCache = (\<lambda>_. None),
       xcoords = map fst vs, ycoords = map snd vs, pg_count = int (length vs), vertices = vs, enclosed = []\<rparr>"

definition pg_addVertex :: "int \<Rightarrow> int \<Rightarrow> polygon \<Rightarrow> polygon" where
  "pg_addVertex x y p =
     (let vs = vertices p @ [(x, y)]
      in pg_setBounds (p\<lparr>vertices := vs, pg_count := pg_count p + 1, xcoords := map fst vs, ycoords := map snd vs\<rparr>))"

text \<open>One crossing test: the edge from vertex \<open>j\<close> to vertex \<open>i\<close> against the ray from the test point.\<close>

definition crosses :: "ipoint \<Rightarrow> ipoint \<Rightarrow> int \<Rightarrow> int \<Rightarrow> bool" where
  "crosses vi vj testx testy \<longleftrightarrow>
     ((snd vi > testy) \<noteq> (snd vj > testy)) \<and>
     testx < (fst vj - fst vi) * (testy - snd vi) sdiv (snd vj - snd vi) + fst vi"

fun pnpoly_loop :: "ipoint list \<Rightarrow> ipoint \<Rightarrow> int \<Rightarrow> int \<Rightarrow> bool \<Rightarrow> bool" where
  "pnpoly_loop [] vj testx testy c = c"
| "pnpoly_loop (vi # vs) vj testx testy c =
     pnpoly_loop vs vi testx testy (if crosses vi vj testx testy then \<not> c else c)"

definition pnpoly :: "ipoint list \<Rightarrow> int \<Rightarrow> int \<Rightarrow> bool" where
  "pnpoly vs testx testy = (if vs = [] then False else pnpoly_loop vs (last vs) testx testy False)"

definition pg_lookup :: "int \<Rightarrow> int \<Rightarrow> 32 word" where
  "pg_lookup x y = push_bit 16 (word_of_int x) OR word_of_int y"

definition pg_enclosesPoint :: "int \<Rightarrow> int \<Rightarrow> polygon \<Rightarrow> bool \<times> polygon" where
  "pg_enclosesPoint x y p =
     (if x < left' p \<or> x > right' p \<or> y < bottom' p \<or> y > top' p then (False, p)
      else let lookup = pg_lookup x y
           in case pointCache p lookup of
                None \<Rightarrow> let value = pnpoly (zip (xcoords p) (ycoords p)) x y
                        in (value, p\<lparr>pointCache := (pointCache p)(lookup \<mapsto> value)\<rparr>)
              | Some value \<Rightarrow> (value, p))"

definition pg_scan :: "ipoint list \<Rightarrow> polygon \<Rightarrow> polygon" where
  "pg_scan pts p =
     fold (\<lambda>(x, y) p. let (value, p) = pg_enclosesPoint x y p
                      in if value then p\<lparr>enclosed := enclosed p @ [(x, y)]\<rparr> else p) pts p"

definition pg_enclosedPoints :: "polygon \<Rightarrow> ipoint list \<times> polygon" where
  "pg_enclosedPoints p =
     (if length (enclosed p) > 0 then (enclosed p, p)
      else let top = pg_getTop p; bottom = pg_getBottom p; left = pg_getLeft p; right = pg_getRight p;
               p = pg_scan (concat (map (\<lambda>i. map (\<lambda>j. (i, j)) [bottom..top]) [left..right])) p
           in (enclosed p, p))"

section \<open>The bounding box\<close>

lemma fold_max_key: "fold (\<lambda>v m. if m < g v then g v else m) xs a = Max (insert (a::int) (g ` set xs))"
proof (induction xs arbitrary: a)
  case (Cons x xs)
  have "Max (insert (max a (g x)) (g ` set xs)) = Max (insert a (insert (g x) (g ` set xs)))"
    by (cases "set xs = {}") (simp_all add: max.assoc)
  moreover have "(if a < g x then g x else a) = max a (g x)" by auto
  ultimately show ?case by (simp only: fold_simps Cons.IH list.set image_insert)
qed simp

lemma fold_min_key: "fold (\<lambda>v m. if m > g v then g v else m) xs a = Min (insert (a::int) (g ` set xs))"
proof (induction xs arbitrary: a)
  case (Cons x xs)
  have "Min (insert (min a (g x)) (g ` set xs)) = Min (insert a (insert (g x) (g ` set xs)))"
    by (cases "set xs = {}") (simp_all add: min.assoc)
  moreover have "(if a > g x then g x else a) = min a (g x)" by auto
  ultimately show ?case by (simp only: fold_simps Cons.IH list.set image_insert)
qed simp

definition pg_wf :: "polygon \<Rightarrow> bool" where
  "pg_wf p \<longleftrightarrow> pg_count p = int (length (vertices p)) \<and> xcoords p = map fst (vertices p) \<and> ycoords p = map snd (vertices p) \<and>
     left' p = pg_getLeft p \<and> right' p = pg_getRight p \<and> top' p = pg_getTop p \<and> bottom' p = pg_getBottom p"

lemma pg_bounds:
  assumes "pg_wf p" "v \<in> set (vertices p)"
  shows "left' p \<le> fst v" "fst v \<le> right' p" "bottom' p \<le> snd v" "snd v \<le> top' p"
proof -
  have c: "pg_count p \<noteq> 0" using assms by (auto simp: pg_wf_def)
  show "left' p \<le> fst v" "fst v \<le> right' p" "bottom' p \<le> snd v" "snd v \<le> top' p"
    using assms c
    by (simp_all add: pg_wf_def pg_getLeft_def pg_getRight_def pg_getTop_def pg_getBottom_def fold_max_key fold_min_key
        min.coboundedI2 max.coboundedI2)
qed

lemma pg_setBounds_wf:
  "pg_count p = int (length (vertices p)) \<Longrightarrow> xcoords p = map fst (vertices p) \<Longrightarrow> ycoords p = map snd (vertices p) \<Longrightarrow> pg_wf (pg_setBounds p)"
  by (simp add: pg_wf_def pg_setBounds_def pg_getLeft_def pg_getRight_def pg_getTop_def pg_getBottom_def)

lemma pg_new_wf: "pg_wf (pg_new vs)"
  unfolding pg_new_def by (rule pg_setBounds_wf) simp_all

text \<open>The crossing point of an edge lies between its ends.\<close>

lemma sdiv_between:
  fixes a n d :: int
  assumes "0 < d" "0 \<le> n" "n \<le> d"
  shows "min 0 a \<le> (a * n) sdiv d \<and> (a * n) sdiv d \<le> max 0 a"
proof (cases "0 \<le> a")
  case True
  have "a * n \<le> a * d" using True assms by (simp add: mult_left_mono)
  then have "(a * n) div d \<le> a" using assms(1) by (metis nonzero_mult_div_cancel_right less_irrefl zdiv_mono1)
  moreover have "0 \<le> (a * n) div d" using True assms by (simp add: pos_imp_zdiv_nonneg_iff)
  moreover have "(a * n) sdiv d = (a * n) div d"
    using True assms by (simp add: signed_divide_int_def sgn_if abs_if zero_less_mult_iff mult_less_0_iff)
  ultimately show ?thesis using True by simp
next
  case False
  let ?b = "- a"
  have "?b * n \<le> ?b * d" using False assms by (intro mult_left_mono) auto
  then have "(?b * n) div d \<le> ?b" using assms(1) by (metis nonzero_mult_div_cancel_right less_irrefl zdiv_mono1)
  moreover have "0 \<le> (?b * n) div d" using False assms by (simp add: pos_imp_zdiv_nonneg_iff mult_nonpos_nonneg)
  moreover have "(a * n) sdiv d = - ((?b * n) div d)"
    using False assms by (cases "n = 0") (simp_all add: signed_divide_int_def sgn_if abs_if mult_less_0_iff zero_less_mult_iff)
  ultimately show ?thesis using False by simp
qed

lemma sdiv_minus_both: "(- u) sdiv (- d) = u sdiv (d::int)"
  by (simp add: signed_divide_int_def)

lemma crossing_between:
  fixes vi vj :: ipoint
  assumes "(snd vi > ty) \<noteq> (snd vj > ty)"
  shows "min (fst vi) (fst vj) \<le> (fst vj - fst vi) * (ty - snd vi) sdiv (snd vj - snd vi) + fst vi"
    "(fst vj - fst vi) * (ty - snd vi) sdiv (snd vj - snd vi) + fst vi \<le> max (fst vi) (fst vj)"
proof -
  let ?a = "fst vj - fst vi" and ?n = "ty - snd vi" and ?d = "snd vj - snd vi"
  have neg: "(?a * ?n) sdiv ?d = (?a * - ?n) sdiv (- ?d)"
    unfolding mult_minus_right sdiv_minus_both ..
  have "min 0 ?a \<le> (?a * ?n) sdiv ?d \<and> (?a * ?n) sdiv ?d \<le> max 0 ?a"
  proof (cases "snd vi > ty")
    case True
    then show ?thesis using assms sdiv_between [of "- ?d" "- ?n" ?a] neg by auto
  next
    case False
    then show ?thesis using assms sdiv_between [of ?d ?n ?a] by auto
  qed
  then show "min (fst vi) (fst vj) \<le> ?a * ?n sdiv ?d + fst vi" "?a * ?n sdiv ?d + fst vi \<le> max (fst vi) (fst vj)"
    by auto
qed

section \<open>The crossing test\<close>

lemma crosses_bounds:
  assumes "crosses vi vj x y"
  shows "x < max (fst vi) (fst vj)" "(snd vi > y) \<noteq> (snd vj > y)"
  using assms crossing_between(2) [of y vi vj] unfolding crosses_def by linarith+

text \<open>Left of every vertex the test counts all crossings, and a closed polygon crosses a line an even number of times.\<close>

lemma pnpoly_loop_left:
  assumes "\<And>v. v \<in> set vs \<union> {vj} \<Longrightarrow> tx < fst v"
  shows "pnpoly_loop vs vj tx ty c = (c \<noteq> ((snd (last (vj # vs)) > ty) \<noteq> (snd vj > ty)))"
  using assms
proof (induction vs arbitrary: vj c)
  case (Cons vi vs)
  have "crosses vi vj tx ty \<longleftrightarrow> ((snd vi > ty) \<noteq> (snd vj > ty))"
    using Cons.prems [of vi] Cons.prems [of vj] crossing_between(1) [of ty vi vj] by (auto simp: crosses_def)
  then show ?case using Cons by auto
qed simp

lemma pnpoly_loop_none:
  assumes "\<And>vi vj'. vi \<in> set vs \<Longrightarrow> vj' \<in> set vs \<union> {vj} \<Longrightarrow> \<not> crosses vi vj' tx ty"
  shows "pnpoly_loop vs vj tx ty c = c"
  using assms by (induction vs arbitrary: vj c) auto

lemma pnpoly_outside:
  assumes "\<And>v. v \<in> set vs \<Longrightarrow> l \<le> fst v \<and> fst v \<le> r \<and> b \<le> snd v \<and> snd v \<le> t"
    and "x < l \<or> x > r \<or> y < b \<or> y > t"
  shows "\<not> pnpoly vs x y"
proof (cases "vs = []")
  case False
  have last: "last vs \<in> set vs" using False by simp
  show ?thesis
  proof (cases "x < l")
    case True
    then have "pnpoly_loop vs (last vs) x y False = ((snd (last (last vs # vs)) > y) \<noteq> (snd (last vs) > y))"
      using assms(1) last by (subst pnpoly_loop_left) (blast intro: less_le_trans, simp)
    then show ?thesis using False by (simp add: pnpoly_def)
  next
    case False
    have "\<not> crosses vi vj x y" if "vi \<in> set vs" "vj \<in> set vs" for vi vj
      using assms(1) [OF that(1)] assms(1) [OF that(2)] assms(2) False crosses_bounds [of vi vj x y] by auto
    then have "pnpoly_loop vs (last vs) x y False = False"
      by (intro pnpoly_loop_none) (use last in blast)
    then show ?thesis by (simp add: pnpoly_def)
  qed
qed (simp add: pnpoly_def)

section \<open>The cache\<close>

definition small :: "int \<Rightarrow> bool" where
  "small x \<longleftrightarrow> 0 \<le> x \<and> x < 2 ^ 16"

lemma pg_lookup_uint: "small x \<Longrightarrow> small y \<Longrightarrow> uint (pg_lookup x y) = x * 2 ^ 16 + y"
proof -
  assume s: "small x" "small y"
  have u: "uint (word_of_int x :: 32 word) = x" "uint (word_of_int y :: 32 word) = y"
    using s by (simp_all add: small_def uint_word_of_int)
  have "uint (pg_lookup x y) = take_bit 32 (push_bit 16 x) OR y"
    unfolding pg_lookup_def unsigned_or_eq unsigned_push_bit_eq u by simp
  also have "take_bit 32 (push_bit 16 x) = push_bit 16 x"
    using s by (intro take_bit_int_eq_self) (auto simp: small_def push_bit_eq_mult)
  also have "push_bit 16 x OR y = push_bit 16 x + y"
  proof (rule disjunctive_add [symmetric])
    have "\<not> bit y n" if "16 \<le> n" for n
      using s(2) that take_bit_int_eq_self [of y 16] by (metis bit_take_bit_iff not_le small_def)
    then show "\<And>n. \<not> bit (push_bit 16 x) n \<or> \<not> bit y n" by (auto simp: bit_push_bit_iff)
  qed
  finally show ?thesis by (simp add: push_bit_eq_mult)
qed

lemma pg_lookup_inj:
  assumes "small x" "small y" "small u" "small v" "pg_lookup x y = pg_lookup u v"
  shows "x = u \<and> y = v"
proof -
  have "x * 2 ^ 16 + y = u * 2 ^ 16 + v" using assms pg_lookup_uint by metis
  then have "(x * 65536 + y) div 65536 = (u * 65536 + v) div 65536" "(x * 65536 + y) mod 65536 = (u * 65536 + v) mod 65536"
    by simp_all
  then show ?thesis using assms(1-4) by (simp add: small_def)
qed

text \<open>Every cached answer for small coordinates is the answer of the crossing test.\<close>

definition cache_ok :: "polygon \<Rightarrow> bool" where
  "cache_ok p \<longleftrightarrow> (\<forall>x y. small x \<and> small y \<longrightarrow>
     (\<forall>b. pointCache p (pg_lookup x y) = Some b \<longrightarrow> b = pnpoly (vertices p) x y))"

lemma pg_query:
  assumes "pg_wf p" "cache_ok p" "small x" "small y"
  shows "fst (pg_enclosesPoint x y p) = pnpoly (vertices p) x y"
    "pg_wf (snd (pg_enclosesPoint x y p))" "cache_ok (snd (pg_enclosesPoint x y p))"
    "vertices (snd (pg_enclosesPoint x y p)) = vertices p" "enclosed (snd (pg_enclosesPoint x y p)) = enclosed p"
proof -
  have zip: "zip (xcoords p) (ycoords p) = vertices p" using assms(1) by (simp add: pg_wf_def zip_map_fst_snd)
  have out: "\<not> pnpoly (vertices p) x y" if "x < left' p \<or> x > right' p \<or> y < bottom' p \<or> y > top' p"
    using pnpoly_outside [OF _ that] pg_bounds [OF assms(1)] by blast
  have upd: "cache_ok (p\<lparr>pointCache := (pointCache p)(pg_lookup x y \<mapsto> pnpoly (vertices p) x y)\<rparr>)"
    unfolding cache_ok_def
  proof (intro allI impI)
    fix u v b assume uv: "small u \<and> small v"
      and b: "pointCache (p\<lparr>pointCache := (pointCache p)(pg_lookup x y \<mapsto> pnpoly (vertices p) x y)\<rparr>) (pg_lookup u v) = Some b"
    show "b = pnpoly (vertices (p\<lparr>pointCache := (pointCache p)(pg_lookup x y \<mapsto> pnpoly (vertices p) x y)\<rparr>)) u v"
      using b uv pg_lookup_inj [OF _ _ assms(3,4), of u v] assms(2) by (auto simp: cache_ok_def split: if_splits)
  qed
  have wf: "pg_wf (p\<lparr>pointCache := c\<rparr>)" for c
    using assms(1) by (simp add: pg_wf_def pg_getLeft_def pg_getRight_def pg_getTop_def pg_getBottom_def)
  note d = pg_enclosesPoint_def
  show "fst (pg_enclosesPoint x y p) = pnpoly (vertices p) x y"
    using out assms by (auto simp: d Let_def zip cache_ok_def split: option.splits)
  show "pg_wf (snd (pg_enclosesPoint x y p))" "cache_ok (snd (pg_enclosesPoint x y p))"
    "vertices (snd (pg_enclosesPoint x y p)) = vertices p" "enclosed (snd (pg_enclosesPoint x y p)) = enclosed p"
    using assms wf upd by (auto simp: d Let_def zip split: option.splits)
qed

fun pg_queries :: "ipoint list \<Rightarrow> polygon \<Rightarrow> polygon" where
  "pg_queries [] p = p"
| "pg_queries ((x, y) # qs) p = pg_queries qs (snd (pg_enclosesPoint x y p))"

lemma pg_queries_inv:
  assumes "pg_wf p" "cache_ok p" "\<And>x y. (x, y) \<in> set qs \<Longrightarrow> small x \<and> small y"
  shows "pg_wf (pg_queries qs p) \<and> cache_ok (pg_queries qs p) \<and> vertices (pg_queries qs p) = vertices p"
  using assms by (induction qs arbitrary: p rule: list.induct) (fastforce simp: pg_query)+

lemma pg_new_ok: "cache_ok (pg_new vs)" "vertices (pg_new vs) = vs" "enclosed (pg_new vs) = []"
  by (simp_all add: cache_ok_def pg_new_def pg_setBounds_def)

lemma pg_scan_enclosed:
  assumes "pg_wf p" "cache_ok p" "\<And>x y. (x, y) \<in> set pts \<Longrightarrow> small x \<and> small y"
  shows "enclosed (pg_scan pts p) = enclosed p @ filter (\<lambda>(x, y). pnpoly (vertices p) x y) pts"
  using assms
proof (induction pts arbitrary: p)
  case (Cons q pts)
  obtain x y where q: "q = (x, y)" by force
  obtain v p1 where e: "pg_enclosesPoint x y p = (v, p1)" by force
  have sm: "small x" "small y" using Cons.prems(3) [of x y] q by auto
  note query = pg_query [OF Cons.prems(1,2) sm, unfolded e fst_conv snd_conv]
  let ?p = "if v then p1\<lparr>enclosed := enclosed p1 @ [(x, y)]\<rparr> else p1"
  have "pg_wf ?p" using query(2) by (simp add: pg_wf_def pg_getLeft_def pg_getRight_def pg_getTop_def pg_getBottom_def)
  moreover have "cache_ok ?p" using query(3) by (simp add: cache_ok_def)
  ultimately have "enclosed (pg_scan pts ?p) = enclosed ?p @ filter (\<lambda>(x, y). pnpoly (vertices ?p) x y) pts"
    using Cons.prems(3) by (intro Cons.IH) auto
  moreover have "pg_scan (q # pts) p = pg_scan pts ?p" by (simp add: pg_scan_def q e)
  ultimately show ?case using query(1,4,5) by (simp add: q)
qed (simp add: pg_scan_def)

section \<open>Properties\<close>

text \<open>
  The bounding box and the cache do not change the answer: after any sequence of queries with
  coordinates below \<open>2^16\<close> on a new polygon, \<open>enclosesPoint\<close> answers what the ray-crossing test answers.
\<close>

theorem encloses_point_correct:
  assumes "list_all (\<lambda>(u, v). small u \<and> small v) qs" and "small x" and "small y"
  shows "fst (pg_enclosesPoint x y (pg_queries qs (pg_new vs))) = pnpoly vs x y"
proof -
  have "\<And>u v. (u, v) \<in> set qs \<Longrightarrow> small u \<and> small v" using assms(1) by (auto simp: list_all_iff)
  then show ?thesis
    using pg_queries_inv [OF pg_new_wf pg_new_ok(1)] pg_query(1) [OF _ _ assms(2,3)] pg_new_ok(2) by metis
qed

theorem encloses_point_correct_witness:
  "fst (pg_enclosesPoint 1 1 (pg_queries [(1, 1), (2, 2)] (pg_new [(0, 0), (4, 0), (4, 4), (0, 4)])))"
  using encloses_point_correct [of "[(1, 1), (2, 2)]" 1 1 "[(0, 0), (4, 0), (4, 4), (0, 4)]"]
  by (simp add: small_def pnpoly_def crosses_def)

text \<open>
  On a new polygon whose vertices have coordinates below \<open>2^16\<close>, \<open>enclosedPoints\<close> lists exactly the
  points the ray-crossing test accepts, each once.
\<close>

theorem enclosed_points_correct:
  assumes "list_all (\<lambda>(u, v). small u \<and> small v) vs"
  shows "set (fst (pg_enclosedPoints (pg_new vs))) = {(x, y). pnpoly vs x y} \<and> distinct (fst (pg_enclosedPoints (pg_new vs)))"
proof -
  let ?p = "pg_new vs"
  let ?pts = "concat (map (\<lambda>i. map (\<lambda>j. (i, j)) [bottom' ?p..top' ?p]) [left' ?p..right' ?p])"
  have wf: "left' ?p = pg_getLeft ?p" "right' ?p = pg_getRight ?p" "top' ?p = pg_getTop ?p" "bottom' ?p = pg_getBottom ?p"
    using pg_new_wf [of vs] by (simp_all add: pg_wf_def)
  have set: "set ?pts = {left' ?p..right' ?p} \<times> {bottom' ?p..top' ?p}" by auto
  have lo: "0 \<le> left' ?p" "0 \<le> bottom' ?p"
    using assms unfolding wf pg_getLeft_def pg_getBottom_def fold_min_key pg_new_ok(2) small_def
    by (auto simp: list_all_iff)
  have hi: "right' ?p < 2 ^ 16" "top' ?p < 2 ^ 16"
    using assms unfolding wf pg_getRight_def pg_getTop_def fold_max_key pg_new_ok(2) small_def
    by (auto simp: list_all_iff)
  have sm: "(x, y) \<in> set ?pts \<Longrightarrow> small x \<and> small y" for x y
    unfolding set using lo hi by (auto simp: small_def)
  have res: "fst (pg_enclosedPoints ?p) = filter (\<lambda>(x, y). pnpoly vs x y) ?pts"
    using pg_scan_enclosed [OF pg_new_wf [of vs] pg_new_ok(1), of ?pts] sm
    unfolding pg_enclosedPoints_def Let_def wf [symmetric] pg_new_ok by simp
  have inside: "pnpoly vs x y \<Longrightarrow> (x, y) \<in> set ?pts" for x y
    unfolding set using pnpoly_outside [of vs "left' ?p" "right' ?p" "bottom' ?p" "top' ?p" x y] pg_bounds [OF pg_new_wf [of vs]]
    by (fastforce simp: pg_new_ok(2))
  have "distinct ?pts"
    unfolding product_concat_map [symmetric] by (intro distinct_product) simp_all
  then show ?thesis unfolding res using inside by auto
qed

theorem enclosed_points_correct_witness:
  "set (fst (pg_enclosedPoints (pg_new [(0, 0), (4, 0), (4, 4), (0, 4)]))) = {(x, y). pnpoly [(0, 0), (4, 0), (4, 4), (0, 4)] x y}"
  using enclosed_points_correct [of "[(0, 0), (4, 0), (4, 4), (0, 4)]"] by (simp add: small_def)

end
