(* ===== verification/RS_Body.thy ===== *)
theory RS_Body
  imports Cmath
begin

text \<open>
  The description of the robot in the walk engine (\<open>src/core/motion/rswalk2014/utils/body.hpp\<close>, \<open>angles.hpp\<close>,
  \<open>clip.hpp\<close>, \<open>basic_maths.hpp\<close>) and the data its parts exchange (\<open>types/ActionCommand.hpp\<close>, \<open>JointValues.hpp\<close>,
  \<open>SensorValues.hpp\<close>, \<open>Odometry.hpp\<close>, \<open>XYZ_Coord.hpp\<close>). The engine has its own enumerations of joints and sensors;
  their constructors have the prefix of the namespace. Arrays with an entry per joint are functions on the joints,
  except for \<open>MaxSpeed\<close>, which has an entry too many and is a list.
\<close>

section \<open>Angles and bounds\<close>

definition DEG2RAD :: "real \<Rightarrow> real" where
  "DEG2RAD x = x * (pi / 180)"

definition RAD2DEG :: "real \<Rightarrow> real" where
  "RAD2DEG x = x * (180 / pi)"

definition NORMALISE :: "real \<Rightarrow> real" where
  "NORMALISE t = (let r = c_fmod (t - pi) (2 * pi) in r + (if r > 0 then - pi else pi))"

definition CLIP :: "real \<Rightarrow> real \<Rightarrow> real \<Rightarrow> real" where
  "CLIP x lowerBound upperBound =
     (if lowerBound \<le> upperBound
      then (if x < lowerBound then lowerBound else if x > upperBound then upperBound else x)
      else (if x < upperBound then upperBound else if x > lowerBound then lowerBound else x))"

definition CLIP1 :: "real \<Rightarrow> real \<Rightarrow> real" where
  "CLIP1 x bound = CLIP x (- bound) bound"

definition rs_crop :: "real \<Rightarrow> real \<Rightarrow> real \<Rightarrow> real" where
  "rs_crop x minimum maximum = (if x < minimum then minimum else if x > maximum then maximum else x)"

definition rs_MAX :: "real \<Rightarrow> real \<Rightarrow> real" where
  "rs_MAX x y = (if x > y then x else y)"

definition rs_MIN :: "real \<Rightarrow> real \<Rightarrow> real" where
  "rs_MIN x y = (if x > y then y else x)"

section \<open>Joints\<close>

datatype rs_joint =
    RS_HeadYaw | RS_HeadPitch | RS_LShoulderPitch | RS_LShoulderRoll | RS_LElbowYaw | RS_LElbowRoll |
    RS_LWristYaw | RS_LHand | RS_LHipYawPitch | RS_LHipRoll | RS_LHipPitch | RS_LKneePitch | RS_LAnklePitch |
    RS_LAnkleRoll | RS_RHipRoll | RS_RHipPitch | RS_RKneePitch | RS_RAnklePitch | RS_RAnkleRoll |
    RS_RShoulderPitch | RS_RShoulderRoll | RS_RElbowYaw | RS_RElbowRoll | RS_RWristYaw | RS_RHand

primrec rs_index :: "rs_joint \<Rightarrow> nat" where
  "rs_index RS_HeadYaw = 0"
| "rs_index RS_HeadPitch = 1"
| "rs_index RS_LShoulderPitch = 2"
| "rs_index RS_LShoulderRoll = 3"
| "rs_index RS_LElbowYaw = 4"
| "rs_index RS_LElbowRoll = 5"
| "rs_index RS_LWristYaw = 6"
| "rs_index RS_LHand = 7"
| "rs_index RS_LHipYawPitch = 8"
| "rs_index RS_LHipRoll = 9"
| "rs_index RS_LHipPitch = 10"
| "rs_index RS_LKneePitch = 11"
| "rs_index RS_LAnklePitch = 12"
| "rs_index RS_LAnkleRoll = 13"
| "rs_index RS_RHipRoll = 14"
| "rs_index RS_RHipPitch = 15"
| "rs_index RS_RKneePitch = 16"
| "rs_index RS_RAnklePitch = 17"
| "rs_index RS_RAnkleRoll = 18"
| "rs_index RS_RShoulderPitch = 19"
| "rs_index RS_RShoulderRoll = 20"
| "rs_index RS_RElbowYaw = 21"
| "rs_index RS_RElbowRoll = 22"
| "rs_index RS_RWristYaw = 23"
| "rs_index RS_RHand = 24"

definition jointCodes :: "rs_joint list" where
  "jointCodes =
    [RS_HeadYaw, RS_HeadPitch, RS_LShoulderPitch, RS_LShoulderRoll, RS_LElbowYaw, RS_LElbowRoll,
     RS_LWristYaw, RS_LHand, RS_LHipYawPitch, RS_LHipRoll, RS_LHipPitch, RS_LKneePitch, RS_LAnklePitch,
     RS_LAnkleRoll, RS_RHipRoll, RS_RHipPitch, RS_RKneePitch, RS_RAnklePitch, RS_RAnkleRoll,
     RS_RShoulderPitch, RS_RShoulderRoll, RS_RElbowYaw, RS_RElbowRoll, RS_RWristYaw, RS_RHand]"

definition rs_jointNames :: "string list" where
  "rs_jointNames =
    [''HeadYaw'', ''HeadPitch'', ''LShoulderPitch'', ''LShoulderRoll'', ''LElbowYaw'', ''LElbowRoll'',
     ''LWristYaw'', ''LHand'', ''LHipYawPitch'', ''LHipRoll'', ''LHipPitch'', ''LKneePitch'',
     ''LAnklePitch'', ''LAnkleRoll'', ''RHipRoll'', ''RHipPitch'', ''RKneePitch'', ''RAnklePitch'',
     ''RAnkleRoll'', ''RShoulderPitch'', ''RShoulderRoll'', ''RElbowYaw'', ''RElbowRoll'', ''RWristYaw'',
     ''RHand'']"

primrec MaxAngle :: "rs_joint \<Rightarrow> real" where
  "MaxAngle RS_HeadYaw = DEG2RAD (1195 / 10)"
| "MaxAngle RS_HeadPitch = DEG2RAD (295 / 10)"
| "MaxAngle RS_LShoulderPitch = DEG2RAD (1195 / 10)"
| "MaxAngle RS_LShoulderRoll = DEG2RAD (76)"
| "MaxAngle RS_LElbowYaw = DEG2RAD (1195 / 10)"
| "MaxAngle RS_LElbowRoll = DEG2RAD (- 2)"
| "MaxAngle RS_LWristYaw = DEG2RAD (1045 / 10)"
| "MaxAngle RS_LHand = 1"
| "MaxAngle RS_LHipYawPitch = DEG2RAD (4244 / 100)"
| "MaxAngle RS_LHipRoll = DEG2RAD (4529 / 100)"
| "MaxAngle RS_LHipPitch = DEG2RAD (2773 / 100)"
| "MaxAngle RS_LKneePitch = DEG2RAD (12104 / 100)"
| "MaxAngle RS_LAnklePitch = DEG2RAD (5286 / 100)"
| "MaxAngle RS_LAnkleRoll = DEG2RAD (4406 / 100)"
| "MaxAngle RS_RHipRoll = DEG2RAD (2376 / 100)"
| "MaxAngle RS_RHipPitch = DEG2RAD (2782 / 100)"
| "MaxAngle RS_RKneePitch = DEG2RAD (12147 / 100)"
| "MaxAngle RS_RAnklePitch = DEG2RAD (534 / 10)"
| "MaxAngle RS_RAnkleRoll = DEG2RAD (2227 / 100)"
| "MaxAngle RS_RShoulderPitch = DEG2RAD (1195 / 10)"
| "MaxAngle RS_RShoulderRoll = DEG2RAD (18)"
| "MaxAngle RS_RElbowYaw = DEG2RAD (1195 / 10)"
| "MaxAngle RS_RElbowRoll = DEG2RAD (885 / 10)"
| "MaxAngle RS_RWristYaw = DEG2RAD (1045 / 10)"
| "MaxAngle RS_RHand = 1"

primrec MinAngle :: "rs_joint \<Rightarrow> real" where
  "MinAngle RS_HeadYaw = DEG2RAD (- (1195 / 10))"
| "MinAngle RS_HeadPitch = DEG2RAD (- (385 / 10))"
| "MinAngle RS_LShoulderPitch = DEG2RAD (- (1195 / 10))"
| "MinAngle RS_LShoulderRoll = DEG2RAD (- 18)"
| "MinAngle RS_LElbowYaw = DEG2RAD (- (1195 / 10))"
| "MinAngle RS_LElbowRoll = DEG2RAD (- (885 / 10))"
| "MinAngle RS_LWristYaw = DEG2RAD (- (1045 / 10))"
| "MinAngle RS_LHand = 0"
| "MinAngle RS_LHipYawPitch = DEG2RAD (- (6562 / 100))"
| "MinAngle RS_LHipRoll = DEG2RAD (- (2174 / 100))"
| "MinAngle RS_LHipPitch = DEG2RAD (- (10163 / 100))"
| "MinAngle RS_LKneePitch = DEG2RAD (- (529 / 100))"
| "MinAngle RS_LAnklePitch = DEG2RAD (- (6815 / 100))"
| "MinAngle RS_LAnkleRoll = DEG2RAD (- (2279 / 100))"
| "MinAngle RS_RHipRoll = DEG2RAD (- (423 / 10))"
| "MinAngle RS_RHipPitch = DEG2RAD (- (10154 / 100))"
| "MinAngle RS_RKneePitch = DEG2RAD (- (59 / 10))"
| "MinAngle RS_RAnklePitch = DEG2RAD (- (6797 / 100))"
| "MinAngle RS_RAnkleRoll = DEG2RAD (- (4503 / 100))"
| "MinAngle RS_RShoulderPitch = DEG2RAD (- (1195 / 10))"
| "MinAngle RS_RShoulderRoll = DEG2RAD (- 76)"
| "MinAngle RS_RElbowYaw = DEG2RAD (- (1195 / 10))"
| "MinAngle RS_RElbowRoll = DEG2RAD (2)"
| "MinAngle RS_RWristYaw = DEG2RAD (- (1045 / 10))"
| "MinAngle RS_RHand = 0"

abbreviation (input) MOTOR1_REDUCTIONA_RAD :: real where "MOTOR1_REDUCTIONA_RAD \<equiv> DEG2RAD (223 / 100)"
abbreviation (input) MOTOR1_REDUCTIONB_RAD :: real where "MOTOR1_REDUCTIONB_RAD \<equiv> DEG2RAD (343 / 100)"
abbreviation (input) MOTOR2_REDUCTIONA_RAD :: real where "MOTOR2_REDUCTIONA_RAD \<equiv> DEG2RAD (896 / 100)"
abbreviation (input) MOTOR2_REDUCTIONB_RAD :: real where "MOTOR2_REDUCTIONB_RAD \<equiv> DEG2RAD (1252 / 100)"
abbreviation (input) MOTOR3_REDUCTIONA_RAD :: real where "MOTOR3_REDUCTIONA_RAD \<equiv> DEG2RAD (385 / 100)"
abbreviation (input) MOTOR3_REDUCTIONB_RAD :: real where "MOTOR3_REDUCTIONB_RAD \<equiv> DEG2RAD (334 / 100)"

definition MaxSpeed :: "real list" where
  "MaxSpeed =
    [MOTOR3_REDUCTIONA_RAD, MOTOR3_REDUCTIONB_RAD, MOTOR3_REDUCTIONA_RAD, MOTOR3_REDUCTIONB_RAD,
     MOTOR3_REDUCTIONA_RAD, MOTOR3_REDUCTIONB_RAD, MOTOR2_REDUCTIONA_RAD, MOTOR2_REDUCTIONB_RAD,
     MOTOR1_REDUCTIONA_RAD, MOTOR1_REDUCTIONA_RAD, MOTOR1_REDUCTIONB_RAD, MOTOR1_REDUCTIONB_RAD,
     MOTOR1_REDUCTIONB_RAD, MOTOR1_REDUCTIONA_RAD, MOTOR1_REDUCTIONA_RAD, MOTOR1_REDUCTIONA_RAD,
     MOTOR1_REDUCTIONB_RAD, MOTOR1_REDUCTIONB_RAD, MOTOR1_REDUCTIONB_RAD, MOTOR1_REDUCTIONA_RAD,
     MOTOR3_REDUCTIONA_RAD, MOTOR3_REDUCTIONB_RAD, MOTOR3_REDUCTIONA_RAD, MOTOR3_REDUCTIONB_RAD,
     MOTOR2_REDUCTIONA_RAD, MOTOR2_REDUCTIONB_RAD]"

definition HeadYawSpeed :: real where "HeadYawSpeed = MOTOR3_REDUCTIONA_RAD"

definition HeadPitchSpeed :: real where "HeadPitchSpeed = MOTOR3_REDUCTIONB_RAD"

definition limitJointRadians :: "rs_joint \<Rightarrow> real \<Rightarrow> real" where
  "limitJointRadians joint angle =
     (if angle > MaxAngle joint then MaxAngle joint else if angle < MinAngle joint then MinAngle joint else angle)"

section \<open>Limbs\<close>

abbreviation (input) ThighLength :: real where "ThighLength \<equiv> 100"
abbreviation (input) TibiaLength :: real where "TibiaLength \<equiv> 10290 / 100"
abbreviation (input) FootHeight :: real where "FootHeight \<equiv> 4519 / 100"

section \<open>Sensors\<close>

datatype rs_sensor =
    RS_InertialSensor_AccX | RS_InertialSensor_AccY | RS_InertialSensor_AccZ | RS_InertialSensor_GyrX |
    RS_InertialSensor_GyrY | RS_InertialSensor_GyrRef | RS_InertialSensor_AngleX | RS_InertialSensor_AngleY |
    RS_InertialSensor_AngleZ | RS_LFoot_FSR_FrontLeft | RS_LFoot_FSR_FrontRight | RS_LFoot_FSR_RearLeft |
    RS_LFoot_FSR_RearRight | RS_LFoot_FSR_CenterOfPressure_X | RS_LFoot_FSR_CenterOfPressure_Y |
    RS_RFoot_FSR_FrontLeft | RS_RFoot_FSR_FrontRight | RS_RFoot_FSR_RearLeft | RS_RFoot_FSR_RearRight |
    RS_RFoot_FSR_CenterOfPressure_X | RS_RFoot_FSR_CenterOfPressure_Y | RS_LFoot_Bumper_Left |
    RS_LFoot_Bumper_Right | RS_RFoot_Bumper_Left | RS_RFoot_Bumper_Right | RS_ChestBoard_Button |
    RS_Battery_Charge | RS_Battery_Current | RS_US

section \<open>Commands\<close>

datatype action_type =
    A_NONE | A_STAND | A_WALK | A_DRIBBLE | A_GETUP_FRONT | A_GETUP_BACK | A_KICK | A_INITIAL | A_RSDEAD |
    A_REF_PICKUP | A_OPEN_FEET | A_THROW_IN | A_GOALIE_SIT | A_GOALIE_DIVE_RIGHT | A_GOALIE_DIVE_LEFT |
    A_GOALIE_CENTRE | A_GOALIE_UNCENTRE | A_GOALIE_STAND | A_GOALIE_INITIAL | A_GOALIE_AFTERSIT_INITIAL |
    A_DEFENDER_CENTRE | A_GOALIE_FAST_SIT | A_GOALIE_PICK_UP | A_MOTION_CALIBRATE | A_STAND_STRAIGHT |
    A_LINE_UP

primrec priorities :: "action_type \<Rightarrow> nat" where
  "priorities A_NONE = 0"
| "priorities A_STAND = 0"
| "priorities A_WALK = 0"
| "priorities A_DRIBBLE = 0"
| "priorities A_GETUP_FRONT = 2"
| "priorities A_GETUP_BACK = 2"
| "priorities A_KICK = 0"
| "priorities A_INITIAL = 2"
| "priorities A_RSDEAD = 1"
| "priorities A_REF_PICKUP = 1"
| "priorities A_OPEN_FEET = 0"
| "priorities A_THROW_IN = 0"
| "priorities A_GOALIE_SIT = 2"
| "priorities A_GOALIE_DIVE_RIGHT = 2"
| "priorities A_GOALIE_DIVE_LEFT = 2"
| "priorities A_GOALIE_CENTRE = 2"
| "priorities A_GOALIE_UNCENTRE = 2"
| "priorities A_GOALIE_STAND = 0"
| "priorities A_GOALIE_INITIAL = 0"
| "priorities A_GOALIE_AFTERSIT_INITIAL = 0"
| "priorities A_DEFENDER_CENTRE = 2"
| "priorities A_GOALIE_FAST_SIT = 2"
| "priorities A_GOALIE_PICK_UP = 2"
| "priorities A_MOTION_CALIBRATE = 0"
| "priorities A_STAND_STRAIGHT = 0"
| "priorities A_LINE_UP = 0"

datatype rs_foot = FOOT_LEFT | FOOT_RIGHT

record body_command =
  actionType :: action_type
  ac_forward :: real
  ac_left :: real
  ac_turn :: real
  ac_power :: real
  ac_bend :: real
  ac_speed :: real
  kickDirection :: real
  ac_foot :: rs_foot
  ac_isFast :: bool
  misalignedKick :: bool

definition body_new :: body_command where
  "body_new = \<lparr>actionType = A_NONE, ac_forward = 0, ac_left = 0, ac_turn = 0, ac_power = 0, ac_bend = 0, ac_speed = 0,
     kickDirection = 0, ac_foot = FOOT_LEFT, ac_isFast = False, misalignedKick = False\<rparr>"

text \<open>The conversion of an action to a command, with the default values of the constructor.\<close>

definition body_of :: "action_type \<Rightarrow> body_command" where
  "body_of a = \<lparr>actionType = a, ac_forward = 0, ac_left = 0, ac_turn = 0, ac_power = 1, ac_bend = 15, ac_speed = 1,
     kickDirection = 0, ac_foot = FOOT_LEFT, ac_isFast = False, misalignedKick = False\<rparr>"

record head_command =
  hd_yaw :: real
  hd_pitch :: real
  hd_isRelative :: bool
  hd_yawSpeed :: real
  hd_pitchSpeed :: real

definition head_new :: head_command where
  "head_new = \<lparr>hd_yaw = 0, hd_pitch = 0, hd_isRelative = True, hd_yawSpeed = 1, hd_pitchSpeed = 1\<rparr>"

text \<open>A request; the walk engine does not look at the lights and the sonar.\<close>

record rs_request =
  rq_head :: head_command
  rq_body :: body_command

section \<open>Joint values, sensor values, odometry\<close>

text \<open>
  An angle that was never assigned is NaN. The robot measures neither the wrists nor the hands, so these four are never assigned when
  joints are read; \<open>jv_nan\<close> says which of them are NaN, and their entry in \<open>jv_angles\<close> then has no meaning. All other angles are measured.
\<close>

record joint_vals =
  jv_angles :: "rs_joint \<Rightarrow> real"
  jv_stiffnesses :: "rs_joint \<Rightarrow> real"
  jv_temperatures :: "rs_joint \<Rightarrow> real"
  jv_nan :: "rs_joint \<Rightarrow> bool"

definition unmeasured :: "rs_joint set" where
  "unmeasured = {RS_LWristYaw, RS_LHand, RS_RWristYaw, RS_RHand}"

definition isnan :: "joint_vals \<Rightarrow> rs_joint \<Rightarrow> bool" where
  "isnan j k = (k \<in> unmeasured \<and> jv_nan j k)"

record sensor_vals =
  sv_joints :: joint_vals
  sv_sensors :: "rs_sensor \<Rightarrow> real"

record rs_odometry =
  ro_forward :: real
  ro_left :: real
  ro_turn :: real

definition ro_new :: "real \<Rightarrow> real \<Rightarrow> real \<Rightarrow> rs_odometry" where
  "ro_new f l t = \<lparr>ro_forward = f, ro_left = l, ro_turn = t\<rparr>"

definition ro_clear :: "rs_odometry \<Rightarrow> rs_odometry" where
  "ro_clear d = d\<lparr>ro_forward := 0, ro_left := 0, ro_turn := 0\<rparr>"

definition ro_plus :: "rs_odometry \<Rightarrow> rs_odometry \<Rightarrow> rs_odometry" where
  "ro_plus a b = ro_new (ro_forward a + ro_forward b) (ro_left a + ro_left b) (ro_turn a + ro_turn b)"

definition ro_minus :: "rs_odometry \<Rightarrow> rs_odometry \<Rightarrow> rs_odometry" where
  "ro_minus a b = ro_new (ro_forward a - ro_forward b) (ro_left a - ro_left b) (ro_turn a - ro_turn b)"

record xyz_coord =
  xc :: real
  yc :: real
  zc :: real

definition xyz_new :: "real \<Rightarrow> real \<Rightarrow> real \<Rightarrow> xyz_coord" where
  "xyz_new x y z = \<lparr>xc = x, yc = y, zc = z\<rparr>"

section \<open>Bounds\<close>

lemma CLIP_bounds:
  "min a b \<le> CLIP x a b" "CLIP x a b \<le> max a b" "min a b \<le> x \<Longrightarrow> x \<le> max a b \<Longrightarrow> CLIP x a b = x"
  by (auto simp: CLIP_def)

lemma CLIP1_abs: "0 \<le> d \<Longrightarrow> \<bar>CLIP1 x d\<bar> \<le> d"
  by (auto simp: CLIP1_def CLIP_def)

lemma rs_crop_bounds: "a \<le> b \<Longrightarrow> a \<le> rs_crop x a b \<and> rs_crop x a b \<le> b"
  by (auto simp: rs_crop_def)

lemma rs_crop_id: "a \<le> x \<Longrightarrow> x \<le> b \<Longrightarrow> rs_crop x a b = x"
  by (auto simp: rs_crop_def)

lemma DEG2RAD_less [simp]: "DEG2RAD a < DEG2RAD b \<longleftrightarrow> a < b"
  by (simp add: DEG2RAD_def)

lemma angle_range: "MinAngle j < MaxAngle j"
  by (cases j) simp_all

lemma limitJointRadians_bounds: "MinAngle j \<le> limitJointRadians j a \<and> limitJointRadians j a \<le> MaxAngle j"
  using angle_range [of j] by (auto simp: limitJointRadians_def)

lemma length_MaxSpeed: "length MaxSpeed = 26"
  by (simp add: MaxSpeed_def)

lemma rs_index_less: "rs_index j < 25"
  by (cases j) simp_all

lemma MaxSpeed_pos: "0 < MaxSpeed ! rs_index j"
  by (cases j) (simp_all add: MaxSpeed_def DEG2RAD_def)

end
