(* ===== verification/Walk_Geometry.thy ===== *)
theory Walk_Geometry
  imports RS_Body
begin

text \<open>
  The geometry of the walk engine (\<open>src/core/motion/rswalk2014/Walk2014Generator.cpp\<close>): the functions that shape a step
  over time, the transformation from the foot to the body, and the correction of the hip angles that keeps a foot in place while
  the hip turns. The transformation and the correction are machine-generated formulas in the source. Shown are that
  the first is the chain of the six rotations of the leg, that the matrix in the second is its Jacobian, and that the second is
  the damped least-squares step.
\<close>

section \<open>Shapes of a step\<close>

definition linearStep :: "real \<Rightarrow> real \<Rightarrow> real" where
  "linearStep time period = (if time \<le> 0 then 0 else if time \<ge> period then 1 else time / period)"

definition parabolicReturn :: "real \<Rightarrow> real" where
  "parabolicReturn f =
     (let y = 0;
          y = (if f < 1 / 4 then 8 * f * f else y);
          y = (if f \<ge> 1 / 4 \<and> f < 1 / 2 then (let x = 1 / 2 - f; y = 8 * x * x in 1 - y) else y);
          y = (if f \<ge> 1 / 2 \<and> f < 3 / 4 then (let x = f - 1 / 2; y = 8 * x * x in 1 - y) else y);
          y = (if f \<ge> 3 / 4 \<and> f \<le> 1 then (let x = 1 - f in 8 * x * x) else y)
      in y)"

definition parabolicStep :: "real \<Rightarrow> real \<Rightarrow> real \<Rightarrow> real \<Rightarrow> real" where
  "parabolicStep dt time period deadTimeFraction =
     (let deadTime = period * deadTimeFraction / 2
      in if time < deadTime + dt / 2 then 0
         else if time > period - deadTime - dt / 2 then 1
         else let timeFraction = (time - deadTime) / (period - 2 * deadTime)
              in if time < period / 2 then 2 * timeFraction * timeFraction
                 else 4 * timeFraction - 2 * timeFraction * timeFraction - 1)"

definition interpolateSmooth :: "real \<Rightarrow> real \<Rightarrow> real \<Rightarrow> real \<Rightarrow> real" where
  "interpolateSmooth start stop tCurrent tEnd = start + (stop - start) * (1 + cos (pi * tCurrent / tEnd - pi)) / 2"

section \<open>From the foot to the body\<close>

text \<open>What depends on the six angles of a leg: hip yaw-pitch, hip pitch and roll, knee pitch, ankle pitch and roll.\<close>

type_synonym 'a of_leg = "real \<Rightarrow> real \<Rightarrow> real \<Rightarrow> real \<Rightarrow> real \<Rightarrow> real \<Rightarrow> 'a"

definition mf2b :: "real \<Rightarrow> real \<Rightarrow> (real \<Rightarrow> real \<Rightarrow> real \<Rightarrow> xyz_coord) of_leg" where
  "mf2b thigh tibia Hyp Hp Hr Kp Ap Ar xf yf zf =
     (let tibia = tibia * 1000;
          thigh = thigh * 1000;
          k = sqrt 2;
          c1 = cos (Ap);
          c2 = cos (Hr + pi / 4);
          c3 = cos (Hyp - pi / 2);
          c4 = cos (Hp);
          c5 = cos (Kp);
          c6 = cos (Ar - pi / 2);
          s1 = sin (Kp);
          s2 = sin (Hp);
          s3 = sin (Hyp - 1 / 2 * pi);
          s4 = sin (Hr + 1 / 4 * pi);
          s5 = sin (Ap);
          s6 = sin (Ar - 1 / 2 * pi);
          x = thigh * (s2 * s3 - c2 * c3 * c4) + tibia * (s1 * (c4 * s3 + c2 * c3 * s2) + c5 * (s2 * s3 - c2 * c3 * c4))
            - yf * (c6 * (c1 * (s1 * (c4 * s3 + c2 * c3 * s2) + c5 * (s2 * s3 - c2 * c3 * c4)) - s5 * (s1 * (s2 * s3 -
            c2 * c3 * c4) - c5 * (c4 * s3 + c2 * c3 * s2))) + c3 * s4 * s6) + zf * (s6 * (c1 * (s1 * (c4 * s3 + c2 * c3
            * s2) + c5 * (s2 * s3 - c2 * c3 * c4)) - s5 * (s1 * (s2 * s3 - c2 * c3 * c4) - c5 * (c4 * s3 + c2 * c3 *
            s2))) - c3 * c6 * s4) + xf * (c1 * (s1 * (s2 * s3 - c2 * c3 * c4) - c5 * (c4 * s3 + c2 * c3 * s2)) + s5 *
            (s1 * (c4 * s3 + c2 * c3 * s2) + c5 * (s2 * s3 - c2 * c3 * c4)));
          y = xf * (c1 * (c5 * (s2 * ((k * s4) / 2 + (c2 * k * s3) / 2) - (c3 * c4 * k) / 2) + s1 * (c4 * ((k * s4) / 2 +
            (c2 * k * s3) / 2) + (c3 * k * s2) / 2)) + s5 * (c5 * (c4 * ((k * s4) / 2 + (c2 * k * s3) / 2) + (c3 * k *
            s2) / 2) - s1 * (s2 * ((k * s4) / 2 + (c2 * k * s3) / 2) - (c3 * c4 * k) / 2))) + tibia * (c5 * (c4 * ((k *
            s4) / 2 + (c2 * k * s3) / 2) + (c3 * k * s2) / 2) - s1 * (s2 * ((k * s4) / 2 + (c2 * k * s3) / 2) - (c3 *
            c4 * k) / 2)) + thigh * (c4 * ((k * s4) / 2 + (c2 * k * s3) / 2) + (c3 * k * s2) / 2) - yf * (s6 * ((c2 *
            k) / 2 - (k * s3 * s4) / 2) + c6 * (c1 * (c5 * (c4 * ((k * s4) / 2 + (c2 * k * s3) / 2) + (c3 * k * s2) /
            2) - s1 * (s2 * ((k * s4) / 2 + (c2 * k * s3) / 2) - (c3 * c4 * k) / 2)) - s5 * (c5 * (s2 * ((k * s4) / 2 +
            (c2 * k * s3) / 2) - (c3 * c4 * k) / 2) + s1 * (c4 * ((k * s4) / 2 + (c2 * k * s3) / 2) + (c3 * k * s2) /
            2)))) - zf * (c6 * ((c2 * k) / 2 - (k * s3 * s4) / 2) - s6 * (c1 * (c5 * (c4 * ((k * s4) / 2 + (c2 * k *
            s3) / 2) + (c3 * k * s2) / 2) - s1 * (s2 * ((k * s4) / 2 + (c2 * k * s3) / 2) - (c3 * c4 * k) / 2)) - s5 *
            (c5 * (s2 * ((k * s4) / 2 + (c2 * k * s3) / 2) - (c3 * c4 * k) / 2) + s1 * (c4 * ((k * s4) / 2 + (c2 * k *
            s3) / 2) + (c3 * k * s2) / 2))));
          z = yf * (s6 * ((c2 * k) / 2 + (k * s3 * s4) / 2) + c6 * (c1 * (c5 * (c4 * ((k * s4) / 2 - (c2 * k * s3) / 2) -
            (c3 * k * s2) / 2) - s1 * (s2 * ((k * s4) / 2 - (c2 * k * s3) / 2) + (c3 * c4 * k) / 2)) - s5 * (c5 * (s2 *
            ((k * s4) / 2 - (c2 * k * s3) / 2) + (c3 * c4 * k) / 2) + s1 * (c4 * ((k * s4) / 2 - (c2 * k * s3) / 2) -
            (c3 * k * s2) / 2)))) - tibia * (c5 * (c4 * ((k * s4) / 2 - (c2 * k * s3) / 2) - (c3 * k * s2) / 2) - s1 *
            (s2 * ((k * s4) / 2 - (c2 * k * s3) / 2) + (c3 * c4 * k) / 2)) - thigh * (c4 * ((k * s4) / 2 - (c2 * k *
            s3) / 2) - (c3 * k * s2) / 2) - xf * (c1 * (c5 * (s2 * ((k * s4) / 2 - (c2 * k * s3) / 2) + (c3 * c4 * k) /
            2) + s1 * (c4 * ((k * s4) / 2 - (c2 * k * s3) / 2) - (c3 * k * s2) / 2)) + s5 * (c5 * (c4 * ((k * s4) / 2 -
            (c2 * k * s3) / 2) - (c3 * k * s2) / 2) - s1 * (s2 * ((k * s4) / 2 - (c2 * k * s3) / 2) + (c3 * c4 * k) /
            2))) + zf * (c6 * ((c2 * k) / 2 + (k * s3 * s4) / 2) - s6 * (c1 * (c5 * (c4 * ((k * s4) / 2 - (c2 * k * s3)
            / 2) - (c3 * k * s2) / 2) - s1 * (s2 * ((k * s4) / 2 - (c2 * k * s3) / 2) + (c3 * c4 * k) / 2)) - s5 * (c5
            * (s2 * ((k * s4) / 2 - (c2 * k * s3) / 2) + (c3 * c4 * k) / 2) + s1 * (c4 * ((k * s4) / 2 - (c2 * k * s3)
            / 2) - (c3 * k * s2) / 2))))
      in xyz_new x y z)"

text \<open>The derivatives of the three coordinates by the hip pitch and by the hip roll.\<close>

record jacobian =
  j11 :: real
  j12 :: real
  j21 :: real
  j22 :: real
  j31 :: real
  j32 :: real

definition hipJacobian :: "real \<Rightarrow> real \<Rightarrow> (real \<Rightarrow> real \<Rightarrow> real \<Rightarrow> jacobian) of_leg" where
  "hipJacobian thigh tibia Hyp Hp Hr Kp Ap Ar xf yf zf =
     (let tibia = tibia * 1000;
          thigh = thigh * 1000;
          k = sqrt 2;
          c1 = cos (Ap);
          c2 = cos (Hr + pi / 4);
          c3 = cos (Hyp - pi / 2);
          c4 = cos (Hp);
          c5 = cos (Kp);
          c6 = cos (Ar - pi / 2);
          s1 = sin (Kp);
          s2 = sin (Hp);
          s3 = sin (Hyp - 1 / 2 * pi);
          s4 = sin (Hr + 1 / 4 * pi);
          s5 = sin (Ap);
          s6 = sin (Ar - 1 / 2 * pi);
          v11 = thigh * (c4 * s3 + c2 * c3 * s2) - tibia * (s1 * (s2 * s3 - c2 * c3 * c4) - c5 * (c4 * s3 + c2 * c3 * s2))
            + xf * (c1 * (s1 * (c4 * s3 + c2 * c3 * s2) + c5 * (s2 * s3 - c2 * c3 * c4)) - s5 * (s1 * (s2 * s3 - c2 *
            c3 * c4) - c5 * (c4 * s3 + c2 * c3 * s2))) + c6 * yf * (c1 * (s1 * (s2 * s3 - c2 * c3 * c4) - c5 * (c4 * s3
            + c2 * c3 * s2)) + s5 * (s1 * (c4 * s3 + c2 * c3 * s2) + c5 * (s2 * s3 - c2 * c3 * c4))) - s6 * zf * (c1 *
            (s1 * (s2 * s3 - c2 * c3 * c4) - c5 * (c4 * s3 + c2 * c3 * s2)) + s5 * (s1 * (c4 * s3 + c2 * c3 * s2) + c5
            * (s2 * s3 - c2 * c3 * c4)));
          v12 = yf * (c6 * (c1 * (c3 * s1 * s2 * s4 - c3 * c4 * c5 * s4) + s5 * (c3 * c4 * s1 * s4 + c3 * c5 * s2 * s4)) -
            c2 * c3 * s6) - tibia * (c3 * s1 * s2 * s4 - c3 * c4 * c5 * s4) - zf * (s6 * (c1 * (c3 * s1 * s2 * s4 - c3
            * c4 * c5 * s4) + s5 * (c3 * c4 * s1 * s4 + c3 * c5 * s2 * s4)) + c2 * c3 * c6) + xf * (c1 * (c3 * c4 * s1
            * s4 + c3 * c5 * s2 * s4) - s5 * (c3 * s1 * s2 * s4 - c3 * c4 * c5 * s4)) + c3 * c4 * s4 * thigh;
          v21 = xf * (c1 * (c5 * (c4 * ((k * s4) / 2 + (c2 * k * s3) / 2) + (c3 * k * s2) / 2) - s1 * (s2 * ((k * s4) / 2 +
            (c2 * k * s3) / 2) - (c3 * c4 * k) / 2)) - s5 * (c5 * (s2 * ((k * s4) / 2 + (c2 * k * s3) / 2) - (c3 * c4 *
            k) / 2) + s1 * (c4 * ((k * s4) / 2 + (c2 * k * s3) / 2) + (c3 * k * s2) / 2))) - tibia * (c5 * (s2 * ((k *
            s4) / 2 + (c2 * k * s3) / 2) - (c3 * c4 * k) / 2) + s1 * (c4 * ((k * s4) / 2 + (c2 * k * s3) / 2) + (c3 * k
            * s2) / 2)) - thigh * (s2 * ((k * s4) / 2 + (c2 * k * s3) / 2) - (c3 * c4 * k) / 2) + c6 * yf * (c1 * (c5 *
            (s2 * ((k * s4) / 2 + (c2 * k * s3) / 2) - (c3 * c4 * k) / 2) + s1 * (c4 * ((k * s4) / 2 + (c2 * k * s3) /
            2) + (c3 * k * s2) / 2)) + s5 * (c5 * (c4 * ((k * s4) / 2 + (c2 * k * s3) / 2) + (c3 * k * s2) / 2) - s1 *
            (s2 * ((k * s4) / 2 + (c2 * k * s3) / 2) - (c3 * c4 * k) / 2))) - s6 * zf * (c1 * (c5 * (s2 * ((k * s4) / 2
            + (c2 * k * s3) / 2) - (c3 * c4 * k) / 2) + s1 * (c4 * ((k * s4) / 2 + (c2 * k * s3) / 2) + (c3 * k * s2) /
            2)) + s5 * (c5 * (c4 * ((k * s4) / 2 + (c2 * k * s3) / 2) + (c3 * k * s2) / 2) - s1 * (s2 * ((k * s4) / 2 +
            (c2 * k * s3) / 2) - (c3 * c4 * k) / 2)));
          v22 = tibia * (c4 * c5 * ((c2 * k) / 2 - (k * s3 * s4) / 2) - s1 * s2 * ((c2 * k) / 2 - (k * s3 * s4) / 2)) + xf
            * (c1 * (c4 * s1 * ((c2 * k) / 2 - (k * s3 * s4) / 2) + c5 * s2 * ((c2 * k) / 2 - (k * s3 * s4) / 2)) + s5
            * (c4 * c5 * ((c2 * k) / 2 - (k * s3 * s4) / 2) - s1 * s2 * ((c2 * k) / 2 - (k * s3 * s4) / 2))) + yf * (s6
            * ((k * s4) / 2 + (c2 * k * s3) / 2) - c6 * (c1 * (c4 * c5 * ((c2 * k) / 2 - (k * s3 * s4) / 2) - s1 * s2 *
            ((c2 * k) / 2 - (k * s3 * s4) / 2)) - s5 * (c4 * s1 * ((c2 * k) / 2 - (k * s3 * s4) / 2) + c5 * s2 * ((c2 *
            k) / 2 - (k * s3 * s4) / 2)))) + zf * (c6 * ((k * s4) / 2 + (c2 * k * s3) / 2) + s6 * (c1 * (c4 * c5 * ((c2
            * k) / 2 - (k * s3 * s4) / 2) - s1 * s2 * ((c2 * k) / 2 - (k * s3 * s4) / 2)) - s5 * (c4 * s1 * ((c2 * k) /
            2 - (k * s3 * s4) / 2) + c5 * s2 * ((c2 * k) / 2 - (k * s3 * s4) / 2)))) + c4 * thigh * ((c2 * k) / 2 - (k
            * s3 * s4) / 2);
          v31 = tibia * (c5 * (s2 * ((k * s4) / 2 - (c2 * k * s3) / 2) + (c3 * c4 * k) / 2) + s1 * (c4 * ((k * s4) / 2 -
            (c2 * k * s3) / 2) - (c3 * k * s2) / 2)) - xf * (c1 * (c5 * (c4 * ((k * s4) / 2 - (c2 * k * s3) / 2) - (c3
            * k * s2) / 2) - s1 * (s2 * ((k * s4) / 2 - (c2 * k * s3) / 2) + (c3 * c4 * k) / 2)) - s5 * (c5 * (s2 * ((k
            * s4) / 2 - (c2 * k * s3) / 2) + (c3 * c4 * k) / 2) + s1 * (c4 * ((k * s4) / 2 - (c2 * k * s3) / 2) - (c3 *
            k * s2) / 2))) + thigh * (s2 * ((k * s4) / 2 - (c2 * k * s3) / 2) + (c3 * c4 * k) / 2) - c6 * yf * (c1 *
            (c5 * (s2 * ((k * s4) / 2 - (c2 * k * s3) / 2) + (c3 * c4 * k) / 2) + s1 * (c4 * ((k * s4) / 2 - (c2 * k *
            s3) / 2) - (c3 * k * s2) / 2)) + s5 * (c5 * (c4 * ((k * s4) / 2 - (c2 * k * s3) / 2) - (c3 * k * s2) / 2) -
            s1 * (s2 * ((k * s4) / 2 - (c2 * k * s3) / 2) + (c3 * c4 * k) / 2))) + s6 * zf * (c1 * (c5 * (s2 * ((k *
            s4) / 2 - (c2 * k * s3) / 2) + (c3 * c4 * k) / 2) + s1 * (c4 * ((k * s4) / 2 - (c2 * k * s3) / 2) - (c3 * k
            * s2) / 2)) + s5 * (c5 * (c4 * ((k * s4) / 2 - (c2 * k * s3) / 2) - (c3 * k * s2) / 2) - s1 * (s2 * ((k *
            s4) / 2 - (c2 * k * s3) / 2) + (c3 * c4 * k) / 2)));
          v32 = -tibia * (c4 * c5 * ((c2 * k) / 2 + (k * s3 * s4) / 2) - s1 * s2 * ((c2 * k) / 2 + (k * s3 * s4) / 2)) - xf
            * (c1 * (c4 * s1 * ((c2 * k) / 2 + (k * s3 * s4) / 2) + c5 * s2 * ((c2 * k) / 2 + (k * s3 * s4) / 2)) + s5
            * (c4 * c5 * ((c2 * k) / 2 + (k * s3 * s4) / 2) - s1 * s2 * ((c2 * k) / 2 + (k * s3 * s4) / 2))) - yf * (s6
            * ((k * s4) / 2 - (c2 * k * s3) / 2) - c6 * (c1 * (c4 * c5 * ((c2 * k) / 2 + (k * s3 * s4) / 2) - s1 * s2 *
            ((c2 * k) / 2 + (k * s3 * s4) / 2)) - s5 * (c4 * s1 * ((c2 * k) / 2 + (k * s3 * s4) / 2) + c5 * s2 * ((c2 *
            k) / 2 + (k * s3 * s4) / 2)))) - zf * (c6 * ((k * s4) / 2 - (c2 * k * s3) / 2) + s6 * (c1 * (c4 * c5 * ((c2
            * k) / 2 + (k * s3 * s4) / 2) - s1 * s2 * ((c2 * k) / 2 + (k * s3 * s4) / 2)) - s5 * (c4 * s1 * ((c2 * k) /
            2 + (k * s3 * s4) / 2) + c5 * s2 * ((c2 * k) / 2 + (k * s3 * s4) / 2)))) - c4 * thigh * ((c2 * k) / 2 + (k
            * s3 * s4) / 2)
      in \<lparr>j11 = v11, j12 = v12, j21 = v21, j22 = v22, j31 = v31, j32 = v32\<rparr>)"

text \<open>The corrections of hip pitch and hip roll.\<close>

definition hipAngles_of :: "jacobian \<Rightarrow> xyz_coord \<Rightarrow> real \<times> real" where
  "hipAngles_of J e =
     (let j11 = j11 J; j12 = j12 J; j21 = j21 J; j22 = j22 J; j31 = j31 J; j32 = j32 J;
          xbe = xc e; ybe = yc e; zbe = zc e;
          lambda = 4 / 10; la2 = lambda * lambda; la4 = la2 * la2;
          j322 = j32 * j32; j222 = j22 * j22; j122 = j12 * j12; j212 = j21 * j21; j112 = j11 * j11; j312 = j31 * j31;
          sigma = 1 / (la4 + j112 * j222 + j122 * j212 + j112 * j322 + j122 * j312 + j212 * j322 + j222 * j312 + j112 * la2 +
            j122 * la2 + j212 * la2 + j222 * la2 + j312 * la2 + j322 * la2 - 2 * j11 * j12 * j21 * j22 - 2 * j11 * j12
            * j31 * j32 - 2 * j21 * j22 * j31 * j32)
      in (sigma * xbe * (j11 * j222 + j11 * j322 + j11 * la2 - j12 * j21 * j22 - j12 * j31 * j32) + sigma * ybe *
            (j122 * j21 + j21 * j322 + j21 * la2 - j11 * j12 * j22 - j22 * j31 * j32) + sigma * zbe * (j122 * j31 +
            j222 * j31 + j31 * la2 - j11 * j12 * j32 - j21 * j22 * j32),
          sigma * xbe * (j12 * j212 + j12 * j312 + j12 * la2 - j11 * j21 * j22 - j11 * j31 * j32) + sigma * ybe *
            (j112 * j22 + j22 * j312 + j22 * la2 - j11 * j12 * j21 - j21 * j31 * j32) + sigma * zbe * (j112 * j32 +
            j212 * j32 + j32 * la2 - j11 * j12 * j31 - j21 * j22 * j31)))"

definition hipAngles :: "real \<Rightarrow> real \<Rightarrow> (real \<Rightarrow> real \<Rightarrow> real \<Rightarrow> xyz_coord \<Rightarrow> real \<times> real) of_leg" where
  "hipAngles thigh tibia Hyp Hp Hr Kp Ap Ar xf yf zf e = hipAngles_of (hipJacobian thigh tibia Hyp Hp Hr Kp Ap Ar xf yf zf) e"

section \<open>The chain of rotations\<close>

text \<open>
  A point of the foot is turned by the ankle roll and pitch, moved up the tibia, turned by the knee, moved up the
  thigh, and turned by hip pitch, hip roll and hip yaw-pitch, the axis of which is inclined by 45 degrees. A joint
  turns two of the three coordinates.
\<close>

definition hip_frame :: "real \<Rightarrow> real \<Rightarrow> real \<Rightarrow> real \<Rightarrow> real \<Rightarrow> real \<Rightarrow> real \<Rightarrow> real \<Rightarrow> real \<times> real \<times> real" where
  "hip_frame thigh tibia Kp Ap Ar xf yf zf =
     (let p = sin (Ar - pi / 2) * zf - cos (Ar - pi / 2) * yf;
          w = - (sin (Ar - pi / 2) * yf) - cos (Ar - pi / 2) * zf;
          l = tibia * 1000 + (cos Ap * p + sin Ap * xf);
          m = cos Ap * xf - sin Ap * p;
          a = thigh * 1000 + (cos Kp * l + sin Kp * m);
          b = sin Kp * l - cos Kp * m
      in (a, b, w))"

definition leg_chain :: "real \<Rightarrow> real \<Rightarrow> (real \<Rightarrow> real \<Rightarrow> real \<Rightarrow> xyz_coord) of_leg" where
  "leg_chain thigh tibia Hyp Hp Hr Kp Ap Ar xf yf zf =
     (let (a, b, w) = hip_frame thigh tibia Kp Ap Ar xf yf zf;
          g = sin Hp * a + cos Hp * b; h = sin Hp * b - cos Hp * a;
          u = cos (Hr + pi / 4) * h + sin (Hr + pi / 4) * w; v = sin (Hr + pi / 4) * h - cos (Hr + pi / 4) * w;
          x = cos (Hyp - pi / 2) * u + sin (Hyp - pi / 2) * g; n = cos (Hyp - pi / 2) * g - sin (Hyp - pi / 2) * u
      in xyz_new x (sqrt 2 / 2 * (n - v)) (sqrt 2 / 2 * (n + v)))"

text \<open>The same in the coordinates in the hip, as linear combinations.\<close>

definition hip_to_body :: "real \<Rightarrow> real \<Rightarrow> real \<Rightarrow> real \<Rightarrow> real \<Rightarrow> real \<Rightarrow> xyz_coord" where
  "hip_to_body Hyp Hp Hr a b w =
     (let c2 = cos (Hr + pi / 4); s4 = sin (Hr + pi / 4); c3 = cos (Hyp - pi / 2); s3 = sin (Hyp - pi / 2);
          c4 = cos Hp; s2 = sin Hp; k = sqrt 2
      in xyz_new (a * (s2 * s3 - c2 * c3 * c4) + b * (c4 * s3 + c2 * c3 * s2) + w * (c3 * s4))
           (a * (c4 * ((k * s4) / 2 + (c2 * k * s3) / 2) + (c3 * k * s2) / 2)
            + b * - (s2 * ((k * s4) / 2 + (c2 * k * s3) / 2) - (c3 * c4 * k) / 2) + w * ((c2 * k) / 2 - (k * s3 * s4) / 2))
           (a * - (c4 * ((k * s4) / 2 - (c2 * k * s3) / 2) - (c3 * k * s2) / 2)
            + b * (s2 * ((k * s4) / 2 - (c2 * k * s3) / 2) + (c3 * c4 * k) / 2) + w * - ((c2 * k) / 2 + (k * s3 * s4) / 2)))"

lemma half_pi: "1 / 2 * pi = pi / 2" "1 / 4 * pi = pi / 4"
  by simp_all

text \<open>
  A coordinate of the chain is a combination of the coordinates in the hip, which does not depend on the angles of the hip.
\<close>

lemma hip_frame_coord:
  assumes "hip_frame thigh tibia Kp Ap Ar xf yf zf = (a, b, w)"
  defines "L \<equiv> \<lambda>A B. cos Kp * A + sin Kp * B" and "M \<equiv> \<lambda>A B. sin Kp * A - cos Kp * (B :: real)"
  shows "thigh * 1000 * A + tibia * 1000 * L A B
      - yf * (cos (Ar - pi / 2) * (cos Ap * L A B - sin Ap * M A B) + sin (Ar - pi / 2) * W)
      + zf * (sin (Ar - pi / 2) * (cos Ap * L A B - sin Ap * M A B) - cos (Ar - pi / 2) * W)
      + xf * (cos Ap * M A B + sin Ap * L A B) = a * A + b * B + w * W"
proof -
  have "a = thigh * 1000 + (cos Kp * (tibia * 1000 + (cos Ap * (sin (Ar - pi / 2) * zf - cos (Ar - pi / 2) * yf) + sin Ap * xf)) +
      sin Kp * (cos Ap * xf - sin Ap * (sin (Ar - pi / 2) * zf - cos (Ar - pi / 2) * yf)))"
    "b = sin Kp * (tibia * 1000 + (cos Ap * (sin (Ar - pi / 2) * zf - cos (Ar - pi / 2) * yf) + sin Ap * xf)) -
      cos Kp * (cos Ap * xf - sin Ap * (sin (Ar - pi / 2) * zf - cos (Ar - pi / 2) * yf))"
    "w = - (sin (Ar - pi / 2) * yf) - cos (Ar - pi / 2) * zf"
    using assms(1) by (simp_all add: hip_frame_def Let_def)
  then show ?thesis unfolding L_def M_def by (simp only:) (simp add: algebra_simps)
qed

lemma mf2b_coords:
  fixes thigh tibia Hyp Hp Hr Kp Ap Ar xf yf zf a b w :: real
  assumes h: "hip_frame thigh tibia Kp Ap Ar xf yf zf = (a, b, w)"
  shows "mf2b thigh tibia Hyp Hp Hr Kp Ap Ar xf yf zf = hip_to_body Hyp Hp Hr a b w"
proof -
  define c2 s4 c3 s3 where "c2 = cos (Hr + pi / 4)" and "s4 = sin (Hr + pi / 4)" and "c3 = cos (Hyp - pi / 2)" and "s3 = sin (Hyp - pi / 2)"
  note coord = hip_frame_coord [OF h] and c = this
  show ?thesis
    unfolding hip_to_body_def coord [symmetric] mf2b_def Let_def half_pi c [symmetric]
    by (rule arg_cong3 [where f = xyz_new]) (simp_all add: algebra_simps)
qed

text \<open>C9: The formula of the source is the chain of rotations.\<close>

theorem mf2b_is_leg_chain:
  "mf2b thigh tibia Hyp Hp Hr Kp Ap Ar xf yf zf = leg_chain thigh tibia Hyp Hp Hr Kp Ap Ar xf yf zf"
proof -
  obtain a b w where h: "hip_frame thigh tibia Kp Ap Ar xf yf zf = (a, b, w)" by (metis prod_cases3)
  show ?thesis unfolding mf2b_coords [OF h] leg_chain_def hip_to_body_def
    by (simp add: h Let_def xyz_new_def algebra_simps)
qed

section \<open>The Jacobian\<close>

definition hip_jacobian :: "real \<Rightarrow> real \<Rightarrow> real \<Rightarrow> real \<Rightarrow> real \<Rightarrow> real \<Rightarrow> jacobian" where
  "hip_jacobian Hyp Hp Hr a b w =
     (let c2 = cos (Hr + pi / 4); s4 = sin (Hr + pi / 4); c3 = cos (Hyp - pi / 2); s3 = sin (Hyp - pi / 2);
          c4 = cos Hp; s2 = sin Hp; k = sqrt 2
      in \<lparr>j11 = a * (c4 * s3 + c2 * c3 * s2) + b * (c2 * c3 * c4 - s2 * s3) + w * 0,
          j12 = a * (s4 * c3 * c4) + b * - (s4 * c3 * s2) + w * (c3 * c2),
          j21 = a * - (s2 * ((k * s4) / 2 + (c2 * k * s3) / 2) - (c3 * c4 * k) / 2)
            + b * - (c4 * ((k * s4) / 2 + (c2 * k * s3) / 2) + (c3 * s2 * k) / 2) + w * 0,
          j22 = a * (c4 * ((k * c2) / 2 - (s4 * k * s3) / 2)) + b * - (s2 * ((k * c2) / 2 - (s4 * k * s3) / 2))
            + w * - ((s4 * k) / 2 + (k * s3 * c2) / 2),
          j31 = a * (s2 * ((k * s4) / 2 - (c2 * k * s3) / 2) + (c3 * k * c4) / 2)
            + b * (c4 * ((k * s4) / 2 - (c2 * k * s3) / 2) - (c3 * s2 * k) / 2) + w * 0,
          j32 = a * - (c4 * ((k * c2) / 2 + (s4 * k * s3) / 2)) + b * (s2 * ((k * c2) / 2 + (s4 * k * s3) / 2))
            + w * ((s4 * k) / 2 - (k * s3 * c2) / 2)\<rparr>)"

lemma hipJacobian_coords:
  fixes thigh tibia Hyp Hp Hr Kp Ap Ar xf yf zf a b w :: real
  assumes h: "hip_frame thigh tibia Kp Ap Ar xf yf zf = (a, b, w)"
  shows "hipJacobian thigh tibia Hyp Hp Hr Kp Ap Ar xf yf zf = hip_jacobian Hyp Hp Hr a b w"
proof -
  define c2 s4 c3 s3 where "c2 = cos (Hr + pi / 4)" and "s4 = sin (Hr + pi / 4)" and "c3 = cos (Hyp - pi / 2)" and "s3 = sin (Hyp - pi / 2)"
  note coord = hip_frame_coord [OF h] and c = this
  show ?thesis
    unfolding hip_jacobian_def coord [symmetric] hipJacobian_def Let_def half_pi c [symmetric]
    by (rule jacobian.equality) (simp_all add: algebra_simps)
qed

lemma hip_to_body_derivatives:
  "((\<lambda>p. xc (hip_to_body Hyp p Hr a b w)) has_real_derivative j11 (hip_jacobian Hyp Hp Hr a b w)) (at Hp)"
  "((\<lambda>p. yc (hip_to_body Hyp p Hr a b w)) has_real_derivative j21 (hip_jacobian Hyp Hp Hr a b w)) (at Hp)"
  "((\<lambda>p. zc (hip_to_body Hyp p Hr a b w)) has_real_derivative j31 (hip_jacobian Hyp Hp Hr a b w)) (at Hp)"
  "((\<lambda>r. xc (hip_to_body Hyp Hp r a b w)) has_real_derivative j12 (hip_jacobian Hyp Hp Hr a b w)) (at Hr)"
  "((\<lambda>r. yc (hip_to_body Hyp Hp r a b w)) has_real_derivative j22 (hip_jacobian Hyp Hp Hr a b w)) (at Hr)"
  "((\<lambda>r. zc (hip_to_body Hyp Hp r a b w)) has_real_derivative j32 (hip_jacobian Hyp Hp Hr a b w)) (at Hr)"
  unfolding hip_to_body_def hip_jacobian_def Let_def xyz_new_def jacobian.simps xyz_coord.simps
  by (rule derivative_eq_intros refl | simp add: algebra_simps)+

text \<open>C13: The matrix of the source holds the derivatives of the position of the foot by hip pitch and hip roll.\<close>

theorem hipJacobian_is_derivative:
  fixes thigh tibia Hyp Hp Hr Kp Ap Ar xf yf zf :: real
  defines "J \<equiv> hipJacobian thigh tibia Hyp Hp Hr Kp Ap Ar xf yf zf"
    and "foot \<equiv> \<lambda>p r. mf2b thigh tibia Hyp p r Kp Ap Ar xf yf zf"
  shows "((\<lambda>p. xc (foot p Hr)) has_real_derivative j11 J) (at Hp) \<and> ((\<lambda>r. xc (foot Hp r)) has_real_derivative j12 J) (at Hr) \<and>
         ((\<lambda>p. yc (foot p Hr)) has_real_derivative j21 J) (at Hp) \<and> ((\<lambda>r. yc (foot Hp r)) has_real_derivative j22 J) (at Hr) \<and>
         ((\<lambda>p. zc (foot p Hr)) has_real_derivative j31 J) (at Hp) \<and> ((\<lambda>r. zc (foot Hp r)) has_real_derivative j32 J) (at Hr)"
proof -
  obtain a b w where h: "hip_frame thigh tibia Kp Ap Ar xf yf zf = (a, b, w)" by (metis prod_cases3)
  show ?thesis unfolding J_def foot_def mf2b_coords [OF h] hipJacobian_coords [OF h]
    by (intro conjI hip_to_body_derivatives)
qed

section \<open>The damped least-squares step\<close>

definition normal_residual :: "jacobian \<Rightarrow> xyz_coord \<Rightarrow> real \<times> real \<Rightarrow> real" where
  "normal_residual J e d = (xc e - j11 J * fst d - j12 J * snd d)\<^sup>2 + (yc e - j21 J * fst d - j22 J * snd d)\<^sup>2
     + (zc e - j31 J * fst d - j32 J * snd d)\<^sup>2 + (4 / 10)\<^sup>2 * ((fst d)\<^sup>2 + (snd d)\<^sup>2)"

lemma damped_minimum:
  fixes a b c u v p q p' q' R :: real
  assumes pos: "0 < a" "0 < a * c - b * b"
    and sol: "a * p + b * q = u" "b * p + c * q = v"
    and ne: "(p', q') \<noteq> (p, q)"
  shows "a * p\<^sup>2 + 2 * b * p * q + c * q\<^sup>2 - 2 * u * p - 2 * v * q < a * p'\<^sup>2 + 2 * b * p' * q' + c * q'\<^sup>2 - 2 * u * p' - 2 * v * q'"
proof -
  define x y where "x = p' - p" and "y = q' - q"
  have xy: "x \<noteq> 0 \<or> y \<noteq> 0" using ne by (auto simp: x_def y_def)
  have "a * (a * x\<^sup>2 + 2 * b * x * y + c * y\<^sup>2) = (a * x + b * y)\<^sup>2 + (a * c - b * b) * y\<^sup>2"
    by (simp add: power2_eq_square algebra_simps)
  also have "\<dots> > 0"
  proof (cases "y = 0")
    case True then show ?thesis using xy pos by simp
  next
    case False then show ?thesis using pos by (simp add: add_nonneg_pos)
  qed
  finally have "0 < a * x\<^sup>2 + 2 * b * x * y + c * y\<^sup>2" using pos(1) by (simp add: zero_less_mult_iff)
  then show ?thesis by (simp add: x_def y_def sol [symmetric] power2_eq_square algebra_simps)
qed

lemma cramer2:
  fixes a b c u v D :: real
  assumes "D \<noteq> 0" "D = a * c - b * b"
  shows "a * ((c * u - b * v) / D) + b * ((a * v - b * u) / D) = u"
    and "b * ((c * u - b * v) / D) + c * ((a * v - b * u) / D) = v"
proof -
  have "a * (c * u - b * v) + b * (a * v - b * u) = u * D" "b * (c * u - b * v) + c * (a * v - b * u) = v * D"
    by (simp_all add: assms(2) algebra_simps)
  then show "a * ((c * u - b * v) / D) + b * ((a * v - b * u) / D) = u" "b * ((c * u - b * v) / D) + c * ((a * v - b * u) / D) = v"
    by (simp_all add: add_divide_distrib [symmetric] assms(1))
qed

lemma hipAngles_of_normal:
  fixes J :: jacobian and e :: xyz_coord
  defines "a \<equiv> j11 J * j11 J + j21 J * j21 J + j31 J * j31 J + 16 / 100" and "c \<equiv> j12 J * j12 J + j22 J * j22 J + j32 J * j32 J + 16 / 100"
    and "b \<equiv> j11 J * j12 J + j21 J * j22 J + j31 J * j32 J"
    and "u \<equiv> j11 J * xc e + j21 J * yc e + j31 J * zc e" and "v \<equiv> j12 J * xc e + j22 J * yc e + j32 J * zc e"
  shows "hipAngles_of J e = ((c * u - b * v) / (a * c - b * b), (a * v - b * u) / (a * c - b * b))"
    and "0 < a" and "0 < a * c - b * b"
proof -
  obtain x1 x2 y1 y2 z1 z2 where J: "J = \<lparr>j11 = x1, j12 = x2, j21 = y1, j22 = y2, j31 = z1, j32 = z2\<rparr>" by (cases J) simp
  define S where "S = (4 / 10 * (4 / 10) * (4 / 10 * (4 / 10)) + x1 * x1 * (y2 * y2) + x2 * x2 * (y1 * y1) + x1 * x1 * (z2 * z2)
      + x2 * x2 * (z1 * z1) + y1 * y1 * (z2 * z2) + y2 * y2 * (z1 * z1) + x1 * x1 * (4 / 10 * (4 / 10)) + x2 * x2 * (4 / 10 * (4 / 10))
      + y1 * y1 * (4 / 10 * (4 / 10)) + y2 * y2 * (4 / 10 * (4 / 10)) + z1 * z1 * (4 / 10 * (4 / 10)) + z2 * z2 * (4 / 10 * (4 / 10))
      - 2 * x1 * x2 * y1 * y2 - 2 * x1 * x2 * z1 * z2 - 2 * y1 * y2 * z1 * z2)"
  have S: "a * c - b * b = S" unfolding S_def a_def b_def c_def J by (simp add: algebra_simps)
  show "hipAngles_of J e = ((c * u - b * v) / (a * c - b * b), (a * v - b * u) / (a * c - b * b))"
    unfolding S unfolding hipAngles_of_def Let_def J jacobian.simps S_def [symmetric] a_def b_def c_def u_def v_def
    by (simp add: algebra_simps add_divide_distrib diff_divide_distrib)
  show "0 < a" unfolding a_def by (simp add: add_nonneg_pos)
  have "S = (x1 * y2 - x2 * y1)\<^sup>2 + (x1 * z2 - x2 * z1)\<^sup>2 + (y1 * z2 - y2 * z1)\<^sup>2
      + 16 / 100 * (x1 * x1 + y1 * y1 + z1 * z1 + x2 * x2 + y2 * y2 + z2 * z2) + 256 / 10000"
    unfolding S_def by (simp add: power2_eq_square algebra_simps)
  then show "0 < a * c - b * b" unfolding S by (simp add: add_nonneg_pos)
qed

text \<open>
  C14: The correction is the unique minimum of the remaining error plus the damping; so it never leaves an error larger than the one
  it was asked to remove.
\<close>

theorem hipAngles_least_squares:
  fixes thigh tibia Hyp Hp Hr Kp Ap Ar xf yf zf :: real
  assumes "d \<noteq> hipAngles thigh tibia Hyp Hp Hr Kp Ap Ar xf yf zf e"
  shows "normal_residual (hipJacobian thigh tibia Hyp Hp Hr Kp Ap Ar xf yf zf) e (hipAngles thigh tibia Hyp Hp Hr Kp Ap Ar xf yf zf e)
       < normal_residual (hipJacobian thigh tibia Hyp Hp Hr Kp Ap Ar xf yf zf) e d"
proof -
  define J where "J = hipJacobian thigh tibia Hyp Hp Hr Kp Ap Ar xf yf zf"
  obtain p q where d: "d = (p, q)" by fastforce
  define a b c u v where "a = j11 J * j11 J + j21 J * j21 J + j31 J * j31 J + 16 / 100"
    and "b = j11 J * j12 J + j21 J * j22 J + j31 J * j32 J" and "c = j12 J * j12 J + j22 J * j22 J + j32 J * j32 J + 16 / 100"
    and "u = j11 J * xc e + j21 J * yc e + j31 J * zc e" and "v = j12 J * xc e + j22 J * yc e + j32 J * zc e"
  note abc = this and n = hipAngles_of_normal(1) [of J e, folded this] hipAngles_of_normal(2,3) [of J, folded this]
  let ?D = "a * c - b * b" and ?P = "(c * u - b * v) / (a * c - b * b)" and ?Q = "(a * v - b * u) / (a * c - b * b)"
  have sol: "a * ?P + b * ?Q = u" "b * ?P + c * ?Q = v" using n(3) by (intro cramer2; simp)+
  have r: "normal_residual J e (x, y) = xc e * xc e + yc e * yc e + zc e * zc e
      + (a * x\<^sup>2 + 2 * b * x * y + c * y\<^sup>2 - 2 * u * x - 2 * v * y)" for x y
    unfolding normal_residual_def abc by (simp add: power2_eq_square algebra_simps)
  have "(p, q) \<noteq> (?P, ?Q)" using assms n(1) by (simp add: hipAngles_def J_def d)
  from damped_minimum [OF n(2,3) sol this] show ?thesis
    unfolding hipAngles_def J_def [symmetric] d n(1) r by simp
qed

theorem hipAngles_least_squares_witness:
  "(1, 1) \<noteq> hipAngles (1/10) (1/10) 0 0 0 0 0 0 0 0 0 (xyz_new 0 0 0)
   \<and> normal_residual (hipJacobian (1/10) (1/10) 0 0 0 0 0 0 0 0 0) (xyz_new 0 0 0) (hipAngles (1/10) (1/10) 0 0 0 0 0 0 0 0 0 (xyz_new 0 0 0))
     < normal_residual (hipJacobian (1/10) (1/10) 0 0 0 0 0 0 0 0 0) (xyz_new 0 0 0) (1, 1)"
proof -
  have "(1, 1) \<noteq> hipAngles (1/10) (1/10) 0 0 0 0 0 0 0 0 0 (xyz_new 0 0 0)"
    by (simp add: hipAngles_def hipAngles_of_def xyz_new_def Let_def)
  then show ?thesis using hipAngles_least_squares by blast
qed

section \<open>Steps over time\<close>

lemma linearStep_bounds: "0 \<le> linearStep time period \<and> linearStep time period \<le> 1"
  by (simp add: linearStep_def)

lemma linearStep_start [simp]: "linearStep 0 period = 0"
  by (simp add: linearStep_def)

lemma parabolicReturn_bounds: "0 \<le> f \<Longrightarrow> 0 \<le> parabolicReturn f \<and> parabolicReturn f \<le> 1"
proof -
  assume f: "0 \<le> f"
  have sq: "\<bar>x\<bar> \<le> 1 / 4 \<Longrightarrow> 8 * x * x \<le> 1 / 2 \<and> 0 \<le> 8 * x * x" for x :: real
    using abs_le_square_iff [of x "1 / 4"] by (simp add: power2_eq_square)
  show ?thesis using f sq [of f] sq [of "1 / 2 - f"] sq [of "f - 1 / 2"] sq [of "1 - f"]
    by (auto simp: parabolicReturn_def Let_def)
qed

lemma parabolicReturn_ends: "parabolicReturn 0 = 0" "parabolicReturn (1 / 2) = 1" "parabolicReturn 1 = 0" "1 < f \<Longrightarrow> parabolicReturn f = 0"
  by (simp_all add: parabolicReturn_def Let_def)

text \<open>A parabolic step without dead time.\<close>

lemma parabolicStep_no_dead:
  "parabolicStep dt time period 0 =
    (if time < dt / 2 then 0 else if time > period - dt / 2 then 1
     else if time < period / 2 then 2 * (time / period)\<^sup>2 else 1 - 2 * (1 - time / period)\<^sup>2)"
  by (simp add: parabolicStep_def power2_eq_square algebra_simps)

lemma parabola_mono:
  fixes x y :: real
  assumes "0 \<le> x" "x \<le> y" "y \<le> 1"
  defines "f \<equiv> \<lambda>x :: real. if x < 1 / 2 then 2 * x\<^sup>2 else 1 - 2 * (1 - x)\<^sup>2"
  shows "f x \<le> f y"
proof -
  have a: "x\<^sup>2 \<le> y\<^sup>2" "(1 - y)\<^sup>2 \<le> (1 - x)\<^sup>2" using assms by (auto intro!: power_mono)
  have b: "x < 1 / 2 \<Longrightarrow> x\<^sup>2 \<le> 1 / 4" "\<not> y < 1 / 2 \<Longrightarrow> (1 - y)\<^sup>2 \<le> 1 / 4"
    using assms power_mono [of x "1 / 2" 2] power_mono [of "1 - y" "1 / 2" 2] by (auto simp: power2_eq_square)
  show ?thesis using a b assms(2) by (auto simp: f_def)
qed

lemma parabola_range:
  fixes x :: real
  assumes "0 \<le> x" "x \<le> 1"
  shows "0 \<le> (if x < 1 / 2 then 2 * x\<^sup>2 else 1 - 2 * (1 - x)\<^sup>2)" "(if x < 1 / 2 then 2 * x\<^sup>2 else 1 - 2 * (1 - x)\<^sup>2) \<le> 1"
  using parabola_mono [of 0 x] parabola_mono [of x 1] assms by simp_all

lemma parabolicStep_bounds: "0 < dt \<Longrightarrow> 0 < period \<Longrightarrow> 0 \<le> parabolicStep dt time period 0 \<and> parabolicStep dt time period 0 \<le> 1"
  using parabola_range [of "time / period"] by (auto simp: parabolicStep_no_dead field_simps)

text \<open>A step starts at 0, ends at 1 and never goes back, whatever the time step of the engine is.\<close>

theorem parabolicStep_mono:
  assumes "0 < dt" "0 < period" "s \<le> u"
  shows "parabolicStep dt s period 0 \<le> parabolicStep dt u period 0"
proof -
  consider "s < dt / 2" | "u > period - dt / 2" | "dt / 2 \<le> s" "u \<le> period - dt / 2" by linarith
  then show ?thesis
  proof cases
    case 1
    then show ?thesis using parabolicStep_bounds [OF assms(1,2), of u] by (simp add: parabolicStep_no_dead)
  next
    case 2
    then have "parabolicStep dt u period 0 = (if u < dt / 2 then 0 else 1)" by (simp add: parabolicStep_no_dead)
    then show ?thesis using parabolicStep_bounds [OF assms(1,2), of s] assms(3) by (auto simp: parabolicStep_no_dead)
  next
    case 3
    have "s / period \<le> u / period" "0 \<le> s / period" "u / period \<le> 1" using 3 assms by (auto simp: field_simps)
    from parabola_mono [OF this(2,1,3)] show ?thesis using 3 assms by (auto simp: parabolicStep_no_dead field_simps)
  qed
qed

section \<open>The closed form of a leg\<close>

text \<open>
  Hip pitch, ankle pitch and knee pitch for a foot that is \<open>forward + comOffset\<close> behind the hip, in a leg plane inclined by \<open>left\<close>.
  The argument \<open>kicking\<close> says whether a walk kick suppresses the rounding of the ratio.
\<close>

definition leg_angles :: "real \<Rightarrow> real \<Rightarrow> real \<Rightarrow> bool \<Rightarrow> real \<Rightarrow> real \<Rightarrow> real \<Rightarrow> real \<times> real \<times> real" where
  "leg_angles thigh tibia comOffset kicking legh forward left =
     (let legX0 = legh / cos left;
          legX = sqrt (legX0 * legX0 + (forward + comOffset) * (forward + comOffset));
          beta1 = arccos ((thigh * thigh + legX * legX - tibia * tibia) / (2 * thigh * legX));
          beta2 = arccos ((tibia * tibia + legX * legX - thigh * thigh) / (2 * tibia * legX));
          temp = legX0 / legX;
          temp = (if temp > 1 \<and> \<not> kicking then 1 else temp);
          delta = arcsin temp;
          dir = (if forward + comOffset > 0 then - 1 else 1);
          Hp = beta1 + dir * (pi / 2 - delta);
          Ap = beta2 + dir * (delta - pi / 2);
          Kp = Hp + Ap
      in (Hp, Ap, Kp))"

lemma triangle_cosine:
  fixes a b c :: real
  assumes "0 < a" "0 < b" "0 < c" "c < a + b" "\<bar>a - b\<bar> < c"
  defines "w \<equiv> (a * a + c * c - b * b) / (2 * a * c)"
  shows "- 1 \<le> w" "w \<le> 1" and "a * a * (1 - w\<^sup>2) = (2 * a * a * b * b + 2 * b * b * c * c + 2 * a * a * c * c - a ^ 4 - b ^ 4 - c ^ 4) / (4 * c * c)"
proof -
  have "(a - c)\<^sup>2 \<le> b\<^sup>2" "b\<^sup>2 \<le> (a + c)\<^sup>2" using assms(1-5) by (auto simp: abs_le_square_iff [symmetric])
  then have "a * a + c * c - b * b \<le> 2 * a * c" "- (2 * a * c) \<le> a * a + c * c - b * b" by (simp_all add: power2_eq_square algebra_simps)
  then show "- 1 \<le> w" "w \<le> 1" using assms(1,3) by (simp_all add: w_def field_simps)
  show "a * a * (1 - w\<^sup>2) = (2 * a * a * b * b + 2 * b * b * c * c + 2 * a * a * c * c - a ^ 4 - b ^ 4 - c ^ 4) / (4 * c * c)"
    using assms(1,3) by (simp add: w_def power2_eq_square power4_eq_xxxx field_simps)
qed

text \<open>Thigh and tibia span the distance from hip to ankle and meet at the knee.\<close>

lemma leg_triangle_closes:
  fixes a b c :: real
  assumes t: "0 < a" "0 < b" "0 < c" "c < a + b" "\<bar>a - b\<bar> < c"
  defines "p \<equiv> arccos ((a * a + c * c - b * b) / (2 * a * c))" and "q \<equiv> arccos ((b * b + c * c - a * a) / (2 * b * c))"
  shows "a * cos p + b * cos q = c" and "a * sin p = b * sin q"
proof -
  have t': "0 < b" "0 < a" "0 < c" "c < b + a" "\<bar>b - a\<bar> < c" using t by auto
  note A = triangle_cosine [OF t] and B = triangle_cosine [OF t']
  have cp: "cos p = (a * a + c * c - b * b) / (2 * a * c)" and cq: "cos q = (b * b + c * c - a * a) / (2 * b * c)"
    unfolding p_def q_def using A(1,2) B(1,2) by (simp_all add: cos_arccos)
  show "a * cos p + b * cos q = c" unfolding cp cq using t by (simp add: field_simps)
  have nn: "0 \<le> a * sin p" "0 \<le> b * sin q"
    unfolding p_def q_def using t A(1,2) B(1,2) by (auto intro!: mult_nonneg_nonneg sin_ge_zero arccos_lbound arccos_ubound)
  have "(a * sin p)\<^sup>2 = a * a * (1 - (cos p)\<^sup>2)" "(b * sin q)\<^sup>2 = b * b * (1 - (cos q)\<^sup>2)"
    by (simp_all add: power_mult_distrib sin_squared_eq flip: power2_eq_square)
  moreover have "a * a * (1 - (cos p)\<^sup>2) = b * b * (1 - (cos q)\<^sup>2)" unfolding cp cq A(3) B(3) by (simp add: algebra_simps)
  ultimately have "(a * sin p)\<^sup>2 = (b * sin q)\<^sup>2" by simp
  then show "a * sin p = b * sin q" using nn by (simp add: power2_eq_iff_nonneg del: power_mult_distrib)
qed

lemma leg_tilt:
  fixes h x :: real
  assumes "0 < h"
  defines "r \<equiv> sqrt (h * h + x * x)"
  defines "g \<equiv> (if x > 0 then - 1 else 1) * (pi / 2 - arcsin (h / r))"
  shows "0 < r" "h / r \<le> 1" "r * cos g = h" "r * sin g = - x"
proof -
  show r: "0 < r" unfolding r_def using assms by (simp add: add_pos_nonneg)
  have "h \<le> r" unfolding r_def using assms by (simp add: real_le_rsqrt power2_eq_square)
  then show le: "h / r \<le> 1" using r by simp
  have b: "- 1 \<le> h / r" using r assms(1) by (smt (verit) divide_nonneg_pos)
  have c: "cos (pi / 2 - arcsin (h / r)) = h / r" "sin (pi / 2 - arcsin (h / r)) = sqrt (1 - (h / r)\<^sup>2)"
    using b le by (simp_all add: cos_sin_eq [symmetric] sin_cos_eq [symmetric] cos_diff sin_diff cos_arcsin)
  have "r * sqrt (1 - (h / r)\<^sup>2) = sqrt (r\<^sup>2 * (1 - (h / r)\<^sup>2))" using r by (simp add: real_sqrt_mult)
  also have "r\<^sup>2 * (1 - (h / r)\<^sup>2) = x\<^sup>2" using r by (simp add: algebra_simps power_divide) (simp add: r_def power2_eq_square)
  finally have s: "r * sin (pi / 2 - arcsin (h / r)) = \<bar>x\<bar>" using c by simp
  define d where "d = pi / 2 - arcsin (h / r)"
  have "cos g = cos d" "sin g = (if x > 0 then - 1 else 1) * sin d" by (simp_all add: g_def d_def [symmetric])
  then show "r * cos g = h" "r * sin g = - x" using c(1) s r by (simp_all add: d_def [symmetric])
qed

text \<open>The angles put the ankle where the walk wants it, seen from the hip in the plane of the leg.\<close>

lemma leg_angles_plane:
  fixes thigh tibia comOffset legh forward left :: real
  assumes t: "0 < thigh" "0 < tibia" "0 < legh" "0 < cos left"
  defines "X \<equiv> forward + comOffset" and "X0 \<equiv> legh / cos left"
  assumes r: "sqrt (X0 * X0 + X * X) < thigh + tibia" "\<bar>thigh - tibia\<bar> < sqrt (X0 * X0 + X * X)"
    and l: "leg_angles thigh tibia comOffset kicking legh forward left = (Hp, Ap, Kp)"
  shows "thigh * cos Hp + tibia * cos Ap = X0" "thigh * sin Hp - tibia * sin Ap = - X" "Kp = Hp + Ap"
proof -
  define R where "R = sqrt (X0 * X0 + X * X)"
  define g where "g = (if X > 0 then - 1 else 1) * (pi / 2 - arcsin (X0 / R))"
  define p q where "p = arccos ((thigh * thigh + R * R - tibia * tibia) / (2 * thigh * R))"
    and "q = arccos ((tibia * tibia + R * R - thigh * thigh) / (2 * tibia * R))"
  have X0: "0 < X0" using t by (simp add: X0_def)
  note tilt = leg_tilt [OF X0, of X, folded R_def, folded g_def]
  note tri = leg_triangle_closes [OF t(1,2) tilt(1) r [folded R_def], folded p_def q_def]
  note L = l [unfolded leg_angles_def Let_def, folded X_def X0_def, folded R_def, folded p_def q_def]
  have ang: "Hp = p + g" "Ap = q - g" "Kp = Hp + Ap"
    using L tilt(2) by (auto simp: g_def)
  have "thigh * cos Hp + tibia * cos Ap = (thigh * cos p + tibia * cos q) * cos g - (thigh * sin p - tibia * sin q) * sin g"
    "thigh * sin Hp - tibia * sin Ap = (thigh * sin p - tibia * sin q) * cos g + (thigh * cos p + tibia * cos q) * sin g"
    unfolding ang(1,2) cos_add sin_add cos_diff sin_diff by (simp_all add: algebra_simps)
  then show "thigh * cos Hp + tibia * cos Ap = X0" "thigh * sin Hp - tibia * sin Ap = - X" "Kp = Hp + Ap"
    unfolding tri using tilt(3,4) ang(3) by simp_all
qed

text \<open>The position of a point of a foot that is parallel to the body.\<close>

lemma rotate_45: "sqrt 2 / 2 * (cos (x + pi / 4) - sin (x + pi / 4)) = - sin x" "sqrt 2 / 2 * (cos (x + pi / 4) + sin (x + pi / 4)) = cos x"
  by (simp_all add: cos_add sin_add cos_45 sin_45 algebra_simps)

lemma hip_frame_flat:
  assumes "hip_frame thigh tibia (Hp + Ap) (- Ap) (- Hr) xf yf zf = (a, b, w)"
  defines "p \<equiv> sin Hr * yf - cos Hr * zf"
  shows "cos Hp * b - sin Hp * a = - xf - 1000 * (thigh * sin Hp - tibia * sin Ap)" (is ?g)
    and "- sin Hp * b - cos Hp * a = - (1000 * (thigh * cos Hp + tibia * cos Ap) + p)" (is ?h)
    and "w = cos Hr * yf + sin Hr * zf" (is ?w)
proof -
  define K l m where "K = Hp + Ap" and "l = tibia * 1000 + (cos Ap * p - sin Ap * xf)" and "m = cos Ap * xf + sin Ap * p"
  have c: "cos (- Hr - pi / 2) = - sin Hr" "sin (- Hr - pi / 2) = - cos Hr" by (simp_all add: cos_diff sin_diff)
  have a: "a = thigh * 1000 + (cos K * l + sin K * m)" and b: "b = sin K * l - cos K * m" and ?w
    using assms(1) by (simp_all add: hip_frame_def Let_def c K_def l_def m_def p_def)
  have "Ap = K - Hp" by (simp add: K_def)
  then have A: "cos K * cos Hp + sin K * sin Hp = cos Ap" "sin K * cos Hp - cos K * sin Hp = sin Ap"
    by (simp_all add: cos_diff sin_diff)
  have "cos Hp * b - sin Hp * a = l * (sin K * cos Hp - cos K * sin Hp) - m * (cos K * cos Hp + sin K * sin Hp) - 1000 * thigh * sin Hp"
    "- sin Hp * b - cos Hp * a = - l * (cos K * cos Hp + sin K * sin Hp) - m * (sin K * cos Hp - cos K * sin Hp) - 1000 * thigh * cos Hp"
    unfolding a b by (simp_all add: algebra_simps)
  moreover have "l * sin Ap - m * cos Ap = tibia * 1000 * sin Ap - xf * ((sin Ap)\<^sup>2 + (cos Ap)\<^sup>2)"
    "l * cos Ap + m * sin Ap = tibia * 1000 * cos Ap + p * ((sin Ap)\<^sup>2 + (cos Ap)\<^sup>2)"
    unfolding l_def m_def by (simp_all only: power2_eq_square algebra_simps)
  ultimately show ?g ?h unfolding A by (simp_all add: algebra_simps)
  show ?w by fact
qed

lemma mf2b_flat:
  "mf2b thigh tibia 0 (- Hp) Hr (Hp + Ap) (- Ap) (- Hr) xf yf zf =
    xyz_new (xf + 1000 * (thigh * sin Hp - tibia * sin Ap)) (yf + 1000 * (thigh * cos Hp + tibia * cos Ap) * sin Hr)
      (zf - 1000 * (thigh * cos Hp + tibia * cos Ap) * cos Hr)"
proof -
  obtain a b w where f: "hip_frame thigh tibia (Hp + Ap) (- Ap) (- Hr) xf yf zf = (a, b, w)" by (metis prod_cases3)
  define g h C S where "g = cos Hp * b - sin Hp * a" and "h = - sin Hp * b - cos Hp * a"
    and "C = cos (Hr + pi / 4)" and "S = sin (Hr + pi / 4)"
  define s c where "s = sin Hr" and "c = cos Hr"
  have "mf2b thigh tibia 0 (- Hp) Hr (Hp + Ap) (- Ap) (- Hr) xf yf zf =
      xyz_new (- g) (h * (sqrt 2 / 2 * (C - S)) + w * (sqrt 2 / 2 * (C + S))) (h * (sqrt 2 / 2 * (C + S)) - w * (sqrt 2 / 2 * (C - S)))"
    unfolding mf2b_is_leg_chain leg_chain_def f by (simp add: Let_def g_def h_def C_def S_def algebra_simps add_divide_distrib diff_divide_distrib)
  also have "\<dots> = xyz_new (- g) (- (h * sin Hr) + w * cos Hr) (h * cos Hr + w * sin Hr)"
    unfolding C_def S_def rotate_45 by simp
  also have "\<dots> = xyz_new (xf + 1000 * (thigh * sin Hp - tibia * sin Ap))
      (1000 * (thigh * cos Hp + tibia * cos Ap) * sin Hr + yf * ((sin Hr)\<^sup>2 + (cos Hr)\<^sup>2))
      (- (1000 * (thigh * cos Hp + tibia * cos Ap) * cos Hr) + zf * ((sin Hr)\<^sup>2 + (cos Hr)\<^sup>2))"
    unfolding g_def h_def hip_frame_flat [OF f] s_def [symmetric] c_def [symmetric] by (simp add: power2_eq_square algebra_simps)
  finally show ?thesis by (simp add: algebra_simps)
qed

section \<open>Turning\<close>

text \<open>
  When the hip yaw-pitch joint turns, three corrections of hip pitch and hip roll move the ankle back to where it was, and the ankle joints
  are adjusted to lay the foot flat. The zeros are the constant \<open>z\<close> of the source. The loop returns the position of the ankle before its last
  correction, which the source then uses.
\<close>

primrec turn_loop :: "nat \<Rightarrow> real \<Rightarrow> real \<Rightarrow> xyz_coord \<Rightarrow> real \<Rightarrow> real \<Rightarrow> real \<Rightarrow> real \<Rightarrow> real \<Rightarrow> real \<Rightarrow> xyz_coord \<Rightarrow> real \<times> real \<times> xyz_coord" where
  "turn_loop 0 thigh tibia target Hyp Hp Hr Kp Ap Ar s = (Hp, Hr, s)"
| "turn_loop (Suc n) thigh tibia target Hyp Hp Hr Kp Ap Ar s =
     (let s = mf2b thigh tibia Hyp (- Hp) Hr Kp (- Ap) Ar 0 0 0;
          e = xyz_new (xc target - xc s) (yc target - yc s) (zc target - zc s);
          hpr = hipAngles thigh tibia Hyp (- Hp) Hr Kp (- Ap) Ar 0 0 0 e
      in turn_loop n thigh tibia target Hyp (Hp - fst hpr) (Hr + snd hpr) Kp Ap Ar s)"

definition keepAnkle :: "real \<Rightarrow> real \<Rightarrow> real \<Rightarrow> real \<Rightarrow> real \<Rightarrow> real \<Rightarrow> real \<Rightarrow> real \<Rightarrow> real \<times> real \<times> real \<times> real" where
  "keepAnkle thigh tibia turnRL Hp Hr Kp Ap Ar =
     (let target = mf2b thigh tibia 0 (- Hp) Hr Kp (- Ap) Ar 0 0 0;
          Hyp = - turnRL;
          (Hp, Hr, s) = turn_loop 3 thigh tibia target Hyp Hp Hr Kp Ap Ar (xyz_new 0 0 0);
          up = mf2b thigh tibia Hyp (- Hp) Hr Kp (- Ap) Ar 1 0 0;
          ur = mf2b thigh tibia Hyp (- Hp) Hr Kp (- Ap) Ar 0 1 0;
          Ap' = Ap + arcsin (zc s - zc up);
          Ar' = Ar + arcsin (zc s - zc ur)
      in (Hp, Hr, Ap', Ar'))"

lemma hipAngles_zero: "hipAngles thigh tibia Hyp Hp Hr Kp Ap Ar xf yf zf (xyz_new 0 0 0) = (0, 0)"
  by (simp add: hipAngles_def hipAngles_of_def xyz_new_def Let_def)

lemma turn_loop_fixed:
  assumes "mf2b thigh tibia Hyp (- Hp) Hr Kp (- Ap) Ar 0 0 0 = target"
  shows "turn_loop (Suc n) thigh tibia target Hyp Hp Hr Kp Ap Ar s = (Hp, Hr, target)"
  by (induction n arbitrary: s) (simp_all add: assms Let_def hipAngles_zero)

lemma keepAnkle_straight: "keepAnkle thigh tibia 0 Hp Hr (Hp + Ap) Ap (- Hr) = (Hp, Hr, Ap, - Hr)"
proof -
  have "turn_loop 3 thigh tibia (mf2b thigh tibia 0 (- Hp) Hr (Hp + Ap) (- Ap) (- Hr) 0 0 0) 0 Hp Hr (Hp + Ap) Ap (- Hr) s =
      (Hp, Hr, mf2b thigh tibia 0 (- Hp) Hr (Hp + Ap) (- Ap) (- Hr) 0 0 0)" for s
    unfolding numeral_3_eq_3 by (rule turn_loop_fixed) simp
  then show ?thesis by (simp add: keepAnkle_def Let_def mf2b_flat xyz_new_def)
qed

text \<open>The angles of a leg as the generator sends them to the joints.\<close>

definition left_leg :: "real \<Rightarrow> real \<Rightarrow> real \<Rightarrow> bool \<Rightarrow> real \<Rightarrow> real \<Rightarrow> real \<Rightarrow> real \<Rightarrow> real \<Rightarrow> real \<times> real \<times> real \<times> real \<times> real" where
  "left_leg thigh tibia comOffset kicking legh forward left rock turnRL =
     (let (Hp, Ap, Kp) = leg_angles thigh tibia comOffset kicking legh forward left;
          Hr = - left; Ar = - Hr;
          Hr = Hr + rock; Ar = Ar - rock;
          (Hp, Hr, Ap, Ar) = keepAnkle thigh tibia turnRL Hp Hr Kp Ap Ar
      in (Hp, Hr, Kp, Ap, Ar))"

definition right_leg :: "real \<Rightarrow> real \<Rightarrow> real \<Rightarrow> bool \<Rightarrow> real \<Rightarrow> real \<Rightarrow> real \<Rightarrow> real \<Rightarrow> real \<Rightarrow> real \<times> real \<times> real \<times> real \<times> real" where
  "right_leg thigh tibia comOffset kicking legh forward left rock turnRL =
     (let (Hp, Ap, Kp) = leg_angles thigh tibia comOffset kicking legh forward left;
          HrR = - left; ArR = - HrR;
          HrR = HrR + rock; ArR = ArR - rock;
          Hr = - HrR; Ar = - ArR;
          (Hp, Hr, Ap, Ar) = keepAnkle thigh tibia turnRL Hp Hr Kp Ap Ar;
          HrR = - Hr; ArR = - Ar
      in (Hp, HrR, Kp, Ap, ArR))"

lemma right_leg_mirror:
  "right_leg thigh tibia comOffset kicking legh forward left rock turnRL =
    (let (Hp, Hr, Kp, Ap, Ar) = left_leg thigh tibia comOffset kicking legh forward (- left) (- rock) turnRL in (Hp, - Hr, Kp, Ap, - Ar))"
  by (simp add: right_leg_def left_leg_def leg_angles_def Let_def split: prod.splits)

text \<open>
  Without a turn every point of the foot is where the walk wants it: the foot is below the hip by the height of the leg, behind it by the
  step and the offset of the centre of mass, aside by the tangent of the sideways angle, and parallel to the body.
\<close>

theorem left_leg_exact:
  fixes thigh tibia comOffset legh forward left :: real
  assumes "0 < thigh" "0 < tibia" "0 < legh" "0 < cos left"
    and "sqrt (legh / cos left * (legh / cos left) + (forward + comOffset) * (forward + comOffset)) < thigh + tibia"
    and "\<bar>thigh - tibia\<bar> < sqrt (legh / cos left * (legh / cos left) + (forward + comOffset) * (forward + comOffset))"
    and j: "left_leg thigh tibia comOffset kicking legh forward left 0 0 = (Hp, Hr, Kp, Ap, Ar)"
  shows "mf2b thigh tibia 0 (- Hp) Hr Kp (- Ap) Ar xf yf zf =
    xyz_new (xf - 1000 * (forward + comOffset)) (yf - 1000 * legh * tan left) (zf - 1000 * legh)"
proof -
  obtain p a k where l: "leg_angles thigh tibia comOffset kicking legh forward left = (p, a, k)" by (metis prod_cases3)
  note plane = leg_angles_plane [OF assms(1-6) l]
  have "Hp = p" "Hr = - left" "Kp = p + a" "Ap = a" "Ar = - (- left)"
    using j keepAnkle_straight [of thigh tibia p "- left" a] by (simp_all add: left_leg_def l plane(3))
  then show ?thesis
    by (simp only: mf2b_flat plane(1,2)) (use assms(4) in \<open>simp add: tan_def algebra_simps\<close>)
qed

theorem left_leg_exact_witness:
  "case left_leg 1 1 0 False 1 0 0 0 0 of (Hp, Hr, Kp, Ap, Ar) \<Rightarrow> mf2b 1 1 0 (- Hp) Hr Kp (- Ap) Ar 0 0 0 = xyz_new 0 0 (- 1000)"
proof -
  obtain Hp Hr Kp Ap Ar where l: "left_leg 1 1 0 False 1 0 0 0 0 = (Hp, Hr, Kp, Ap, Ar)" by (metis prod_cases5)
  show ?thesis using left_leg_exact [of 1 1 1 0 0 0 False Hp Hr Kp Ap Ar 0 0 0] by (simp add: l)
qed

end
