(* ===== verification/Walk_Body.thy ===== *)
theory Walk_Body
  imports RS_Body
begin

text \<open>
  The model of the body in the walk engine (\<open>src/core/motion/rswalk2014/BodyModel.cpp\<close>, \<open>WalkCycle.cpp\<close>, \<open>PendulumModel.cpp\<close>): the centre of
  pressure of the feet, the shape of a step, and the inverted pendulum that estimates the motion of the body. What the
  kinematics of the engine computes from the joints is an argument of the update. Shown are the range of the centre of pressure, when
  it changes sign, and what the foot sensors are scaled by.
\<close>

section \<open>The walk cycle\<close>

record walk_cycle =
  useForwardL :: real
  useForwardR :: real
  useLeft :: real
  useTurn :: real
  wc_T :: real
  wc_t :: real
  leftPhase :: bool

abbreviation (input) movFrac :: real where "movFrac \<equiv> 4 / 10"
abbreviation (input) RS_FPS :: real where "RS_FPS \<equiv> 100"

definition wc_default :: walk_cycle where
  "wc_default = \<lparr>useForwardL = 0, useForwardR = 0, useLeft = 0, useTurn = 0, wc_T = 1 / 2, wc_t = 0, leftPhase = False\<rparr>"

definition wc_new :: "real \<Rightarrow> real \<Rightarrow> real \<Rightarrow> real \<Rightarrow> real \<Rightarrow> real \<Rightarrow> walk_cycle" where
  "wc_new fl fr l tu T t = \<lparr>useForwardL = fl, useForwardR = fr, useLeft = l, useTurn = tu, wc_T = T, wc_t = t, leftPhase = t < T / 2\<rparr>"

text \<open>How much of a step is done at the time \<open>t\<close>, when the swing begins at \<open>startT\<close> and the leg is, or is not, the one that swings.\<close>

definition wc_swing :: "real \<Rightarrow> real \<Rightarrow> bool \<Rightarrow> real \<Rightarrow> real" where
  "wc_swing T startT swings t =
     (let movT = movFrac * T
      in if t \<ge> startT
         then if t < startT + movT + T / RS_FPS \<and> swings
              then if t > startT + movT then 1 else sqrt ((1 - cos ((t - startT) * pi / movT)) / 2)
              else 1
         else 0)"

record walk_feet =
  wf_forwardL :: real
  wf_forwardR :: real
  wf_leftL :: real
  wf_leftR :: real
  wf_turnLR :: real

definition generateWalk :: "walk_cycle \<Rightarrow> walk_feet" where
  "generateWalk w =
     (let t = wc_t w; T = wc_T w;
          phaseLeftT = (if useLeft w > 0 then t else if t + T / 2 > T then t + T / 2 - T else t + T / 2);
          phaseTurnT = (if useTurn w < 0 then (if t + T / 2 > T then t + T / 2 - T else t + T / 2) else t);
          early = (1 - 2 * movFrac) / 4; late = (1 - 2 * movFrac) / 4 * T + T / 2;
          forwardL = - useForwardL w / 4 - useForwardL w / T * t
            + useForwardL w * wc_swing T ((1 - 2 * movFrac) / 4 * T) (leftPhase w) t;
          turnLR = useTurn w / 8 + useTurn w * wc_swing T (if useTurn w < 0 then late else early) (leftPhase w) phaseTurnT;
          leftL = - (useLeft w / T * phaseLeftT) + useLeft w * wc_swing T (if useLeft w < 0 then late else early) (leftPhase w) phaseLeftT;
          forwardR = useForwardR w / 4 - useForwardR w / T * t + useForwardR w * wc_swing T late (\<not> leftPhase w) t;
          turnLR = turnLR - useTurn w * wc_swing T (if useTurn w < 0 then early else late) (\<not> leftPhase w) phaseTurnT;
          leftR = - (useLeft w / T * phaseLeftT) + useLeft w * wc_swing T (if useLeft w < 0 then early else late) (\<not> leftPhase w) phaseLeftT
      in \<lparr>wf_forwardL = forwardL, wf_forwardR = forwardR, wf_leftL = leftL, wf_leftR = leftR, wf_turnLR = turnLR\<rparr>)"

definition wc_next :: "walk_cycle \<Rightarrow> walk_cycle" where
  "wc_next w =
     (let t = wc_t w + wc_T w / 100;
          t = (if t > wc_T w then 0 else t)
      in w\<lparr>wc_t := t, leftPhase := \<not> t > wc_T w / 2\<rparr>)"

definition isDoubleSupportPhase :: "walk_cycle \<Rightarrow> bool" where
  "isDoubleSupportPhase w =
     (let t = wc_t w; T = wc_T w; D = T - T * 2 * movFrac
      in t \<le> D / 4 \<or> t \<ge> T - D / 4 \<or> (t > T / 2 - D / 4 \<and> t < T / 2 + D / 4))"

section \<open>The pendulum\<close>

record pendulum =
  pm_x :: real
  pendulum_height :: real
  pm_dx :: real
  pm_accX :: real
  pm_theta :: real
  pm_walkCycle :: walk_cycle

abbreviation (input) pm_g :: real where "pm_g \<equiv> 980665 / 100"

definition pdm_new :: pendulum where
  "pdm_new = \<lparr>pm_x = 0, pendulum_height = 300, pm_dx = 0, pm_accX = 0, pm_theta = 0, pm_walkCycle = wc_new 0 0 0 0 (1 / 2) 0\<rparr>"

definition predictNext :: "real \<Rightarrow> real \<Rightarrow> pendulum \<Rightarrow> pendulum" where
  "predictNext dt supportPivot p =
     (let x = pm_x p + pm_dx p * dt + pm_accX p * (dt * dt) / 2;
          dx = pm_dx p + pm_accX p * dt;
          theta = c_atan2 (x - supportPivot) (pendulum_height p)
      in p\<lparr>pm_x := x, pm_dx := dx, pm_theta := theta, pm_accX := pm_g * sin theta * cos theta\<rparr>)"

section \<open>The body\<close>

record body_model =
  bm_walkCycle :: walk_cycle
  pendulumModel :: pendulum
  lastPendulumModel :: pendulum
  stepCounter :: int
  lastStepFrequencyDifferences :: "real list"
  isBetweenSteps :: bool
  sagittalAcceleration :: real
  ZMPL :: real
  lastZMPL :: real
  fsLfr :: real
  fsLfl :: real
  fsLrr :: real
  fsLrl :: real
  fsRfr :: real
  fsRfl :: real
  fsRrr :: real
  fsRrl :: real
  walkKickStart :: bool
  walkKickHeading :: real
  centreOfMass :: xyz_coord
  centreOfMassOther :: xyz_coord
  isLeftPhase :: bool
  isOnFront :: bool
  lastIsLeftPhase :: bool

text \<open>The members that the constructor does not set keep what is in the memory, here those of \<open>mem\<close>.\<close>

definition bdm_new :: "body_model \<Rightarrow> body_model" where
  "bdm_new mem = mem\<lparr>bm_walkCycle := wc_default, pendulumModel := pdm_new, lastPendulumModel := pdm_new, stepCounter := 0,
     lastStepFrequencyDifferences := [], sagittalAcceleration := 0,
     fsLfr := 1 / 10, fsLfl := 1 / 10, fsLrr := 1 / 10, fsLrl := 1 / 10, fsRfr := 1 / 10, fsRfl := 1 / 10, fsRrr := 1 / 10, fsRrl := 1 / 10,
     isLeftPhase := False, isOnFront := False, lastIsLeftPhase := False\<rparr>"

definition bm_setIsLeftPhase :: "bool \<Rightarrow> body_model \<Rightarrow> body_model" where
  "bm_setIsLeftPhase b m = m\<lparr>isLeftPhase := b\<rparr>"

definition setPendulumHeight :: "real \<Rightarrow> body_model \<Rightarrow> body_model" where
  "setPendulumHeight h m = m\<lparr>pendulumModel := (pendulumModel m)\<lparr>pendulum_height := h\<rparr>\<rparr>"

definition updateStepFrequency :: "body_model \<Rightarrow> body_model" where
  "updateStepFrequency m =
     (let l = lastStepFrequencyDifferences m @ [of_int (stepCounter m)];
          l = (if List.length l > 2 then tl l else l)
      in m\<lparr>lastStepFrequencyDifferences := l, stepCounter := 0\<rparr>)"

definition setIsBetweenSteps :: "bool \<Rightarrow> body_model \<Rightarrow> body_model" where
  "setIsBetweenSteps b m = (if \<not> isBetweenSteps m \<and> b then updateStepFrequency m else m)\<lparr>isBetweenSteps := b\<rparr>"

definition updateSagittalAcceleration :: "real \<Rightarrow> body_model \<Rightarrow> body_model" where
  "updateSagittalAcceleration stepSize m =
     m\<lparr>sagittalAcceleration := sagittalAcceleration m + (stepSize * (1 / 2) - sagittalAcceleration m) * (3 / 10)\<rparr>"

definition getRealStepFrequency :: "body_model \<Rightarrow> real" where
  "getRealStepFrequency m =
     (let l = lastStepFrequencyDifferences m
      in if l = [] then of_int (stepCounter m) else sum_list l / of_nat (List.length l) * 2 / 100)"

definition isFootOnGround :: "body_model \<Rightarrow> sensor_vals \<Rightarrow> bool" where
  "isFootOnGround m s =
     (let v = sv_sensors s
      in if isLeftPhase m
         then v RS_RFoot_FSR_FrontLeft > 1 / 100 \<and> v RS_RFoot_FSR_FrontRight > 1 / 100 \<and>
              v RS_RFoot_FSR_RearLeft > 1 / 100 \<and> v RS_RFoot_FSR_RearRight > 1 / 100
         else v RS_LFoot_FSR_FrontLeft > 1 / 100 \<and> v RS_LFoot_FSR_FrontRight > 1 / 100 \<and>
              v RS_LFoot_FSR_RearLeft > 1 / 100 \<and> v RS_LFoot_FSR_RearRight > 1 / 100)"

definition isOnFrontOfFoot :: "body_model \<Rightarrow> sensor_vals \<Rightarrow> bool" where
  "isOnFrontOfFoot m s =
     (let v = sv_sensors s;
          leftFront = v RS_LFoot_FSR_FrontLeft + v RS_LFoot_FSR_FrontRight; rightFront = v RS_RFoot_FSR_FrontLeft + v RS_RFoot_FSR_FrontRight;
          leftRear = v RS_LFoot_FSR_RearLeft + v RS_LFoot_FSR_RearRight; rightRear = v RS_RFoot_FSR_RearLeft + v RS_RFoot_FSR_RearRight
      in if isLeftPhase m then rightFront > rightRear else leftFront > leftRear)"

definition getFootZMP :: "body_model \<Rightarrow> bool \<Rightarrow> sensor_vals \<Rightarrow> real" where
  "getFootZMP m isLeft s =
     (if isDoubleSupportPhase (bm_walkCycle m) then 0
      else let v = sv_sensors s;
               totalPressure = (if isLeft
                 then v RS_LFoot_FSR_FrontLeft + v RS_LFoot_FSR_FrontRight + v RS_LFoot_FSR_RearLeft + v RS_LFoot_FSR_RearRight
                 else v RS_RFoot_FSR_FrontLeft + v RS_RFoot_FSR_FrontRight + v RS_RFoot_FSR_RearLeft + v RS_RFoot_FSR_RearRight);
               ZMPF = (if isLeft
                 then 75 * v RS_LFoot_FSR_FrontLeft + - 45 * v RS_LFoot_FSR_RearLeft + 75 * v RS_LFoot_FSR_FrontRight + - 45 * v RS_LFoot_FSR_RearRight
                 else 75 * v RS_RFoot_FSR_FrontRight + - 45 * v RS_RFoot_FSR_RearRight + 75 * v RS_RFoot_FSR_FrontLeft + - 45 * v RS_RFoot_FSR_RearLeft)
           in if totalPressure = 0 then 0 else ZMPF / totalPressure)"

definition getHorizontalFootZMP :: "bool \<Rightarrow> sensor_vals \<Rightarrow> real" where
  "getHorizontalFootZMP isLeft s =
     (let v = sv_sensors s;
          totalPressure = (if isLeft
            then v RS_LFoot_FSR_FrontLeft + v RS_LFoot_FSR_FrontRight + v RS_LFoot_FSR_RearLeft + v RS_LFoot_FSR_RearRight
            else v RS_RFoot_FSR_FrontLeft + v RS_RFoot_FSR_FrontRight + v RS_RFoot_FSR_RearLeft + v RS_RFoot_FSR_RearRight);
          ZMPF = (if isLeft
            then 20 * v RS_LFoot_FSR_FrontLeft + 20 * v RS_LFoot_FSR_RearLeft + - 20 * v RS_LFoot_FSR_FrontRight + - 20 * v RS_LFoot_FSR_RearRight
            else - 20 * v RS_RFoot_FSR_FrontRight + - 20 * v RS_RFoot_FSR_RearRight + 20 * v RS_RFoot_FSR_FrontLeft + 20 * v RS_RFoot_FSR_RearLeft)
      in if totalPressure = 0 then 0 else ZMPF / totalPressure)"

text \<open>
  What the kinematics of the engine finds: the forward position of the body over the supporting foot, and the centre of mass
  as seen from the supporting and from the other foot.
\<close>

record kin_result =
  supportFootPosition :: real
  kr_com :: xyz_coord
  kr_comOther :: xyz_coord

definition processUpdate :: "kin_result \<Rightarrow> sensor_vals \<Rightarrow> body_model \<Rightarrow> body_model" where
  "processUpdate kin s m =
     (let m = m\<lparr>centreOfMassOther := kr_comOther kin\<rparr>;
          m = m\<lparr>centreOfMass := kr_com kin\<rparr>;
          zmpFootOffset = (if \<not> isDoubleSupportPhase (bm_walkCycle m) then getFootZMP m (\<not> isLeftPhase m) s else 0);
          p = predictNext (1 / 100) zmpFootOffset (pendulumModel m);
          currentWalkCycle = bm_walkCycle m;
          alpha = 2 / 10; beta = 1 / 2;
          p = p\<lparr>pm_x := (1 - beta) * pm_x p + beta * supportFootPosition kin\<rparr>;
          p = (if leftPhase (pm_walkCycle p) = leftPhase currentWalkCycle
               then p\<lparr>pm_dx := (1 - alpha) * pm_dx p + alpha * (pm_x p - pm_x (lastPendulumModel m)) * 100\<rparr>
               else p\<lparr>pm_x := - pm_x p / (12 / 10)\<rparr>);
          p = p\<lparr>pm_walkCycle := currentWalkCycle\<rparr>
      in m\<lparr>pendulumModel := p, lastPendulumModel := (lastPendulumModel m)\<lparr>pm_x := pm_x p, pm_dx := pm_dx p\<rparr>\<rparr>)"

text \<open>The greatest reading of a foot sensor, which is not raised any more once it has reached 5.\<close>

definition fs_max :: "real \<Rightarrow> real \<Rightarrow> real" where
  "fs_max m temp = (if m < temp \<and> m < 5 then temp else m)"

definition fs_update :: "sensor_vals \<Rightarrow> body_model \<Rightarrow> body_model" where
  "fs_update s m =
     (let v = sv_sensors s
      in m\<lparr>fsLfl := fs_max (fs_max (fsLfl m) (v RS_LFoot_FSR_FrontLeft)) (v RS_LFoot_FSR_FrontLeft),
           fsLfr := fs_max (fsLfr m) (v RS_LFoot_FSR_FrontRight),
           fsLrl := fs_max (fsLrl m) (v RS_LFoot_FSR_RearLeft),
           fsLrr := fs_max (fsLrr m) (v RS_LFoot_FSR_RearRight),
           fsRfl := fs_max (fsRfl m) (v RS_RFoot_FSR_FrontLeft),
           fsRfr := fs_max (fsRfr m) (v RS_RFoot_FSR_FrontRight),
           fsRrl := fs_max (fsRrl m) (v RS_RFoot_FSR_RearLeft),
           fsRrr := fs_max (fsRrr m) (v RS_RFoot_FSR_RearRight)\<rparr>)"

definition bm_pressureL :: "body_model \<Rightarrow> sensor_vals \<Rightarrow> real" where
  "bm_pressureL m s =
     (let v = sv_sensors s
      in v RS_LFoot_FSR_FrontLeft / fsLfl m + v RS_LFoot_FSR_FrontRight / fsLfr m + v RS_LFoot_FSR_RearLeft / fsLrl m + v RS_LFoot_FSR_RearRight / fsLrr m)"

definition bm_pressureR :: "body_model \<Rightarrow> sensor_vals \<Rightarrow> real" where
  "bm_pressureR m s =
     (let v = sv_sensors s
      in v RS_RFoot_FSR_FrontLeft / fsRfl m + v RS_RFoot_FSR_FrontRight / fsRfr m + v RS_RFoot_FSR_RearLeft / fsRrl m + v RS_RFoot_FSR_RearRight / fsRrr m)"

definition bm_moment :: "body_model \<Rightarrow> sensor_vals \<Rightarrow> real" where
  "bm_moment m s =
     (let v = sv_sensors s
      in 80 / 1000 * v RS_LFoot_FSR_FrontLeft / fsLfl m + 30 / 1000 * v RS_LFoot_FSR_FrontRight / fsLfr m
         + 80 / 1000 * v RS_LFoot_FSR_RearLeft / fsLrl m + 30 / 1000 * v RS_LFoot_FSR_RearRight / fsLrr m
         - 30 / 1000 * v RS_RFoot_FSR_FrontLeft / fsRfl m - 80 / 1000 * v RS_RFoot_FSR_FrontRight / fsRfr m
         - 30 / 1000 * v RS_RFoot_FSR_RearLeft / fsRrl m - 80 / 1000 * v RS_RFoot_FSR_RearRight / fsRrr m)"

definition bm_update :: "kin_result \<Rightarrow> sensor_vals \<Rightarrow> body_model \<Rightarrow> body_model" where
  "bm_update kin s m =
     (let m = m\<lparr>stepCounter := stepCounter m + 1\<rparr>;
          m = fs_update s m;
          m = m\<lparr>lastZMPL := ZMPL m\<rparr>;
          totalPressure = bm_pressureL m s + bm_pressureR m s;
          m = m\<lparr>ZMPL := if \<bar>totalPressure\<bar> > 1 / 1000000 then bm_moment m s / totalPressure else 0\<rparr>;
          m = m\<lparr>isOnFront := isOnFrontOfFoot m s\<rparr>
      in processUpdate kin s m)"

section \<open>The centre of pressure\<close>

definition fs_ok :: "body_model \<Rightarrow> bool" where
  "fs_ok m = (1 / 10 \<le> fsLfl m \<and> 1 / 10 \<le> fsLfr m \<and> 1 / 10 \<le> fsLrl m \<and> 1 / 10 \<le> fsLrr m \<and>
    1 / 10 \<le> fsRfl m \<and> 1 / 10 \<le> fsRfr m \<and> 1 / 10 \<le> fsRrl m \<and> 1 / 10 \<le> fsRrr m)"

definition feet_pushed :: "sensor_vals \<Rightarrow> bool" where
  "feet_pushed s = (\<forall>c \<in> {RS_LFoot_FSR_FrontLeft, RS_LFoot_FSR_FrontRight, RS_LFoot_FSR_RearLeft, RS_LFoot_FSR_RearRight,
     RS_RFoot_FSR_FrontLeft, RS_RFoot_FSR_FrontRight, RS_RFoot_FSR_RearLeft, RS_RFoot_FSR_RearRight}. 0 \<le> sv_sensors s c)"

lemma fs_max_ge [simp]: "m \<le> fs_max m x" "b \<le> m \<Longrightarrow> b \<le> fs_max m x"
  by (auto simp: fs_max_def)

lemma fs_max_twice [simp]: "fs_max (fs_max m x) x = fs_max m x"
  by (auto simp: fs_max_def)

lemma processUpdate_simps [simp]:
  "ZMPL (processUpdate k s m) = ZMPL m" "lastZMPL (processUpdate k s m) = lastZMPL m" "isLeftPhase (processUpdate k s m) = isLeftPhase m"
  "fsLfl (processUpdate k s m) = fsLfl m" "fsLfr (processUpdate k s m) = fsLfr m" "fsLrl (processUpdate k s m) = fsLrl m"
  "fsLrr (processUpdate k s m) = fsLrr m" "fsRfl (processUpdate k s m) = fsRfl m" "fsRfr (processUpdate k s m) = fsRfr m"
  "fsRrl (processUpdate k s m) = fsRrl m" "fsRrr (processUpdate k s m) = fsRrr m" "walkKickStart (processUpdate k s m) = walkKickStart m"
  by (simp_all add: processUpdate_def Let_def)

lemma bm_update_simps:
  "fsLfl (bm_update k s m) = fs_max (fsLfl m) (sv_sensors s RS_LFoot_FSR_FrontLeft)"
  "fsLfr (bm_update k s m) = fs_max (fsLfr m) (sv_sensors s RS_LFoot_FSR_FrontRight)"
  "fsLrl (bm_update k s m) = fs_max (fsLrl m) (sv_sensors s RS_LFoot_FSR_RearLeft)"
  "fsLrr (bm_update k s m) = fs_max (fsLrr m) (sv_sensors s RS_LFoot_FSR_RearRight)"
  "fsRfl (bm_update k s m) = fs_max (fsRfl m) (sv_sensors s RS_RFoot_FSR_FrontLeft)"
  "fsRfr (bm_update k s m) = fs_max (fsRfr m) (sv_sensors s RS_RFoot_FSR_FrontRight)"
  "fsRrl (bm_update k s m) = fs_max (fsRrl m) (sv_sensors s RS_RFoot_FSR_RearLeft)"
  "fsRrr (bm_update k s m) = fs_max (fsRrr m) (sv_sensors s RS_RFoot_FSR_RearRight)"
  "lastZMPL (bm_update k s m) = ZMPL m" "isLeftPhase (bm_update k s m) = isLeftPhase m" "walkKickStart (bm_update k s m) = walkKickStart m"
  by (simp_all add: bm_update_def fs_update_def Let_def)

lemma bm_update_ok: "fs_ok m \<Longrightarrow> fs_ok (bm_update k s m)"
  unfolding fs_ok_def bm_update_simps by (intro conjI fs_max_ge(2)) simp_all

lemma bm_new_ok: "fs_ok (bdm_new mem)"
  by (simp add: fs_ok_def bdm_new_def)

text \<open>The centre of pressure is the mean of the corners, weighted by their loads.\<close>

definition left_moment :: "body_model \<Rightarrow> sensor_vals \<Rightarrow> real" where
  "left_moment m s = 80 / 1000 * (sv_sensors s RS_LFoot_FSR_FrontLeft / fsLfl m + sv_sensors s RS_LFoot_FSR_RearLeft / fsLrl m)
     + 30 / 1000 * (sv_sensors s RS_LFoot_FSR_FrontRight / fsLfr m + sv_sensors s RS_LFoot_FSR_RearRight / fsLrr m)"

definition right_moment :: "body_model \<Rightarrow> sensor_vals \<Rightarrow> real" where
  "right_moment m s = 80 / 1000 * (sv_sensors s RS_RFoot_FSR_FrontRight / fsRfr m + sv_sensors s RS_RFoot_FSR_RearRight / fsRrr m)
     + 30 / 1000 * (sv_sensors s RS_RFoot_FSR_FrontLeft / fsRfl m + sv_sensors s RS_RFoot_FSR_RearLeft / fsRrl m)"

lemma bm_moment_split: "bm_moment m s = left_moment m s - right_moment m s"
  by (simp only: bm_moment_def left_moment_def right_moment_def Let_def distrib_left times_divide_eq_right)

lemma pressure_simps [simp]:
  "bm_pressureL (processUpdate k s m) r = bm_pressureL m r" "bm_pressureR (processUpdate k s m) r = bm_pressureR m r"
  "bm_moment (processUpdate k s m) r = bm_moment m r"
  "bm_pressureL (m\<lparr>ZMPL := z\<rparr>) r = bm_pressureL m r" "bm_pressureR (m\<lparr>ZMPL := z\<rparr>) r = bm_pressureR m r" "bm_moment (m\<lparr>ZMPL := z\<rparr>) r = bm_moment m r"
  "bm_pressureL (m\<lparr>isOnFront := f\<rparr>) r = bm_pressureL m r" "bm_pressureR (m\<lparr>isOnFront := f\<rparr>) r = bm_pressureR m r" "bm_moment (m\<lparr>isOnFront := f\<rparr>) r = bm_moment m r"
  by (simp_all add: bm_pressureL_def bm_pressureR_def bm_moment_def)

lemma ZMPL_moment:
  fixes m :: body_model and k :: kin_result and s :: sensor_vals
  defines "m' \<equiv> bm_update k s m"
  shows "ZMPL m' = (if \<bar>bm_pressureL m' s + bm_pressureR m' s\<bar> > 1 / 1000000
      then (left_moment m' s - right_moment m' s) / (bm_pressureL m' s + bm_pressureR m' s) else 0)"
  by (simp add: m'_def bm_update_def Let_def flip: bm_moment_split)

lemma weighted_bounds:
  fixes a b c d :: real
  assumes "0 \<le> a" "0 \<le> b" "0 \<le> c" "0 \<le> d"
  shows "30 / 1000 * (a + b + c + d) \<le> 80 / 1000 * (a + c) + 30 / 1000 * (b + d)" "80 / 1000 * (a + c) + 30 / 1000 * (b + d) \<le> 80 / 1000 * (a + b + c + d)"
    and "30 / 1000 * (a + b + c + d) \<le> 80 / 1000 * (b + d) + 30 / 1000 * (a + c)" "80 / 1000 * (b + d) + 30 / 1000 * (a + c) \<le> 80 / 1000 * (a + b + c + d)"
  using assms by (simp_all add: field_simps)

lemma moment_difference:
  fixes L R l r :: real
  assumes "0 \<le> l" "0 \<le> r" "30 / 1000 * l \<le> L" "L \<le> 80 / 1000 * l" "30 / 1000 * r \<le> R" "R \<le> 80 / 1000 * r"
  shows "\<bar>L - R\<bar> \<le> 80 / 1000 * (l + r)"
  using assms unfolding abs_le_iff distrib_left by (intro conjI; simp only: minus_diff_eq; linarith)

lemma loads_pushed:
  assumes "fs_ok m" "feet_pushed s"
  shows "0 \<le> bm_pressureL m s" "0 \<le> bm_pressureR m s"
    and "30 / 1000 * bm_pressureL m s \<le> left_moment m s" "left_moment m s \<le> 80 / 1000 * bm_pressureL m s"
    and "30 / 1000 * bm_pressureR m s \<le> right_moment m s" "right_moment m s \<le> 80 / 1000 * bm_pressureR m s"
proof -
  have p: "0 \<le> x / f" if "1 / 10 \<le> f" "0 \<le> x" for x f :: real using that by simp
  have "0 \<le> sv_sensors s RS_LFoot_FSR_FrontLeft / fsLfl m" "0 \<le> sv_sensors s RS_LFoot_FSR_FrontRight / fsLfr m"
    "0 \<le> sv_sensors s RS_LFoot_FSR_RearLeft / fsLrl m" "0 \<le> sv_sensors s RS_LFoot_FSR_RearRight / fsLrr m"
    "0 \<le> sv_sensors s RS_RFoot_FSR_FrontLeft / fsRfl m" "0 \<le> sv_sensors s RS_RFoot_FSR_FrontRight / fsRfr m"
    "0 \<le> sv_sensors s RS_RFoot_FSR_RearLeft / fsRrl m" "0 \<le> sv_sensors s RS_RFoot_FSR_RearRight / fsRrr m"
    using assms by (auto simp: fs_ok_def feet_pushed_def intro!: p)
  then show "0 \<le> bm_pressureL m s" "0 \<le> bm_pressureR m s"
    and "30 / 1000 * bm_pressureL m s \<le> left_moment m s" "left_moment m s \<le> 80 / 1000 * bm_pressureL m s"
    and "30 / 1000 * bm_pressureR m s \<le> right_moment m s" "right_moment m s \<le> 80 / 1000 * bm_pressureR m s"
    unfolding bm_pressureL_def bm_pressureR_def left_moment_def right_moment_def Let_def by (simp_all only: weighted_bounds add_nonneg_nonneg)
qed

text \<open>C32: The centre of pressure never leaves the feet.\<close>

theorem ZMPL_bounds:
  assumes "fs_ok m" "feet_pushed s"
  shows "\<bar>ZMPL (bm_update k s m)\<bar> \<le> 80 / 1000"
proof -
  let ?m = "bm_update k s m"
  note b = loads_pushed [OF bm_update_ok [OF assms(1)] assms(2), of k s]
  have "\<bar>left_moment ?m s - right_moment ?m s\<bar> \<le> 80 / 1000 * (bm_pressureL ?m s + bm_pressureR ?m s)" by (rule moment_difference [OF b])
  then show ?thesis unfolding ZMPL_moment using b(1,2) by (simp add: pos_divide_le_eq)
qed

text \<open>It tells the foot that bears the weight.\<close>

lemma ZMPL_right_foot:
  assumes "fs_ok m" "feet_pushed s" "bm_pressureL (bm_update k s m) s = 0" "1 / 1000000 < bm_pressureR (bm_update k s m) s"
  shows "ZMPL (bm_update k s m) \<le> - 30 / 1000"
proof -
  note b = loads_pushed [OF bm_update_ok [OF assms(1)] assms(2), of k s]
  have "left_moment (bm_update k s m) s = 0" using b(3,4) assms(3) by simp
  then show ?thesis unfolding ZMPL_moment using b(5) assms(3,4) by (simp add: field_simps)
qed

lemma ZMPL_left_foot:
  assumes "fs_ok m" "feet_pushed s" "bm_pressureR (bm_update k s m) s = 0" "1 / 1000000 < bm_pressureL (bm_update k s m) s"
  shows "30 / 1000 \<le> ZMPL (bm_update k s m)"
proof -
  note b = loads_pushed [OF bm_update_ok [OF assms(1)] assms(2), of k s]
  have "right_moment (bm_update k s m) s = 0" using b(5,6) assms(3) by simp
  then show ?thesis unfolding ZMPL_moment using b(3) assms(3,4) by (simp add: field_simps)
qed

text \<open>The whole weight is on the left, or on the right, foot.\<close>

definition bears :: "bool \<Rightarrow> sensor_vals \<Rightarrow> body_model \<Rightarrow> bool" where
  "bears left s m = (if left then bm_pressureR m s = 0 \<and> 1 / 1000000 < bm_pressureL m s else bm_pressureL m s = 0 \<and> 1 / 1000000 < bm_pressureR m s)"

lemma ZMPL_bears:
  assumes "fs_ok m" "feet_pushed s" "bears left s (bm_update k s m)"
  shows "if left then 30 / 1000 \<le> ZMPL (bm_update k s m) else ZMPL (bm_update k s m) \<le> - 30 / 1000"
  using ZMPL_left_foot [OF assms(1,2), of k] ZMPL_right_foot [OF assms(1,2), of k] assms(3) unfolding bears_def by presburger

text \<open>
  C33: When the robot shifts its whole weight from one foot to the other, in either direction, the product the walk engine looks at becomes
  negative.
\<close>

theorem weight_shift_detected:
  assumes "fs_ok m" "feet_pushed s" "feet_pushed s'"
    and "bears left s (bm_update k s m)" "bears (\<not> left) s' (bm_update k' s' (bm_update k s m))"
  shows "lastZMPL (bm_update k' s' (bm_update k s m)) * ZMPL (bm_update k' s' (bm_update k s m)) \<le> - (9 / 10000)"
proof -
  define z z' where "z = ZMPL (bm_update k s m)" and "z' = ZMPL (bm_update k' s' (bm_update k s m))"
  have l: "lastZMPL (bm_update k' s' (bm_update k s m)) = z" by (simp add: bm_update_simps z_def)
  have a: "if left then 30 / 1000 \<le> z else z \<le> - 30 / 1000" using ZMPL_bears [OF assms(1,2,4)] unfolding z_def .
  have b: "if left then z' \<le> - 30 / 1000 else 30 / 1000 \<le> z'"
    using ZMPL_bears [OF bm_update_ok [OF assms(1)] assms(3,5)] unfolding z'_def by presburger
  show ?thesis
  proof (cases left)
    case True
    then have "30 / 1000 * (30 / 1000) \<le> z * - z'" using a b by (intro mult_mono) simp_all
    then show ?thesis by (simp add: l z'_def [symmetric])
  next
    case False
    then have "30 / 1000 * (30 / 1000) \<le> - z * z'" using a b by (intro mult_mono) simp_all
    then show ?thesis by (simp add: l z'_def [symmetric])
  qed
qed

definition standing_on :: "bool \<Rightarrow> rs_sensor \<Rightarrow> real" where
  "standing_on left c =
     (if c \<in> {RS_LFoot_FSR_FrontLeft, RS_LFoot_FSR_FrontRight, RS_LFoot_FSR_RearLeft, RS_LFoot_FSR_RearRight} then if left then 1 else 0
      else if c \<in> {RS_RFoot_FSR_FrontLeft, RS_RFoot_FSR_FrontRight, RS_RFoot_FSR_RearLeft, RS_RFoot_FSR_RearRight} then if left then 0 else 1
      else 0)"

lemma standing_on_pushed: "feet_pushed \<lparr>sv_joints = j, sv_sensors = standing_on left\<rparr>"
  by (simp add: feet_pushed_def standing_on_def)

theorem ZMPL_bounds_witness:
  "\<forall>mem k j. \<bar>ZMPL (bm_update k \<lparr>sv_joints = j, sv_sensors = standing_on True\<rparr> (bdm_new mem))\<bar> \<le> 80 / 1000"
  using ZMPL_bounds [OF bm_new_ok standing_on_pushed] by blast

theorem weight_shift_detected_witness:
  "\<forall>mem k j left. lastZMPL (bm_update k \<lparr>sv_joints = j, sv_sensors = standing_on (\<not> left)\<rparr>
       (bm_update k \<lparr>sv_joints = j, sv_sensors = standing_on left\<rparr> (bdm_new mem))) *
     ZMPL (bm_update k \<lparr>sv_joints = j, sv_sensors = standing_on (\<not> left)\<rparr>
       (bm_update k \<lparr>sv_joints = j, sv_sensors = standing_on left\<rparr> (bdm_new mem))) \<le> - (9 / 10000)"
proof (intro allI)
  fix mem :: body_model and k :: kin_result and j :: joint_vals and left :: bool
  let ?A = "\<lparr>sv_joints = j, sv_sensors = standing_on left\<rparr>" and ?B = "\<lparr>sv_joints = j, sv_sensors = standing_on (\<not> left)\<rparr>"
  show "lastZMPL (bm_update k ?B (bm_update k ?A (bdm_new mem))) * ZMPL (bm_update k ?B (bm_update k ?A (bdm_new mem))) \<le> - (9 / 10000)"
    by (rule weight_shift_detected [OF bm_new_ok standing_on_pushed standing_on_pushed, where left = left])
      (simp_all add: bears_def bm_pressureL_def bm_pressureR_def Let_def standing_on_def bm_update_simps bdm_new_def fs_max_def)
qed

end
