(* ===== verification/Walk_Generator.thy ===== *)
theory Walk_Generator
  imports Walk_Geometry Walk_Body
begin

text \<open>
  The walk generator (\<open>src/core/motion/rswalk2014/Walk2014Generator.cpp\<close>). Every 10 ms \<open>makeJoints\<close> updates the body, reads the request
  at the beginning of a step, chooses what the robot does (stand, stand up, crouch, walk, wait in the crouch, kick), moves the feet
  along the shapes of a step, changes the support foot when the pressure does, keeps the odometry, and computes the joints. The
  sections of the long function are definitions of their own, in its order. The fields of the class are grouped in records. The clock of
  the limp timer is an argument.
\<close>

section \<open>State\<close>

datatype walk_option = O_STAND | O_STANDUP | O_CROUCH | O_WALK | O_READY | O_KICK | O_NONE

datatype walk_state = S_WALKING | S_STARTING | S_STOPPING | S_NOT_WALKING

record walk_params =
  p_com_offset :: real
  p_forward_change :: real
  p_left_change :: real
  p_turn_change :: real
  p_base_walk_period :: real
  p_walk_hip_height :: real
  p_stand_hip_height :: real
  p_max_forward :: real
  p_max_left :: real
  p_max_turn :: real
  p_base_leg_lift :: real
  p_arm_swing :: real
  p_fwd_extra_foot_height :: real
  p_left_extra_foot_height :: real
  p_start_lift_divisor :: real
  p_pendulum_height :: real

record walk_cmd =
  w_active :: body_command
  w_forward :: real
  w_lastForward :: real
  w_left :: real
  w_lastLeft :: real
  w_turn :: real
  w_lastTurn :: real
  w_power :: real
  w_bend :: real
  w_speed :: real
  w_foot :: rs_foot
  w_isFast :: bool

record walk_phase =
  w_t :: real
  w_globalTime :: real
  w_timer :: real
  w_T :: real
  w_footSwitchT :: real
  w_nextFootSwitchT :: real
  walk2014Option :: walk_option
  walkState :: walk_state
  supportFoothasChanged :: bool
  w_hiph :: real
  w_hiph0 :: real
  w_comOffset :: real
  w_stiffness :: real

record step_vars =
  w_foothL :: real
  w_foothR :: real
  w_forwardL0 :: real
  w_forwardL :: real
  w_forwardR0 :: real
  w_forwardR :: real
  w_leftL :: real
  w_leftR :: real
  w_turnRL :: real
  w_turnRL0 :: real
  w_swingAngle :: real
  w_shoulderPitchL :: real
  w_shoulderPitchR :: real
  w_shoulderRollL :: real
  w_shoulderRollR :: real

record kick_vars =
  w_kickT :: real
  w_kickPhase :: real
  w_rock :: real
  w_kneePitchL :: real
  w_kneePitchR :: real
  w_lastKneePitch :: real
  w_anklePitchL :: real
  w_anklePitchR :: real
  w_lastKickForward :: real
  w_lastSide :: real
  w_lastKickTime :: real
  w_dynamicSide :: real

record odo_vars =
  w_prevTurn :: real
  w_prevForwardL :: real
  w_prevForwardR :: real
  w_prevLeftL :: real
  w_prevLeftR :: real

record balance_vars =
  w_filteredGyroX :: real
  w_filteredGyroY :: real
  w_filteredGyroSquaredX :: real
  w_filteredGyroSquaredY :: real
  w_balanceAdjustment :: real
  w_coronalBalanceAdjustment :: real

record generator =
  g_default :: walk_params
  g_curr :: walk_params
  g_cmd :: walk_cmd
  g_ph :: walk_phase
  g_st :: step_vars
  g_kick :: kick_vars
  g_odo :: odo_vars
  g_bal :: balance_vars
  exactStepsRequested :: bool
  w_stopping :: bool
  w_stopped :: bool
  w_dt :: real
  w_thigh :: real
  w_tibia :: real
  w_ankle :: real
  w_limp :: int
  w_armStuck :: bool
  in_walk_kick :: bool
  just_finished_kick :: bool

abbreviation (input) MM_PER_M :: real where "MM_PER_M \<equiv> 1000"
abbreviation (input) CROUCH_STAND_PERIOD :: real where "CROUCH_STAND_PERIOD \<equiv> 1 / 2"
abbreviation (input) KNEE_PITCH_RANGE :: real where "KNEE_PITCH_RANGE \<equiv> DEG2RAD 60"
abbreviation (input) SHIFT_PERIOD :: real where "SHIFT_PERIOD \<equiv> 2"
abbreviation (input) SHIFT_END_PERIOD :: real where "SHIFT_END_PERIOD \<equiv> 25 / 10"
abbreviation (input) KICK_LEAN :: real where "KICK_LEAN \<equiv> 222 / 10"
abbreviation (input) KICK_STEP_HEIGHT :: real where "KICK_STEP_HEIGHT \<equiv> 3 / 100"
abbreviation (input) BACK_PHASE :: real where "BACK_PHASE \<equiv> 65 / 100"
abbreviation (input) MIN_KICK_PHASE :: real where "MIN_KICK_PHASE \<equiv> 5 / 10"
abbreviation (input) MAX_KICK_PHASE :: real where "MAX_KICK_PHASE \<equiv> 2 / 10"
abbreviation (input) THROUGH_PHASE :: real where "THROUGH_PHASE \<equiv> 3 / 10"
abbreviation (input) END_PHASE :: real where "END_PHASE \<equiv> 6 / 10"

definition walk_defaults :: walk_params where
  "walk_defaults = \<lparr>p_com_offset = 1 / 100, p_forward_change = 12 / 100, p_left_change = 2 / 10, p_turn_change = 8 / 10,
     p_base_walk_period = 25 / 100, p_walk_hip_height = 21 / 100, p_stand_hip_height = 248 / 1000,
     p_max_forward = 3 / 10, p_max_left = 2 / 10, p_max_turn = 87 / 100, p_base_leg_lift = 14 / 1000, p_arm_swing = 6,
     p_fwd_extra_foot_height = 1 / 100, p_left_extra_foot_height = 2 / 100, p_start_lift_divisor = 35 / 10, p_pendulum_height = 300\<rparr>"

definition restoreDefaultWalkParameters :: "generator \<Rightarrow> generator" where
  "restoreDefaultWalkParameters g = g\<lparr>g_default := walk_defaults, g_curr := walk_defaults\<rparr>"

definition g_initialise :: "generator \<Rightarrow> generator" where
  "g_initialise g =
     g\<lparr>w_dt := 1 / 100,
       g_ph := (g_ph g)\<lparr>w_t := 0, w_timer := 0, w_footSwitchT := 0, w_globalTime := 0, w_T := p_base_walk_period (g_curr g),
         w_hiph := p_stand_hip_height (g_curr g), w_hiph0 := p_stand_hip_height (g_curr g), w_nextFootSwitchT := 0, w_stiffness := 9 / 10,
         walk2014Option := O_NONE, walkState := S_NOT_WALKING, supportFoothasChanged := False, w_comOffset := 0\<rparr>,
       w_stopping := False, w_stopped := True,
       g_st := (g_st g)\<lparr>w_leftL := 0, w_leftR := 0, w_turnRL := 0, w_turnRL0 := 0, w_forwardL := 0, w_forwardR := 0, w_forwardR0 := 0,
         w_forwardL0 := 0, w_shoulderPitchL := 0, w_shoulderPitchR := 0, w_shoulderRollL := 0, w_shoulderRollR := 0,
         w_foothL := 0, w_foothR := 0\<rparr>,
       g_cmd := (g_cmd g)\<lparr>w_lastLeft := 0, w_left := 0, w_forward := 0, w_lastForward := 0\<rparr>,
       w_thigh := ThighLength / MM_PER_M, w_tibia := TibiaLength / MM_PER_M, w_ankle := FootHeight / MM_PER_M,
       g_odo := \<lparr>w_prevTurn = 0, w_prevForwardL = 0, w_prevForwardR = 0, w_prevLeftL = 0, w_prevLeftR = 0\<rparr>,
       exactStepsRequested := False, w_armStuck := False,
       g_kick := \<lparr>w_kickT = 0, w_kickPhase = MAX_KICK_PHASE, w_rock = 0, w_kneePitchL = 0, w_kneePitchR = 0, w_lastKneePitch = 0,
         w_anklePitchL = 0, w_anklePitchR = 0, w_lastKickForward = 0, w_lastSide = 0,
         w_lastKickTime = p_base_walk_period (g_curr g), w_dynamicSide = 0\<rparr>\<rparr>"

text \<open>
  The constructor initialises the state before it sets the parameters, so the first values of the period and of the height of the hip
  come from the memory, here \<open>mem\<close>. The creation of the timer takes the time \<open>now\<close>.
\<close>

definition g_new :: "int \<Rightarrow> generator \<Rightarrow> generator" where
  "g_new now mem =
     restoreDefaultWalkParameters (g_initialise (mem\<lparr>w_limp := now, g_ph := (g_ph mem)\<lparr>w_t := 0\<rparr>,
       g_bal := (g_bal mem)\<lparr>w_filteredGyroX := 0, w_filteredGyroY := 0\<rparr>\<rparr>))"

definition g_isActive :: "generator \<Rightarrow> bool" where
  "g_isActive g = (\<not> w_stopped g)"

definition g_isStanding :: "generator \<Rightarrow> bool" where
  "g_isStanding g = (walkState (g_ph g) = S_NOT_WALKING \<or> w_bend (g_cmd g) = 0)"

definition g_reset :: "generator \<Rightarrow> generator" where
  "g_reset g = g_initialise g"

definition g_stop :: "generator \<Rightarrow> generator" where
  "g_stop g = g\<lparr>w_stopping := True\<rparr>"

section \<open>The request\<close>

definition evaluateWalkVolume :: "real \<Rightarrow> real \<Rightarrow> real \<Rightarrow> real" where
  "evaluateWalkVolume x y z =
     (let e = 105 / 100; n = 1; r = 2 / e; t = 2 / n in (x powr r + y powr r) powr (t / r) + z powr t)"

primrec clamp_search :: "nat \<Rightarrow> real \<Rightarrow> real \<Rightarrow> real \<Rightarrow> real \<Rightarrow> real \<Rightarrow> real \<Rightarrow> real" where
  "clamp_search 0 forwardAmount leftAmount z low scale high = scale"
| "clamp_search (Suc n) forwardAmount leftAmount z low scale high =
     (if evaluateWalkVolume (\<bar>forwardAmount\<bar> * scale) (\<bar>leftAmount\<bar> * scale) z > 1
      then clamp_search n forwardAmount leftAmount z low ((scale + low) / 2) scale
      else clamp_search n forwardAmount leftAmount z scale ((scale + high) / 2) high)"

definition ellipsoidClampWalk :: "walk_params \<Rightarrow> real \<Rightarrow> real \<Rightarrow> real \<Rightarrow> real \<Rightarrow> real \<times> real \<times> real" where
  "ellipsoidClampWalk p forward left turn speed =
     (let speed = rs_crop speed 0 1;
          M_FORWARD = p_max_forward p * (66 / 100) + p_max_forward p * (34 / 100) * speed;
          M_LEFT = p_max_left p * (66 / 100) + p_max_left p * (34 / 100) * speed;
          M_TURN = p_max_turn p * (66 / 100) + p_max_turn p * (34 / 100) * speed;
          clampedForward = rs_crop forward (- M_FORWARD) M_FORWARD;
          clampedLeft = rs_crop left (- M_LEFT) M_LEFT;
          clampedTurn = rs_crop turn (- M_TURN) M_TURN;
          forwardAmount = clampedForward / M_FORWARD;
          leftAmount = clampedLeft / M_LEFT;
          turnAmount = clampedTurn / M_TURN;
          scale = (if evaluateWalkVolume \<bar>forwardAmount\<bar> \<bar>leftAmount\<bar> \<bar>turnAmount\<bar> > 1
                   then clamp_search 10 forwardAmount leftAmount \<bar>turnAmount\<bar> 0 (1 / 2) 1 else 1)
      in (M_FORWARD * (forwardAmount * scale), M_LEFT * (leftAmount * scale), clampedTurn))"

definition ratchet :: "real \<Rightarrow> real \<Rightarrow> real \<Rightarrow> real" where
  "ratchet change previous new =
     (if \<bar>new - previous\<bar> > change then previous + (new - previous) / \<bar>new - previous\<bar> * change else new)"

definition requested_speed :: "walk_params \<Rightarrow> bool \<Rightarrow> body_command \<Rightarrow> real \<times> real \<times> real" where
  "requested_speed p exact body =
     (let forward = ac_forward body / MM_PER_M; left = ac_left body / MM_PER_M; turn = ac_turn body
      in if \<not> exact then ellipsoidClampWalk p forward left turn (ac_speed body) else (forward, left, turn))"

definition step_period :: "walk_params \<Rightarrow> real \<Rightarrow> real" where
  "step_period p left = p_base_walk_period p + 5 / 100 * \<bar>left\<bar> / p_max_left p"

definition ratchet_speed :: "walk_params \<Rightarrow> bool \<Rightarrow> real \<times> real \<times> real \<Rightarrow> real \<times> real \<times> real \<Rightarrow> real \<times> real \<times> real" where
  "ratchet_speed p exact = (\<lambda>(lastForward, lastLeft, lastTurn) (forward, left, turn).
     if \<not> exact then (ratchet (p_forward_change p) lastForward forward, ratchet (p_left_change p) lastLeft left, ratchet (p_turn_change p) lastTurn turn)
     else (forward, left, turn))"

definition calibrate_speed :: "bool \<Rightarrow> real \<Rightarrow> real \<times> real \<times> real \<Rightarrow> real \<times> real \<times> real" where
  "calibrate_speed exact T = (\<lambda>(forward, left, turn).
     let (forward, left, turn) =
           (if \<not> exact then (forward * (2 * T) * 1, left * (2 * T) * (82 / 100), turn * (2 * T) * (143 / 100)) else (forward, left, turn))
     in (forward, left, turn * (- 1)))"

text \<open>
  What \<open>makeJoints\<close> does at the start of a step. As in the source, the last turn is the one just requested, before it is clamped, while the
  last forward and left speeds are those of the previous step after their calibration.
\<close>

definition readRequest :: "body_command \<Rightarrow> generator \<Rightarrow> generator" where
  "readRequest body g =
     (let p = g_curr g; exact = exactStepsRequested g; c = g_cmd g;
          lastForward = w_forward c; lastLeft = w_left c; lastTurn = ac_turn body;
          bend = (if ac_forward body / MM_PER_M = 0 \<and> ac_left body / MM_PER_M = 0 \<and> ac_turn body = 0 \<and> ac_power body = 0 then 0 else ac_bend body);
          speed = requested_speed p exact body;
          T = step_period p (fst (snd speed));
          speed = calibrate_speed exact T (ratchet_speed p exact (lastForward, lastLeft, lastTurn) speed)
      in g\<lparr>g_cmd := \<lparr>w_active = body, w_forward = fst speed, w_lastForward = lastForward, w_left = fst (snd speed), w_lastLeft = lastLeft,
             w_turn = snd (snd speed), w_lastTurn = lastTurn, w_power = ac_power body, w_bend = bend, w_speed = ac_speed body,
             w_foot = ac_foot body, w_isFast = ac_isFast body\<rparr>,
           g_ph := (g_ph g)\<lparr>w_T := T\<rparr>, w_stopped := if w_stopping g then w_stopped g else False\<rparr>)"

section \<open>What the robot does\<close>

definition g_tick :: "generator \<Rightarrow> generator" where
  "g_tick g = g\<lparr>g_ph := (g_ph g)\<lparr>w_t := w_t (g_ph g) + w_dt g, w_globalTime := w_globalTime (g_ph g) + w_dt g\<rparr>,
     g_kick := (g_kick g)\<lparr>w_lastKickTime := w_lastKickTime (g_kick g) + w_dt g\<rparr>\<rparr>"

definition skipToKickEnd :: "generator \<Rightarrow> generator" where
  "skipToKickEnd g =
     (let k = g_kick g; s = g_st g
      in if w_kickT k < BACK_PHASE + w_kickPhase k + THROUGH_PHASE
         then g\<lparr>g_kick := (if ac_foot (w_active (g_cmd g)) = FOOT_LEFT
              then k\<lparr>w_lastKickForward := w_forwardL s, w_lastKneePitch := w_kneePitchL k, w_lastSide := w_leftL s\<rparr>
              else k\<lparr>w_lastKickForward := w_forwardR s, w_lastKneePitch := w_kneePitchR k, w_lastSide := - w_leftR s\<rparr>)
              \<lparr>w_kickT := BACK_PHASE + w_kickPhase k + THROUGH_PHASE\<rparr>\<rparr>
         else g)"

definition beginMove :: "walk_option \<Rightarrow> walk_phase \<Rightarrow> walk_phase" where
  "beginMove opt ph =
     (if walk2014Option ph \<noteq> opt then ph\<lparr>w_hiph0 := w_hiph ph, w_timer := 0\<rparr> else ph)\<lparr>walk2014Option := opt\<rparr>"

definition option_step :: "walk_params \<Rightarrow> walk_cmd \<Rightarrow> walk_phase \<Rightarrow> walk_phase" where
  "option_step p c ph =
     (if walk2014Option ph = O_WALK \<and> walkState ph \<noteq> S_NOT_WALKING
      then if w_forward c = 0 \<and> w_left c = 0 \<and> w_turn c = 0 then ph\<lparr>walkState := S_STOPPING\<rparr> else ph
      else if w_bend c = 0
      then if \<bar>w_hiph ph - p_stand_hip_height p\<bar> < 1 / 10000 then ph\<lparr>walk2014Option := O_STAND\<rparr>
           else beginMove O_STANDUP ph
      else if w_forward c = 0 \<and> w_left c = 0 \<and> w_turn c = 0 \<and> w_bend c = 1
      then if \<bar>w_hiph ph - p_walk_hip_height p\<bar> < 1 / 10000 then ph\<lparr>walk2014Option := O_READY\<rparr>
           else beginMove O_CROUCH ph
      else if \<bar>w_hiph ph - p_walk_hip_height p\<bar> < 1 / 10000
      then (if walk2014Option ph \<noteq> O_WALK then ph\<lparr>walkState := S_STARTING, w_nextFootSwitchT := w_T ph\<rparr> else ph)
             \<lparr>walk2014Option := O_WALK\<rparr>
      else beginMove O_CROUCH ph)"

definition determineOption :: "action_type \<Rightarrow> generator \<Rightarrow> generator" where
  "determineOption a g =
     (if a \<noteq> A_KICK \<and> w_kickT (g_kick g) > 0 \<and> a \<noteq> A_REF_PICKUP then skipToKickEnd g
      else g\<lparr>g_ph := option_step (g_curr g) (g_cmd g) (g_ph g)\<rparr>)"

definition cmd_halt :: "walk_cmd \<Rightarrow> walk_cmd" where
  "cmd_halt c = c\<lparr>w_forward := 0, w_left := 0, w_turn := 0\<rparr>"

definition execute_phase :: "walk_params \<Rightarrow> real \<Rightarrow> real \<Rightarrow> walk_phase \<Rightarrow> walk_phase" where
  "execute_phase p dt pw ph =
     (case walk2014Option ph of
        O_STAND \<Rightarrow> ph\<lparr>w_hiph := p_stand_hip_height p, w_t := 0, w_nextFootSwitchT := 0,
          w_stiffness := if pw < 1 / 10 then 1 / 10 else pw, w_comOffset := 0\<rparr>
      | O_STANDUP \<Rightarrow> ph\<lparr>w_hiph := w_hiph0 ph + (p_stand_hip_height p - w_hiph0 ph) * parabolicStep dt (w_timer ph) CROUCH_STAND_PERIOD 0,
          w_comOffset := w_comOffset ph - 2 / 100 * w_comOffset ph, w_stiffness := 1, w_t := 0, w_nextFootSwitchT := 0,
          w_timer := w_timer ph + dt\<rparr>
      | O_CROUCH \<Rightarrow> ph\<lparr>w_stiffness := 1,
          w_hiph := w_hiph0 ph + (p_walk_hip_height p - w_hiph0 ph) * parabolicStep dt (w_timer ph) CROUCH_STAND_PERIOD 0,
          w_comOffset := p_com_offset p * parabolicStep dt (w_timer ph) CROUCH_STAND_PERIOD 0, w_t := 0, w_nextFootSwitchT := 0,
          w_timer := w_timer ph + dt\<rparr>
      | O_WALK \<Rightarrow> ph\<lparr>w_stiffness := 1, w_comOffset := p_com_offset p, w_hiph := p_walk_hip_height p\<rparr>
      | O_KICK \<Rightarrow> ph\<lparr>w_stiffness := 1, w_comOffset := p_com_offset p, w_hiph := p_walk_hip_height p\<rparr>
      | O_READY \<Rightarrow> ph\<lparr>w_stiffness := if pw < 4 / 10 then 4 / 10 else pw, w_t := 0, w_nextFootSwitchT := 0\<rparr>
      | O_NONE \<Rightarrow> ph)"

definition executeOption :: "generator \<Rightarrow> generator" where
  "executeOption g =
     g\<lparr>g_cmd := (if walk2014Option (g_ph g) \<in> {O_STAND, O_STANDUP, O_CROUCH, O_READY} then cmd_halt (g_cmd g) else g_cmd g),
       g_ph := execute_phase (g_curr g) (w_dt g) (w_power (g_cmd g)) (g_ph g)\<rparr>"

section \<open>The feet during a step\<close>

definition leftAngle :: "real \<Rightarrow> real \<Rightarrow> walk_cmd \<Rightarrow> walk_phase \<Rightarrow> real" where
  "leftAngle dt ankle c ph =
     (let left_at_t = w_left c * parabolicStep dt (w_t ph) (w_nextFootSwitchT ph) 0;
          height = w_hiph ph - ankle
      in arctan (left_at_t / height))"

text \<open>The left foot swings.\<close>

definition swing_left :: "real \<Rightarrow> real \<Rightarrow> walk_cmd \<Rightarrow> walk_phase \<Rightarrow> real \<Rightarrow> step_vars \<Rightarrow> step_vars" where
  "swing_left dt ankle c ph varfootHeight s =
     (let t = w_t ph; next = w_nextFootSwitchT ph; forward = w_forward c; left = w_left c; turn = w_turn c;
          step = parabolicStep dt t next;
          forwardR = w_forwardR0 s + (forward / 4 - w_forwardR0 s) * linearStep t next;
          forwardL = w_forwardL0 s + step 0 * (- forward / 4 - w_forwardL0 s);
          (leftL, leftR) =
            (if left > 0
             then let leftR = leftAngle dt ankle c ph / 2;
                      leftR = (if w_lastLeft c * left < 0 then leftR - w_swingAngle s * (1 - step (1 / 10)) else leftR)
                  in (- leftR, leftR)
             else let leftL = w_swingAngle s * (1 - step 0) in (leftL, - leftL));
          turnRL = (if turn < 0 then w_turnRL0 s + (- (67 / 100) * turn - w_turnRL0 s) * step 0
                    else w_turnRL0 s + (- (33 / 100) * turn - w_turnRL0 s) * step 0)
      in s\<lparr>w_forwardR := forwardR, w_forwardL := forwardL, w_leftL := leftL, w_leftR := leftR, w_turnRL := turnRL,
           w_foothL := varfootHeight, w_foothR := 0\<rparr>)"

text \<open>The right foot swings.\<close>

definition swing_right :: "real \<Rightarrow> real \<Rightarrow> bool \<Rightarrow> walk_cmd \<Rightarrow> walk_phase \<Rightarrow> real \<Rightarrow> step_vars \<Rightarrow> step_vars" where
  "swing_right dt ankle finishedKick c ph varfootHeight s =
     (let t = w_t ph; next = w_nextFootSwitchT ph; forward = w_forward c; left = w_left c; turn = w_turn c;
          step = parabolicStep dt t next;
          forwardL = w_forwardL0 s + (forward / 4 - w_forwardL0 s) * linearStep t next;
          forwardR = w_forwardR0 s + step 0 * (- forward / 4 - w_forwardR0 s);
          (leftL, leftR) =
            (if left < 0
             then let leftL = leftAngle dt ankle c ph / 2;
                      leftL = (if w_lastLeft c * left < 0 then leftL - w_swingAngle s * (1 - step (1 / 10)) else leftL)
                  in (leftL, - leftL)
             else let leftR = w_swingAngle s * (1 - step 0) in (- leftR, leftR));
          turnRL = (if turn < 0 then w_turnRL0 s + (33 / 100 * turn - w_turnRL0 s) * step 0
                    else w_turnRL0 s + (67 / 100 * turn - w_turnRL0 s) * step 0);
          stand_rate = 1 / 2 * w_T ph;
          (foothL, foothR) = (if finishedKick \<and> t < stand_rate then (2 / 100 * (1 - t / stand_rate), 2 / 100 * (1 - t / stand_rate))
                              else (0, varfootHeight))
      in s\<lparr>w_forwardR := forwardR, w_forwardL := forwardL, w_leftL := leftL, w_leftR := leftR, w_turnRL := turnRL,
           w_foothL := foothL, w_foothR := foothR\<rparr>)"

definition prime_step :: "walk_params \<Rightarrow> step_vars \<Rightarrow> step_vars" where
  "prime_step p s = s\<lparr>w_turnRL := 0, w_foothL := w_foothL s / p_start_lift_divisor p, w_foothR := w_foothR s / p_start_lift_divisor p,
     w_leftR := 0, w_leftL := 0, w_forwardL := 0, w_forwardR := 0\<rparr>"

definition walk_step :: "bool \<Rightarrow> generator \<Rightarrow> generator" where
  "walk_step isLeft g =
     (let p = g_curr g; c = g_cmd g; ph = g_ph g;
          maxFootHeight = p_base_leg_lift p + \<bar>w_forward c\<bar> * p_fwd_extra_foot_height p + \<bar>w_left c\<bar> * p_left_extra_foot_height p;
          varfootHeight = maxFootHeight * parabolicReturn (w_t ph / w_nextFootSwitchT ph);
          s = (if isLeft then swing_left (w_dt g) (w_ankle g) c ph varfootHeight (g_st g)
               else swing_right (w_dt g) (w_ankle g) (just_finished_kick g) c ph varfootHeight (g_st g));
          s = (if walkState ph = S_STARTING then prime_step p s else s);
          s = s\<lparr>w_shoulderPitchR := - w_forwardR s * p_arm_swing p, w_shoulderPitchL := - w_forwardL s * p_arm_swing p\<rparr>
      in g\<lparr>g_st := s\<rparr>)"

section \<open>Kicks\<close>

definition prepKick :: "bool \<Rightarrow> generator \<times> body_model \<Rightarrow> generator \<times> body_model" where
  "prepKick isLeft = (\<lambda>(g, m).
     let ph = (g_ph g)\<lparr>w_t := 0, walk2014Option := O_KICK\<rparr>; k = (g_kick g)\<lparr>w_kickT := 0\<rparr>; s = g_st g
     in if isLeft
        then (g\<lparr>g_ph := ph, g_kick := k\<lparr>w_lastKickForward := w_forwardL s, w_lastKneePitch := w_kneePitchL k, w_lastSide := w_leftL s\<rparr>,
                g_st := s\<lparr>w_forwardR := 0, w_foothR := 0\<rparr>\<rparr>, bm_setIsLeftPhase True m)
        else (g\<lparr>g_ph := ph, g_kick := k\<lparr>w_lastKickForward := w_forwardR s, w_lastKneePitch := w_kneePitchR k, w_lastSide := - w_leftR s\<rparr>,
                g_st := s\<lparr>w_forwardL := 0, w_foothL := 0\<rparr>\<rparr>, bm_setIsLeftPhase False m))"

text \<open>The reference parameters of the function that moves the kicking leg.\<close>

record kick_limb =
  kl_footh :: real
  kl_forward :: real
  kl_side :: real
  kl_kneePitch :: real
  kl_shoulderRoll :: real
  kl_anklePitch :: real

definition kick_amplitudes :: "bool \<Rightarrow> real \<Rightarrow> kick_vars \<Rightarrow> kick_vars \<times> real \<times> real" where
  "kick_amplitudes misaligned ballY k =
     (let k = (if misaligned then k\<lparr>w_dynamicSide := 0\<rparr>
               else if w_kickT k < BACK_PHASE * (8 / 10) then k\<lparr>w_dynamicSide := \<bar>ballY\<bar> - 50\<rparr> else k);
          sideAmp = - rs_MAX 0 (rs_MIN 60 (w_dynamicSide k)) / 200
      in (k, sideAmp, - sideAmp / (25 / 10)))"

text \<open>The phases of the kick: weight shift and back swing, forward swing, hold, return, weight shift back, end.\<close>

definition kick_back :: "real \<Rightarrow> real \<Rightarrow> real \<Rightarrow> real \<Rightarrow> real \<Rightarrow> real \<Rightarrow> real \<Rightarrow> real \<Rightarrow> kick_vars \<times> real \<times> kick_limb \<Rightarrow> kick_vars \<times> real \<times> kick_limb" where
  "kick_back dt t kickLean kickStepH shiftPeriod sideAmp kickAmp shoulderRollAmp = (\<lambda>(k, turnRL, l).
     let totalShift = shiftPeriod / 4; halfShift = totalShift / 2;
         (k, turnRL, l) =
           (if t < totalShift
            then (k\<lparr>w_rock := DEG2RAD kickLean * parabolicStep dt t totalShift 0\<rparr>, turnRL, l\<lparr>kl_footh := kickStepH * parabolicStep dt t totalShift 0\<rparr>)
            else (k, 0, l))
     in if w_kickT k \<ge> halfShift
        then let shiftedKickT = w_kickT k - halfShift
             in (k, turnRL, l\<lparr>kl_forward := interpolateSmooth (w_lastKickForward k) (- kickAmp * (9 / 10)) shiftedKickT (BACK_PHASE - halfShift),
                  kl_side := interpolateSmooth 0 sideAmp shiftedKickT (BACK_PHASE - halfShift),
                  kl_shoulderRoll := interpolateSmooth 0 shoulderRollAmp shiftedKickT (BACK_PHASE - halfShift),
                  kl_kneePitch := interpolateSmooth 0 (DEG2RAD 35 * (9 / 10)) shiftedKickT (BACK_PHASE - halfShift),
                  kl_anklePitch := interpolateSmooth 0 (DEG2RAD 5) shiftedKickT (BACK_PHASE - halfShift)\<rparr>)
        else (k, turnRL, l))"

definition kick_swing :: "real \<Rightarrow> real \<Rightarrow> real \<Rightarrow> kick_vars \<Rightarrow> kick_limb \<Rightarrow> kick_limb" where
  "kick_swing sideAmp kickAmp shoulderRollAmp k l =
     (let forwardDist = interpolateSmooth (- kickAmp * (9 / 10)) kickAmp (w_kickT k - BACK_PHASE) (w_kickPhase k);
          kneePitch = interpolateSmooth (DEG2RAD 35 * (9 / 10)) (DEG2RAD (- 35)) (w_kickT k - BACK_PHASE) (w_kickPhase k)
      in l\<lparr>kl_forward := forwardDist, kl_side := sideAmp, kl_shoulderRoll := shoulderRollAmp, kl_kneePitch := kneePitch,
           kl_anklePitch := if forwardDist > 0 then DEG2RAD 5 else - kneePitch\<rparr>)"

definition kick_hold :: "real \<Rightarrow> real \<Rightarrow> real \<Rightarrow> kick_vars \<times> kick_limb \<Rightarrow> kick_vars \<times> kick_limb" where
  "kick_hold sideAmp kickAmp shoulderRollAmp = (\<lambda>(k, l).
     let l = l\<lparr>kl_forward := kickAmp, kl_side := sideAmp, kl_shoulderRoll := shoulderRollAmp, kl_kneePitch := DEG2RAD (- 35),
               kl_anklePitch := - DEG2RAD (- 35)\<rparr>
     in (k\<lparr>w_lastKickForward := kl_forward l, w_lastKneePitch := kl_kneePitch l, w_lastSide := kl_side l\<rparr>, l))"

definition kick_return :: "real \<Rightarrow> kick_vars \<Rightarrow> kick_limb \<Rightarrow> kick_limb" where
  "kick_return shoulderRollAmp k l =
     (let since = w_kickT k - BACK_PHASE - w_kickPhase k - THROUGH_PHASE;
          kneePitch = interpolateSmooth (w_lastKneePitch k) 0 since END_PHASE
      in l\<lparr>kl_forward := interpolateSmooth (w_lastKickForward k) 0 since END_PHASE, kl_side := interpolateSmooth (w_lastSide k) 0 since END_PHASE,
           kl_shoulderRoll := interpolateSmooth shoulderRollAmp 0 since END_PHASE, kl_kneePitch := kneePitch, kl_anklePitch := - kneePitch\<rparr>)"

text \<open>The last component tells that the kick has ended, and with it the request.\<close>

definition makeForwardKickJoints ::
    "real \<Rightarrow> real \<Rightarrow> real \<Rightarrow> real \<Rightarrow> bool \<Rightarrow> real \<Rightarrow> real \<Rightarrow> walk_phase \<Rightarrow> kick_vars \<times> real \<times> kick_limb
      \<Rightarrow> walk_phase \<times> kick_vars \<times> real \<times> kick_limb \<times> bool" where
  "makeForwardKickJoints dt kickLean kickStepH shiftPeriod misaligned ballY pw ph = (\<lambda>(k, turnRL, l).
     let k = k\<lparr>w_kickT := w_kickT k + dt\<rparr>;
         k = k\<lparr>w_kickPhase := MIN_KICK_PHASE + (MAX_KICK_PHASE - MIN_KICK_PHASE) * pw\<rparr>;
         totalPhase = BACK_PHASE + w_kickPhase k + THROUGH_PHASE + END_PHASE;
         (k, sideAmp, shoulderRollAmp) = kick_amplitudes misaligned ballY k;
         kickAmp = - (7 / 100)
     in if w_kickT k < BACK_PHASE
        then let (k, turnRL, l) = kick_back dt (w_t ph) kickLean kickStepH shiftPeriod sideAmp kickAmp shoulderRollAmp (k, turnRL, l)
             in (ph, k, turnRL, l, False)
        else if w_kickT k < BACK_PHASE + w_kickPhase k then (ph, k, turnRL, kick_swing sideAmp kickAmp shoulderRollAmp k l, False)
        else if w_kickT k < BACK_PHASE + w_kickPhase k + THROUGH_PHASE
        then let (k, l) = kick_hold sideAmp kickAmp shoulderRollAmp (k, l) in (ph, k, turnRL, l, False)
        else if w_kickT k < BACK_PHASE + w_kickPhase k + THROUGH_PHASE + END_PHASE then (ph, k, turnRL, kick_return shoulderRollAmp k l, False)
        else if w_kickT k < totalPhase + SHIFT_END_PERIOD / 4
        then let endT = totalPhase - w_kickT k; level = sin ((endT + SHIFT_END_PERIOD / 4) / SHIFT_END_PERIOD * 2 * pi)
             in (ph, k\<lparr>w_rock := DEG2RAD kickLean * level\<rparr>, turnRL,
                 l\<lparr>kl_forward := 0, kl_kneePitch := 0, kl_anklePitch := 0, kl_footh := kickStepH * level\<rparr>, False)
        else (ph\<lparr>walk2014Option := O_WALK, walkState := S_NOT_WALKING\<rparr>, k\<lparr>w_kickT := 0, w_rock := 0, w_lastKickTime := 0\<rparr>, turnRL,
              l\<lparr>kl_footh := 0\<rparr>, True))"

definition kick_left :: "bool \<Rightarrow> real \<Rightarrow> generator \<Rightarrow> generator \<times> bool" where
  "kick_left misaligned ballY g =
     (let s = g_st g; k = g_kick g;
          l = \<lparr>kl_footh = w_foothL s, kl_forward = w_forwardL s, kl_side = w_leftL s, kl_kneePitch = w_kneePitchL k,
               kl_shoulderRoll = w_shoulderRollL s, kl_anklePitch = w_anklePitchL k\<rparr>;
          (ph, k, turnRL, l, ended) = makeForwardKickJoints (w_dt g) KICK_LEAN KICK_STEP_HEIGHT SHIFT_PERIOD misaligned ballY
             (w_power (g_cmd g)) (g_ph g) (k, w_turnRL s, l);
          s = s\<lparr>w_foothL := kl_footh l, w_forwardL := kl_forward l, w_leftL := kl_side l, w_shoulderRollL := kl_shoulderRoll l, w_turnRL := turnRL\<rparr>;
          k = k\<lparr>w_kneePitchL := kl_kneePitch l, w_anklePitchL := kl_anklePitch l\<rparr>;
          s = s\<lparr>w_leftR := w_leftL s * (1 / 10)\<rparr>
      in (g\<lparr>g_ph := ph, g_kick := k, g_st := s\<rparr>, ended))"

definition kick_right :: "bool \<Rightarrow> real \<Rightarrow> generator \<Rightarrow> generator \<times> bool" where
  "kick_right misaligned ballY g =
     (let s = g_st g; k = g_kick g;
          l = \<lparr>kl_footh = w_foothR s, kl_forward = w_forwardR s, kl_side = w_leftR s, kl_kneePitch = w_kneePitchR k,
               kl_shoulderRoll = w_shoulderRollR s, kl_anklePitch = w_anklePitchR k\<rparr>;
          (ph, k, turnRL, l, ended) = makeForwardKickJoints (w_dt g) (- KICK_LEAN + 15 / 10) (KICK_STEP_HEIGHT + 5 / 1000) SHIFT_PERIOD misaligned
             ballY (w_power (g_cmd g)) (g_ph g) (k, w_turnRL s, l);
          s = s\<lparr>w_foothR := kl_footh l, w_forwardR := kl_forward l, w_leftR := kl_side l, w_shoulderRollR := kl_shoulderRoll l, w_turnRL := turnRL\<rparr>;
          k = k\<lparr>w_kneePitchR := kl_kneePitch l, w_anklePitchR := kl_anklePitch l\<rparr>;
          s = s\<lparr>w_leftR := - w_leftR s\<rparr>;
          s = s\<lparr>w_leftL := w_leftR s * (12 / 100)\<rparr>
      in (g\<lparr>g_ph := ph, g_kick := k, g_st := s\<rparr>, ended))"

text \<open>Section 5 of the function; the end of a kick turns the request into a walk.\<close>

definition moveFeet :: "bool \<Rightarrow> real \<Rightarrow> generator \<times> rs_request \<Rightarrow> generator \<times> rs_request" where
  "moveFeet isLeft ballY = (\<lambda>(g, r).
     if walk2014Option (g_ph g) = O_WALK \<and> w_nextFootSwitchT (g_ph g) > 0 then (walk_step isLeft g, r)
     else if walk2014Option (g_ph g) = O_KICK
     then let kick = (if ac_foot (w_active (g_cmd g)) = FOOT_LEFT then kick_left else kick_right);
              (g, ended) = kick (misalignedKick (rq_body r)) ballY g
          in (g, if ended then r\<lparr>rq_body := (rq_body r)\<lparr>actionType := A_WALK\<rparr>\<rparr> else r)
     else (g\<lparr>g_st := (g_st g)\<lparr>w_foothL := 0, w_foothR := 0\<rparr>\<rparr>, r))"

section \<open>The support foot\<close>

definition next_state :: "walk_state \<Rightarrow> walk_state" where
  "next_state s = (case s of S_NOT_WALKING \<Rightarrow> S_STARTING | S_STARTING \<Rightarrow> S_WALKING | S_WALKING \<Rightarrow> S_WALKING | S_STOPPING \<Rightarrow> S_NOT_WALKING)"

definition switch_feet :: "bool \<Rightarrow> generator \<Rightarrow> generator" where
  "switch_feet isLeft g =
     (let s = g_st g; ph = g_ph g
      in g\<lparr>g_ph := ph\<lparr>supportFoothasChanged := False, w_footSwitchT := w_timer ph, w_nextFootSwitchT := w_T ph,
             walkState := next_state (walkState ph), w_t := 0\<rparr>,
           g_st := s\<lparr>w_swingAngle := if isLeft then w_leftL s else w_leftR s, w_turnRL0 := w_turnRL s,
             w_forwardR0 := w_forwardR s, w_forwardL0 := w_forwardL s\<rparr>\<rparr>)"

definition changeSupport :: "generator \<times> body_model \<Rightarrow> generator \<times> body_model" where
  "changeSupport = (\<lambda>(g, m).
     let ph = g_ph g; T = w_T ph; t = w_t ph;
         g = (if t > 3 * T then g\<lparr>w_armStuck := True\<rparr> else g);
         changed = ((t > 75 / 100 * T \<and> lastZMPL m * ZMPL m < 0) \<or> t > 3 * T \<or> supportFoothasChanged ph);
         g = g\<lparr>g_ph := (g_ph g)\<lparr>supportFoothasChanged := changed\<rparr>\<rparr>;
         m = (if changed then bm_setIsLeftPhase (ZMPL m < 0) m else m);
         g = (if changed \<and> walk2014Option ph = O_WALK then switch_feet (isLeftPhase m) g else g)
     in (g, m))"

section \<open>Balance and odometry\<close>

definition g_balance :: "sensor_vals \<Rightarrow> generator \<Rightarrow> generator" where
  "g_balance s g =
     (let b = g_bal g; gx = sv_sensors s RS_InertialSensor_GyrX; gy = sv_sensors s RS_InertialSensor_GyrY;
          fy = 75 / 100 * w_filteredGyroY b + 25 / 100 * gy;
          fx = 75 / 100 * w_filteredGyroX b + 25 / 100 * gx
      in g\<lparr>g_bal := b\<lparr>w_filteredGyroY := fy, w_filteredGyroSquaredY := 75 / 100 * w_filteredGyroSquaredY b + 25 / 100 * gy\<^sup>2,
           w_balanceAdjustment := if walk2014Option (g_ph g) = O_READY then 0 else fy / 25,
           w_filteredGyroX := fx, w_filteredGyroSquaredX := 75 / 100 * w_filteredGyroSquaredX b + 25 / 100 * gx\<^sup>2,
           w_coronalBalanceAdjustment := fx / 25\<rparr>\<rparr>)"

definition updateOdometry :: "bool \<Rightarrow> generator \<times> rs_odometry \<Rightarrow> generator \<times> rs_odometry" where
  "updateOdometry isLeftSwingFoot = (\<lambda>(g, odometry).
     let s = g_st g; d = g_odo g; height = w_hiph (g_ph g) - w_ankle g;
         turnOdo = - (w_turnRL s - w_prevTurn d);
         (turnOdo, leftOdo, forwardOdo) =
           (if \<not> isLeftSwingFoot then (turnOdo * (- 1), height * tan (w_leftL s) - w_prevLeftL d, w_forwardL s - w_prevForwardL d)
            else (turnOdo, height * tan (w_leftR s) - w_prevLeftR d, w_forwardR s - w_prevForwardR d));
         forwardOdo = forwardOdo * MM_PER_M;
         leftOdo = leftOdo * MM_PER_M;
         forwardOdo = forwardOdo * 1;
         leftOdo = leftOdo * (123 / 100);
         turnOdo = turnOdo * - (53 / 100)
     in (g\<lparr>g_odo := \<lparr>w_prevTurn = w_turnRL s, w_prevForwardL = w_forwardL s, w_prevForwardR = w_forwardR s,
                      w_prevLeftL = height * tan (w_leftL s), w_prevLeftR = height * tan (w_leftR s)\<rparr>\<rparr>,
         ro_plus odometry (ro_new forwardOdo leftOdo turnOdo)))"

section \<open>The joints\<close>

definition set_arm_stiffness :: "(rs_joint \<Rightarrow> real) \<Rightarrow> rs_joint \<Rightarrow> real" where
  "set_arm_stiffness f = f(RS_LShoulderPitch := 75 / 100, RS_LShoulderRoll := 75 / 100, RS_LElbowYaw := 75 / 100, RS_LElbowRoll := 75 / 100,
     RS_RShoulderPitch := 75 / 100, RS_RShoulderRoll := 75 / 100, RS_RElbowYaw := 75 / 100, RS_RElbowRoll := 75 / 100)"

definition addKickJoints :: "kick_vars \<Rightarrow> step_vars \<Rightarrow> (rs_joint \<Rightarrow> real) \<Rightarrow> rs_joint \<Rightarrow> real" where
  "addKickJoints k s a = a(
     RS_LKneePitch := a RS_LKneePitch + w_kneePitchL k,
     RS_LAnklePitch := a RS_LAnklePitch + (w_anklePitchL k + w_shoulderRollL s),
     RS_LShoulderPitch := a RS_LShoulderPitch - w_kneePitchL k,
     RS_RKneePitch := a RS_RKneePitch + w_kneePitchR k,
     RS_RAnklePitch := a RS_RAnklePitch + (w_anklePitchR k + w_shoulderRollR s),
     RS_RShoulderPitch := a RS_RShoulderPitch - w_kneePitchR k)"

definition kick_suppressed :: "generator \<Rightarrow> body_model \<Rightarrow> bool" where
  "kick_suppressed g m = (\<not> in_walk_kick g \<or> \<not> walkKickStart m)"

text \<open>The angles from the variables of the step: arms, turn, sagittal and coronal joints.\<close>

definition walk_angles :: "generator \<Rightarrow> body_model \<Rightarrow> (rs_joint \<Rightarrow> real) \<Rightarrow> rs_joint \<Rightarrow> real" where
  "walk_angles g m a =
     (let s = g_st g; ph = g_ph g; k = g_kick g; kicking = \<not> kick_suppressed g m;
          rock = (if walk2014Option ph = O_KICK then w_rock k else 0);
          (HpL, HrL, KpL, ApL, ArL) = left_leg (w_thigh g) (w_tibia g) (w_comOffset ph) kicking (w_hiph ph - w_foothL s - w_ankle g)
             (w_forwardL s) (w_leftL s) rock (w_turnRL s);
          (HpR, HrR, KpR, ApR, ArR) = right_leg (w_thigh g) (w_tibia g) (w_comOffset ph) kicking (w_hiph ph - w_foothR s - w_ankle g)
             (w_forwardR s) (w_leftR s) rock (w_turnRL s)
      in a(RS_LShoulderPitch := DEG2RAD 90 + w_shoulderPitchL s, RS_LShoulderRoll := DEG2RAD 7 + w_shoulderRollL s,
           RS_LElbowYaw := DEG2RAD 0, RS_LElbowRoll := DEG2RAD 0, RS_LWristYaw := DEG2RAD 0,
           RS_RShoulderPitch := DEG2RAD 90 + w_shoulderPitchR s, RS_RShoulderRoll := DEG2RAD (- 7) - w_shoulderRollR s,
           RS_RElbowYaw := DEG2RAD 0, RS_RElbowRoll := DEG2RAD 0, RS_RWristYaw := DEG2RAD 0,
           RS_LHipYawPitch := - w_turnRL s,
           RS_LHipPitch := - HpL, RS_RHipPitch := - HpR, RS_LKneePitch := KpL, RS_RKneePitch := KpR,
           RS_LAnklePitch := - ApL, RS_RAnklePitch := - ApR,
           RS_LHipRoll := HrL, RS_RHipRoll := HrR, RS_LAnkleRoll := ArL, RS_RAnkleRoll := ArR))"

text \<open>The ankle of the supporting foot balances with the gyroscope; in a kick the joints of the kick are added.\<close>

definition balance_angles :: "generator \<Rightarrow> body_model \<Rightarrow> (rs_joint \<Rightarrow> real) \<Rightarrow> rs_joint \<Rightarrow> real" where
  "balance_angles g m a =
     (let ph = g_ph g; adj = w_balanceAdjustment (g_bal g); cor = w_coronalBalanceAdjustment (g_bal g);
          a = (if walk2014Option ph = O_WALK \<and> w_nextFootSwitchT ph > 0 \<and> kick_suppressed g m
               then if isLeftPhase m then a(RS_RAnklePitch := a RS_RAnklePitch + adj) else a(RS_LAnklePitch := a RS_LAnklePitch + adj)
               else if walk2014Option ph = O_KICK
               then if isLeftPhase m then a(RS_LAnklePitch := a RS_LAnklePitch + adj) else a(RS_RAnklePitch := a RS_RAnklePitch + adj)
               else a)
      in if walk2014Option ph = O_KICK
         then let a = addKickJoints (g_kick g) (g_st g) a
              in if isLeftPhase m then a(RS_RAnkleRoll := a RS_RAnkleRoll + cor) else a(RS_LAnkleRoll := a RS_LAnkleRoll + cor)
         else a)"

text \<open>A robot that has been stuck on one foot lifts the other knee for half a second; after six seconds the arms are free again.\<close>

definition limp_joints :: "int \<Rightarrow> body_model \<Rightarrow> generator \<times> joint_vals \<Rightarrow> generator \<times> joint_vals" where
  "limp_joints now m = (\<lambda>(g, j).
     let elapsed = now - w_limp g; a = jv_angles j;
         j = (if elapsed < 500 \<and> w_armStuck g \<and> kick_suppressed g m
              then if isLeftPhase m
                   then j\<lparr>jv_angles := a(RS_LKneePitch := a RS_LKneePitch - 4 / 10, RS_LAnklePitch := a RS_LAnklePitch + 6 / 10)\<rparr>
                   else j\<lparr>jv_angles := a(RS_RKneePitch := a RS_RKneePitch - 4 / 10, RS_RAnklePitch := a RS_RAnklePitch + 6 / 10)\<rparr>
              else j)
     in if elapsed \<ge> 6000 \<and> w_armStuck g \<and> kick_suppressed g m
        then (g\<lparr>w_limp := now, w_armStuck := False\<rparr>, j\<lparr>jv_stiffnesses := set_arm_stiffness (\<lambda>_. w_stiffness (g_ph g))\<rparr>)
        else (g, j))"

definition joints_of :: "generator \<Rightarrow> body_model \<Rightarrow> joint_vals \<Rightarrow> joint_vals" where
  "joints_of g m j =
     j\<lparr>jv_stiffnesses := (set_arm_stiffness (\<lambda>_. w_stiffness (g_ph g)))(RS_LWristYaw := 75 / 100, RS_RWristYaw := 75 / 100),
       jv_angles := balance_angles g m (walk_angles g m (jv_angles j)), jv_nan := (jv_nan j)(RS_LWristYaw := False, RS_RWristYaw := False)\<rparr>"

section \<open>A cycle\<close>

definition first_height :: "sensor_vals \<Rightarrow> generator \<Rightarrow> generator" where
  "first_height s g =
     (let p = g_curr g
      in if walk2014Option (g_ph g) = O_NONE
         then g\<lparr>g_ph := (g_ph g)\<lparr>w_hiph := jv_angles (sv_joints s) RS_LKneePitch / KNEE_PITCH_RANGE *
                (p_walk_hip_height p - p_stand_hip_height p) + p_stand_hip_height p\<rparr>\<rparr>
         else g)"

record walk_world =
  ww_gen :: generator
  ww_request :: rs_request
  ww_odometry :: rs_odometry
  ww_body :: body_model

text \<open>Sections 0 to 4.\<close>

definition prepareStep :: "rs_request \<Rightarrow> sensor_vals \<Rightarrow> generator \<times> body_model \<Rightarrow> generator \<times> body_model" where
  "prepareStep r s = (\<lambda>(g, m).
     let g = first_height s g;
         (g, m) = (if w_t (g_ph g) = 0 then (readRequest (rq_body r) g, setPendulumHeight (p_pendulum_height (g_curr g)) m) else (g, m));
         g = g_tick g;
         g = determineOption (actionType (rq_body r)) g;
         g = executeOption g
     in (g, m))"

definition g_makeJoints :: "int \<Rightarrow> kin_result \<Rightarrow> sensor_vals \<Rightarrow> real \<Rightarrow> real \<Rightarrow> walk_world \<Rightarrow> walk_world \<times> joint_vals" where
  "g_makeJoints now kin s ballX ballY w =
     (let m = bm_update kin s (ww_body w); r = ww_request w;
          (g, m) = prepareStep r s (ww_gen w, m);
          (g, r) = moveFeet (isLeftPhase m) ballY (g, r);
          (g, m) = changeSupport (g, m);
          g = g_balance s g;
          (g, odometry) = updateOdometry (isLeftPhase m) (g, ww_odometry w);
          j = joints_of g m (sv_joints s);
          (g, j) = limp_joints now m (g, j)
      in (\<lparr>ww_gen = g, ww_request = r, ww_odometry = odometry, ww_body = m\<rparr>, j))"

section \<open>The clamp of a request\<close>

lemma clamp_search_bracket:
  fixes f l z :: real
  defines "V \<equiv> \<lambda>s. evaluateWalkVolume (\<bar>f\<bar> * s) (\<bar>l\<bar> * s) z"
  assumes "0 \<le> w" "V low \<le> 1" "1 < V (low + w)"
  shows "\<exists>s. low \<le> s \<and> s + w / 2 ^ n \<le> low + w \<and> V s \<le> 1 \<and> 1 < V (s + w / 2 ^ n) \<and>
    clamp_search n f l z low (low + w / 2) (low + w) = s + w / 2 ^ Suc n"
  using assms(2-4)
proof (induction n arbitrary: low w)
  case 0
  then show ?case by (intro exI [of _ low]) simp
next
  case (Suc n)
  have k: "w / 2 / 2 ^ m = w / 2 ^ Suc m" for m by simp
  have h: "0 \<le> w / 2" using Suc.prems(1) by simp
  have m: "(low + w / 2 + low) / 2 = low + w / 2 / 2" "(low + w / 2 + (low + w)) / 2 = low + w / 2 + w / 2 / 2"
    "low + w / 2 + w / 2 = low + w" by (simp_all add: field_simps)
  show ?case
  proof (cases "V (low + w / 2) > 1")
    case True
    then have c: "clamp_search (Suc n) f l z low (low + w / 2) (low + w) = clamp_search n f l z low (low + w / 2 / 2) (low + w / 2)"
      unfolding V_def by (simp only: clamp_search.simps m if_True)
    note ih = Suc.IH [OF h Suc.prems(2) True, unfolded k]
    from ih obtain s where s: "low \<le> s \<and> s + w / 2 ^ Suc n \<le> low + w / 2 \<and> V s \<le> 1 \<and> 1 < V (s + w / 2 ^ Suc n) \<and>
      clamp_search n f l z low (low + w / 2 / 2) (low + w / 2) = s + w / 2 ^ Suc (Suc n)" ..
    then have "s + w / 2 ^ Suc n \<le> low + w" using h by linarith
    with s show ?thesis unfolding c by (intro exI [of _ s]) (simp only: simp_thms)
  next
    case False
    then have c: "clamp_search (Suc n) f l z low (low + w / 2) (low + w) =
        clamp_search n f l z (low + w / 2) (low + w / 2 + w / 2 / 2) (low + w / 2 + w / 2)"
      unfolding V_def by (simp only: clamp_search.simps m if_False)
    have v: "1 < V (low + w / 2 + w / 2)" using Suc.prems(3) by (simp only: m)
    have "V (low + w / 2) \<le> 1" using False by simp
    note ih = Suc.IH [OF h this v, unfolded k]
    from ih obtain s where s: "low + w / 2 \<le> s \<and> s + w / 2 ^ Suc n \<le> low + w / 2 + w / 2 \<and> V s \<le> 1 \<and> 1 < V (s + w / 2 ^ Suc n) \<and>
      clamp_search n f l z (low + w / 2) (low + w / 2 + w / 2 / 2) (low + w / 2 + w / 2) = s + w / 2 ^ Suc (Suc n)" ..
    then have "low \<le> s" "s + w / 2 ^ Suc n \<le> low + w" using h by linarith+
    with s show ?thesis unfolding c by (intro exI [of _ s]) (simp only: simp_thms)
  qed
qed

lemma volume_still: "0 \<le> z \<Longrightarrow> z \<le> 1 \<Longrightarrow> evaluateWalkVolume 0 0 z \<le> 1"
  by (simp add: evaluateWalkVolume_def Let_def power_le_one)

definition walk_amounts :: "walk_params \<Rightarrow> real \<Rightarrow> real \<Rightarrow> real \<Rightarrow> real \<Rightarrow> real \<times> real \<times> real" where
  "walk_amounts p forward left turn speed =
     (let m = 66 / 100 + 34 / 100 * rs_crop speed 0 1
      in (rs_crop (forward / (p_max_forward p * m)) (- 1) 1, rs_crop (left / (p_max_left p * m)) (- 1) 1, rs_crop (turn / (p_max_turn p * m)) (- 1) 1))"

lemma rs_crop_scale: "0 < m \<Longrightarrow> rs_crop x (- m) m / m = rs_crop (x / m) (- 1) 1"
  by (auto simp: rs_crop_def field_simps)



section \<open>The ratchet\<close>

lemma ratchet_bound: "0 \<le> c \<Longrightarrow> \<bar>ratchet c p n\<bar> \<le> \<bar>p\<bar> + c"
proof -
  assume c: "0 \<le> c"
  have "\<bar>(n - p) / \<bar>n - p\<bar> * c\<bar> = c" if "\<bar>n - p\<bar> > c" using that c by (simp add: abs_mult)
  then show ?thesis unfolding ratchet_def by (smt (verit) c)
qed

definition straight :: "body_command \<Rightarrow> bool" where
  "straight b = (ac_left b = 0)"

lemma clamp_no_left: "0 < p_max_left p \<Longrightarrow> ellipsoidClampWalk p f 0 t speed = (f', l', t') \<Longrightarrow> l' = 0"
proof -
  assume p: "0 < p_max_left p" and e: "ellipsoidClampWalk p f 0 t speed = (f', l', t')"
  have "0 \<le> p_max_left p * (66 / 100) + p_max_left p * (34 / 100) * rs_crop speed 0 1" using p rs_crop_bounds [of 0 1 speed] by simp
  then have "rs_crop 0 (- (p_max_left p * (66 / 100) + p_max_left p * (34 / 100) * rs_crop speed 0 1))
      (p_max_left p * (66 / 100) + p_max_left p * (34 / 100) * rs_crop speed 0 1) = 0" by (simp add: rs_crop_id)
  then show "l' = 0" using e unfolding ellipsoidClampWalk_def Let_def by auto
qed

lemma readRequest_fixed [simp]:
  "g_curr (readRequest b g) = g_curr g" "exactStepsRequested (readRequest b g) = exactStepsRequested g" "w_dt (readRequest b g) = w_dt g"
  "g_kick (readRequest b g) = g_kick g" "g_st (readRequest b g) = g_st g"
  "g_ph (readRequest b g) = (g_ph g)\<lparr>w_T := step_period (g_curr g) (fst (snd (requested_speed (g_curr g) (exactStepsRequested g) b)))\<rparr>"
  by (simp_all add: readRequest_def Let_def)

lemma readRequest_straight:
  assumes "g_curr g = walk_defaults" "\<not> exactStepsRequested g" "straight b"
  shows "\<bar>w_forward (g_cmd (readRequest b g))\<bar> \<le> (\<bar>w_forward (g_cmd g)\<bar> + 12 / 100) / 2"
proof -
  obtain f l t where e: "ellipsoidClampWalk walk_defaults (ac_forward b / 1000) 0 (ac_turn b) (ac_speed b) = (f, l, t)" by (metis prod_cases3)
  have "l = 0" using clamp_no_left [OF _ e] by (simp add: walk_defaults_def)
  then have s: "requested_speed walk_defaults False b = (f, 0, t)" using e assms(3) by (simp add: requested_speed_def straight_def)
  have p: "step_period walk_defaults 0 = 25 / 100" "p_forward_change walk_defaults = 12 / 100" by (simp_all add: step_period_def walk_defaults_def)
  have "w_forward (g_cmd (readRequest b g)) = ratchet (12 / 100) (w_forward (g_cmd g)) f * (2 * (25 / 100))"
    using assms by (simp add: readRequest_def Let_def s p calibrate_speed_def ratchet_speed_def)
  then show ?thesis using ratchet_bound [of "12 / 100" "w_forward (g_cmd g)" f] by (simp add: abs_mult)
qed

text \<open>
  C40: The ratchet compares the new speed with the one of the last step after its calibration, which is half of it. So straight ahead the
  robot never gets above 0.24 m/s, although 0.3 m/s is permitted: a step is at most 0.12 m.
\<close>

theorem forward_ratchet_limit:
  assumes "g_curr g = walk_defaults" "\<not> exactStepsRequested g" "\<forall>b \<in> set bs. straight b" "\<bar>w_forward (g_cmd g)\<bar> \<le> 12 / 100"
  shows "\<bar>w_forward (g_cmd (fold readRequest bs g))\<bar> \<le> 12 / 100"
  using assms
proof (induction bs arbitrary: g)
  case (Cons b bs)
  have "\<bar>w_forward (g_cmd (readRequest b g))\<bar> \<le> 12 / 100" using readRequest_straight [of g b] Cons.prems by simp
  then show ?case using Cons by simp
qed simp

theorem forward_ratchet_limit_witness:
  "\<forall>now mem b. \<bar>w_forward (g_cmd (fold readRequest (replicate 100 (b\<lparr>ac_forward := 300, ac_left := 0\<rparr>)) (g_new now mem)))\<bar> \<le> 12 / 100"
proof (intro allI)
  fix now mem b
  show "\<bar>w_forward (g_cmd (fold readRequest (replicate 100 (b\<lparr>ac_forward := 300, ac_left := 0\<rparr>)) (g_new now mem)))\<bar> \<le> 12 / 100"
    by (rule forward_ratchet_limit) (simp_all add: g_new_def restoreDefaultWalkParameters_def g_initialise_def straight_def)
qed

text \<open>The ratchet of the turn compares the clamped turn with the same request, so within the limits it has no effect: the turn can reverse at once.\<close>

theorem turn_ratchet_inert:
  assumes "g_curr g = walk_defaults" "g_curr h = walk_defaults" "exactStepsRequested g = exactStepsRequested h" "\<bar>ac_turn b\<bar> \<le> 87 / 100"
  shows "w_turn (g_cmd (readRequest b g)) = w_turn (g_cmd (readRequest b h)) \<and>
    (\<not> exactStepsRequested g \<longrightarrow> w_turn (g_cmd (readRequest b g)) =
       - snd (snd (ellipsoidClampWalk walk_defaults (ac_forward b / 1000) (ac_left b / 1000) (ac_turn b) (ac_speed b))) *
         (2 * w_T (g_ph (readRequest b g))) * (143 / 100))"
proof -
  obtain f l t where e: "ellipsoidClampWalk walk_defaults (ac_forward b / 1000) (ac_left b / 1000) (ac_turn b) (ac_speed b) = (f, l, t)"
    by (metis prod_cases3)
  let ?M = "87 / 100 * (66 / 100) + 87 / 100 * (34 / 100) * rs_crop (ac_speed b) 0 1"
  have t: "t = rs_crop (ac_turn b) (- ?M) ?M" using e unfolding ellipsoidClampWalk_def Let_def by (simp add: walk_defaults_def)
  have "57 / 100 \<le> ?M" using rs_crop_bounds [of 0 1 "ac_speed b"] by simp
  then have "\<bar>t - ac_turn b\<bar> \<le> 8 / 10" unfolding t using assms(4) by (auto simp: rs_crop_def)
  then have "ratchet (8 / 10) (ac_turn b) t = t" by (simp add: ratchet_def)
  moreover have p: "p_turn_change walk_defaults = 8 / 10" by (simp add: walk_defaults_def)
  ultimately have r: "ratchet (p_turn_change walk_defaults) (ac_turn b) t = t" unfolding p by simp
  have s: "requested_speed walk_defaults False b = (f, l, t)" using e by (simp add: requested_speed_def)
  show ?thesis using assms(1-3)
    by (cases "exactStepsRequested h") (simp_all add: readRequest_def Let_def s r e calibrate_speed_def ratchet_speed_def requested_speed_def [of _ True])
qed

lemma g_new_fixed [simp]: "g_curr (g_new now mem) = walk_defaults" "exactStepsRequested (g_new now mem) = False"
  by (simp_all add: g_new_def restoreDefaultWalkParameters_def g_initialise_def)

theorem turn_ratchet_inert_witness:
  "\<forall>now mem b. w_turn (g_cmd (readRequest (b\<lparr>ac_turn := - 1 / 2\<rparr>) (readRequest (b\<lparr>ac_turn := 1 / 2\<rparr>) (g_new now mem)))) =
     w_turn (g_cmd (readRequest (b\<lparr>ac_turn := - 1 / 2\<rparr>) (g_new now mem)))"
proof (intro allI)
  fix now :: int and mem :: generator and b :: body_command
  let ?g = "g_new now mem" and ?b = "b\<lparr>ac_turn := - 1 / 2\<rparr>"
  show "w_turn (g_cmd (readRequest ?b (readRequest (b\<lparr>ac_turn := 1 / 2\<rparr>) ?g))) = w_turn (g_cmd (readRequest ?b ?g))"
    by (rule turn_ratchet_inert [THEN conjunct1]) simp_all
qed

end
