(* ===== verification/Walk_Requests.thy ===== *)
theory Walk_Requests
  imports Walk_Generator
begin

text \<open>
  What prepares the requests of the walk generator (\<open>src/core/motion/rswalk2014/WalkEnginePreProcessor.cpp\<close>): the line-up that walks the
  robot to the ball in small exact steps, the dribble, a state machine over the steps, and the kick that follows a line-up.
  The engines share the generator, which their functions get as an argument. Shown are the bounds of the steps, the order of the dribble, and
  when a robot is lined up.
\<close>

section \<open>State\<close>

record lineup_engine =
  le_hasStarted :: bool
  le_foot :: rs_foot
  le_linedUp :: bool
  le_linedUpCt :: int

datatype dribble_state = D_INIT | D_TURN | D_FORWARD | D_END

record dribble_engine =
  de_state :: dribble_state
  de_timer :: int
  de_foot :: rs_foot

record preprocessor =
  pp_isKicking :: bool
  pp_line :: lineup_engine
  pp_dribble :: dribble_engine
  pp_walk :: generator

abbreviation (input) MAX_FORWARD_STEP :: real where "MAX_FORWARD_STEP \<equiv> 60"
abbreviation (input) MAX_LEFT_STEP :: real where "MAX_LEFT_STEP \<equiv> 35"
abbreviation (input) MAX_TURN_STEP :: real where "MAX_TURN_STEP \<equiv> DEG2RAD 20"
abbreviation (input) LINE_UP_THRESHOLD :: int where "LINE_UP_THRESHOLD \<equiv> 1"
abbreviation (input) FOOT_LENGTH :: real where "FOOT_LENGTH \<equiv> 100"
abbreviation (input) FORWARD_GAP :: real where "FORWARD_GAP \<equiv> 0"
abbreviation (input) LEFT_GAP_DRIBBLE :: real where "LEFT_GAP_DRIBBLE \<equiv> 40"
abbreviation (input) LEFT_GAP_KICK :: real where "LEFT_GAP_KICK \<equiv> 0"
abbreviation (input) FORWARD_THRESHOLD :: real where "FORWARD_THRESHOLD \<equiv> 15"
abbreviation (input) WALK_KICK_OVER_THRESHOLD :: real where "WALK_KICK_OVER_THRESHOLD \<equiv> - 35"
abbreviation (input) WALK_KICK_SHORT_THRESHOLD :: real where "WALK_KICK_SHORT_THRESHOLD \<equiv> 25"
abbreviation (input) LEFT_THRESHOLD :: real where "LEFT_THRESHOLD \<equiv> 10"

definition rs_sign :: "real \<Rightarrow> real" where
  "rs_sign num = (if num < 0 then - 1 else 1)"

definition toWalkRequest :: "body_command \<Rightarrow> body_command" where
  "toWalkRequest b = b\<lparr>actionType := A_WALK, ac_power := 0, ac_bend := 1, ac_speed := 1\<rparr>"

definition pp_exact :: "bool \<Rightarrow> generator \<Rightarrow> generator" where
  "pp_exact b g = g\<lparr>exactStepsRequested := b\<rparr>"

section \<open>Line-up\<close>

definition le_new :: lineup_engine where
  "le_new = \<lparr>le_hasStarted = False, le_foot = FOOT_LEFT, le_linedUp = False, le_linedUpCt = 0\<rparr>"

definition le_start :: "rs_foot \<Rightarrow> lineup_engine \<Rightarrow> lineup_engine" where
  "le_start foot e = e\<lparr>le_hasStarted := True, le_foot := foot\<rparr>"

definition le_reset :: "lineup_engine \<times> generator \<Rightarrow> lineup_engine \<times> generator" where
  "le_reset = (\<lambda>(e, g). (e\<lparr>le_hasStarted := False, le_linedUpCt := 0\<rparr>, pp_exact False g))"

definition leftGap :: "action_type \<Rightarrow> real" where
  "leftGap a = (if a = A_KICK \<or> a = A_LINE_UP then LEFT_GAP_KICK else LEFT_GAP_DRIBBLE)"

definition le_gapX :: "generator \<Rightarrow> real \<Rightarrow> real" where
  "le_gapX g ballX = ballX - FOOT_LENGTH - FORWARD_GAP - max (w_forwardL (g_st g)) (w_forwardR (g_st g)) * 1000"

definition le_gapY :: "rs_foot \<Rightarrow> action_type \<Rightarrow> real \<Rightarrow> real" where
  "le_gapY foot a ballY = (if foot = FOOT_RIGHT then ballY + leftGap a else ballY - leftGap a)"

definition le_hasEnded :: "generator \<Rightarrow> body_command \<Rightarrow> real \<Rightarrow> real \<Rightarrow> lineup_engine \<Rightarrow> bool \<times> lineup_engine" where
  "le_hasEnded g body ballX ballY e =
     (let gapY = le_gapY (le_foot e) (actionType body) ballY;
          gapX = le_gapX g ballX;
          over_threshold = (if actionType body = A_KICK then WALK_KICK_OVER_THRESHOLD else FORWARD_THRESHOLD);
          short_threshold = (if actionType body = A_KICK then WALK_KICK_SHORT_THRESHOLD else FORWARD_THRESHOLD);
          linedUp = (gapX < short_threshold \<and> gapX > over_threshold \<and> \<bar>gapY\<bar> < LEFT_THRESHOLD);
          ct = (if \<not> linedUp then max (le_linedUpCt e - 1) 0 else le_linedUpCt e + 1);
          linedUp = (ct \<ge> LINE_UP_THRESHOLD)
      in (linedUp, e\<lparr>le_linedUpCt := ct, le_linedUp := linedUp\<rparr>))"

definition le_turn :: "real \<Rightarrow> real \<Rightarrow> real" where
  "le_turn heading turn =
     (let turn = (if NORMALISE (turn - heading) > DEG2RAD 30 then NORMALISE (DEG2RAD 30 + heading)
                  else if NORMALISE (turn - heading) < - DEG2RAD 30 then NORMALISE (- DEG2RAD 30 + heading) else turn)
      in rs_sign turn * min MAX_TURN_STEP (\<bar>turn\<bar> * (87 / 100)))"

definition le_preProcess :: "lineup_engine \<Rightarrow> real \<Rightarrow> real \<Rightarrow> body_command \<times> generator \<Rightarrow> body_command \<times> generator" where
  "le_preProcess e ballX ballY = (\<lambda>(body, g).
     let forward = le_gapX g ballX;
         left = le_gapY (le_foot e) (actionType body) ballY;
         body = body\<lparr>ac_forward := rs_sign forward * min MAX_FORWARD_STEP \<bar>forward\<bar>,
                     ac_left := rs_sign left * min MAX_LEFT_STEP \<bar>left\<bar>,
                     ac_turn := le_turn (c_atan2 ballY ballX) (ac_turn body)\<rparr>
     in (toWalkRequest body, pp_exact True g))"

section \<open>Dribble\<close>

definition de_new :: "int \<Rightarrow> dribble_engine" where
  "de_new now = \<lparr>de_state = D_END, de_timer = now, de_foot = FOOT_LEFT\<rparr>"

definition de_reset :: "dribble_engine \<times> generator \<Rightarrow> dribble_engine \<times> generator" where
  "de_reset = (\<lambda>(e, g). (e\<lparr>de_state := D_END\<rparr>, pp_exact False g))"

definition de_hasEnded :: "dribble_engine \<Rightarrow> bool" where
  "de_hasEnded e = (de_state e = D_END)"

definition de_start :: "rs_foot \<Rightarrow> dribble_engine \<Rightarrow> dribble_engine" where
  "de_start foot e = e\<lparr>de_state := D_INIT, de_foot := foot\<rparr>"

definition de_transition :: "int \<Rightarrow> bool \<Rightarrow> bool \<Rightarrow> dribble_engine \<Rightarrow> dribble_engine" where
  "de_transition now isLeft stepStarts e =
     (let leftTurnPhase = (de_foot e \<noteq> FOOT_RIGHT)
      in if de_state e = D_INIT \<and> isLeft = leftTurnPhase \<and> stepStarts then e\<lparr>de_state := D_TURN\<rparr>
         else if de_state e = D_TURN \<and> isLeft \<noteq> leftTurnPhase \<and> stepStarts then e\<lparr>de_state := D_FORWARD\<rparr>
         else if de_state e = D_FORWARD \<and> isLeft = leftTurnPhase \<and> stepStarts then e\<lparr>de_state := D_END, de_timer := now\<rparr>
         else e)"

definition de_preProcess :: "int \<Rightarrow> body_model \<Rightarrow> dribble_engine \<times> body_command \<times> generator \<Rightarrow> dribble_engine \<times> body_command \<times> generator" where
  "de_preProcess now m = (\<lambda>(e, body, g).
     let direction = (if de_foot e = FOOT_RIGHT then - 1 else 1);
         e = de_transition now (isLeftPhase m) (w_t (g_ph g) = 0) e;
         body = body\<lparr>ac_left := 0\<rparr>;
         body = (case de_state e of
                   D_TURN \<Rightarrow> body\<lparr>ac_forward := 0, ac_turn := direction * DEG2RAD 40\<rparr>
                 | D_FORWARD \<Rightarrow> body\<lparr>ac_forward := 140, ac_turn := 0\<rparr>
                 | D_END \<Rightarrow> body\<lparr>ac_forward := 70, ac_turn := 0\<rparr>
                 | D_INIT \<Rightarrow> body\<lparr>ac_forward := 1, ac_turn := 0\<rparr>)
     in (e, toWalkRequest body, pp_exact True g))"

section \<open>The preprocessor\<close>

definition pp_new :: "int \<Rightarrow> generator \<Rightarrow> preprocessor" where
  "pp_new now mem = \<lparr>pp_isKicking = False, pp_line = le_new, pp_dribble = de_new now, pp_walk = g_new now mem\<rparr>"

definition isLineUpRequired :: "action_type \<Rightarrow> bool" where
  "isLineUpRequired a = (a = A_DRIBBLE \<or> a = A_KICK)"

text \<open>The speeds of a request are fractions of the maxima.\<close>

definition scale_request :: "walk_params \<Rightarrow> body_command \<Rightarrow> body_command" where
  "scale_request p b = b\<lparr>ac_forward := ac_forward b * (p_max_forward p * 1000), ac_left := ac_left b * (p_max_left p * 1000),
     ac_turn := ac_turn b * p_max_turn p\<rparr>"

definition kick_request :: "body_model \<Rightarrow> body_command \<Rightarrow> body_command" where
  "kick_request m b =
     (let b = b\<lparr>ac_forward := 300\<rparr>;
          b = (if walkKickHeading m \<noteq> 0 then b\<lparr>ac_forward := 1, ac_turn := rs_sign (walkKickHeading m) * (87 / 100)\<rparr> else b)
      in b\<lparr>actionType := A_KICK, ac_power := 1\<rparr>)"

text \<open>Once the robot is lined up it begins to dribble or to kick; \<open>active\<close> is what the robot does, as the caller will be told.\<close>

definition afterLineUp :: "int \<Rightarrow> body_model \<Rightarrow> preprocessor \<times> body_command \<times> action_type \<Rightarrow> preprocessor \<times> body_command \<times> action_type" where
  "afterLineUp now m = (\<lambda>(pp, body, active).
     let (le, g) = le_reset (pp_line pp, pp_walk pp); pp = pp\<lparr>pp_line := le, pp_walk := g\<rparr>
     in if actionType body = A_DRIBBLE
        then let de = de_start (ac_foot body) (pp_dribble pp);
                 (de, body, g) = de_preProcess now m (de, body, pp_walk pp)
             in (pp\<lparr>pp_dribble := de, pp_walk := g\<rparr>, body, A_DRIBBLE)
        else if actionType body = A_KICK then (pp\<lparr>pp_isKicking := True\<rparr>, kick_request m body, active)
        else (pp, body, active))"

definition dispatch :: "int \<Rightarrow> body_model \<Rightarrow> real \<Rightarrow> real \<Rightarrow> preprocessor \<times> body_command \<times> action_type \<Rightarrow> preprocessor \<times> body_command \<times> action_type" where
  "dispatch now m ballX ballY = (\<lambda>(pp, body, active).
     if \<not> de_hasEnded (pp_dribble pp)
     then let (de, body, g) = de_preProcess now m (pp_dribble pp, body, pp_walk pp)
          in (pp\<lparr>pp_dribble := de, pp_walk := g\<rparr>, body, A_DRIBBLE)
     else
       let (de, g) = de_reset (pp_dribble pp, pp_walk pp); pp = pp\<lparr>pp_dribble := de, pp_walk := g\<rparr>
       in if isLineUpRequired (actionType body)
          then let pp = (if \<not> le_hasStarted (pp_line pp) then pp\<lparr>pp_line := le_start (ac_foot body) (pp_line pp)\<rparr> else pp);
                   (ended, le) = le_hasEnded (pp_walk pp) body ballX ballY (pp_line pp);
                   pp = pp\<lparr>pp_line := le\<rparr>
               in if \<not> ended
                  then let (body, g) = le_preProcess le ballX ballY (body, pp_walk pp) in (pp\<lparr>pp_walk := g\<rparr>, body, A_LINE_UP)
                  else afterLineUp now m (pp, body, active)
          else let (le, g) = le_reset (pp_line pp, pp_walk pp) in (pp\<lparr>pp_line := le, pp_walk := g\<rparr>, body, active))"

text \<open>A new dribble is not tried for 0.4 seconds.\<close>

definition dribble_pause :: "int \<Rightarrow> preprocessor \<Rightarrow> body_command \<Rightarrow> body_command \<times> action_type" where
  "dribble_pause now pp body =
     (if actionType body = A_DRIBBLE \<and> now - de_timer (pp_dribble pp) < 400
      then ((toWalkRequest body)\<lparr>ac_forward := 1, ac_left := 0, ac_turn := 0\<rparr>, A_WALK) else (body, actionType body))"

definition pp_prepare :: "int \<Rightarrow> body_model \<Rightarrow> real \<Rightarrow> real \<Rightarrow> preprocessor \<times> body_command \<Rightarrow> preprocessor \<times> body_command \<times> action_type" where
  "pp_prepare now m ballX ballY = (\<lambda>(pp, body).
     let body = scale_request (g_curr (pp_walk pp)) body;
         (body, active) = dribble_pause now pp body;
         (pp, body, active) = (if \<not> pp_isKicking pp then dispatch now m ballX ballY (pp, body, active) else (pp, body, active))
     in if actionType body = A_KICK
        then (pp\<lparr>pp_isKicking := True\<rparr>,
              body\<lparr>ac_forward := if walkKickHeading m \<noteq> 0 then 1 else 100, actionType := A_KICK, ac_power := 1, ac_turn := 0, ac_speed := 0\<rparr>, active)
        else (pp, body, active))"

record gen_input =
  gi_now :: int
  gi_kin :: kin_result
  gi_sensors :: sensor_vals
  gi_ballX :: real
  gi_ballY :: real

record gen_io =
  io_request :: rs_request
  io_odometry :: rs_odometry
  io_body :: body_model

definition pp_makeJoints :: "gen_input \<Rightarrow> preprocessor \<times> gen_io \<Rightarrow> preprocessor \<times> gen_io \<times> joint_vals" where
  "pp_makeJoints i = (\<lambda>(pp, io).
     let (pp, body, active) = pp_prepare (gi_now i) (io_body io) (gi_ballX i) (gi_ballY i) (pp, rq_body (io_request io));
         request = (io_request io)\<lparr>rq_body := body\<rparr>;
         action = actionType body;
         (w, joints) = g_makeJoints (gi_now i) (gi_kin i) (gi_sensors i) (gi_ballX i) (gi_ballY i)
           \<lparr>ww_gen = pp_walk pp, ww_request = request, ww_odometry = io_odometry io, ww_body = io_body io\<rparr>;
         pp = pp\<lparr>pp_walk := ww_gen w\<rparr>;
         request = ww_request w;
         (pp, request) =
           (if action = A_WALK then (pp\<lparr>pp_isKicking := False\<rparr>, request)
            else if pp_isKicking pp \<and> active = A_REF_PICKUP then (pp, request\<lparr>rq_body := (rq_body request)\<lparr>actionType := A_KICK\<rparr>\<rparr>)
            else (pp, request\<lparr>rq_body := (rq_body request)\<lparr>actionType := active\<rparr>\<rparr>))
     in (pp, \<lparr>io_request = request, io_odometry = ww_odometry w, io_body = ww_body w\<rparr>, joints))"

definition pp_isActive :: "preprocessor \<Rightarrow> bool" where
  "pp_isActive pp = (g_isActive (pp_walk pp) \<or> \<not> de_hasEnded (pp_dribble pp))"

definition pp_reset :: "preprocessor \<Rightarrow> preprocessor" where
  "pp_reset pp =
     (let g = g_reset (pp_walk pp); (le, g) = le_reset (pp_line pp, g); (de, g) = de_reset (pp_dribble pp, g)
      in pp\<lparr>pp_walk := g, pp_line := le, pp_dribble := de, pp_isKicking := False\<rparr>)"

definition pp_stop :: "preprocessor \<Rightarrow> preprocessor" where
  "pp_stop pp = pp\<lparr>pp_walk := g_stop (pp_walk pp)\<rparr>"

section \<open>Properties\<close>

lemma rs_sign_min: "0 \<le> m \<Longrightarrow> \<bar>rs_sign x * min m \<bar>y\<bar>\<bar> \<le> m"
  by (simp add: rs_sign_def)

text \<open>The steps of a line-up are short.\<close>

theorem lineup_steps_bounded:
  fixes e :: lineup_engine and ballX ballY :: real and body :: body_command and g :: generator
  defines "b \<equiv> fst (le_preProcess e ballX ballY (body, g))"
  shows "\<bar>ac_forward b\<bar> \<le> 60 \<and> \<bar>ac_left b\<bar> \<le> 35 \<and> \<bar>ac_turn b\<bar> \<le> DEG2RAD 20 \<and> actionType b = A_WALK"
proof -
  have "\<bar>rs_sign t * min (DEG2RAD 20) (\<bar>t\<bar> * (87 / 100))\<bar> \<le> DEG2RAD 20" for t
    by (simp add: rs_sign_def DEG2RAD_def abs_mult min_def)
  then show ?thesis
    by (simp add: b_def le_preProcess_def toWalkRequest_def rs_sign_min le_turn_def Let_def)
qed

lemma le_hasEnded_no_kick:
  assumes "actionType body \<noteq> A_KICK" "le_linedUpCt e = 0"
  shows "le_hasEnded g body ballX ballY e = (False, e\<lparr>le_linedUpCt := 0, le_linedUp := False\<rparr>)"
  using assms by (simp add: le_hasEnded_def Let_def)

definition no_dribble :: "preprocessor \<Rightarrow> bool" where
  "no_dribble pp = (de_state (pp_dribble pp) = D_END \<and> le_linedUpCt (pp_line pp) = 0)"

lemma dispatch_no_dribble:
  assumes "no_dribble pp" "actionType body \<noteq> A_KICK"
  shows "no_dribble (fst (dispatch now m x y (pp, body, a))) \<and> actionType (fst (snd (dispatch now m x y (pp, body, a)))) \<noteq> A_KICK"
  using assms
  by (auto simp: no_dribble_def dispatch_def de_hasEnded_def de_reset_def le_reset_def le_hasEnded_no_kick le_start_def le_preProcess_def
      toWalkRequest_def Let_def)

lemma pp_prepare_no_dribble:
  assumes "no_dribble pp" "actionType body \<noteq> A_KICK"
  shows "no_dribble (fst (pp_prepare now m x y (pp, body)))"
proof -
  obtain b a where ba: "dribble_pause now pp (scale_request (g_curr (pp_walk pp)) body) = (b, a)" by fastforce
  have nk: "actionType b \<noteq> A_KICK" using ba assms(2) by (auto simp: dribble_pause_def scale_request_def toWalkRequest_def split: if_splits)
  note d = dispatch_no_dribble [OF assms(1) this, of now m x y a]
  obtain pp' b' a' where d': "dispatch now m x y (pp, b, a) = (pp', b', a')" by (metis prod_cases3)
  show ?thesis using assms(1) d nk unfolding d' by (cases "pp_isKicking pp") (simp_all add: pp_prepare_def Let_def ba d')
qed

definition pp_frame :: "gen_input \<times> rs_request \<Rightarrow> preprocessor \<times> gen_io \<Rightarrow> preprocessor \<times> gen_io" where
  "pp_frame = (\<lambda>(i, r) (pp, io). let (pp, io, j) = pp_makeJoints i (pp, io\<lparr>io_request := r\<rparr>) in (pp, io))"

lemma pp_frame_no_dribble:
  assumes "no_dribble pp" "actionType (rq_body r) \<noteq> A_KICK"
  shows "no_dribble (fst (pp_frame (i, r) (pp, io)))"
proof -
  obtain pp' b a where p: "pp_prepare (gi_now i) (io_body io) (gi_ballX i) (gi_ballY i) (pp, rq_body r) = (pp', b, a)" by (metis prod_cases3)
  have "no_dribble pp'" using pp_prepare_no_dribble [OF assms, of "gi_now i" "io_body io" "gi_ballX i" "gi_ballY i"] by (simp add: p)
  then show ?thesis by (simp add: pp_frame_def pp_makeJoints_def p Let_def no_dribble_def split: prod.splits)
qed

text \<open>
  For everything but a kick the two thresholds of the forward distance are the same, and no distance is below and above it. So a line-up
  for a dribble never ends, and the dribble never begins.
\<close>

theorem dribble_never_starts:
  assumes "\<forall>(i, r) \<in> set frames. actionType (rq_body r) \<noteq> A_KICK"
  shows "de_state (pp_dribble (fst (fold pp_frame frames (pp_new now mem, io)))) = D_END"
proof -
  have "no_dribble (fst (fold pp_frame frames p))" if "no_dribble (fst p)" for p using assms that
  proof (induction frames arbitrary: p)
    case (Cons f frames)
    obtain i r pp io where "f = (i, r)" "p = (pp, io)" by (metis surj_pair)
    then show ?case using Cons pp_frame_no_dribble [of pp r i io] by auto
  qed simp
  then show ?thesis by (simp add: no_dribble_def pp_new_def de_new_def le_new_def)
qed

theorem dribble_never_starts_witness:
  "\<forall>now mem io i r. de_state (pp_dribble (fst (fold pp_frame (replicate 1000 (i, r\<lparr>rq_body := body_of A_DRIBBLE\<rparr>)) (pp_new now mem, io)))) = D_END"
  by (intro allI dribble_never_starts) (auto simp: body_of_def)

text \<open>A dribble turns with one foot, walks with the other one, and ends with the next step of the first.\<close>

theorem dribble_order:
  assumes "de_transition now isLeft stepStarts e \<noteq> e"
  shows "stepStarts \<and> (de_state e, de_state (de_transition now isLeft stepStarts e), isLeft = (de_foot e = FOOT_LEFT)) \<in>
    {(D_INIT, D_TURN, True), (D_TURN, D_FORWARD, False), (D_FORWARD, D_END, True)}"
  using assms by (cases "de_state e"; cases "de_foot e"; auto simp: de_transition_def Let_def split: if_splits)

theorem dribble_order_witness:
  "de_state (de_transition 0 True True \<lparr>de_state = D_INIT, de_timer = 0, de_foot = FOOT_LEFT\<rparr>) = D_TURN"
  using dribble_order [of 0 True True "\<lparr>de_state = D_INIT, de_timer = 0, de_foot = FOOT_LEFT\<rparr>"] by (simp add: de_transition_def)

end
