(* ===== verification/Generators.thy ===== *)
theory Generators
  imports Walk_Requests
begin

text \<open>
  The generators of joint values (\<open>src/core/motion/rswalk2014/\<close>): the players of recorded poses (\<open>ActionGenerator.cpp\<close>), the small generators
  for the head, the stand, the referee's pick-up, the dead and the idle robot, the distributor that decides which of them moves the
  body (\<open>DistributedGenerator.cpp\<close>), and the clipper that bounds what they ask for (\<open>ClippedGenerator.cpp\<close>). An access outside of the recorded
  poses is \<open>None\<close>. An angle that is NaN (\<open>isnan\<close>) stays so in sums and comparisons with it are false; the clipper passes it on.
\<close>

section \<open>Recorded poses\<close>

text \<open>The time is \<open>- 1\<close> while nothing is played. The temperatures of a new pose, NaN in the source, are \<open>ag_mem\<close>.\<close>

record action_gen =
  ag_time :: int
  ag_joints :: "joint_vals list"
  ag_max_iter :: nat
  ag_active :: body_command
  ag_mem :: "rs_joint \<Rightarrow> real"

abbreviation (input) NOT_RUNNING :: int where "NOT_RUNNING \<equiv> - 1"

definition ag_new :: "body_command \<Rightarrow> (rs_joint \<Rightarrow> real) \<Rightarrow> action_gen" where
  "ag_new b mem = \<lparr>ag_time = NOT_RUNNING, ag_joints = [], ag_max_iter = 0, ag_active = b, ag_mem = mem\<rparr>"

definition ag_isActive :: "action_gen \<Rightarrow> bool" where
  "ag_isActive a = (ag_time a \<noteq> NOT_RUNNING)"

definition ag_reset :: "action_gen \<Rightarrow> action_gen" where
  "ag_reset a = a\<lparr>ag_time := 0\<rparr>"

definition ag_stop :: "action_gen \<Rightarrow> action_gen" where
  "ag_stop a = a"

text \<open>\<open>n\<close> more poses, each with the offset to the one before it; \<open>nan\<close> says which entries of the offset are NaN.\<close>

primrec append_poses ::
    "nat \<Rightarrow> (rs_joint \<Rightarrow> real) \<times> (rs_joint \<Rightarrow> bool) \<Rightarrow> (rs_joint \<Rightarrow> real) \<Rightarrow> (rs_joint \<Rightarrow> real) \<Rightarrow> joint_vals list \<Rightarrow> joint_vals list" where
  "append_poses 0 offset stiff mem js = js"
| "append_poses (Suc n) offset stiff mem js =
     append_poses n offset stiff mem
       (js @ [\<lparr>jv_angles = (\<lambda>j. jv_angles (List.last js) j + fst offset j), jv_stiffnesses = stiff, jv_temperatures = mem,
               jv_nan = (\<lambda>j. jv_nan (List.last js) j \<or> snd offset j)\<rparr>])"

text \<open>The poses from the \<open>i\<close>th on are rewritten.\<close>

primrec rewrite_poses ::
    "nat \<Rightarrow> nat \<Rightarrow> (rs_joint \<Rightarrow> real) \<times> (rs_joint \<Rightarrow> bool) \<Rightarrow> (rs_joint \<Rightarrow> real) \<Rightarrow> joint_vals list \<Rightarrow> joint_vals list" where
  "rewrite_poses 0 i offset stiff js = js"
| "rewrite_poses (Suc n) i offset stiff js =
     rewrite_poses n (Suc i) offset stiff
       (js[i := (js ! i)\<lparr>jv_angles := (\<lambda>j. jv_angles (js ! (i - 1)) j + fst offset j), jv_stiffnesses := stiff,
          jv_nan := (\<lambda>j. jv_nan (js ! (i - 1)) j \<or> snd offset j)\<rparr>])"

definition ag_interpolate :: "joint_vals \<Rightarrow> nat \<Rightarrow> action_gen \<Rightarrow> action_gen option" where
  "ag_interpolate newJoint duration a =
     (if ag_joints a = []
      then let n = duration div 10 in Some (a\<lparr>ag_max_iter := n, ag_joints := replicate n newJoint @ [newJoint]\<rparr>)
      else if duration \<noteq> 0
      then let inTime = duration div 10; currentJoint = List.last (ag_joints a);
               offset = (\<lambda>j. (jv_angles newJoint j - jv_angles currentJoint j) / of_nat inTime, \<lambda>j. jv_nan newJoint j \<or> jv_nan currentJoint j)
           in Some (a\<lparr>ag_joints := append_poses inTime offset (jv_stiffnesses newJoint) (ag_mem a) (ag_joints a)\<rparr>)
      else if ag_max_iter a < List.length (ag_joints a)
      then let firstJoint = ag_joints a ! ag_max_iter a;
               offset = (\<lambda>j. (jv_angles firstJoint j - jv_angles newJoint j) / of_nat (ag_max_iter a), \<lambda>j. jv_nan firstJoint j \<or> jv_nan newJoint j)
           in Some (a\<lparr>ag_joints := rewrite_poses (ag_max_iter a - 1) 1 offset (jv_stiffnesses firstJoint) ((ag_joints a)[0 := newJoint])\<rparr>)
      else None)"

definition ag_makeJoints :: "body_command \<Rightarrow> sensor_vals \<Rightarrow> action_gen \<Rightarrow> (action_gen \<times> joint_vals) option" where
  "ag_makeJoints request s a =
     (if ag_time a = NOT_RUNNING
      then if ag_joints a = [] then None else Some (a\<lparr>ag_active := request\<rparr>, List.last (ag_joints a))
      else let newJoints = (sv_joints s)\<lparr>jv_stiffnesses := (\<lambda>_. 1)\<rparr>
           in case (if ag_time a = 0 then ag_interpolate newJoints 0 a else Some a) of
                None \<Rightarrow> None
              | Some a \<Rightarrow>
                  if 0 \<le> ag_time a \<and> ag_time a < int (List.length (ag_joints a))
                  then let j = ag_joints a ! nat (ag_time a); t = ag_time a + 1
                       in Some (a\<lparr>ag_time := if t = int (List.length (ag_joints a)) then NOT_RUNNING else t\<rparr>, j)
                  else None)"

section \<open>Small generators\<close>

record head_gen =
  hg_yaw :: real
  hg_pitch :: real

definition hg_new :: head_gen where
  "hg_new = \<lparr>hg_yaw = 0, hg_pitch = 0\<rparr>"

definition hg_makeJoints :: "head_command \<Rightarrow> sensor_vals \<Rightarrow> head_gen \<Rightarrow> head_gen \<times> joint_vals" where
  "hg_makeJoints head s h =
     (let desY = (if hd_isRelative head then hg_yaw h + hd_yaw head else hd_yaw head);
          desP = hd_pitch head;
          diffY = CLIP1 (desY - hg_yaw h) (HeadYawSpeed * hd_yawSpeed head);
          diffP = CLIP1 (desP - hg_pitch h) (HeadPitchSpeed * hd_pitchSpeed head);
          h = h\<lparr>hg_yaw := hg_yaw h + diffY, hg_pitch := hg_pitch h + diffP\<rparr>;
          j = sv_joints s
      in (h, j\<lparr>jv_angles := (jv_angles j)(RS_HeadYaw := hg_yaw h, RS_HeadPitch := hg_pitch h),
               jv_stiffnesses := (jv_stiffnesses j)(RS_HeadYaw := 8 / 10, RS_HeadPitch := 8 / 10)\<rparr>))"

definition hg_reset :: "head_gen \<Rightarrow> head_gen" where
  "hg_reset h = hg_new"

text \<open>The stand is a recorded pose; the pick-up by a referee is a stand that takes 100 frames to stop.\<close>

record pickup_gen =
  rp_t :: int
  rp_stopping :: bool
  rp_stopped :: bool
  rp_stand :: action_gen

definition rp_new :: "action_gen \<Rightarrow> pickup_gen" where
  "rp_new st = \<lparr>rp_t = 100, rp_stopping = False, rp_stopped = False, rp_stand = st\<rparr>"

definition rp_makeJoints :: "body_command \<Rightarrow> sensor_vals \<Rightarrow> pickup_gen \<Rightarrow> (pickup_gen \<times> joint_vals) option" where
  "rp_makeJoints request s p =
     (let p = (if rp_stopping p
               then let t = rp_t p - 1 in if t = 0 then p\<lparr>rp_t := t, rp_stopped := True, rp_stopping := False\<rparr> else p\<lparr>rp_t := t\<rparr>
               else p)
      in case ag_makeJoints request s (rp_stand p) of None \<Rightarrow> None | Some (st, j) \<Rightarrow> Some (p\<lparr>rp_stand := st\<rparr>, j))"

definition rp_isActive :: "pickup_gen \<Rightarrow> bool" where
  "rp_isActive p = (\<not> rp_stopped p \<or> ag_isActive (rp_stand p))"

definition rp_reset :: "pickup_gen \<Rightarrow> pickup_gen" where
  "rp_reset p = p\<lparr>rp_t := 100, rp_stopping := False, rp_stopped := False, rp_stand := ag_reset (rp_stand p)\<rparr>"

definition rp_stop :: "pickup_gen \<Rightarrow> pickup_gen" where
  "rp_stop p = p\<lparr>rp_stand := ag_stop (rp_stand p), rp_stopping := True\<rparr>"

abbreviation (input) MIN_TICKS :: int where "MIN_TICKS \<equiv> 100"

definition dead_makeJoints :: "sensor_vals \<Rightarrow> int \<Rightarrow> int \<times> joint_vals" where
  "dead_makeJoints s ticks = (ticks + 1, (sv_joints s)\<lparr>jv_stiffnesses := (\<lambda>_. - 1)\<rparr>)"

definition dead_isActive :: "int \<Rightarrow> bool" where
  "dead_isActive ticks = (ticks \<le> MIN_TICKS)"

definition null_makeJoints :: "sensor_vals \<Rightarrow> joint_vals" where
  "null_makeJoints s = (sv_joints s)\<lparr>jv_stiffnesses := (\<lambda>_. 0)\<rparr>"

section \<open>The distributor\<close>

text \<open>Kick, line-up, dribble and walk share an object; all other actions have their own.\<close>

record distributor =
  d_isStopping :: bool
  d_current :: action_type
  d_prev :: action_type
  d_requestedDive :: action_type
  d_head :: head_gen
  d_walk :: preprocessor
  d_dead :: int
  d_pickup :: pickup_gen
  d_actions :: "action_type \<Rightarrow> action_gen"

definition d_slot :: "action_type \<Rightarrow> action_type" where
  "d_slot a = (if a \<in> {A_KICK, A_LINE_UP, A_DRIBBLE} then A_WALK else a)"

definition d_new :: "int \<Rightarrow> generator \<Rightarrow> body_command \<Rightarrow> (rs_joint \<Rightarrow> real) \<Rightarrow> distributor" where
  "d_new now mem b jm = \<lparr>d_isStopping = False, d_current = A_NONE, d_prev = A_NONE, d_requestedDive = A_NONE, d_head = hg_new,
     d_walk = pp_new now mem, d_dead = 0, d_pickup = rp_new (ag_new b jm), d_actions = (\<lambda>_. ag_new b jm)\<rparr>"

definition body_isActive :: "distributor \<Rightarrow> action_type \<Rightarrow> bool" where
  "body_isActive d a =
     (let a = d_slot a
      in if a = A_NONE then False else if a = A_WALK then pp_isActive (d_walk d) else if a = A_RSDEAD then dead_isActive (d_dead d)
         else if a = A_REF_PICKUP then rp_isActive (d_pickup d) else ag_isActive (d_actions d a))"

definition body_reset :: "action_type \<Rightarrow> distributor \<Rightarrow> distributor" where
  "body_reset a d =
     (let a = d_slot a
      in if a = A_NONE then d else if a = A_WALK then d\<lparr>d_walk := pp_reset (d_walk d)\<rparr> else if a = A_RSDEAD then d\<lparr>d_dead := 0\<rparr>
         else if a = A_REF_PICKUP then d\<lparr>d_pickup := rp_reset (d_pickup d)\<rparr> else d\<lparr>d_actions := (d_actions d)(a := ag_reset (d_actions d a))\<rparr>)"

definition body_stop :: "action_type \<Rightarrow> distributor \<Rightarrow> distributor" where
  "body_stop a d =
     (let a = d_slot a
      in if a = A_NONE then d else if a = A_WALK then d\<lparr>d_walk := pp_stop (d_walk d)\<rparr> else if a = A_RSDEAD then d
         else if a = A_REF_PICKUP then d\<lparr>d_pickup := rp_stop (d_pickup d)\<rparr> else d\<lparr>d_actions := (d_actions d)(a := ag_stop (d_actions d a))\<rparr>)"

definition body_makeJoints :: "gen_input \<Rightarrow> action_type \<Rightarrow> distributor \<times> gen_io \<Rightarrow> (distributor \<times> gen_io \<times> joint_vals) option" where
  "body_makeJoints i a = (\<lambda>(d, io).
     let a = d_slot a; s = gi_sensors i; b = rq_body (io_request io)
     in if a = A_NONE then Some (d, io, null_makeJoints s)
        else if a = A_WALK then let (pp, io, j) = pp_makeJoints i (d_walk d, io) in Some (d\<lparr>d_walk := pp\<rparr>, io, j)
        else if a = A_RSDEAD then let (t, j) = dead_makeJoints s (d_dead d) in Some (d\<lparr>d_dead := t\<rparr>, io, j)
        else if a = A_REF_PICKUP
        then case rp_makeJoints b s (d_pickup d) of None \<Rightarrow> None | Some (p, j) \<Rightarrow> Some (d\<lparr>d_pickup := p\<rparr>, io, j)
        else case ag_makeJoints b s (d_actions d a) of None \<Rightarrow> None
             | Some (g, j) \<Rightarrow> Some (d\<lparr>d_actions := (d_actions d)(a := g)\<rparr>, io, j))"

definition all_actions :: "action_type list" where
  "all_actions = [A_NONE, A_STAND, A_WALK, A_DRIBBLE, A_GETUP_FRONT, A_GETUP_BACK, A_KICK, A_INITIAL, A_RSDEAD, A_REF_PICKUP, A_OPEN_FEET,
     A_THROW_IN, A_GOALIE_SIT, A_GOALIE_DIVE_RIGHT, A_GOALIE_DIVE_LEFT, A_GOALIE_CENTRE, A_GOALIE_UNCENTRE, A_GOALIE_STAND, A_GOALIE_INITIAL,
     A_GOALIE_AFTERSIT_INITIAL, A_DEFENDER_CENTRE, A_GOALIE_FAST_SIT, A_GOALIE_PICK_UP, A_MOTION_CALIBRATE, A_STAND_STRAIGHT, A_LINE_UP]"

definition d_reset :: "distributor \<Rightarrow> distributor" where
  "d_reset d = (fold body_reset all_actions d)\<lparr>d_head := hg_reset (d_head d), d_current := A_NONE\<rparr>"

definition d_isStanding :: "distributor \<Rightarrow> bool" where
  "d_isStanding d = (g_isStanding (pp_walk (d_walk d)) \<or> d_current d = A_STAND \<or> d_current d = A_STAND_STRAIGHT)"

definition walkIsActive :: "distributor \<Rightarrow> bool" where
  "walkIsActive d = (\<not> g_isStanding (pp_walk (d_walk d)))"

text \<open>The last alternative of the request asks for the current generator again, as in the source.\<close>

definition note_dive :: "action_type \<Rightarrow> distributor \<Rightarrow> distributor" where
  "note_dive request d =
     (if d_requestedDive d = A_NONE \<and>
         \<not> (d_current d = A_GOALIE_CENTRE \<or> d_current d = A_GOALIE_DIVE_LEFT \<or> d_current d = A_GOALIE_DIVE_RIGHT \<or> d_current d = A_DEFENDER_CENTRE) \<and>
         (request = A_GOALIE_CENTRE \<or> request = A_GOALIE_DIVE_LEFT \<or> request = A_GOALIE_DIVE_RIGHT \<or> d_current d = A_DEFENDER_CENTRE)
      then d\<lparr>d_requestedDive := request\<rparr> else d)"

definition next_generator :: "action_type \<Rightarrow> action_type \<Rightarrow> action_type \<Rightarrow> action_type" where
  "next_generator current dive request =
     (if current = A_GOALIE_SIT \<or> current = A_GOALIE_FAST_SIT
      then if dive \<noteq> A_NONE then dive else if request \<noteq> A_GOALIE_SIT then A_GOALIE_AFTERSIT_INITIAL else current
      else if current = A_GOALIE_PICK_UP \<and> request \<noteq> A_GOALIE_PICK_UP then A_GOALIE_UNCENTRE
      else if current = A_GOALIE_CENTRE \<and> request \<noteq> A_GOALIE_CENTRE then A_GOALIE_UNCENTRE
      else if current = A_GOALIE_UNCENTRE \<and> request \<noteq> A_GOALIE_UNCENTRE \<and> request \<noteq> A_GOALIE_CENTRE then A_GOALIE_SIT
      else if current = A_DEFENDER_CENTRE \<and> request \<noteq> A_DEFENDER_CENTRE then A_GOALIE_UNCENTRE
      else if current \<noteq> A_GOALIE_CENTRE \<and> request = A_GOALIE_CENTRE then A_GOALIE_FAST_SIT
      else if current = A_GOALIE_STAND \<and> request \<noteq> A_GOALIE_STAND then A_GOALIE_INITIAL
      else request)"

definition choose_generator :: "action_type \<Rightarrow> distributor \<Rightarrow> distributor" where
  "choose_generator request d =
     (let d = note_dive request d;
          d = (if priorities request > priorities (d_current d) then (d_reset d)\<lparr>d_isStopping := False\<rparr> else d);
          c = d_current d;
          d = (if \<not> body_isActive d c
               then let d = (if d_slot c \<noteq> d_slot request \<or> d_isStopping d \<or> (c = A_GETUP_FRONT \<and> request = A_GETUP_FRONT) \<or>
                                (c = A_GETUP_BACK \<and> request = A_GETUP_BACK) then body_reset c d else d)
                    in d\<lparr>d_current := next_generator c (d_requestedDive d) request, d_isStopping := False\<rparr>
               else if d_slot c \<noteq> d_slot request \<and> (c \<noteq> A_KICK \<or> request \<noteq> A_STAND) then (body_stop c d)\<lparr>d_isStopping := True\<rparr>
               else d)
      in if d_current d = d_requestedDive d then d\<lparr>d_requestedDive := A_NONE\<rparr> else d)"

definition usesHead :: "action_type \<Rightarrow> bool" where
  "usesHead a = (a \<in> {A_GETUP_FRONT, A_GETUP_BACK, A_INITIAL, A_RSDEAD, A_OPEN_FEET, A_GOALIE_DIVE_LEFT, A_GOALIE_DIVE_RIGHT, A_GOALIE_PICK_UP})"

text \<open>A robot that gets up after a dive has turned.\<close>

definition dive_turn :: "action_type \<Rightarrow> action_type \<Rightarrow> real" where
  "dive_turn current prev =
     (let dir = (if current = A_GETUP_FRONT then 1 else if current = A_GETUP_BACK then - 1 else 0)
      in if prev = A_GOALIE_DIVE_LEFT then DEG2RAD (dir * 80) else if prev = A_GOALIE_DIVE_RIGHT then DEG2RAD (- dir * 80) else 0)"

definition d_makeJoints :: "gen_input \<Rightarrow> distributor \<times> gen_io \<Rightarrow> (distributor \<times> gen_io \<times> joint_vals) option" where
  "d_makeJoints i = (\<lambda>(d, io).
     let d = choose_generator (actionType (rq_body (io_request io))) d;
         uses = usesHead (d_current d);
         io = io\<lparr>io_odometry := ro_plus (io_odometry io) (ro_new 0 0 (dive_turn (d_current d) (d_prev d)))\<rparr>
     in case body_makeJoints i (d_current d) (d, io) of
          None \<Rightarrow> None
        | Some (d, io, j) \<Rightarrow>
            let d = (if d_current d = A_KICK \<and> actionType (rq_body (io_request io)) = A_WALK then d\<lparr>d_current := A_WALK\<rparr> else d);
                (d, j) = (if \<not> uses
                  then let (h, hj) = hg_makeJoints (rq_head (io_request io)) (gi_sensors i) (d_head d)
                       in (d\<lparr>d_head := h\<rparr>,
                           j\<lparr>jv_angles := (jv_angles j)(RS_HeadYaw := jv_angles hj RS_HeadYaw, RS_HeadPitch := jv_angles hj RS_HeadPitch),
                             jv_stiffnesses := (jv_stiffnesses j)(RS_HeadYaw := jv_stiffnesses hj RS_HeadYaw,
                               RS_HeadPitch := jv_stiffnesses hj RS_HeadPitch)\<rparr>)
                  else (d, j))
            in Some (d\<lparr>d_prev := d_current d\<rparr>, io, j))"

section \<open>The clipper\<close>

record 'g clipper =
  c_generator :: 'g
  c_old :: joint_vals
  c_old_exists :: bool

definition c_new :: "'g \<Rightarrow> joint_vals \<Rightarrow> 'g clipper" where
  "c_new g old = \<lparr>c_generator = g, c_old = old, c_old_exists = False\<rparr>"

definition clip_stiffness :: "real \<Rightarrow> real" where
  "clip_stiffness x = (if x \<ge> 0 then CLIP x 0 1 else - 1)"

text \<open>
  An angle that is NaN is not limited, and comparing it with the bounds of the velocity leaves it as it is; so does a comparison with bounds that
  are NaN.
\<close>

definition clip_angle :: "bool \<Rightarrow> joint_vals \<Rightarrow> rs_joint \<Rightarrow> real \<Rightarrow> real" where
  "clip_angle old_exists old k x =
     (let x = limitJointRadians k x
      in if old_exists \<and> \<not> isnan old k then CLIP x (jv_angles old k - MaxSpeed ! rs_index k) (jv_angles old k + MaxSpeed ! rs_index k) else x)"

definition clip_joints :: "bool \<Rightarrow> joint_vals \<Rightarrow> joint_vals \<Rightarrow> joint_vals" where
  "clip_joints old_exists old j = j\<lparr>jv_stiffnesses := (\<lambda>k. clip_stiffness (jv_stiffnesses j k)),
     jv_angles := (\<lambda>k. if isnan j k then jv_angles j k else clip_angle old_exists old k (jv_angles j k))\<rparr>"

definition c_makeJoints :: "('i \<Rightarrow> 'g \<times> 'io \<Rightarrow> ('g \<times> 'io \<times> joint_vals) option) \<Rightarrow> 'i \<Rightarrow> 'g clipper \<times> 'io \<Rightarrow> ('g clipper \<times> 'io \<times> joint_vals) option" where
  "c_makeJoints mj i = (\<lambda>(c, io).
     case mj i (c_generator c, io) of
       None \<Rightarrow> None
     | Some (g, io, j) \<Rightarrow>
         let j = clip_joints (c_old_exists c) (c_old c) j
         in Some (c\<lparr>c_generator := g, c_old_exists := True, c_old := j\<rparr>, io, j))"

definition c_reset :: "('g \<Rightarrow> 'g) \<Rightarrow> 'g clipper \<Rightarrow> 'g clipper" where
  "c_reset res c = c\<lparr>c_generator := res (c_generator c), c_old_exists := False\<rparr>"

section \<open>What reaches the motors\<close>

definition sent_ok :: "joint_vals \<Rightarrow> bool" where
  "sent_ok j = (\<forall>k. (isnan j k \<or> MinAngle k \<le> jv_angles j k \<and> jv_angles j k \<le> MaxAngle k) \<and>
     (jv_stiffnesses j k = - 1 \<or> 0 \<le> jv_stiffnesses j k \<and> jv_stiffnesses j k \<le> 1))"

definition clip_ok :: "'g clipper \<Rightarrow> bool" where
  "clip_ok c = (c_old_exists c \<longrightarrow> sent_ok (c_old c))"

lemma clip_stiffness_range: "clip_stiffness x = - 1 \<or> 0 \<le> clip_stiffness x \<and> clip_stiffness x \<le> 1"
  by (simp add: clip_stiffness_def CLIP_def)

lemma clip_between:
  fixes x o' s :: real
  assumes "lo \<le> x" "x \<le> hi" "lo \<le> o'" "o' \<le> hi" "0 < s"
  shows "lo \<le> CLIP x (o' - s) (o' + s)" "CLIP x (o' - s) (o' + s) \<le> hi" "\<bar>CLIP x (o' - s) (o' + s) - o'\<bar> \<le> s"
  using assms by (auto simp: CLIP_def)

lemma clip_joints_nan [simp]: "isnan (clip_joints e old j) k = isnan j k"
  by (simp add: clip_joints_def isnan_def)

lemma clip_angle_ok:
  assumes "e \<longrightarrow> sent_ok old"
  shows "MinAngle k \<le> clip_angle e old k x \<and> clip_angle e old k x \<le> MaxAngle k"
    and "e \<Longrightarrow> \<not> isnan old k \<Longrightarrow> \<bar>clip_angle e old k x - jv_angles old k\<bar> \<le> MaxSpeed ! rs_index k"
proof -
  have "MinAngle k \<le> clip_angle e old k x \<and> clip_angle e old k x \<le> MaxAngle k \<and>
    (e \<and> \<not> isnan old k \<longrightarrow> \<bar>clip_angle e old k x - jv_angles old k\<bar> \<le> MaxSpeed ! rs_index k)"
  proof (cases "e \<and> \<not> isnan old k")
    case True
    with assms have "MinAngle k \<le> jv_angles old k" "jv_angles old k \<le> MaxAngle k" by (auto simp: sent_ok_def)
    then show ?thesis
      using True limitJointRadians_bounds [of k x] MaxSpeed_pos [of k]
        clip_between [of "MinAngle k" "limitJointRadians k x" "MaxAngle k" "jv_angles old k" "MaxSpeed ! rs_index k"]
      by (simp add: clip_angle_def Let_def)
  next
    case False
    then show ?thesis using limitJointRadians_bounds [of k x] by (auto simp: clip_angle_def Let_def)
  qed
  then show "MinAngle k \<le> clip_angle e old k x \<and> clip_angle e old k x \<le> MaxAngle k"
    "e \<Longrightarrow> \<not> isnan old k \<Longrightarrow> \<bar>clip_angle e old k x - jv_angles old k\<bar> \<le> MaxSpeed ! rs_index k" by simp_all
qed

lemma clip_joints_ok:
  assumes "e \<longrightarrow> sent_ok old"
  shows "sent_ok (clip_joints e old j)"
    and "e \<Longrightarrow> \<not> isnan old k \<Longrightarrow> \<not> isnan j k \<Longrightarrow> \<bar>jv_angles (clip_joints e old j) k - jv_angles old k\<bar> \<le> MaxSpeed ! rs_index k"
proof -
  have a: "jv_angles (clip_joints e old j) k = clip_angle e old k (jv_angles j k)" if "\<not> isnan j k" for k using that by (simp add: clip_joints_def)
  have s: "jv_stiffnesses (clip_joints e old j) k = clip_stiffness (jv_stiffnesses j k)" for k by (simp add: clip_joints_def)
  show "sent_ok (clip_joints e old j)" unfolding sent_ok_def s clip_joints_nan using a clip_angle_ok(1) [OF assms] clip_stiffness_range by metis
  show "e \<Longrightarrow> \<not> isnan old k \<Longrightarrow> \<not> isnan j k \<Longrightarrow> \<bar>jv_angles (clip_joints e old j) k - jv_angles old k\<bar> \<le> MaxSpeed ! rs_index k"
    using a clip_angle_ok(2) [OF assms] by simp
qed


lemma idle_frame:
  "\<exists>d' io' j. d_makeJoints i (d_new now mem b jm, io\<lparr>io_request := r\<lparr>rq_body := body_new\<rparr>\<rparr>) = Some (d', io', j)"
  by (simp add: d_makeJoints_def choose_generator_def note_dive_def d_new_def body_new_def body_isActive_def d_slot_def next_generator_def
      body_makeJoints_def Let_def split: prod.splits)


text \<open>
  The table of speeds gives the right leg a hip yaw-pitch joint, which the enumeration of joints does not have. From there on the entries
  are shifted by one: the right hip pitch has the speed of a hip roll.
\<close>

theorem right_leg_speeds_shifted:
  "MaxSpeed ! rs_index RS_RHipPitch = MaxSpeed ! rs_index RS_LHipRoll \<and> MaxSpeed ! rs_index RS_RHipPitch < MaxSpeed ! rs_index RS_LHipPitch \<and>
   MaxSpeed ! rs_index RS_RShoulderPitch = MaxSpeed ! rs_index RS_LAnkleRoll \<and> MaxSpeed ! rs_index RS_RShoulderPitch < MaxSpeed ! rs_index RS_LShoulderPitch"
  by (simp add: MaxSpeed_def)

section \<open>Who moves the body\<close>

lemma note_dive_simps [simp]:
  "d_current (note_dive r d) = d_current d" "body_isActive (note_dive r d) a = body_isActive d a" "d_isStopping (note_dive r d) = d_isStopping d"
  by (simp_all add: note_dive_def body_isActive_def)

lemma body_fixed [simp]:
  "d_current (body_stop a d) = d_current d" "d_current (body_reset a d) = d_current d"
  "d_requestedDive (body_stop a d) = d_requestedDive d" "d_requestedDive (body_reset a d) = d_requestedDive d"
  by (simp_all add: body_stop_def body_reset_def Let_def)

text \<open>A running motion goes on unless the request has a higher priority.\<close>

theorem running_motion_kept:
  assumes "body_isActive d (d_current d)" "priorities request \<le> priorities (d_current d)"
  shows "d_current (choose_generator request d) = d_current d"
proof -
  have np: "\<not> priorities (d_current d) < priorities request" using assms(2) by simp
  have i: "d_current (if P then x\<lparr>d_requestedDive := r\<rparr> else x) = d_current x" for P r and x :: distributor by simp
  show ?thesis using assms(1) unfolding choose_generator_def Let_def i by (simp add: np)
qed

theorem running_motion_kept_witness:
  "\<forall>now mem b jm. d_current (choose_generator A_STAND
     ((d_new now mem b jm)\<lparr>d_current := A_GETUP_BACK, d_actions := (\<lambda>_. (ag_new b jm)\<lparr>ag_time := 3\<rparr>)\<rparr>)) = A_GETUP_BACK"
proof (intro allI)
  fix now mem b jm
  let ?d = "(d_new now mem b jm)\<lparr>d_current := A_GETUP_BACK, d_actions := (\<lambda>_. (ag_new b jm)\<lparr>ag_time := 3\<rparr>)\<rparr>"
  have "d_current (choose_generator A_STAND ?d) = d_current ?d"
    by (rule running_motion_kept) (simp_all add: body_isActive_def d_slot_def ag_isActive_def Let_def)
  then show "d_current (choose_generator A_STAND ?d) = A_GETUP_BACK" by simp
qed

lemma d_reset_none: "body_isActive (d_reset d) (d_current (d_reset d)) = False" "d_current (d_reset d) = A_NONE"
  by (simp_all add: d_reset_def body_isActive_def d_slot_def)

text \<open>
  A request with a higher priority than the running motion takes over in the same frame (the goalkeeper's centre begins with a sit).
\<close>

theorem higher_priority_takes_over:
  assumes "priorities (d_current d) < priorities request" "request \<noteq> A_GOALIE_CENTRE"
  shows "d_current (choose_generator request d) = request"
  using assms d_reset_none [of "note_dive request d"]
  by (simp add: choose_generator_def Let_def body_isActive_def next_generator_def d_slot_def)

theorem higher_priority_takes_over_witness:
  "\<forall>now mem b jm. d_current (choose_generator A_GETUP_FRONT (d_new now mem b jm)) = A_GETUP_FRONT"
  by (intro allI higher_priority_takes_over) (simp_all add: d_new_def)

text \<open>A goalkeeper that has centred goes through the uncentre motion before it does anything else.\<close>

theorem goalie_uncentres:
  assumes "d_current d = A_GOALIE_CENTRE" "\<not> body_isActive d A_GOALIE_CENTRE" "request \<noteq> A_GOALIE_CENTRE"
  shows "d_current (choose_generator request d) = A_GOALIE_UNCENTRE"
  using assms by (cases request) (simp_all add: choose_generator_def Let_def next_generator_def)

theorem goalie_uncentres_witness:
  "\<forall>now mem b jm. d_current (choose_generator A_WALK ((d_new now mem b jm)\<lparr>d_current := A_GOALIE_CENTRE\<rparr>)) = A_GOALIE_UNCENTRE"
  by (intro allI goalie_uncentres) (simp_all add: d_new_def body_isActive_def d_slot_def ag_isActive_def ag_new_def Let_def)

section \<open>Recorded motions\<close>

lemma append_poses_last:
  "js \<noteq> [] \<Longrightarrow> List.length (append_poses n offset st mem js) = List.length js + n \<and>
    jv_angles (List.last (append_poses n offset st mem js)) k = jv_angles (List.last js) k + of_nat n * fst offset k"
  by (induction n arbitrary: js) (simp_all add: algebra_simps)

lemma rewrite_poses_length [simp]: "List.length (rewrite_poses n i offset st js) = List.length js"
  by (induction n arbitrary: i js) simp_all

text \<open>The poses between two recorded ones, one for every 10 ms, end exactly at the second.\<close>

theorem interpolation_reaches_pose:
  assumes "ag_interpolate newJoint duration a = Some a'" "ag_joints a \<noteq> []" "10 \<le> duration"
  shows "jv_angles (List.last (ag_joints a')) = jv_angles newJoint \<and> List.length (ag_joints a') = List.length (ag_joints a) + duration div 10"
proof -
  have n: "0 < duration div 10" using assms(3) by simp
  define o' where "o' = (\<lambda>j. (jv_angles newJoint j - jv_angles (List.last (ag_joints a)) j) / of_nat (duration div 10),
    \<lambda>j. jv_nan newJoint j \<or> jv_nan (List.last (ag_joints a)) j)"
  have "ag_joints a' = append_poses (duration div 10) o' (jv_stiffnesses newJoint) (ag_mem a) (ag_joints a)"
    using assms by (auto simp: ag_interpolate_def o'_def Let_def)
  moreover have "jv_angles (List.last (ag_joints a)) k + of_nat (duration div 10) * fst o' k = jv_angles newJoint k" for k
    unfolding o'_def using n by simp
  ultimately show ?thesis using append_poses_last [OF assms(2), of "duration div 10" o' "jv_stiffnesses newJoint" "ag_mem a"]
    by (simp add: fun_eq_iff)
qed

theorem interpolation_reaches_pose_witness:
  "\<forall>b mem p q. jv_angles (List.last (ag_joints (the (ag_interpolate q 100 ((ag_new b mem)\<lparr>ag_joints := [p]\<rparr>))))) = jv_angles q"
proof (intro allI)
  fix b mem p q
  let ?a = "(ag_new b mem)\<lparr>ag_joints := [p]\<rparr>"
  obtain a' where "ag_interpolate q 100 ?a = Some a'" by (simp add: ag_interpolate_def Let_def)
  then show "jv_angles (List.last (ag_joints (the (ag_interpolate q 100 ?a)))) = jv_angles q"
    using interpolation_reaches_pose [of q 100 ?a a'] by simp
qed

primrec ag_run :: "body_command \<Rightarrow> sensor_vals list \<Rightarrow> action_gen \<Rightarrow> (action_gen \<times> joint_vals list) option" where
  "ag_run b [] a = Some (a, [])"
| "ag_run b (s # ss) a = (case ag_makeJoints b s a of None \<Rightarrow> None
     | Some (a, j) \<Rightarrow> (case ag_run b ss a of None \<Rightarrow> None | Some (a, js) \<Rightarrow> Some (a, j # js)))"

text \<open>After the reset the first \<open>n\<close> poses are rewritten so that they lead from the measured angles to the recorded pose \<open>n\<close>.\<close>

lemma rewrite_poses_nth:
  assumes "0 < i" "i + n \<le> List.length js"
  shows "(k < i \<or> i + n \<le> k \<longrightarrow> rewrite_poses n i offset st js ! k = js ! k) \<and>
    (i \<le> k \<and> k < i + n \<longrightarrow>
      jv_angles (rewrite_poses n i offset st js ! k) x = jv_angles (js ! (i - 1)) x + (real k - real i + 1) * fst offset x)"
  using assms
proof (induction n arbitrary: i js)
  case (Suc n)
  define js' where "js' = js[i := (js ! i)\<lparr>jv_angles := (\<lambda>j. jv_angles (js ! (i - 1)) j + fst offset j), jv_stiffnesses := st,
          jv_nan := (\<lambda>j. jv_nan (js ! (i - 1)) j \<or> snd offset j)\<rparr>]"
  have r: "rewrite_poses (Suc n) i offset st js = rewrite_poses n (Suc i) offset st js'" by (simp add: js'_def)
  have j: "k \<noteq> i \<Longrightarrow> js' ! k = js ! k" "jv_angles (js' ! i) x = jv_angles (js ! (i - 1)) x + fst offset x" for k
    using Suc.prems by (simp_all add: js'_def)
  have ih: "(k < Suc i \<or> Suc i + n \<le> k \<longrightarrow> rewrite_poses n (Suc i) offset st js' ! k = js' ! k) \<and>
    (Suc i \<le> k \<and> k < Suc i + n \<longrightarrow>
      jv_angles (rewrite_poses n (Suc i) offset st js' ! k) x = jv_angles (js' ! (Suc i - 1)) x + (real k - real (Suc i) + 1) * fst offset x)"
    using Suc.prems by (intro Suc.IH) (simp_all add: js'_def)
  consider "k < i" | "k = i" | "i < k" "k < i + Suc n" | "i + Suc n \<le> k" by linarith
  then show ?case
  proof cases
    case 3
    then have "jv_angles (rewrite_poses n (Suc i) offset st js' ! k) x = jv_angles (js' ! i) x + (real k - real (Suc i) + 1) * fst offset x" using ih by simp
    then show ?thesis using 3 unfolding r j(2) by (simp add: algebra_simps)
  qed (use ih j in \<open>simp_all add: r del: rewrite_poses.simps\<close>)
qed simp

lemma ag_frame_running:
  assumes "0 < ag_time a" "ag_time a < int (List.length (ag_joints a))"
  shows "ag_makeJoints b s a = Some (a\<lparr>ag_time := if ag_time a + 1 = int (List.length (ag_joints a)) then - 1 else ag_time a + 1\<rparr>,
    ag_joints a ! nat (ag_time a))"
  using assms by (simp add: ag_makeJoints_def Let_def)

lemma ag_run_running:
  assumes "0 < ag_time a" "ag_time a + int (List.length ss) \<le> int (List.length (ag_joints a))" "ag_time a < int (List.length (ag_joints a))"
  shows "\<exists>a'. ag_run b ss a = Some (a', take (List.length ss) (drop (nat (ag_time a)) (ag_joints a))) \<and>
    ag_isActive a' = (ag_time a + int (List.length ss) < int (List.length (ag_joints a)))"
  using assms
proof (induction ss arbitrary: a)
  case Nil
  then show ?case by (simp add: ag_isActive_def)
next
  case (Cons s ss)
  let ?n = "List.length (ag_joints a)"
  have d: "drop (nat (ag_time a)) (ag_joints a) = ag_joints a ! nat (ag_time a) # drop (Suc (nat (ag_time a))) (ag_joints a)"
    using Cons.prems by (intro Cons_nth_drop_Suc [symmetric]) simp
  note f = ag_frame_running [OF Cons.prems(1,3), of b s]
  show ?case
  proof (cases "ss = []")
    case True
    then show ?thesis using Cons.prems by (simp add: f d) (auto simp: ag_isActive_def)
  next
    case False
    then have l: "1 \<le> int (List.length ss)" by (cases ss) simp_all
    let ?a = "a\<lparr>ag_time := ag_time a + 1\<rparr>"
    have nd: "ag_time a + 1 \<noteq> int ?n" using l Cons.prems(2) by simp
    have "nat (ag_time a + 1) = Suc (nat (ag_time a))" using Cons.prems(1) by simp
    then show ?thesis using Cons.IH [of ?a] l Cons.prems nd by (auto simp: f d algebra_simps)
  qed
qed

text \<open>
  C17: A recorded motion that has been reset plays its poses in order, each once, and is active until the last one: in the first \<open>ag_max_iter\<close>
  frames the angles go from the measured ones to that recorded pose in equal steps, from there on the recorded poses are played as they are.
\<close>

theorem action_runs_once:
  assumes "ag_joints a \<noteq> []" "ag_max_iter a < List.length (ag_joints a)" "ss \<noteq> []" "List.length ss \<le> List.length (ag_joints a)"
  shows "\<exists>a' js. ag_run b ss (ag_reset a) = Some (a', js) \<and> List.length js = List.length ss \<and>
    ag_isActive a' = (List.length ss < List.length (ag_joints a)) \<and>
    (\<forall>k < List.length ss. 0 < k \<and> ag_max_iter a \<le> k \<longrightarrow> js ! k = ag_joints a ! k) \<and>
    (\<forall>k < List.length ss. k = 0 \<or> k < ag_max_iter a \<longrightarrow> (\<forall>x. jv_angles (js ! k) x = jv_angles (sv_joints (hd ss)) x +
       real k / real (ag_max_iter a) * (jv_angles (ag_joints a ! ag_max_iter a) x - jv_angles (sv_joints (hd ss)) x)))"
proof -
  obtain s rest where ss: "ss = s # rest" using assms(3) by (cases ss) simp_all
  let ?m = "ag_max_iter a" and ?n = "List.length (ag_joints a)"
  define new where "new = (sv_joints s)\<lparr>jv_stiffnesses := (\<lambda>_. 1)\<rparr>"
  define off where "off = (\<lambda>j. (jv_angles (ag_joints a ! ?m) j - jv_angles new j) / of_nat ?m, \<lambda>j. jv_nan (ag_joints a ! ?m) j \<or> jv_nan new j)"
  define P where "P = rewrite_poses (?m - 1) 1 off (jv_stiffnesses (ag_joints a ! ?m)) ((ag_joints a)[0 := new])"
  have P: "List.length P = ?n" by (simp add: P_def)
  have n: "0 < ?n" using assms(1) by simp
  define a1 where "a1 = a\<lparr>ag_joints := P, ag_time := if 1 = int ?n then - 1 else 1\<rparr>"
  have "ag_interpolate new 0 (ag_reset a) = Some (a\<lparr>ag_time := 0, ag_joints := P\<rparr>)"
    using assms(1,2) by (simp add: ag_interpolate_def ag_reset_def P_def off_def Let_def)
  then have first: "ag_makeJoints b s (ag_reset a) = Some (a1, P ! 0)"
    using n P by (simp add: ag_makeJoints_def Let_def new_def [symmetric]) (simp add: a1_def ag_reset_def)
  have d: "P = P ! 0 # drop 1 P" using n P by (cases P) simp_all
  have "\<exists>a'. ag_run b ss (ag_reset a) = Some (a', take (List.length ss) P) \<and> ag_isActive a' = (List.length ss < ?n)"
  proof (cases "rest = []")
    case True
    moreover have "?n = 1 \<or> 1 < ?n" using n by linarith
    ultimately show ?thesis using first by (subst d) (auto simp: ss a1_def ag_isActive_def)
  next
    case False
    then have l: "1 \<le> List.length rest" by (cases rest) simp_all
    then have "1 \<noteq> int ?n" using assms(4) by (simp add: ss)
    then have t: "ag_time a1 = 1" "ag_joints a1 = P" by (simp_all add: a1_def)
    have "\<exists>a'. ag_run b rest a1 = Some (a', take (List.length rest) (drop 1 P)) \<and> ag_isActive a' = (1 + int (List.length rest) < int ?n)"
      using ag_run_running [of a1 rest b] assms(4) l by (simp add: t P ss)
    then show ?thesis using first by (subst d) (auto simp: ss)
  qed
  then obtain a' where run: "ag_run b ss (ag_reset a) = Some (a', take (List.length ss) P)" "ag_isActive a' = (List.length ss < ?n)" by blast
  have len: "0 < (1::nat)" "1 + (?m - 1) \<le> List.length ((ag_joints a)[0 := new])" using assms(2) n by simp_all
  note nth = rewrite_poses_nth [OF len, of _ off "jv_stiffnesses (ag_joints a ! ?m)", folded P_def]
  have late: "P ! k = ag_joints a ! k" if "0 < k" "?m \<le> k" for k using nth [of k] that by (cases "?m = 0") auto
  have early: "jv_angles (P ! k) x = jv_angles (sv_joints s) x + real k / real ?m * (jv_angles (ag_joints a ! ?m) x - jv_angles (sv_joints s) x)"
    if "k = 0 \<or> k < ?m" for k x
  proof (cases "k = 0")
    case True
    then show ?thesis using nth [of k] n by (simp add: new_def)
  next
    case False
    then show ?thesis using nth [of k x] that n by (simp add: new_def off_def)
  qed
  have k: "take (List.length ss) P ! k = P ! k" if "k < List.length ss" for k using that by simp
  show ?thesis
    by (intro exI [of _ a'] exI [of _ "take (List.length ss) P"]) (use run late early k P assms(4) in \<open>auto simp: ss\<close>)
qed

theorem action_runs_once_witness:
  "\<forall>b c mem p q s. \<exists>a' js. ag_run b [s, s] (ag_reset ((ag_new c mem)\<lparr>ag_joints := [p, q], ag_max_iter := 1\<rparr>)) = Some (a', js) \<and> \<not> ag_isActive a' \<and>
    jv_angles (js ! 0) RS_LHipRoll = jv_angles (sv_joints s) RS_LHipRoll \<and> js ! 1 = q"
proof (intro allI)
  fix b c mem p q and s :: sensor_vals
  let ?a = "(ag_new c mem)\<lparr>ag_joints := [p, q], ag_max_iter := 1\<rparr>"
  have h: "ag_joints ?a \<noteq> []" "ag_max_iter ?a < List.length (ag_joints ?a)" "[s, s] \<noteq> []" "List.length [s, s] \<le> List.length (ag_joints ?a)" by simp_all
  show "\<exists>a' js. ag_run b [s, s] (ag_reset ?a) = Some (a', js) \<and> \<not> ag_isActive a' \<and> jv_angles (js ! 0) RS_LHipRoll = jv_angles (sv_joints s) RS_LHipRoll \<and> js ! 1 = q"
    using action_runs_once [OF h, of b] by (auto simp del: ag_run.simps)
qed

end
