(* ===== verification/Game_Control.thy ===== *)
theory Game_Control
  imports Prelude
begin

text \<open>
  The state of the game on a robot and the buttons that change it: \<open>src/core/memory/GameStateBlock.h\<close>
  and \<open>.cpp\<close>, the speech block \<open>src/core/memory/SpeechBlock.h\<close>, and
  \<open>src/core/sensor/ButtonModule.cpp\<close> as it is built, with \<open>USE_LAB_BUTTONS\<close>. The value of
  \<open>time(NULL)\<close> is the argument \<open>now\<close>, in seconds; the time of a frame, \<open>seconds_since_start\<close>, is the
  argument \<open>t\<close>. The text \<open>sayIP\<close> speaks is built from the operating system's list of interfaces: it
  is the argument \<open>ip_text\<close>.
\<close>

section \<open>Game state\<close>

datatype game_state =
    GS_UNDEFINED | GS_INITIAL | GS_READY | GS_SET | GS_PLAYING | GS_TESTING | GS_PENALISED | GS_FINISHED
  | GS_FALLING | GS_BOTTOM_CAM | GS_TOP_CAM | GS_TEST_ODOMETRY | GS_MANUAL_CONTROL

record game_state_block =
  spawned_whistle_positions :: bool
  gameContTeamNum :: int
  isPenaltyKick :: bool
  ourKickOff :: bool
  secsRemaining :: int
  ourScore :: int
  opponentScore :: int
  secsTillUnpenalised :: int
  isFirstHalf :: int
  lastOutBy :: int
  dropInTime :: int
  frameReceived :: int
  whistleTime :: int
  isFreeKick :: bool
  isFreeKickTypeGoal :: bool
  lastStateChangeFromButton :: bool
  lastTimeLeftPenalized :: real
  gs_state :: game_state
  gs_prevstate :: game_state
  gs_stateStartTime :: int

definition gs_new :: "game_state_block \<Rightarrow> game_state_block" where
  "gs_new g = g\<lparr>spawned_whistle_positions := False, isPenaltyKick := False, gs_prevstate := GS_INITIAL, gs_state := GS_INITIAL,
     ourKickOff := True, isFirstHalf := 1, gameContTeamNum := 1, ourScore := 0, opponentScore := 0, secsTillUnpenalised := 0,
     dropInTime := - 1, lastOutBy := 0, secsRemaining := 600, frameReceived := 0, lastStateChangeFromButton := False,
     lastTimeLeftPenalized := - 1, whistleTime := 0, isFreeKick := False, isFreeKickTypeGoal := False\<rparr>"

definition whistleElapsedTime :: "int \<Rightarrow> game_state_block \<Rightarrow> int" where
  "whistleElapsedTime now g = now - whistleTime g"

definition stateElapsedTime :: "int \<Rightarrow> game_state_block \<Rightarrow> int" where
  "stateElapsedTime now g = now - gs_stateStartTime g"

definition gs_change :: "int \<Rightarrow> game_state_block \<Rightarrow> bool" where
  "gs_change now g = (stateElapsedTime now g = 0)"

definition setState :: "int \<Rightarrow> game_state \<Rightarrow> game_state_block \<Rightarrow> game_state_block" where
  "setState now st g =
     (if whistleElapsedTime now g \<le> 20 \<and> st = GS_SET \<and> gs_state g = GS_PLAYING then g
      else
        let g = (if st \<noteq> gs_state g then g\<lparr>gs_stateStartTime := now, gs_prevstate := gs_state g, gs_state := st\<rparr> else g)
        in if gs_state g = GS_SET then g\<lparr>spawned_whistle_positions := False\<rparr> else g)"

definition whistleOverride :: "int \<Rightarrow> game_state_block \<Rightarrow> game_state_block" where
  "whistleOverride now g = setState now GS_PLAYING (g\<lparr>whistleTime := now\<rparr>)"

section \<open>Speech\<close>

text \<open>
  \<open>strncpy\<close> copies up to 79 characters and pads with zeros; the text is what precedes the first zero.
\<close>

abbreviation SPEECH_TEXT_SIZE :: nat where "SPEECH_TEXT_SIZE \<equiv> 80"

record speech_block =
  last_speech_frame :: nat
  say_text :: bool
  speech_text :: "char list"

definition sp_block_new :: "speech_block \<Rightarrow> speech_block" where
  "sp_block_new b = b\<lparr>last_speech_frame := 0, say_text := False, speech_text := (speech_text b)[0 := CHR 0x00]\<rparr>"

definition c_strncpy :: "nat \<Rightarrow> char list \<Rightarrow> string \<Rightarrow> char list" where
  "c_strncpy n dst src =
     (let s = takeWhile (\<lambda>c. c \<noteq> CHR 0x00) src
      in take n (s @ replicate n (CHR 0x00)) @ drop n dst)"

definition say :: "string \<Rightarrow> speech_block \<Rightarrow> speech_block" where
  "say text b =
     (let buf = c_strncpy (SPEECH_TEXT_SIZE - 1) (speech_text b) text
      in b\<lparr>speech_text := buf[SPEECH_TEXT_SIZE - 1 := CHR 0x00], say_text := True\<rparr>)"

definition spoken :: "speech_block \<Rightarrow> string" where
  "spoken b = takeWhile (\<lambda>c. c \<noteq> CHR 0x00) (speech_text b)"

section \<open>Buttons\<close>

abbreviation (input) MAX_CLICK_INTERVAL :: real where "MAX_CLICK_INTERVAL \<equiv> 35 / 100"
abbreviation (input) MIN_CLICK_TIME :: real where "MIN_CLICK_TIME \<equiv> 1 / 100"
abbreviation (input) MAX_CLICK_TIME :: real where "MAX_CLICK_TIME \<equiv> 75 / 100"

record button_info =
  presses :: int
  bi_start :: real
  bi_last :: real
  new_result :: bool
  allow_multiple :: bool

definition bi_reset :: "button_info \<Rightarrow> button_info" where
  "bi_reset b = b\<lparr>presses := 0, new_result := False\<rparr>"

definition bi_new :: "bool \<Rightarrow> button_info" where
  "bi_new multiple = \<lparr>presses = 0, bi_start = - 1, bi_last = - 1, new_result = False, allow_multiple = multiple\<rparr>"

definition processButton :: "real \<Rightarrow> real \<Rightarrow> real \<Rightarrow> button_info \<Rightarrow> button_info" where
  "processButton t bump1 bump2 b =
     (let b = (if bump1 > 1 / 2 \<or> bump2 > 1 / 2
               then (if bi_start b < 0 then b\<lparr>bi_start := t\<rparr> else b)\<lparr>bi_last := t\<rparr>
               else let dt = t - bi_start b;
                        b = (if dt \<ge> MIN_CLICK_TIME \<and> dt \<le> MAX_CLICK_TIME then b\<lparr>presses := presses b + 1\<rparr> else b)
                    in b\<lparr>bi_start := - 1\<rparr>)
      in if presses b > 0
         then let max_interval = (if allow_multiple b then MAX_CLICK_INTERVAL else - 1)
              in if t - bi_last b > max_interval then b\<lparr>new_result := True\<rparr> else b
         else b)"

datatype team_colour = TEAM_BLUE | TEAM_RED

record button_module =
  bm_center :: button_info
  bm_left_bumper :: button_info
  bm_right_bumper :: button_info
  bm_head_middle :: button_info
  bm_game :: game_state_block
  bm_speech :: speech_block
  bm_team :: team_colour
  bm_team_changed :: bool
  bm_calibrate_white_balance :: bool

record button_input =
  in_center :: real
  in_bumperRL :: real
  in_bumperRR :: real
  in_bumperLL :: real
  in_bumperLR :: real
  in_headMiddle :: real

definition bm_new :: "button_module \<Rightarrow> button_module" where
  "bm_new m = m\<lparr>bm_center := bi_new True, bm_left_bumper := bi_new False, bm_right_bumper := bi_new False, bm_head_middle := bi_new False\<rparr>"

definition processCenterPresses :: "int \<Rightarrow> real \<Rightarrow> string \<Rightarrow> button_module \<Rightarrow> button_module" where
  "processCenterPresses now t ip_text m =
     (let st = gs_state (bm_game m); n = presses (bm_center m);
          go = (\<lambda>st m. m\<lparr>bm_game := setState now st (bm_game m)\<rparr>);
          speak = (\<lambda>s m. m\<lparr>bm_speech := say s (bm_speech m)\<rparr>)
      in if n = 3 \<or> n = 4 then speak ''set'' (go GS_SET m)
         else if n = 5 then go GS_FINISHED m
         else if n = 6 then speak ip_text m
         else if n = 7 then go GS_TESTING m
         else if n = 8 \<or> n = 2
         then let p = \<not> isPenaltyKick (bm_game m)
              in speak (if p then ''Penalty'' else ''No Penalty'') (m\<lparr>bm_game := (bm_game m)\<lparr>isPenaltyKick := p\<rparr>\<rparr>)
         else let m = m\<lparr>bm_game := (bm_game m)\<lparr>lastStateChangeFromButton := True\<rparr>\<rparr> in
              case st of
                GS_PENALISED \<Rightarrow> let m = go GS_PLAYING m in m\<lparr>bm_game := (bm_game m)\<lparr>lastTimeLeftPenalized := t\<rparr>\<rparr>
              | GS_TESTING \<Rightarrow> go GS_FINISHED m
              | GS_TEST_ODOMETRY \<Rightarrow> go GS_FINISHED m
              | GS_READY \<Rightarrow> go GS_SET m
              | GS_SET \<Rightarrow> go GS_PLAYING m
              | GS_PLAYING \<Rightarrow> go GS_PENALISED m
              | GS_FINISHED \<Rightarrow> go GS_INITIAL m
              | _ \<Rightarrow> m)"

definition processButtons :: "int \<Rightarrow> real \<Rightarrow> string \<Rightarrow> button_input \<Rightarrow> button_module \<Rightarrow> button_module" where
  "processButtons now t ip_text inp m =
     (let st = gs_state (bm_game m);
          m = m\<lparr>bm_center := processButton t (in_center inp) 0 (bm_center m)\<rparr>;
          m = m\<lparr>bm_right_bumper := processButton t (in_bumperRL inp) (in_bumperRR inp) (bm_right_bumper m)\<rparr>;
          m = m\<lparr>bm_left_bumper := processButton t (in_bumperLL inp) (in_bumperLR inp) (bm_left_bumper m)\<rparr>;
          m = m\<lparr>bm_head_middle := processButton t (in_headMiddle inp) 0 (bm_head_middle m)\<rparr>;
          m = (if new_result (bm_center m)
               then let m = processCenterPresses now t ip_text m in m\<lparr>bm_center := bi_reset (bm_center m)\<rparr> else m);
          m = (if new_result (bm_head_middle m)
               then m\<lparr>bm_calibrate_white_balance := \<not> bm_calibrate_white_balance m, bm_head_middle := bi_reset (bm_head_middle m)\<rparr> else m);
          m = (if new_result (bm_right_bumper m)
               then let m = (if st = GS_INITIAL \<or> st = GS_FINISHED
                             then m\<lparr>bm_team_changed := True, bm_team := (case bm_team m of TEAM_RED \<Rightarrow> TEAM_BLUE | TEAM_BLUE \<Rightarrow> TEAM_RED)\<rparr> else m)
                    in m\<lparr>bm_right_bumper := bi_reset (bm_right_bumper m)\<rparr> else m);
          m = (if new_result (bm_left_bumper m)
               then let m = (if st = GS_INITIAL \<or> st = GS_FINISHED
                             then m\<lparr>bm_game := (bm_game m)\<lparr>ourKickOff := \<not> ourKickOff (bm_game m)\<rparr>\<rparr> else m)
                    in m\<lparr>bm_left_bumper := bi_reset (bm_left_bumper m)\<rparr> else m)
      in m)"

section \<open>Clicks in a sequence of samples\<close>

text \<open>
  What the clicks in a sequence of samples (time, pressed) are, independently of the module's
  variables: each maximal run of pressed samples that is followed by a released one is a span from the
  first pressed sample to the released one; it is a click when it lasts between 0.01 and 0.75 seconds.
\<close>

type_synonym sample = "real \<times> bool"

fun press_spans :: "real option \<Rightarrow> sample list \<Rightarrow> (real \<times> real) list" where
  "press_spans s [] = []"
| "press_spans None ((t, True) # ss) = press_spans (Some t) ss"
| "press_spans None ((t, False) # ss) = press_spans None ss"
| "press_spans (Some a) ((t, True) # ss) = press_spans (Some a) ss"
| "press_spans (Some a) ((t, False) # ss) = (a, t) # press_spans None ss"

definition is_click :: "real \<times> real \<Rightarrow> bool" where
  "is_click sp = (MIN_CLICK_TIME \<le> snd sp - fst sp \<and> snd sp - fst sp \<le> MAX_CLICK_TIME)"

definition clicks :: "sample list \<Rightarrow> nat" where
  "clicks ss = length (filter is_click (press_spans None ss))"

text \<open>No released sample comes more than 0.35 seconds after the last pressed one.\<close>

fun paced :: "real \<Rightarrow> sample list \<Rightarrow> bool" where
  "paced l [] = True"
| "paced l ((t, True) # ss) = paced t ss"
| "paced l ((t, False) # ss) = (t - l \<le> MAX_CLICK_INTERVAL \<and> paced l ss)"

fun last_press :: "real \<Rightarrow> sample list \<Rightarrow> real" where
  "last_press l [] = l"
| "last_press l ((t, d) # ss) = last_press (if d then t else l) ss"

definition button_run :: "sample list \<Rightarrow> button_info \<Rightarrow> button_info" where
  "button_run ss b = fold (\<lambda>(t, d). processButton t (if d then 1 else 0) 0) ss b"

definition tracks :: "real option \<Rightarrow> real \<Rightarrow> nat \<Rightarrow> button_info \<Rightarrow> bool" where
  "tracks s l n b \<longleftrightarrow> bi_start b = (case s of None \<Rightarrow> - 1 | Some a \<Rightarrow> a) \<and> (\<forall>a. s = Some a \<longrightarrow> 0 \<le> a) \<and> bi_last b = l \<and>
     presses b = int n \<and> \<not> new_result b \<and> allow_multiple b"

lemma tracks_press:
  assumes "tracks s l n b" "0 \<le> t"
  shows "tracks (Some (case s of None \<Rightarrow> t | Some a \<Rightarrow> a)) t n (processButton t 1 0 b)"
  using assms by (auto simp: tracks_def processButton_def Let_def split: option.splits)

lemma processButton_release:
  assumes "tracks s l n b" "0 \<le> t"
  defines "n' \<equiv> (case s of None \<Rightarrow> n | Some a \<Rightarrow> if is_click (a, t) then Suc n else n)"
  shows "bi_start (processButton t 0 0 b) = - 1 \<and> bi_last (processButton t 0 0 b) = l \<and> presses (processButton t 0 0 b) = int n' \<and>
    allow_multiple (processButton t 0 0 b) \<and> new_result (processButton t 0 0 b) = (0 < n' \<and> t - l > MAX_CLICK_INTERVAL)"
  using assms(1,2) unfolding n'_def
  by (auto simp: tracks_def processButton_def Let_def is_click_def split: option.splits)

lemma tracks_release:
  assumes "tracks s l n b" "0 \<le> t" "t - l \<le> MAX_CLICK_INTERVAL"
  shows "tracks None l (case s of None \<Rightarrow> n | Some a \<Rightarrow> if is_click (a, t) then Suc n else n) (processButton t 0 0 b)"
  using processButton_release [OF assms(1,2)] assms(3) by (simp add: tracks_def)

lemma button_run_simps [simp]:
  "button_run [] b = b"
  "button_run ((t, d) # ss) b = button_run ss (processButton t (if d then 1 else 0) 0 b)"
  "button_run (xs @ ys) b = button_run ys (button_run xs b)"
  by (simp_all add: button_run_def)

lemma button_run_final:
  assumes "tracks s l n b" "\<forall>(t, d) \<in> set ss. 0 \<le> t" "paced l ss" "0 \<le> T"
  shows "presses (button_run (ss @ [(T, False)]) b) = int (n + length (filter is_click (press_spans s (ss @ [(T, False)])))) \<and>
    new_result (button_run (ss @ [(T, False)]) b) =
      (0 < n + length (filter is_click (press_spans s (ss @ [(T, False)]))) \<and> T - last_press l ss > MAX_CLICK_INTERVAL)"
  using assms
proof (induction ss arbitrary: s l n b)
  case Nil
  then show ?case using processButton_release [OF Nil(1,4)] by (cases s) auto
next
  case (Cons p ss)
  obtain t d where p: "p = (t, d)" by (cases p)
  have t: "0 \<le> t" "\<forall>(t, d) \<in> set ss. 0 \<le> t" using Cons.prems(2) p by auto
  show ?case
  proof (cases d)
    case True
    then show ?thesis using Cons.IH [OF tracks_press [OF Cons.prems(1) t(1)] t(2)] Cons.prems p by (cases s) simp_all
  next
    case False
    then have "t - l \<le> MAX_CLICK_INTERVAL" "paced l ss" using Cons.prems(3) p by auto
    then show ?thesis using Cons.IH [OF tracks_release [OF Cons.prems(1) t(1)] t(2)] Cons.prems(4) p False by (cases s) auto
  qed
qed

section \<open>Properties\<close>



text \<open>
  Team and kick-off are fixed during the game: whatever buttons are pressed, the bumpers change
  them only in the initial and the finished state.
\<close>

theorem buttons_keep_team_in_play:
  assumes "gs_state (bm_game m) \<notin> {GS_INITIAL, GS_FINISHED}"
  shows "bm_team (processButtons now t ip_text inp m) = bm_team m \<and>
    ourKickOff (bm_game (processButtons now t ip_text inp m)) = ourKickOff (bm_game m)"
proof -
  have center: "bm_team (processCenterPresses now t ip_text m) = bm_team m \<and>
      ourKickOff (bm_game (processCenterPresses now t ip_text m)) = ourKickOff (bm_game m)" for m
    by (simp add: processCenterPresses_def setState_def Let_def split: game_state.split)
  show ?thesis using assms center by (simp add: processButtons_def Let_def)
qed

theorem buttons_keep_team_in_play_witness:
  "\<forall>m. bm_team (processButtons 0 0 [] \<lparr>in_center = 0, in_bumperRL = 1, in_bumperRR = 1, in_bumperLL = 1, in_bumperLR = 1, in_headMiddle = 0\<rparr>
      (m\<lparr>bm_game := (bm_game m)\<lparr>gs_state := GS_PLAYING\<rparr>\<rparr>)) = bm_team m"
proof
  fix m
  show "bm_team (processButtons 0 0 [] \<lparr>in_center = 0, in_bumperRL = 1, in_bumperRR = 1, in_bumperLL = 1, in_bumperLR = 1, in_headMiddle = 0\<rparr>
      (m\<lparr>bm_game := (bm_game m)\<lparr>gs_state := GS_PLAYING\<rparr>\<rparr>)) = bm_team m"
    using buttons_keep_team_in_play [of "m\<lparr>bm_game := (bm_game m)\<lparr>gs_state := GS_PLAYING\<rparr>\<rparr>" 0 0 "[]"] by simp
qed

text \<open>
  After the referee's whistle the robot keeps playing: for 20 seconds a request to go back to
  the set state is ignored, afterwards it is obeyed; other requests are obeyed at any time.
\<close>

theorem whistle_keeps_playing:
  "gs_state (setState now st (whistleOverride t0 g)) =
     (if st = GS_SET \<and> now \<le> t0 + 20 then GS_PLAYING else st)"
  by (auto simp: setState_def whistleOverride_def whistleElapsedTime_def Let_def)

text \<open>
  Speech is cut to what fits into the buffer: of a text its first 79 characters up to a zero
  character are spoken, and the buffer stays terminated.
\<close>

theorem say_speaks_prefix:
  assumes "length (speech_text b) = SPEECH_TEXT_SIZE"
  shows "spoken (say text b) = take (SPEECH_TEXT_SIZE - 1) (takeWhile (\<lambda>c. c \<noteq> CHR 0x00) text) \<and>
    length (speech_text (say text b)) = SPEECH_TEXT_SIZE \<and> say_text (say text b)"
proof -
  define s where "s = takeWhile (\<lambda>c. c \<noteq> CHR 0x00) text"
  have s: "\<forall>c \<in> set s. c \<noteq> CHR 0x00" by (auto simp: s_def dest: set_takeWhileD)
  have drop: "drop 79 (speech_text b) = [speech_text b ! 79]"
    using assms by (metis Cons_nth_drop_Suc drop_eq_Nil le_refl lessI numeral_nat(7) semiring_norm(5,8) Suc_numeral)
  define pre where "pre = take 79 (s @ replicate 79 (CHR 0x00))"
  have pre: "length pre = 79" "pre = take 79 s @ replicate (79 - length s) (CHR 0x00)" by (simp_all add: pre_def)
  have buf: "speech_text (say text b) = pre @ [CHR 0x00]"
  proof -
    have "c_strncpy 79 (speech_text b) text = pre @ [speech_text b ! 79]"
      unfolding c_strncpy_def Let_def s_def [symmetric] pre_def [symmetric] drop ..
    then show ?thesis using pre(1) by (simp add: say_def Let_def list_update_append)
  qed
  have "takeWhile (\<lambda>c. c \<noteq> CHR 0x00) (take 79 s @ replicate (79 - length s) (CHR 0x00) @ [CHR 0x00]) = take 79 s"
    using s by (subst takeWhile_append2) (auto dest: in_set_takeD simp: takeWhile_append)
  moreover have "say_text (say text b)" by (simp add: say_def Let_def)
  ultimately show ?thesis using pre by (simp add: spoken_def buf s_def [symmetric])
qed

theorem say_speaks_prefix_witness:
  "\<forall>b. spoken (say ''set'' (b\<lparr>speech_text := replicate 80 (CHR ''x'')\<rparr>)) = ''set''"
proof
  fix b :: speech_block
  show "spoken (say ''set'' (b\<lparr>speech_text := replicate 80 (CHR ''x'')\<rparr>)) = ''set''"
    using say_speaks_prefix [of "b\<lparr>speech_text := replicate 80 (CHR ''x'')\<rparr>" "''set''"] by simp
qed

end
