(* ===== verification/Gyro_Calibration.thy ===== *)
theory Gyro_Calibration
  imports Complex_Main
begin

text \<open>
  The calibration of the gyroscopes in the module of the walk (\<open>src/core/motion/rswalk2014/RSWalkModule2014.cpp\<close>, \<open>GyroConfig.cpp\<close>). While the readings
  hardly change their moving average becomes the offset; the robot may walk after two such calibrations of both axes, or when a stored
  calibration is not older than ten minutes. Times and the stored file are arguments.
\<close>

section \<open>Calibration of the gyroscopes\<close>

record gyro_axis =
  ga_avg :: real
  ga_avg_delta :: real
  ga_offset :: real
  ga_last :: real
  ga_last_time :: real
  ga_count :: int

abbreviation (input) window_size :: real where "window_size \<equiv> 1 / 1000"
abbreviation (input) delta_threshold :: real where "delta_threshold \<equiv> 1"
abbreviation (input) reset_delta :: real where "reset_delta \<equiv> 10"

definition ga_new :: gyro_axis where
  "ga_new = \<lparr>ga_avg = 0, ga_avg_delta = 10, ga_offset = 0, ga_last = 0, ga_last_time = - 1, ga_count = 0\<rparr>"

definition calibrate_axis :: "real \<Rightarrow> real \<Rightarrow> gyro_axis \<Rightarrow> gyro_axis" where
  "calibrate_axis now cur a =
     (let delta = \<bar>cur - ga_last a\<bar>;
          a = a\<lparr>ga_avg := ga_avg a * (1 - window_size) + cur * window_size\<rparr>;
          a = a\<lparr>ga_avg_delta := ga_avg_delta a * (1 - window_size) + delta * window_size\<rparr>;
          a = (if ga_avg_delta a < delta_threshold
               then a\<lparr>ga_offset := ga_avg a, ga_avg_delta := reset_delta, ga_count := ga_count a + 1, ga_last_time := now\<rparr> else a)
      in a\<lparr>ga_last := cur\<rparr>)"

record gyro_config =
  gc_offsetX :: real
  gc_offsetY :: real
  gc_write_time :: real

text \<open>The files written are a list, the latest first.\<close>

record gyro_calibration =
  gy_x :: gyro_axis
  gy_y :: gyro_axis
  calibration_write_time :: real
  last_calibration_write :: real
  gy_saved :: "gyro_config list"

definition gy_new :: gyro_calibration where
  "gy_new = \<lparr>gy_x = ga_new, gy_y = ga_new, calibration_write_time = - 1, last_calibration_write = - 1, gy_saved = []\<rparr>"

definition gy_load :: "gyro_config option \<Rightarrow> gyro_calibration \<Rightarrow> gyro_calibration" where
  "gy_load file c =
     (case file of None \<Rightarrow> c
      | Some f \<Rightarrow> c\<lparr>gy_x := (gy_x c)\<lparr>ga_offset := gc_offsetX f\<rparr>, gy_y := (gy_y c)\<lparr>ga_offset := gc_offsetY f\<rparr>,
                    calibration_write_time := gc_write_time f\<rparr>)"

definition gy_store :: "real \<Rightarrow> real \<Rightarrow> gyro_calibration \<Rightarrow> gyro_calibration" where
  "gy_store sys now c =
     (if ga_last_time (gy_y c) > last_calibration_write c + 30 \<and> ga_last_time (gy_x c) > last_calibration_write c + 30
      then c\<lparr>calibration_write_time := sys, last_calibration_write := now,
             gy_saved := \<lparr>gc_offsetX = ga_offset (gy_x c), gc_offsetY = ga_offset (gy_y c), gc_write_time = sys\<rparr> # gy_saved c\<rparr>
      else c)"

text \<open>The result says that the gyroscopes are not calibrated. \<open>sys\<close> and \<open>sys'\<close> are the values of the two calls of the system clock.\<close>

definition updateGyroScopeCalibration :: "real \<Rightarrow> real \<Rightarrow> real \<Rightarrow> real \<Rightarrow> real \<Rightarrow> gyro_calibration \<Rightarrow> bool \<times> gyro_calibration" where
  "updateGyroScopeCalibration sys sys' now cur_gyroX cur_gyroY c =
     (let c = c\<lparr>gy_x := calibrate_axis now cur_gyroX (gy_x c)\<rparr>;
          c = c\<lparr>gy_y := calibrate_axis now cur_gyroY (gy_y c)\<rparr>
      in if (ga_count (gy_x c) \<ge> 2 \<and> ga_count (gy_y c) \<ge> 2) \<or> sys - calibration_write_time c < 600
         then (False, gy_store sys' now (c\<lparr>gy_x := (gy_x c)\<lparr>ga_count := 2\<rparr>, gy_y := (gy_y c)\<lparr>ga_count := 2\<rparr>\<rparr>))
         else (True, c))"

section \<open>How long it takes\<close>

definition ga_run :: "(real \<times> real) list \<Rightarrow> gyro_axis \<Rightarrow> gyro_axis" where
  "ga_run rs a = fold (\<lambda>(t, x). calibrate_axis t x) rs a"

text \<open>Readings that change by at most 1/2 from frame to frame.\<close>

primrec steady :: "real \<Rightarrow> (real \<times> real) list \<Rightarrow> bool" where
  "steady prev [] = True"
| "steady prev (r # rs) = (\<bar>snd r - prev\<bar> \<le> 1 / 2 \<and> steady (snd r) rs)"

lemma ga_run_simps [simp]: "ga_run [] a = a" "ga_run (r # rs) a = ga_run rs (calibrate_axis (fst r) (snd r) a)"
  by (simp_all add: ga_run_def split: prod.split)

lemma ga_run_append: "ga_run (rs @ ss) a = ga_run ss (ga_run rs a)"
  by (simp add: ga_run_def)

lemma calibrate_axis_simps:
  fixes t x a
  defines "d \<equiv> ga_avg_delta a * (999 / 1000) + \<bar>x - ga_last a\<bar> / 1000"
  shows "ga_last (calibrate_axis t x a) = x"
    and "ga_avg_delta (calibrate_axis t x a) = (if d < 1 then 10 else d)"
    and "ga_count (calibrate_axis t x a) = (if d < 1 then ga_count a + 1 else ga_count a)"
  by (simp_all add: calibrate_axis_def Let_def d_def)

lemma steady_append: "steady p (rs @ ss) = (steady p rs \<and> steady (if rs = [] then p else snd (last rs)) ss)"
  by (induction rs arbitrary: p) auto

lemma ga_run_last: "ga_last (ga_run rs a) = (if rs = [] then ga_last a else snd (last rs))"
  by (induction rs arbitrary: a) (auto simp: calibrate_axis_simps)

lemma ga_count_mono: "ga_count a \<le> ga_count (ga_run rs a)"
proof (induction rs arbitrary: a)
  case (Cons r rs)
  have "ga_count a \<le> ga_count (calibrate_axis (fst r) (snd r) a)" by (simp add: calibrate_axis_simps)
  also have "\<dots> \<le> ga_count (ga_run rs (calibrate_axis (fst r) (snd r) a))" by (rule Cons.IH)
  finally show ?case by simp
qed simp

lemma steady_bounded:
  assumes "steady (ga_last a) rs" "ga_avg_delta a \<le> 10"
  shows "ga_avg_delta (ga_run rs a) \<le> 10"
  using assms
proof (induction rs arbitrary: a)
  case (Cons r rs)
  have "ga_avg_delta (calibrate_axis (fst r) (snd r) a) \<le> 10" using Cons.prems by (simp add: calibrate_axis_simps)
  with Cons show ?case by (simp add: calibrate_axis_simps(1))
qed simp

lemma steady_decay:
  assumes "steady (ga_last a) rs" "ga_count (ga_run rs a) = ga_count a"
  shows "ga_avg_delta (ga_run rs a) - 1 / 2 \<le> (ga_avg_delta a - 1 / 2) * (999 / 1000) ^ length rs"
  using assms
proof (induction rs arbitrary: a)
  case (Cons r rs)
  let ?a = "calibrate_axis (fst r) (snd r) a"
  have c: "ga_count ?a = ga_count a"
    using Cons.prems(2) ga_count_mono [of ?a rs] by (simp add: calibrate_axis_simps split: if_splits)
  then have d: "ga_avg_delta ?a = ga_avg_delta a * (999 / 1000) + \<bar>snd r - ga_last a\<bar> / 1000"
    by (simp add: calibrate_axis_simps split: if_splits)
  have "ga_avg_delta (ga_run rs ?a) - 1 / 2 \<le> (ga_avg_delta ?a - 1 / 2) * (999 / 1000) ^ length rs"
    using Cons.prems c by (intro Cons.IH) (simp_all add: calibrate_axis_simps(1))
  also have "\<dots> \<le> (ga_avg_delta a - 1 / 2) * (999 / 1000) * (999 / 1000) ^ length rs"
    using Cons.prems(1) by (intro mult_right_mono) (simp_all add: d)
  finally show ?case by (simp only: ga_run_simps length_Cons power_Suc mult.assoc)
qed simp

lemma never_small:
  assumes "rs \<noteq> []" shows "1 \<le> ga_avg_delta (ga_run rs a)"
proof -
  from assms obtain ss r where rs: "rs = ss @ [r]" by (metis rev_exhaust)
  show ?thesis by (simp add: rs ga_run_append calibrate_axis_simps(2))
qed

lemma decay_3000: "(999 / 1000 :: real) ^ 3000 < 1 / 19"
proof -
  have "(999 / 1000 :: real) ^ 30 \<le> 100 / 103" by (simp add: power_divide field_simps)
  then have "((999 / 1000 :: real) ^ 30) ^ 100 \<le> (100 / 103) ^ 100" by (intro power_mono) simp_all
  also have "\<dots> < 1 / 19" by (simp add: power_divide field_simps)
  finally show ?thesis by (simp add: power_mult [symmetric])
qed

lemma steady_calibrates:
  assumes "steady (ga_last a) rs" "ga_avg_delta a \<le> 10" "length rs = 3000"
  shows "ga_count a + 1 \<le> ga_count (ga_run rs a)"
proof (rule ccontr)
  assume "\<not> ?thesis"
  then have c: "ga_count (ga_run rs a) = ga_count a" using ga_count_mono [of a rs] by simp
  have ne: "rs \<noteq> []" using assms(3) by auto
  have "(ga_avg_delta a - 1 / 2) * (999 / 1000) ^ 3000 \<le> (10 - 1 / 2) * (999 / 1000) ^ 3000"
    using assms(2) by (intro mult_right_mono) simp_all
  also have "\<dots> < (10 - 1 / 2) * (1 / 19)" using decay_3000 by (intro mult_strict_left_mono) simp_all
  finally show False using steady_decay [OF assms(1) c] never_small [OF ne, of a] by (simp add: assms(3))
qed

lemma decay_2300: "1 / 10 \<le> (999 / 1000 :: real) ^ 2300"
proof -
  have "3909 / 4000 \<le> (999 / 1000 :: real) ^ 23" by (simp add: power_divide field_simps)
  then have "(3909 / 4000) ^ 100 \<le> ((999 / 1000 :: real) ^ 23) ^ 100" by (intro power_mono) simp_all
  moreover have "1 / 10 \<le> (3909 / 4000 :: real) ^ 100" by (simp add: power_divide field_simps)
  ultimately show ?thesis by (simp add: power_mult [symmetric])
qed

text \<open>The frames since the last calibration are \<open>k\<close>; a calibration takes more than 2300 frames.\<close>

lemma calibrations_spaced:
  assumes "2301 * int c + int k \<le> int n" "ga_count a = int c" "10 * (999 / 1000) ^ k \<le> ga_avg_delta a"
  shows "\<exists>c k. 2301 * int c + int k \<le> int (n + length rs) \<and> ga_count (ga_run rs a) = int c \<and> 10 * (999 / 1000) ^ k \<le> ga_avg_delta (ga_run rs a)"
  using assms
proof (induction rs arbitrary: a c k n)
  case Nil
  then show ?case by auto
next
  case (Cons r rs)
  let ?a = "calibrate_axis (fst r) (snd r) a" and ?d = "ga_avg_delta a * (999 / 1000) + \<bar>snd r - ga_last a\<bar> / 1000"
  have "10 * (999 / 1000) ^ Suc k = 10 * (999 / 1000) ^ k * (999 / 1000 :: real)" by simp
  also have "\<dots> \<le> ga_avg_delta a * (999 / 1000)" using Cons.prems(3) by (rule mult_right_mono) simp
  also have "\<dots> \<le> ?d" by simp
  finally have d: "10 * (999 / 1000) ^ Suc k \<le> ?d" .
  have step: "2301 * int c' + int k' \<le> int (Suc n) \<Longrightarrow> ga_count ?a = int c' \<Longrightarrow> 10 * (999 / 1000) ^ k' \<le> ga_avg_delta ?a \<Longrightarrow> ?case" for c' k'
    using Cons.IH [of c' k' "Suc n" ?a] by simp
  show ?case
  proof (cases "?d < 1")
    case True
    have "2300 < Suc k"
    proof (rule ccontr)
      assume "\<not> ?thesis"
      then have "(999 / 1000 :: real) ^ 2300 \<le> (999 / 1000) ^ Suc k" by (intro power_decreasing) simp_all
      with decay_2300 d True show False by simp
    qed
    with True Cons.prems(1,2) show ?thesis by (intro step [of "Suc c" 0]) (simp_all add: calibrate_axis_simps)
  next
    case False
    with d Cons.prems(1,2) show ?thesis by (intro step [of c "Suc k"]) (simp_all add: calibrate_axis_simps)
  qed
qed

lemma count_below_two:
  assumes "length rs \<le> 4601"
  shows "ga_count (ga_run rs ga_new) < 2"
  using calibrations_spaced [of 0 0 0 ga_new rs] assms by (auto simp: ga_new_def)

section \<open>Both axes\<close>

record gyro_input =
  gi_sys :: real
  gi_sys' :: real
  gi_time :: real
  gi_x :: real
  gi_y :: real

definition gy_frame :: "gyro_input \<Rightarrow> bool \<times> gyro_calibration \<Rightarrow> bool \<times> gyro_calibration" where
  "gy_frame f r = updateGyroScopeCalibration (gi_sys f) (gi_sys' f) (gi_time f) (gi_x f) (gi_y f) (snd r)"

definition gy_run :: "gyro_input list \<Rightarrow> gyro_calibration \<Rightarrow> bool \<times> gyro_calibration" where
  "gy_run fs c = fold gy_frame fs (True, c)"

definition xs_of :: "gyro_input list \<Rightarrow> (real \<times> real) list" where
  "xs_of fs = map (\<lambda>f. (gi_time f, gi_x f)) fs"

definition ys_of :: "gyro_input list \<Rightarrow> (real \<times> real) list" where
  "ys_of fs = map (\<lambda>f. (gi_time f, gi_y f)) fs"

lemma gy_run_snoc: "gy_run (fs @ [f]) c = gy_frame f (gy_run fs c)"
  by (simp add: gy_run_def)

lemma gy_store_axes [simp]: "gy_x (gy_store s n c) = gy_x c" "gy_y (gy_store s n c) = gy_y c"
  by (simp_all add: gy_store_def)

text \<open>An axis that has been calibrated at least as often, up to two times.\<close>

definition ahead :: "gyro_axis \<Rightarrow> gyro_axis \<Rightarrow> bool" where
  "ahead a b = (ga_avg_delta a = ga_avg_delta b \<and> ga_last a = ga_last b \<and> min 2 (ga_count b) \<le> ga_count a)"

lemma ahead_calibrate: "ahead a b \<Longrightarrow> ahead (calibrate_axis t x a) (calibrate_axis t x b)"
  by (auto simp: ahead_def calibrate_axis_simps)

lemma ahead_two: "ahead a b \<Longrightarrow> ahead (a\<lparr>ga_count := 2\<rparr>) b"
  by (simp add: ahead_def)

lemma gy_run_ahead:
  "ahead (gy_x (snd (gy_run fs c))) (ga_run (xs_of fs) (gy_x c)) \<and> ahead (gy_y (snd (gy_run fs c))) (ga_run (ys_of fs) (gy_y c))"
proof (induction fs rule: rev_induct)
  case Nil
  then show ?case by (simp add: gy_run_def xs_of_def ys_of_def ahead_def)
next
  case (snoc f fs)
  then show ?case
    by (simp add: gy_run_snoc gy_frame_def updateGyroScopeCalibration_def Let_def xs_of_def ys_of_def ga_run_append ahead_calibrate ahead_two)
qed

lemma steady_twice:
  assumes "steady 0 rs" "6000 \<le> length rs"
  shows "2 \<le> ga_count (ga_run rs ga_new)"
proof -
  define A B C where "A = take 3000 rs" and "B = take 3000 (drop 3000 rs)" and "C = drop 6000 rs"
  have rs: "rs = A @ B @ C" unfolding A_def B_def C_def by (metis append.assoc append_take_drop_id drop_drop numeral_Bit0 add.commute)
  have l: "length A = 3000" "length B = 3000" using assms(2) by (simp_all add: A_def B_def)
  have n: "ga_last ga_new = 0" "ga_avg_delta ga_new = 10" "ga_count ga_new = 0" by (simp_all add: ga_new_def)
  have s: "steady (ga_last ga_new) A" "steady (ga_last (ga_run A ga_new)) B" using assms(1) by (auto simp: rs steady_append ga_run_last n split: if_splits)
  have "1 \<le> ga_count (ga_run A ga_new)" using steady_calibrates [OF s(1) _ l(1)] by (simp add: n)
  moreover have "ga_avg_delta (ga_run A ga_new) \<le> 10" using steady_bounded [OF s(1)] by (simp add: n)
  then have "ga_count (ga_run A ga_new) + 1 \<le> ga_count (ga_run B (ga_run A ga_new))" by (rule steady_calibrates [OF s(2) _ l(2)])
  ultimately show ?thesis using ga_count_mono [of "ga_run B (ga_run A ga_new)" C] by (simp add: rs ga_run_append)
qed

text \<open>
  C18: A robot that stands still, so that the readings of its gyroscopes change by at most 1/2 from frame to frame, is calibrated after 6000 frames,
  a minute, and stays so as long as it stands still.
\<close>

theorem still_robot_calibrated:
  assumes "steady 0 (xs_of fs)" "steady 0 (ys_of fs)" "6000 \<le> length fs"
  shows "\<not> fst (gy_run fs gy_new)"
proof -
  from assms(3) obtain gs f where fs: "fs = gs @ [f]" by (metis rev_exhaust list.size(3) not_numeral_le_zero)
  let ?c = "snd (gy_run gs gy_new)"
  have "ahead (calibrate_axis (gi_time f) (gi_x f) (gy_x ?c)) (ga_run (xs_of fs) ga_new)"
    "ahead (calibrate_axis (gi_time f) (gi_y f) (gy_y ?c)) (ga_run (ys_of fs) ga_new)"
    using gy_run_ahead [of gs gy_new] by (simp_all add: fs xs_of_def ys_of_def ga_run_append ahead_calibrate gy_new_def)
  moreover have "2 \<le> ga_count (ga_run (xs_of fs) ga_new)" "2 \<le> ga_count (ga_run (ys_of fs) ga_new)"
    using assms by (auto intro: steady_twice simp: xs_of_def ys_of_def)
  ultimately show ?thesis by (simp add: fs gy_run_snoc gy_frame_def updateGyroScopeCalibration_def Let_def ahead_def)
qed

lemma steady_replicate: "steady 0 (replicate n (t, 0))"
  by (induction n) simp_all

theorem still_robot_calibrated_witness:
  "\<not> fst (gy_run (replicate 6000 \<lparr>gi_sys = 10000, gi_sys' = 10000, gi_time = 60, gi_x = 0, gi_y = 0\<rparr>) gy_new)"
  by (rule still_robot_calibrated) (simp_all add: xs_of_def ys_of_def steady_replicate)

text \<open>
  C27: Without a stored calibration a robot that has been started is not calibrated in the first 4601 frames, 46 seconds, whatever the gyroscopes report.
\<close>

theorem calibration_takes_46_seconds:
  assumes "fs \<noteq> []" "length fs \<le> 4601" "\<forall>f \<in> set fs. 600 \<le> gi_sys f"
  shows "fst (gy_run fs gy_new)"
proof -
  have "gy_x (snd (gy_run fs gy_new)) = ga_run (xs_of fs) ga_new \<and> gy_y (snd (gy_run fs gy_new)) = ga_run (ys_of fs) ga_new \<and>
      calibration_write_time (snd (gy_run fs gy_new)) = - 1 \<and> fst (gy_run fs gy_new)"
    using assms(2,3)
  proof (induction fs rule: rev_induct)
    case Nil
    then show ?case by (simp add: gy_run_def xs_of_def ys_of_def gy_new_def)
  next
    case (snoc f fs)
    have "ga_count (ga_run (xs_of (fs @ [f])) ga_new) < 2" using snoc.prems(1) by (intro count_below_two) (simp add: xs_of_def)
    moreover have "600 \<le> gi_sys f" using snoc.prems(2) by simp
    ultimately show ?case using snoc
      by (simp add: gy_run_snoc gy_frame_def updateGyroScopeCalibration_def Let_def xs_of_def ys_of_def ga_run_append)
  qed
  then show ?thesis by simp
qed

theorem calibration_takes_46_seconds_witness:
  "fst (gy_run (replicate 4601 \<lparr>gi_sys = 10000, gi_sys' = 10000, gi_time = 46, gi_x = 0, gi_y = 0\<rparr>) gy_new)"
  by (rule calibration_takes_46_seconds) simp_all

end
