(* ===== verification/Walk_Module.thy ===== *)
theory Walk_Module
  imports Generators Body_Blocks Game_Control Gyro_Calibration
begin

text \<open>
  The module of the walk (\<open>src/core/motion/rswalk2014/RSWalkModule2014.cpp\<close>): it turns the walk request block into a request of the engine, the
  joints and sensors of the robot into those of the engine, calibrates the gyroscopes while the robot stands still, calls the clipped
  generators and writes the joint commands. The stored calibration of the gyroscopes is read and written as a value; what the engine's kinematics
  finds, the time since the start (\<open>now\<close>) and the system times are arguments.
\<close>

section \<open>Joints and sensors of the robot and of the engine\<close>

text \<open>The right hip yaw-pitch, which is the left one on this robot, has no joint in the engine: \<open>- 1\<close> in the source.\<close>

primrec utJointToRSJoint :: "joint \<Rightarrow> rs_joint option" where
  "utJointToRSJoint HeadYaw = Some RS_HeadYaw"
| "utJointToRSJoint HeadPitch = Some RS_HeadPitch"
| "utJointToRSJoint LShoulderPitch = Some RS_LShoulderPitch"
| "utJointToRSJoint LShoulderRoll = Some RS_LShoulderRoll"
| "utJointToRSJoint LElbowYaw = Some RS_LElbowYaw"
| "utJointToRSJoint LElbowRoll = Some RS_LElbowRoll"
| "utJointToRSJoint RShoulderPitch = Some RS_RShoulderPitch"
| "utJointToRSJoint RShoulderRoll = Some RS_RShoulderRoll"
| "utJointToRSJoint RElbowYaw = Some RS_RElbowYaw"
| "utJointToRSJoint RElbowRoll = Some RS_RElbowRoll"
| "utJointToRSJoint LHipYawPitch = Some RS_LHipYawPitch"
| "utJointToRSJoint LHipRoll = Some RS_LHipRoll"
| "utJointToRSJoint LHipPitch = Some RS_LHipPitch"
| "utJointToRSJoint LKneePitch = Some RS_LKneePitch"
| "utJointToRSJoint LAnklePitch = Some RS_LAnklePitch"
| "utJointToRSJoint LAnkleRoll = Some RS_LAnkleRoll"
| "utJointToRSJoint RHipYawPitch = None"
| "utJointToRSJoint RHipRoll = Some RS_RHipRoll"
| "utJointToRSJoint RHipPitch = Some RS_RHipPitch"
| "utJointToRSJoint RKneePitch = Some RS_RKneePitch"
| "utJointToRSJoint RAnklePitch = Some RS_RAnklePitch"
| "utJointToRSJoint RAnkleRoll = Some RS_RAnkleRoll"

text \<open>The touch sensors of the head have no entry: the source leaves theirs unset.\<close>

primrec utSensorToRSSensor :: "sensor \<Rightarrow> rs_sensor option" where
  "utSensorToRSSensor gyroX = Some RS_InertialSensor_GyrX"
| "utSensorToRSSensor gyroY = Some RS_InertialSensor_GyrY"
| "utSensorToRSSensor gyroZ = Some RS_InertialSensor_GyrRef"
| "utSensorToRSSensor sensor.accelX = Some RS_InertialSensor_AccX"
| "utSensorToRSSensor sensor.accelY = Some RS_InertialSensor_AccY"
| "utSensorToRSSensor accelZ = Some RS_InertialSensor_AccZ"
| "utSensorToRSSensor angleX = Some RS_InertialSensor_AngleX"
| "utSensorToRSSensor angleY = Some RS_InertialSensor_AngleY"
| "utSensorToRSSensor angleZ = Some RS_InertialSensor_AngleZ"
| "utSensorToRSSensor battery = Some RS_Battery_Current"
| "utSensorToRSSensor fsrLFL = Some RS_LFoot_FSR_FrontLeft"
| "utSensorToRSSensor fsrLFR = Some RS_LFoot_FSR_FrontRight"
| "utSensorToRSSensor fsrLRL = Some RS_LFoot_FSR_RearLeft"
| "utSensorToRSSensor fsrLRR = Some RS_LFoot_FSR_RearRight"
| "utSensorToRSSensor fsrRFL = Some RS_RFoot_FSR_FrontLeft"
| "utSensorToRSSensor fsrRFR = Some RS_RFoot_FSR_FrontRight"
| "utSensorToRSSensor fsrRRL = Some RS_RFoot_FSR_RearLeft"
| "utSensorToRSSensor fsrRRR = Some RS_RFoot_FSR_RearRight"
| "utSensorToRSSensor bumperLL = Some RS_LFoot_Bumper_Left"
| "utSensorToRSSensor bumperLR = Some RS_LFoot_Bumper_Right"
| "utSensorToRSSensor bumperRL = Some RS_RFoot_Bumper_Left"
| "utSensorToRSSensor bumperRR = Some RS_RFoot_Bumper_Right"
| "utSensorToRSSensor centerButton = Some RS_ChestBoard_Button"
| "utSensorToRSSensor headFront = None"
| "utSensorToRSSensor headMiddle = None"
| "utSensorToRSSensor headRear = None"

definition sensed_list :: "sensor list" where
  "sensed_list = [gyroX, gyroY, gyroZ, sensor.accelX, sensor.accelY, accelZ, angleX, angleY, angleZ, battery, fsrLFL, fsrLFR, fsrLRL, fsrLRR, fsrRFL, fsrRFR,
     fsrRRL, fsrRRR, bumperLL, bumperLR, bumperRL, bumperRR]"

definition sense_joint :: "joint_block \<Rightarrow> sensor_block \<Rightarrow> joint \<Rightarrow> joint_vals \<Rightarrow> joint_vals" where
  "sense_joint b s ut j =
     (case utJointToRSJoint ut of
        None \<Rightarrow> j
      | Some rs \<Rightarrow> j\<lparr>jv_angles := (jv_angles j)(rs := joint_values b ut * robot_joint_signs ut),
                     jv_temperatures := (jv_temperatures j)(rs := joint_temperatures s ut), jv_nan := (jv_nan j)(rs := False)\<rparr>)"

definition sense_sensor :: "sensor_block \<Rightarrow> sensor \<Rightarrow> (rs_sensor \<Rightarrow> real) \<Rightarrow> rs_sensor \<Rightarrow> real" where
  "sense_sensor s ut v = (case utSensorToRSSensor ut of None \<Rightarrow> v | Some rs \<Rightarrow> v(rs := svalues s ut))"

text \<open>
  The sensors up to the last bumper. What nothing sets is NaN in the source: the angles of the wrists and the hands, and values of sensors and of
  stiffnesses that nothing looks at before they are set, which are those of \<open>unset\<close>.
\<close>

definition sense :: "sensor_vals \<Rightarrow> joint_block \<Rightarrow> sensor_block \<Rightarrow> sensor_vals" where
  "sense unset b s =
     unset\<lparr>sv_joints := fold (sense_joint b s) all_joints ((sv_joints unset)\<lparr>jv_nan := (\<lambda>_. True)\<rparr>),
           sv_sensors := fold (sense_sensor s) sensed_list (sv_sensors unset)\<rparr>"

section \<open>Requests\<close>

definition isRequestForWalk :: "walk_motion \<Rightarrow> bool" where
  "isRequestForWalk m = (m = M_WALK \<or> m = M_STAND \<or> m = M_STAND_STRAIGHT)"

definition setBodyForKick :: "walk_request_block \<Rightarrow> body_command \<times> real \<times> real \<Rightarrow> body_command \<times> real \<times> real" where
  "setBodyForKick r = (\<lambda>(body, ballX, ballY).
     (body\<lparr>ac_foot := if kick_with_left r then FOOT_LEFT else FOOT_RIGHT\<rparr>, vx (translation (target_point r)), vy (translation (target_point r))))"

definition toStandRequest :: "bool \<Rightarrow> body_command \<Rightarrow> body_command" where
  "toStandRequest use_straight_stand b =
     (let b = b\<lparr>actionType := A_WALK, ac_forward := 0, ac_left := 0, ac_turn := 0, ac_bend := 1\<rparr>
      in if use_straight_stand then b\<lparr>ac_bend := 0\<rparr> else b)"

record walk_blocks =
  wk_joints :: joint_block
  wk_commands :: joint_command_block
  wk_odometry :: odometry_block
  wk_sensors :: sensor_block
  wk_request :: walk_request_block
  wk_body :: body_model_block
  wk_speech :: speech_block
  wk_instability :: real
  wk_instable :: bool
  wk_use_sprint :: bool
  wk_main_speed :: real
  wk_sprint_speed :: real
  wk_kick_running :: bool

definition engine_request :: "walk_blocks \<Rightarrow> body_command" where
  "engine_request b =
     (let r = wk_request b;
          body = body_new\<lparr>actionType := A_WALK, ac_forward := 0, ac_left := 0, ac_turn := 0, ac_power := 1, ac_bend := 1\<rparr>;
          body = (case motion r of
                    M_STAND \<Rightarrow> body
                  | M_STAND_STRAIGHT \<Rightarrow> body\<lparr>ac_power := 4 / 10, ac_bend := 0\<rparr>
                  | M_WALK \<Rightarrow> body\<lparr>ac_forward := vx (translation (speed r)), ac_left := vy (translation (speed r)), ac_turn := rotation (speed r),
                                  ac_speed := if wk_use_sprint b then wk_sprint_speed b else wk_main_speed b\<rparr>
                  | M_NONE \<Rightarrow> body\<lparr>actionType := A_NONE\<rparr>
                  | M_WAIT \<Rightarrow> body\<lparr>actionType := A_NONE\<rparr>
                  | _ \<Rightarrow> body\<lparr>ac_bend := 0\<rparr>)
      in if \<not> feet_on_ground (wk_body b) \<and> actionType body \<noteq> A_NONE then toStandRequest False body else body)"

section \<open>A frame\<close>

text \<open>
  The state of the module. Of the members of the body model the four flags that only the module looks at are kept here. The sums of the
  displacements, which nothing reads, are left out.
\<close>

record walk_module =
  rw_clipper :: "distributor clipper"
  rw_bodyModel :: body_model
  rw_gyroXCalibrated :: bool
  rw_gyroYCalibrated :: bool
  rw_leftLegHot :: bool
  rw_rightLegHot :: bool
  rw_standing :: bool
  rw_prev_command :: walk_motion
  rw_gyro :: gyro_calibration
  rw_delay_ct :: int
  rw_wasKicking :: bool

definition rw_init :: "gyro_config option \<Rightarrow> distributor \<Rightarrow> joint_vals \<Rightarrow> body_model \<Rightarrow> walk_module" where
  "rw_init file d old mem =
     \<lparr>rw_clipper = c_new d old, rw_bodyModel = bdm_new mem, rw_gyroXCalibrated = False, rw_gyroYCalibrated = False, rw_leftLegHot = False,
      rw_rightLegHot = False, rw_standing = False, rw_prev_command = M_NONE, rw_gyro = gy_load file gy_new, rw_delay_ct = 0, rw_wasKicking = False\<rparr>"

definition rw_notice :: "walk_blocks \<Rightarrow> walk_module \<Rightarrow> walk_module" where
  "rw_notice b w =
     (let r = wk_request b
      in if motion r \<noteq> rw_prev_command w \<and> \<not> perform_kick r \<and> (\<not> isRequestForWalk (motion r) \<or> \<not> isRequestForWalk (rw_prev_command w))
         then w\<lparr>rw_standing := True\<rparr> else w)"

definition rw_heat :: "walk_blocks \<Rightarrow> walk_module \<Rightarrow> walk_module" where
  "rw_heat b w =
     (let temp = joint_temperatures (wk_sensors b)
      in w\<lparr>rw_rightLegHot := rw_rightLegHot w \<or> temp RKneePitch > 100 \<or> temp RHipPitch > 100,
           rw_leftLegHot := rw_leftLegHot w \<or> temp LKneePitch > 100 \<or> temp LHipPitch > 100\<rparr>)"

text \<open>The last component is what the generators get: angular velocities without the offset, in radians per frame.\<close>

definition rw_calibrate :: "real \<Rightarrow> real \<Rightarrow> real \<Rightarrow> sensor_vals \<Rightarrow> walk_module \<times> walk_blocks \<Rightarrow> walk_module \<times> walk_blocks \<times> sensor_vals" where
  "rw_calibrate sys sys' now s = (\<lambda>(w, b).
     let v = sv_sensors s;
         (not_calibrated, g) = updateGyroScopeCalibration sys sys' now (v RS_InertialSensor_GyrX) (v RS_InertialSensor_GyrY) (rw_gyro w);
         b = b\<lparr>wk_odometry := (wk_odometry b)\<lparr>walkDisabled := not_calibrated\<rparr>\<rparr>;
         w = w\<lparr>rw_gyro := g, rw_gyroXCalibrated := rw_gyroXCalibrated w \<or> ga_count (gy_x g) \<ge> 2,
               rw_gyroYCalibrated := rw_gyroYCalibrated w \<or> ga_count (gy_y g) \<ge> 2\<rparr>
     in (w, b, s\<lparr>sv_sensors := v(RS_InertialSensor_GyrX := (v RS_InertialSensor_GyrX - ga_offset (gy_x g)) * (1 / 100),
                               RS_InertialSensor_GyrY := (v RS_InertialSensor_GyrY - ga_offset (gy_y g)) * (1 / 100))\<rparr>))"

definition rw_restart :: "walk_module \<times> body_command \<times> rs_odometry \<Rightarrow> walk_module \<times> body_command \<times> rs_odometry" where
  "rw_restart = (\<lambda>(w, body, odo).
     if rw_standing w then (w\<lparr>rw_clipper := c_reset d_reset (rw_clipper w)\<rparr>, body_of A_INITIAL, ro_clear odo) else (w, body, odo))"

definition rw_refuse :: "walk_module \<times> walk_blocks \<times> body_command \<Rightarrow> walk_module \<times> walk_blocks \<times> body_command" where
  "rw_refuse = (\<lambda>(w, b, body).
     if (ac_forward body \<noteq> 0 \<or> ac_left body \<noteq> 0 \<or> ac_turn body \<noteq> 0) \<and> walkDisabled (wk_odometry b)
     then (w\<lparr>rw_delay_ct := rw_delay_ct w + 1\<rparr>,
           if rw_delay_ct w mod 100 = 0 then b\<lparr>wk_speech := say ''Not Calibrated'' (wk_speech b)\<rparr> else b,
           if standing (wk_odometry b) then toStandRequest True body else body_of A_NONE)
     else (w, b, body))"

definition write_joint :: "joint_vals \<Rightarrow> joint \<Rightarrow> joint_command_block \<Rightarrow> joint_command_block" where
  "write_joint j ut c =
     (case utJointToRSJoint ut of
        None \<Rightarrow> c
      | Some rs \<Rightarrow> c\<lparr>angles := (angles c)(ut := robot_joint_signs ut * jv_angles j rs), stiffness := (stiffness c)(ut := jv_stiffnesses j rs)\<rparr>)"

text \<open>The joints of the body are those after the two of the head; those of the arms are the last eight.\<close>

definition rw_write :: "joint_vals \<Rightarrow> action_type \<Rightarrow> bool \<Rightarrow> joint_command_block \<Rightarrow> joint_command_block" where
  "rw_write j a hot c =
     (let c = fold (write_joint j) (drop 2 all_joints) c;
          c = c\<lparr>stiffness := (stiffness c)(RHipYawPitch := stiffness c LHipYawPitch)\<rparr>;
          c = c\<lparr>angles := (angles c)(RHipYawPitch := angles c LHipYawPitch)\<rparr>;
          c = (if a = A_STAND \<and> hot
               then c\<lparr>angles := (angles c)(RHipPitch := angles c RHipPitch - DEG_T_RAD * 2, LHipPitch := angles c LHipPitch - DEG_T_RAD * 2)\<rparr> else c);
          c = (if a \<noteq> A_WALK then c\<lparr>stiffness := fold (\<lambda>i f. f(i := 1)) (drop 14 all_joints) (stiffness c)\<rparr> else c)
      in c\<lparr>send_body_angles := True, send_stiffness := True, body_angle_time := 10, stiffness_time := 10\<rparr>)"

text \<open>What is done before the generators are called: the state, the blocks, the sensors, the request and the odometry for them.\<close>

definition rw_prepare ::
    "real \<Rightarrow> real \<Rightarrow> real \<Rightarrow> sensor_vals \<Rightarrow> walk_module \<times> walk_blocks \<Rightarrow> walk_module \<times> walk_blocks \<times> sensor_vals \<times> body_command \<times> rs_odometry" where
  "rw_prepare sys sys' now unset = (\<lambda>(w, b).
     let w = rw_notice b w;
         dp = displacement (wk_odometry b);
         odo = ro_new (vx (translation dp)) (vy (translation dp)) (rotation dp);
         body = engine_request b;
         s = sense unset (wk_joints b) (wk_sensors b);
         w = rw_heat b w;
         (w, b, s) = rw_calibrate sys sys' now s (w, b);
         (w, body, odo) = rw_restart (w, body, odo);
         (w, b, body) = rw_refuse (w, b, body);
         w = w\<lparr>rw_prev_command := motion (wk_request b)\<rparr>
     in (w, b, s, body, odo))"

definition rw_report :: "walk_module \<Rightarrow> rs_odometry \<Rightarrow> walk_blocks \<Rightarrow> walk_blocks" where
  "rw_report w odo b =
     (let avg = ga_avg (gy_x (rw_gyro w))
      in b\<lparr>wk_odometry := (wk_odometry b)\<lparr>displacement := po_new (ro_turn odo) (ro_forward odo) (ro_left odo),
                                         standing := d_isStanding (c_generator (rw_clipper w))\<rparr>,
           wk_instability := avg, wk_instable := (avg < - 2 \<or> avg > 2)\<rparr>)"

text \<open>\<open>ms\<close> is the clock of the engine's timers.\<close>

definition rw_processFrame :: "real \<Rightarrow> real \<Rightarrow> real \<Rightarrow> int \<Rightarrow> sensor_vals \<Rightarrow> kin_result \<Rightarrow> walk_module \<times> walk_blocks \<Rightarrow> (walk_module \<times> walk_blocks) option" where
  "rw_processFrame sys sys' now ms unset kin = (\<lambda>(w, b).
     let (w, b, s, body, odo) = rw_prepare sys sys' now unset (w, b);
         i = \<lparr>gi_now = ms, gi_kin = kin, gi_sensors = s, gi_ballX = 0, gi_ballY = 0\<rparr>;
         io = \<lparr>io_request = \<lparr>rq_head = head_new, rq_body = body\<rparr>, io_odometry = odo, io_body = rw_bodyModel w\<rparr>
     in case c_makeJoints d_makeJoints i (rw_clipper w, io) of
          None \<Rightarrow> None
        | Some (c, io, j) \<Rightarrow>
            let w = w\<lparr>rw_clipper := c, rw_bodyModel := io_body io\<rparr>;
                b = rw_report w (io_odometry io) b;
                w = w\<lparr>rw_wasKicking := wk_kick_running b\<rparr>;
                a = actionType (rq_body (io_request io))
            in Some (if a = A_NONE then (w, b)
                     else (w\<lparr>rw_standing := False\<rparr>,
                           b\<lparr>wk_commands := rw_write j a (rw_leftLegHot w \<or> rw_rightLegHot w) (wk_commands b)\<rparr>)))"

definition selectivelySendStiffness :: "joint_block \<Rightarrow> joint_command_block \<Rightarrow> joint_command_block" where
  "selectivelySendStiffness j c =
     (if \<exists>i \<in> set all_joints. \<bar>joint_stiffness j i - stiffness c i\<bar> > 1 / 100 then c\<lparr>send_stiffness := True, stiffness_time := 10\<rparr> else c)"


section \<open>What the generators do to a request\<close>

definition module_actions :: "action_type set" where
  "module_actions = {A_NONE, A_WALK, A_INITIAL}"

lemma g_makeJoints_action:
  "actionType (rq_body (ww_request (fst (g_makeJoints now kin s x y w)))) \<in> {A_WALK, actionType (rq_body (ww_request w))}"
  by (simp add: g_makeJoints_def moveFeet_def Let_def split: prod.split)

lemma pp_prepare_action:
  assumes "actionType body \<in> module_actions" "pp_prepare now m x y (pp, body) = (pp', body', active)"
  shows "actionType body' = A_WALK \<or> actionType body' = actionType body \<and> active = actionType body"
  using assms
  by (auto simp: pp_prepare_def module_actions_def scale_request_def dribble_pause_def dispatch_def de_preProcess_def toWalkRequest_def
      isLineUpRequired_def Let_def split: prod.splits if_splits)

lemma pp_makeJoints_action:
  assumes "actionType (rq_body (io_request io)) \<in> module_actions" "pp_makeJoints i (pp, io) = (pp', io', j)"
  shows "actionType (rq_body (io_request io')) \<in> {A_WALK, actionType (rq_body (io_request io))}"
proof -
  obtain pp1 body active where p: "pp_prepare (gi_now i) (io_body io) (gi_ballX i) (gi_ballY i) (pp, rq_body (io_request io)) = (pp1, body, active)"
    by (metis prod_cases3)
  let ?w = "\<lparr>ww_gen = pp_walk pp1, ww_request = (io_request io)\<lparr>rq_body := body\<rparr>, ww_odometry = io_odometry io, ww_body = io_body io\<rparr>"
  obtain w j1 where g: "g_makeJoints (gi_now i) (gi_kin i) (gi_sensors i) (gi_ballX i) (gi_ballY i) ?w = (w, j1)" by fastforce
  have a: "actionType (rq_body (ww_request w)) \<in> {A_WALK, actionType body}"
    using g_makeJoints_action [of "gi_now i" "gi_kin i" "gi_sensors i" "gi_ballX i" "gi_ballY i" ?w] by (simp add: g)
  from pp_prepare_action [OF assms(1) p] assms(2) a assms(1) show ?thesis
    by (auto simp: pp_makeJoints_def p g Let_def module_actions_def split: if_splits)
qed

lemma d_makeJoints_action:
  assumes "actionType (rq_body (io_request io)) \<in> module_actions" "d_makeJoints i (d, io) = Some (d', io', j)"
  shows "actionType (rq_body (io_request io')) \<in> {A_WALK, actionType (rq_body (io_request io))}"
proof -
  define d1 where "d1 = choose_generator (actionType (rq_body (io_request io))) d"
  define io1 where "io1 = io\<lparr>io_odometry := ro_plus (io_odometry io) (ro_new 0 0 (dive_turn (d_current d1) (d_prev d1)))\<rparr>"
  from assms(2) obtain d2 j2 where b: "body_makeJoints i (d_current d1) (d1, io1) = Some (d2, io', j2)"
    by (auto simp: d_makeJoints_def d1_def [symmetric] io1_def [symmetric] Let_def split: option.splits prod.splits)
  have r: "io_request io1 = io_request io" by (simp add: io1_def)
  from b have "io' = io1 \<or> (\<exists>pp'. pp_makeJoints i (d_walk d1, io1) = (pp', io', j2))"
    by (auto simp: body_makeJoints_def Let_def split: if_splits option.splits prod.splits)
  then show ?thesis
  proof
    assume "io' = io1"
    then show ?thesis by (simp add: r)
  next
    assume "\<exists>pp'. pp_makeJoints i (d_walk d1, io1) = (pp', io', j2)"
    then show ?thesis using pp_makeJoints_action [of io1 i "d_walk d1"] assms(1) by (auto simp: r)
  qed
qed

lemma engine_request_action: "actionType (engine_request b) \<in> module_actions"
  by (simp add: engine_request_def module_actions_def toStandRequest_def Let_def split: walk_motion.split)

definition halted :: "body_command \<Rightarrow> bool" where
  "halted body = (ac_forward body = 0 \<and> ac_left body = 0 \<and> ac_turn body = 0)"

lemma halted_bodies: "halted (toStandRequest u body)" "halted (body_of a)"
  by (simp_all add: halted_def toStandRequest_def body_of_def Let_def)

lemma picked_up_halted: "\<not> feet_on_ground (wk_body b) \<Longrightarrow> halted (engine_request b)"
  by (simp add: engine_request_def halted_bodies Let_def) (simp add: halted_def body_new_def split: walk_motion.split)

lemma rw_calibrate_keeps:
  assumes "rw_calibrate sys sys' now s (w, b) = (w', b', s')"
  shows "rw_clipper w' = rw_clipper w \<and> wk_commands b' = wk_commands b"
  using assms by (auto simp: rw_calibrate_def Let_def split: prod.splits)

lemma rw_restart_request:
  assumes "rw_restart (w, body, odo) = (w', body', odo')" "actionType body \<in> module_actions"
  shows "actionType body' \<in> module_actions \<and> (rw_clipper w' = rw_clipper w \<or> rw_clipper w' = c_reset d_reset (rw_clipper w)) \<and>
    (halted body \<longrightarrow> halted body')"
  using assms by (auto simp: rw_restart_def module_actions_def body_of_def halted_def split: if_splits)

lemma rw_refuse_request:
  assumes "rw_refuse (w, b, body) = (w', b', body')" "actionType body \<in> module_actions"
  shows "actionType body' \<in> module_actions \<and> rw_clipper w' = rw_clipper w \<and> wk_commands b' = wk_commands b \<and>
    wk_odometry b' = wk_odometry b \<and> (halted body \<or> walkDisabled (wk_odometry b) \<longrightarrow> halted body')"
proof (cases "halted body \<or> \<not> walkDisabled (wk_odometry b)")
  case True
  then have "rw_refuse (w, b, body) = (w, b, body)" by (auto simp: rw_refuse_def halted_def)
  with assms True show ?thesis by auto
next
  case False
  have "actionType (toStandRequest True body) \<in> module_actions" "actionType (body_of A_NONE) \<in> module_actions"
    by (simp_all add: toStandRequest_def body_of_def module_actions_def Let_def)
  moreover have "w' = w\<lparr>rw_delay_ct := rw_delay_ct w + 1\<rparr>" "wk_commands b' = wk_commands b" "wk_odometry b' = wk_odometry b"
    "body' = (if standing (wk_odometry b) then toStandRequest True body else body_of A_NONE)"
    using assms(1) False by (auto simp: rw_refuse_def halted_def)
  ultimately show ?thesis by (simp add: halted_bodies)
qed

lemma rw_prepare_request:
  assumes "rw_prepare sys sys' now unset (w, b) = (w', b', s, body, odo)"
  shows "actionType body \<in> module_actions \<and> (rw_clipper w' = rw_clipper w \<or> rw_clipper w' = c_reset d_reset (rw_clipper w)) \<and>
    wk_commands b' = wk_commands b \<and> (\<not> feet_on_ground (wk_body b) \<or> walkDisabled (wk_odometry b') \<longrightarrow> halted body)"
proof -
  let ?w = "rw_heat b (rw_notice b w)" and ?s = "sense unset (wk_joints b) (wk_sensors b)"
    and ?o = "ro_new (vx (translation (displacement (wk_odometry b)))) (vy (translation (displacement (wk_odometry b)))) (rotation (displacement (wk_odometry b)))"
  have k: "rw_clipper ?w = rw_clipper w" by (simp add: rw_heat_def rw_notice_def Let_def)
  obtain w1 b1 s1 where c: "rw_calibrate sys sys' now ?s (?w, b) = (w1, b1, s1)" by (metis prod_cases3)
  obtain w2 body2 o2 where r: "rw_restart (w1, engine_request b, ?o) = (w2, body2, o2)" by (metis prod_cases3)
  obtain w3 b3 body3 where f: "rw_refuse (w2, b1, body2) = (w3, b3, body3)" by (metis prod_cases3)
  have p: "w' = w3\<lparr>rw_prev_command := motion (wk_request b3)\<rparr>" "b' = b3" "body = body3"
    using assms by (auto simp: rw_prepare_def Let_def c r f)
  from rw_restart_request [OF r engine_request_action]
  have r1: "actionType body2 \<in> module_actions" "rw_clipper w2 = rw_clipper w1 \<or> rw_clipper w2 = c_reset d_reset (rw_clipper w1)"
    "halted (engine_request b) \<Longrightarrow> halted body2" by simp_all
  from rw_refuse_request [OF f r1(1)] rw_calibrate_keeps [OF c] r1 picked_up_halted [of b] show ?thesis
    by (auto simp: p k)
qed

section \<open>The commands\<close>

text \<open>The commanded angles of the body are inside of the engine's limits, and both hip yaw-pitch joints get the same.\<close>

definition commands_ok :: "joint_command_block \<Rightarrow> bool" where
  "commands_ok c = ((\<forall>ut. case utJointToRSJoint ut of None \<Rightarrow> True
       | Some rs \<Rightarrow> ut \<in> {HeadYaw, HeadPitch} \<or> MinAngle rs \<le> robot_joint_signs ut * angles c ut \<and> robot_joint_signs ut * angles c ut \<le> MaxAngle rs) \<and>
     angles c RHipYawPitch = angles c LHipYawPitch \<and> stiffness c RHipYawPitch = stiffness c LHipYawPitch \<and> send_body_angles c \<and> send_stiffness c)"

lemma write_joint_angles:
  "angles (write_joint j ut c) = (case utJointToRSJoint ut of None \<Rightarrow> angles c | Some rs \<Rightarrow> (angles c)(ut := robot_joint_signs ut * jv_angles j rs))"
  by (simp add: write_joint_def split: option.split)

lemma fold_write_joint_angles:
  "angles (fold (write_joint j) js c) ut =
     (case utJointToRSJoint ut of
        None \<Rightarrow> angles c ut
      | Some rs \<Rightarrow> if ut \<in> set js then robot_joint_signs ut * jv_angles j rs else angles c ut)"
proof (induction js arbitrary: c)
  case Nil
  show ?case by (simp split: option.split)
next
  case (Cons k js)
  show ?case by (simp add: Cons.IH write_joint_angles split: option.split)
qed

lemma body_joints: "ut \<in> set (drop 2 all_joints) \<longleftrightarrow> ut \<notin> {HeadYaw, HeadPitch}"
  by (cases ut) (simp_all add: all_joints_def)

lemma rw_write_angles:
  assumes "a \<noteq> A_STAND"
  shows "angles (rw_write j a hot c) =
     (let f = angles (fold (write_joint j) (drop 2 all_joints) c) in f(RHipYawPitch := f LHipYawPitch))"
  using assms by (simp add: rw_write_def Let_def)

lemma arms_without_hips: "LHipYawPitch \<notin> set (drop 14 all_joints)" "RHipYawPitch \<notin> set (drop 14 all_joints)"
  by (simp_all add: all_joints_def)

lemma fold_const_update: "k \<notin> set xs \<Longrightarrow> fold (\<lambda>i f. f(i := v)) xs f k = f k"
  by (induction xs arbitrary: f) auto

lemma rw_write_stiffness:
  "stiffness (rw_write j a hot c) RHipYawPitch = stiffness (rw_write j a hot c) LHipYawPitch"
  by (simp add: rw_write_def Let_def fold_const_update arms_without_hips)

lemma robot_joints_measured: "utJointToRSJoint ut = Some rs \<Longrightarrow> rs \<notin> unmeasured"
  by (cases ut) (auto simp: unmeasured_def)

lemma rw_write_ok:
  assumes "sent_ok j" "a \<noteq> A_STAND"
  shows "commands_ok (rw_write j a hot c)"
proof -
  have m: "MinAngle rs \<le> jv_angles j rs \<and> jv_angles j rs \<le> MaxAngle rs" if "utJointToRSJoint ut = Some rs" for rs ut
    using assms(1) robot_joints_measured [OF that] by (auto simp: sent_ok_def isnan_def)
  have ang: "angles (rw_write j a hot c) ut = robot_joint_signs ut * jv_angles j rs"
    if "utJointToRSJoint ut = Some rs" "ut \<notin> {HeadYaw, HeadPitch}" for ut rs
  proof -
    have "ut \<noteq> RHipYawPitch" using that(1) by auto
    with that body_joints [of ut] show ?thesis by (simp add: rw_write_angles [OF assms(2)] fold_write_joint_angles Let_def)
  qed
  have "MinAngle rs \<le> robot_joint_signs ut * angles (rw_write j a hot c) ut \<and> robot_joint_signs ut * angles (rw_write j a hot c) ut \<le> MaxAngle rs"
    if "utJointToRSJoint ut = Some rs" "ut \<notin> {HeadYaw, HeadPitch}" for ut rs
    using m [OF that(1)] by (simp add: ang [OF that] mult.assoc [symmetric] signs_square)
  moreover have "angles (rw_write j a hot c) RHipYawPitch = angles (rw_write j a hot c) LHipYawPitch"
    by (simp add: rw_write_angles [OF assms(2)] Let_def)
  moreover have "send_body_angles (rw_write j a hot c)" "send_stiffness (rw_write j a hot c)"
    by (simp_all add: rw_write_def Let_def)
  ultimately show ?thesis by (auto simp: commands_ok_def rw_write_stiffness split: option.split)
qed

lemma rw_processFrame_steps:
  assumes "rw_processFrame sys sys' now ms unset kin (w, b) = Some (w', b')"
  obtains w1 b1 s body odo c io j a where "rw_prepare sys sys' now unset (w, b) = (w1, b1, s, body, odo)"
    "c_makeJoints d_makeJoints \<lparr>gi_now = ms, gi_kin = kin, gi_sensors = s, gi_ballX = 0, gi_ballY = 0\<rparr>
       (rw_clipper w1, \<lparr>io_request = \<lparr>rq_head = head_new, rq_body = body\<rparr>, io_odometry = odo, io_body = rw_bodyModel w1\<rparr>) = Some (c, io, j)"
    "a = actionType (rq_body (io_request io))" "rw_clipper w' = c"
    "wk_commands b' = (if a = A_NONE then wk_commands b1 else rw_write j a (rw_leftLegHot w1 \<or> rw_rightLegHot w1) (wk_commands b1))"
proof -
  obtain w1 b1 s body odo where p: "rw_prepare sys sys' now unset (w, b) = (w1, b1, s, body, odo)" by (metis prod_cases5)
  with assms obtain c io j where m: "c_makeJoints d_makeJoints \<lparr>gi_now = ms, gi_kin = kin, gi_sensors = s, gi_ballX = 0, gi_ballY = 0\<rparr>
       (rw_clipper w1, \<lparr>io_request = \<lparr>rq_head = head_new, rq_body = body\<rparr>, io_odometry = odo, io_body = rw_bodyModel w1\<rparr>) = Some (c, io, j)"
    by (auto simp: rw_processFrame_def Let_def split: option.splits prod.splits)
  from assms p m that show ?thesis
    by (auto simp: rw_processFrame_def rw_report_def Let_def split: if_splits)
qed

section \<open>First frames\<close>

lemma walk_from_rest:
  assumes "d_current d = A_NONE" "d_requestedDive d = A_NONE" "actionType (rq_body (io_request io)) = A_WALK"
  shows "\<exists>d' io' j. d_makeJoints i (d, io) = Some (d', io', j)"
proof -
  have b: "d_current (choose_generator A_WALK d) = A_WALK"
    using assms(1,2) by (simp add: choose_generator_def note_dive_def d_reset_def body_isActive_def d_slot_def next_generator_def Let_def)
  have "\<exists>d2 io2 j2. body_makeJoints i A_WALK (d', io') = Some (d2, io2, j2)" for d' io'
    by (simp add: body_makeJoints_def d_slot_def Let_def split: prod.splits)
  then show ?thesis by (simp add: d_makeJoints_def b assms(3) Let_def split: option.splits prod.splits)
qed

definition first_blocks :: "walk_motion \<Rightarrow> bool \<Rightarrow> walk_blocks \<Rightarrow> walk_blocks" where
  "first_blocks m ground b = b\<lparr>wk_request := (wk_request b)\<lparr>motion := m, perform_kick := False, speed := po_new 0 200 0\<rparr>,
     wk_body := (wk_body b)\<lparr>feet_on_ground := ground\<rparr>\<rparr>"

definition first_state :: "walk_motion \<Rightarrow> distributor \<Rightarrow> joint_vals \<Rightarrow> body_model \<Rightarrow> walk_module" where
  "first_state m d old mem = (rw_init None d old mem)\<lparr>rw_prev_command := m\<rparr>"

lemma first_stand:
  assumes "rw_prepare sys sys' now unset (first_state M_STAND d old mem, first_blocks M_STAND True b) = (w', b', s, body, odo)"
  shows "actionType body = A_WALK \<and> rw_clipper w' = c_new d old"
  using assms
  by (simp add: rw_prepare_def rw_notice_def rw_heat_def rw_calibrate_def rw_restart_def rw_refuse_def first_state_def first_blocks_def rw_init_def
      engine_request_def body_new_def Let_def split: prod.splits) auto

lemma first_uncalibrated:
  assumes "600 \<le> sys" "rw_prepare sys sys' now unset (first_state M_WALK d old mem, first_blocks M_WALK True b) = (w', b', s, body, odo)"
  shows "walkDisabled (wk_odometry b')"
proof -
  have k: "ga_count (calibrate_axis now x ga_new) = 0" for x
    by (simp add: calibrate_axis_def ga_new_def Let_def)
  have u: "updateGyroScopeCalibration sys sys' now x y gy_new =
      (True, gy_new\<lparr>gy_x := calibrate_axis now x ga_new, gy_y := calibrate_axis now y ga_new\<rparr>)" for x y
    using assms(1) by (simp add: updateGyroScopeCalibration_def gy_new_def k Let_def)
  show ?thesis using assms(2)
    by (auto simp: u rw_prepare_def rw_notice_def rw_heat_def rw_calibrate_def rw_restart_def rw_refuse_def first_state_def first_blocks_def rw_init_def
        gy_load_def Let_def split: prod.splits if_splits)
qed

lemma first_stand_returns:
  assumes "d_current d = A_NONE" "d_requestedDive d = A_NONE"
  shows "\<exists>w' b'. rw_processFrame sys sys' now ms unset kin (first_state M_STAND d old mem, first_blocks M_STAND True b) = Some (w', b')"
proof -
  obtain w1 b1 s body odo where p: "rw_prepare sys sys' now unset (first_state M_STAND d old mem, first_blocks M_STAND True b) = (w1, b1, s, body, odo)"
    by (metis prod_cases5)
  let ?i = "\<lparr>gi_now = ms, gi_kin = kin, gi_sensors = s, gi_ballX = 0, gi_ballY = 0\<rparr>"
    and ?io = "\<lparr>io_request = \<lparr>rq_head = head_new, rq_body = body\<rparr>, io_odometry = odo, io_body = rw_bodyModel w1\<rparr>"
  obtain d' io' j where m: "d_makeJoints ?i (d, ?io) = Some (d', io', j)"
    using walk_from_rest [OF assms, of ?io ?i] first_stand [OF p] by auto
  show ?thesis using first_stand [OF p]
    by (simp add: rw_processFrame_def p m c_makeJoints_def c_new_def Let_def)
qed

section \<open>What the module commands\<close>

text \<open>
  C7: After every frame the clipper is safe to go on with, and either the commands are as before or every joint of the body gets an angle inside of
  its mechanical limits, whatever was requested, sensed and found by the kinematics.
\<close>

theorem walk_commands_safe:
  assumes "clip_ok (rw_clipper w)" "rw_processFrame sys sys' now ms unset kin (w, b) = Some (w', b')"
  shows "clip_ok (rw_clipper w') \<and> (wk_commands b' = wk_commands b \<or> commands_ok (wk_commands b'))"
proof -
  from assms(2) obtain w1 b1 s body odo c io j a where p: "rw_prepare sys sys' now unset (w, b) = (w1, b1, s, body, odo)"
    and m: "c_makeJoints d_makeJoints \<lparr>gi_now = ms, gi_kin = kin, gi_sensors = s, gi_ballX = 0, gi_ballY = 0\<rparr>
       (rw_clipper w1, \<lparr>io_request = \<lparr>rq_head = head_new, rq_body = body\<rparr>, io_odometry = odo, io_body = rw_bodyModel w1\<rparr>) = Some (c, io, j)"
    and a: "a = actionType (rq_body (io_request io))" and c: "rw_clipper w' = c"
    and k: "wk_commands b' = (if a = A_NONE then wk_commands b1 else rw_write j a (rw_leftLegHot w1 \<or> rw_rightLegHot w1) (wk_commands b1))"
    by (rule rw_processFrame_steps)
  have ok: "clip_ok (rw_clipper w1)" using rw_prepare_request [OF p] assms(1) by (auto simp: clip_ok_def c_reset_def)
  from m obtain d1 j1 where d: "d_makeJoints \<lparr>gi_now = ms, gi_kin = kin, gi_sensors = s, gi_ballX = 0, gi_ballY = 0\<rparr>
       (c_generator (rw_clipper w1), \<lparr>io_request = \<lparr>rq_head = head_new, rq_body = body\<rparr>, io_odometry = odo, io_body = rw_bodyModel w1\<rparr>) = Some (d1, io, j1)"
    and j: "j = clip_joints (c_old_exists (rw_clipper w1)) (c_old (rw_clipper w1)) j1" "c_old c = j"
    by (auto simp: c_makeJoints_def Let_def split: option.splits prod.splits)
  have sent: "sent_ok j" using ok clip_joints_ok(1) by (simp add: j clip_ok_def)
  have "a \<noteq> A_STAND" using d_makeJoints_action [OF _ d] rw_prepare_request [OF p] by (auto simp: a module_actions_def)
  then show ?thesis using rw_write_ok [OF sent] sent rw_prepare_request [OF p] by (auto simp: c k j(2) clip_ok_def)
qed

theorem walk_commands_safe_witness:
  "\<forall>sys sys' now ms unset kin clock g t jm old mem b. \<exists>w' b'.
     rw_processFrame sys sys' now ms unset kin (first_state M_STAND (d_new clock g t jm) old mem, first_blocks M_STAND True b) = Some (w', b') \<and>
     clip_ok (rw_clipper w') \<and> (wk_commands b' = wk_commands b \<or> commands_ok (wk_commands b'))"
proof (intro allI)
  fix sys sys' now ms unset kin clock g t jm old mem b
  let ?d = "d_new clock g t jm"
  let ?w = "first_state M_STAND ?d old mem" and ?b = "first_blocks M_STAND True b"
  have "\<exists>w' b'. rw_processFrame sys sys' now ms unset kin (?w, ?b) = Some (w', b')"
    by (rule first_stand_returns) (simp_all add: d_new_def)
  then obtain w' b' where f: "rw_processFrame sys sys' now ms unset kin (?w, ?b) = Some (w', b')" by blast
  have ok: "clip_ok (rw_clipper ?w)" by (simp add: first_state_def rw_init_def c_new_def clip_ok_def)
  show "\<exists>w' b'. rw_processFrame sys sys' now ms unset kin (?w, ?b) = Some (w', b') \<and>
     clip_ok (rw_clipper w') \<and> (wk_commands b' = wk_commands b \<or> commands_ok (wk_commands b'))"
    using walk_commands_safe [OF ok f] f by (auto simp: first_blocks_def)
qed

text \<open>C26: A robot that is not calibrated, or whose feet are off the ground, is not asked to move.\<close>

theorem uncalibrated_never_walks:
  assumes "rw_prepare sys sys' now unset (w, b) = (w', b', s, body, odo)" "walkDisabled (wk_odometry b') \<or> \<not> feet_on_ground (wk_body b)"
  shows "ac_forward body = 0 \<and> ac_left body = 0 \<and> ac_turn body = 0 \<and> actionType body \<in> {A_NONE, A_WALK, A_INITIAL}"
  using rw_prepare_request [OF assms(1)] assms(2) by (auto simp: halted_def module_actions_def)

theorem uncalibrated_never_walks_witness:
  "\<forall>sys' now unset t clock g jm old mem b. \<exists>w' b' s body odo.
     rw_prepare 1000 sys' now unset (first_state M_WALK (d_new clock g t jm) old mem, first_blocks M_WALK True b) = (w', b', s, body, odo) \<and>
     walkDisabled (wk_odometry b') \<and> ac_forward body = 0"
proof (intro allI)
  fix sys' now unset t clock g jm old mem b
  obtain w' b' s body odo
    where p: "rw_prepare 1000 sys' now unset (first_state M_WALK (d_new clock g t jm) old mem, first_blocks M_WALK True b) = (w', b', s, body, odo)"
    by (metis prod_cases5)
  have d: "walkDisabled (wk_odometry b')" using first_uncalibrated [OF _ p] by simp
  show "\<exists>w' b' s body odo.
     rw_prepare 1000 sys' now unset (first_state M_WALK (d_new clock g t jm) old mem, first_blocks M_WALK True b) = (w', b', s, body, odo) \<and>
     walkDisabled (wk_odometry b') \<and> ac_forward body = 0"
    using uncalibrated_never_walks [OF p] d p by blast
qed

end
