(* ===== verification/Walk_Odometry.thy ===== *)
theory Walk_Odometry
  imports Walk_Module
begin

text \<open>
  The odometry of a frame of the walk. The generators only add to the odometry they get, whatever its value is, and nothing else depends on it; the
  module gives them the displacement that waits in the odometry block, or nothing when it restarts the engine in that frame.
\<close>

section \<open>The generators add\<close>

definition carry :: "rs_odometry \<Rightarrow> gen_io \<Rightarrow> gen_io" where
  "carry a io = io\<lparr>io_odometry := ro_plus a (io_odometry io)\<rparr>"

lemma ro_plus_assoc: "ro_plus (ro_plus a b) c = ro_plus a (ro_plus b c)"
  by (simp add: ro_plus_def ro_new_def)

lemma ro_plus_zero [simp]: "ro_plus a (ro_new 0 0 0) = a"
  by (simp add: ro_plus_def ro_new_def)

lemma carry_fields [simp]:
  "io_request (carry a io) = io_request io" "io_body (carry a io) = io_body io" "io_odometry (carry a io) = ro_plus a (io_odometry io)"
  by (simp_all add: carry_def)

lemma updateOdometry_carry: "updateOdometry l (g, ro_plus a d) = map_prod id (ro_plus a) (updateOdometry l (g, d))"
  by (simp add: updateOdometry_def Let_def ro_plus_assoc)

lemma g_makeJoints_carry:
  "g_makeJoints now kin s x y \<lparr>ww_gen = g, ww_request = r, ww_odometry = ro_plus a d, ww_body = m\<rparr> =
     map_prod (\<lambda>w. w\<lparr>ww_odometry := ro_plus a (ww_odometry w)\<rparr>) id (g_makeJoints now kin s x y \<lparr>ww_gen = g, ww_request = r, ww_odometry = d, ww_body = m\<rparr>)"
  by (simp add: g_makeJoints_def Let_def updateOdometry_carry split: prod.split)

lemma pp_makeJoints_carry:
  "pp_makeJoints i (pp, carry a io) = map_prod id (map_prod (carry a) id) (pp_makeJoints i (pp, io))"
proof -
  obtain pp1 body active where p: "pp_prepare (gi_now i) (io_body io) (gi_ballX i) (gi_ballY i) (pp, rq_body (io_request io)) = (pp1, body, active)"
    by (metis prod_cases3)
  obtain w j where g: "g_makeJoints (gi_now i) (gi_kin i) (gi_sensors i) (gi_ballX i) (gi_ballY i)
      \<lparr>ww_gen = pp_walk pp1, ww_request = (io_request io)\<lparr>rq_body := body\<rparr>, ww_odometry = io_odometry io, ww_body = io_body io\<rparr> = (w, j)"
    by fastforce
  show ?thesis by (simp add: pp_makeJoints_def p g g_makeJoints_carry carry_def Let_def)
qed

lemma body_makeJoints_carry:
  "body_makeJoints i b (d, carry a io) = map_option (map_prod id (map_prod (carry a) id)) (body_makeJoints i b (d, io))"
  by (simp add: body_makeJoints_def Let_def pp_makeJoints_carry split: prod.split option.split)

lemma d_makeJoints_carry:
  "d_makeJoints i (d, carry a io) = map_option (map_prod id (map_prod (carry a) id)) (d_makeJoints i (d, io))"
proof -
  define d1 where "d1 = choose_generator (actionType (rq_body (io_request io))) d"
  define e where "e = ro_new 0 0 (dive_turn (d_current d1) (d_prev d1))"
  have c: "(carry a io)\<lparr>io_odometry := ro_plus (ro_plus a (io_odometry io)) e\<rparr> = carry a (io\<lparr>io_odometry := ro_plus (io_odometry io) e\<rparr>)"
    by (simp add: carry_def ro_plus_assoc)
  show ?thesis
  proof (cases "body_makeJoints i (d_current d1) (d1, io\<lparr>io_odometry := ro_plus (io_odometry io) e\<rparr>)")
    case None
    then show ?thesis by (simp add: d_makeJoints_def d1_def [symmetric] e_def [symmetric] c body_makeJoints_carry Let_def)
  next
    case (Some r)
    obtain d2 io2 j where r: "r = (d2, io2, j)" by (metis prod_cases3)
    show ?thesis
      by (simp add: d_makeJoints_def d1_def [symmetric] e_def [symmetric] c body_makeJoints_carry Some r Let_def split_beta)
  qed
qed

lemma c_makeJoints_carry:
  assumes "\<And>g io. mj i (g, carry a io) = map_option (map_prod id (map_prod (carry a) id)) (mj i (g, io))"
  shows "c_makeJoints mj i (c, carry a io) = map_option (map_prod id (map_prod (carry a) id)) (c_makeJoints mj i (c, io))"
  by (simp add: c_makeJoints_def Let_def assms split: prod.split option.split)

section \<open>A frame of the module\<close>

definition plus2D :: "pose2D \<Rightarrow> pose2D \<Rightarrow> pose2D" where
  "plus2D a b = po_new (rotation a + rotation b) (vx (translation a) + vx (translation b)) (vy (translation a) + vy (translation b))"

definition displaced :: "pose2D \<Rightarrow> walk_blocks \<Rightarrow> walk_blocks" where
  "displaced p b = b\<lparr>wk_odometry := (wk_odometry b)\<lparr>displacement := p\<rparr>\<rparr>"

definition ro_of :: "pose2D \<Rightarrow> rs_odometry" where
  "ro_of p = ro_new (vx (translation p)) (vy (translation p)) (rotation p)"

lemma displaced_fields [simp]:
  "wk_request (displaced p b) = wk_request b" "wk_joints (displaced p b) = wk_joints b" "wk_sensors (displaced p b) = wk_sensors b"
  "wk_body (displaced p b) = wk_body b" "wk_commands (displaced p b) = wk_commands b" "wk_speech (displaced p b) = wk_speech b"
  "displacement (wk_odometry (displaced p b)) = p" "walkDisabled (wk_odometry (displaced p b)) = walkDisabled (wk_odometry b)"
  "standing (wk_odometry (displaced p b)) = standing (wk_odometry b)" "wk_use_sprint (displaced p b) = wk_use_sprint b"
  "wk_sprint_speed (displaced p b) = wk_sprint_speed b" "wk_main_speed (displaced p b) = wk_main_speed b"
  "wk_kick_running (displaced p b) = wk_kick_running b"
  by (simp_all add: displaced_def)

lemma before_calibration [simp]:
  "engine_request (displaced p b) = engine_request b" "rw_notice (displaced p b) w = rw_notice b w" "rw_heat (displaced p b) w = rw_heat b w"
  by (simp_all only: engine_request_def rw_notice_def rw_heat_def displaced_fields)

lemma rw_calibrate_displaced:
  "rw_calibrate sys sys' now s (w, displaced p b) = (case rw_calibrate sys sys' now s (w, b) of (w, b, s) \<Rightarrow> (w, displaced p b, s))"
  by (simp add: rw_calibrate_def displaced_def Let_def split: prod.split)

lemma rw_refuse_displaced: "rw_refuse (w, displaced p b, body) = (case rw_refuse (w, b, body) of (w, b, body) \<Rightarrow> (w, displaced p b, body))"
  by (simp add: rw_refuse_def) (simp add: displaced_def)

lemma rw_calibrate_standing: "rw_calibrate sys sys' now s (w, b) = (w', b', s') \<Longrightarrow> rw_standing w' = rw_standing w"
  by (auto simp: rw_calibrate_def Let_def split: prod.splits)

lemma rw_heat_standing [simp]: "rw_standing (rw_heat b w) = rw_standing w"
  by (simp add: rw_heat_def Let_def)

lemma rw_restart_value:
  "rw_restart (w, body, odo) =
     (if rw_standing w then (w\<lparr>rw_clipper := c_reset d_reset (rw_clipper w)\<rparr>, body_of A_INITIAL, ro_new 0 0 0) else (w, body, odo))"
  by (simp add: rw_restart_def ro_clear_def ro_new_def)

definition restarts :: "walk_blocks \<Rightarrow> walk_module \<Rightarrow> bool" where
  "restarts b w = rw_standing (rw_notice b w)"

lemma rw_prepare_displaced:
  assumes "rw_prepare sys sys' now unset (w, b) = (w', b', s, body, odo)"
  shows "rw_prepare sys sys' now unset (w, displaced p b) = (w', displaced p b', s, body, if restarts b w then ro_new 0 0 0 else ro_of p)"
proof -
  let ?s = "sense unset (wk_joints b) (wk_sensors b)"
  obtain w1 b1 s1 where c: "rw_calibrate sys sys' now ?s (rw_heat b (rw_notice b w), b) = (w1, b1, s1)" by (metis prod_cases3)
  have st: "rw_standing w1 = restarts b w" using rw_calibrate_standing [OF c] by (simp add: restarts_def)
  have o: "ro_of p = ro_new (vx (translation p)) (vy (translation p)) (rotation p)" by (simp add: ro_of_def)
  obtain w2 b2 body2 where r: "rw_refuse (fst (rw_restart (w1, engine_request b, ro_of p)), b1, fst (snd (rw_restart (w1, engine_request b, ro_of p)))) = (w2, b2, body2)"
    by (metis prod_cases3)
  show ?thesis
  proof (cases "restarts b w")
    case True
    then show ?thesis using assms r by (auto simp: rw_prepare_def rw_calibrate_displaced c rw_restart_value st rw_refuse_displaced Let_def)
  next
    case False
    then show ?thesis using assms r by (auto simp: rw_prepare_def rw_calibrate_displaced c rw_restart_value st rw_refuse_displaced o Let_def)
  qed
qed

lemma rw_report_displaced: "rw_report w odo (displaced p b) = rw_report w odo b"
  by (simp add: rw_report_def displaced_def Let_def)

lemma report_plus: "rw_report w (ro_plus (ro_of p) o1) b = displaced (plus2D p (displacement (wk_odometry (rw_report w o1 b)))) (rw_report w o1 b)"
  by (simp add: rw_report_def displaced_def ro_plus_def ro_of_def ro_new_def plus2D_def po_new_def Let_def)

lemma rw_write_displaced: "(displaced p b)\<lparr>wk_commands := c\<rparr> = displaced p (b\<lparr>wk_commands := c\<rparr>)"
  by (simp add: displaced_def)

theorem rw_frame_odometry:
  "rw_processFrame sys sys' now ms unset kin (w, displaced p b) =
     map_option (\<lambda>(w', b'). (w', if restarts b w then b' else displaced (plus2D p (displacement (wk_odometry b'))) b'))
       (rw_processFrame sys sys' now ms unset kin (w, displaced (po_new 0 0 0) b))"
proof -
  obtain w1 b1 s body odo where p: "rw_prepare sys sys' now unset (w, b) = (w1, b1, s, body, odo)" by (metis prod_cases5)
  let ?i = "\<lparr>gi_now = ms, gi_kin = kin, gi_sensors = s, gi_ballX = 0, gi_ballY = 0\<rparr>"
  define io where "io = \<lparr>io_request = \<lparr>rq_head = head_new, rq_body = body\<rparr>, io_odometry = ro_new 0 0 0, io_body = rw_bodyModel w1\<rparr>"
  have z: "ro_of (po_new 0 0 0) = ro_new 0 0 0" by (simp add: ro_of_def po_new_def)
  have c: "\<lparr>io_request = \<lparr>rq_head = head_new, rq_body = body\<rparr>, io_odometry = ro_of p, io_body = rw_bodyModel w1\<rparr> = carry (ro_of p) io"
    by (simp add: io_def carry_def)
  have m: "c_makeJoints d_makeJoints ?i (rw_clipper w1, carry (ro_of p) io) =
      map_option (map_prod id (map_prod (carry (ro_of p)) id)) (c_makeJoints d_makeJoints ?i (rw_clipper w1, io))"
    by (rule c_makeJoints_carry) (rule d_makeJoints_carry)
  note q = rw_prepare_displaced [OF p]
  show ?thesis
  proof (cases "c_makeJoints d_makeJoints ?i (rw_clipper w1, io)")
    case None
    then show ?thesis using m by (simp add: rw_processFrame_def q z c io_def [symmetric] Let_def)
  next
    case (Some r)
    obtain c2 io2 j where r: "r = (c2, io2, j)" by (metis prod_cases3)
    show ?thesis
      by (simp add: rw_processFrame_def q z c io_def [symmetric] m Some r rw_report_displaced report_plus rw_write_displaced Let_def)
  qed
qed

end
