(* ===== verification/Kick_Motion.thy ===== *)
theory Kick_Motion
  imports Memory_Blocks
begin

text \<open>
  Playing keyframe sequences: \<open>src/core/motion/KickModule.cpp\<close>, which the motion core runs for
  kicks, and its older twin \<open>src/core/motion/KeyframeMotionModule.cpp\<close>, over the keyframes of
  \<open>src/core/common/Keyframe.h\<close>. Both classes have the same members, so they share one record; it
  also holds the three memory blocks the modules touch. Loading a sequence from its YAML file is the
  argument \<open>load\<close>: the sequence, or \<^term>\<open>None\<close> when the file cannot be loaded. A pointer is an
  option, \<^term>\<open>None\<close> for \<open>NULL\<close>. The position \<open>keyframe_\<close> starts at 0 and only grows: it is a \<^typ>\<open>nat\<close>.
\<close>

section \<open>Keyframes and the modules' state\<close>

record keyframe =
  joints :: "joint \<Rightarrow> real"
  kf_name :: string
  kf_frames :: int

definition kf_named :: "string \<Rightarrow> keyframe" where
  "kf_named name = \<lparr>joints = (\<lambda>i. 0), kf_name = name, kf_frames = 100\<rparr>"

definition kf_pose :: "(joint \<Rightarrow> real) \<Rightarrow> int \<Rightarrow> keyframe" where
  "kf_pose js n = \<lparr>joints = js, kf_name = '''', kf_frames = n\<rparr>"

datatype kick_state = Initial | Running | Finished

record kick_module =
  km_state :: kick_state
  km_sequence :: "keyframe list option"
  km_initial :: "keyframe option"
  km_frames :: int
  km_keyframe :: nat
  km_request :: kick_request_block
  km_command :: joint_command_block
  km_joint :: joint_block

definition km_new :: "kick_module \<Rightarrow> kick_module" where
  "km_new m = m\<lparr>km_state := Finished, km_sequence := None\<rparr>"

section \<open>KickModule\<close>

text \<open>With the macro \<open>HACK\<close> defined the sequence is loaded by \<open>start\<close>, not here.\<close>

definition initSpecificModule :: "kick_module \<Rightarrow> kick_module" where
  "initSpecificModule m = m\<lparr>km_initial := None\<rparr>"

definition initStiffness :: "kick_module \<Rightarrow> kick_module" where
  "initStiffness m =
     m\<lparr>km_command := (km_command m)\<lparr>stiffness := (\<lambda>i. 1), send_stiffness := True, stiffness_time := 10\<rparr>\<rparr>"

definition start :: "keyframe list option \<Rightarrow> kick_module \<Rightarrow> kick_module" where
  "start load m =
     (let m = initStiffness m;
          m = m\<lparr>km_state := Initial\<rparr>;
          m = m\<lparr>km_request := (km_request m)\<lparr>kick_running := True\<rparr>\<rparr>;
          m = m\<lparr>km_keyframe := 0, km_frames := 0\<rparr>;
          m = m\<lparr>km_sequence := load\<rparr>
      in m\<lparr>km_initial := Some (kf_pose (joint_values (km_joint m)) 0)\<rparr>)"

text \<open>
  The line \<open>kick_request->kick_type_ == Kick::NO_KICK;\<close> of \<open>finish\<close> is a comparison whose value is
  dropped: it has no effect.
\<close>

definition finish :: "kick_module \<Rightarrow> kick_module" where
  "finish m =
     (let m = m\<lparr>km_state := Finished\<rparr>;
          m = m\<lparr>km_request := (km_request m)\<lparr>kick_running := False\<rparr>\<rparr>;
          m = m\<lparr>km_initial := None\<rparr>
      in m\<lparr>km_sequence := None\<rparr>)"

definition finished :: "kick_module \<Rightarrow> bool" where
  "finished m = (km_state m = Finished)"

text \<open>The first keyframe argument of \<open>moveBetweenKeyframes\<close> is never read in its body and is left out.\<close>

definition moveBetweenKeyframes :: "keyframe \<Rightarrow> int \<Rightarrow> kick_module \<Rightarrow> kick_module" where
  "moveBetweenKeyframes target cframe m =
     (if cframe = 0
      then let m = m\<lparr>km_command := setSendAllAngles True (of_int (kf_frames target * 10)) (km_command m)\<rparr>
           in m\<lparr>km_command := setPoseRad (joints target) (km_command m)\<rparr>
      else m)"

definition moveToInitial :: "keyframe \<Rightarrow> int \<Rightarrow> kick_module \<Rightarrow> kick_module" where
  "moveToInitial target cframe m =
     (if km_initial m = None then m else moveBetweenKeyframes target cframe m)"

text \<open>The block \<open>if(state_ == Initial)\<close> of \<open>performKick\<close>, which both modules have.\<close>

definition enter_keyframe :: "keyframe \<Rightarrow> kick_module \<Rightarrow> kick_module" where
  "enter_keyframe kf m =
     (if km_state m = Initial
      then if km_frames m \<ge> kf_frames kf then m\<lparr>km_state := Running, km_frames := 0\<rparr>
           else moveToInitial kf (km_frames m) m
      else m)"

lemma enter_keyframe_keeps [frame_simps, simp]:
  "km_keyframe (enter_keyframe kf m) = km_keyframe m" "km_sequence (enter_keyframe kf m) = km_sequence m"
  "km_initial (enter_keyframe kf m) = km_initial m" "km_request (enter_keyframe kf m) = km_request m"
  by (simp_all add: enter_keyframe_def moveToInitial_def moveBetweenKeyframes_def)

lemma initStiffness_keeps [frame_simps, simp]:
  "km_keyframe (initStiffness m) = km_keyframe m" "km_sequence (initStiffness m) = km_sequence m"
  "km_initial (initStiffness m) = km_initial m" "km_request (initStiffness m) = km_request m"
  "km_state (initStiffness m) = km_state m" "km_frames (initStiffness m) = km_frames m"
  "angles (km_command (initStiffness m)) = angles (km_command m)"
  by (simp_all add: initStiffness_def)

function performKick :: "kick_module \<Rightarrow> kick_module" where
  "performKick m0 =
     (let m = initStiffness m0 in
      if km_state m = Finished then m
      else case km_sequence m of
        None \<Rightarrow> m
      | Some keyframes \<Rightarrow>
          if km_keyframe m \<ge> length keyframes then finish m
          else let kf = keyframes ! km_keyframe m; m = enter_keyframe kf m in
               if km_state m = Running
               then if km_keyframe m = length keyframes - 1 then finish m
                    else let nxt = keyframes ! (km_keyframe m + 1) in
                         if km_frames m \<ge> kf_frames nxt
                         then performKick (m\<lparr>km_keyframe := km_keyframe m + 1, km_frames := 0\<rparr>)
                         else let m = moveBetweenKeyframes nxt (km_frames m) m
                              in m\<lparr>km_frames := km_frames m + 1\<rparr>
               else m\<lparr>km_frames := km_frames m + 1\<rparr>)"
  by pat_completeness auto
termination
  by (relation "measure (\<lambda>m. case km_sequence m of None \<Rightarrow> 0 | Some q \<Rightarrow> length q - km_keyframe m)") auto

declare performKick.simps [simp del]

definition processFrame :: "keyframe list option \<Rightarrow> kick_module \<Rightarrow> kick_module" where
  "processFrame load m =
     (let m = (if kick_type (km_request m) = STRAIGHT then if km_state m = Finished then start load m else m else m)
      in if km_state m = Initial \<or> km_state m = Running
         then let m = m\<lparr>km_request := (km_request m)\<lparr>kick_running := True\<rparr>\<rparr> in performKick m
         else m)"

text \<open>\<open>JOINT_EPSILON\<close> is three degrees; the loop over the joints stops at the first one too far.\<close>

definition reachedKeyframe :: "kick_module \<Rightarrow> keyframe \<Rightarrow> bool" where
  "reachedKeyframe m kf =
     (\<not> list_ex (\<lambda>i. \<bar>joint_values (km_joint m) i - joints kf i\<bar> > 3 * DEG_T_RAD) all_joints)"

section \<open>KeyframeMotionModule\<close>

definition kfm_initSpecificModule :: "keyframe list option \<Rightarrow> kick_module \<Rightarrow> kick_module" where
  "kfm_initSpecificModule load m = m\<lparr>km_sequence := load, km_initial := None\<rparr>"

definition kfm_start :: "kick_module \<Rightarrow> kick_module" where
  "kfm_start m =
     (let m = m\<lparr>km_state := Initial\<rparr>;
          m = m\<lparr>km_request := (km_request m)\<lparr>kick_running := True\<rparr>\<rparr>;
          m = m\<lparr>km_keyframe := 0, km_frames := 0\<rparr>
      in m\<lparr>km_initial := Some (kf_pose (joint_values (km_joint m)) 0)\<rparr>)"

definition kfm_finish :: "kick_module \<Rightarrow> kick_module" where
  "kfm_finish m =
     (let m = m\<lparr>km_state := Finished\<rparr>;
          m = m\<lparr>km_request := (km_request m)\<lparr>kick_running := False\<rparr>\<rparr>
      in m\<lparr>km_initial := None\<rparr>)"

function kfm_performKick :: "kick_module \<Rightarrow> kick_module" where
  "kfm_performKick m =
     (if km_state m = Finished then m
      else case km_sequence m of
        None \<Rightarrow> m
      | Some keyframes \<Rightarrow>
          if km_keyframe m \<ge> length keyframes then kfm_finish m
          else let kf = keyframes ! km_keyframe m; m = enter_keyframe kf m in
               if km_state m = Running
               then if km_keyframe m = length keyframes - 1 then kfm_finish m
                    else let nxt = keyframes ! (km_keyframe m + 1) in
                         if km_frames m \<ge> kf_frames nxt
                         then kfm_performKick (m\<lparr>km_keyframe := km_keyframe m + 1, km_frames := 0\<rparr>)
                         else let m = moveBetweenKeyframes nxt (km_frames m) m
                              in m\<lparr>km_frames := km_frames m + 1\<rparr>
               else m\<lparr>km_frames := km_frames m + 1\<rparr>)"
  by pat_completeness auto
termination
  by (relation "measure (\<lambda>m. case km_sequence m of None \<Rightarrow> 0 | Some q \<Rightarrow> length q - km_keyframe m)") auto

declare kfm_performKick.simps [simp del]

definition kfm_processFrame :: "kick_module \<Rightarrow> kick_module" where
  "kfm_processFrame m =
     (let m = (if kick_type (km_request m) = STRAIGHT then if km_state m = Finished then kfm_start m else m else m)
      in if km_state m = Initial \<or> km_state m = Running
         then let m = m\<lparr>km_request := (km_request m)\<lparr>kick_running := True\<rparr>\<rparr> in kfm_performKick m
         else m)"

section \<open>How long a sequence plays\<close>

text \<open>The frames left: the rest of the current movement and the movements to the later keyframes.\<close>

definition frames_from :: "keyframe list \<Rightarrow> nat \<Rightarrow> nat" where
  "frames_from keyframes i = sum_list (map (\<lambda>kf. nat (kf_frames kf)) (drop i keyframes))"

definition km_remaining :: "kick_module \<Rightarrow> nat" where
  "km_remaining m =
     (case km_sequence m of
        None \<Rightarrow> 0
      | Some q \<Rightarrow>
          let i = (if km_state m = Initial then km_keyframe m else km_keyframe m + 1) in
          if i < length q then nat (kf_frames (q ! i) - km_frames m) + frames_from q (i + 1) else 0)"

definition km_active :: "kick_module \<Rightarrow> bool" where
  "km_active m \<longleftrightarrow> km_state m \<noteq> Finished \<and> km_sequence m \<noteq> None"

lemma frames_from_step: "i < length q \<Longrightarrow> frames_from q i = nat (kf_frames (q ! i)) + frames_from q (i + 1)"
  by (simp add: frames_from_def Cons_nth_drop_Suc [symmetric])

lemma frames_from_end: "length q \<le> i \<Longrightarrow> frames_from q i = 0"
  by (simp add: frames_from_def)

lemma finish_fields [simp]:
  "km_state (finish m) = Finished" "kick_running (km_request (finish m)) = False"
  "kick_type (km_request (finish m)) = kick_type (km_request m)"
  "km_state (kfm_finish m) = Finished" "kick_running (km_request (kfm_finish m)) = False"
  "kick_type (km_request (kfm_finish m)) = kick_type (km_request m)"
  by (simp_all add: finish_def kfm_finish_def)

lemma moveBetween_keeps [frame_simps, simp]:
  "km_keyframe (moveBetweenKeyframes kf c m) = km_keyframe m" "km_sequence (moveBetweenKeyframes kf c m) = km_sequence m"
  "km_state (moveBetweenKeyframes kf c m) = km_state m" "km_frames (moveBetweenKeyframes kf c m) = km_frames m"
  "km_request (moveBetweenKeyframes kf c m) = km_request m"
  by (simp_all add: moveBetweenKeyframes_def)

lemma enter_keyframe_state:
  "km_state (enter_keyframe kf m) =
     (if km_state m = Initial \<and> km_frames m \<ge> kf_frames kf then Running else km_state m)"
  "km_frames (enter_keyframe kf m) =
     (if km_state m = Initial \<and> km_frames m \<ge> kf_frames kf then 0 else km_frames m)"
  by (simp_all add: enter_keyframe_def moveToInitial_def)

text \<open>One frame of either module, as a function of what is left.\<close>

definition plays_on :: "kick_module \<Rightarrow> kick_module \<Rightarrow> bool" where
  "plays_on m m' \<longleftrightarrow> kick_type (km_request m') = kick_type (km_request m) \<and>
     (if km_remaining m = 0 then km_state m' = Finished \<and> \<not> kick_running (km_request m')
      else km_state m' \<noteq> Finished \<and> km_sequence m' = km_sequence m \<and> km_remaining m' = km_remaining m - 1 \<and>
           km_request m' = km_request m)"

lemma plays_on_finish:
  "km_remaining m = 0 \<Longrightarrow> km_request m' = km_request m \<Longrightarrow> plays_on m (finish m')"
  "km_remaining m = 0 \<Longrightarrow> km_request m' = km_request m \<Longrightarrow> plays_on m (kfm_finish m')"
  by (simp_all add: plays_on_def)

lemma plays_on_cong:
  assumes "plays_on m1 m'" "km_remaining m1 = km_remaining m" "km_sequence m1 = km_sequence m"
    "km_request m1 = km_request m"
  shows "plays_on m m'"
  using assms by (simp add: plays_on_def)

lemma plays_on_trans:
  assumes "km_remaining m1 = km_remaining m" "km_sequence m1 = km_sequence m" "km_request m1 = km_request m"
    "plays_on m1 m'"
  shows "plays_on m m'"
  using assms by (simp add: plays_on_def)

lemma remaining_stiff [simp]: "km_remaining (initStiffness m) = km_remaining m"
  by (cases "km_sequence m") (simp_all add: km_remaining_def Let_def)

lemma remaining_enter:
  assumes "km_sequence m = Some q" "km_state m \<noteq> Finished" "km_keyframe m < length q"
  shows "km_remaining (enter_keyframe (q ! km_keyframe m) m) = km_remaining m"
  using assms frames_from_step [of "km_keyframe m + 1" q] frames_from_end [of q "km_keyframe m + 1"]
  by (auto simp: km_remaining_def enter_keyframe_state Let_def)

lemma remaining_over:
  "km_sequence m = Some q \<Longrightarrow> length q \<le> km_keyframe m \<Longrightarrow> km_remaining m = 0"
  "km_sequence m = Some q \<Longrightarrow> km_state m = Running \<Longrightarrow> km_keyframe m = length q - 1 \<Longrightarrow> km_remaining m = 0"
  by (auto simp: km_remaining_def Let_def)

lemma remaining_next:
  assumes "km_sequence m = Some q" "km_state m = Running" "km_keyframe m + 1 < length q"
    "kf_frames (q ! (km_keyframe m + 1)) \<le> km_frames m"
  shows "km_remaining (m\<lparr>km_keyframe := km_keyframe m + 1, km_frames := 0\<rparr>) = km_remaining m"
  using assms frames_from_step [of "km_keyframe m + 2" q] frames_from_end [of q "km_keyframe m + 2"]
  by (auto simp: km_remaining_def Let_def numeral_2_eq_2)

lemma tick_initial:
  assumes "km_sequence m = Some q" "km_state m = Initial" "km_keyframe m < length q"
    "km_frames m < kf_frames (q ! km_keyframe m)"
  shows "plays_on m (m\<lparr>km_frames := km_frames m + 1\<rparr>)"
  using assms by (auto simp: plays_on_def km_remaining_def Let_def)

lemma tick_running:
  assumes "km_sequence m = Some q" "km_state m = Running" "km_keyframe m + 1 < length q"
    "km_frames m < kf_frames (q ! (km_keyframe m + 1))"
  shows "plays_on m ((moveBetweenKeyframes kf c m)\<lparr>km_frames := km_frames m + 1\<rparr>)"
  using assms by (auto simp: plays_on_def km_remaining_def Let_def)

text \<open>The part of \<open>performKick\<close> after the block for \<open>Initial\<close>, with the module's own \<open>finish\<close> and recursive call.\<close>

definition advance :: "(kick_module \<Rightarrow> kick_module) \<Rightarrow> (kick_module \<Rightarrow> kick_module) \<Rightarrow> keyframe list \<Rightarrow> kick_module \<Rightarrow> kick_module" where
  "advance fin again q e =
     (if km_state e = Running
      then if km_keyframe e = length q - 1 then fin e
           else let nxt = q ! (km_keyframe e + 1) in
                if km_frames e \<ge> kf_frames nxt
                then again (e\<lparr>km_keyframe := km_keyframe e + 1, km_frames := 0\<rparr>)
                else let m = moveBetweenKeyframes nxt (km_frames e) e in m\<lparr>km_frames := km_frames m + 1\<rparr>
      else e\<lparr>km_frames := km_frames e + 1\<rparr>)"

lemma performKick_unfold:
  assumes "km_sequence m = Some q" "km_state m \<noteq> Finished" "km_keyframe m < length q"
  shows "performKick m = advance finish performKick q (enter_keyframe (q ! km_keyframe m) (initStiffness m))"
  using assms by (subst performKick.simps) (simp add: Let_def advance_def)

lemma kfm_performKick_unfold:
  assumes "km_sequence m = Some q" "km_state m \<noteq> Finished" "km_keyframe m < length q"
  shows "kfm_performKick m = advance kfm_finish kfm_performKick q (enter_keyframe (q ! km_keyframe m) m)"
  using assms by (subst kfm_performKick.simps) (simp add: Let_def advance_def)

lemma advance_plays:
  assumes q: "km_sequence m = Some q" "km_state m \<noteq> Finished" "km_keyframe m < length q"
    and fin: "\<And>e. km_remaining m = 0 \<Longrightarrow> km_request e = km_request m \<Longrightarrow> plays_on m (fin e)"
    and again: "\<And>e. km_active e \<Longrightarrow> km_sequence e = Some q \<Longrightarrow> km_keyframe e = km_keyframe m + 1 \<Longrightarrow> plays_on e (again e)"
  shows "plays_on m (advance fin again q (enter_keyframe (q ! km_keyframe m) m))"
proof -
  define e where "e = enter_keyframe (q ! km_keyframe m) m"
  have e: "km_sequence e = Some q" "km_keyframe e = km_keyframe m" "km_request e = km_request m"
    "km_remaining e = km_remaining m"
    using q remaining_enter [of m q] by (simp_all add: e_def)
  have "km_state e = Initial \<and> km_frames e < kf_frames (q ! km_keyframe e) \<or> km_state e = Running"
    using q by (cases "km_state m") (simp_all add: e_def enter_keyframe_state)
  moreover have "km_keyframe e = length q - 1 \<or> km_keyframe e + 1 < length q" using e q by linarith
  ultimately consider "km_state e = Initial" "km_frames e < kf_frames (q ! km_keyframe e)"
    | "km_state e = Running" "km_keyframe e = length q - 1"
    | "km_state e = Running" "km_keyframe e + 1 < length q"
    by blast
  then have "plays_on m (advance fin again q e)"
  proof cases
    case 1
    then show ?thesis using plays_on_trans [OF e(4) _ e(3) tick_initial [of e q]] e q by (simp add: advance_def)
  next
    case 2
    then show ?thesis using fin e remaining_over(2) [of e q] by (simp add: advance_def)
  next
    case 3
    let ?n = "e\<lparr>km_keyframe := km_keyframe e + 1, km_frames := 0\<rparr>"
    have inner: "km_keyframe e \<noteq> length q - 1" using 3 by linarith
    show ?thesis
    proof (cases "kf_frames (q ! (km_keyframe e + 1)) \<le> km_frames e")
      case True
      have "plays_on ?n (again ?n)" using 3 e by (intro again) (simp_all add: km_active_def)
      moreover have "km_remaining ?n = km_remaining m" using remaining_next [of e q] 3 True e by simp
      ultimately have "plays_on m (again ?n)" using e q by (intro plays_on_trans [of ?n m]) simp_all
      then show ?thesis using 3 inner True by (simp add: advance_def Let_def)
    next
      case False
      then show ?thesis
        using plays_on_trans [OF e(4) _ e(3) tick_running [of e q]] 3 inner e q by (simp add: advance_def Let_def)
    qed
  qed
  then show ?thesis by (simp add: e_def)
qed

lemma performKick_plays:
  assumes "km_active m" shows "plays_on m (performKick m)"
  using assms
proof (induction "length (the (km_sequence m)) - km_keyframe m" arbitrary: m rule: less_induct)
  case less
  then obtain q where q: "km_sequence m = Some q" "km_state m \<noteq> Finished" by (auto simp: km_active_def)
  show ?case
  proof (cases "km_keyframe m < length q")
    case False
    then show ?thesis using q
      by (subst performKick.simps) (auto simp: Let_def remaining_over intro!: plays_on_finish)
  next
    case True
    let ?i = "initStiffness m"
    have "plays_on ?i (advance finish performKick q (enter_keyframe (q ! km_keyframe ?i) ?i))"
      using q True by (intro advance_plays plays_on_finish) (auto intro!: less.hyps)
    then show ?thesis using performKick_unfold [of m q] q True by (intro plays_on_trans [of ?i m]) simp_all
  qed
qed

lemma kfm_performKick_plays:
  assumes "km_active m" shows "plays_on m (kfm_performKick m)"
  using assms
proof (induction "length (the (km_sequence m)) - km_keyframe m" arbitrary: m rule: less_induct)
  case less
  then obtain q where q: "km_sequence m = Some q" "km_state m \<noteq> Finished" by (auto simp: km_active_def)
  show ?case
  proof (cases "km_keyframe m < length q")
    case False
    then show ?thesis using q
      by (subst kfm_performKick.simps) (auto simp: Let_def remaining_over intro!: plays_on_finish)
  next
    case True
    then show ?thesis unfolding kfm_performKick_unfold [OF q True] using q
      by (intro advance_plays plays_on_finish) (auto intro!: less.hyps)
  qed
qed

lemma processFrame_active:
  assumes "km_active m"
  shows "processFrame load m = performKick (m\<lparr>km_request := (km_request m)\<lparr>kick_running := True\<rparr>\<rparr>)"
    and "kfm_processFrame m = kfm_performKick (m\<lparr>km_request := (km_request m)\<lparr>kick_running := True\<rparr>\<rparr>)"
    and "km_active (m\<lparr>km_request := r\<rparr>)" and "km_remaining (m\<lparr>km_request := r\<rparr>) = km_remaining m"
  using assms
  by (cases "km_state m"; auto simp: processFrame_def kfm_processFrame_def km_active_def Let_def km_remaining_def)+

lemma frame_plays:
  assumes "km_active m"
  shows "plays_on (m\<lparr>km_request := (km_request m)\<lparr>kick_running := True\<rparr>\<rparr>) (processFrame load m)"
    and "plays_on (m\<lparr>km_request := (km_request m)\<lparr>kick_running := True\<rparr>\<rparr>) (kfm_processFrame m)"
  using assms performKick_plays kfm_performKick_plays by (simp_all add: processFrame_active)

interpretation kick: countdown "processFrame load" km_active km_remaining for load
proof
  fix m assume m: "km_active m"
  note frame_plays(1) [OF m, of load] m
  note p = this
  show "km_remaining m = 0 \<Longrightarrow> \<not> km_active (processFrame load m)"
    using p by (simp add: plays_on_def processFrame_active km_active_def)
  show "0 < km_remaining m \<Longrightarrow> km_active (processFrame load m)"
    using p by (simp add: plays_on_def processFrame_active km_active_def)
  show "0 < km_remaining m \<Longrightarrow> km_remaining (processFrame load m) = km_remaining m - 1"
    using p by (simp add: plays_on_def processFrame_active)
qed

interpretation keyframes: countdown kfm_processFrame km_active km_remaining
proof
  fix m assume m: "km_active m"
  note p = frame_plays(2) [OF m] m
  show "km_remaining m = 0 \<Longrightarrow> \<not> km_active (kfm_processFrame m)"
    using p by (simp add: plays_on_def processFrame_active km_active_def)
  show "0 < km_remaining m \<Longrightarrow> km_active (kfm_processFrame m)"
    using p by (simp add: plays_on_def processFrame_active km_active_def)
  show "0 < km_remaining m \<Longrightarrow> km_remaining (kfm_processFrame m) = km_remaining m - 1"
    using p by (simp add: plays_on_def processFrame_active)
qed

lemma start_fields:
  "km_state (start load m) = Initial" "km_sequence (start load m) = load" "km_keyframe (start load m) = 0"
  "km_frames (start load m) = 0" "kick_type (km_request (start load m)) = kick_type (km_request m)"
  by (simp_all add: start_def Let_def)

lemma start_remaining: "km_remaining (start (Some q) m) = frames_from q 0"
  by (cases q) (simp_all add: km_remaining_def start_fields Let_def frames_from_def)

lemma processFrame_start:
  assumes "kick_type (km_request m) = STRAIGHT" "km_state m = Finished"
  shows "processFrame load m = processFrame load (start load m)"
  using assms by (simp add: processFrame_def start_fields)

lemma processFrame_started:
  assumes "kick_type (km_request m) = STRAIGHT" "km_state m = Finished"
  shows "(processFrame load ^^ Suc k) m = (processFrame load ^^ Suc k) (start load m)"
  using processFrame_start [OF assms] by (simp only: funpow_Suc_right comp_apply)

lemma frame_keeps_type:
  "kick_type (km_request m) = STRAIGHT \<Longrightarrow> load = Some q \<Longrightarrow> kick_type (km_request (processFrame load m)) = STRAIGHT"
proof -
  assume a: "kick_type (km_request m) = STRAIGHT" "load = Some q"
  have *: "kick_type (km_request (processFrame load m)) = STRAIGHT"
    if "km_active m" "kick_type (km_request m) = STRAIGHT" for m
    using frame_plays(1) [OF that(1), of load] that(2) by (simp add: plays_on_def)
  show ?thesis
  proof (cases "km_state m = Finished")
    case True
    then show ?thesis using a * [of "start load m"] processFrame_start [of m load]
      by (simp add: km_active_def start_fields)
  next
    case False
    then show ?thesis using a * [of m]
      by (cases "km_state m"; cases "km_sequence m")
        (simp_all add: km_active_def processFrame_def performKick.simps Let_def)
  qed
qed

text \<open>The keyframe the module is moving to, and what the command block holds for it.\<close>

definition km_target :: "kick_module \<Rightarrow> keyframe" where
  "km_target m = the (km_sequence m) ! (if km_state m = Initial then km_keyframe m else km_keyframe m + 1)"

definition commanded :: "keyframe \<Rightarrow> joint_command_block \<Rightarrow> bool" where
  "commanded kf b \<longleftrightarrow> angles b = joints kf \<and> send_body_angles b \<and> send_head_pitch_angle b \<and> send_head_yaw_angle b \<and>
     body_angle_time b = of_int (kf_frames kf * 10) \<and> head_pitch_angle_time b = of_int (kf_frames kf * 10) \<and>
     head_yaw_angle_time b = of_int (kf_frames kf * 10)"

definition moves_on :: "kick_module \<Rightarrow> kick_module \<Rightarrow> bool" where
  "moves_on m m' \<longleftrightarrow> 0 < km_frames m' \<and>
     (if km_frames m' = 1 then commanded (km_target m') (km_command m')
      else angles (km_command m') = angles (km_command m))"

lemma move_commands:
  "commanded kf (km_command (moveBetweenKeyframes kf 0 m))"
  "c \<noteq> 0 \<Longrightarrow> moveBetweenKeyframes kf c m = m"
  by (simp_all add: commanded_def moveBetweenKeyframes_def setSendAllAngles_def setPoseRad_def)

lemma enter_keyframe_running:
  "km_state (enter_keyframe kf m) = Running \<Longrightarrow>
    enter_keyframe kf m = m \<or> enter_keyframe kf m = m\<lparr>km_state := Running, km_frames := 0\<rparr>"
  by (simp add: enter_keyframe_def moveToInitial_def split: if_splits)

lemma advance_moves:
  assumes q: "km_sequence m = Some q" "km_initial m \<noteq> None" "0 \<le> km_frames m" "km_keyframe m < length q"
    and live: "km_state m \<noteq> Finished"
    and e: "e = enter_keyframe (q ! km_keyframe m) m"
    and fin: "km_state (fin e) = Finished" "km_state (advance fin again q e) \<noteq> Finished"
    and again: "\<And>n. km_active n \<Longrightarrow> km_sequence n = Some q \<Longrightarrow> km_keyframe n = km_keyframe m + 1 \<Longrightarrow> km_initial n \<noteq> None \<Longrightarrow>
      0 \<le> km_frames n \<Longrightarrow> km_state (again n) \<noteq> Finished \<Longrightarrow> moves_on n (again n)"
  shows "moves_on m (advance fin again q e)"
proof (cases "km_state e = Running")
  case False
  then have st: "km_state m = Initial" "km_frames m < kf_frames (q ! km_keyframe m)"
    using live by (cases "km_state m"; auto simp: e enter_keyframe_state split: if_splits)+
  then have "e = moveBetweenKeyframes (q ! km_keyframe m) (km_frames m) m"
    using q by (auto simp: e enter_keyframe_def moveToInitial_def)
  then show ?thesis using False q st move_commands
    by (cases "km_frames m = 0") (simp_all add: advance_def moves_on_def km_target_def)
next
  case running: True
  have "e = m \<or> e = m\<lparr>km_state := Running, km_frames := 0\<rparr>"
    using running unfolding e by (rule enter_keyframe_running)
  then have e': "km_sequence e = Some q" "km_keyframe e = km_keyframe m" "km_initial e \<noteq> None" "0 \<le> km_frames e"
    "angles (km_command e) = angles (km_command m)"
    using q(1,2,3) by auto
  let ?n = "e\<lparr>km_keyframe := km_keyframe e + 1, km_frames := 0\<rparr>"
  have inner: "km_keyframe e \<noteq> length q - 1" using running fin by (auto simp: advance_def)
  show ?thesis
  proof (cases "kf_frames (q ! (km_keyframe e + 1)) \<le> km_frames e")
    case True
    then have adv: "advance fin again q e = again ?n" using running inner by (simp add: advance_def Let_def)
    have "moves_on ?n (again ?n)" using e' running fin(2) adv by (intro again) (simp_all add: km_active_def)
    then show ?thesis using e' by (simp add: adv moves_on_def)
  next
    case False
    then show ?thesis using running inner e' move_commands
      by (cases "km_frames e = 0") (simp_all add: advance_def Let_def moves_on_def km_target_def)
  qed
qed

lemma performKick_moves:
  assumes "km_active m" "km_initial m \<noteq> None" "0 \<le> km_frames m" "km_state (performKick m) \<noteq> Finished"
  shows "moves_on m (performKick m)"
  using assms
proof (induction "length (the (km_sequence m)) - km_keyframe m" arbitrary: m rule: less_induct)
  case less
  then obtain q where q: "km_sequence m = Some q" "km_state m \<noteq> Finished" by (auto simp: km_active_def)
  have in_range: "km_keyframe m < length q"
    using less.prems(4) q by (rule_tac ccontr) (simp add: performKick.simps Let_def)
  note u = performKick_unfold [OF q in_range]
  let ?i = "initStiffness m"
  have "moves_on ?i (advance finish performKick q (enter_keyframe (q ! km_keyframe m) ?i))"
    using q in_range less.prems by (intro advance_moves) (auto simp: u [symmetric] intro!: less.hyps)
  then show ?case by (simp add: u moves_on_def)
qed

section \<open>Properties\<close>

text \<open>
  C12: A requested straight kick always comes to its end. From an idle module and a sequence that
  loads, the kick is in progress, and reported as running, for exactly as many frames as the
  keyframes ask for together, and in the frame after them it is finished and no longer reported as
  running, also for an empty sequence or keyframes with no or negative duration.
\<close>

theorem kick_plays_to_the_end:
  assumes "kick_type (km_request m) = STRAIGHT" "km_state m = Finished"
  shows "(\<forall>k. 0 < k \<and> k \<le> frames_from q 0 \<longrightarrow>
            \<not> finished ((processFrame (Some q) ^^ k) m) \<and>
            kick_running (km_request ((processFrame (Some q) ^^ k) m))) \<and>
         finished ((processFrame (Some q) ^^ Suc (frames_from q 0)) m) \<and>
         \<not> kick_running (km_request ((processFrame (Some q) ^^ Suc (frames_from q 0)) m))"
proof -
  let ?s = "start (Some q) m" and ?f = "processFrame (Some q)" and ?n = "frames_from q 0"
  have s: "km_active ?s" "km_remaining ?s = ?n"
    by (simp_all add: km_active_def start_fields start_remaining)
  have run: "km_active ((?f ^^ k) ?s) \<and> km_remaining ((?f ^^ k) ?s) = ?n - k" if "k \<le> ?n" for k
    using kick.run_active [OF s(1), of k] s(2) that by simp
  have after: "(?f ^^ Suc k) m = ?f ((?f ^^ k) ?s)" for k
    using processFrame_started [OF assms(1,2), of k "Some q"] by simp
  have frame: "\<not> finished ((?f ^^ Suc k) m) \<and> kick_running (km_request ((?f ^^ Suc k) m))" if "k < ?n" for k
    unfolding after using frame_plays(1) [of "(?f ^^ k) ?s" "Some q"] run [of k] that
    by (simp add: plays_on_def processFrame_active finished_def)
  have "finished ((?f ^^ Suc ?n) m) \<and> \<not> kick_running (km_request ((?f ^^ Suc ?n) m))"
    unfolding after using frame_plays(1) [of "(?f ^^ ?n) ?s" "Some q"] run [of ?n]
    by (simp add: plays_on_def processFrame_active finished_def)
  moreover have "\<not> finished ((?f ^^ k) m) \<and> kick_running (km_request ((?f ^^ k) m))" if "0 < k" "k \<le> ?n" for k
    using frame [of "k - 1"] that by (simp del: funpow.simps)
  ultimately show ?thesis by blast
qed

definition idle_kick_module :: "kick_type \<Rightarrow> kick_module \<Rightarrow> kick_module" where
  "idle_kick_module t m = m\<lparr>km_state := Finished, km_request := (km_request m)\<lparr>kick_type := t\<rparr>\<rparr>"

theorem kick_plays_to_the_end_witness:
  "\<forall>m. finished ((processFrame (Some [kf_pose (\<lambda>i. 0) 2, kf_pose (\<lambda>i. 1) 3]) ^^ 6) (idle_kick_module STRAIGHT m)) \<and>
       \<not> finished ((processFrame (Some [kf_pose (\<lambda>i. 0) 2, kf_pose (\<lambda>i. 1) 3]) ^^ 5) (idle_kick_module STRAIGHT m))"
proof
  fix m
  have n: "frames_from [kf_pose (\<lambda>i. 0) 2, kf_pose (\<lambda>i. 1) 3] 0 = 5"
    by (simp add: frames_from_def kf_pose_def)
  show "finished ((processFrame (Some [kf_pose (\<lambda>i. 0) 2, kf_pose (\<lambda>i. 1) 3]) ^^ 6) (idle_kick_module STRAIGHT m)) \<and>
       \<not> finished ((processFrame (Some [kf_pose (\<lambda>i. 0) 2, kf_pose (\<lambda>i. 1) 3]) ^^ 5) (idle_kick_module STRAIGHT m))"
    using kick_plays_to_the_end [of "idle_kick_module STRAIGHT m" "[kf_pose (\<lambda>i. 0) 2, kf_pose (\<lambda>i. 1) 3]"] n
    by (simp add: idle_kick_module_def del: funpow.simps)
qed

text \<open>
  The request is not cleared when a kick ends, because the assignment that should do it is
  written as a comparison: unless another module changes the request, the frame after the end of a
  kick starts the same kick again.
\<close>

theorem kick_restarts:
  assumes "kick_type (km_request m) = STRAIGHT" "km_state m = Finished" "kf_frames kf > 0"
  shows "km_state ((processFrame (Some (kf # q)) ^^ (frames_from (kf # q) 0 + 2)) m) = Initial"
proof -
  let ?f = "processFrame (Some (kf # q))" and ?s = "start (Some (kf # q)) m" and ?n = "frames_from (kf # q) 0"
  have s: "km_active ?s" "km_remaining ?s = ?n"
    by (simp_all add: km_active_def start_fields start_remaining)
  have type: "kick_type (km_request ((?f ^^ k) m)) = STRAIGHT" for k
    by (induction k) (simp_all add: assms frame_keeps_type)
  have fin: "km_state ((?f ^^ Suc ?n) m) = Finished"
    unfolding processFrame_started [OF assms(1,2)]
    using frame_plays(1) [of "(?f ^^ ?n) ?s" "Some (kf # q)"] kick.run_active [OF s(1), of ?n] s(2)
    by (simp add: plays_on_def processFrame_active)
  define e where "e = (?f ^^ Suc ?n) m"
  let ?e = "start (Some (kf # q)) e"
  have "?f e = ?f ?e" using type [of "Suc ?n"] fin unfolding e_def by (rule processFrame_start)
  also have "\<dots> = performKick (?e\<lparr>km_request := (km_request ?e)\<lparr>kick_running := True\<rparr>\<rparr>)"
    by (rule processFrame_active) (simp add: km_active_def start_fields)
  finally have "km_state (?f e) = Initial"
    using assms(3) by (simp add: performKick_unfold [of _ "kf # q"] start_fields advance_def enter_keyframe_state)
  then show ?thesis by (simp add: e_def)
qed

theorem kick_restarts_witness:
  "\<forall>m. km_state ((processFrame (Some [kf_pose (\<lambda>i. 0) 2]) ^^ 4) (idle_kick_module STRAIGHT m)) = Initial"
  using kick_restarts [of "idle_kick_module STRAIGHT _" "kf_pose (\<lambda>i. 0) 2" "[]"]
  by (simp add: idle_kick_module_def kf_pose_def frames_from_def del: funpow.simps)

text \<open>
  C36: The poses a kick commands: while it is in progress, the frame that enters a movement (the
  frame counter is then 1) commands the pose of the keyframe the module moves to, for all joints and
  with ten milliseconds for each of the keyframe's frames; the other frames leave the commanded
  angles as they are.
\<close>

theorem kick_commands_keyframes:
  assumes "km_active m" "km_initial m \<noteq> None" "0 \<le> km_frames m" "\<not> finished (processFrame load m)"
  shows "0 < km_frames (processFrame load m) \<and>
    (if km_frames (processFrame load m) = 1
     then commanded (km_target (processFrame load m)) (km_command (processFrame load m))
     else angles (km_command (processFrame load m)) = angles (km_command m))"
proof -
  let ?r = "m\<lparr>km_request := (km_request m)\<lparr>kick_running := True\<rparr>\<rparr>"
  have "moves_on ?r (performKick ?r)"
    using assms processFrame_active [OF assms(1)]
    by (intro performKick_moves) (simp_all add: finished_def)
  then show ?thesis using processFrame_active(1) [OF assms(1), of load] by (simp add: moves_on_def)
qed

theorem kick_commands_keyframes_witness:
  "\<forall>m. commanded (kf_pose (\<lambda>i. 1) 2) (km_command (processFrame None (start (Some [kf_pose (\<lambda>i. 1) 2]) m)))"
proof
  fix m
  let ?s = "start (Some [kf_pose (\<lambda>i. 1) 2]) m"
  have s: "km_active ?s" "km_initial ?s \<noteq> None" by (simp_all add: km_active_def start_def Let_def)
  have f: "processFrame None ?s = performKick (?s\<lparr>km_request := (km_request ?s)\<lparr>kick_running := True\<rparr>\<rparr>)"
    by (rule processFrame_active(1) [OF s(1)])
  have st: "km_state (processFrame None ?s) = Initial" "km_frames (processFrame None ?s) = 1"
    "km_keyframe (processFrame None ?s) = 0" "km_sequence (processFrame None ?s) = Some [kf_pose (\<lambda>i. 1) 2]"
    unfolding f by (simp_all add: performKick_unfold [of _ "[kf_pose (\<lambda>i. 1) 2]"] start_fields advance_def
        enter_keyframe_state kf_pose_def)
  show "commanded (kf_pose (\<lambda>i. 1) 2) (km_command (processFrame None ?s))"
    using kick_commands_keyframes [OF s, of None] st by (simp add: km_target_def finished_def start_fields)
qed

text \<open>
  When the sequence cannot be loaded, the kick never ends: the module stays in its initial
  state, with the kick reported as running, for any number of frames.
\<close>

theorem kick_without_sequence_hangs:
  assumes "kick_type (km_request m) = STRAIGHT" "km_state m = Finished" "0 < k"
  shows "km_state ((processFrame None ^^ k) m) = Initial \<and> kick_running (km_request ((processFrame None ^^ k) m))"
proof -
  have *: "km_state m' = Initial \<and> km_sequence m' = None \<Longrightarrow>
      km_state (processFrame None m') = Initial \<and> km_sequence (processFrame None m') = None \<and>
      kick_running (km_request (processFrame None m'))" for m'
    by (simp add: processFrame_def Let_def performKick.simps)
  have run: "km_state ((processFrame None ^^ Suc n) (start None m)) = Initial \<and>
      km_sequence ((processFrame None ^^ Suc n) (start None m)) = None \<and>
      kick_running (km_request ((processFrame None ^^ Suc n) (start None m)))" for n
    by (induction n) (simp_all add: * start_fields)
  show ?thesis using processFrame_started [OF assms(1,2), of "k - 1" None] run [of "k - 1"] assms(3)
    by (simp del: funpow.simps)
qed

theorem kick_without_sequence_hangs_witness:
  "\<forall>m. km_state ((processFrame None ^^ 1000) (idle_kick_module STRAIGHT m)) = Initial"
  using kick_without_sequence_hangs [of "idle_kick_module STRAIGHT _" 1000]
  by (simp add: idle_kick_module_def del: funpow.simps)

end
