(* ===== verification/C_Text.thy ===== *)
theory C_Text
  imports Prelude
begin

text \<open>
  Characters and decimal numbers as the C library and the Qt library read and print them, as far as
  the modelled programs use them: \<open>isdigit\<close>, \<open>isspace\<close>, \<open>atof\<close>, \<open>std::stoi\<close> (on 32-bit integers) and
  the decimal notation of an integer, which \<open>QString::number\<close> produces.
\<close>

section \<open>Characters and numbers of the C library\<close>

definition c_isdigit :: "char \<Rightarrow> bool" where
  "c_isdigit c = (48 \<le> (of_char c :: nat) \<and> (of_char c :: nat) \<le> 57)"

definition c_isspace :: "char \<Rightarrow> bool" where
  "c_isspace c = ((of_char c :: nat) = 32 \<or> 9 \<le> (of_char c :: nat) \<and> (of_char c :: nat) \<le> 13)"

definition digits_nat :: "string \<Rightarrow> nat" where
  "digits_nat ds = foldl (\<lambda>n c. 10 * n + (of_char c - 48)) 0 ds"

text \<open>\<open>atof\<close> on decimal notation: the longest prefix that is a number, 0 when there is none.\<close>

definition c_signed :: "string \<Rightarrow> bool \<times> string" where
  "c_signed s = (if s \<noteq> [] \<and> hd s = CHR ''-'' then (True, tl s)
                 else if s \<noteq> [] \<and> hd s = CHR ''+'' then (False, tl s) else (False, s))"

definition c_atof :: "string \<Rightarrow> real" where
  "c_atof s =
     (let (neg, s) = c_signed (dropWhile c_isspace s);
          ip = takeWhile c_isdigit s; s = dropWhile c_isdigit s;
          dot = (s \<noteq> [] \<and> hd s = CHR ''.'');
          fp = (if dot then takeWhile c_isdigit (tl s) else []);
          s = (if dot then dropWhile c_isdigit (tl s) else s);
          mantissa = real (digits_nat (ip @ fp)) / 10 ^ length fp;
          (eneg, ex) = (if s \<noteq> [] \<and> (hd s = CHR ''e'' \<or> hd s = CHR ''E'') then c_signed (tl s) else (False, []));
          scale = 10 ^ digits_nat (takeWhile c_isdigit ex);
          v = (if eneg then mantissa / scale else mantissa * scale)
      in if neg then - v else v)"

section \<open>Integers in decimal notation\<close>

datatype text_error = Invalid_Argument | Out_Of_Range | Out_Of_Bounds | Assertion_Failed

definition c_stoi :: "string \<Rightarrow> text_error + int" where
  "c_stoi s =
     (let (neg, s) = c_signed (dropWhile c_isspace s); ds = takeWhile c_isdigit s;
          v = (if neg then - int (digits_nat ds) else int (digits_nat ds))
      in if ds = [] then Inl Invalid_Argument
         else if v < - (2 ^ 31) \<or> 2 ^ 31 \<le> v then Inl Out_Of_Range else Inr v)"

definition digit_char :: "nat \<Rightarrow> char" where
  "digit_char d = char_of (48 + d)"

fun show_nat :: "nat \<Rightarrow> string" where
  "show_nat n = (if n < 10 then [digit_char n] else show_nat (n div 10) @ [digit_char (n mod 10)])"

declare show_nat.simps [simp del]

definition show_int :: "int \<Rightarrow> string" where
  "show_int i = (if i < 0 then CHR ''-'' # show_nat (nat (- i)) else show_nat (nat i))"

lemma digit_char_value [simp]: "d < 10 \<Longrightarrow> of_char (digit_char d) = 48 + d"
  by (simp add: digit_char_def)

lemma digit_char_digit [simp]: "d < 10 \<Longrightarrow> c_isdigit (digit_char d)"
  by (simp add: c_isdigit_def)

lemma digits_nat_append: "digits_nat (xs @ [c]) = 10 * digits_nat xs + (of_char c - 48)"
  by (simp add: digits_nat_def)

lemma show_nat_digits: "\<forall>c \<in> set (show_nat n). c_isdigit c"
proof (induction n rule: show_nat.induct)
  case (1 n)
  then show ?case by (subst show_nat.simps) auto
qed

lemma show_nat_nonempty [simp]: "show_nat n \<noteq> []"
  by (subst show_nat.simps) simp

lemma digits_show_nat [simp]: "digits_nat (show_nat n) = n"
proof (induction n rule: show_nat.induct)
  case (1 n)
  show ?case
  proof (cases "n < 10")
    case True
    then show ?thesis by (subst show_nat.simps) (simp add: digits_nat_def)
  next
    case False
    then show ?thesis using 1 by (subst show_nat.simps) (simp add: digits_nat_append)
  qed
qed

lemma show_nat_length: "n < 10 ^ Suc k \<Longrightarrow> length (show_nat n) \<le> Suc k"
proof (induction k arbitrary: n)
  case 0
  then show ?case by (subst show_nat.simps) simp
next
  case (Suc k)
  have "n div 10 < 10 ^ Suc k" using Suc.prems by (simp add: less_mult_imp_div_less)
  then show ?case using Suc.IH [of "n div 10"] by (subst show_nat.simps) simp
qed

lemma digit_not_space: "c_isdigit c \<Longrightarrow> \<not> c_isspace c" "c_isdigit c \<Longrightarrow> c \<noteq> CHR ''-''" "c_isdigit c \<Longrightarrow> c \<noteq> CHR ''+''"
  by (auto simp: c_isdigit_def c_isspace_def)

lemma show_int_length:
  assumes "- (2 ^ 31) \<le> v" "v < 2 ^ 31" shows "length (show_int v) \<le> 11"
proof -
  have "nat v < 10 ^ Suc 9" "nat (- v) < 10 ^ Suc 9" using assms by (simp_all add: nat_less_iff)
  then have "length (show_nat (nat v)) \<le> 10" "length (show_nat (nat (- v))) \<le> 10"
    using show_nat_length [of "nat v" 9] show_nat_length [of "nat (- v)" 9] by simp_all
  then show ?thesis by (simp add: show_int_def)
qed

lemma takeWhile_show_nat [simp]: "takeWhile c_isdigit (show_nat n) = show_nat n"
  using show_nat_digits by (simp add: takeWhile_eq_all_conv)

lemma stoi_show_int:
  assumes "- (2 ^ 31) \<le> v" "v < 2 ^ 31"
  shows "c_stoi (show_int v) = Inr v"
proof (cases "v < 0")
  case True
  then show ?thesis using assms by (simp add: c_stoi_def show_int_def c_signed_def c_isspace_def Let_def)
next
  case False
  obtain c cs where n: "show_nat (nat v) = c # cs" by (cases "show_nat (nat v)") auto
  then have "c_isdigit c" using show_nat_digits [of "nat v"] by auto
  then have "dropWhile c_isspace (show_nat (nat v)) = show_nat (nat v)" "c_signed (show_nat (nat v)) = (False, show_nat (nat v))"
    using digit_not_space n by (simp_all add: c_signed_def)
  then show ?thesis using False assms by (simp add: c_stoi_def show_int_def Let_def)
qed

lemma show_int_chars: "c \<in> set (show_int v) \<Longrightarrow> c \<noteq> CHR '' '' \<and> c \<noteq> CHR ''|''"
  using show_nat_digits [of "nat v"] show_nat_digits [of "nat (- v)"]
  by (auto simp: show_int_def c_isdigit_def split: if_splits)

end
