(* ===== verification/Special_Motion.thy ===== *)
theory Special_Motion
  imports Memory_Blocks C_Text
begin

text \<open>
  Timed joint motions read from text files: the parser of \<open>src/core/motion/SpecialMotionParser.cpp\<close>
  and the player of \<open>src/core/motion/SpecialMotionModule.cpp\<close>. A file is the list of its lines,
  \<^term>\<open>None\<close> when it cannot be opened. The static table \<open>motionSeqList\<close> is the argument \<open>seqs\<close> of the
  operations that read it. Memory blocks that are only read are collected in the record
  \<open>special_input\<close>; those that are written are fields of the module's record. Printing is left out.
\<close>

section \<open>Motions\<close>

abbreviation (input) VOID_NUM :: real where "VOID_NUM \<equiv> - 720"

datatype motion_type = Null | Hardness | JointAngle

record special_motion =
  mType :: motion_type
  m_time :: real
  m_stiffness :: real
  jointMotions :: "joint \<Rightarrow> real"

definition sm_void :: special_motion where
  "sm_void = \<lparr>mType = Null, m_time = 0, m_stiffness = 1, jointMotions = (\<lambda>i. VOID_NUM)\<rparr>"

text \<open>The constructor from a type, at the type \<open>Motions::null\<close>, the only one the code uses.\<close>

definition sm_null :: special_motion where
  "sm_null = \<lparr>mType = JointAngle, m_time = 0, m_stiffness = 1, jointMotions = (\<lambda>i. VOID_NUM)\<rparr>"

definition jointMapping :: "joint list" where
  "jointMapping =
     [HeadYaw, HeadPitch, LShoulderPitch, LShoulderRoll, LElbowYaw, LElbowRoll, RShoulderPitch,
      RShoulderRoll, RElbowYaw, RElbowRoll, LHipYawPitch, LHipRoll, LHipPitch, LKneePitch,
      LAnklePitch, LAnkleRoll, RHipYawPitch, RHipRoll, RHipPitch, RKneePitch, RAnklePitch, RAnkleRoll]"

text \<open>
  The table of the short joint names lacks the commas after its second entry: the literals are
  concatenated to one string, and the remaining entries are empty.
\<close>

definition jointName1 :: "string list" where
  "jointName1 =
     [''HY'',
      ''HP'' @ ''LSP'' @ ''LSR'' @ ''LEY'' @ ''LER'' @ ''RSP'' @ ''RSR'' @ ''REY'' @ ''RER'' @ ''LHYP'' @ ''LHR'' @
      ''LHP'' @ ''LKP'' @ ''LAP'' @ ''LAR'' @ ''RHYP'' @ ''RHR'' @ ''RHP'' @ ''RKP'' @ ''RAP'' @ ''RAR''] @ replicate 20 ''''"

section \<open>The parser\<close>

definition is_separator :: "char \<Rightarrow> bool" where
  "is_separator c = (c = CHR '' '' \<or> c = CHR 0x09 \<or> c = CHR 0x0A)"

function tokenize :: "string \<Rightarrow> string list" where
  "tokenize line =
     (let tok = takeWhile (\<lambda>c. \<not> is_separator c) line; rest = dropWhile (\<lambda>c. \<not> is_separator c) line in
      if rest = [] then (if length tok > 0 then [tok] else [])
      else (if length tok > 0 \<and> hd line \<noteq> CHR '' '' then [tok] else []) @ tokenize (tl rest))"
  by pat_completeness auto
termination
  by (relation "measure length") (auto simp: length_tl_dropWhile simp del: length_tl dropWhile_eq_Nil_conv)

declare tokenize.simps [simp del]

record parser_state =
  findName :: bool
  reMapping :: bool
  fileMapping :: "nat list"
  mappingSize :: nat
  MotionSequence :: "special_motion list"

definition parser_init :: "special_motion list \<Rightarrow> parser_state" where
  "parser_init ms = \<lparr>findName = False, reMapping = False, fileMapping = [], mappingSize = NUM_JOINTS, MotionSequence = ms\<rparr>"

definition starts_with :: "string \<Rightarrow> string \<Rightarrow> bool" where
  "starts_with line prefix = (length line > length prefix \<and> take (length prefix) line = prefix)"

abbreviation is_void_token :: "string \<Rightarrow> bool" where
  "is_void_token t \<equiv> t = ''*'' \<or> t = ''-''"

definition token_value :: "string \<Rightarrow> real" where
  "token_value t = (if is_void_token t then VOID_NUM else c_atof t)"

text \<open>The joint the \<open>i\<close>-th column of a line is for.\<close>

definition column_joint :: "parser_state \<Rightarrow> nat \<Rightarrow> joint" where
  "column_joint p i = jointMapping ! (if reMapping p then fileMapping p ! i else i)"

fun set_columns :: "parser_state \<Rightarrow> nat \<Rightarrow> string list \<Rightarrow> (joint \<Rightarrow> real) \<Rightarrow> (joint \<Rightarrow> real)" where
  "set_columns p i [] js = js"
| "set_columns p i (t # ts) js = set_columns p (Suc i) ts (js(column_joint p i := token_value t))"

definition parse_hardness :: "parser_state \<Rightarrow> string list \<Rightarrow> parser_state" where
  "parse_hardness p tokens =
     (let sMotion = sm_void\<lparr>mType := Hardness, m_stiffness := 1\<rparr> in
      if length tokens \<noteq> mappingSize p + 2 then p
      else let sMotion = sMotion\<lparr>jointMotions := set_columns p 0 (butlast (tl tokens)) (jointMotions sMotion)\<rparr>;
               sMotion = sMotion\<lparr>m_time := (if is_void_token (last tokens) then 0 else c_atof (last tokens))\<rparr>
           in p\<lparr>MotionSequence := MotionSequence p @ [sMotion]\<rparr>)"

definition parse_angles :: "parser_state \<Rightarrow> string list \<Rightarrow> parser_state" where
  "parse_angles p tokens =
     (let sMotion = sm_void\<lparr>mType := JointAngle\<rparr> in
      if length tokens \<noteq> mappingSize p + 2 then p
      else let sMotion = sMotion\<lparr>jointMotions := set_columns p 0 (take (length tokens - 2) tokens) (jointMotions sMotion)\<rparr>;
               sMotion = sMotion\<lparr>m_stiffness := c_atof (tokens ! (length tokens - 2))\<rparr>;
               sMotion = sMotion\<lparr>m_time := c_atof (tokens ! (length tokens - 1))\<rparr>
           in p\<lparr>MotionSequence := MotionSequence p @ [sMotion]\<rparr>)"

text \<open>
  The loop over the columns of a header line runs up to \<open>tokens.size()-2\<close>, which wraps around for a
  line of one token: reading on from there is undefined (\<^term>\<open>None\<close>).
\<close>

definition parse_header :: "parser_state \<Rightarrow> string list \<Rightarrow> parser_state option" where
  "parse_header p tokens =
     (if length tokens < 2 then None
      else let found = concat (map (\<lambda>t. filter (\<lambda>j. t = jointName1 ! j) [0..<NUM_JOINTS])
                                   (take (length tokens - 3) (tl tokens)));
               mapping = fileMapping p @ found
           in Some (p\<lparr>fileMapping := mapping, mappingSize := length mapping, reMapping := True\<rparr>))"

text \<open>
  One line. The test for \<open>label\<close> compares the first four characters with a word of five and needs
  \<open>labelStart\<close> to be false, which it never is: the branch is never taken.
\<close>

definition parse_line :: "parser_state \<Rightarrow> string \<Rightarrow> parser_state option" where
  "parse_line p line =
     (if length line = 0 then Some p
      else if hd line = CHR 0x22 \<or> c_isspace (hd line) then Some p
      else let tokens = tokenize line in
           if \<not> findName p then Some (p\<lparr>findName := True\<rparr>)
           else if starts_with line ''transition'' then Some p
           else if starts_with line ''hardness'' then Some (parse_hardness p tokens)
           else case tokens of
             [] \<Rightarrow> None
           | t # _ \<Rightarrow>
               if c_isdigit (hd t) \<or> hd t = CHR ''-'' \<or> hd t = CHR ''*'' then Some (parse_angles p tokens)
               else if findName p \<and> \<not> reMapping p \<and> hd t = CHR ''H'' then parse_header p tokens
               else Some p)"

fun parse_lines :: "parser_state \<Rightarrow> string list \<Rightarrow> parser_state option" where
  "parse_lines p [] = Some p"
| "parse_lines p (l # ls) = (case parse_line p l of None \<Rightarrow> None | Some p' \<Rightarrow> parse_lines p' ls)"

definition ParseMotionFile :: "string list option \<Rightarrow> special_motion list \<Rightarrow> (bool \<times> special_motion list) option" where
  "ParseMotionFile contents ms =
     (case contents of
        None \<Rightarrow> Some (False, ms)
      | Some lines \<Rightarrow> map_option (\<lambda>p. (True, MotionSequence p)) (parse_lines (parser_init ms) lines))"

section \<open>Loading the motions\<close>

datatype motion_name = Getup | standUpBackNao | standUpFrontNao | backFreeArms

definition isVoidNum :: "real \<Rightarrow> bool" where
  "isVoidNum val = (\<bar>val - VOID_NUM\<bar> < 1)"

definition isValueValid :: "real \<Rightarrow> bool" where
  "isValueValid val = (val > - 3 \<and> val < 3)"

definition convert_units :: "special_motion \<Rightarrow> special_motion" where
  "convert_units sm =
     (case mType sm of
        Null \<Rightarrow> sm
      | Hardness \<Rightarrow> sm\<lparr>jointMotions := (\<lambda>j. jointMotions sm j / 100)\<rparr>
      | JointAngle \<Rightarrow>
          sm\<lparr>jointMotions := (\<lambda>j. if \<not> isVoidNum (jointMotions sm j) then jointMotions sm j * DEG_T_RAD else jointMotions sm j)\<rparr>)"

text \<open>The loop that makes the times cumulative, in seconds; the argument is the time of the entry before.\<close>

fun convert_times :: "real option \<Rightarrow> special_motion list \<Rightarrow> special_motion list" where
  "convert_times prev [] = []"
| "convert_times prev (sm # sms) =
     (let t = m_time sm * (1 / 1000);
          t = (case prev of None \<Rightarrow> t | Some p \<Rightarrow> t + p)
      in sm\<lparr>m_time := t\<rparr> # convert_times (Some t) sms)"

definition load_motion :: "string list option \<Rightarrow> special_motion list option" where
  "load_motion contents =
     map_option (\<lambda>(ok, ms). convert_times None (map convert_units ms)) (ParseMotionFile contents [sm_null])"

text \<open>The table of all motions; \<open>files\<close> gives the contents of each motion's file.\<close>

definition loadMotionFiles :: "(motion_name \<Rightarrow> string list option) \<Rightarrow> motion_name \<Rightarrow> special_motion list option" where
  "loadMotionFiles files m = (if m = Getup then Some [] else load_motion (files m))"

section \<open>The player\<close>

datatype special_state =
    INITIAL | EXECUTE | WAIT | FINISHED | STIFFNESS_OFF | PREPARE_ARMS | STIFFNESS_ON | CROSS | STAND
  | FREE_ARMS | PAUSE_BEFORE_RESTART | NO_ESCAPE

record special_input =
  seconds_since_start :: real
  in_joint_angles :: joint_block
  in_walk_request :: walk_request_block

record special_module =
  currMotion :: "motion_name option"
  sp_state :: special_state
  stateStartTime :: real
  storedAngles :: "joint \<Rightarrow> real"
  storedCommands :: "joint \<Rightarrow> real"
  sp_commands :: joint_command_block
  sp_odometry :: odometry_block

text \<open>\<open>NUM_Motions\<close>, the motion of a new module, is \<^term>\<open>None\<close>.\<close>

definition sp_new :: "'z special_module_scheme \<Rightarrow> 'z special_module_scheme" where
  "sp_new s = s\<lparr>currMotion := None, sp_state := FINISHED\<rparr>"

definition transitionToState :: "special_input \<Rightarrow> special_state \<Rightarrow> 'z special_module_scheme \<Rightarrow> 'z special_module_scheme" where
  "transitionToState inp nstate s = s\<lparr>sp_state := nstate, stateStartTime := seconds_since_start inp\<rparr>"

definition getTimeInState :: "special_input \<Rightarrow> 'z special_module_scheme \<Rightarrow> real" where
  "getTimeInState inp s = seconds_since_start inp - stateStartTime s"

definition startMotion :: "special_input \<Rightarrow> motion_name \<Rightarrow> 'z special_module_scheme \<Rightarrow> 'z special_module_scheme" where
  "startMotion inp m s = transitionToState inp INITIAL (s\<lparr>currMotion := Some m\<rparr>)"

definition isDoingSpecialMotion :: "'z special_module_scheme \<Rightarrow> bool" where
  "isDoingSpecialMotion s = (sp_state s \<noteq> INITIAL \<and> sp_state s \<noteq> FINISHED)"

text \<open>
  The sequence of the current motion. Reading the table at \<open>NUM_Motions\<close>, or the last entry of an empty
  sequence, is undefined: \<^term>\<open>None\<close>.
\<close>

definition curr_seq :: "(motion_name \<Rightarrow> special_motion list) \<Rightarrow> 'z special_module_scheme \<Rightarrow> special_motion list option" where
  "curr_seq seqs s = map_option seqs (currMotion s)"

definition isMotionDoneExecuting ::
  "(motion_name \<Rightarrow> special_motion list) \<Rightarrow> special_input \<Rightarrow> 'z special_module_scheme \<Rightarrow> bool option" where
  "isMotionDoneExecuting seqs inp s =
     (case curr_seq seqs s of
        None \<Rightarrow> None
      | Some q \<Rightarrow> if q = [] then None else Some (getTimeInState inp s > m_time (last q)))"

definition maxMove :: real where
  "maxMove = DEG_T_RAD * 20"

definition crop_step :: "real \<Rightarrow> real \<Rightarrow> real" where
  "crop_step stored target =
     (let delta = target - stored in
      if \<bar>delta\<bar> > maxMove then stored + delta / \<bar>delta\<bar> * maxMove else target)"

definition processJointCommands :: "real \<Rightarrow> (joint \<Rightarrow> real) \<Rightarrow> 'z special_module_scheme \<Rightarrow> 'z special_module_scheme" where
  "processJointCommands time targets s =
     (let c = setSendAllAngles True time (sp_commands s);
          c = c\<lparr>stiffness := (\<lambda>i. 1), angles := (\<lambda>i. crop_step (storedCommands s i) (targets i))\<rparr>
      in s\<lparr>sp_commands := c, storedCommands := (\<lambda>i. angles c i)\<rparr>)"

definition processJointHardness :: "real \<Rightarrow> (joint \<Rightarrow> real) \<Rightarrow> 'z special_module_scheme \<Rightarrow> 'z special_module_scheme" where
  "processJointHardness time stiff s =
     (if time = 0 then s
      else s\<lparr>sp_commands := (sp_commands s)\<lparr>send_stiffness := True, stiffness_time := time,
               stiffness := (\<lambda>i. if stiff i < 0 \<or> stiff i > 1 then 1 else stiff i)\<rparr>\<rparr>)"

definition startMotionSequence :: "'z special_module_scheme \<Rightarrow> 'z special_module_scheme" where
  "startMotionSequence s =
     s\<lparr>sp_commands := (sp_commands s)\<lparr>send_stiffness := True, stiffness_time := 10, stiffness := (\<lambda>i. 1)\<rparr>\<rparr>"

fun first_after :: "real \<Rightarrow> nat \<Rightarrow> special_motion list \<Rightarrow> nat option" where
  "first_after t i [] = None"
| "first_after t i (sm # sms) = (if t < m_time sm then Some i else first_after t (Suc i) sms)"

definition getCurrentFrame :: "special_motion list \<Rightarrow> real \<Rightarrow> nat" where
  "getCurrentFrame q timeInState = (case first_after timeInState 1 (tl q) of None \<Rightarrow> 1 | Some i \<Rightarrow> i)"

text \<open>
  The interpolation of one joint between the frames before and at \<open>curr\<close>: the new stored angle and
  the target.
\<close>

definition interpolate :: "special_motion \<Rightarrow> special_motion \<Rightarrow> real \<Rightarrow> real \<Rightarrow> real \<Rightarrow> joint \<Rightarrow> real \<times> real" where
  "interpolate prev cur frameFrac measured stored i =
     (if \<not> isValueValid (jointMotions cur i) then (measured, measured)
      else if mType prev \<noteq> JointAngle \<or> \<not> isValueValid (jointMotions prev i)
      then (stored, stored + frameFrac * (jointMotions cur i - stored))
      else (stored, jointMotions prev i + frameFrac * (jointMotions cur i - jointMotions prev i)))"

definition executeMotionSequence ::
  "(motion_name \<Rightarrow> special_motion list) \<Rightarrow> special_input \<Rightarrow> 'z special_module_scheme \<Rightarrow> 'z special_module_scheme option" where
  "executeMotionSequence seqs inp s =
     (case curr_seq seqs s of
        None \<Rightarrow> None
      | Some q \<Rightarrow> Some
          (let timeInState = getTimeInState inp s;
               measured = joint_values (in_joint_angles inp);
               s = (if timeInState < 15 / 1000 then s\<lparr>storedAngles := measured, storedCommands := measured\<rparr> else s);
               cur = getCurrentFrame q timeInState;
               prev = cur - 1
           in if cur \<ge> length q then s
              else let frameFrac = (timeInState - m_time (q ! prev)) / (m_time (q ! cur) - m_time (q ! prev)) in
                   case mType (q ! cur) of
                     Hardness \<Rightarrow> processJointHardness 1 (jointMotions (q ! cur)) s
                   | JointAngle \<Rightarrow>
                       let r = (\<lambda>i. interpolate (q ! prev) (q ! cur) frameFrac (measured i) (storedAngles s i) i)
                       in processJointCommands 1 (\<lambda>i. snd (r i)) (s\<lparr>storedAngles := (\<lambda>i. fst (r i))\<rparr>)
                   | Null \<Rightarrow> s))"

text \<open>
  \<open>processFrame\<close>; the virtual \<open>processFrameChild\<close> is an argument. It returns whether it has handled the
  frame.
\<close>

definition sp_processFrame ::
  "(special_input \<Rightarrow> 'z special_module_scheme \<Rightarrow> (bool \<times> 'z special_module_scheme) option) \<Rightarrow>
   (motion_name \<Rightarrow> special_motion list) \<Rightarrow> special_input \<Rightarrow> 'z special_module_scheme \<Rightarrow> 'z special_module_scheme option" where
  "sp_processFrame child seqs inp s =
     (case child inp s of
        None \<Rightarrow> None
      | Some (handled, s) \<Rightarrow>
          if handled then Some s
          else case sp_state s of
            INITIAL \<Rightarrow> Some (startMotionSequence (transitionToState inp EXECUTE s))
          | EXECUTE \<Rightarrow>
              (case isMotionDoneExecuting seqs inp s of
                 None \<Rightarrow> None
               | Some d \<Rightarrow> if d then Some (transitionToState inp WAIT s) else executeMotionSequence seqs inp s)
          | WAIT \<Rightarrow> Some (if getTimeInState inp s > 5 / 10 then transitionToState inp FINISHED s else s)
          | _ \<Rightarrow> Some s)"

section \<open>Lemmas\<close>

lemma tokenize_tokens:
  "filter (\<lambda>c. \<not> is_separator c) line = concat (tokenize line) \<and>
   (\<forall>t \<in> set (tokenize line). t \<noteq> [] \<and> (\<forall>c \<in> set t. \<not> is_separator c))"
proof (induction line rule: tokenize.induct)
  case (1 line)
  define tok rest where "tok = takeWhile (\<lambda>c. \<not> is_separator c) line"
    and "rest = dropWhile (\<lambda>c. \<not> is_separator c) line"
  have line: "line = tok @ rest" and tok: "\<forall>c \<in> set tok. \<not> is_separator c"
    by (simp_all add: tok_def rest_def) (metis set_takeWhileD)
  have hd_ok: "tok \<noteq> [] \<Longrightarrow> hd line \<noteq> CHR '' ''"
    using tok line by (cases tok) (auto simp: is_separator_def)
  have "rest \<noteq> [] \<Longrightarrow> is_separator (hd rest)"
    unfolding rest_def using hd_dropWhile by blast
  then have fil: "filter (\<lambda>c. \<not> is_separator c) line = tok @ filter (\<lambda>c. \<not> is_separator c) (tl rest)"
    using line tok by (cases rest) (simp_all add: filter_id_conv)
  have unf: "tokenize line =
      (if rest = [] then (if length tok > 0 then [tok] else [])
       else (if length tok > 0 \<and> hd line \<noteq> CHR '' '' then [tok] else []) @ tokenize (tl rest))"
    by (subst tokenize.simps) (simp add: tok_def rest_def Let_def)
  show ?case
  proof (cases "rest = []")
    case True
    then show ?thesis using unf fil tok by (cases tok) auto
  next
    case False
    have "tok \<noteq> [] \<Longrightarrow> tokenize line = tok # tokenize (tl rest)" and "tok = [] \<Longrightarrow> tokenize line = tokenize (tl rest)"
      using unf False hd_ok by simp_all
    moreover have "filter (\<lambda>c. \<not> is_separator c) (tl rest) = concat (tokenize (tl rest))"
      "\<forall>t \<in> set (tokenize (tl rest)). t \<noteq> [] \<and> (\<forall>c \<in> set t. \<not> is_separator c)"
      using 1 [OF tok_def rest_def False] by simp_all
    ultimately show ?thesis using fil tok by (cases "tok = []") auto
  qed
qed

lemma jointMapping_facts: "distinct jointMapping" "length jointMapping = NUM_JOINTS" "j \<in> set jointMapping"
  by (simp_all add: jointMapping_def) (cases j; simp)

lemma set_columns_other:
  "\<forall>k < length ts. column_joint p (i + k) \<noteq> j \<Longrightarrow> set_columns p i ts js j = js j"
proof (induction ts arbitrary: i js)
  case (Cons t ts)
  have "column_joint p i \<noteq> j" using Cons.prems by force
  moreover have "\<forall>k < length ts. column_joint p (Suc i + k) \<noteq> j"
    using Cons.prems by (metis Suc_less_eq add_Suc_shift length_Cons)
  ultimately show ?case using Cons.IH by simp
qed simp

lemma set_columns_nth:
  assumes "\<And>a b. a < n \<Longrightarrow> b < n \<Longrightarrow> column_joint p a = column_joint p b \<Longrightarrow> a = b"
  shows "i + length ts \<le> n \<Longrightarrow> k < length ts \<Longrightarrow> set_columns p i ts js (column_joint p (i + k)) = token_value (ts ! k)"
proof (induction ts arbitrary: i k js)
  case (Cons t ts)
  show ?case
  proof (cases k)
    case 0
    have "\<forall>l < length ts. column_joint p (Suc i + l) \<noteq> column_joint p i"
      using assms [of "Suc i + _" i] Cons.prems by fastforce
    then show ?thesis using 0 by (simp add: set_columns_other)
  next
    case (Suc l)
    then show ?thesis using Cons.IH [of "Suc i" l] Cons.prems by simp
  qed
qed simp

lemma column_joint_inj:
  "\<not> reMapping p \<Longrightarrow> a < NUM_JOINTS \<Longrightarrow> b < NUM_JOINTS \<Longrightarrow> column_joint p a = column_joint p b \<Longrightarrow> a = b"
  using jointMapping_facts by (simp add: column_joint_def nth_eq_iff_index_eq)

lemma convert_times_length [simp]: "length (convert_times pr ms) = length ms"
  by (induction ms arbitrary: pr) (simp_all add: Let_def)

lemma convert_times_nth:
  "i < length ms \<Longrightarrow> m_time (convert_times pr ms ! i) =
     (case pr of None \<Rightarrow> 0 | Some p \<Rightarrow> p) + (\<Sum>j\<le>i. m_time (ms ! j)) / 1000"
proof (induction ms arbitrary: i pr)
  case (Cons sm ms)
  show ?case
  proof (cases i)
    case (Suc k)
    have "(\<Sum>j\<le>Suc k. m_time ((sm # ms) ! j)) = m_time sm + (\<Sum>j\<le>k. m_time (ms ! j))"
      by (simp add: sum.atMost_Suc_shift del: sum.atMost_Suc)
    then show ?thesis using Cons Suc by (simp add: Let_def add_divide_distrib split: option.split)
  qed (simp add: Let_def split: option.split)
qed simp

lemma convert_units_time [simp]: "m_time (convert_units sm) = m_time sm"
  by (simp add: convert_units_def split: motion_type.split)

lemma parse_line_extends:
  "parse_line p l = Some p' \<Longrightarrow> \<exists>new. MotionSequence p' = MotionSequence p @ new"
  by (auto simp: parse_line_def parse_hardness_def parse_angles_def parse_header_def Let_def
      split: if_splits list.splits)

lemma parse_lines_extends:
  "parse_lines p ls = Some p' \<Longrightarrow> \<exists>new. MotionSequence p' = MotionSequence p @ new"
proof (induction ls arbitrary: p)
  case (Cons l ls)
  then obtain p1 where "parse_line p l = Some p1" "parse_lines p1 ls = Some p'" by (auto split: option.splits)
  then show ?case using Cons.IH [of p1] parse_line_extends [of p l p1] by fastforce
qed simp

lemma load_motion_nonempty:
  assumes "load_motion contents = Some q" shows "q \<noteq> []"
proof (cases contents)
  case None
  then show ?thesis using assms by (auto simp: load_motion_def ParseMotionFile_def Let_def)
next
  case (Some ls)
  then obtain p where p: "parse_lines (parser_init [sm_null]) ls = Some p"
    and q: "q = convert_times None (map convert_units (MotionSequence p))"
    using assms by (auto simp: load_motion_def ParseMotionFile_def)
  have "MotionSequence p \<noteq> []" using parse_lines_extends [OF p] by (auto simp: parser_init_def)
  then show ?thesis unfolding q by (metis convert_times_length length_0_conv length_map)
qed

lemma first_after_Some:
  "first_after t i sms = Some k \<Longrightarrow> i \<le> k \<and> k < i + length sms \<and> t < m_time (sms ! (k - i)) \<and>
     (\<forall>l < k - i. m_time (sms ! l) \<le> t)"
proof (induction sms arbitrary: i)
  case (Cons sm sms)
  show ?case
  proof (cases "t < m_time sm")
    case False
    then have "first_after t (Suc i) sms = Some k" using Cons.prems by simp
    note IH = Cons.IH [OF this]
    then have "k - i = Suc (k - Suc i)" by linarith
    then show ?thesis using IH False by (auto simp: less_Suc_eq_0_disj)
  qed (use Cons.prems in simp)
qed simp

lemma first_after_None: "first_after t i sms = None \<Longrightarrow> sm \<in> set sms \<Longrightarrow> m_time sm \<le> t"
  by (induction sms arbitrary: i) (auto split: if_splits)

lemma maxMove_pos: "0 < maxMove"
  by (simp add: maxMove_def)

lemma crop_step_eq:
  "crop_step stored target =
     (if target - stored > maxMove then stored + maxMove
      else if stored - target > maxMove then stored - maxMove else target)"
proof -
  have "(target - stored) / (stored - target) = - 1" if "target < stored"
    using that by (simp add: divide_eq_eq)
  then have "target < stored \<Longrightarrow> (target - stored) * maxMove / (stored - target) = - maxMove"
    by (metis mult.commute mult_minus1 times_divide_eq_right)
  then show ?thesis using maxMove_pos by (auto simp: crop_step_def Let_def abs_if)
qed

lemma crop_step_bounds: "\<bar>crop_step stored target - stored\<bar> \<le> maxMove"
  and crop_step_towards: "\<bar>target - crop_step stored target\<bar> = max 0 (\<bar>target - stored\<bar> - maxMove)"
  using maxMove_pos unfolding crop_step_eq by (auto simp: abs_if max_def)

section \<open>Properties\<close>

text \<open>
  A line is split into its tokens: no token is empty or has a separator in it, and together
  they are the characters of the line that are not separators, in order.
\<close>

theorem tokens_of_line:
  "concat (tokenize line) = filter (\<lambda>c. \<not> is_separator c) line \<and>
   list_all (\<lambda>t. t \<noteq> [] \<and> list_all (\<lambda>c. \<not> is_separator c) t) (tokenize line)"
  using tokenize_tokens [of line] by (simp add: list_all_iff)

text \<open>
  A line of joint angles, in a file without a header line: with 24 columns it appends one
  motion, in which every joint has the angle of its own column (the void number where the column is a
  star or a dash), with the interpolation and the time of the last two columns; with another number
  of columns it is skipped.
\<close>

theorem angle_line_read:
  assumes "\<not> reMapping p" "mappingSize p = NUM_JOINTS"
  shows "if length tokens = NUM_JOINTS + 2
    then \<exists>sm. parse_angles p tokens = p\<lparr>MotionSequence := MotionSequence p @ [sm]\<rparr> \<and> mType sm = JointAngle \<and>
           (\<forall>i < NUM_JOINTS. jointMotions sm (jointMapping ! i) = token_value (tokens ! i)) \<and>
           m_stiffness sm = c_atof (tokens ! 22) \<and> m_time sm = c_atof (tokens ! 23)
    else parse_angles p tokens = p"
proof (cases "length tokens = NUM_JOINTS + 2")
  case True
  define sm where "sm = sm_void\<lparr>mType := JointAngle, jointMotions := set_columns p 0 (take 22 tokens) (jointMotions sm_void),
    m_stiffness := c_atof (tokens ! 22), m_time := c_atof (tokens ! 23)\<rparr>"
  have "set_columns p 0 (take 22 tokens) js (jointMapping ! i) = token_value (tokens ! i)" if "i < NUM_JOINTS" for i js
    using set_columns_nth [of NUM_JOINTS p 0 "take 22 tokens" i js] column_joint_inj [OF assms(1)] that True assms(1)
    by (simp add: column_joint_def)
  then have "\<forall>i < NUM_JOINTS. jointMotions sm (jointMapping ! i) = token_value (tokens ! i)" by (simp add: sm_def)
  moreover have "parse_angles p tokens = p\<lparr>MotionSequence := MotionSequence p @ [sm]\<rparr>"
    using True assms(2) by (simp add: parse_angles_def Let_def sm_def)
  ultimately show ?thesis using True by (auto simp: sm_def)
qed (use assms(2) in \<open>simp add: parse_angles_def Let_def\<close>)

theorem angle_line_read_witness:
  "\<exists>sm. parse_angles (parser_init []) (replicate 22 ''*'' @ [''1'', ''200'']) =
          (parser_init [])\<lparr>MotionSequence := [sm]\<rparr> \<and> jointMotions sm LHipYawPitch = - 720"
proof -
  define t where "t = replicate 22 ''*'' @ [''1'', ''200'']"
  define p where "p = parser_init []"
  have p: "\<not> reMapping p" "mappingSize p = NUM_JOINTS" "MotionSequence p = []" by (simp_all add: p_def parser_init_def)
  have t: "length t = NUM_JOINTS + 2" by (simp add: t_def)
  obtain sm where sm: "parse_angles p t = p\<lparr>MotionSequence := MotionSequence p @ [sm]\<rparr>"
    "\<forall>i < NUM_JOINTS. jointMotions sm (jointMapping ! i) = token_value (t ! i)"
    using angle_line_read [OF p(1,2), of t] unfolding if_P [OF t] by blast
  have "jointMotions sm LHipYawPitch = - 720"
    using sm(2) [rule_format, of 10] by (simp add: t_def jointMapping_def token_value_def nth_append)
  then show ?thesis using sm(1) p(3) unfolding t_def [symmetric] p_def [symmetric] by auto
qed

text \<open>
  After a header line with the standard short names of the joints, no line of joint angles is
  read any more: the concatenated name table recognises none of the columns.
\<close>

theorem header_line_disables_angles:
  assumes "\<not> reMapping p" "fileMapping p = []"
    "tokens = [''HY'', ''HP'', ''LSP'', ''LSR'', ''LEY'', ''LER'', ''RSP'', ''RSR'', ''REY'', ''RER'', ''LHYP'', ''LHR'', ''LHP'',
      ''LKP'', ''LAP'', ''LAR'', ''RHYP'', ''RHR'', ''RHP'', ''RKP'', ''RAP'', ''RAR'', ''Int'', ''Dur'']"
    "length line_tokens = NUM_JOINTS + 2"
  shows "\<exists>p'. parse_header p tokens = Some p' \<and> reMapping p' \<and> parse_angles p' line_tokens = p'"
proof -
  have "parse_header p tokens = Some (p\<lparr>fileMapping := [], mappingSize := 0, reMapping := True\<rparr>)"
    using assms(2) by (simp add: parse_header_def Let_def assms(3) jointName1_def upt_rec numeral_nat)
  then show ?thesis using assms(4) by (simp add: parse_angles_def Let_def)
qed

text \<open>
  The loaded sequence of a motion has, at every entry, the sum of the durations of the file's
  entries up to it, in seconds; it begins with an added entry at time 0. So the entries' times
  increase when no duration of the file is negative.
\<close>

theorem loaded_times_cumulative:
  assumes "ParseMotionFile contents [sm_null] = Some (opened, ms)" "load_motion contents = Some q"
  shows "length q = length ms \<and>
    (\<forall>i < length q. m_time (q ! i) = (\<Sum>j\<le>i. m_time (ms ! j)) / 1000) \<and>
    ((\<forall>sm \<in> set ms. 0 \<le> m_time sm) \<longrightarrow> (\<forall>i j. i \<le> j \<and> j < length q \<longrightarrow> m_time (q ! i) \<le> m_time (q ! j)))"
proof -
  have q: "q = convert_times None (map convert_units ms)" using assms by (simp add: load_motion_def)
  have len: "length q = length ms" by (simp add: q)
  have nth: "m_time (q ! i) = (\<Sum>j\<le>i. m_time (ms ! j)) / 1000" if "i < length q" for i
  proof -
    have "(\<Sum>j\<le>i. m_time (map convert_units ms ! j)) = (\<Sum>j\<le>i. m_time (ms ! j))"
      using that len by (intro sum.cong) auto
    then show ?thesis using that len by (simp add: q convert_times_nth)
  qed
  have "m_time (q ! i) \<le> m_time (q ! j)"
    if pos: "\<forall>sm \<in> set ms. 0 \<le> m_time sm" and ij: "i \<le> j" "j < length q" for i j
  proof -
    have "(\<Sum>k\<le>i. m_time (ms ! k)) \<le> (\<Sum>k\<le>j. m_time (ms ! k))"
      using pos ij len by (intro sum_mono2) (auto simp: nth_mem)
    then show ?thesis using nth [of i] nth [of j] ij by (simp add: divide_right_mono)
  qed
  then show ?thesis using len nth by blast
qed

theorem loaded_times_cumulative_witness:
  "\<exists>q. load_motion None = Some q \<and> length q = 1 \<and> m_time (q ! 0) = 0"
  using loaded_times_cumulative [of None False "[sm_null]" "[convert_units sm_null\<lparr>m_time := 0\<rparr>]"]
  by (simp add: ParseMotionFile_def load_motion_def sm_null_def convert_units_def)

text \<open>
  The frame being played at a time within the motion is the one whose interval contains that
  time, so the interpolation factor is at least 0 and less than 1.
\<close>

theorem current_frame_contains_time:
  assumes "\<forall>i j. i \<le> j \<and> j < length q \<longrightarrow> m_time (q ! i) \<le> m_time (q ! j)"
    "q \<noteq> []" "m_time (q ! 0) \<le> t" "t < m_time (last q)"
  shows "0 < getCurrentFrame q t \<and> getCurrentFrame q t < length q \<and>
    m_time (q ! (getCurrentFrame q t - 1)) \<le> t \<and> t < m_time (q ! getCurrentFrame q t) \<and>
    0 \<le> (t - m_time (q ! (getCurrentFrame q t - 1))) / (m_time (q ! getCurrentFrame q t) - m_time (q ! (getCurrentFrame q t - 1))) \<and>
    (t - m_time (q ! (getCurrentFrame q t - 1))) / (m_time (q ! getCurrentFrame q t) - m_time (q ! (getCurrentFrame q t - 1))) < 1"
proof -
  obtain a q' where q: "q = a # q'" using assms(2) by (cases q) auto
  have "q' \<noteq> []" using assms(3,4) q by auto
  then have "last q \<in> set q'" using q by simp
  then obtain k where k: "first_after t 1 q' = Some k"
    using first_after_None [of t 1 q' "last q"] assms(4) by fastforce
  note fa = first_after_Some [OF k]
  have prev: "m_time (q ! (k - 1)) \<le> t"
  proof (cases "k = 1")
    case True
    then show ?thesis using assms(3) by simp
  next
    case False
    then have "k - 1 = Suc (k - 2)" "k - 2 < k - 1" using fa by linarith+
    moreover have "m_time (q' ! (k - 2)) \<le> t" using fa \<open>k - 2 < k - 1\<close> by blast
    ultimately show ?thesis by (simp add: q)
  qed
  have "getCurrentFrame q t = k" using k q by (simp add: getCurrentFrame_def)
  moreover have "0 < k" "k < length q" "t < m_time (q ! k)" using fa q by (auto simp: nth_Cons')
  ultimately show ?thesis using prev by (simp add: divide_less_eq)
qed

theorem current_frame_contains_time_witness:
  "getCurrentFrame [sm_null, sm_null\<lparr>m_time := 1\<rparr>, sm_null\<lparr>m_time := 3\<rparr>] 2 = 2 \<and>
   (2::real) < m_time ([sm_null, sm_null\<lparr>m_time := 1\<rparr>, sm_null\<lparr>m_time := 3\<rparr>] ! 2)"
proof -
  let ?q = "[sm_null, sm_null\<lparr>m_time := 1\<rparr>, sm_null\<lparr>m_time := 3\<rparr>]"
  have f: "getCurrentFrame ?q 2 = 2" by (simp add: getCurrentFrame_def)
  have "\<forall>i j. i \<le> j \<and> j < length ?q \<longrightarrow> m_time (?q ! i) \<le> m_time (?q ! j)"
    by (auto simp: sm_null_def less_Suc_eq numeral_nat le_Suc_eq)
  then show ?thesis using current_frame_contains_time [of ?q 2] f by (simp add: sm_null_def)
qed

text \<open>
  C35: Playing a frame never jumps: each joint is commanded to a position at most 20 degrees away
  from the one it was last commanded to (or from the measured one, at the start of the motion), and
  that position is remembered; a frame that does not move the joints leaves the commands alone. The
  next frame starts from there, so the bound holds from frame to frame.
\<close>

theorem playback_moves_slowly:
  assumes "executeMotionSequence seqs inp s = Some s'"
  defines "base \<equiv> if getTimeInState inp s < 15 / 1000 then joint_values (in_joint_angles inp) else storedCommands s"
  shows "(\<forall>j. \<bar>storedCommands s' j - base j\<bar> \<le> pi / 9) \<and>
    (angles (sp_commands s') = storedCommands s' \<or>
     storedCommands s' = base \<and> angles (sp_commands s') = angles (sp_commands s))"
proof -
  have pos: "0 \<le> maxMove" using maxMove_pos by simp
  have "(\<forall>j. \<bar>storedCommands s' j - base j\<bar> \<le> maxMove) \<and>
    (angles (sp_commands s') = storedCommands s' \<or>
     storedCommands s' = base \<and> angles (sp_commands s') = angles (sp_commands s))"
    using assms(1) pos unfolding base_def
    by (auto simp: executeMotionSequence_def processJointCommands_def processJointHardness_def Let_def
        crop_step_bounds split: option.splits motion_type.splits if_splits)
  then show ?thesis by (simp add: maxMove_def)
qed

theorem playback_moves_slowly_witness:
  "\<forall>inp s. \<forall>j. \<bar>storedCommands (the (executeMotionSequence
       (\<lambda>m. [sm_null, sm_null\<lparr>m_time := 1, jointMotions := (\<lambda>i. 2)\<rparr>]) (inp\<lparr>seconds_since_start := 1 / 2\<rparr>)
       (s\<lparr>currMotion := Some backFreeArms, stateStartTime := 0, storedCommands := (\<lambda>i. 0)\<rparr>))) j\<bar> \<le> pi / 9"
proof (intro allI)
  fix inp :: special_input and s :: "'a special_module_scheme" and j
  let ?seqs = "\<lambda>m. [sm_null, sm_null\<lparr>m_time := 1, jointMotions := (\<lambda>i. 2)\<rparr>]" and ?inp = "inp\<lparr>seconds_since_start := 1 / 2\<rparr>"
    and ?s = "s\<lparr>currMotion := Some backFreeArms, stateStartTime := 0, storedCommands := (\<lambda>i. 0)\<rparr>"
  have "\<exists>s'. executeMotionSequence ?seqs ?inp ?s = Some s'"
    by (simp add: executeMotionSequence_def curr_seq_def)
  then show "\<bar>storedCommands (the (executeMotionSequence ?seqs ?inp ?s)) j\<bar> \<le> pi / 9"
    using playback_moves_slowly [of ?seqs ?inp ?s] by (fastforce simp: getTimeInState_def)
qed

end
