(* ===== verification/Getup_Motion.thy ===== *)
theory Getup_Motion
  imports Special_Motion Rotation_3D
begin

text \<open>
  Getting up after a fall: \<open>src/core/motion/GetupModule.cpp\<close>, a subclass of the player of special
  motions. Its record extends the one of the base class; the memory blocks it reads in addition
  extend the input record. One call of \<open>gu_processFrame\<close> is a call of the inherited
  \<open>processFrame\<close> with the overriding \<open>processFrameChild\<close>; its value is \<^term>\<open>None\<close> where the C++ code
  would read outside of the table of motions.
\<close>

record getup_input = special_input +
  joint_temperatures :: "joint \<Rightarrow> real"
  sensor_angleY :: real
  left_hand :: pose3D
  right_hand :: pose3D

record getup_module = special_module +
  getUpSide :: getup_type
  numCrosses :: int
  numRestarts :: int
  angleYBuffer :: ring_buffer_sum

abbreviation base_input :: "getup_input \<Rightarrow> special_input" where
  "base_input \<equiv> special_input.truncate"

definition gu_new :: "getup_module \<Rightarrow> getup_module" where
  "gu_new g = (sp_new g)\<lparr>numCrosses := 0, numRestarts := 0, angleYBuffer := rbs_init 20 (angleYBuffer g)\<rparr>"

definition isGettingUp :: "getup_module \<Rightarrow> bool" where
  "isGettingUp g = isDoingSpecialMotion g"

definition needsStand :: "getup_module \<Rightarrow> bool" where
  "needsStand g = (sp_state g = STAND)"

definition initGetup :: "special_input \<Rightarrow> getup_module \<Rightarrow> getup_module" where
  "initGetup inp g = (startMotion inp Getup (g\<lparr>getUpSide := Getup_UNKNOWN\<rparr>))\<lparr>numCrosses := 0, numRestarts := 0\<rparr>"

definition areJointsHot :: "getup_input \<Rightarrow> bool" where
  "areJointsHot inp = list_ex (\<lambda>i. joint_temperatures inp i > 70) all_joints"

definition setBackGetup :: "getup_module \<Rightarrow> getup_module" where
  "setBackGetup g = g\<lparr>sp_odometry := (sp_odometry g)\<lparr>getting_up_side := Getup_BACK\<rparr>, getUpSide := Getup_BACK,
     currMotion := Some standUpBackNao\<rparr>"

definition setFrontGetup :: "getup_module \<Rightarrow> getup_module" where
  "setFrontGetup g = g\<lparr>sp_odometry := (sp_odometry g)\<lparr>getting_up_side := Getup_FRONT\<rparr>, getUpSide := Getup_FRONT,
     currMotion := Some standUpFrontNao\<rparr>"

definition selectGetup :: "special_input \<Rightarrow> getup_module \<Rightarrow> getup_module" where
  "selectGetup inp g =
     (let tiltSideThreshold = (if numCrosses g > 0 then 2 else 5);
          tilt = tilt_fallen_counter (in_walk_request inp); roll = roll_fallen_counter (in_walk_request inp)
      in if tilt < - tiltSideThreshold then setBackGetup g
         else if tilt > tiltSideThreshold then setFrontGetup g
         else if numCrosses g = 0 \<and> roll \<ge> 2 then transitionToState inp CROSS g
         else if getTimeInState inp g < 2 / 10 then g
         else setBackGetup g)"

definition send_stiffness_all :: "real \<Rightarrow> getup_module \<Rightarrow> getup_module" where
  "send_stiffness_all v g = g\<lparr>sp_commands := setAllStiffness v 10 (sp_commands g)\<rparr>"

definition setJointFromOffset :: "joint \<Rightarrow> real \<Rightarrow> (joint \<Rightarrow> real) \<Rightarrow> (joint \<Rightarrow> real)" where
  "setJointFromOffset j offset ang = ang(j := offset)"

definition arm_targets :: "(joint \<Rightarrow> real) \<Rightarrow> (joint \<Rightarrow> real)" where
  "arm_targets ang =
     (setJointFromOffset RElbowRoll (DEG_T_RAD * 0) \<circ> setJointFromOffset RElbowYaw (DEG_T_RAD * (- 85)) \<circ>
      setJointFromOffset RShoulderRoll (DEG_T_RAD * 12) \<circ> setJointFromOffset RShoulderPitch (DEG_T_RAD * (- 116)) \<circ>
      setJointFromOffset LElbowRoll (DEG_T_RAD * 0) \<circ> setJointFromOffset LElbowYaw (DEG_T_RAD * (- 85)) \<circ>
      setJointFromOffset LShoulderRoll (DEG_T_RAD * 12) \<circ> setJointFromOffset LShoulderPitch (DEG_T_RAD * (- 116)) \<circ>
      setJointFromOffset HeadPitch (DEG_T_RAD * (- 15))) ang"

definition arm_joints :: "joint list" where
  "arm_joints = [HeadPitch, LShoulderPitch, LShoulderRoll, LElbowYaw, LElbowRoll, RShoulderPitch, RShoulderRoll, RElbowYaw, RElbowRoll]"

definition prepareArms :: "special_input \<Rightarrow> getup_module \<Rightarrow> getup_module" where
  "prepareArms inp g =
     (let g = processJointCommands 0 (arm_targets (joint_values (in_joint_angles inp))) g;
          g = g\<lparr>sp_commands := setAllStiffness 0 0 (sp_commands g)\<rparr>
      in g\<lparr>sp_commands := (sp_commands g)\<lparr>stiffness := (\<lambda>i. if i \<in> set arm_joints then 1 else stiffness (sp_commands g) i)\<rparr>\<rparr>)"

definition cross_targets :: "joint \<Rightarrow> real" where
  "cross_targets = (\<lambda>i. 0)(HeadPitch := DEG_T_RAD * 30, LShoulderRoll := 15708 / 10000, RShoulderRoll := 15708 / 10000,
     LShoulderPitch := - 15708 / 10000, RShoulderPitch := - 15708 / 10000, LElbowYaw := DEG_T_RAD * 0,
     LElbowRoll := DEG_T_RAD * 0, RElbowYaw := DEG_T_RAD * 0, RElbowRoll := DEG_T_RAD * 0)"

definition cross :: "special_input \<Rightarrow> getup_module \<Rightarrow> getup_module" where
  "cross inp g =
     (if getTimeInState inp g > 25 / 1000 then g
      else send_stiffness_all 1 (processJointCommands 100 cross_targets g))"

definition armsStuckBehindBack :: "getup_input \<Rightarrow> bool" where
  "armsStuckBehindBack inp =
     (if tilt_fallen_counter (in_walk_request inp) > 0 then False
      else if wy (trans3 (right_hand inp)) > - 44 \<and> wx (trans3 (right_hand inp)) < 0 then True
      else if wy (trans3 (left_hand inp)) < 44 \<and> wx (trans3 (left_hand inp)) < 0 then True
      else False)"

text \<open>\<open>getCurrentFrame\<close> reads the sequence of the current motion.\<close>

definition shouldAbortGetup ::
  "(motion_name \<Rightarrow> special_motion list) \<Rightarrow> getup_input \<Rightarrow> getup_module \<Rightarrow> (bool \<times> getup_module) option" where
  "shouldAbortGetup seqs inp g =
     (if numRestarts g \<ge> 2 then Some (False, g)
      else case curr_seq seqs g of
        None \<Rightarrow> None
      | Some q \<Rightarrow>
          let fr = getCurrentFrame q (getTimeInState (base_input inp) g);
              verticalFrame = (if currMotion g = Some standUpBackNao then 6 else 8);
              buf = (if fr < verticalFrame then rbs_init 20 (angleYBuffer g)
                     else rbs_add 20 (sensor_angleY inp) (angleYBuffer g));
              g = g\<lparr>angleYBuffer := buf\<rparr>
          in Some (rb_numberOfEntries buf = 20 \<and> \<bar>rbs_getAverage buf\<bar> > DEG_T_RAD * 75, g))"

definition set_getup_odometry :: "getup_module \<Rightarrow> getup_module" where
  "set_getup_odometry g =
     (if isGettingUp g then g\<lparr>sp_odometry := (sp_odometry g)\<lparr>getting_up_side := getUpSide g\<rparr>\<rparr>
      else g\<lparr>sp_odometry := (sp_odometry g)\<lparr>getting_up_side := Getup_NONE\<rparr>, getUpSide := Getup_UNKNOWN\<rparr>)"

definition fallenCountHigh :: "special_input \<Rightarrow> bool" where
  "fallenCountHigh inp =
     (\<bar>roll_fallen_counter (in_walk_request inp)\<bar> \<ge> 50 \<or> \<bar>tilt_fallen_counter (in_walk_request inp)\<bar> \<ge> 50)"

text \<open>The part of the case \<open>EXECUTE\<close> that follows the choice of a motion.\<close>

definition execute_chosen ::
  "(motion_name \<Rightarrow> special_motion list) \<Rightarrow> special_input \<Rightarrow> getup_module \<Rightarrow> getup_module option" where
  "execute_chosen seqs inp g =
     (case isMotionDoneExecuting seqs inp g of
        None \<Rightarrow> None
      | Some d \<Rightarrow>
          if d
          then if \<bar>tilt_fallen_counter (in_walk_request inp)\<bar> > 2 \<or> \<bar>roll_fallen_counter (in_walk_request inp)\<bar> > 2
               then Some (transitionToState inp STIFFNESS_ON (selectGetup inp g))
               else Some (transitionToState inp STAND g)
          else executeMotionSequence seqs inp
                 (if getTimeInState inp g < 15 / 1000 then send_stiffness_all 1 g else g))"

definition processFrameChild ::
  "(motion_name \<Rightarrow> special_motion list) \<Rightarrow> special_input \<Rightarrow> getup_module \<Rightarrow> (bool \<times> getup_module) option" where
  "processFrameChild seqs inp g0 =
     (let g = set_getup_odometry g0; t = getTimeInState inp g; high = fallenCountHigh inp in
      case sp_state g of
        INITIAL \<Rightarrow>
          Some (True, transitionToState inp
            (if getup_from_keeper_dive (in_walk_request inp) then CROSS else if high then STIFFNESS_ON else PREPARE_ARMS) g)
      | PREPARE_ARMS \<Rightarrow>
          Some (True, if t > 30 / 100 \<or> high then transitionToState inp STIFFNESS_OFF g
                      else if t < 15 / 1000 then prepareArms inp g else g)
      | STIFFNESS_OFF \<Rightarrow>
          Some (True, if t > 25 / 100 \<or> high then transitionToState inp STIFFNESS_ON g else send_stiffness_all 0 g)
      | STIFFNESS_ON \<Rightarrow>
          Some (True, if t > 1 / 1000 then transitionToState inp EXECUTE g else send_stiffness_all 1 g)
      | CROSS \<Rightarrow>
          Some (True, if t < 5 / 10 then cross inp g
                      else (transitionToState inp EXECUTE g)\<lparr>numCrosses := numCrosses g + 1\<rparr>)
      | EXECUTE \<Rightarrow>
          (if currMotion g = Some Getup
           then let g = selectGetup inp g in
                if currMotion g = Some Getup then Some (True, g)
                else map_option (Pair True) (execute_chosen seqs inp (g\<lparr>stateStartTime := seconds_since_start inp\<rparr>))
           else map_option (Pair True) (execute_chosen seqs inp g))
      | STAND \<Rightarrow> Some (True, if t > 5 / 10 then transitionToState inp FINISHED g else g)
      | FREE_ARMS \<Rightarrow>
          (let g = g\<lparr>currMotion := Some backFreeArms\<rparr> in
           case isMotionDoneExecuting seqs inp g of
             None \<Rightarrow> None
           | Some d \<Rightarrow>
               if d then Some (True, transitionToState inp EXECUTE (g\<lparr>currMotion := Some Getup\<rparr>))
               else map_option (Pair True) (executeMotionSequence seqs inp
                      (if t < 15 / 1000 then send_stiffness_all 1 g else g)))
      | PAUSE_BEFORE_RESTART \<Rightarrow>
          Some (True, if t > 75 / 100 then transitionToState inp STIFFNESS_ON g else send_stiffness_all 0 g)
      | _ \<Rightarrow> Some (False, g))"

definition gu_processFrame ::
  "(motion_name \<Rightarrow> special_motion list) \<Rightarrow> special_input \<Rightarrow> getup_module \<Rightarrow> getup_module option" where
  "gu_processFrame seqs inp g = sp_processFrame (processFrameChild seqs) seqs inp g"

section \<open>Reachable states\<close>

text \<open>
  The motion core starts a getup only when none is going on, and calls \<open>processFrame\<close> once a frame.
  The inputs are those of any frame.
\<close>

inductive getup_reachable :: "(motion_name \<Rightarrow> special_motion list) \<Rightarrow> getup_module \<Rightarrow> bool"
  for seqs where
  init: "getup_reachable seqs (gu_new g)"
| start: "getup_reachable seqs g \<Longrightarrow> \<not> isGettingUp g \<Longrightarrow> getup_reachable seqs (initGetup inp g)"
| frame: "getup_reachable seqs g \<Longrightarrow> gu_processFrame seqs inp g = Some g' \<Longrightarrow> getup_reachable seqs g'"

definition gu_inv :: "getup_module \<Rightarrow> bool" where
  "gu_inv g \<longleftrightarrow>
     sp_state g \<in> {INITIAL, PREPARE_ARMS, STIFFNESS_OFF, STIFFNESS_ON, CROSS, EXECUTE, STAND, FINISHED} \<and>
     (sp_state g \<noteq> FINISHED \<longrightarrow> currMotion g \<noteq> None) \<and> 0 \<le> numCrosses g \<and> numCrosses g \<le> 1 \<and>
     (sp_state g \<in> {INITIAL, CROSS} \<longrightarrow> numCrosses g = 0)"

definition getup_edges :: "(special_state \<times> special_state) set" where
  "getup_edges =
     {(INITIAL, CROSS), (INITIAL, STIFFNESS_ON), (INITIAL, PREPARE_ARMS), (PREPARE_ARMS, STIFFNESS_OFF),
      (STIFFNESS_OFF, STIFFNESS_ON), (STIFFNESS_ON, EXECUTE), (CROSS, EXECUTE), (EXECUTE, CROSS),
      (EXECUTE, STIFFNESS_ON), (EXECUTE, STAND), (STAND, FINISHED)}"

section \<open>Fields an operation leaves alone\<close>

lemma transitionToState_fields [frame_simps, simp]:
  "sp_state (transitionToState inp st g) = st" "currMotion (transitionToState inp st g) = currMotion g"
  "numCrosses (transitionToState inp st g) = numCrosses g" "getUpSide (transitionToState inp st g) = getUpSide g"
  by (simp_all add: transitionToState_def)

lemma processJointCommands_fields [frame_simps, simp]:
  "sp_state (processJointCommands t a g) = sp_state g" "currMotion (processJointCommands t a g) = currMotion g"
  "numCrosses (processJointCommands t a g) = numCrosses g"
  by (simp_all add: processJointCommands_def Let_def)

lemma arm_fields [frame_simps, simp]:
  "sp_state (send_stiffness_all v g) = sp_state g" "currMotion (send_stiffness_all v g) = currMotion g"
  "numCrosses (send_stiffness_all v g) = numCrosses g"
  "sp_state (prepareArms inp g) = sp_state g" "currMotion (prepareArms inp g) = currMotion g"
  "numCrosses (prepareArms inp g) = numCrosses g"
  "sp_state (cross inp g) = sp_state g" "currMotion (cross inp g) = currMotion g" "numCrosses (cross inp g) = numCrosses g"
  "sp_state (set_getup_odometry g) = sp_state g" "currMotion (set_getup_odometry g) = currMotion g"
  "numCrosses (set_getup_odometry g) = numCrosses g" "stateStartTime (set_getup_odometry g) = stateStartTime g"
  by (simp_all add: send_stiffness_all_def prepareArms_def cross_def set_getup_odometry_def Let_def)

lemma time_of_odometry [simp]: "getTimeInState inp (set_getup_odometry g) = getTimeInState inp g"
  by (simp add: getTimeInState_def)

lemma executeMotionSequence_fields:
  assumes "executeMotionSequence seqs inp g = Some g'"
  shows "sp_state g' = sp_state g \<and> currMotion g' = currMotion g \<and> numCrosses g' = numCrosses g"
  using assms
  by (auto simp: executeMotionSequence_def processJointCommands_def processJointHardness_def Let_def
      split: option.splits motion_type.splits if_splits)

lemma executeMotionSequence_defined: "currMotion g \<noteq> None \<Longrightarrow> \<exists>g'. executeMotionSequence seqs inp g = Some g'"
  by (auto simp: executeMotionSequence_def curr_seq_def)

lemma selectGetup_cases:
  "selectGetup inp g = setBackGetup g \<or> selectGetup inp g = setFrontGetup g \<or> selectGetup inp g = g \<or>
   numCrosses g = 0 \<and> selectGetup inp g = transitionToState inp CROSS g"
  by (simp add: selectGetup_def Let_def)

lemma select_fields [frame_simps, simp]:
  "sp_state (setBackGetup g) = sp_state g" "sp_state (setFrontGetup g) = sp_state g"
  "numCrosses (setBackGetup g) = numCrosses g" "numCrosses (setFrontGetup g) = numCrosses g"
  "currMotion (setBackGetup g) = Some standUpBackNao" "currMotion (setFrontGetup g) = Some standUpFrontNao"
  by (simp_all add: setBackGetup_def setFrontGetup_def)

lemma selectGetup_motion: "currMotion g \<noteq> None \<Longrightarrow> currMotion (selectGetup inp g) \<noteq> None"
  and selectGetup_crosses [simp]: "numCrosses (selectGetup inp g) = numCrosses g"
  using selectGetup_cases [of inp g] by auto

section \<open>One frame\<close>

lemma execute_chosen_step:
  assumes "execute_chosen seqs inp g = Some g'" "currMotion g \<noteq> None"
  shows "currMotion g' \<noteq> None \<and> numCrosses g' = numCrosses g \<and>
    (sp_state g' = sp_state g \<or> sp_state g' = STIFFNESS_ON \<or> sp_state g' = STAND)"
  using assms executeMotionSequence_fields [of seqs inp _ g'] selectGetup_motion [of g inp]
  by (auto simp: execute_chosen_def split: option.splits if_splits)

lemma execute_chosen_defined:
  assumes "\<forall>m. m \<noteq> Getup \<longrightarrow> seqs m \<noteq> []" "currMotion g = Some m" "m \<noteq> Getup"
  shows "\<exists>g'. execute_chosen seqs inp g = Some g'"
  using assms executeMotionSequence_defined [of g] executeMotionSequence_defined [of "send_stiffness_all 1 g"]
  by (simp add: execute_chosen_def isMotionDoneExecuting_def curr_seq_def)

lemma child_defined:
  assumes "\<forall>m. m \<noteq> Getup \<longrightarrow> seqs m \<noteq> []" "gu_inv g"
  shows "processFrameChild seqs inp g \<noteq> None"
proof (cases "sp_state g = EXECUTE")
  case True
  then obtain m where m: "currMotion g = Some m" using assms(2) by (auto simp: gu_inv_def)
  let ?s = "selectGetup inp (set_getup_odometry g)"
  obtain m' where m': "currMotion ?s = Some m'" using selectGetup_motion m by fastforce
  show ?thesis
    using execute_chosen_defined [OF assms(1), of "set_getup_odometry g" m] m m' True
      execute_chosen_defined [OF assms(1), of "?s\<lparr>stateStartTime := seconds_since_start inp\<rparr>" m']
    by (auto simp: processFrameChild_def Let_def)
next
  case False
  moreover have "sp_state g \<noteq> FREE_ARMS" using assms(2) by (auto simp: gu_inv_def)
  ultimately show ?thesis by (cases "sp_state g"; simp add: processFrameChild_def Let_def)
qed

text \<open>In the reachable states a frame other than one of \<open>FINISHED\<close> is handled by the subclass.\<close>

lemma gu_frame_child:
  assumes "gu_inv g"
  shows "gu_processFrame seqs inp g =
    (if sp_state g = FINISHED then Some (set_getup_odometry g) else map_option snd (processFrameChild seqs inp g))"
proof -
  have handled: "b" if "processFrameChild seqs inp g = Some (b, g')" "sp_state g \<noteq> FINISHED" for b g'
    using that assms
    by (cases "sp_state g") (auto simp: processFrameChild_def gu_inv_def Let_def split: if_splits)
  show ?thesis
  proof (cases "sp_state g = FINISHED")
    case True
    then show ?thesis by (simp add: gu_processFrame_def sp_processFrame_def processFrameChild_def Let_def)
  next
    case False
    then show ?thesis using handled
      by (auto simp: gu_processFrame_def sp_processFrame_def split: option.split)
  qed
qed

lemma frame_execute:
  assumes "gu_inv g" "sp_state g = EXECUTE" "processFrameChild seqs inp g = Some (b, g')"
  shows "currMotion g' \<noteq> None \<and> numCrosses g' = numCrosses g \<and>
    (sp_state g' \<in> {EXECUTE, STIFFNESS_ON, STAND} \<or> sp_state g' = CROSS \<and> numCrosses g = 0)"
proof -
  let ?o = "set_getup_odometry g" let ?s = "selectGetup inp ?o"
  have m: "currMotion ?o \<noteq> None" using assms by (simp add: gu_inv_def)
  have s: "sp_state ?s = EXECUTE \<or> sp_state ?s = CROSS \<and> numCrosses g = 0"
    "currMotion ?s = currMotion g \<or> sp_state ?s = EXECUTE"
    using selectGetup_cases [of inp ?o] assms(2) by auto
  consider "currMotion g = Some Getup" "currMotion ?s = Some Getup" "g' = ?s"
    | "currMotion g = Some Getup" "currMotion ?s \<noteq> Some Getup"
        "execute_chosen seqs inp (?s\<lparr>stateStartTime := seconds_since_start inp\<rparr>) = Some g'"
    | "currMotion g \<noteq> Some Getup" "execute_chosen seqs inp ?o = Some g'"
    using assms(2,3) by (auto simp: processFrameChild_def Let_def split: if_splits)
  then show ?thesis
  proof cases
    case 1
    then show ?thesis using s by auto
  next
    case 2
    then show ?thesis using execute_chosen_step [OF 2(3)] selectGetup_motion [OF m, of inp] s by auto
  next
    case 3
    then show ?thesis using execute_chosen_step [OF 3(2) m] assms(2) by auto
  qed
qed

lemma frame_step:
  assumes "gu_inv g" "gu_processFrame seqs inp g = Some g'"
  shows "gu_inv g' \<and> (sp_state g' = sp_state g \<or> (sp_state g, sp_state g') \<in> getup_edges)"
proof (cases "sp_state g = FINISHED \<or> sp_state g = EXECUTE")
  case True
  then show ?thesis
    using assms frame_execute [OF assms(1), of seqs inp _ g'] unfolding gu_frame_child [OF assms(1)]
    by (auto simp: gu_inv_def getup_edges_def split: if_splits)
next
  case False
  then obtain b where "processFrameChild seqs inp g = Some (b, g')"
    using assms unfolding gu_frame_child [OF assms(1)] by auto
  then show ?thesis using False assms(1)
    by (cases "sp_state g") (auto simp: processFrameChild_def gu_inv_def getup_edges_def Let_def split: if_splits)
qed

lemma gu_inv_start: "gu_inv (gu_new g)" "gu_inv (initGetup inp g)"
  by (simp_all add: gu_inv_def gu_new_def sp_new_def initGetup_def startMotion_def)

lemma gu_inv_reachable [inv_intros]: "getup_reachable seqs g \<Longrightarrow> gu_inv g"
  by (induction rule: getup_reachable.induct) (auto simp: gu_inv_start dest: frame_step)

lemma loaded_nonempty:
  assumes "\<forall>m. loadMotionFiles files m = Some (seqs m)"
  shows "\<forall>m. m \<noteq> Getup \<longrightarrow> seqs m \<noteq> []"
  using assms load_motion_nonempty by (metis loadMotionFiles_def)

lemma loaded_example:
  "\<forall>m. loadMotionFiles (\<lambda>m. None) m = Some (if m = Getup then [] else convert_times None [convert_units sm_null])"
  by (simp add: loadMotionFiles_def load_motion_def ParseMotionFile_def)

text \<open>The time after which the next frame leaves a state.\<close>

definition overdue :: "(motion_name \<Rightarrow> special_motion list) \<Rightarrow> special_input \<Rightarrow> getup_module \<Rightarrow> bool" where
  "overdue seqs inp g =
     (case sp_state g of
        INITIAL \<Rightarrow> True
      | PREPARE_ARMS \<Rightarrow> getTimeInState inp g > 30 / 100
      | STIFFNESS_OFF \<Rightarrow> getTimeInState inp g > 25 / 100
      | STIFFNESS_ON \<Rightarrow> getTimeInState inp g > 1 / 1000
      | CROSS \<Rightarrow> getTimeInState inp g \<ge> 5 / 10
      | EXECUTE \<Rightarrow> currMotion g \<noteq> Some Getup \<and> getTimeInState inp g > m_time (last (seqs (the (currMotion g))))
      | STAND \<Rightarrow> getTimeInState inp g > 5 / 10
      | _ \<Rightarrow> False)"

lemma execute_chosen_over:
  assumes "execute_chosen seqs inp g = Some g'" "currMotion g = Some m" "seqs m \<noteq> []"
    "getTimeInState inp g > m_time (last (seqs m))"
  shows "sp_state g' \<in> {STIFFNESS_ON, STAND}"
  using assms by (auto simp: execute_chosen_def isMotionDoneExecuting_def curr_seq_def split: if_splits)

lemma frame_overdue:
  assumes "gu_inv g" "\<forall>m. m \<noteq> Getup \<longrightarrow> seqs m \<noteq> []" "gu_processFrame seqs inp g = Some g'" "overdue seqs inp g"
  shows "sp_state g' \<noteq> sp_state g"
proof (cases "sp_state g = EXECUTE")
  case True
  then obtain m where m: "currMotion g = Some m" "m \<noteq> Getup" using assms(1,4) by (auto simp: gu_inv_def overdue_def)
  obtain b where "processFrameChild seqs inp g = Some (b, g')"
    using assms(3) True unfolding gu_frame_child [OF assms(1)] by auto
  then have "execute_chosen seqs inp (set_getup_odometry g) = Some g'"
    using True m by (auto simp: processFrameChild_def Let_def)
  then show ?thesis
    using execute_chosen_over [of seqs inp "set_getup_odometry g" g' m] m assms(2,4) True by (auto simp: overdue_def)
next
  case False
  moreover have "sp_state g \<noteq> FINISHED" using assms(4) by (auto simp: overdue_def)
  ultimately obtain b where "processFrameChild seqs inp g = Some (b, g')"
    using assms(3) unfolding gu_frame_child [OF assms(1)] by auto
  then show ?thesis using False assms(4)
    by (cases "sp_state g") (auto simp: processFrameChild_def overdue_def Let_def split: if_splits)
qed

lemma execute_chosen_keeps_choice:
  "execute_chosen seqs inp g = Some g' \<Longrightarrow> currMotion g \<noteq> Some Getup \<Longrightarrow> currMotion g' \<noteq> Some Getup"
  using selectGetup_cases [of inp g] executeMotionSequence_fields [of seqs inp _ g']
  by (auto simp: execute_chosen_def split: option.splits if_splits)

lemma frame_chooses:
  assumes "gu_inv g" "sp_state g = EXECUTE \<and> currMotion g = Some Getup" "2 / 10 \<le> getTimeInState inp g"
    "gu_processFrame seqs inp g = Some g'"
  shows "currMotion g' \<noteq> Some Getup \<or> sp_state g' = CROSS"
proof -
  let ?s = "selectGetup inp (set_getup_odometry g)"
  obtain b where b: "processFrameChild seqs inp g = Some (b, g')"
    using assms(2,4) unfolding gu_frame_child [OF assms(1)] by auto
  have "currMotion ?s \<noteq> Some Getup \<or> sp_state ?s = CROSS"
    using assms(3) by (auto simp: selectGetup_def Let_def)
  then show ?thesis using b assms(2)
      execute_chosen_keeps_choice [of seqs inp "?s\<lparr>stateStartTime := seconds_since_start inp\<rparr>" g']
    by (auto simp: processFrameChild_def Let_def split: if_splits)
qed

section \<open>Properties\<close>

text \<open>
  C23: With the motions loaded from their files, readable or not, every frame of the getup module is
  well defined, whatever the sensors report: no sequence is read that does not exist. The state
  moves only along the eleven edges of the getup, and at most one cross is made.
\<close>

theorem getup_frames_defined:
  assumes "\<forall>m. loadMotionFiles files m = Some (seqs m)" "getup_reachable seqs g"
  shows "\<exists>g'. gu_processFrame seqs inp g = Some g' \<and>
    (sp_state g' = sp_state g \<or> (sp_state g, sp_state g') \<in> getup_edges) \<and> numCrosses g' \<le> 1"
proof -
  have inv: "gu_inv g" using assms(2) by (rule gu_inv_reachable)
  obtain g' where g': "gu_processFrame seqs inp g = Some g'"
    using child_defined [OF loaded_nonempty [OF assms(1)] inv, of inp] gu_frame_child [OF inv, of seqs inp]
    by (cases "sp_state g = FINISHED") auto
  then show ?thesis using frame_step [OF inv g'] by (auto simp: gu_inv_def)
qed

theorem getup_frames_defined_witness:
  "\<forall>inp g. \<exists>g'. gu_processFrame (\<lambda>m. if m = Getup then [] else convert_times None [convert_units sm_null]) inp
      (initGetup inp (gu_new g)) = Some g'"
proof (intro allI)
  fix inp g
  let ?seqs = "\<lambda>m. if m = Getup then [] else convert_times None [convert_units sm_null]"
  have "getup_reachable ?seqs (initGetup inp (gu_new g))"
    by (intro getup_reachable.start getup_reachable.init)
      (simp add: isGettingUp_def isDoingSpecialMotion_def gu_new_def sp_new_def)
  from getup_frames_defined [OF loaded_example this, of inp]
  show "\<exists>g'. gu_processFrame ?seqs inp (initGetup inp (gu_new g)) = Some g'" by blast
qed

text \<open>
  C29: The getup does not get stuck: the first frame after a state's time limit leaves that state
  (in the executing state, the limit is the length of the motion that was chosen), and a choice that
  has been open for 0.2 seconds is made, by a motion or by a cross.
\<close>

theorem getup_makes_progress:
  assumes "\<forall>m. loadMotionFiles files m = Some (seqs m)" "getup_reachable seqs g"
    "gu_processFrame seqs inp g = Some g'"
  shows "(overdue seqs inp g \<longrightarrow> sp_state g' \<noteq> sp_state g) \<and>
    (sp_state g = EXECUTE \<and> currMotion g = Some Getup \<and> 2 / 10 \<le> getTimeInState inp g \<longrightarrow>
       currMotion g' \<noteq> Some Getup \<or> sp_state g' = CROSS)"
  using frame_overdue [OF gu_inv_reachable [OF assms(2)] loaded_nonempty [OF assms(1)] assms(3)]
    frame_chooses [OF gu_inv_reachable [OF assms(2)] _ _ assms(3)] by blast

theorem getup_makes_progress_witness:
  "\<forall>inp g. \<exists>g'. gu_processFrame (\<lambda>m. if m = Getup then [] else convert_times None [convert_units sm_null]) inp
      (initGetup inp (gu_new g)) = Some g' \<and> sp_state g' \<noteq> INITIAL"
proof (intro allI)
  fix inp g
  let ?seqs = "\<lambda>m. if m = Getup then [] else convert_times None [convert_units sm_null]" and ?g = "initGetup inp (gu_new g)"
  have r: "getup_reachable ?seqs ?g"
    by (intro getup_reachable.start getup_reachable.init)
      (simp add: isGettingUp_def isDoingSpecialMotion_def gu_new_def sp_new_def)
  have st: "sp_state ?g = INITIAL" by (simp add: initGetup_def startMotion_def)
  have "\<exists>g'. gu_processFrame ?seqs inp ?g = Some g'"
    using gu_frame_child [OF gu_inv_start(2)] by (simp add: st processFrameChild_def Let_def)
  then show "\<exists>g'. gu_processFrame ?seqs inp ?g = Some g' \<and> sp_state g' \<noteq> INITIAL"
    using getup_makes_progress [OF loaded_example r] st by (fastforce simp: overdue_def)
qed

text \<open>
  The first command of a getup, the raising of the arms, is computed from the memory of the last
  commanded angles, which the module initialises only when it executes a motion: for a new module
  that memory is whatever the storage held, and the measured angles do not matter.
\<close>

theorem prepare_arms_from_storage:
  assumes "\<not> getup_from_keeper_dive (in_walk_request inp)" "\<not> fallenCountHigh inp"
  shows "\<exists>g1 g2. gu_processFrame seqs inp (initGetup inp (gu_new g)) = Some g1 \<and> gu_processFrame seqs inp g1 = Some g2 \<and>
    angles (sp_commands g2) LShoulderPitch = crop_step (storedCommands g LShoulderPitch) (DEG_T_RAD * (- 116))"
proof -
  let ?g = "initGetup inp (gu_new g)"
  have st: "sp_state ?g = INITIAL" by (simp add: initGetup_def startMotion_def)
  let ?g1 = "transitionToState inp PREPARE_ARMS (set_getup_odometry ?g)"
  have 1: "gu_processFrame seqs inp ?g = Some ?g1"
    using assms gu_frame_child [OF gu_inv_start(2)] by (simp add: st processFrameChild_def Let_def)
  have inv: "gu_inv ?g1" using frame_step [OF gu_inv_start(2) 1] by simp
  have t: "getTimeInState inp ?g1 = 0" by (simp add: getTimeInState_def transitionToState_def)
  have 2: "gu_processFrame seqs inp ?g1 = Some (prepareArms inp (set_getup_odometry ?g1))"
    using assms t gu_frame_child [OF inv] by (simp add: processFrameChild_def Let_def)
  have "storedCommands (set_getup_odometry ?g1) = storedCommands g"
    by (simp add: set_getup_odometry_def transitionToState_def initGetup_def startMotion_def gu_new_def sp_new_def)
  then have "angles (sp_commands (prepareArms inp (set_getup_odometry ?g1))) LShoulderPitch =
      crop_step (storedCommands g LShoulderPitch) (DEG_T_RAD * (- 116))"
    by (simp add: prepareArms_def processJointCommands_def Let_def setAllStiffness_def arm_targets_def setJointFromOffset_def)
  then show ?thesis using 1 2 by blast
qed

end
