(* ===== verification/Motion_Core.thy ===== *)
theory Motion_Core
  imports Kick_Motion Getup_Motion
begin

text \<open>
  The motion process, \<open>src/core/MotionCore.cpp\<close>: conversion between raw and processed joint data,
  the order in which the modules run in a frame, and the exchange with the vision process through
  synchronised blocks. Blocks the core only passes on (sensors, body model, sonar, \dots) have an
  opaque type, the type parameter. The sensor, kinematics and sonar modules are the argument
  \<open>update\<close>, a walk engine the argument \<open>walk\<close>, of the operations that call them. Frame numbers are
  unsigned 32-bit integers.
\<close>

record calibration =
  cal_enabled :: bool
  cal_jointValues :: "joint \<Rightarrow> real"

definition applyJoints :: "calibration \<Rightarrow> (joint \<Rightarrow> real) \<Rightarrow> (joint \<Rightarrow> real)" where
  "applyJoints cal js = (\<lambda>i. js i + cal_jointValues cal i)"

definition revertJoints :: "calibration \<Rightarrow> (joint \<Rightarrow> real) \<Rightarrow> (joint \<Rightarrow> real)" where
  "revertJoints cal js = (\<lambda>i. js i - cal_jointValues cal i)"

record 'x params =
  send_params :: bool
  param_values :: 'x

record 'x sync_blocks =
  sync_body_model :: 'x
  sync_joint_angles :: joint_block
  sync_kick_request :: kick_request_block
  sync_odometry :: odometry_block
  sync_sensors :: 'x
  sync_walk_request :: walk_request_block
  sync_walk_response :: 'x
  sync_joint_commands :: joint_command_block
  sync_processed_sonar :: 'x
  sync_kick_params :: "'x params"
  sync_walk_param :: "'x params"
  sync_al_walk_param :: "'x params"
  sync_walk_info :: 'x

record 'x motion_core =
  frame_id :: "32 word"
  mc_now :: real
  from_robot :: bool
  last_frame_processed :: "32 word"
  fps_time :: real
  fps_frames_processed :: "32 word"
  time_motion_started :: real
  use_com_kick :: bool
  headTiltOffset :: real
  headPanOffset :: real
  mc_calibration :: "calibration option"
  raw_joint_angles :: joint_block
  processed_joint_angles :: joint_block
  raw_joint_commands :: joint_command_block
  processed_joint_commands :: joint_command_block
  kick_request :: kick_request_block
  walk_request :: walk_request_block
  odometry :: odometry_block
  processed_sensors :: 'x
  body_model :: 'x
  walk_response :: 'x
  processed_sonar :: 'x
  walk_info :: 'x
  kick_params :: "'x params"
  walk_param :: "'x params"
  al_walk_param :: "'x params"
  walk_engine :: "walk_type option"
  kick_module :: kick_module
  getup_module :: getup_module

section \<open>Raw and processed joint data\<close>

definition joint_signs :: "'x motion_core \<Rightarrow> joint \<Rightarrow> real" where
  "joint_signs m = (if from_robot m then robot_joint_signs else spark_joint_signs)"

definition preProcess :: "'x motion_core \<Rightarrow> 'x motion_core" where
  "preProcess m =
     (let signs = joint_signs m;
          p = processed_joint_angles m;
          p = p\<lparr>prevValues := joint_values p, joint_values := (\<lambda>i. signs i * joint_values (raw_joint_angles m) i),
                joint_stiffness := joint_stiffness (raw_joint_angles m)\<rparr>;
          v = joint_values p;
          v = v(HeadPitch := v HeadPitch + headTiltOffset m);
          v = v(HeadYaw := v HeadYaw + headPanOffset m);
          v = (case mc_calibration m of
                 None \<Rightarrow> v | Some cal \<Rightarrow> if cal_enabled cal then applyJoints cal v else v)
      in m\<lparr>processed_joint_angles := p\<lparr>joint_values := v\<rparr>\<rparr>)"

definition postProcess :: "'x motion_core \<Rightarrow> 'x motion_core" where
  "postProcess m =
     (let signs = joint_signs m; r = raw_joint_commands m; p = processed_joint_commands m in
      if mc_now m - time_motion_started m < 1
      then m\<lparr>raw_joint_commands := r\<lparr>send_body_angles := False, send_arm_angles := False, send_head_pitch_angle := False,
               send_head_yaw_angle := False, send_stiffness := False, send_back_standup := False, send_sonar_command := False\<rparr>\<rparr>
      else
        let r = r\<lparr>body_angle_time := body_angle_time p, arm_command_time := arm_command_time p,
                  head_pitch_angle_time := head_pitch_angle_time p, head_yaw_angle_time := head_yaw_angle_time p,
                  stiffness_time := stiffness_time p, send_back_standup := send_back_standup p\<rparr>;
            a = (\<lambda>i. signs i * angles p i);
            a = (if \<not> head_pitch_angle_change p then a(HeadPitch := a HeadPitch - signs HeadPitch * headTiltOffset m) else a);
            a = (if \<not> head_yaw_angle_change p then a(HeadYaw := a HeadYaw - signs HeadYaw * headPanOffset m) else a);
            r = r\<lparr>angles := a\<rparr>;
            r = (if send_stiffness p then r\<lparr>stiffness := stiffness p\<rparr> else r);
            r = r\<lparr>send_stiffness := send_stiffness p, send_body_angles := send_body_angles p,
                  send_arm_angles := send_arm_angles p, send_head_pitch_angle := send_head_pitch_angle p,
                  send_head_yaw_angle := send_head_yaw_angle p, head_pitch_angle_change := head_pitch_angle_change p,
                  head_yaw_angle_change := head_yaw_angle_change p, send_sonar_command := send_sonar_command p,
                  sonar_command := sonar_command p\<rparr>
        in m\<lparr>raw_joint_commands := r\<rparr>)"

section \<open>The walk engine and the exchange of data\<close>

definition initWalkEngine :: "'x motion_core \<Rightarrow> 'x motion_core" where
  "initWalkEngine m =
     (if walk_type (walk_request m) = INVALID_WALK then m
      else case walk_type (walk_request m) of
        RUNSWIFT2014_WALK \<Rightarrow> m\<lparr>walk_engine := Some RUNSWIFT2014_WALK\<rparr>
      | _ \<Rightarrow> m\<lparr>walk_engine := None\<rparr>)"

definition publishData :: "'x motion_core \<Rightarrow> 'x sync_blocks \<Rightarrow> 'x sync_blocks" where
  "publishData m s =
     (let s = s\<lparr>sync_body_model := body_model m, sync_joint_angles := processed_joint_angles m,
                sync_sensors := processed_sensors m, sync_odometry := odometry m\<rparr>;
          s = s\<lparr>sync_kick_request := (sync_kick_request s)\<lparr>kick_running := kick_running (kick_request m),
                  finished_with_step := finished_with_step (kick_request m)\<rparr>\<rparr>;
          temp = sync_walk_request s;
          w = walk_request m;
          w = w\<lparr>kick_with_left := kick_with_left temp, target_point := target_point temp,
                kick_heading := kick_heading temp, motion := motion temp\<rparr>;
          w = w\<lparr>new_command := False, slow_stand := False, set_kick_step_params := False\<rparr>
      in s\<lparr>sync_walk_request := w, sync_walk_response := walk_response m,
           sync_processed_sonar := processed_sonar m, sync_walk_info := walk_info m\<rparr>)"

definition take_params :: "'x params \<Rightarrow> 'x params \<Rightarrow> 'x params \<times> 'x params" where
  "take_params own sync = (if send_params sync then (sync, sync\<lparr>send_params := False\<rparr>) else (own, sync))"

definition receiveData :: "'x motion_core \<Rightarrow> 'x sync_blocks \<Rightarrow> 'x motion_core \<times> 'x sync_blocks" where
  "receiveData m s =
     (let typechange = (walk_type (walk_request m) \<noteq> walk_type (sync_walk_request s));
          m = m\<lparr>kick_request := sync_kick_request s\<rparr>;
          temp_status = walk_control_status (walk_request m);
          m = m\<lparr>walk_request := sync_walk_request s\<rparr>;
          m = (if temp_status = WALK_CONTROL_DONE \<and> walk_control_status (sync_walk_request s) = WALK_CONTROL_SET
               then m\<lparr>walk_request := (walk_request m)\<lparr>walk_control_status := temp_status\<rparr>\<rparr> else m);
          m = m\<lparr>processed_joint_commands := sync_joint_commands s, odometry := sync_odometry s\<rparr>;
          (kp, skp) = take_params (kick_params m) (sync_kick_params s);
          (wp, swp) = take_params (walk_param m) (sync_walk_param s);
          (ap, sap) = take_params (al_walk_param m) (sync_al_walk_param s);
          m = m\<lparr>kick_params := kp, walk_param := wp, al_walk_param := ap\<rparr>;
          s = s\<lparr>sync_kick_params := skp, sync_walk_param := swp, sync_al_walk_param := sap\<rparr>;
          m = (if typechange then initWalkEngine m else m)
      in (m, s))"

section \<open>A motion frame\<close>

definition alreadyProcessedFrame :: "'x motion_core \<Rightarrow> bool" where
  "alreadyProcessedFrame m = (frame_id m \<le> last_frame_processed m)"

text \<open>The modules read and write the blocks of the core: they are handed over and taken back.\<close>

definition run_kick :: "keyframe list option \<Rightarrow> 'x motion_core \<Rightarrow> 'x motion_core" where
  "run_kick load m =
     (let k = processFrame load ((kick_module m)\<lparr>km_request := kick_request m, km_command := processed_joint_commands m,
                km_joint := processed_joint_angles m\<rparr>)
      in m\<lparr>kick_module := k, kick_request := km_request k, processed_joint_commands := km_command k\<rparr>)"

definition getup_frame_input :: "'x motion_core \<Rightarrow> special_input" where
  "getup_frame_input m = \<lparr>seconds_since_start = mc_now m, in_joint_angles = processed_joint_angles m,
     in_walk_request = walk_request m\<rparr>"

definition run_getup :: "(motion_name \<Rightarrow> special_motion list) \<Rightarrow> 'x motion_core \<Rightarrow> 'x motion_core option" where
  "run_getup seqs m =
     (let inp = getup_frame_input m;
          g = (getup_module m)\<lparr>sp_commands := processed_joint_commands m, sp_odometry := odometry m\<rparr>;
          g = (if \<not> isGettingUp g then initGetup inp g else g)
      in case gu_processFrame seqs inp g of
           None \<Rightarrow> None
         | Some g \<Rightarrow> Some (m\<lparr>getup_module := g, processed_joint_commands := sp_commands g, odometry := sp_odometry g\<rparr>))"

definition before_walk :: "('x motion_core \<Rightarrow> 'x motion_core) \<Rightarrow> keyframe list option \<Rightarrow> 'x motion_core \<Rightarrow> 'x motion_core" where
  "before_walk update load m =
     (let time_passed = mc_now m - fps_time m;
          m = m\<lparr>fps_frames_processed := fps_frames_processed m + 1\<rparr>;
          m = (if time_passed \<ge> 10 then m\<lparr>fps_frames_processed := 0, fps_time := mc_now m\<rparr> else m);
          m = update m;
          m = (if needsStand (getup_module m) then m\<lparr>walk_request := stand (walk_request m)\<rparr> else m)
      in if use_com_kick m then run_kick load m else m)"

definition processMotionFrame ::
  "('x motion_core \<Rightarrow> 'x motion_core) \<Rightarrow> (walk_type \<Rightarrow> 'x motion_core \<Rightarrow> 'x motion_core) \<Rightarrow> keyframe list option \<Rightarrow>
   (motion_name \<Rightarrow> special_motion list) \<Rightarrow> 'x motion_core \<Rightarrow> 'x motion_core option" where
  "processMotionFrame update walk load seqs m =
     (if alreadyProcessedFrame m then Some m
      else
        let m = before_walk update load m;
            m = (case walk_engine m of None \<Rightarrow> m | Some e \<Rightarrow> walk e m)
        in case (if isGettingUp (getup_module m) \<or> motion (walk_request m) = M_FALLING then run_getup seqs m else Some m) of
             None \<Rightarrow> None
           | Some m \<Rightarrow> Some (m\<lparr>last_frame_processed := frame_id m\<rparr>))"

section \<open>Lemmas\<close>

lemma joint_signs_square: "joint_signs m i * (joint_signs m i * a) = a"
  using signs_square [of i] by (simp add: joint_signs_def mult.assoc [symmetric])

lemma gu_inv_blocks [simp]:
  "gu_inv (g\<lparr>sp_commands := c, sp_odometry := od\<rparr>) = gu_inv g"
  "isGettingUp (g\<lparr>sp_commands := c, sp_odometry := od\<rparr>) = isGettingUp g"
  by (simp_all add: gu_inv_def isGettingUp_def isDoingSpecialMotion_def)

lemma run_getup_defined:
  assumes "\<forall>m. m \<noteq> Getup \<longrightarrow> seqs m \<noteq> []" "gu_inv (getup_module m)"
  shows "\<exists>m'. run_getup seqs m = Some m' \<and> gu_inv (getup_module m')"
proof -
  let ?inp = "getup_frame_input m"
  define g where "g = (getup_module m)\<lparr>sp_commands := processed_joint_commands m, sp_odometry := odometry m\<rparr>"
  define g1 where "g1 = (if \<not> isGettingUp g then initGetup ?inp g else g)"
  have inv: "gu_inv g1" using assms(2) gu_inv_start(2) by (simp add: g1_def g_def)
  obtain g2 where g2: "gu_processFrame seqs ?inp g1 = Some g2"
    using child_defined [OF assms(1) inv, of ?inp] gu_frame_child [OF inv, of seqs ?inp]
    by (cases "sp_state g1 = FINISHED") auto
  have run: "run_getup seqs m =
      Some (m\<lparr>getup_module := g2, processed_joint_commands := sp_commands g2, odometry := sp_odometry g2\<rparr>)"
    using g2 by (simp add: run_getup_def Let_def g_def [symmetric] g1_def [symmetric] del: not_not)
  have "gu_inv g2" using frame_step [OF inv g2] by blast
  then show ?thesis by (simp add: run)
qed

section \<open>Properties\<close>

text \<open>
  C19: Commands and measurements use the same convention: when the joints have reached the raw angles
  that were sent for a command, the processed angles read back are the commanded ones, on the robot
  and in simulation, plus the calibration offsets when a calibration is in use. (Commands that change
  the head by an amount, which carry no offset, are excluded.)
\<close>

theorem command_reading_roundtrip:
  assumes "1 \<le> mc_now m - time_motion_started m"
    "\<not> head_pitch_angle_change (processed_joint_commands m)" "\<not> head_yaw_angle_change (processed_joint_commands m)"
  shows "joint_values (processed_joint_angles (preProcess ((postProcess m)
      \<lparr>raw_joint_angles := (raw_joint_angles m)\<lparr>joint_values := angles (raw_joint_commands (postProcess m))\<rparr>\<rparr>))) i =
    angles (processed_joint_commands m) i +
    (case mc_calibration m of None \<Rightarrow> 0 | Some cal \<Rightarrow> if cal_enabled cal then cal_jointValues cal i else 0)"
proof -
  have signs: "joint_signs (m\<lparr>raw_joint_commands := r, raw_joint_angles := a\<rparr>) = joint_signs m" for r a
    by (simp add: joint_signs_def)
  show ?thesis
    using assms
    by (cases i; simp add: preProcess_def postProcess_def Let_def applyJoints_def signs joint_signs_square
        right_diff_distrib split: option.split)
qed

theorem command_reading_roundtrip_witness:
  "\<forall>m. let m = m\<lparr>mc_now := 5, time_motion_started := 1, from_robot := True, headTiltOffset := 1 / 10, mc_calibration := None,
               processed_joint_commands := jc_new (processed_joint_commands m)\<rparr> in
       joint_values (processed_joint_angles (preProcess ((postProcess m)
         \<lparr>raw_joint_angles := (raw_joint_angles m)\<lparr>joint_values := angles (raw_joint_commands (postProcess m))\<rparr>\<rparr>))) HeadPitch = 0"
proof
  fix m :: "'a motion_core"
  define c where "c = m\<lparr>mc_now := 5, time_motion_started := 1, from_robot := True, headTiltOffset := 1 / 10, mc_calibration := None,
               processed_joint_commands := jc_new (processed_joint_commands m)\<rparr>"
  have "1 \<le> mc_now c - time_motion_started c" "\<not> head_pitch_angle_change (processed_joint_commands c)"
    "\<not> head_yaw_angle_change (processed_joint_commands c)" "mc_calibration c = None"
    "angles (processed_joint_commands c) HeadPitch = 0"
    by (simp_all add: c_def jc_new_def)
  then show "let m = m\<lparr>mc_now := 5, time_motion_started := 1, from_robot := True, headTiltOffset := 1 / 10, mc_calibration := None,
               processed_joint_commands := jc_new (processed_joint_commands m)\<rparr> in
       joint_values (processed_joint_angles (preProcess ((postProcess m)
         \<lparr>raw_joint_angles := (raw_joint_angles m)\<lparr>joint_values := angles (raw_joint_commands (postProcess m))\<rparr>\<rparr>))) HeadPitch = 0"
    using command_reading_roundtrip [of c HeadPitch] unfolding Let_def c_def [symmetric] by simp
qed

text \<open>
  In the first second after the motion process has started nothing is sent to the actuators.
\<close>

theorem silent_first_second:
  assumes "mc_now m - time_motion_started m < 1"
  shows "let r = raw_joint_commands (postProcess m) in
    \<not> send_body_angles r \<and> \<not> send_arm_angles r \<and> \<not> send_head_pitch_angle r \<and> \<not> send_head_yaw_angle r \<and>
    \<not> send_stiffness r \<and> \<not> send_back_standup r \<and> \<not> send_sonar_command r \<and> angles r = angles (raw_joint_commands m)"
  using assms by (simp add: postProcess_def Let_def)

theorem silent_first_second_witness:
  "\<forall>m. \<not> send_body_angles (raw_joint_commands (postProcess (m\<lparr>mc_now := 1 / 2, time_motion_started := 0\<rparr>)))"
proof
  fix m :: "'a motion_core"
  show "\<not> send_body_angles (raw_joint_commands (postProcess (m\<lparr>mc_now := 1 / 2, time_motion_started := 0\<rparr>)))"
    using silent_first_second [of "m\<lparr>mc_now := 1 / 2, time_motion_started := 0\<rparr>"] by (simp add: Let_def)
qed

text \<open>
  C11: A motion frame never reads a motion that does not exist, whatever the sensors and the walk
  engine do, as long as they leave the getup module alone; the module's invariant holds again
  afterwards, and the frame counts as processed: a second call for the same frame does nothing.
\<close>

theorem motion_frame_defined:
  assumes "\<forall>m. loadMotionFiles files m = Some (seqs m)" "gu_inv (getup_module m)"
    "\<And>m. getup_module (update m) = getup_module m" "\<And>e m. getup_module (walk e m) = getup_module m"
  shows "\<exists>m'. processMotionFrame update walk load seqs m = Some m' \<and> gu_inv (getup_module m') \<and>
    alreadyProcessedFrame m' \<and> processMotionFrame update walk load seqs m' = Some m'"
proof -
  have again: "processMotionFrame update walk load seqs m' = Some m'" if "alreadyProcessedFrame m'" for m'
    using that by (simp add: processMotionFrame_def)
  have kick: "getup_module (run_kick load m) = getup_module m" for m :: "'a motion_core"
    by (simp add: run_kick_def Let_def)
  have fin: "\<exists>m'. (case (if b then run_getup seqs m1 else Some m1) of None \<Rightarrow> None
       | Some m \<Rightarrow> Some (m\<lparr>last_frame_processed := frame_id m\<rparr>)) = Some m' \<and>
      gu_inv (getup_module m') \<and> alreadyProcessedFrame m'" if "gu_inv (getup_module m1)" for m1 b
    using run_getup_defined [OF loaded_nonempty [OF assms(1)] that] that
    by (cases b) (auto simp: alreadyProcessedFrame_def)
  show ?thesis
  proof (cases "alreadyProcessedFrame m")
    case True
    then show ?thesis using again assms(2) by blast
  next
    case False
    have "\<exists>m'. processMotionFrame update walk load seqs m = Some m' \<and> gu_inv (getup_module m') \<and> alreadyProcessedFrame m'"
      using False unfolding processMotionFrame_def before_walk_def Let_def if_not_P [OF False]
      by (rule_tac fin) (auto simp: kick assms split: option.split)
    then show ?thesis using again by blast
  qed
qed

theorem motion_frame_defined_witness:
  "\<forall>m g. \<exists>m'. processMotionFrame (\<lambda>m. m) (\<lambda>e m. m) None
      (\<lambda>m. if m = Getup then [] else convert_times None [convert_units sm_null]) (m\<lparr>getup_module := gu_new g\<rparr>) = Some m' \<and>
    alreadyProcessedFrame m'"
proof (intro allI)
  fix m :: "'a motion_core" and g
  have "gu_inv (getup_module (m\<lparr>getup_module := gu_new g\<rparr>))" by (simp add: gu_inv_start)
  from motion_frame_defined [OF loaded_example this, of "\<lambda>m. m" "\<lambda>e m. m" None]
  show "\<exists>m'. processMotionFrame (\<lambda>m. m) (\<lambda>e m. m) None
      (\<lambda>m. if m = Getup then [] else convert_times None [convert_units sm_null]) (m\<lparr>getup_module := gu_new g\<rparr>) = Some m' \<and>
    alreadyProcessedFrame m'" by auto
qed

end
