(* ===== verification/Core_Exchange.thy ===== *)
theory Core_Exchange
  imports Walk_Odometry Motion_Core
begin

text \<open>
  The exchange between the motion and the vision process: \<open>publishData\<close> and \<open>receiveData\<close> of
  \<open>src/core/VisionCore.cpp\<close>, the counterparts of the operations of the same names of the motion
  core. Each of the four runs under the lock \<open>motion_vision_lock_\<close>, so a run of the two processes is
  a sequence of the four operations, of the motion frames (\<open>processMotionFrame\<close> with the module of the walk)
  and of what the behaviors write into the vision process's own blocks: the events of \<open>exchange_step\<close>.
  The camera blocks, which the vision process exchanges with another thread, are left out.
\<close>

record 'x vision_core =
  tool_core :: bool
  toolsim_core :: bool
  penalised :: bool
  vision_kick_request :: kick_request_block
  vision_walk_request :: walk_request_block
  vision_odometry :: odometry_block
  vision_joint_commands :: joint_command_block
  vision_joint_angles :: joint_block
  vision_sensors :: 'x
  vision_body_model :: 'x
  vision_walk_response :: 'x
  vision_walk_info :: 'x
  vision_processed_sonar :: 'x
  vision_kick_params :: "'x params"
  vision_walk_param :: "'x params"
  vision_al_walk_param :: "'x params"
  cum_x :: real
  cum_y :: real
  cum_rot :: real

definition pass_params :: "'x params \<Rightarrow> 'x params \<Rightarrow> 'x params" where
  "pass_params own sync = (if send_params own then own else sync)"

definition vis_publishData :: "'x vision_core \<Rightarrow> 'x sync_blocks \<Rightarrow> 'x vision_core \<times> 'x sync_blocks" where
  "vis_publishData v s =
     (if tool_core v then (v, s)
      else
        let v = v\<lparr>vision_walk_request := (vision_walk_request v)\<lparr>is_penalised := penalised v\<rparr>\<rparr>;
            temp_kick_running = kick_running (sync_kick_request s);
            temp_finished_with_step = finished_with_step (sync_kick_request s);
            s = s\<lparr>sync_kick_request := (vision_kick_request v)\<lparr>kick_running := temp_kick_running,
                    finished_with_step := temp_finished_with_step\<rparr>\<rparr>;
            temp_finished_standing = finished_standing (sync_walk_request s);
            w = vision_walk_request v;
            sw = (if temp_finished_standing \<and> \<not> start_command w then w\<lparr>finished_standing := temp_finished_standing\<rparr> else w);
            s = s\<lparr>sync_walk_request := sw\<lparr>start_command := False\<rparr>\<rparr>;
            v = v\<lparr>vision_walk_request := w\<lparr>start_command := False\<rparr>\<rparr>;
            s = s\<lparr>sync_odometry := (sync_odometry s)\<lparr>fall_direction := fall_direction (vision_odometry v)\<rparr>\<rparr>;
            s = s\<lparr>sync_joint_commands := vision_joint_commands v\<rparr>;
            s = s\<lparr>sync_kick_params := pass_params (vision_kick_params v) (sync_kick_params s),
                  sync_walk_param := pass_params (vision_walk_param v) (sync_walk_param s),
                  sync_al_walk_param := pass_params (vision_al_walk_param v) (sync_al_walk_param s)\<rparr>
        in (v, s))"

definition vis_receive_motion :: "'x vision_core \<Rightarrow> 'x sync_blocks \<Rightarrow> 'x vision_core \<times> 'x sync_blocks" where
  "vis_receive_motion v s =
     (if toolsim_core v then (v, s)
      else
        let v = v\<lparr>vision_body_model := sync_body_model s, vision_joint_angles := sync_joint_angles s,
                  vision_sensors := sync_sensors s, vision_odometry := sync_odometry s\<rparr>;
            d = displacement (vision_odometry v);
            v = v\<lparr>cum_x := cum_x v + vx (translation d), cum_y := cum_y v + vy (translation d), cum_rot := cum_rot v + rotation d\<rparr>
        in (v, s\<lparr>sync_odometry := od_reset (sync_odometry s)\<rparr>))"

definition vis_receiveData :: "'x vision_core \<Rightarrow> 'x sync_blocks \<Rightarrow> 'x vision_core \<times> 'x sync_blocks" where
  "vis_receiveData v s =
     (if tool_core v then (v, s)
      else
        let (v, s) = vis_receive_motion v s;
            v = v\<lparr>vision_kick_request := (vision_kick_request v)\<lparr>kick_running := kick_running (sync_kick_request s),
                    finished_with_step := finished_with_step (sync_kick_request s), kick_type := NO_KICK,
                    vision_kick_running := False\<rparr>\<rparr>;
            own = vision_walk_request v;
            w = (sync_walk_request s)\<lparr>odometry_fwd_offset := odometry_fwd_offset own, odometry_side_offset := odometry_side_offset own,
                  odometry_turn_offset := odometry_turn_offset own, walk_type := walk_type own, new_command := False,
                  perform_kick := False, set_kick_step_params := False, walk_decides_finished_with_target := False\<rparr>;
            v = v\<lparr>vision_walk_request := w, vision_walk_response := sync_walk_response s\<rparr>;
            v = v\<lparr>vision_walk_param := (vision_walk_param v)\<lparr>send_params := False\<rparr>,
                  vision_al_walk_param := (vision_al_walk_param v)\<lparr>send_params := False\<rparr>,
                  vision_kick_params := (vision_kick_params v)\<lparr>send_params := False\<rparr>\<rparr>;
            v = v\<lparr>vision_walk_info := sync_walk_info s, vision_processed_sonar := sync_processed_sonar s\<rparr>;
            v = v\<lparr>vision_joint_commands := (vision_joint_commands v)\<lparr>send_body_angles := False, send_head_pitch_angle := False,
                    send_head_yaw_angle := False, send_stiffness := False, send_sonar_command := False, send_arm_angles := False\<rparr>\<rparr>
        in (v, s))"

section \<open>A motion frame with its walk module\<close>

text \<open>
  What is new in a frame: its number, time and measured joints; what the sensor, kinematics and sonar modules write; the files; and for the
  walk the times, what nothing has set, the result of its kinematics and its other blocks. The last four fields are for the
  module that a change of the engine constructs.
\<close>

record 'x frame_input =
  fi_id :: "32 word"
  fi_time :: real
  fi_raw :: joint_block
  fi_angles :: joint_block
  fi_commands :: "joint_command_block \<Rightarrow> joint_command_block"
  fi_sensors :: 'x
  fi_body_model :: 'x
  fi_sonar :: 'x
  fi_keyframes :: "keyframe list option"
  fi_motions :: "motion_name \<Rightarrow> special_motion list"
  fi_sys :: real
  fi_sys' :: real
  fi_ms :: int
  fi_unset :: sensor_vals
  fi_kin :: kin_result
  fi_blocks :: walk_blocks
  fi_gyro_file :: "gyro_config option"
  fi_distributor :: distributor
  fi_old :: joint_vals
  fi_body :: body_model

record 'x cores =
  mcore :: "'x motion_core"
  vcore :: "'x vision_core"
  shared :: "'x sync_blocks"
  engine :: walk_module

definition begin_frame :: "'x frame_input \<Rightarrow> 'x motion_core \<Rightarrow> 'x motion_core" where
  "begin_frame i m = preProcess (m\<lparr>frame_id := fi_id i, mc_now := fi_time i, raw_joint_angles := fi_raw i\<rparr>)"

definition next_engine :: "'x frame_input \<Rightarrow> 'x motion_core \<Rightarrow> 'x sync_blocks \<Rightarrow> walk_module \<Rightarrow> walk_module" where
  "next_engine i m s w =
     (if walk_type (walk_request m) \<noteq> walk_type (sync_walk_request s) \<and> walk_type (sync_walk_request s) = RUNSWIFT2014_WALK
      then rw_init (fi_gyro_file i) (fi_distributor i) (fi_old i) (fi_body i) else w)"

definition sense_frame :: "'x frame_input \<Rightarrow> 'x motion_core \<Rightarrow> 'x motion_core" where
  "sense_frame i m = m\<lparr>processed_joint_angles := fi_angles i, processed_joint_commands := fi_commands i (processed_joint_commands m),
     processed_sensors := fi_sensors i, body_model := fi_body_model i, processed_sonar := fi_sonar i\<rparr>"

definition walk_view :: "'x frame_input \<Rightarrow> 'x motion_core \<Rightarrow> walk_blocks" where
  "walk_view i m = (fi_blocks i)\<lparr>wk_joints := processed_joint_angles m, wk_commands := processed_joint_commands m,
     wk_odometry := odometry m, wk_request := walk_request m, wk_kick_running := kick_running (kick_request m)\<rparr>"

definition run_walk :: "'x frame_input \<Rightarrow> walk_module \<times> 'x motion_core \<Rightarrow> (walk_module \<times> 'x motion_core) option" where
  "run_walk i = (\<lambda>(w, m).
     if walk_engine m = Some RUNSWIFT2014_WALK
     then case rw_processFrame (fi_sys i) (fi_sys' i) (mc_now m) (fi_ms i) (fi_unset i) (fi_kin i) (w, walk_view i m) of
            None \<Rightarrow> None
          | Some (w, b) \<Rightarrow> Some (w, m\<lparr>processed_joint_commands := wk_commands b, odometry := wk_odometry b\<rparr>)
     else Some (w, m))"

text \<open>\<open>processMotionFrame\<close> takes what the walk makes of the blocks it gets as a function; here it is the result of the module.\<close>

definition motion_frame :: "'x frame_input \<Rightarrow> walk_module \<times> 'x motion_core \<Rightarrow> (walk_module \<times> 'x motion_core) option" where
  "motion_frame i = (\<lambda>(w, m).
     case (if alreadyProcessedFrame m then Some (w, m) else run_walk i (w, before_walk (sense_frame i) (fi_keyframes i) m)) of
       None \<Rightarrow> None
     | Some (w, walked) \<Rightarrow> map_option (Pair w) (processMotionFrame (sense_frame i) (\<lambda>e m. walked) (fi_keyframes i) (fi_motions i) m))"

section \<open>Runs of the two processes\<close>

datatype 'x event = Motion_Receive "'x frame_input" | Motion_Frame "'x frame_input" | Motion_Publish
  | Behaviors "walk_request_block \<Rightarrow> walk_request_block" | Vision_Receive | Vision_Publish

definition motion_receive :: "'x frame_input \<Rightarrow> 'x cores \<Rightarrow> 'x cores" where
  "motion_receive i c =
     (let m = begin_frame i (mcore c); w = next_engine i m (shared c) (engine c); (m, s) = receiveData m (shared c)
      in c\<lparr>mcore := m, shared := s, engine := w\<rparr>)"

fun exchange_step :: "'x event \<Rightarrow> 'x cores \<Rightarrow> 'x cores option" where
  "exchange_step (Motion_Receive i) c = Some (motion_receive i c)"
| "exchange_step (Motion_Frame i) c =
     (case motion_frame i (engine c, mcore c) of
        None \<Rightarrow> None
      | Some (w, m) \<Rightarrow> Some (c\<lparr>mcore := postProcess m, engine := w\<rparr>))"
| "exchange_step Motion_Publish c = Some (c\<lparr>shared := publishData (mcore c) (shared c)\<rparr>)"
| "exchange_step (Behaviors f) c = Some (c\<lparr>vcore := (vcore c)\<lparr>vision_walk_request := f (vision_walk_request (vcore c))\<rparr>\<rparr>)"
| "exchange_step Vision_Receive c =
     (let (v, s) = vis_receiveData (vcore c) (shared c) in Some (c\<lparr>vcore := v, shared := s\<rparr>))"
| "exchange_step Vision_Publish c =
     (let (v, s) = vis_publishData (vcore c) (shared c) in Some (c\<lparr>vcore := v, shared := s\<rparr>))"

primrec exchange_run :: "'x event list \<Rightarrow> 'x cores \<Rightarrow> 'x cores option" where
  "exchange_run [] c = Some c"
| "exchange_run (e # es) c = (case exchange_step e c of None \<Rightarrow> None | Some c \<Rightarrow> exchange_run es c)"

section \<open>What the steps do to odometry and walk request\<close>

lemma initWalkEngine_keeps [frame_simps, simp]:
  "odometry (initWalkEngine m) = odometry m" "walk_request (initWalkEngine m) = walk_request m"
  by (simp_all add: initWalkEngine_def split: walk_type.split)

lemma receiveData_fields [frame_simps]:
  "odometry (fst (receiveData m s)) = sync_odometry s"
  "sync_odometry (snd (receiveData m s)) = sync_odometry s"
  "sync_walk_request (snd (receiveData m s)) = sync_walk_request s"
  "walk_request (fst (receiveData m s)) =
     (if walk_control_status (walk_request m) = WALK_CONTROL_DONE \<and> walk_control_status (sync_walk_request s) = WALK_CONTROL_SET
      then (sync_walk_request s)\<lparr>walk_control_status := WALK_CONTROL_DONE\<rparr> else sync_walk_request s)"
  subgoal by (simp add: receiveData_def Let_def split_beta)
  subgoal by (simp add: receiveData_def Let_def split_beta)
  subgoal by (simp add: receiveData_def Let_def split_beta)
  subgoal by (simp add: receiveData_def Let_def split_beta)
  done

lemma begin_frame_keeps [frame_simps, simp]:
  "odometry (begin_frame i m) = odometry m" "walk_request (begin_frame i m) = walk_request m"
  by (simp_all add: begin_frame_def preProcess_def Let_def)

lemma receive_step [frame_simps, simp]:
  "odometry (mcore (motion_receive i c)) = sync_odometry (shared c)"
  "sync_odometry (shared (motion_receive i c)) = sync_odometry (shared c)"
  "sync_walk_request (shared (motion_receive i c)) = sync_walk_request (shared c)"
  "vcore (motion_receive i c) = vcore c"
  "walk_request (mcore (motion_receive i c)) =
     (if walk_control_status (walk_request (mcore c)) = WALK_CONTROL_DONE \<and>
         walk_control_status (sync_walk_request (shared c)) = WALK_CONTROL_SET
      then (sync_walk_request (shared c))\<lparr>walk_control_status := WALK_CONTROL_DONE\<rparr> else sync_walk_request (shared c))"
  by (simp_all add: motion_receive_def receiveData_fields split_beta Let_def)

lemma publish_fields [frame_simps, simp]:
  "sync_odometry (publishData m s) = odometry m"
  "sync_walk_request (publishData m s) =
     (walk_request m)\<lparr>kick_with_left := kick_with_left (sync_walk_request s),
       target_point := target_point (sync_walk_request s), kick_heading := kick_heading (sync_walk_request s),
       motion := motion (sync_walk_request s), new_command := False, slow_stand := False, set_kick_step_params := False\<rparr>"
  by (simp_all add: publishData_def Let_def)

lemma vision_receive_fields [frame_simps]:
  assumes "\<not> tool_core v" "\<not> toolsim_core v" "vis_receiveData v s = (v', s')"
  shows "cum_x v' = cum_x v + vx (translation (displacement (sync_odometry s)))"
    "cum_y v' = cum_y v + vy (translation (displacement (sync_odometry s)))"
    "cum_rot v' = cum_rot v + rotation (displacement (sync_odometry s))"
    "s' = s\<lparr>sync_odometry := od_reset (sync_odometry s)\<rparr>" "tool_core v' = tool_core v" "toolsim_core v' = toolsim_core v"
  using assms by (auto simp: vis_receiveData_def vis_receive_motion_def Let_def)

lemma vision_publish_fields [frame_simps]:
  assumes "\<not> tool_core v" "vis_publishData v s = (v', s')"
  shows "cum_x v' = cum_x v" "cum_y v' = cum_y v" "cum_rot v' = cum_rot v"
    "displacement (sync_odometry s') = displacement (sync_odometry s)" "tool_core v' = tool_core v" "toolsim_core v' = toolsim_core v"
    "sync_walk_request s' =
       (vision_walk_request v)\<lparr>is_penalised := penalised v, start_command := False,
         finished_standing := (if finished_standing (sync_walk_request s) \<and> \<not> start_command (vision_walk_request v)
            then True else finished_standing (vision_walk_request v))\<rparr>"
  using assms by (auto simp: vis_publishData_def Let_def)

section \<open>Getting up moves nothing\<close>

lemma special_displacement [frame_simps, simp]:
  "sp_odometry (transitionToState inp st g) = sp_odometry g" "sp_odometry (processJointCommands t a g) = sp_odometry g"
  "sp_odometry (startMotionSequence g) = sp_odometry g" "sp_odometry (startMotion inp mo g) = sp_odometry g"
  by (simp_all add: transitionToState_def processJointCommands_def startMotionSequence_def startMotion_def Let_def)

lemma getup_displacement [frame_simps, simp]:
  "sp_odometry (send_stiffness_all v h) = sp_odometry h" "sp_odometry (prepareArms inp h) = sp_odometry h"
  "sp_odometry (cross inp h) = sp_odometry h" "sp_odometry (initGetup inp h) = sp_odometry h"
  "displacement (sp_odometry (set_getup_odometry h)) = displacement (sp_odometry h)"
  "displacement (sp_odometry (selectGetup inp h)) = displacement (sp_odometry h)"
  by (simp_all add: send_stiffness_all_def prepareArms_def cross_def initGetup_def set_getup_odometry_def selectGetup_def setBackGetup_def
      setFrontGetup_def Let_def)

lemma execute_displacement:
  "executeMotionSequence seqs inp g = Some g' \<Longrightarrow> sp_odometry g' = sp_odometry g"
  by (auto simp: executeMotionSequence_def processJointHardness_def Let_def split: option.splits motion_type.splits if_splits)

lemma chosen_displacement:
  "execute_chosen seqs inp g = Some g' \<Longrightarrow> displacement (sp_odometry g') = displacement (sp_odometry g)"
  by (auto simp: execute_chosen_def dest!: execute_displacement split: option.splits if_splits)

lemma child_displacement:
  "processFrameChild seqs inp g = Some (b, g') \<Longrightarrow> displacement (sp_odometry g') = displacement (sp_odometry g)"
  by (cases "sp_state g")
    (auto simp: processFrameChild_def Let_def dest!: execute_displacement chosen_displacement split: option.splits if_splits)

lemma gu_frame_displacement:
  "gu_processFrame seqs inp g = Some g' \<Longrightarrow> displacement (sp_odometry g') = displacement (sp_odometry g)"
  by (auto simp: gu_processFrame_def sp_processFrame_def dest!: execute_displacement child_displacement
      split: option.splits if_splits special_state.splits)

lemma run_getup_keeps:
  "run_getup seqs m = Some m' \<Longrightarrow> displacement (odometry m') = displacement (odometry m) \<and> walk_request m' = walk_request m"
  by (auto simp: run_getup_def Let_def dest!: gu_frame_displacement split: option.splits if_splits)

section \<open>A frame\<close>

lemma postProcess_keeps [frame_simps, simp]: "odometry (postProcess m) = odometry m" "walk_request (postProcess m) = walk_request m"
  by (simp_all add: postProcess_def Let_def)

lemma run_kick_keeps [frame_simps, simp]:
  "odometry (run_kick k m) = odometry m" "walk_request (run_kick k m) = walk_request m" "walk_engine (run_kick k m) = walk_engine m"
  by (simp_all add: run_kick_def Let_def)

definition frame_stands :: "'x motion_core \<Rightarrow> bool" where
  "frame_stands m = (\<not> alreadyProcessedFrame m \<and> needsStand (getup_module m))"

lemma before_walk_keeps [frame_simps, simp]:
  "odometry (before_walk (sense_frame i) k m) = odometry m" "walk_engine (before_walk (sense_frame i) k m) = walk_engine m"
  "walk_request (before_walk (sense_frame i) k m) = (if needsStand (getup_module m) then stand (walk_request m) else walk_request m)"
  by (simp_all add: before_walk_def sense_frame_def Let_def)

lemma run_walk_keeps:
  "run_walk i (w, m) = Some (w', m') \<Longrightarrow> walk_request m' = walk_request m \<and> (walk_engine m = None \<longrightarrow> m' = m)"
  by (auto simp: run_walk_def split: if_splits option.splits)

definition at_rest :: "'x motion_core \<Rightarrow> 'x motion_core" where
  "at_rest m = m\<lparr>odometry := (odometry m)\<lparr>displacement := po_new 0 0 0\<rparr>\<rparr>"

text \<open>What the walk makes of an empty odometry, and whether it restarts the engine, which drops what waits in the odometry.\<close>

definition walk_gain :: "'x frame_input \<Rightarrow> walk_module \<Rightarrow> 'x motion_core \<Rightarrow> pose2D" where
  "walk_gain i w m = (case run_walk i (w, at_rest m) of None \<Rightarrow> po_new 0 0 0 | Some (w', m') \<Rightarrow> displacement (odometry m'))"

definition walk_restarts :: "'x frame_input \<Rightarrow> walk_module \<Rightarrow> 'x motion_core \<Rightarrow> bool" where
  "walk_restarts i w m = (walk_engine m = Some RUNSWIFT2014_WALK \<and> restarts (walk_view i m) w)"

lemma plus2D_zero [simp]: "plus2D (po_new 0 0 0) p = p" "plus2D p (po_new 0 0 0) = p"
  by (simp_all add: plus2D_def po_new_def)

lemma run_walk_displacement:
  assumes "run_walk i (w, m) = Some (w', m')"
  shows "displacement (odometry m') = plus2D (if walk_restarts i w m then po_new 0 0 0 else displacement (odometry m)) (walk_gain i w m)"
proof (cases "walk_engine m = Some RUNSWIFT2014_WALK")
  case True
  let ?b = "walk_view i m" let ?p = "displacement (odometry m)"
  have v: "displaced ?p ?b = ?b" "walk_view i (at_rest m) = displaced (po_new 0 0 0) ?b"
    by (simp_all add: displaced_def walk_view_def at_rest_def)
  have e: "walk_engine (at_rest m) = walk_engine m" "mc_now (at_rest m) = mc_now m" by (simp_all add: at_rest_def)
  note f = rw_frame_odometry [of "fi_sys i" "fi_sys' i" "mc_now m" "fi_ms i" "fi_unset i" "fi_kin i" w ?p ?b, unfolded v(1)]
  show ?thesis using assms True
    by (auto simp: run_walk_def walk_gain_def walk_restarts_def v(2) e f split: option.splits)
next
  case False
  then show ?thesis using assms by (auto simp: run_walk_def walk_gain_def walk_restarts_def at_rest_def)
qed

lemma motion_frame_result:
  assumes "motion_frame i (w, m) = Some (w', m')"
  defines "b \<equiv> before_walk (sense_frame i) (fi_keyframes i) m"
  shows "if alreadyProcessedFrame m then w' = w \<and> m' = m
    else \<exists>m2. run_walk i (w, b) = Some (w', m2) \<and> displacement (odometry m') = displacement (odometry m2) \<and> walk_request m' = walk_request b"
proof (cases "alreadyProcessedFrame m")
  case True
  then show ?thesis using assms by (auto simp: motion_frame_def processMotionFrame_def)
next
  case False
  then obtain m2 where r: "run_walk i (w, b) = Some (w', m2)"
    and p: "processMotionFrame (sense_frame i) (\<lambda>e m. m2) (fi_keyframes i) (fi_motions i) m = Some m'"
    using assms by (auto simp: motion_frame_def split: option.splits)
  note k = run_walk_keeps [OF r]
  then have e: "(case walk_engine b of None \<Rightarrow> b | Some e \<Rightarrow> m2) = m2" by (cases "walk_engine b") auto
  have g: "displacement (odometry x) = displacement (odometry m2) \<and> walk_request x = walk_request b"
    if "(if isGettingUp (getup_module m2) \<or> motion (walk_request m2) = M_FALLING then run_getup (fi_motions i) m2 else Some m2) = Some x" for x
    using that k run_getup_keeps [of "fi_motions i" m2 x] by (auto split: if_splits)
  from p False obtain x where
    "(if isGettingUp (getup_module m2) \<or> motion (walk_request m2) = M_FALLING then run_getup (fi_motions i) m2 else Some m2) = Some x"
    and x: "m' = x\<lparr>last_frame_processed := frame_id x\<rparr>"
  proof -
    have "(case if isGettingUp (getup_module m2) \<or> motion (walk_request m2) = M_FALLING then run_getup (fi_motions i) m2 else Some m2 of
        None \<Rightarrow> None | Some x \<Rightarrow> Some (x\<lparr>last_frame_processed := frame_id x\<rparr>)) = Some m'"
      using p unfolding processMotionFrame_def b_def [symmetric] Let_def e if_not_P [OF False] .
    with that show ?thesis by (auto split: option.splits)
  qed
  from g [OF this(1)] show ?thesis using False r by (simp add: x)
qed

section \<open>Schedules without interference\<close>

text \<open>
  What the robot has travelled is either accumulated by the vision process or still waits in the shared block. A
  motion cycle (receive, frame, publish) adds what the walk makes of the frame, and loses what waits when the walk restarts its engine.
\<close>

datatype 'x slot = Motion_Cycle "'x frame_input" | Decision "walk_request_block \<Rightarrow> walk_request_block" | Vision_Reads | Vision_Writes

fun slot_events :: "'x slot \<Rightarrow> 'x event list" where
  "slot_events (Motion_Cycle i) = [Motion_Receive i, Motion_Frame i, Motion_Publish]"
| "slot_events (Decision f) = [Behaviors f]"
| "slot_events Vision_Reads = [Vision_Receive]"
| "slot_events Vision_Writes = [Vision_Publish]"

definition travelled :: "'x cores \<Rightarrow> pose2D" where
  "travelled c = plus2D (po_new (cum_rot (vcore c)) (cum_x (vcore c)) (cum_y (vcore c))) (displacement (sync_odometry (shared c)))"

definition cycle_gain :: "'x frame_input \<Rightarrow> 'x cores \<Rightarrow> pose2D" where
  "cycle_gain i c =
     (let c = motion_receive i c
      in if alreadyProcessedFrame (mcore c) then po_new 0 0 0
         else walk_gain i (engine c) (before_walk (sense_frame i) (fi_keyframes i) (mcore c)))"

definition cycle_lost :: "'x frame_input \<Rightarrow> 'x cores \<Rightarrow> pose2D" where
  "cycle_lost i c =
     (let c = motion_receive i c
      in if \<not> alreadyProcessedFrame (mcore c) \<and> walk_restarts i (engine c) (before_walk (sense_frame i) (fi_keyframes i) (mcore c))
         then displacement (odometry (mcore c)) else po_new 0 0 0)"

primrec total :: "('x frame_input \<Rightarrow> 'x cores \<Rightarrow> pose2D) \<Rightarrow> 'x slot list \<Rightarrow> 'x cores \<Rightarrow> pose2D" where
  "total f [] c = po_new 0 0 0"
| "total f (s # ss) c =
     plus2D (case s of Motion_Cycle i \<Rightarrow> f i c | _ \<Rightarrow> po_new 0 0 0)
       (case exchange_run (slot_events s) c of None \<Rightarrow> po_new 0 0 0 | Some c \<Rightarrow> total f ss c)"

definition on_robot :: "'x cores \<Rightarrow> bool" where
  "on_robot c = (\<not> tool_core (vcore c) \<and> \<not> toolsim_core (vcore c))"

lemma exchange_run_append:
  "exchange_run (xs @ ys) c = (case exchange_run xs c of None \<Rightarrow> None | Some c \<Rightarrow> exchange_run ys c)"
  by (induction xs arbitrary: c) (auto split: option.split)

lemma plus2D_ac: "plus2D (plus2D a b) c = plus2D a (plus2D b c)" "plus2D a b = plus2D b a" "plus2D a (plus2D b c) = plus2D b (plus2D a c)"
  by (simp_all add: plus2D_def po_new_def)

lemma cycle_step:
  assumes "exchange_run (slot_events (Motion_Cycle i)) c = Some c'"
  shows "vcore c' = vcore c \<and>
    plus2D (displacement (sync_odometry (shared c'))) (cycle_lost i c) = plus2D (displacement (sync_odometry (shared c))) (cycle_gain i c)"
proof -
  define c1 where "c1 = motion_receive i c"
  define b where "b = before_walk (sense_frame i) (fi_keyframes i) (mcore c1)"
  from assms obtain w' m' where f: "motion_frame i (engine c1, mcore c1) = Some (w', m')"
    and c': "vcore c' = vcore c1" "sync_odometry (shared c') = odometry m'"
    by (auto simp: c1_def [symmetric] split: option.splits)
  have v: "vcore c1 = vcore c" and d: "odometry (mcore c1) = sync_odometry (shared c)" by (simp_all add: c1_def)
  note r = motion_frame_result [OF f]
  show ?thesis
  proof (cases "alreadyProcessedFrame (mcore c1)")
    case True
    then show ?thesis using r c' v d by (simp add: cycle_lost_def cycle_gain_def c1_def [symmetric] Let_def)
  next
    case False
    with r obtain m2 where w: "run_walk i (engine c1, b) = Some (w', m2)" and m2: "displacement (odometry m') = displacement (odometry m2)"
      by (auto simp: b_def)
    have "odometry b = odometry (mcore c1)" by (simp add: b_def)
    with run_walk_displacement [OF w] False c' v d m2 show ?thesis
      by (simp add: cycle_lost_def cycle_gain_def c1_def [symmetric] b_def [symmetric] Let_def plus2D_ac)
  qed
qed

lemma vision_slot:
  assumes "on_robot c" "exchange_run (slot_events s) c = Some c'" "\<And>i. s \<noteq> Motion_Cycle i"
  shows "on_robot c' \<and> travelled c' = travelled c"
proof (cases s)
  case Vision_Reads
  obtain v s' where r: "vis_receiveData (vcore c) (shared c) = (v, s')" by fastforce
  from assms(1) vision_receive_fields [OF _ _ r] assms(2) r Vision_Reads show ?thesis
    by (simp add: on_robot_def travelled_def plus2D_def po_new_def od_reset_def) auto
next
  case Vision_Writes
  obtain v s' where r: "vis_publishData (vcore c) (shared c) = (v, s')" by fastforce
  from assms(1) vision_publish_fields [OF _ r] assms(2) r Vision_Writes show ?thesis
    by (simp add: on_robot_def travelled_def) auto
qed (use assms in \<open>auto simp: on_robot_def travelled_def\<close>)

lemma slot_step:
  assumes "on_robot c" "exchange_run (slot_events s) c = Some c'"
  shows "on_robot c' \<and> plus2D (travelled c') (case s of Motion_Cycle i \<Rightarrow> cycle_lost i c | _ \<Rightarrow> po_new 0 0 0) =
    plus2D (travelled c) (case s of Motion_Cycle i \<Rightarrow> cycle_gain i c | _ \<Rightarrow> po_new 0 0 0)"
proof (cases s)
  case (Motion_Cycle i)
  with assms have "exchange_run (slot_events (Motion_Cycle i)) c = Some c'" by simp
  from cycle_step [OF this] assms(1) show ?thesis by (simp add: Motion_Cycle on_robot_def travelled_def plus2D_ac(1))
qed (use vision_slot [OF assms] in auto)

lemma slots_run:
  "on_robot c \<Longrightarrow> exchange_run (concat (map slot_events ss)) c = Some c' \<Longrightarrow>
   plus2D (travelled c') (total cycle_lost ss c) = plus2D (travelled c) (total cycle_gain ss c)"
proof (induction ss arbitrary: c)
  case (Cons s ss)
  then obtain c1 where s: "exchange_run (slot_events s) c = Some c1" and r: "exchange_run (concat (map slot_events ss)) c1 = Some c'"
    by (auto simp: exchange_run_append split: option.splits)
  note one = slot_step [OF Cons.prems(1) s] and rest = Cons.IH [OF _ r]
  let ?l = "case s of Motion_Cycle i \<Rightarrow> cycle_lost i c | _ \<Rightarrow> po_new 0 0 0"
    and ?g = "case s of Motion_Cycle i \<Rightarrow> cycle_gain i c | _ \<Rightarrow> po_new 0 0 0"
  have o: "plus2D (travelled c1) ?l = plus2D (travelled c) ?g" using one by blast
  have "plus2D (travelled c') (plus2D ?l (total cycle_lost ss c1)) = plus2D ?l (plus2D (travelled c') (total cycle_lost ss c1))"
    by (simp only: plus2D_ac)
  also have "\<dots> = plus2D ?l (plus2D (travelled c1) (total cycle_gain ss c1))" using rest one by simp
  also have "\<dots> = plus2D (plus2D (travelled c1) ?l) (total cycle_gain ss c1)" by (simp only: plus2D_ac)
  also have "\<dots> = plus2D (travelled c) (plus2D ?g (total cycle_gain ss c1))" by (simp only: o plus2D_ac(1))
  finally show ?case by (simp add: s)
qed simp

section \<open>Frames that return\<close>

lemma initWalkEngine_other [frame_simps, simp]:
  "getup_module (initWalkEngine m) = getup_module m" "frame_id (initWalkEngine m) = frame_id m"
  "last_frame_processed (initWalkEngine m) = last_frame_processed m"
  by (simp_all add: initWalkEngine_def split: walk_type.split)

lemma receiveData_other [frame_simps]:
  "getup_module (fst (receiveData m s)) = getup_module m"
  "frame_id (fst (receiveData m s)) = frame_id m"
  "last_frame_processed (fst (receiveData m s)) = last_frame_processed m"
  "walk_type (walk_request m) = walk_type (sync_walk_request s) \<Longrightarrow> walk_engine (fst (receiveData m s)) = walk_engine m"
  subgoal by (simp add: receiveData_def Let_def split_beta)
  subgoal by (simp add: receiveData_def Let_def split_beta)
  subgoal by (simp add: receiveData_def Let_def split_beta)
  subgoal by (simp add: receiveData_def Let_def split_beta)
  done

lemma begin_frame_other [frame_simps, simp]:
  "getup_module (begin_frame i m) = getup_module m" "frame_id (begin_frame i m) = fi_id i"
  "last_frame_processed (begin_frame i m) = last_frame_processed m" "walk_engine (begin_frame i m) = walk_engine m"
  by (simp_all add: begin_frame_def preProcess_def Let_def)

lemma receive_other [frame_simps, simp]:
  "getup_module (mcore (motion_receive i c)) = getup_module (mcore c)" "frame_id (mcore (motion_receive i c)) = fi_id i"
  "last_frame_processed (mcore (motion_receive i c)) = last_frame_processed (mcore c)"
  by (simp_all add: motion_receive_def receiveData_other split_beta Let_def)

lemma receive_engine:
  assumes "walk_type (walk_request (mcore c)) = walk_type (sync_walk_request (shared c))"
  shows "walk_engine (mcore (motion_receive i c)) = walk_engine (mcore c)" "engine (motion_receive i c) = engine c"
  using assms by (simp_all add: motion_receive_def receiveData_other next_engine_def split_beta Let_def)

lemma before_walk_getup [frame_simps, simp]: "getup_module (before_walk (sense_frame i) k m) = getup_module m"
  by (simp add: before_walk_def sense_frame_def run_kick_def Let_def)

lemma run_walk_getup: "run_walk i (w, m) = Some (w', m') \<Longrightarrow> getup_module m' = getup_module m"
  by (auto simp: run_walk_def split: if_splits option.splits)

text \<open>A frame returns if the walk does and the getup module is in a state it can reach.\<close>

lemma frame_returns:
  assumes "gu_inv (getup_module m)" "\<forall>m. m \<noteq> Getup \<longrightarrow> fi_motions i m \<noteq> []"
    "alreadyProcessedFrame m \<or> (\<exists>r. run_walk i (w, before_walk (sense_frame i) (fi_keyframes i) m) = Some r)"
  shows "\<exists>w' m'. motion_frame i (w, m) = Some (w', m')"
proof (cases "alreadyProcessedFrame m")
  case True
  then show ?thesis by (simp add: motion_frame_def processMotionFrame_def)
next
  case False
  define b where "b = before_walk (sense_frame i) (fi_keyframes i) m"
  from False assms(3) obtain w' m2 where r: "run_walk i (w, b) = Some (w', m2)" by (auto simp: b_def)
  then have e: "(case walk_engine b of None \<Rightarrow> b | Some e \<Rightarrow> m2) = m2" using run_walk_keeps [OF r] by (cases "walk_engine b") auto
  have "gu_inv (getup_module m2)" using run_walk_getup [OF r] assms(1) by (simp add: b_def)
  from run_getup_defined [OF assms(2) this] obtain g where g: "run_getup (fi_motions i) m2 = Some g" by blast
  have "\<exists>m'. processMotionFrame (sense_frame i) (\<lambda>e m. m2) (fi_keyframes i) (fi_motions i) m = Some m'"
    unfolding processMotionFrame_def b_def [symmetric] Let_def e if_not_P [OF False] by (simp add: g)
  then show ?thesis using False r by (auto simp: motion_frame_def b_def)
qed

lemma reset_player: "ag_joints (d_actions (body_reset a d) x) = ag_joints (d_actions d x)"
    "ag_time (d_actions (body_reset a d) x) = 0 \<or> d_actions (body_reset a d) x = d_actions d x" "d_requestedDive (body_reset a d) = d_requestedDive d"
  by (simp_all add: body_reset_def ag_reset_def Let_def)

lemma reset_initial: "ag_time (d_actions (body_reset A_INITIAL d) A_INITIAL) = 0"
  by (simp add: body_reset_def ag_reset_def d_slot_def Let_def)

lemma fold_reset_player:
  "ag_joints (d_actions (fold body_reset as d) x) = ag_joints (d_actions d x)"
  "ag_time (d_actions d x) = 0 \<Longrightarrow> ag_time (d_actions (fold body_reset as d) x) = 0"
  "A_INITIAL \<in> set as \<Longrightarrow> ag_time (d_actions (fold body_reset as d) A_INITIAL) = 0"
  "d_requestedDive (fold body_reset as d) = d_requestedDive d"
proof (induction as arbitrary: d x)
  case (Cons a as)
  { case 1 then show ?case using Cons.IH(1) by (simp add: reset_player) }
  { case 2 then show ?case using Cons.IH(2) reset_player(2) [of a d x] by auto }
  { case 3 then show ?case using Cons.IH(2,3) reset_initial [of d] by auto }
  { case 4 then show ?case using Cons.IH(4) by (simp add: reset_player) }
qed simp_all

lemma reset_distributor:
  "d_current (d_reset d) = A_NONE" "ag_joints (d_actions (d_reset d) A_INITIAL) = ag_joints (d_actions d A_INITIAL)"
  "ag_time (d_actions (d_reset d) A_INITIAL) = 0" "d_requestedDive (d_reset d) = d_requestedDive d"
proof -
  have i: "A_INITIAL \<in> set all_actions" by (simp add: all_actions_def)
  show "d_current (d_reset d) = A_NONE" "ag_joints (d_actions (d_reset d) A_INITIAL) = ag_joints (d_actions d A_INITIAL)"
    "ag_time (d_actions (d_reset d) A_INITIAL) = 0" "d_requestedDive (d_reset d) = d_requestedDive d"
    by (simp_all add: d_reset_def fold_reset_player i)
qed

lemma ag_first_frame: "ag_time a = 0 \<Longrightarrow> ag_joints a = [] \<Longrightarrow> \<exists>a' j. ag_makeJoints r s a = Some (a', j)"
  by (simp add: ag_makeJoints_def ag_interpolate_def Let_def)

lemma initial_from_reset:
  assumes "d_current d = A_NONE" "d_requestedDive d = A_NONE" "ag_joints (d_actions d A_INITIAL) = []" "ag_time (d_actions d A_INITIAL) = 0"
    "actionType (rq_body (io_request io)) = A_INITIAL"
  shows "\<exists>d' io' j. d_makeJoints i (d, io) = Some (d', io', j)"
proof -
  define d1 where "d1 = choose_generator A_INITIAL d"
  have c: "d_current d1 = A_INITIAL \<and> ag_joints (d_actions d1 A_INITIAL) = [] \<and> ag_time (d_actions d1 A_INITIAL) = 0"
    using assms(1-4) reset_distributor [of d]
    by (auto simp: d1_def choose_generator_def note_dive_def body_isActive_def d_slot_def body_reset_def next_generator_def Let_def)
  obtain a' j' where a: "ag_makeJoints (rq_body (io_request io)) (gi_sensors i) (d_actions d1 A_INITIAL) = Some (a', j')"
    using c ag_first_frame by blast
  show ?thesis
    using c a by (simp add: d_makeJoints_def assms(5) d1_def [symmetric] body_makeJoints_def d_slot_def usesHead_def Let_def)
qed

text \<open>The first frame of a new module restarts the engine: its previous command is not a walk.\<close>

lemma fresh_frame:
  assumes "motion (wk_request b) = M_STAND" "\<not> perform_kick (wk_request b)" "ag_joints (d_actions d A_INITIAL) = []" "d_requestedDive d = A_NONE"
  shows "restarts b (rw_init file d old mem)"
    "\<exists>r. rw_processFrame sys sys' now ms unset kin (rw_init file d old mem, b) = Some r"
proof -
  let ?w = "rw_init file d old mem"
  show st: "restarts b ?w"
    using assms(1,2) by (simp add: restarts_def rw_notice_def rw_init_def isRequestForWalk_def)
  let ?s = "sense unset (wk_joints b) (wk_sensors b)"
  obtain w1 b1 s1 where c: "rw_calibrate sys sys' now ?s (rw_heat b (rw_notice b ?w), b) = (w1, b1, s1)" by (metis prod_cases3)
  have w1: "rw_standing w1" "rw_clipper w1 = c_new d old"
  proof -
    have "rw_clipper (rw_heat b (rw_notice b ?w)) = rw_clipper ?w" by (simp add: rw_heat_def rw_notice_def Let_def)
    also have "\<dots> = c_new d old" by (simp add: rw_init_def)
    finally show "rw_clipper w1 = c_new d old" using rw_calibrate_keeps [OF c] by simp
    show "rw_standing w1" using rw_calibrate_standing [OF c] st by (simp add: restarts_def)
  qed
  define w2 where "w2 = w1\<lparr>rw_clipper := c_reset d_reset (rw_clipper w1)\<rparr>"
  have r: "rw_refuse (w2, b1, body_of A_INITIAL) = (w2, b1, body_of A_INITIAL)" by (simp add: rw_refuse_def body_of_def)
  obtain w3 b3 s3 odo where p: "rw_prepare sys sys' now unset (?w, b) = (w3, b3, s3, body_of A_INITIAL, odo)" and w3: "rw_clipper w3 = rw_clipper w2"
    using r by (simp add: rw_prepare_def c rw_restart_value w1(1) w2_def [symmetric] Let_def)
  let ?i = "\<lparr>gi_now = ms, gi_kin = kin, gi_sensors = s3, gi_ballX = 0, gi_ballY = 0\<rparr>"
    and ?io = "\<lparr>io_request = \<lparr>rq_head = head_new, rq_body = body_of A_INITIAL\<rparr>, io_odometry = odo, io_body = rw_bodyModel w3\<rparr>"
  have g: "c_generator (rw_clipper w3) = d_reset d" by (simp add: w3 w2_def w1(2) c_reset_def c_new_def)
  obtain d' io' j where "d_makeJoints ?i (d_reset d, ?io) = Some (d', io', j)"
    using initial_from_reset [of "d_reset d" ?io ?i] reset_distributor [of d] assms(3,4) by (auto simp: body_of_def)
  then show "\<exists>r. rw_processFrame sys sys' now ms unset kin (?w, b) = Some r"
    by (simp add: rw_processFrame_def p c_makeJoints_def g Let_def)
qed

section \<open>Properties\<close>


definition new_walk :: "distributor \<Rightarrow> joint_vals \<Rightarrow> body_model \<Rightarrow> pose2D \<Rightarrow> 'x cores \<Rightarrow> 'x cores" where
  "new_walk d old mem p c = c\<lparr>engine := rw_init None d old mem,
     mcore := (mcore c)\<lparr>last_frame_processed := 0, walk_engine := Some RUNSWIFT2014_WALK, getup_module := gu_new (getup_module (mcore c)),
       walk_request := (walk_request (mcore c))\<lparr>walk_type := RUNSWIFT2014_WALK\<rparr>\<rparr>,
     vcore := (vcore c)\<lparr>tool_core := False, toolsim_core := False\<rparr>,
     shared := (shared c)\<lparr>sync_odometry := (sync_odometry (shared c))\<lparr>displacement := p\<rparr>,
       sync_walk_request := (sync_walk_request (shared c))\<lparr>motion := M_STAND, perform_kick := False, walk_type := RUNSWIFT2014_WALK\<rparr>\<rparr>\<rparr>"

text \<open>The first cycle after the walk module has been built restarts the engine and loses the 10 mm that waited; what vision reads before is not lost.\<close>

lemma new_walk_cycle:
  fixes c :: "'x cores" and i :: "'x frame_input" and d old mem p
  assumes "ag_joints (d_actions d A_INITIAL) = []" "d_requestedDive d = A_NONE" "fi_id i = 1" "\<forall>m. m \<noteq> Getup \<longrightarrow> fi_motions i m \<noteq> []"
  defines "c1 \<equiv> new_walk d old mem p c"
  shows "\<exists>c'. exchange_run (slot_events (Motion_Cycle i)) c1 = Some c'" "cycle_lost i c1 = p"
proof -
  let ?c = "motion_receive i c1"
  define b where "b = before_walk (sense_frame i) (fi_keyframes i) (mcore ?c)"
  have t: "walk_type (walk_request (mcore c1)) = walk_type (sync_walk_request (shared c1))" by (simp add: c1_def new_walk_def)
  have e: "walk_engine (mcore ?c) = Some RUNSWIFT2014_WALK" "engine ?c = rw_init None d old mem"
    using receive_engine [OF t] by (simp_all add: c1_def new_walk_def)
  have g: "gu_inv (getup_module (mcore ?c))" "\<not> needsStand (getup_module (mcore ?c))"
    by (simp_all add: c1_def new_walk_def gu_inv_start(1)) (simp add: needsStand_def gu_new_def sp_new_def)
  have n: "\<not> alreadyProcessedFrame (mcore ?c)" by (simp add: alreadyProcessedFrame_def assms(3)) (simp add: c1_def new_walk_def)
  have m: "motion (wk_request (walk_view i b)) = M_STAND" "\<not> perform_kick (wk_request (walk_view i b))"
    using g(2) by (simp_all add: b_def walk_view_def) (simp_all add: c1_def new_walk_def)
  have be: "walk_engine b = Some RUNSWIFT2014_WALK" by (simp add: b_def e)
  have f: "restarts (walk_view i b) (rw_init None d old mem)" by (rule fresh_frame(1) [OF m assms(1,2)])
  obtain r where "rw_processFrame (fi_sys i) (fi_sys' i) (mc_now b) (fi_ms i) (fi_unset i) (fi_kin i) (rw_init None d old mem, walk_view i b) = Some r"
    using fresh_frame(2) [OF m assms(1,2)] by blast
  then have "\<exists>r. run_walk i (engine ?c, b) = Some r"
    by (cases r) (simp add: run_walk_def be e)
  then obtain w' m' where "motion_frame i (engine ?c, mcore ?c) = Some (w', m')"
    using frame_returns [of "mcore ?c" i "engine ?c"] g(1) assms(4) by (auto simp: b_def)
  then show "\<exists>c'. exchange_run (slot_events (Motion_Cycle i)) c1 = Some c'" by simp
  show "cycle_lost i c1 = p"
    using f n by (simp add: cycle_lost_def walk_restarts_def Let_def b_def [symmetric] be e) (simp add: c1_def new_walk_def)
qed


text \<open>
  Without the restriction to cycles the odometry is not conserved: when the vision process reads between the receive and the publish of a motion cycle,
  its reset of the shared block is overwritten, and the displacement that was waiting there is counted twice.
\<close>

theorem odometry_counted_twice:
  assumes "\<not> tool_core (vcore c)" "\<not> toolsim_core (vcore c)"
    "exchange_run [Motion_Receive i, Vision_Receive, Motion_Frame i, Motion_Publish, Vision_Receive] c = Some c'"
    "cycle_lost i c = po_new 0 0 0"
  shows "cum_x (vcore c') = cum_x (vcore c) + 2 * vx (translation (displacement (sync_odometry (shared c)))) + vx (translation (cycle_gain i c))"
proof -
  let ?c1 = "motion_receive i c"
  obtain v s where r1: "vis_receiveData (vcore c) (shared ?c1) = (v, s)" by fastforce
  obtain w m where f: "motion_frame i (engine ?c1, mcore ?c1) = Some (w, m)" using assms(3) by (auto simp: r1 split: option.splits)
  obtain v2 s2 where r2: "vis_receiveData v (publishData (postProcess m) s) = (v2, s2)" "vcore c' = v2"
    using assms(3) by (cases "vis_receiveData v (publishData (postProcess m) s)") (auto simp: r1 f)
  note a = vision_receive_fields [OF assms(1,2) r1]
  have t2: "\<not> tool_core v" "\<not> toolsim_core v" using a assms by simp_all
  note b = vision_receive_fields [OF t2 r2(1)]
  obtain c2 where c2: "exchange_run (slot_events (Motion_Cycle i)) c = Some c2" and d2: "sync_odometry (shared c2) = odometry m" by (simp add: f)
  have "displacement (odometry m) = plus2D (displacement (sync_odometry (shared c))) (cycle_gain i c)"
    using cycle_step [OF c2] by (simp add: d2 assms(4))
  then show ?thesis using a(1) b(1) by (simp add: r2(2)) (simp add: plus2D_def po_new_def)
qed

lemma frame_request:
  assumes "exchange_step (Motion_Frame i) c = Some c'"
  shows "vcore c' = vcore c" "shared c' = shared c"
    "walk_request (mcore c') = (if frame_stands (mcore c) then stand (walk_request (mcore c)) else walk_request (mcore c))"
proof -
  from assms obtain w m where f: "motion_frame i (engine c, mcore c) = Some (w, m)" and c': "c' = c\<lparr>mcore := postProcess m, engine := w\<rparr>"
    by (auto split: option.splits)
  show "vcore c' = vcore c" "shared c' = shared c" by (simp_all add: c')
  show "walk_request (mcore c') = (if frame_stands (mcore c) then stand (walk_request (mcore c)) else walk_request (mcore c))"
    using motion_frame_result [OF f] by (auto simp: c' frame_stands_def split: if_splits)
qed

lemma republished:
  assumes "exchange_run [Motion_Publish, Motion_Receive j] c = Some c'"
  shows "motion (walk_request (mcore c')) = motion (sync_walk_request (shared c))"
    "target_point (walk_request (mcore c')) = target_point (sync_walk_request (shared c))"
    "kick_with_left (walk_request (mcore c')) = kick_with_left (sync_walk_request (shared c))"
    "kick_heading (walk_request (mcore c')) = kick_heading (sync_walk_request (shared c))"
    "\<not> new_command (walk_request (mcore c'))"
    "speed (walk_request (mcore c')) = speed (walk_request (mcore c))"
    "perform_kick (walk_request (mcore c')) = perform_kick (walk_request (mcore c))"
proof -
  have c': "c' = motion_receive j (c\<lparr>shared := publishData (mcore c) (shared c)\<rparr>)" using assms by simp
  show "motion (walk_request (mcore c')) = motion (sync_walk_request (shared c))"
    "target_point (walk_request (mcore c')) = target_point (sync_walk_request (shared c))"
    "kick_with_left (walk_request (mcore c')) = kick_with_left (sync_walk_request (shared c))"
    "kick_heading (walk_request (mcore c')) = kick_heading (sync_walk_request (shared c))"
    "\<not> new_command (walk_request (mcore c'))"
    "speed (walk_request (mcore c')) = speed (walk_request (mcore c))"
    "perform_kick (walk_request (mcore c')) = perform_kick (walk_request (mcore c))"
    by (simp_all add: c')
qed


definition after_getup :: "'x cores \<Rightarrow> 'x cores" where
  "after_getup c = c\<lparr>vcore := (vcore c)\<lparr>tool_core := False,
       vision_walk_request := setWalk 1 0 0 ((vision_walk_request (vcore c))\<lparr>walk_type := INVALID_WALK\<rparr>)\<rparr>,
     mcore := (mcore c)\<lparr>last_frame_processed := 0, walk_engine := None, walk_request := (walk_request (mcore c))\<lparr>walk_type := INVALID_WALK\<rparr>,
       getup_module := (gu_new (getup_module (mcore c)))\<lparr>sp_state := STAND, currMotion := Some standUpBackNao\<rparr>\<rparr>\<rparr>"


end
