(* ===== verification/Memory_Frame.thy ===== *)
theory Memory_Frame
  imports Prelude "HOL-Library.Char_ord" "HOL-Library.List_Lexorder"
begin

text \<open>
  The named memory blocks of a process: \<open>src/core/memory/MemoryBlock.cpp\<close>, the two stores
  \<open>PrivateMemory.cpp\<close> and \<open>SharedMemory.h\<close>/\<open>.cpp\<close>, the frame \<open>MemoryFrame.h\<close>/\<open>.cpp\<close> that hides
  which of them is used and checks who owns a block, and the access of a module to its blocks
  (\<open>src/core/Module.h\<close>, \<open>Module.cpp\<close>).

  A pointer to a block is the name the block is stored under; what is written through the pointer
  is written to the store. The fields of a block that its class adds are its \<open>contents\<close>. The
  macros of \<open>MemoryBlockOperations.h\<close>, which the build generates, are parameters: \<open>new_block\<close> gives
  the freshly constructed block of a name, or nothing for an unknown name. \<open>exit(1)\<close> is an error
  value. The memory segment is taken to be large enough (the library throws otherwise).
\<close>

section \<open>Blocks and their owners\<close>

datatype mem_owner =
    OWNER_UNKNOWN | OWNER_MOTION | OWNER_VISION | OWNER_INTERFACE | OWNER_IMAGE_CAPTURE | OWNER_SYNC | TOOL_MEM | OWNER_SHARED

datatype mem_error = Bad_Owner string | Copying_Shared_Memory

record 'b mem_block =
  blk_version :: "32 word"
  blk_size :: "32 word"
  log_block :: bool
  blk_owner :: mem_owner
  blk_directory :: "string option"
  buffer_logging :: bool
  blk_frame_id :: int
  contents :: 'b

definition mb_new :: "'b mem_block \<Rightarrow> 'b mem_block" where
  "mb_new b = b\<lparr>log_block := False, blk_owner := OWNER_UNKNOWN\<rparr>"

definition mb_assign :: "'b mem_block \<Rightarrow> 'b mem_block \<Rightarrow> 'b mem_block" where
  "mb_assign that b = b\<lparr>blk_version := blk_version that, blk_size := blk_size that\<rparr>"

definition checkOwner :: "string \<Rightarrow> mem_owner \<Rightarrow> bool \<Rightarrow> 'b mem_block \<Rightarrow> mem_error + bool" where
  "checkOwner name expect_owner no_exit b =
     (if blk_owner b \<noteq> expect_owner
      then if expect_owner = TOOL_MEM then Inr True
           else if blk_owner b = OWNER_INTERFACE \<and> expect_owner = OWNER_MOTION then Inr True
           else if blk_owner b = OWNER_IMAGE_CAPTURE \<and> expect_owner = OWNER_VISION then Inr True
           else if blk_owner b = OWNER_SHARED then Inr True
           else if no_exit then Inr False
           else Inl (Bad_Owner name)
      else Inr True)"

definition validateHeader :: "32 word \<times> 32 word \<Rightarrow> 'b mem_block \<Rightarrow> bool" where
  "validateHeader theader b =
     (if fst theader \<noteq> blk_version b then False
      else if snd theader \<noteq> blk_size b then False
      else True)"

section \<open>Ordered maps\<close>

text \<open>\<open>std::map\<close> keeps its entries in the order of their keys; \<open>insert\<close> does not overwrite.\<close>

type_synonym 'v ordmap = "(string \<times> 'v) list"

fun map_insert :: "string \<Rightarrow> 'v \<Rightarrow> 'v ordmap \<Rightarrow> 'v ordmap" where
  "map_insert k v [] = [(k, v)]"
| "map_insert k v ((k', v') # m) =
     (if k = k' then (k', v') # m else if k < k' then (k, v) # (k', v') # m else (k', v') # map_insert k v m)"

definition map_put :: "string \<Rightarrow> 'v \<Rightarrow> 'v ordmap \<Rightarrow> 'v ordmap" where
  "map_put k v m = map (\<lambda>(k', v'). if k' = k then (k', v) else (k', v')) m"

definition map_wf :: "'v ordmap \<Rightarrow> bool" where
  "map_wf m \<longleftrightarrow> sorted_wrt (<) (map fst m)"

section \<open>Private memory\<close>

definition pm_new :: "'b mem_block ordmap" where
  "pm_new = []"

definition pm_copy :: "(string \<Rightarrow> 'b mem_block \<Rightarrow> 'b mem_block option) \<Rightarrow> 'b mem_block ordmap \<Rightarrow> 'b mem_block ordmap" where
  "pm_copy copy_block mem =
     fold (\<lambda>(name, b) m. case copy_block name b of None \<Rightarrow> m | Some temp \<Rightarrow> map_insert name temp m) mem []"

definition pm_getBlockPtr :: "string \<Rightarrow> 'b mem_block ordmap \<Rightarrow> 'b mem_block option" where
  "pm_getBlockPtr name m = map_of m name"

definition pm_addBlock :: "string \<Rightarrow> 'b mem_block \<Rightarrow> 'b mem_block ordmap \<Rightarrow> bool \<times> 'b mem_block ordmap" where
  "pm_addBlock name b m = (case map_of m name of None \<Rightarrow> (True, map_insert name b m) | Some _ \<Rightarrow> (False, m))"

definition pm_getBlockNames :: "bool \<Rightarrow> mem_owner \<Rightarrow> 'b mem_block ordmap \<Rightarrow> string list" where
  "pm_getBlockNames only_log for_owner m =
     map fst (filter (\<lambda>(name, b). (\<not> only_log \<or> log_block b) \<and> checkOwner name for_owner True b = Inr True) m)"

section \<open>Shared memory\<close>

text \<open>
  The keys of the shared map are built from \<open>c_str()\<close>: a name ends at its first zero character. The
  server creates an empty segment, any other process opens the existing one.
\<close>

definition c_str :: "string \<Rightarrow> string" where
  "c_str s = takeWhile (\<lambda>c. c \<noteq> CHR 0x00) s"

definition sm_new :: "bool \<Rightarrow> 'b mem_block ordmap \<Rightarrow> 'b mem_block ordmap" where
  "sm_new server existing = (if server then [] else existing)"

definition sm_getBlockPtr :: "string \<Rightarrow> 'b mem_block ordmap \<Rightarrow> 'b mem_block option" where
  "sm_getBlockPtr name m = map_of m (c_str name)"

definition sm_addBlock :: "string \<Rightarrow> 'b mem_block \<Rightarrow> 'b mem_block ordmap \<Rightarrow> bool \<times> 'b mem_block ordmap" where
  "sm_addBlock name b m =
     (if sm_getBlockPtr name m \<noteq> None then (False, m)
      else case map_of m (c_str name) of None \<Rightarrow> (True, map_insert (c_str name) b m) | Some _ \<Rightarrow> (False, m))"

definition sm_getBlockNames :: "bool \<Rightarrow> mem_owner \<Rightarrow> 'b mem_block ordmap \<Rightarrow> string list" where
  "sm_getBlockNames only_log for_owner m =
     map fst (filter (\<lambda>(name, b). (\<not> only_log \<or> log_block b) \<and> checkOwner name for_owner True b = Inr True) m)"

section \<open>The frame\<close>

record 'b memory_frame =
  use_shared_memory :: bool
  mf_owner :: mem_owner
  shared_memory :: "'b mem_block ordmap"
  private_memory :: "'b mem_block ordmap"
  previously_added_owner :: mem_owner
  suffix :: string

definition mf_new :: "bool \<Rightarrow> mem_owner \<Rightarrow> string \<Rightarrow> bool \<Rightarrow> 'b mem_block ordmap \<Rightarrow> mem_owner \<Rightarrow> 'b memory_frame" where
  "mf_new use_shared owner sfx server existing junk =
     \<lparr>use_shared_memory = use_shared, mf_owner = owner,
      shared_memory = (if use_shared then sm_new server existing else []),
      private_memory = pm_new, previously_added_owner = junk, suffix = sfx\<rparr>"

definition mf_copy ::
  "(string \<Rightarrow> 'b mem_block \<Rightarrow> 'b mem_block option) \<Rightarrow> mem_owner \<Rightarrow> 'b memory_frame \<Rightarrow> mem_error + 'b memory_frame" where
  "mf_copy copy_block junk old =
     (if use_shared_memory old then Inl Copying_Shared_Memory
      else Inr \<lparr>use_shared_memory = False, mf_owner = mf_owner old, shared_memory = [],
                private_memory = pm_copy copy_block (private_memory old), previously_added_owner = junk, suffix = suffix old\<rparr>)"

definition mf_find :: "string \<Rightarrow> 'b memory_frame \<Rightarrow> 'b mem_block option" where
  "mf_find name f =
     (if use_shared_memory f then sm_getBlockPtr name (shared_memory f) else pm_getBlockPtr name (private_memory f))"

text \<open>What is assigned through a pointer to the block called \<open>name\<close>.\<close>

definition mf_put :: "string \<Rightarrow> 'b mem_block \<Rightarrow> 'b memory_frame \<Rightarrow> 'b memory_frame" where
  "mf_put name b f =
     (if use_shared_memory f then f\<lparr>shared_memory := map_put (c_str name) b (shared_memory f)\<rparr>
      else f\<lparr>private_memory := map_put name b (private_memory f)\<rparr>)"

definition getBlockPtr :: "string \<Rightarrow> mem_owner \<Rightarrow> 'b memory_frame \<Rightarrow> mem_error + 'b mem_block option" where
  "getBlockPtr name expect_owner f =
     (case mf_find name f of
        None \<Rightarrow> Inr None
      | Some b \<Rightarrow>
          (case checkOwner name (if expect_owner = OWNER_UNKNOWN then mf_owner f else expect_owner) False b of
             Inl e \<Rightarrow> Inl e | Inr _ \<Rightarrow> Inr (Some b)))"

definition getBlockNames :: "bool \<Rightarrow> 'b memory_frame \<Rightarrow> string list" where
  "getBlockNames only_log f =
     (if use_shared_memory f then sm_getBlockNames only_log (mf_owner f) (shared_memory f)
      else pm_getBlockNames only_log (mf_owner f) (private_memory f))"

definition setBlockLogging :: "string \<Rightarrow> bool \<Rightarrow> 'b memory_frame \<Rightarrow> mem_error + 'b memory_frame" where
  "setBlockLogging name flag f =
     (case getBlockPtr name OWNER_UNKNOWN f of
        Inl e \<Rightarrow> Inl e
      | Inr None \<Rightarrow> Inr f
      | Inr (Some b) \<Rightarrow> Inr (mf_put name (b\<lparr>log_block := flag\<rparr>) f))"

definition getBlockPtrByName :: "string \<Rightarrow> 'b memory_frame \<Rightarrow> mem_error + 'b mem_block option" where
  "getBlockPtrByName name f = getBlockPtr name OWNER_UNKNOWN f"

definition mf_addBlock :: "string \<Rightarrow> 'b mem_block \<Rightarrow> 'b memory_frame \<Rightarrow> bool \<times> 'b memory_frame" where
  "mf_addBlock name b f =
     (let b = b\<lparr>blk_owner := previously_added_owner f\<rparr> in
      if use_shared_memory f
      then let (res, m) = sm_addBlock name b (shared_memory f) in (res, f\<lparr>shared_memory := m\<rparr>)
      else let (res, m) = pm_addBlock name b (private_memory f) in (res, f\<lparr>private_memory := m\<rparr>))"

definition addBlockByName ::
  "(string \<Rightarrow> 'b mem_block option) \<Rightarrow> string \<Rightarrow> mem_owner \<Rightarrow> 'b memory_frame \<Rightarrow> bool \<times> 'b memory_frame" where
  "addBlockByName new_block name owner f =
     (let owner = (if owner = OWNER_UNKNOWN then mf_owner f else owner);
          f = f\<lparr>previously_added_owner := owner\<rparr>
      in case new_block name of None \<Rightarrow> (False, f) | Some b \<Rightarrow> mf_addBlock name b f)"

definition getBlockByName :: "string \<Rightarrow> mem_owner \<Rightarrow> 'b memory_frame \<Rightarrow> mem_error + 'b mem_block option" where
  "getBlockByName name expect_owner f = getBlockPtr name expect_owner f"

definition getOrAddBlockByName ::
  "(string \<Rightarrow> 'b mem_block option) \<Rightarrow> string \<Rightarrow> mem_owner \<Rightarrow> 'b memory_frame \<Rightarrow>
   mem_error + ('b mem_block option \<times> 'b memory_frame)" where
  "getOrAddBlockByName new_block name owner f =
     (case getBlockPtr name owner f of
        Inl e \<Rightarrow> Inl e
      | Inr (Some _) \<Rightarrow> map_sum id (\<lambda>p. (p, f)) (getBlockByName name owner f)
      | Inr None \<Rightarrow>
          (let (res, f) = addBlockByName new_block name owner f in
           if \<not> res then Inr (None, f)
           else map_sum id (\<lambda>p. (p, f)) (getBlockByName name owner f)))"

section \<open>Modules\<close>

text \<open>
  A module keeps pointers to its blocks; here a pointer is the name of the block or \<open>NULL\<close>. When the
  name is not one of the required ones the pointer is left as it is.
\<close>

record 'b module =
  md_memory :: "'b memory_frame"
  required_blocks :: "string list"
  provided_blocks :: "string list"
  memory_satisfied :: bool

definition md_new :: "'b module \<Rightarrow> 'b module" where
  "md_new m = m\<lparr>memory_satisfied := True, required_blocks := [], provided_blocks := []\<rparr>"

definition requiresMemoryBlock :: "string \<Rightarrow> 'b module \<Rightarrow> 'b module" where
  "requiresMemoryBlock name m = m\<lparr>required_blocks := required_blocks m @ [name]\<rparr>"

definition providesMemoryBlock :: "string \<Rightarrow> 'b module \<Rightarrow> 'b module" where
  "providesMemoryBlock name m =
     m\<lparr>required_blocks := required_blocks m @ [name], provided_blocks := provided_blocks m @ [name]\<rparr>"

definition getMemoryBlock :: "string option \<Rightarrow> string \<Rightarrow> 'b module \<Rightarrow> mem_error + (string option \<times> 'b module)" where
  "getMemoryBlock ptr name m =
     (if name \<in> set (required_blocks m)
      then case getBlockByName name OWNER_UNKNOWN (md_memory m) of
             Inl e \<Rightarrow> Inl e
           | Inr None \<Rightarrow> Inr (None, m\<lparr>memory_satisfied := False\<rparr>)
           | Inr (Some _) \<Rightarrow> Inr (Some name, m)
      else Inr (ptr, m))"

text \<open>
  When a block cannot be added, \<open>getOrAddBlockByName\<close> returns before the pointer is written.
\<close>

definition getOrAddMemoryBlock ::
  "(string \<Rightarrow> 'b mem_block option) \<Rightarrow> string option \<Rightarrow> string \<Rightarrow> 'b module \<Rightarrow> mem_error + (string option \<times> 'b module)" where
  "getOrAddMemoryBlock new_block ptr name m =
     (if name \<in> set (required_blocks m)
      then case getOrAddBlockByName new_block name OWNER_UNKNOWN (md_memory m) of
             Inl e \<Rightarrow> Inl e
           | Inr (None, f) \<Rightarrow> Inr (ptr, m\<lparr>md_memory := f, memory_satisfied := False\<rparr>)
           | Inr (Some _, f) \<Rightarrow> Inr (Some name, m\<lparr>md_memory := f\<rparr>)
      else Inr (ptr, m))"

section \<open>Lemmas on ordered maps\<close>

lemma map_keys_insert [simp]: "fst ` set (map_insert k v m) = insert k (fst ` set m)"
  by (induction k v m rule: map_insert.induct) auto

lemma map_wf_Cons: "map_wf ((k, v) # m) \<longleftrightarrow> (\<forall>k' \<in> fst ` set m. k < k') \<and> map_wf m"
  by (simp add: map_wf_def)

lemma map_wf_insert [inv_intros]: "map_wf m \<Longrightarrow> map_wf (map_insert k v m)"
proof (induction k v m rule: map_insert.induct)
  case (1 k v)
  then show ?case by (simp add: map_wf_def)
next
  case (2 k v k' v' m)
  then show ?case by (auto simp: map_wf_Cons not_less_iff_gr_or_eq)
qed

lemma map_of_insert: "map_wf m \<Longrightarrow> map_of m k = None \<Longrightarrow> map_of (map_insert k v m) = (map_of m)(k \<mapsto> v)"
proof (induction k v m rule: map_insert.induct)
  case (2 k v k' v' m)
  then show ?case by (auto simp: map_wf_Cons split: if_splits)
qed simp

lemma map_put_keys [simp]: "map fst (map_put k v m) = map fst m"
  by (simp add: map_put_def split_beta comp_def if_distrib cong: if_cong)

lemma map_wf_put [inv_intros]: "map_wf m \<Longrightarrow> map_wf (map_put k v m)"
  by (simp add: map_wf_def)

lemma map_of_put: "map_of (map_put k v m) k' = (if k' = k \<and> map_of m k \<noteq> None then Some v else map_of m k')"
  by (induction m) (auto simp: map_put_def)

lemma map_wf_distinct: "map_wf m \<Longrightarrow> distinct (map fst m)"
  by (simp add: map_wf_def strict_sorted_iff)

lemma map_wf_filter: "map_wf m \<Longrightarrow> map_wf (filter P m)"
  by (induction m) (auto simp: map_wf_Cons)

section \<open>The contract of a store of blocks\<close>

text \<open>
  What the frame relies on: two names with the same key denote the same block; adding a block works
  exactly when there is none and touches no other; assigning to a block changes that block only; the
  blocks can be listed, each once and in the order of their names.
\<close>

locale block_store =
  fixes find :: "string \<Rightarrow> 'm \<Rightarrow> 'v option"
    and add :: "string \<Rightarrow> 'v \<Rightarrow> 'm \<Rightarrow> bool \<times> 'm"
    and put :: "string \<Rightarrow> 'v \<Rightarrow> 'm \<Rightarrow> 'm"
    and names :: "'m \<Rightarrow> string list"
    and key :: "string \<Rightarrow> string"
    and inv :: "'m \<Rightarrow> bool"
  assumes add_inv: "inv m \<Longrightarrow> inv (snd (add n v m))"
    and put_inv: "inv m \<Longrightarrow> inv (put n v m)"
    and add_result: "inv m \<Longrightarrow> fst (add n v m) = (find n m = None)"
    and find_add: "inv m \<Longrightarrow> find n' (snd (add n v m)) = (if find n m = None \<and> key n' = key n then Some v else find n' m)"
    and find_put: "inv m \<Longrightarrow> find n' (put n v m) = (if find n m \<noteq> None \<and> key n' = key n then Some v else find n' m)"
    and find_key: "key n = key n' \<Longrightarrow> find n m = find n' m"
    and names_sorted: "inv m \<Longrightarrow> sorted_wrt (<) (names m)"
    and names_set: "inv m \<Longrightarrow> set (names m) = {n. key n = n \<and> find n m \<noteq> None}"
begin

lemma add_twice: "inv m \<Longrightarrow> add n v m = (True, m') \<Longrightarrow> fst (add n w m') = False \<and> find n (snd (add n w m')) = Some v"
  using find_add [of m n n v] find_add [of m' n n w] add_result [of m n v] add_result [of m' n w] add_inv [of m n v] by simp

lemma first_wins:
  assumes "inv m"
  shows "find n (fold (\<lambda>(k, v) m. snd (add k v m)) kvs m) =
    (case find n m of Some v \<Rightarrow> Some v | None \<Rightarrow> map_option snd (List.find (\<lambda>(k, v). key k = key n) kvs))"
  using assms
proof (induction kvs arbitrary: m)
  case Nil
  then show ?case by (simp split: option.split)
next
  case (Cons kv kvs)
  obtain k v where kv: "kv = (k, v)" by (cases kv)
  show ?case
    using Cons.IH [OF add_inv [OF Cons.prems]] find_add [OF Cons.prems] find_key [of k n m] kv
    by (auto split: option.split)
qed

end

definition map_names :: "'v ordmap \<Rightarrow> string list" where
  "map_names m = map fst m"

definition shared_wf :: "'v ordmap \<Rightarrow> bool" where
  "shared_wf m \<longleftrightarrow> map_wf m \<and> (\<forall>k. map_of m k \<noteq> None \<longrightarrow> c_str k = k)"

lemma c_str_idem [simp]: "c_str (c_str n) = c_str n"
  unfolding c_str_def by (simp add: takeWhile_idem)

lemma set_map_names [simp]: "set (map_names m) = dom (map_of m)"
  by (simp add: map_names_def dom_map_of_conv_image_fst)

lemma sorted_map_names: "map_wf m \<Longrightarrow> sorted_wrt (<) (map_names m)"
  by (simp add: map_wf_def map_names_def)

lemmas store_simps = pm_getBlockPtr_def pm_addBlock_def sm_getBlockPtr_def sm_addBlock_def map_of_insert map_of_put
  sorted_map_names

interpretation priv: block_store pm_getBlockPtr pm_addBlock map_put map_names id map_wf
  by unfold_locales (auto simp: store_simps intro: inv_intros split: option.split)

interpretation shrd: block_store sm_getBlockPtr sm_addBlock "\<lambda>n. map_put (c_str n)" map_names c_str shared_wf
  by unfold_locales
    (auto simp: store_simps shared_wf_def intro: inv_intros split: option.split if_splits)

section \<open>The frame as a store\<close>

definition mf_wf :: "'b memory_frame \<Rightarrow> bool" where
  "mf_wf f \<longleftrightarrow> (if use_shared_memory f then shared_wf (shared_memory f) else map_wf (private_memory f))"

definition mf_key :: "'b memory_frame \<Rightarrow> string \<Rightarrow> string" where
  "mf_key f n = (if use_shared_memory f then c_str n else n)"

lemma mf_new_wf [inv_intros]: "(use_shared \<Longrightarrow> \<not> server \<Longrightarrow> shared_wf existing) \<Longrightarrow> mf_wf (mf_new use_shared owner sfx server existing junk)"
  by (simp add: mf_wf_def mf_new_def sm_new_def pm_new_def shared_wf_def map_wf_def)

lemma mf_find_key: "mf_key f n = mf_key f n' \<Longrightarrow> mf_find n f = mf_find n' f"
  by (simp add: mf_find_def mf_key_def sm_getBlockPtr_def split: if_splits)

lemma mf_addBlock_store:
  assumes "mf_wf f"
  shows "fst (mf_addBlock name b f) = (mf_find name f = None)"
    and "mf_find n (snd (mf_addBlock name b f)) =
      (if mf_find name f = None \<and> mf_key f n = mf_key f name then Some (b\<lparr>blk_owner := previously_added_owner f\<rparr>) else mf_find n f)"
    and "mf_wf (snd (mf_addBlock name b f))"
    and "mf_owner (snd (mf_addBlock name b f)) = mf_owner f"
    and "mf_key (snd (mf_addBlock name b f)) = mf_key f"
  using assms
  by (cases "use_shared_memory f";
      simp add: mf_wf_def mf_addBlock_def mf_find_def mf_key_def [abs_def] split_beta Let_def priv.add_result shrd.add_result
        priv.find_add shrd.find_add priv.add_inv shrd.add_inv)+

lemma mf_put_store:
  assumes "mf_wf f"
  shows "mf_find n (mf_put name b f) = (if mf_find name f \<noteq> None \<and> mf_key f n = mf_key f name then Some b else mf_find n f)"
    and "mf_wf (mf_put name b f)"
    and "mf_owner (mf_put name b f) = mf_owner f"
    and "mf_key (mf_put name b f) = mf_key f"
  using assms priv.find_put [of "private_memory f"] shrd.find_put [of "shared_memory f"]
    priv.put_inv [of "private_memory f" name b] shrd.put_inv [of "shared_memory f" name b]
  by (auto simp: mf_wf_def mf_put_def mf_find_def mf_key_def [abs_def])

lemma mf_with_owner [simp]:
  "mf_wf (f\<lparr>previously_added_owner := ow\<rparr>) = mf_wf f" "mf_find n (f\<lparr>previously_added_owner := ow\<rparr>) = mf_find n f"
  "mf_key (f\<lparr>previously_added_owner := ow\<rparr>) = mf_key f"
  by (simp_all add: mf_wf_def mf_find_def mf_key_def [abs_def])

text \<open>Who may access a block: \<open>may_access\<close> is what \<open>checkOwner\<close> decides.\<close>

definition may_access :: "mem_owner \<Rightarrow> mem_owner \<Rightarrow> bool" where
  "may_access who ow \<longleftrightarrow> who = ow \<or> who = TOOL_MEM \<or> ow = OWNER_SHARED \<or>
     (who, ow) \<in> {(OWNER_MOTION, OWNER_INTERFACE), (OWNER_VISION, OWNER_IMAGE_CAPTURE)}"

lemma checkOwner_eq:
  "checkOwner name who no_exit b =
     (if may_access who (blk_owner b) then Inr True else if no_exit then Inr False else Inl (Bad_Owner name))"
  by (auto simp: checkOwner_def may_access_def)

definition asking :: "mem_owner \<Rightarrow> 'b memory_frame \<Rightarrow> mem_owner" where
  "asking who f = (if who = OWNER_UNKNOWN then mf_owner f else who)"

lemma asking_cong: "mf_owner f' = mf_owner f \<Longrightarrow> asking who f' = asking who f"
  by (simp add: asking_def)

lemma addBlockByName_eq:
  "addBlockByName new_block name who f =
     (case new_block name of
        None \<Rightarrow> (False, f\<lparr>previously_added_owner := asking who f\<rparr>)
      | Some b \<Rightarrow> mf_addBlock name b (f\<lparr>previously_added_owner := asking who f\<rparr>))"
  unfolding addBlockByName_def asking_def Let_def by (rule refl)

lemma getBlockPtr_eq:
  "getBlockPtr name who f =
     (case mf_find name f of
        None \<Rightarrow> Inr None
      | Some b \<Rightarrow> if may_access (asking who f) (blk_owner b) then Inr (Some b) else Inl (Bad_Owner name))"
  by (simp add: getBlockPtr_def checkOwner_eq asking_def split: option.split)

lemma set_block_names:
  assumes "mf_wf f"
  shows "set (getBlockNames only_log f) =
    {n. mf_key f n = n \<and> (\<exists>b. mf_find n f = Some b \<and> may_access (mf_owner f) (blk_owner b) \<and> (only_log \<longrightarrow> log_block b))}"
proof -
  define m where "m = (if use_shared_memory f then shared_memory f else private_memory f)"
  have wf: "map_wf m" "\<And>n b. map_of m n = Some b \<Longrightarrow> mf_key f n = n" "\<And>n. mf_key f n = n \<Longrightarrow> mf_find n f = map_of m n"
    using assms by (auto simp: m_def mf_wf_def shared_wf_def mf_key_def mf_find_def store_simps split: if_splits)
  have "set (getBlockNames only_log f) = fst ` {(n, b) \<in> set m. (only_log \<longrightarrow> log_block b) \<and> may_access (mf_owner f) (blk_owner b)}"
    by (auto simp: getBlockNames_def sm_getBlockNames_def pm_getBlockNames_def checkOwner_eq m_def split: if_splits)
  also have "\<dots> = {n. \<exists>b. map_of m n = Some b \<and> may_access (mf_owner f) (blk_owner b) \<and> (only_log \<longrightarrow> log_block b)}"
    using map_of_eq_Some_iff [OF map_wf_distinct [OF wf(1)]] by (force simp: image_iff)
  finally show ?thesis using wf(2,3) by auto
qed

lemma sorted_block_names: "mf_wf f \<Longrightarrow> sorted_wrt (<) (getBlockNames only_log f)"
  using map_wf_filter [of "if use_shared_memory f then shared_memory f else private_memory f"]
  by (auto simp: getBlockNames_def sm_getBlockNames_def pm_getBlockNames_def mf_wf_def shared_wf_def map_wf_def)

section \<open>Properties\<close>

lemma getOrAdd_existing:
  assumes "mf_find name f = Some b" "may_access (asking who f) (blk_owner b)"
  shows "getOrAddBlockByName new_block name who f = Inr (Some b, f)"
  using assms by (simp add: getOrAddBlockByName_def getBlockByName_def getBlockPtr_eq)

lemma getOrAdd_fresh:
  fixes who :: mem_owner
  assumes "mf_wf f" "new_block name = Some b" "mf_find name f = None"
  defines "f' \<equiv> snd (mf_addBlock name b (f\<lparr>previously_added_owner := asking who f\<rparr>))"
  shows "getOrAddBlockByName new_block name who f = Inr (Some (b\<lparr>blk_owner := asking who f\<rparr>), f')"
    and "mf_find name f' = Some (b\<lparr>blk_owner := asking who f\<rparr>)" "mf_wf f'" "asking who f' = asking who f"
    and "mf_key f n \<noteq> mf_key f name \<Longrightarrow> mf_find n f' = mf_find n f"
proof -
  note st = mf_addBlock_store [where f = "f\<lparr>previously_added_owner := asking who f\<rparr>" and name = name and b = b]
  show f: "mf_find name f' = Some (b\<lparr>blk_owner := asking who f\<rparr>)" "mf_wf f'"
    "mf_key f n \<noteq> mf_key f name \<Longrightarrow> mf_find n f' = mf_find n f"
    unfolding f'_def using st(2,3) assms(1,3) by simp_all
  show ask: "asking who f' = asking who f"
    unfolding f'_def using st(4) assms(1) by (intro asking_cong) simp
  have "fst (mf_addBlock name b (f\<lparr>previously_added_owner := asking who f\<rparr>))" using st(1) assms by simp
  then have "addBlockByName new_block name who f = (True, f')"
    using assms(2) by (simp add: addBlockByName_eq f'_def prod_eq_iff)
  then show "getOrAddBlockByName new_block name who f = Inr (Some (b\<lparr>blk_owner := asking who f\<rparr>), f')"
    using f(1) ask assms(3) by (simp add: getOrAddBlockByName_def getBlockByName_def getBlockPtr_eq may_access_def)
qed

text \<open>
  C28: Every module that asks for a block gets the same one: asking for a name creates the block when
  it is missing, belonging to whoever asks, and changes no block of another name; from then on
  asking again returns this block and changes nothing.
\<close>

theorem block_created_once:
  assumes "mf_wf f" "new_block name = Some b" "\<forall>c. mf_find name f = Some c \<longrightarrow> may_access (asking who f) (blk_owner c)"
  defines "c \<equiv> (case mf_find name f of Some c \<Rightarrow> c | None \<Rightarrow> b\<lparr>blk_owner := asking who f\<rparr>)"
  shows "\<exists>f'. getOrAddBlockByName new_block name who f = Inr (Some c, f') \<and>
    getOrAddBlockByName new_block name who f' = Inr (Some c, f') \<and> mf_wf f' \<and> mf_find name f' = Some c \<and>
    (\<forall>n. mf_key f n \<noteq> mf_key f name \<longrightarrow> mf_find n f' = mf_find n f)"
proof (cases "mf_find name f")
  case (Some d)
  then show ?thesis using assms getOrAdd_existing [of name f d who new_block] by (simp add: c_def)
next
  case None
  note fresh = getOrAdd_fresh [where f = f and new_block = new_block and name = name and b = b and who = who, OF assms(1,2) None]
  have c: "c = b\<lparr>blk_owner := asking who f\<rparr>" using None by (simp add: c_def)
  show ?thesis
    using fresh getOrAdd_existing [OF fresh(2), of who new_block] unfolding c
    by (intro exI [of _ "snd (mf_addBlock name b (f\<lparr>previously_added_owner := asking who f\<rparr>))"]) (simp add: may_access_def)
qed

theorem block_created_once_witness:
  "\<forall>b :: nat mem_block. \<exists>f'. getOrAddBlockByName (\<lambda>_. Some b) ''speech'' OWNER_UNKNOWN (mf_new False OWNER_VISION [] False [] OWNER_SYNC)
      = Inr (Some (b\<lparr>blk_owner := OWNER_VISION\<rparr>), f')"
proof
  fix b :: "nat mem_block"
  have f: "mf_wf (mf_new False OWNER_VISION [] False [] OWNER_SYNC)"
    "mf_find ''speech'' (mf_new False OWNER_VISION [] False [] OWNER_SYNC) = None"
    "asking OWNER_UNKNOWN (mf_new False OWNER_VISION [] False [] OWNER_SYNC) = OWNER_VISION"
    subgoal by (rule mf_new_wf) simp
    by (simp_all add: mf_find_def mf_new_def pm_getBlockPtr_def pm_new_def asking_def)
  show "\<exists>f'. getOrAddBlockByName (\<lambda>_. Some b) ''speech'' OWNER_UNKNOWN (mf_new False OWNER_VISION [] False [] OWNER_SYNC)
      = Inr (Some (b\<lparr>blk_owner := OWNER_VISION\<rparr>), f')"
    using block_created_once [of "mf_new False OWNER_VISION [] False [] OWNER_SYNC" "\<lambda>_. Some b" "''speech''" b OWNER_UNKNOWN] f
    by (auto simp: f(2,3))
qed

text \<open>
  Listing the blocks is safe: the names a frame lists are exactly those whose block it may access
  (and that are marked for logging, when only those are asked for), in increasing order, so that
  asking for a listed block never ends the process.
\<close>

theorem listed_blocks_accessible:
  assumes "mf_wf f" "mf_key f n = n"
  shows "(n \<in> set (getBlockNames only_log f) \<longleftrightarrow> (\<exists>b. getBlockPtrByName n f = Inr (Some b) \<and> (only_log \<longrightarrow> log_block b))) \<and>
    sorted_wrt (<) (getBlockNames only_log f)"
  using assms sorted_block_names [of f only_log]
  by (auto simp: set_block_names getBlockPtrByName_def getBlockPtr_eq asking_def split: if_splits option.splits)

definition sample_frame :: "mem_owner \<Rightarrow> nat memory_frame" where
  "sample_frame who =
     \<lparr>use_shared_memory = False, mf_owner = who, shared_memory = [],
      private_memory = map (\<lambda>(n, ow). (n, \<lparr>blk_version = 0, blk_size = 0, log_block = True, blk_owner = ow, blk_directory = None,
        buffer_logging = False, blk_frame_id = 0, contents = 0\<rparr>)) [(''a'', OWNER_INTERFACE), (''b'', OWNER_SYNC)],
      previously_added_owner = OWNER_UNKNOWN, suffix = []\<rparr>"

lemma sample_frame_wf: "mf_wf (sample_frame who)"
  by (simp add: mf_wf_def sample_frame_def map_wf_def)

theorem listed_blocks_accessible_witness:
  "''a'' \<in> set (getBlockNames True (sample_frame OWNER_MOTION)) \<and> ''b'' \<notin> set (getBlockNames True (sample_frame OWNER_MOTION))"
  using listed_blocks_accessible [OF sample_frame_wf, of OWNER_MOTION "''a''" True]
    listed_blocks_accessible [OF sample_frame_wf, of OWNER_MOTION "''b''" True]
  by (simp add: sample_frame_def mf_key_def getBlockPtrByName_def getBlockPtr_eq asking_def mf_find_def pm_getBlockPtr_def may_access_def)

end
