(* ===== verification/Stream_Buffer.thy ===== *)
theory Stream_Buffer
  imports Prelude
begin

text \<open>
  \<open>StreamBuffer\<close> (\<open>src/core/memory/StreamBuffer.cpp\<close>, \<open>StreamBuffer.h\<close>): the growable byte buffer
  the log reader, the log writer and the tool connection pack memory blocks into. Several buffers
  are packed into one (\<open>combine\<close>, \<open>contract\<close>) behind 64-bit length prefixes and unpacked again
  (\<open>separate\<close>, \<open>expand\<close>).

  Bytes of an array fresh from \<open>new\<close> are indeterminate: a memory cell is a \<^typ>\<open>byte option\<close>.
  Reading or writing outside of an array, using an indeterminate length and a failed \<open>assert\<close>
  are the value \<^term>\<open>None\<close> of the operation. Lengths and offsets are 64-bit words and wrap.
  Integers are stored little-endian, as on the robot and the tool. The release of memory
  (\<open>delete\<close>, the static \<open>clear\<close>) has no effect on values and is not represented.
\<close>

section \<open>Memory\<close>

type_synonym cell = "byte option"

fun nat_bytes :: "nat \<Rightarrow> nat \<Rightarrow> byte list" where
  "nat_bytes 0 x = []"
| "nat_bytes (Suc k) x = of_nat (x mod 256) # nat_bytes k (x div 256)"

fun bytes_nat :: "byte list \<Rightarrow> nat" where
  "bytes_nat [] = 0"
| "bytes_nat (b # bs) = unat b + 256 * bytes_nat bs"

definition u64_cells :: "u64 \<Rightarrow> cell list" where
  "u64_cells w = map Some (nat_bytes 8 (unat w))"

definition cells_bytes :: "cell list \<Rightarrow> byte list option" where
  "cells_bytes cs = those cs"

definition cells_u64 :: "cell list \<Rightarrow> u64 option" where
  "cells_u64 cs = (if length cs = 8 then map_option (\<lambda>bs. of_nat (bytes_nat bs)) (cells_bytes cs) else None)"

definition load :: "cell list \<Rightarrow> u64 \<Rightarrow> u64 \<Rightarrow> cell list option" where
  "load m off n = (if unat off + unat n \<le> length m then Some (take (unat n) (drop (unat off) m)) else None)"

definition store :: "cell list \<Rightarrow> u64 \<Rightarrow> cell list \<Rightarrow> cell list option" where
  "store m off cs =
     (if unat off + length cs \<le> length m
      then Some (take (unat off) m @ cs @ drop (unat off + length cs) m) else None)"

section \<open>The buffer and its operations\<close>

datatype stream_buffer =
  StreamBuffer (sb_size: u64) (sb_capacity: u64) (sb_buffer: "cell list") (sb_children: "stream_buffer list")

text \<open>A null buffer is the empty array: both have capacity 0.\<close>

definition sb_new :: stream_buffer where
  "sb_new = StreamBuffer 0 0 [] []"

definition sb_of_array :: "cell list \<Rightarrow> u64 \<Rightarrow> stream_buffer" where
  "sb_of_array b n = StreamBuffer n n b []"

definition sb_clear :: "stream_buffer \<Rightarrow> stream_buffer" where
  "sb_clear s = StreamBuffer 0 0 [] (sb_children s)"

definition sb_rclear :: "stream_buffer \<Rightarrow> stream_buffer" where
  "sb_rclear s = (case sb_clear s of StreamBuffer z c b _ \<Rightarrow> StreamBuffer z c b [])"

definition sb_resize :: "u64 \<Rightarrow> stream_buffer \<Rightarrow> stream_buffer" where
  "sb_resize n s =
     (if sb_capacity s < n then StreamBuffer (sb_size s) n (replicate (unat n) None) (sb_children s) else s)"

definition sb_reset :: "stream_buffer \<Rightarrow> stream_buffer" where
  "sb_reset s = StreamBuffer 0 (sb_capacity s) (sb_buffer s) (sb_children s)"

text \<open>\<open>VERIFY_RESIZE\<close>: a request of 0 or more than a million million bytes is refused and the call returns.\<close>

definition invalid_request :: "u64 \<Rightarrow> bool" where
  "invalid_request n \<longleftrightarrow> n = 0 \<or> n > 1000000000000"

definition sb_read :: "cell list \<Rightarrow> u64 \<Rightarrow> stream_buffer \<Rightarrow> stream_buffer option" where
  "sb_read data n s =
     (if invalid_request n then Some s
      else let s = sb_resize n s
           in Option.bind (load data 0 n) (\<lambda>cs.
              Option.bind (store (sb_buffer s) 0 cs) (\<lambda>b.
              Some (StreamBuffer n (sb_capacity s) b (sb_children s)))))"

text \<open>
  Reading from an input stream, the stream being the bytes still to come. \<open>istream::read\<close> stores
  what there is and stops at the end of the file; the size is set all the same.
\<close>

definition sb_read_n_stream :: "byte list \<Rightarrow> u64 \<Rightarrow> stream_buffer \<Rightarrow> (stream_buffer \<times> byte list) option" where
  "sb_read_n_stream is n s =
     (if invalid_request n then Some (s, is)
      else let s = sb_resize n s
           in Option.bind (store (sb_buffer s) 0 (map Some (take (unat n) is))) (\<lambda>b.
              Some (StreamBuffer n (sb_capacity s) b (sb_children s), drop (unat n) is)))"

definition sb_read_stream :: "byte list \<Rightarrow> stream_buffer \<Rightarrow> (stream_buffer \<times> byte list) option" where
  "sb_read_stream is s =
     Option.bind (cells_u64 (map Some (take 8 is))) (\<lambda>n. sb_read_n_stream (drop 8 is) n s)"

definition sb_write_n :: "stream_buffer \<Rightarrow> u64 \<Rightarrow> byte list option" where
  "sb_write_n s n =
     Option.bind (load (sb_buffer s) 0 n) (\<lambda>cs.
     Option.bind (cells_bytes cs) (\<lambda>bs. Some (nat_bytes 8 (unat n) @ bs)))"

definition sb_write :: "stream_buffer \<Rightarrow> byte list option" where
  "sb_write s = sb_write_n s (sb_size s)"

definition sb_add :: "cell list \<Rightarrow> u64 \<Rightarrow> stream_buffer \<Rightarrow> stream_buffer option" where
  "sb_add data n s =
     map_option (\<lambda>sb. StreamBuffer (sb_size s) (sb_capacity s) (sb_buffer s) (sb_children s @ [sb]))
       (sb_read data n sb_new)"

definition sb_add_stream :: "byte list \<Rightarrow> stream_buffer \<Rightarrow> (stream_buffer \<times> byte list) option" where
  "sb_add_stream is s =
     map_option (\<lambda>(sb, is). (StreamBuffer (sb_size s) (sb_capacity s) (sb_buffer s) (sb_children s @ [sb]), is))
       (sb_read_stream is sb_new)"

text \<open>The loop of \<open>combine\<close>: length prefix, then the bytes, from \<open>offset\<close> on.\<close>

fun combine_loop :: "u64 \<Rightarrow> cell list \<Rightarrow> stream_buffer list \<Rightarrow> (u64 \<times> cell list) option" where
  "combine_loop offset m [] = Some (offset, m)"
| "combine_loop offset m (b # bs) =
     Option.bind (store m offset (u64_cells (sb_size b))) (\<lambda>m.
     Option.bind (load (sb_buffer b) 0 (sb_size b)) (\<lambda>cs.
     Option.bind (store m (offset + 8) cs) (\<lambda>m.
     combine_loop (offset + 8 + sb_size b) m bs)))"

text \<open>
  \<open>combine\<close>: the overloads for a vector and for a list of buffers differ in the bound their
  \<open>assert\<close> puts on the number of buffers.
\<close>

definition sb_combine :: "u64 \<Rightarrow> stream_buffer list \<Rightarrow> stream_buffer \<Rightarrow> stream_buffer option" where
  "sb_combine limit buffers combined =
     (let totalSize = fold (\<lambda>b t. t + sb_size b) buffers 0;
          count = of_nat (length buffers);
          combined = sb_resize (totalSize + count * 8 + 8) combined
      in if \<not> count < limit then None
         else Option.bind (store (sb_buffer combined) 0 (u64_cells count)) (\<lambda>m.
              Option.bind (combine_loop 8 m buffers) (\<lambda>(offset, m).
              Some (StreamBuffer offset (sb_capacity combined) m (sb_children combined)))))"

definition sb_combine_vector :: "stream_buffer list \<Rightarrow> stream_buffer \<Rightarrow> stream_buffer option" where
  "sb_combine_vector = sb_combine 0xFFFFFF"

definition sb_combine_list :: "stream_buffer list \<Rightarrow> stream_buffer \<Rightarrow> stream_buffer option" where
  "sb_combine_list = sb_combine 0xFFFFFFFF"

text \<open>The loop of \<open>separate\<close> runs until \<open>separated\<close> holds \<open>bufCount\<close> buffers: \<open>k\<close> more of them.\<close>

fun separate_loop :: "nat \<Rightarrow> u64 \<Rightarrow> cell list \<Rightarrow> stream_buffer list \<Rightarrow> stream_buffer list option" where
  "separate_loop 0 offset m separated = Some separated"
| "separate_loop (Suc k) offset m separated =
     Option.bind (load m offset 8) (\<lambda>cs.
     Option.bind (cells_u64 cs) (\<lambda>pieceSize.
     Option.bind (sb_read (drop (unat (offset + 8)) m) pieceSize sb_new) (\<lambda>piece.
     separate_loop k (offset + 8 + sb_size piece) m (separated @ [piece]))))"

definition sb_separate_into :: "stream_buffer \<Rightarrow> stream_buffer list \<Rightarrow> stream_buffer list option" where
  "sb_separate_into buffer separated =
     Option.bind (load (sb_buffer buffer) 0 8) (\<lambda>cs.
     Option.bind (cells_u64 cs) (\<lambda>bufCount.
     separate_loop (unat bufCount - length separated) 8 (sb_buffer buffer) separated))"

definition sb_separate :: "stream_buffer \<Rightarrow> stream_buffer list option" where
  "sb_separate s = sb_separate_into s []"

definition sb_contract :: "stream_buffer \<Rightarrow> stream_buffer option" where
  "sb_contract s =
     map_option (\<lambda>c. StreamBuffer (sb_size c) (sb_capacity c) (sb_buffer c) [])
       (sb_combine_list (sb_children s) s)"

definition sb_expand :: "stream_buffer \<Rightarrow> stream_buffer option" where
  "sb_expand s =
     map_option (\<lambda>cs. sb_clear (StreamBuffer (sb_size s) (sb_capacity s) (sb_buffer s) cs))
       (sb_separate_into s (sb_children s))"

section \<open>Well-formed buffers\<close>

text \<open>
  A buffer is well formed when the array has \<open>capacity\<close> cells and the first \<open>size\<close> of them are
  determinate; \<open>payload\<close> is those bytes.
\<close>

definition sb_wf :: "stream_buffer \<Rightarrow> bool" where
  "sb_wf s \<longleftrightarrow> length (sb_buffer s) = unat (sb_capacity s) \<and> sb_size s \<le> sb_capacity s \<and>
     list_all (\<lambda>c. c \<noteq> None) (take (unat (sb_size s)) (sb_buffer s))"

definition payload :: "stream_buffer \<Rightarrow> byte list" where
  "payload s = map the (take (unat (sb_size s)) (sb_buffer s))"

text \<open>The buffer \<open>read\<close> builds from scratch for a given content.\<close>

definition sb_piece :: "byte list \<Rightarrow> stream_buffer" where
  "sb_piece p =
     (if p = [] then sb_new else StreamBuffer (of_nat (length p)) (of_nat (length p)) (map Some p) [])"

section \<open>Little-endian integers\<close>

lemma length_nat_bytes [simp]: "length (nat_bytes k x) = k"
  by (induction k x rule: nat_bytes.induct) simp_all

lemma bytes_nat_nat_bytes: "bytes_nat (nat_bytes k x) = x mod 256 ^ k"
proof (induction k x rule: nat_bytes.induct)
  case (2 k x)
  have "unat (of_nat (x mod 256) :: byte) = x mod 256" by (simp add: unat_of_nat)
  then show ?case using 2 by (simp add: mod_mult2_eq add.commute)
qed simp

lemma length_u64_cells [simp]: "length (u64_cells w) = 8"
  by (simp add: u64_cells_def)

lemma those_map_Some [simp]: "those (map Some xs) = Some xs"
  by (induction xs) simp_all

lemma cells_bytes_Some [simp]: "cells_bytes (map Some bs) = Some bs"
  by (simp add: cells_bytes_def)

lemma cells_u64_nat_bytes [simp]: "cells_u64 (map Some (nat_bytes 8 (unat w))) = Some w"
proof -
  have "unat w < 2 ^ LENGTH(64)" by (rule unsigned_less)
  then have "unat w mod 256 ^ 8 = unat w" by simp
  then show ?thesis by (simp add: cells_u64_def bytes_nat_nat_bytes)
qed

lemma cells_u64_cells [simp]: "cells_u64 (u64_cells w) = Some w"
  by (simp add: u64_cells_def)

section \<open>Well-formed buffers and their encoding\<close>

lemma sb_wf_load: "sb_wf s \<Longrightarrow> load (sb_buffer s) 0 (sb_size s) = Some (map Some (payload s))"
proof -
  assume wf: "sb_wf s"
  have "map Some (map the cs) = cs" if "list_all (\<lambda>c. c \<noteq> None) cs" for cs :: "cell list"
    using that by (induction cs) auto
  then show ?thesis
    using wf by (simp add: sb_wf_def load_def payload_def word_le_nat_alt del: map_map)
qed

lemma length_payload [simp]: "sb_wf s \<Longrightarrow> length (payload s) = unat (sb_size s)"
  by (simp add: sb_wf_def payload_def word_le_nat_alt)

definition sb_enc :: "stream_buffer \<Rightarrow> cell list" where
  "sb_enc b = u64_cells (sb_size b) @ map Some (payload b)"

lemma length_sb_enc [simp]: "sb_wf b \<Longrightarrow> length (sb_enc b) = 8 + unat (sb_size b)"
  by (simp add: sb_enc_def)

text \<open>Offsets stay below \<open>2^64\<close> as long as they stay inside an array that fits the address space.\<close>

lemma unat_add_bounded: "unat a + unat b < 2 ^ 64 \<Longrightarrow> unat (a + b :: u64) = unat a + unat b"
  by (simp add: unat_word_ariths)

lemma combine_loop_enc:
  assumes "\<forall>b \<in> set bs. sb_wf b"
    and "unat off + length (concat (map sb_enc bs)) \<le> length m" and "length m < 2 ^ 64"
  shows "\<exists>off'. combine_loop off m bs =
      Some (off', take (unat off) m @ concat (map sb_enc bs) @ drop (unat off + length (concat (map sb_enc bs))) m) \<and>
    unat off' = unat off + length (concat (map sb_enc bs))"
  using assms
proof (induction bs arbitrary: off m)
  case Nil
  then show ?case by simp
next
  case (Cons b bs)
  have wf: "sb_wf b" using Cons.prems by simp
  define z where "z = unat (sb_size b)"
  have len: "length (payload b) = z" using wf by (simp add: z_def)
  have room: "unat off + 8 + z + length (concat (map sb_enc bs)) \<le> length m"
    using Cons.prems wf by (simp add: z_def)
  have off8: "unat (off + 8) = unat off + 8"
    using room Cons.prems(3) unat_add_bounded [of off 8] by simp
  have offz: "unat (off + 8 + sb_size b) = unat off + 8 + z"
    using room Cons.prems(3) unat_add_bounded [of "off + 8" "sb_size b"] by (simp add: off8 z_def)
  define m1 where "m1 = take (unat off) m @ u64_cells (sb_size b) @ drop (unat off + 8) m"
  have m1: "store m off (u64_cells (sb_size b)) = Some m1" and lm1: "length m1 = length m"
    using room by (simp_all add: store_def m1_def)
  define m2 where "m2 = take (unat off) m @ sb_enc b @ drop (unat off + 8 + z) m"
  have m2: "store m1 (off + 8) (map Some (payload b)) = Some m2" and lm2: "length m2 = length m"
    using room len by (simp_all add: store_def lm1 off8) (simp_all add: m1_def m2_def sb_enc_def ac_simps)
  obtain off' where off': "combine_loop (off + 8 + sb_size b) m2 bs =
      Some (off', take (unat off + 8 + z) m2 @ concat (map sb_enc bs) @
        drop (unat off + 8 + z + length (concat (map sb_enc bs))) m2)"
      "unat off' = unat off + 8 + z + length (concat (map sb_enc bs))"
    using Cons.IH [of "off + 8 + sb_size b" m2] Cons.prems room lm2 by (auto simp: offz)
  have "take (unat off + 8 + z) m2 = take (unat off) m @ sb_enc b"
    using room len by (simp add: m2_def sb_enc_def)
  moreover have "drop (unat off + 8 + z + k) m2 = drop (unat off + 8 + z + k) m" for k
    using room len by (simp add: m2_def sb_enc_def ac_simps)
  ultimately show ?case
    using off' m1 m2 sb_wf_load [OF wf] wf by (simp add: z_def add.assoc)
qed

lemma load_drop: "drop (unat off) m = cs @ rest \<Longrightarrow> length cs = unat n \<Longrightarrow> unat off \<le> length m \<Longrightarrow> load m off n = Some cs"
  by (metis (no_types, lifting) add_le_cancel_left append_eq_conv_conj length_append length_drop le_add1
      le_add_diff_inverse load_def)

lemma sb_read_payload:
  assumes "take (unat n) data = map Some p" "length p = unat n" "n \<le> 1000000000000"
  shows "sb_read data n sb_new = Some (sb_piece p)"
proof (cases "n = 0")
  case True
  then show ?thesis using assms by (simp add: sb_read_def invalid_request_def sb_piece_def)
next
  case False
  have "unat n \<le> length data" using assms(1,2) by (metis length_map length_take min.cobounded1 min_def nle_le)
  moreover have "of_nat (length p) = n" using assms(2) by simp
  moreover have "p \<noteq> []" using False assms(2) by (auto simp: unat_eq_0)
  ultimately show ?thesis using False assms
    by (simp add: sb_read_def invalid_request_def sb_resize_def sb_new_def Let_def load_def store_def
        sb_piece_def word_gt_0 not_less)
qed

lemma sb_size_piece [simp]: "sb_size (sb_piece p) = of_nat (length p)"
  by (simp add: sb_piece_def sb_new_def)

lemma separate_loop_enc:
  assumes "\<forall>b \<in> set bs. sb_wf b \<and> sb_size b \<le> 1000000000000"
    and "unat off \<le> length m" and "drop (unat off) m = concat (map sb_enc bs) @ rest" and "length m < 2 ^ 64"
  shows "separate_loop (length bs) off m acc = Some (acc @ map (\<lambda>b. sb_piece (payload b)) bs)"
  using assms
proof (induction bs arbitrary: off acc)
  case Nil
  then show ?case by simp
next
  case (Cons b bs)
  have wf: "sb_wf b" and le: "sb_size b \<le> 1000000000000" using Cons.prems by simp_all
  define z where "z = unat (sb_size b)"
  have d: "drop (unat off) m = u64_cells (sb_size b) @ map Some (payload b) @ concat (map sb_enc bs) @ rest"
    using Cons.prems(3) by (simp add: sb_enc_def [of b])
  have room: "unat off + 8 + z \<le> length m"
    using arg_cong [OF d, of length] wf Cons.prems(2) by (simp add: z_def)
  have off8: "unat (off + 8) = unat off + 8"
    using room Cons.prems(4) unat_add_bounded [of off 8] by simp
  have offz: "unat (off + 8 + sb_size b) = unat off + 8 + z"
    using room Cons.prems(4) unat_add_bounded [of "off + 8" "sb_size b"] by (simp add: off8 z_def)
  have l: "load m off 8 = Some (u64_cells (sb_size b))"
    using d Cons.prems(2) by (intro load_drop) auto
  have d8: "drop (unat (off + 8)) m = map Some (payload b) @ concat (map sb_enc bs) @ rest"
    using d off8 by (metis add.commute append_eq_conv_conj drop_drop length_u64_cells)
  have r: "sb_read (drop (unat (off + 8)) m) (sb_size b) sb_new = Some (sb_piece (payload b))"
    using wf le by (intro sb_read_payload) (simp_all add: d8)
  have dz: "drop (unat (off + 8 + sb_size b)) m = concat (map sb_enc bs) @ rest"
  proof -
    have "drop (unat (off + 8 + sb_size b)) m = drop z (drop (unat (off + 8)) m)"
      unfolding offz off8 drop_drop by (simp add: ac_simps)
    then show ?thesis using d8 wf by (simp add: z_def)
  qed
  have "sb_size (sb_piece (payload b)) = sb_size b"
    using sb_size_piece [of "payload b"] wf by simp
  then show ?case
    using Cons.IH [of "off + 8 + sb_size b" "acc @ [sb_piece (payload b)]"] Cons.prems l r dz room
    by (simp add: offz)
qed

lemma length_concat_enc: "8 * length bs \<le> length (concat (map sb_enc bs))"
  by (induction bs) (simp_all add: sb_enc_def)

lemma fold_sizes:
  "\<forall>b \<in> set bs. sb_wf b \<Longrightarrow> unat t + length (concat (map sb_enc bs)) < 2 ^ 64 \<Longrightarrow>
     unat (fold (\<lambda>b t. t + sb_size b) bs t) = unat t + length (concat (map sb_enc bs)) - 8 * length bs"
proof (induction bs arbitrary: t)
  case (Cons b bs)
  show ?case
    using length_concat_enc [of bs] Cons.IH [of "t + sb_size b"] Cons.prems unat_add_bounded [of t "sb_size b"] by simp
qed simp

text \<open>What \<open>combine\<close> leaves in the target: the count, then each buffer behind its length.\<close>

definition sb_frame :: "stream_buffer list \<Rightarrow> cell list" where
  "sb_frame bs = u64_cells (of_nat (length bs)) @ concat (map sb_enc bs)"

lemma length_sb_frame: "length (sb_frame bs) = 8 + length (concat (map sb_enc bs))"
  by (simp add: sb_frame_def)

lemma combine_frame:
  assumes wf: "\<forall>b \<in> set bs. sb_wf b" and lim: "length bs < unat limit" and fits: "length (sb_frame bs) < 2 ^ 64"
    and c: "length (sb_buffer c) = unat (sb_capacity c)"
  shows "\<exists>c'. sb_combine limit bs c = Some c' \<and> unat (sb_size c') = length (sb_frame bs) \<and>
    take (length (sb_frame bs)) (sb_buffer c') = sb_frame bs \<and> length (sb_buffer c') = unat (sb_capacity c') \<and>
    length (sb_frame bs) \<le> length (sb_buffer c')"
proof -
  define E where "E = concat (map sb_enc bs)"
  define R where "R = fold (\<lambda>b t. t + sb_size b) bs 0 + of_nat (length bs) * 8 + (8 :: u64)"
  have E: "8 + length E < 2 ^ 64" "8 * length bs \<le> length E"
    using fits length_concat_enc by (simp_all add: length_sb_frame E_def)
  have cnt: "unat (of_nat (length bs) :: u64) = length bs"
    using E by (simp add: unat_of_nat)
  have cnt8: "unat (of_nat (length bs) * 8 :: u64) = 8 * length bs"
    using E cnt by (simp add: unat_word_ariths)
  have tot: "unat (fold (\<lambda>b t. t + sb_size b) bs (0::u64)) = length E - 8 * length bs"
    using fold_sizes [OF wf, of 0] E by (simp add: E_def)
  have R: "unat R = 8 + length E"
    using E by (simp add: R_def unat_word_ariths(1) tot cnt8)
  define c1 where "c1 = sb_resize R c"
  have c1: "length (sb_buffer c1) = unat (sb_capacity c1)" "8 + length E \<le> length (sb_buffer c1)"
    using c R by (auto simp: c1_def sb_resize_def word_less_nat_alt)
  define m where "m = u64_cells (of_nat (length bs)) @ drop 8 (sb_buffer c1)"
  have m: "store (sb_buffer c1) 0 (u64_cells (of_nat (length bs))) = Some m" "length m = length (sb_buffer c1)"
    using c1(2) by (simp_all add: store_def m_def)
  have "length m < 2 ^ 64"
    using m(2) c1(1) unsigned_less [of "sb_capacity c1"] by simp
  then obtain off' where off': "combine_loop 8 m bs = Some (off', take 8 m @ E @ drop (8 + length E) m)"
      "unat off' = 8 + length E"
    using combine_loop_enc [OF wf, of 8 m] c1(2) m(2) by (auto simp: E_def)
  have "sb_combine limit bs c =
      Some (StreamBuffer off' (sb_capacity c1) (take 8 m @ E @ drop (8 + length E) m) (sb_children c1))"
    using lim m off' cnt by (simp add: sb_combine_def Let_def c1_def R_def word_less_nat_alt)
  then show ?thesis
    using off' c1 m by (simp add: sb_frame_def E_def [symmetric] length_sb_frame) (simp add: m_def)
qed

lemma separate_frame:
  assumes "\<forall>b \<in> set bs. sb_wf b \<and> sb_size b \<le> 1000000000000" and "length (sb_buffer c) < 2 ^ 64"
    and "take (length (sb_frame bs)) (sb_buffer c) = sb_frame bs" and "length (sb_frame bs) \<le> length (sb_buffer c)"
  shows "sb_separate c = Some (map (\<lambda>b. sb_piece (payload b)) bs)"
proof -
  obtain rest where m: "sb_buffer c = sb_frame bs @ rest"
    using assms(3) by (metis append_take_drop_id)
  have cnt: "unat (of_nat (length bs) :: u64) = length bs"
    using assms(2,4) length_concat_enc [of bs] by (simp add: unat_of_nat length_sb_frame)
  have "load (sb_buffer c) 0 8 = Some (u64_cells (of_nat (length bs)))"
    by (simp add: load_def m sb_frame_def)
  moreover have "separate_loop (length bs) 8 (sb_buffer c) [] = Some ([] @ map (\<lambda>b. sb_piece (payload b)) bs)"
    using assms by (intro separate_loop_enc [where rest = rest]) (simp_all add: m sb_frame_def)
  ultimately show ?thesis by (simp add: sb_separate_def sb_separate_into_def cnt)
qed

section \<open>Properties\<close>

text \<open>
  The buffers a round trip is about: well formed, none above the size limit of \<open>read\<close>, and few
  enough for the packed total to fit in 64 bits.
\<close>

definition packable :: "u64 \<Rightarrow> stream_buffer list \<Rightarrow> bool" where
  "packable limit bs \<longleftrightarrow> list_all (\<lambda>b. sb_wf b \<and> sb_size b \<le> 1000000000000) bs \<and>
     length bs < unat limit \<and> 8 + sum_list (map (\<lambda>b. 8 + unat (sb_size b)) bs) < 2 ^ 64"

lemma packable_frame:
  assumes "packable limit bs"
  shows "\<forall>b \<in> set bs. sb_wf b \<and> sb_size b \<le> 1000000000000" "length bs < unat limit"
    "length (sb_frame bs) < 2 ^ 64"
proof -
  show wf: "\<forall>b \<in> set bs. sb_wf b \<and> sb_size b \<le> 1000000000000"
    using assms by (simp add: packable_def list_all_iff)
  then have "length (concat (map sb_enc bs)) = sum_list (map (\<lambda>b. 8 + unat (sb_size b)) bs)"
    by (induction bs) simp_all
  then show "length (sb_frame bs) < 2 ^ 64"
    using assms by (simp add: packable_def length_sb_frame)
qed (use assms in \<open>simp add: packable_def\<close>)

text \<open>
  Packing and unpacking are inverse: \<open>combine\<close> into any existing buffer succeeds without
  touching memory outside of it, and \<open>separate\<close> on the result returns one buffer per packed
  buffer, with the same bytes, the empty ones included.
\<close>

theorem combine_separate:
  assumes "packable 0xFFFFFF bs" and "length (sb_buffer c) = unat (sb_capacity c)"
  shows "Option.bind (sb_combine_vector bs c) sb_separate = Some (map (\<lambda>b. sb_piece (payload b)) bs)"
proof -
  note p = packable_frame [OF assms(1)]
  obtain c' where c': "sb_combine 0xFFFFFF bs c = Some c'"
      "take (length (sb_frame bs)) (sb_buffer c') = sb_frame bs"
      "length (sb_buffer c') = unat (sb_capacity c')" "length (sb_frame bs) \<le> length (sb_buffer c')"
    using combine_frame [of bs "0xFFFFFF" c] p assms(2) by auto
  have "length (sb_buffer c') < 2 ^ 64"
    using c'(3) unsigned_less [of "sb_capacity c'"] by simp
  then show ?thesis
    using separate_frame [OF p(1) _ c'(2,4)] c'(1) by (simp add: sb_combine_vector_def)
qed

theorem combine_separate_witness:
  "Option.bind (sb_combine_vector [sb_piece [1, 2], sb_piece []] sb_new) sb_separate
   = Some [sb_piece [1, 2], sb_piece []]"
  using combine_separate [of "[sb_piece [1, 2], sb_piece []]" sb_new]
  by (simp add: packable_def sb_wf_def sb_piece_def sb_new_def payload_def)

text \<open>
  \<open>expand\<close> undoes \<open>contract\<close>: a buffer whose children are packed into it and unpacked again
  has children with the same bytes in the same order, and is itself empty.
\<close>

theorem contract_expand:
  assumes "packable 0xFFFFFFFF (sb_children s)" and "length (sb_buffer s) = unat (sb_capacity s)"
  shows "Option.bind (sb_contract s) sb_expand =
    Some (StreamBuffer 0 0 [] (map (\<lambda>b. sb_piece (payload b)) (sb_children s)))"
proof -
  note p = packable_frame [OF assms(1)]
  let ?bs = "sb_children s"
  obtain c' where c': "sb_combine 0xFFFFFFFF ?bs s = Some c'"
      "take (length (sb_frame ?bs)) (sb_buffer c') = sb_frame ?bs"
      "length (sb_buffer c') = unat (sb_capacity c')" "length (sb_frame ?bs) \<le> length (sb_buffer c')"
    using combine_frame [of ?bs "0xFFFFFFFF" s] p assms(2) by auto
  let ?c = "StreamBuffer (sb_size c') (sb_capacity c') (sb_buffer c') []"
  have "length (sb_buffer ?c) < 2 ^ 64"
    using c'(3) unsigned_less [of "sb_capacity c'"] by simp
  then have "sb_separate ?c = Some (map (\<lambda>b. sb_piece (payload b)) ?bs)"
    using separate_frame [OF p(1), of ?c] c'(2,4) by simp
  then show ?thesis
    using c'(1) by (simp add: sb_contract_def sb_combine_list_def sb_expand_def sb_clear_def sb_separate_def)
qed

theorem contract_expand_witness:
  "Option.bind (sb_contract (StreamBuffer 0 0 [] [sb_piece [7], sb_piece [8, 9]])) sb_expand
   = Some (StreamBuffer 0 0 [] [sb_piece [7], sb_piece [8, 9]])"
  using contract_expand [of "StreamBuffer 0 0 [] [sb_piece [7], sb_piece [8, 9]]"]
  by (simp add: packable_def sb_wf_def sb_piece_def payload_def)

text \<open>
  A buffer written to a stream with \<open>write\<close> and read back with \<open>read\<close> into a fresh buffer
  carries the same bytes, and exactly the bytes written are consumed from the stream.
\<close>

theorem write_read_stream:
  assumes "sb_wf s" and "sb_size s \<le> 1000000000000"
  shows "Option.bind (sb_write s) (\<lambda>out. sb_read_stream (out @ rest) sb_new) = Some (sb_piece (payload s), rest)"
proof -
  have w: "sb_write s = Some (nat_bytes 8 (unat (sb_size s)) @ payload s)"
    using sb_wf_load [OF assms(1)] by (simp add: sb_write_def sb_write_n_def)
  have "sb_read_n_stream (payload s @ rest) (sb_size s) sb_new = Some (sb_piece (payload s), rest)"
  proof (cases "sb_size s = 0")
    case True
    then show ?thesis
      using length_payload [OF assms(1)] by (simp add: sb_read_n_stream_def invalid_request_def sb_piece_def)
  next
    case False
    have "payload s \<noteq> []" "of_nat (length (payload s)) = sb_size s"
      using False length_payload [OF assms(1)] by (auto simp: unat_eq_0)
    then show ?thesis
      using False assms length_payload [OF assms(1)]
      by (simp add: sb_read_n_stream_def invalid_request_def sb_resize_def sb_new_def Let_def store_def
          sb_piece_def word_gt_0 not_less)
  qed
  then show ?thesis by (simp add: w sb_read_stream_def)
qed

theorem write_read_stream_witness:
  "Option.bind (sb_write (sb_piece [3, 4])) (\<lambda>out. sb_read_stream (out @ [9]) sb_new) = Some (sb_piece [3, 4], [9])"
  using write_read_stream [of "sb_piece [3, 4]" "[9]"]
  by (simp add: sb_wf_def sb_piece_def payload_def)

end
