(* ===== verification/Log_Files.thy ===== *)
theory Log_Files
  imports Memory_Frame Stream_Buffer
begin

text \<open>
  Logs of memory frames: the writer \<open>src/core/memory/LogWriter.cpp\<close>, the reader \<open>LogReader.cpp\<close> and
  the choice of blocks \<open>LogAccessor.h\<close>. A log is the file \<open>frames.log\<close>, one stream buffer a frame, and
  the metadata (number of frames, offsets) in \<open>metadata.yaml\<close>. A frame is packed as a header with the
  names of its blocks and one buffer for each of them.

  The serialization of a block is generated by the build: \<open>serializable\<close> says for which names there is
  one, \<open>ser\<close> writes a block to bytes and \<open>deser\<close> reads the contents back, with a flag for success.
  The file and the metadata on the disk are fields of the writer; directories, time stamps and the
  image files beside the log are left out. Undefined behaviour (an index or a pointer out of range, a
  failed \<open>assert\<close>) is the error \<open>Undefined\<close>.
\<close>

datatype log_error = Memory_Error mem_error | Undefined | Invalid_Log_Frame int

section \<open>The choice of blocks\<close>

definition la_valid :: "string list \<Rightarrow> string \<Rightarrow> bool" where
  "la_valid enabled block = (if enabled = [] then True else block \<in> set enabled)"

section \<open>Writing\<close>

record log_writer =
  lw_using_buffers :: bool
  lw_use_all_blocks :: bool
  lw_enabled :: "string list"
  lw_open :: bool
  lw_log :: "byte list"
  lw_directory :: string
  lw_frame_id :: int
  lw_main :: stream_buffer
  lw_frames :: "32 word"
  lw_offsets :: "u64 list"
  lw_saved :: "(32 word \<times> u64 list) option"

definition lw_saveMetadata :: "log_writer \<Rightarrow> log_writer" where
  "lw_saveMetadata w = w\<lparr>lw_saved := Some (lw_frames w, lw_offsets w)\<rparr>"

definition lw_close :: "log_writer \<Rightarrow> log_writer" where
  "lw_close w = (if lw_open w then lw_saveMetadata (w\<lparr>lw_open := False\<rparr>) else w)\<lparr>lw_frame_id := 0\<rparr>"

definition lw_open_log :: "string \<Rightarrow> log_writer \<Rightarrow> log_writer" where
  "lw_open_log directory w =
     (let w = lw_close w
      in w\<lparr>lw_frames := 0, lw_offsets := [], lw_directory := directory, lw_open := True, lw_log := []\<rparr>)"

definition lw_clearBuffer :: "log_writer \<Rightarrow> log_writer" where
  "lw_clearBuffer w = w\<lparr>lw_main := sb_reset (lw_main w)\<rparr>"

text \<open>\<open>tellp\<close> is the length of the file written so far, or -1 when no file is open.\<close>

definition lw_tellp :: "log_writer \<Rightarrow> u64" where
  "lw_tellp w = (if lw_open w then of_nat (length (lw_log w)) else - 1)"

definition name_bytes :: "string \<Rightarrow> byte list" where
  "name_bytes n = map of_char n @ [0]"

definition lw_writeMemoryHeader :: "string list \<Rightarrow> log_writer \<Rightarrow> stream_buffer \<Rightarrow> stream_buffer option" where
  "lw_writeMemoryHeader names w buffer =
     Option.bind (those (map (\<lambda>n. sb_read (map Some (name_bytes n)) (of_nat (length n + 1)) sb_new)
                          (filter (la_valid (lw_enabled w)) names)))
       (\<lambda>buffers. sb_combine_vector buffers buffer)"

text \<open>
  The loop over the blocks: one entry for each enabled name, empty when the block has no
  serialization. \<open>staged\<close> is the block as its serialization sees it.
\<close>

definition staged :: "log_writer \<Rightarrow> 'b mem_block \<Rightarrow> 'b mem_block" where
  "staged w b = b\<lparr>buffer_logging := lw_using_buffers w, blk_frame_id := lw_frame_id w, blk_directory := Some (lw_directory w)\<rparr>"

fun lw_blocks ::
  "(string \<Rightarrow> bool) \<Rightarrow> (string \<Rightarrow> 'b mem_block \<Rightarrow> byte list) \<Rightarrow> log_writer \<Rightarrow> string list \<Rightarrow> 'b memory_frame \<Rightarrow>
   log_error + (byte list option list \<times> 'b memory_frame)" where
  "lw_blocks serializable ser w [] f = Inr ([], f)"
| "lw_blocks serializable ser w (name # names) f =
     (if \<not> la_valid (lw_enabled w) name then lw_blocks serializable ser w names f
      else case getBlockPtrByName name f of
        Inl e \<Rightarrow> Inl (Memory_Error e)
      | Inr None \<Rightarrow> Inl Undefined
      | Inr (Some b) \<Rightarrow>
          if \<not> serializable name
          then map_sum id (\<lambda>(ss, f). (None # ss, f)) (lw_blocks serializable ser w names f)
          else let s = ser name (staged w b); f = mf_put name ((staged w b)\<lparr>blk_directory := None\<rparr>) f
               in map_sum id (\<lambda>(ss, f). (Some s # ss, f)) (lw_blocks serializable ser w names f))"

definition block_buffer :: "byte list option \<Rightarrow> stream_buffer" where
  "block_buffer s = (case s of None \<Rightarrow> sb_new | Some bytes \<Rightarrow> sb_of_array (map Some bytes) (of_nat (length bytes)))"

definition lw_write :: "log_writer \<Rightarrow> log_writer option" where
  "lw_write w = map_option (\<lambda>out. w\<lparr>lw_log := lw_log w @ out\<rparr>) (sb_write (lw_main w))"

definition lw_writeMemory ::
  "(string \<Rightarrow> bool) \<Rightarrow> (string \<Rightarrow> 'b mem_block \<Rightarrow> byte list) \<Rightarrow> 'b memory_frame \<Rightarrow> log_writer \<Rightarrow>
   log_error + (log_writer \<times> 'b memory_frame)" where
  "lw_writeMemory serializable ser f w =
     (if lw_using_buffers w \<or> lw_open w
      then let w = w\<lparr>lw_frames := lw_frames w + 1, lw_offsets := lw_offsets w @ [lw_tellp w]\<rparr>;
               names = getBlockNames (\<not> lw_use_all_blocks w) f
           in case lw_writeMemoryHeader names w sb_new of
                None \<Rightarrow> Inl Undefined
              | Some hbuffer \<Rightarrow>
                  (case lw_blocks serializable ser w names f of
                     Inl e \<Rightarrow> Inl e
                   | Inr (serializers, f) \<Rightarrow>
                       (case sb_combine_vector (hbuffer # map block_buffer serializers) (lw_main w) of
                          None \<Rightarrow> Inl Undefined
                        | Some main \<Rightarrow>
                            let w = w\<lparr>lw_main := main\<rparr> in
                            if lw_using_buffers w then Inr (w\<lparr>lw_frame_id := lw_frame_id w + 1\<rparr>, f)
                            else case lw_write w of
                                   None \<Rightarrow> Inl Undefined
                                 | Some w \<Rightarrow>
                                     let w = (if lw_frames w mod 100 = 0 then lw_saveMetadata w else w)
                                     in Inr (w\<lparr>lw_frame_id := lw_frame_id w + 1\<rparr>, f)))
      else Inr (w, f))"

section \<open>Reading\<close>

abbreviation (input) MAX_EXPECTED_MODULES_PER_MEMORY :: nat where "MAX_EXPECTED_MODULES_PER_MEMORY \<equiv> 40"

record log_reader =
  lr_using_buffers :: bool
  lr_enabled :: "string list"
  lr_directory :: string
  lr_log :: "byte list"
  lr_frames :: "32 word"
  lr_offsets :: "u64 list"
  lr_main :: stream_buffer

text \<open>Opening the log a writer has left on the disk.\<close>

definition lr_of_files :: "string \<Rightarrow> byte list \<Rightarrow> 32 word \<times> u64 list \<Rightarrow> log_reader" where
  "lr_of_files directory file metadata =
     \<lparr>lr_using_buffers = False, lr_enabled = [], lr_directory = directory, lr_log = file,
      lr_frames = fst metadata, lr_offsets = snd metadata, lr_main = sb_new\<rparr>"

definition lr_of_buffer :: "stream_buffer \<Rightarrow> log_reader \<Rightarrow> log_reader" where
  "lr_of_buffer buffer r = r\<lparr>lr_using_buffers := True, lr_enabled := [], lr_main := buffer\<rparr>"

text \<open>A character pointer read as a string: the characters before the first zero of the array.\<close>

definition cells_c_str :: "cell list \<Rightarrow> string option" where
  "cells_c_str cs =
     (let s = takeWhile (\<lambda>c. c \<noteq> Some 0 \<and> c \<noteq> None) cs
      in if length s < length cs \<and> cs ! length s = Some 0 then Some (map (\<lambda>c. char_of (unat (the c))) s) else None)"

definition lr_readMemoryHeader :: "stream_buffer \<Rightarrow> log_error + string list option" where
  "lr_readMemoryHeader buffer =
     (case sb_separate buffer of
        None \<Rightarrow> Inl Undefined
      | Some blockNames \<Rightarrow>
          if length blockNames > MAX_EXPECTED_MODULES_PER_MEMORY then Inr None
          else case those (map (\<lambda>b. cells_c_str (sb_buffer b)) blockNames) of
                 None \<Rightarrow> Inl Undefined
               | Some names \<Rightarrow> Inr (Some names))"

definition restored :: "(string \<Rightarrow> byte list \<Rightarrow> 'b mem_block \<Rightarrow> bool \<times> 'b) \<Rightarrow> log_reader \<Rightarrow> int \<Rightarrow> string \<Rightarrow> byte list \<Rightarrow> 'b mem_block \<Rightarrow> 'b mem_block" where
  "restored deser r frame name bytes b =
     (let b = b\<lparr>buffer_logging := lr_using_buffers r, log_block := True, blk_directory := Some (lr_directory r), blk_frame_id := frame\<rparr>;
          (success, c) = deser name bytes b
      in b\<lparr>contents := c, blk_directory := None\<rparr>)"

text \<open>One turn of the loop over the buffers.\<close>

definition lr_readBlock ::
  "(string \<Rightarrow> bool) \<Rightarrow> (string \<Rightarrow> byte list \<Rightarrow> 'b mem_block \<Rightarrow> bool \<times> 'b) \<Rightarrow> (string \<Rightarrow> 'b mem_block option) \<Rightarrow>
   log_reader \<Rightarrow> int \<Rightarrow> string \<Rightarrow> stream_buffer \<Rightarrow> 'b memory_frame \<Rightarrow> log_error + 'b memory_frame" where
  "lr_readBlock serializable deser new_block r frame name piece f =
     (if \<not> la_valid (lr_enabled r) name then Inr f
      else case getBlockPtrByName name f of
        Inl e \<Rightarrow> Inl (Memory_Error e)
      | Inr p \<Rightarrow>
          if \<not> serializable name then Inr f
          else let (res, f) = (case p of None \<Rightarrow> addBlockByName new_block name OWNER_UNKNOWN f | Some _ \<Rightarrow> (True, f))
               in if \<not> res then Inr f
                  else case getBlockPtrByName name f of
                         Inl e \<Rightarrow> Inl (Memory_Error e)
                       | Inr None \<Rightarrow> Inl Undefined
                       | Inr (Some b) \<Rightarrow> Inr (mf_put name (restored deser r frame name (payload piece) b) f))"

fun lr_blocks ::
  "(string \<Rightarrow> stream_buffer \<Rightarrow> 'b memory_frame \<Rightarrow> log_error + 'b memory_frame) \<Rightarrow> string list \<Rightarrow> stream_buffer list \<Rightarrow>
   'b memory_frame \<Rightarrow> log_error + 'b memory_frame" where
  "lr_blocks turn names [] f = Inr f"
| "lr_blocks turn [] (piece # pieces) f = Inl Undefined"
| "lr_blocks turn (name # names) (piece # pieces) f =
     (case turn name piece f of Inl e \<Rightarrow> Inl e | Inr f \<Rightarrow> lr_blocks turn names pieces f)"

definition lr_readMemory ::
  "(string \<Rightarrow> bool) \<Rightarrow> (string \<Rightarrow> byte list \<Rightarrow> 'b mem_block \<Rightarrow> bool \<times> 'b) \<Rightarrow> (string \<Rightarrow> 'b mem_block option) \<Rightarrow>
   int \<Rightarrow> 'b memory_frame \<Rightarrow> log_reader \<Rightarrow> log_error + (bool \<times> 'b memory_frame)" where
  "lr_readMemory serializable deser new_block frame f r =
     (case sb_separate (lr_main r) of
        None \<Rightarrow> Inl Undefined
      | Some [] \<Rightarrow> Inl Undefined
      | Some (header # pieces) \<Rightarrow>
          (case lr_readMemoryHeader header of
             Inl e \<Rightarrow> Inl e
           | Inr None \<Rightarrow> Inr (False, f)
           | Inr (Some names) \<Rightarrow>
               if length names < 1 then Inr (False, f)
               else map_sum id (Pair True) (lr_blocks (lr_readBlock serializable deser new_block r frame) names pieces f)))"

text \<open>\<open>seekg\<close> and \<open>read\<close>: the buffer that starts at the offset of the frame.\<close>

definition lr_readBuffer :: "stream_buffer \<Rightarrow> nat \<Rightarrow> log_reader \<Rightarrow> stream_buffer option" where
  "lr_readBuffer buffer frame r =
     (if frame < length (lr_offsets r)
      then map_option fst (sb_read_stream (drop (unat (lr_offsets r ! frame)) (lr_log r)) buffer)
      else None)"

definition lr_readFrame ::
  "(string \<Rightarrow> bool) \<Rightarrow> (string \<Rightarrow> byte list \<Rightarrow> 'b mem_block \<Rightarrow> bool \<times> 'b) \<Rightarrow> (string \<Rightarrow> 'b mem_block option) \<Rightarrow> string \<Rightarrow>
   nat \<Rightarrow> log_reader \<Rightarrow> log_error + ('b memory_frame \<times> log_reader)" where
  "lr_readFrame serializable deser new_block sfx frame r =
     (let memory = mf_new False TOOL_MEM sfx False [] OWNER_UNKNOWN in
      case lr_readBuffer (lr_main r) frame r of
        None \<Rightarrow> Inl Undefined
      | Some main \<Rightarrow>
          (let r = r\<lparr>lr_main := main\<rparr>
           in map_sum id (\<lambda>(ok, memory). (memory, r)) (lr_readMemory serializable deser new_block (int frame) memory r)))"

section \<open>Editing logs and viewing them\<close>

text \<open>\<open>EditLogWriter::copyFrame\<close>; the copies of the image files are left out.\<close>

definition ew_copyFrame :: "log_reader \<Rightarrow> nat \<Rightarrow> log_writer \<Rightarrow> log_writer option" where
  "ew_copyFrame viewer sframe w =
     (let w = w\<lparr>lw_frames := lw_frames w + 1, lw_offsets := lw_offsets w @ [lw_tellp w]\<rparr> in
      Option.bind (lr_readBuffer sb_new sframe viewer) (\<lambda>buffer.
      Option.bind (sb_write buffer) (\<lambda>out. Some (w\<lparr>lw_log := lw_log w @ out\<rparr>))))"

text \<open>
  The viewers (\<open>src/core/memory/LogViewer.cpp\<close>): an index is an \<open>unsigned int\<close> counted from the start of
  the viewed part. \<open>LogViewer\<close> checks it against the number of frames, \<open>CachedLogViewer\<close> does not.
\<close>

record log_viewer =
  lv_reader :: log_reader
  lv_start :: int
  lv_finish :: int

definition lv_new :: "log_reader \<Rightarrow> int \<Rightarrow> int \<Rightarrow> log_viewer" where
  "lv_new r start finish =
     \<lparr>lv_reader = r, lv_start = start,
      lv_finish = (if finish > 0 then min (sint (lr_frames r) - 1) finish else sint (lr_frames r - 1))\<rparr>"

definition lv_size :: "log_viewer \<Rightarrow> u64" where
  "lv_size v = word_of_int (lv_finish v - lv_start v + 1)"

definition lv_frame :: "32 word \<Rightarrow> log_viewer \<Rightarrow> int" where
  "lv_frame idx v = sint (idx + word_of_int (lv_start v))"

definition lv_getFrame ::
  "(string \<Rightarrow> bool) \<Rightarrow> (string \<Rightarrow> byte list \<Rightarrow> 'b mem_block \<Rightarrow> bool \<times> 'b) \<Rightarrow> (string \<Rightarrow> 'b mem_block option) \<Rightarrow> string \<Rightarrow>
   32 word \<Rightarrow> log_viewer \<Rightarrow> log_error + ('b memory_frame \<times> log_viewer)" where
  "lv_getFrame serializable deser new_block sfx idx v =
     (let frame = lv_frame idx v in
      if word_of_int frame \<ge> lr_frames (lv_reader v) \<or> frame < 0 then Inl (Invalid_Log_Frame frame)
      else map_sum id (\<lambda>(g, r). (g, v\<lparr>lv_reader := r\<rparr>)) (lr_readFrame serializable deser new_block sfx (nat frame) (lv_reader v)))"

definition clv_getFrame ::
  "(string \<Rightarrow> bool) \<Rightarrow> (string \<Rightarrow> byte list \<Rightarrow> 'b mem_block \<Rightarrow> bool \<times> 'b) \<Rightarrow> (string \<Rightarrow> 'b mem_block option) \<Rightarrow> string \<Rightarrow>
   32 word \<Rightarrow> log_viewer \<times> (int \<rightharpoonup> 'b memory_frame) \<Rightarrow> log_error + ('b memory_frame \<times> log_viewer \<times> (int \<rightharpoonup> 'b memory_frame))" where
  "clv_getFrame serializable deser new_block sfx idx vc =
     (let (v, cache) = vc; frame = lv_frame idx v in
      case cache frame of
        Some g \<Rightarrow> Inr (g, v, cache)
      | None \<Rightarrow>
          if frame < 0 then Inl Undefined
          else map_sum id (\<lambda>(g, r). (g, v\<lparr>lv_reader := r\<rparr>, cache(frame \<mapsto> g)))
                 (lr_readFrame serializable deser new_block sfx (nat frame) (lv_reader v)))"

section \<open>Packed byte strings\<close>

definition packed :: "byte list list \<Rightarrow> byte list" where
  "packed ps = nat_bytes 8 (length ps) @ concat (map (\<lambda>p. nat_bytes 8 (length p) @ p) ps)"

lemma sb_enc_bytes: "sb_wf b \<Longrightarrow> sb_enc b = map Some (nat_bytes 8 (length (payload b)) @ payload b)"
  by (simp add: sb_enc_def u64_cells_def)

lemma sb_frame_bytes:
  assumes "\<forall>b \<in> set bs. sb_wf b" "length bs < 2 ^ 64"
  shows "sb_frame bs = map Some (packed (map payload bs))"
proof -
  have "concat (map sb_enc bs) = map Some (concat (map (\<lambda>p. nat_bytes 8 (length p) @ p) (map payload bs)))"
    using assms(1) by (induction bs) (simp_all add: sb_enc_bytes del: length_payload)
  then show ?thesis
    using assms(2) by (simp add: sb_frame_def packed_def u64_cells_def unat_of_nat)
qed

lemma packed_lengths: "p \<in> set ps \<Longrightarrow> length p + 8 \<le> length (packed ps)" "length ps \<le> length (packed ps)"
  by (induction ps) (auto simp: packed_def)

lemma sb_piece_wf [simp]: "length p < 2 ^ 64 \<Longrightarrow> sb_wf (sb_piece p)"
  by (auto simp: sb_wf_def sb_piece_def sb_new_def unat_of_nat list_all_iff)

lemma payload_piece [simp]: "length p < 2 ^ 64 \<Longrightarrow> payload (sb_piece p) = p"
  by (simp add: payload_def sb_piece_def sb_new_def unat_of_nat)

lemma sb_buffer_piece [simp]: "sb_buffer (sb_piece p) = map Some p"
  by (simp add: sb_piece_def sb_new_def)

lemma combine_bytes:
  assumes "\<forall>b \<in> set bs. sb_wf b" "length bs < 0xFFFFFF" "length (packed (map payload bs)) < 2 ^ 64" "sb_wf c"
  shows "\<exists>c'. sb_combine_vector bs c = Some c' \<and> sb_wf c' \<and> payload c' = packed (map payload bs)"
proof -
  have f: "sb_frame bs = map Some (packed (map payload bs))"
    using assms(1,2) by (intro sb_frame_bytes) simp_all
  obtain c' where c': "sb_combine 0xFFFFFF bs c = Some c'" "unat (sb_size c') = length (sb_frame bs)"
      "take (length (sb_frame bs)) (sb_buffer c') = sb_frame bs" "length (sb_buffer c') = unat (sb_capacity c')"
      "length (sb_frame bs) \<le> length (sb_buffer c')"
    using combine_frame [of bs "0xFFFFFF" c] assms f by (auto simp: sb_wf_def)
  have "sb_wf c'" "payload c' = packed (map payload bs)"
    using c' f by (simp_all add: sb_wf_def payload_def word_le_nat_alt list_all_iff comp_def)
  then show ?thesis using c'(1) by (simp add: sb_combine_vector_def)
qed

lemma wf_take: "sb_wf c \<Longrightarrow> take (length (payload c)) (sb_buffer c) = map Some (payload c)"
  using sb_wf_load [of c] by (simp add: load_def split: if_splits)

lemma separate_bytes:
  assumes "sb_wf c" "payload c = packed ps" "\<forall>p \<in> set ps. length p \<le> 1000000000000" "length ps < 2 ^ 64"
  shows "sb_separate c = Some (map sb_piece ps)"
proof -
  have small: "\<forall>p \<in> set ps. length p < 2 ^ 64" using assms(3) by force
  have f: "sb_frame (map sb_piece ps) = map Some (packed ps)"
    using sb_frame_bytes [of "map sb_piece ps"] small assms(4) by (simp add: comp_def cong: map_cong)
  have "length (payload c) \<le> length (sb_buffer c)"
    using assms(1) by (simp add: sb_wf_def word_le_nat_alt)
  moreover have "length (sb_buffer c) < 2 ^ 64"
    using assms(1) unsigned_less [of "sb_capacity c"] by (simp add: sb_wf_def)
  moreover have "\<forall>b \<in> set (map sb_piece ps). sb_wf b \<and> sb_size b \<le> 1000000000000"
    using assms(3) small by (auto simp: word_le_nat_alt unat_of_nat)
  ultimately have "sb_separate c = Some (map (\<lambda>b. sb_piece (payload b)) (map sb_piece ps))"
    using wf_take [OF assms(1)] assms(2) f by (intro separate_frame) simp_all
  then show ?thesis using small by (simp add: comp_def cong: map_cong)
qed

lemma write_bytes: "sb_wf s \<Longrightarrow> sb_write s = Some (nat_bytes 8 (length (payload s)) @ payload s)"
  using sb_wf_load [of s] by (simp add: sb_write_def sb_write_n_def)

lemma read_bytes:
  assumes "p \<noteq> []" "length p \<le> 1000000000000" "sb_wf b"
  shows "\<exists>b'. sb_read_stream (nat_bytes 8 (length p) @ p @ rest) b = Some (b', rest) \<and> sb_wf b' \<and> payload b' = p"
proof -
  define n :: u64 where "n = of_nat (length p)"
  have n: "unat n = length p" "n \<noteq> 0" "n \<le> 1000000000000"
    using assms(1,2) by (simp_all add: n_def unat_of_nat word_le_nat_alt flip: unat_eq_0)
  define c where "c = sb_resize n b"
  have c: "length (sb_buffer c) = unat (sb_capacity c)" "length p \<le> length (sb_buffer c)" "n \<le> sb_capacity c"
    using assms(3) n(1) by (auto simp: c_def sb_resize_def sb_wf_def word_less_nat_alt word_le_nat_alt)
  let ?b = "StreamBuffer n (sb_capacity c) (map Some p @ drop (length p) (sb_buffer c)) (sb_children c)"
  have "sb_read_stream (nat_bytes 8 (length p) @ p @ rest) b = Some (?b, rest)"
    using n c cells_u64_nat_bytes [of n]
    by (simp add: sb_read_stream_def sb_read_n_stream_def invalid_request_def Let_def c_def [symmetric] store_def
        not_less [symmetric])
  moreover have "sb_wf ?b" "payload ?b = p"
    using n c by (simp_all add: sb_wf_def payload_def list_all_iff)
  ultimately show ?thesis by blast
qed

lemma byte_of_char [simp]: "char_of (unat (of_char c :: byte)) = c" "(of_char c :: byte) = 0 \<longleftrightarrow> c = CHR 0x00"
proof -
  have "(of_char c :: byte) = of_nat (of_char c)" by (simp add: of_nat_of_char)
  then have *: "unat (of_char c :: byte) = of_char c" by (simp add: unat_of_nat)
  then show "char_of (unat (of_char c :: byte)) = c" by simp
  show "(of_char c :: byte) = 0 \<longleftrightarrow> c = CHR 0x00"
    using * unat_eq_0 [of "of_char c :: byte"] of_char_eq_iff [of c "CHR 0x00", where 'a = nat] by simp
qed

lemma name_read_back:
  assumes "c_str n = n" shows "cells_c_str (map Some (name_bytes n)) = Some n"
proof -
  have nz: "\<forall>c \<in> set n. c \<noteq> CHR 0x00" using assms by (simp add: c_str_def takeWhile_eq_all_conv)
  have "takeWhile (\<lambda>c. c \<noteq> Some 0 \<and> c \<noteq> None) (map Some (name_bytes n)) = map (\<lambda>c. Some (of_char c)) n"
    using nz by (simp add: name_bytes_def comp_def takeWhile_append)
  then show ?thesis by (simp add: cells_c_str_def name_bytes_def nth_append comp_def)
qed

section \<open>What a frame is written as\<close>

definition logged_names :: "log_writer \<Rightarrow> 'b memory_frame \<Rightarrow> string list" where
  "logged_names w f = filter (la_valid (lw_enabled w)) (getBlockNames (\<not> lw_use_all_blocks w) f)"

definition entry :: "(string \<Rightarrow> bool) \<Rightarrow> (string \<Rightarrow> 'b mem_block \<Rightarrow> byte list) \<Rightarrow> log_writer \<Rightarrow> 'b memory_frame \<Rightarrow> string \<Rightarrow> byte list option" where
  "entry serializable ser w f n = (if serializable n then Some (ser n (staged w (the (mf_find n f)))) else None)"

definition entry_bytes :: "byte list option \<Rightarrow> byte list" where
  "entry_bytes e = (case e of None \<Rightarrow> [] | Some bytes \<Rightarrow> bytes)"

definition frame_bytes :: "(string \<Rightarrow> bool) \<Rightarrow> (string \<Rightarrow> 'b mem_block \<Rightarrow> byte list) \<Rightarrow> log_writer \<Rightarrow> 'b memory_frame \<Rightarrow> byte list" where
  "frame_bytes serializable ser w f =
     packed (packed (map name_bytes (logged_names w f)) # map (\<lambda>n. entry_bytes (entry serializable ser w f n)) (logged_names w f))"

text \<open>A frame can be written when it is not larger than what \<open>read\<close> accepts.\<close>

definition writable :: "(string \<Rightarrow> bool) \<Rightarrow> (string \<Rightarrow> 'b mem_block \<Rightarrow> byte list) \<Rightarrow> log_writer \<Rightarrow> 'b memory_frame \<Rightarrow> bool" where
  "writable serializable ser w f \<longleftrightarrow>
     mf_wf f \<and> length (logged_names w f) < 1000000 \<and> length (frame_bytes serializable ser w f) \<le> 1000000000000"

lemma listed_ptr:
  assumes "mf_wf f" "n \<in> set (getBlockNames only_log f)"
  shows "mf_key f n = n" "\<exists>b. getBlockPtrByName n f = Inr (Some b) \<and> mf_find n f = Some b"
  using assms by (auto simp: set_block_names getBlockPtrByName_def getBlockPtr_eq asking_def)

lemma getBlockPtr_cong:
  "mf_find n g = mf_find n f \<Longrightarrow> mf_owner g = mf_owner f \<Longrightarrow> getBlockPtrByName n g = getBlockPtrByName n f"
  by (simp add: getBlockPtrByName_def getBlockPtr_eq asking_def split: option.split)

lemma distinct_names: "mf_wf f \<Longrightarrow> distinct (getBlockNames only_log f)"
  using sorted_block_names [of f only_log] by (simp add: strict_sorted_iff)

lemma distinct_logged: "mf_wf f \<Longrightarrow> distinct (logged_names w f)"
  by (simp add: logged_names_def distinct_names)

lemma lw_blocks_entries:
  assumes "mf_wf f" "distinct names" "\<forall>n \<in> set names. mf_key f n = n \<and> (\<exists>b. getBlockPtrByName n f = Inr (Some b) \<and> mf_find n f = Some b)"
  shows "\<exists>f'. lw_blocks serializable ser w names f =
      Inr (map (entry serializable ser w f) (filter (la_valid (lw_enabled w)) names), f') \<and> mf_wf f'"
  using assms
proof (induction names arbitrary: f)
  case Nil
  then show ?case by simp
next
  case (Cons name names)
  obtain b where b: "getBlockPtrByName name f = Inr (Some b)" "mf_find name f = Some b" "mf_key f name = name"
    using Cons.prems(3) by auto
  show ?case
  proof (cases "la_valid (lw_enabled w) name \<and> serializable name")
    case False
    obtain f' where "lw_blocks serializable ser w names f =
        Inr (map (entry serializable ser w f) (filter (la_valid (lw_enabled w)) names), f')" "mf_wf f'"
      using Cons.IH [OF Cons.prems(1)] Cons.prems(2,3) by auto
    then show ?thesis using False b by (auto simp: entry_def)
  next
    case True
    let ?f = "mf_put name ((staged w b)\<lparr>blk_directory := None\<rparr>) f"
    note put = mf_put_store [OF Cons.prems(1), where name = name and b = "(staged w b)\<lparr>blk_directory := None\<rparr>"]
    have same: "mf_find n ?f = mf_find n f" "mf_key ?f n = n" if "n \<in> set names" for n
      using that Cons.prems(2,3) put(1,4) b(3) by auto
    then have "\<forall>n \<in> set names. mf_key ?f n = n \<and> (\<exists>b. getBlockPtrByName n ?f = Inr (Some b) \<and> mf_find n ?f = Some b)"
      using Cons.prems(3) put(3) by (simp add: getBlockPtr_cong [of _ ?f f])
    moreover have "map (entry serializable ser w ?f) (filter (la_valid (lw_enabled w)) names) =
        map (entry serializable ser w f) (filter (la_valid (lw_enabled w)) names)"
      using same(1) by (simp add: entry_def)
    ultimately obtain f' where "lw_blocks serializable ser w names ?f =
        Inr (map (entry serializable ser w f) (filter (la_valid (lw_enabled w)) names), f')" "mf_wf f'"
      using Cons.IH [OF put(2)] Cons.prems(2) by auto
    then show ?thesis using True b by (simp add: entry_def Let_def)
  qed
qed

lemma header_written:
  assumes "length (filter (la_valid (lw_enabled w)) names) < 1000000" "length (packed (map name_bytes (filter (la_valid (lw_enabled w)) names))) \<le> 1000000000000"
  shows "\<exists>h. lw_writeMemoryHeader names w sb_new = Some h \<and> sb_wf h \<and>
    payload h = packed (map name_bytes (filter (la_valid (lw_enabled w)) names))"
proof -
  let ?ns = "filter (la_valid (lw_enabled w)) names"
  have len: "length (name_bytes n) \<le> 1000000000000" if "n \<in> set ?ns" for n
    using packed_lengths(1) [of "name_bytes n" "map name_bytes ?ns"] that assms(2) by auto
  have "sb_read (map Some (name_bytes n)) (of_nat (length n + 1)) sb_new = Some (sb_piece (name_bytes n))" if "n \<in> set ?ns" for n
    using len [OF that] by (intro sb_read_payload) (simp_all add: name_bytes_def unat_of_nat word_le_nat_alt del: of_nat_Suc of_nat_add)
  then have "map (\<lambda>n. sb_read (map Some (name_bytes n)) (of_nat (length n + 1)) sb_new) ?ns = map Some (map (\<lambda>n. sb_piece (name_bytes n)) ?ns)"
    unfolding map_map by (intro map_cong) simp_all
  then have "those (map (\<lambda>n. sb_read (map Some (name_bytes n)) (of_nat (length n + 1)) sb_new) ?ns) = Some (map (\<lambda>n. sb_piece (name_bytes n)) ?ns)"
    by (simp only: those_map_Some)
  moreover define bs where "bs = map (\<lambda>n. sb_piece (name_bytes n)) ?ns"
  ultimately have w: "lw_writeMemoryHeader names w sb_new = sb_combine_vector bs sb_new"
    by (simp only: lw_writeMemoryHeader_def bind.bind_lunit)
  have small: "length (name_bytes n) < 2 ^ 64" if "n \<in> set ?ns" for n using len [OF that] by simp
  have "map payload bs = map name_bytes ?ns"
    unfolding bs_def map_map comp_def by (intro map_cong refl payload_piece small)
  moreover have "\<forall>b \<in> set bs. sb_wf b" using small sb_piece_wf by (auto simp: bs_def)
  moreover have "length bs < 1000000" using assms(1) by (simp add: bs_def)
  moreover have "sb_wf sb_new" using sb_piece_wf [of "[]"] by (simp add: sb_piece_def)
  ultimately show ?thesis
    using combine_bytes [of bs sb_new] assms(2) by (simp add: w)
qed

section \<open>Writing a frame\<close>

definition lw_ready :: "log_writer \<Rightarrow> bool" where
  "lw_ready w \<longleftrightarrow> lw_open w \<and> \<not> lw_using_buffers w \<and> sb_wf (lw_main w)"

text \<open>The fields of a writer that choose what is written.\<close>

definition same_config :: "log_writer \<Rightarrow> log_writer \<Rightarrow> bool" where
  "same_config w w' \<longleftrightarrow> lw_enabled w' = lw_enabled w \<and> lw_use_all_blocks w' = lw_use_all_blocks w \<and> lw_directory w' = lw_directory w"

lemma block_buffer_bytes [simp]:
  "length (entry_bytes e) < 2 ^ 64 \<Longrightarrow> sb_wf (block_buffer e) \<and> payload (block_buffer e) = entry_bytes e"
  by (auto simp: block_buffer_def entry_bytes_def sb_of_array_def sb_wf_def payload_def sb_new_def unat_of_nat list_all_iff comp_def
      split: option.split)

lemma frame_packed:
  assumes "writable serializable ser w f" "sb_wf h" "payload h = packed (map name_bytes (logged_names w f))" "sb_wf c"
  shows "\<exists>main. sb_combine_vector (h # map block_buffer (map (entry serializable ser w f) (logged_names w f))) c = Some main \<and>
    sb_wf main \<and> payload main = frame_bytes serializable ser w f"
proof -
  define es where "es = map (entry serializable ser w f) (logged_names w f)"
  have fb: "frame_bytes serializable ser w f = packed (packed (map name_bytes (logged_names w f)) # map entry_bytes es)"
    by (simp add: frame_bytes_def es_def comp_def)
  have len: "length (entry_bytes e) < 2 ^ 64" if "e \<in> set es" for e
    using packed_lengths(1) [of "entry_bytes e" "packed (map name_bytes (logged_names w f)) # map entry_bytes es"] that assms(1) fb
    by (simp add: writable_def)
  have wf: "\<forall>b \<in> set (h # map block_buffer es). sb_wf b" using assms(2) len by auto
  have pl: "map payload (h # map block_buffer es) = packed (map name_bytes (logged_names w f)) # map entry_bytes es"
    using assms(3) len by simp
  have "length (h # map block_buffer es) < 0xFFFFFF" using assms(1) by (simp add: es_def writable_def)
  then show ?thesis
    using combine_bytes [OF wf _ _ assms(4)] assms(1) unfolding pl fb [symmetric] es_def [symmetric] by (simp add: writable_def)
qed

lemma write_frame:
  assumes "lw_ready w" "writable serializable ser w f"
  shows "\<exists>w' f'. lw_writeMemory serializable ser f w = Inr (w', f') \<and> lw_ready w' \<and> same_config w w' \<and>
    lw_frame_id w' = lw_frame_id w + 1 \<and> lw_frames w' = lw_frames w + 1 \<and>
    lw_offsets w' = lw_offsets w @ [of_nat (length (lw_log w))] \<and>
    lw_log w' = lw_log w @ nat_bytes 8 (length (frame_bytes serializable ser w f)) @ frame_bytes serializable ser w f"
proof -
  define w1 where "w1 = w\<lparr>lw_frames := lw_frames w + 1, lw_offsets := lw_offsets w @ [lw_tellp w]\<rparr>"
  define names where "names = getBlockNames (\<not> lw_use_all_blocks w) f"
  have f: "mf_wf f" using assms(2) by (simp add: writable_def)
  have ln: "filter (la_valid (lw_enabled w1)) names = logged_names w f"
    by (simp add: w1_def names_def logged_names_def)
  have en: "entry serializable ser w1 f = entry serializable ser w f"
    by (simp add: fun_eq_iff entry_def staged_def w1_def)
  have hb: "length (packed (map name_bytes (logged_names w f))) \<le> 1000000000000"
    using assms(2) packed_lengths(1) [of "packed (map name_bytes (logged_names w f))"
      "packed (map name_bytes (logged_names w f)) # map (\<lambda>n. entry_bytes (entry serializable ser w f n)) (logged_names w f)"]
    by (simp add: writable_def frame_bytes_def)
  obtain h where h: "lw_writeMemoryHeader names w1 sb_new = Some h" "sb_wf h" "payload h = packed (map name_bytes (logged_names w f))"
    using header_written [of w1 names] hb assms(2) unfolding ln by (auto simp: writable_def)
  obtain f' where f': "lw_blocks serializable ser w1 names f = Inr (map (entry serializable ser w f) (logged_names w f), f')"
    using lw_blocks_entries [OF f distinct_names [OF f], of "\<not> lw_use_all_blocks w" serializable ser w1]
      listed_ptr [OF f, of _ "\<not> lw_use_all_blocks w"]
    unfolding names_def [symmetric] ln en by auto
  obtain main where main: "sb_combine_vector (h # map block_buffer (map (entry serializable ser w f) (logged_names w f))) (lw_main w1) = Some main"
      "sb_wf main" "payload main = frame_bytes serializable ser w f"
    using frame_packed [OF assms(2) h(2,3), of "lw_main w1"] assms(1) by (auto simp: lw_ready_def w1_def)
  show ?thesis
    using assms(1) h(1) f' main write_bytes [OF main(2)] unfolding w1_def names_def
    by (simp add: lw_writeMemory_def lw_ready_def Let_def lw_write_def same_config_def lw_saveMetadata_def lw_tellp_def)
qed

section \<open>Reading a frame\<close>

text \<open>What the reader's frame is before and between the turns: private, owned by the tool.\<close>

definition tool_frame :: "'b memory_frame \<Rightarrow> bool" where
  "tool_frame f \<longleftrightarrow> mf_wf f \<and> mf_owner f = TOOL_MEM \<and> (\<forall>n. mf_key f n = n)"

lemma tool_ptr: "tool_frame f \<Longrightarrow> getBlockPtrByName n f = Inr (mf_find n f)"
  by (simp add: tool_frame_def getBlockPtrByName_def getBlockPtr_eq asking_def may_access_def split: option.split)

definition read_block ::
  "(string \<Rightarrow> bool) \<Rightarrow> (string \<Rightarrow> byte list \<Rightarrow> 'b mem_block \<Rightarrow> bool \<times> 'b) \<Rightarrow> (string \<Rightarrow> 'b mem_block option) \<Rightarrow> log_reader \<Rightarrow> int \<Rightarrow>
   string \<Rightarrow> byte list \<Rightarrow> 'b mem_block option" where
  "read_block serializable deser new_block r k n bytes =
     (if serializable n \<and> la_valid (lr_enabled r) n
      then map_option (\<lambda>b. restored deser r k n bytes (b\<lparr>blk_owner := TOOL_MEM\<rparr>)) (new_block n) else None)"

lemma read_turn:
  assumes "tool_frame f" "mf_find name f = None" "length bytes < 2 ^ 64"
  shows "\<exists>f'. lr_readBlock serializable deser new_block r k name (sb_piece bytes) f = Inr f' \<and> tool_frame f' \<and>
    (\<forall>n. mf_find n f' = (if n = name then read_block serializable deser new_block r k name bytes else mf_find n f))"
proof (cases "serializable name \<and> la_valid (lr_enabled r) name")
  case False
  then show ?thesis using assms tool_ptr [OF assms(1), of name] by (auto simp: lr_readBlock_def read_block_def)
next
  case True
  let ?g = "f\<lparr>previously_added_owner := TOOL_MEM\<rparr>"
  have ask: "asking OWNER_UNKNOWN f = TOOL_MEM" using assms(1) by (simp add: asking_def tool_frame_def)
  have g: "mf_wf ?g" "\<And>n. mf_key ?g n = n" "mf_owner ?g = TOOL_MEM" using assms(1) by (simp_all add: tool_frame_def)
  show ?thesis
  proof (cases "new_block name")
    case None
    then show ?thesis
      using True assms tool_ptr [OF assms(1), of name] g ask
      by (auto simp: lr_readBlock_def read_block_def addBlockByName_eq tool_frame_def)
  next
    case (Some b)
    let ?h = "snd (mf_addBlock name b ?g)"
    note add = mf_addBlock_store [OF g(1), where name = name and b = b]
    have res: "fst (mf_addBlock name b ?g)" using add(1) assms(2) by simp
    have find: "mf_find n ?h = (if n = name then Some (b\<lparr>blk_owner := TOOL_MEM\<rparr>) else mf_find n f)" for n
      using add(2) [of n] assms(2) g(2) by simp
    have h: "tool_frame ?h" using add(3,4,5) g by (simp add: tool_frame_def)
    let ?i = "mf_put name (restored deser r k name bytes (b\<lparr>blk_owner := TOOL_MEM\<rparr>)) ?h"
    note put = mf_put_store [where f = ?h and name = name and b = "restored deser r k name bytes (b\<lparr>blk_owner := TOOL_MEM\<rparr>)"]
    have i: "tool_frame ?i" "\<And>n. mf_find n ?i = (if n = name then read_block serializable deser new_block r k name bytes else mf_find n f)"
      using h put find True Some by (simp_all add: tool_frame_def read_block_def)
    have "lr_readBlock serializable deser new_block r k name (sb_piece bytes) f = Inr ?i"
      using True Some res assms tool_ptr [OF assms(1), of name] tool_ptr [OF h, of name] find [of name]
      by (simp add: lr_readBlock_def addBlockByName_eq ask split_beta)
    then show ?thesis using i by blast
  qed
qed

lemma read_turns:
  assumes "length names = length bodies" "tool_frame f" "distinct names" "\<forall>n \<in> set names. mf_find n f = None"
    "\<forall>p \<in> set bodies. length p < 2 ^ 64"
  shows "\<exists>f'. lr_blocks (lr_readBlock serializable deser new_block r k) names (map sb_piece bodies) f = Inr f' \<and> tool_frame f' \<and>
    (\<forall>n. mf_find n f' = (case map_of (zip names bodies) n of None \<Rightarrow> mf_find n f | Some p \<Rightarrow> read_block serializable deser new_block r k n p))"
  using assms
proof (induction names bodies arbitrary: f rule: list_induct2)
  case Nil
  then show ?case by simp
next
  case (Cons name names body bodies)
  obtain g where g: "lr_readBlock serializable deser new_block r k name (sb_piece body) f = Inr g" "tool_frame g"
      "\<And>n. mf_find n g = (if n = name then read_block serializable deser new_block r k name body else mf_find n f)"
    using read_turn [of f name body serializable deser new_block r k] Cons.prems by auto
  have "\<forall>n \<in> set names. mf_find n g = None" using g(3) Cons.prems(2,3) by auto
  then obtain h where h: "lr_blocks (lr_readBlock serializable deser new_block r k) names (map sb_piece bodies) g = Inr h" "tool_frame h"
      "\<And>n. mf_find n h = (case map_of (zip names bodies) n of None \<Rightarrow> mf_find n g | Some p \<Rightarrow> read_block serializable deser new_block r k n p)"
    using Cons.IH [OF g(2)] Cons.prems by auto
  have "map_of (zip names bodies) name = None" using Cons.prems(2) Cons.hyps by simp
  then show ?case using g h by (auto split: option.split)
qed

lemma header_read:
  assumes "\<forall>n \<in> set names. c_str n = n" "length (packed (map name_bytes names)) \<le> 1000000000000"
  shows "lr_readMemoryHeader (sb_piece (packed (map name_bytes names))) = Inr (if length names > 40 then None else Some names)"
proof -
  have len: "\<forall>p \<in> set (map name_bytes names). length p \<le> 1000000000000" "length (map name_bytes names) < 2 ^ 64"
    using packed_lengths(1) [of _ "map name_bytes names"] packed_lengths(2) [of "map name_bytes names"] assms(2)
    by (force, simp)
  have "sb_separate (sb_piece (packed (map name_bytes names))) = Some (map sb_piece (map name_bytes names))"
    using len assms(2) by (intro separate_bytes) simp_all
  moreover have "map (\<lambda>b. cells_c_str (sb_buffer b)) (map sb_piece (map name_bytes names)) = map Some names"
    using assms(1) name_read_back by simp
  ultimately show ?thesis by (simp add: lr_readMemoryHeader_def comp_def del: map_map)
qed

lemma restored_main [simp]: "restored deser (r\<lparr>lr_main := m\<rparr>) = restored deser r"
  by (simp add: restored_def [abs_def])

lemma read_block_main [simp]: "read_block serializable deser new_block (r\<lparr>lr_main := m\<rparr>) = read_block serializable deser new_block r"
  by (auto simp: fun_eq_iff read_block_def)

lemma tool_frame_new: "tool_frame (mf_new False TOOL_MEM sfx False [] junk)" "mf_find n (mf_new False TOOL_MEM sfx False [] junk) = None"
  by (simp_all add: tool_frame_def mf_wf_def mf_key_def mf_find_def mf_new_def pm_new_def map_wf_def pm_getBlockPtr_def)

text \<open>The frame that is read when the buffer at the offset holds the given names and bodies.\<close>

definition frame_read ::
  "(string \<Rightarrow> bool) \<Rightarrow> (string \<Rightarrow> byte list \<Rightarrow> 'b mem_block \<Rightarrow> bool \<times> 'b) \<Rightarrow> (string \<Rightarrow> 'b mem_block option) \<Rightarrow> log_reader \<Rightarrow> int \<Rightarrow>
   string list \<Rightarrow> byte list list \<Rightarrow> string \<Rightarrow> 'b mem_block option" where
  "frame_read serializable deser new_block r k names bodies n =
     (if length names > 40 then None
      else Option.bind (map_of (zip names bodies) n) (read_block serializable deser new_block r k n))"

lemma read_memory:
  fixes f0 :: "'b memory_frame"
  assumes main: "sb_wf (lr_main r)" "payload (lr_main r) = packed (packed (map name_bytes names) # bodies)"
    and small: "length (packed (packed (map name_bytes names) # bodies)) \<le> 1000000000000"
    and names: "distinct names" "\<forall>n \<in> set names. c_str n = n" "length names = length bodies" "names \<noteq> []"
    and f0: "tool_frame f0" "\<And>n. mf_find n f0 = None"
  shows "\<exists>g ok. lr_readMemory serializable deser new_block k f0 r = Inr (ok, g) \<and>
    (\<forall>n. mf_find n g = frame_read serializable deser new_block r k names bodies n)"
proof -
  let ?h = "packed (map name_bytes names)"
  have len: "\<forall>p \<in> set (?h # bodies). length p \<le> 1000000000000" "length (?h # bodies) < 2 ^ 64"
    using packed_lengths(1) [of _ "?h # bodies"] packed_lengths(2) [of "?h # bodies"] small by (force, simp)
  have sep: "sb_separate (lr_main r) = Some (sb_piece ?h # map sb_piece bodies)"
    using separate_bytes [OF main len] by simp
  have hd: "lr_readMemoryHeader (sb_piece ?h) = Inr (if length names > 40 then None else Some names)"
    using header_read [OF names(2)] len(1) by simp
  have "\<forall>p \<in> set bodies. length p < 2 ^ 64" using len(1) by force
  then obtain g where "lr_blocks (lr_readBlock serializable deser new_block r k) names (map sb_piece bodies) f0 = Inr g"
      "\<And>n. mf_find n g = (case map_of (zip names bodies) n of None \<Rightarrow> mf_find n f0 | Some p \<Rightarrow> read_block serializable deser new_block r k n p)"
    using read_turns [OF names(3) f0(1) names(1)] f0(2) by blast
  then show ?thesis
    using sep hd names(4) f0(2) by (auto simp: lr_readMemory_def frame_read_def Suc_le_eq split: option.split)
qed

lemma read_frame:
  assumes at: "k < length (lr_offsets r)" "drop (unat (lr_offsets r ! k)) (lr_log r) = nat_bytes 8 (length fb) @ fb @ rest"
    and fb: "fb = packed (packed (map name_bytes names) # bodies)" "length fb \<le> 1000000000000"
    and names: "distinct names" "\<forall>n \<in> set names. c_str n = n" "length names = length bodies" "names \<noteq> []"
    and r: "sb_wf (lr_main r)"
  shows "\<exists>g m. lr_readFrame serializable deser new_block sfx k r = Inr (g, r\<lparr>lr_main := m\<rparr>) \<and> sb_wf m \<and>
    (\<forall>n. mf_find n g = frame_read serializable deser new_block r (int k) names bodies n)"
proof -
  have "length fb > 0" using fb(1) by (simp add: packed_def)
  then have "fb \<noteq> []" by simp
  then obtain m where m: "sb_read_stream (nat_bytes 8 (length fb) @ fb @ rest) (lr_main r) = Some (m, rest)" "sb_wf m" "payload m = fb"
    using read_bytes [OF _ fb(2) r] by blast
  obtain g ok where g: "lr_readMemory serializable deser new_block (int k) (mf_new False TOOL_MEM sfx False [] OWNER_UNKNOWN) (r\<lparr>lr_main := m\<rparr>) = Inr (ok, g)"
      "\<forall>n. mf_find n g = frame_read serializable deser new_block (r\<lparr>lr_main := m\<rparr>) (int k) names bodies n"
    using read_memory [of "r\<lparr>lr_main := m\<rparr>" names bodies "mf_new False TOOL_MEM sfx False [] OWNER_UNKNOWN" serializable deser
        new_block "int k"] names tool_frame_new [where sfx = sfx and junk = OWNER_UNKNOWN] m(2,3) fb by auto
  have "lr_readBuffer (lr_main r) k r = Some m" using at m(1) by (simp add: lr_readBuffer_def)
  then have "lr_readFrame serializable deser new_block sfx k r = Inr (g, r\<lparr>lr_main := m\<rparr>)"
    using g(1) by (simp add: lr_readFrame_def)
  moreover have "frame_read serializable deser new_block (r\<lparr>lr_main := m\<rparr>) = frame_read serializable deser new_block r"
    by (simp add: fun_eq_iff frame_read_def)
  ultimately show ?thesis using g(2) m(2) by auto
qed

section \<open>Writing a log\<close>

fun write_all ::
  "(string \<Rightarrow> bool) \<Rightarrow> (string \<Rightarrow> 'b mem_block \<Rightarrow> byte list) \<Rightarrow> 'b memory_frame list \<Rightarrow> log_writer \<Rightarrow> log_error + log_writer" where
  "write_all serializable ser [] w = Inr w"
| "write_all serializable ser (f # fs) w =
     (case lw_writeMemory serializable ser f w of Inl e \<Rightarrow> Inl e | Inr (w, f') \<Rightarrow> write_all serializable ser fs w)"

abbreviation at_frame :: "log_writer \<Rightarrow> int \<Rightarrow> log_writer" where "at_frame w i \<equiv> w\<lparr>lw_frame_id := i\<rparr>"

lemma config_cong:
  assumes "same_config w w'" "lw_using_buffers w' = lw_using_buffers w"
  shows "logged_names (at_frame w' i) f = logged_names (at_frame w i) f"
    "frame_bytes serializable ser (at_frame w' i) f = frame_bytes serializable ser (at_frame w i) f"
    "writable serializable ser (at_frame w' i) f = writable serializable ser (at_frame w i) f"
proof -
  show n: "logged_names (at_frame w' i) f = logged_names (at_frame w i) f"
    using assms(1) by (simp add: logged_names_def same_config_def)
  have "entry serializable ser (at_frame w' i) f = entry serializable ser (at_frame w i) f"
    using assms by (simp add: fun_eq_iff entry_def staged_def same_config_def)
  then show fb: "frame_bytes serializable ser (at_frame w' i) f = frame_bytes serializable ser (at_frame w i) f"
    using n by (simp add: frame_bytes_def)
  show "writable serializable ser (at_frame w' i) f = writable serializable ser (at_frame w i) f"
    using n fb by (simp add: writable_def)
qed

text \<open>Frame \<open>k\<close> of a log is found at its offset.\<close>

definition stored_at :: "byte list \<Rightarrow> u64 list \<Rightarrow> nat \<Rightarrow> byte list \<Rightarrow> bool" where
  "stored_at file offsets k fb \<longleftrightarrow> k < length offsets \<and> 
     (\<exists>pre rest. file = pre @ nat_bytes 8 (length fb) @ fb @ rest \<and> offsets ! k = of_nat (length pre))"

lemma stored_at_append: "stored_at file offsets k fb \<Longrightarrow> stored_at (file @ x) (offsets @ y) k fb"
  unfolding stored_at_def
proof (elim conjE exE)
  fix pre rest
  assume *: "k < length offsets" "file = pre @ nat_bytes 8 (length fb) @ fb @ rest" "offsets ! k = of_nat (length pre)"
  show "k < length (offsets @ y) \<and>
      (\<exists>pre rest. file @ x = pre @ nat_bytes 8 (length fb) @ fb @ rest \<and> (offsets @ y) ! k = of_nat (length pre))"
    using * by (intro conjI exI [of _ pre] exI [of _ "rest @ x"]) (simp_all add: nth_append)
qed

lemma write_all_log:
  assumes "lw_ready w" "\<forall>f \<in> set fs. \<forall>i. writable serializable ser (at_frame w i) f"
  shows "\<exists>w'. write_all serializable ser fs w = Inr w' \<and> lw_ready w' \<and> same_config w w' \<and>
    (\<exists>x y. lw_log w' = lw_log w @ x \<and> lw_offsets w' = lw_offsets w @ y \<and> length x \<le> length fs * 1000000000008) \<and>
    length (lw_offsets w') = length (lw_offsets w) + length fs \<and>
    (\<forall>k < length fs. stored_at (lw_log w') (lw_offsets w') (length (lw_offsets w) + k)
       (frame_bytes serializable ser (at_frame w (lw_frame_id w + int k)) (fs ! k)))"
  using assms
proof (induction fs arbitrary: w)
  case Nil
  then show ?case by (simp add: same_config_def)
next
  case (Cons f fs)
  let ?fb = "frame_bytes serializable ser w f"
  have "\<forall>i. writable serializable ser (at_frame w i) f" using Cons.prems(2) by simp
  from spec [OF this, of "lw_frame_id w"] have wr: "writable serializable ser w f" by simp
  obtain w1 f1 where w1: "lw_writeMemory serializable ser f w = Inr (w1, f1)" "lw_ready w1" "same_config w w1"
      "lw_frame_id w1 = lw_frame_id w + 1" "lw_offsets w1 = lw_offsets w @ [of_nat (length (lw_log w))]"
      "lw_log w1 = lw_log w @ nat_bytes 8 (length ?fb) @ ?fb"
    using write_frame [OF Cons.prems(1) wr] by blast
  have ub: "lw_using_buffers w1 = lw_using_buffers w" using w1(2) Cons.prems(1) by (simp add: lw_ready_def)
  note cong = config_cong [OF w1(3) ub]
  have prem: "\<forall>f \<in> set fs. \<forall>i. writable serializable ser (at_frame w1 i) f" using Cons.prems(2) by (simp add: cong(3))
  obtain w2 x y where w2: "write_all serializable ser fs w1 = Inr w2" "lw_ready w2" "same_config w1 w2"
      "lw_log w2 = lw_log w1 @ x" "lw_offsets w2 = lw_offsets w1 @ y" "length x \<le> length fs * 1000000000008"
      "length (lw_offsets w2) = length (lw_offsets w1) + length fs"
      "\<And>k. k < length fs \<Longrightarrow> stored_at (lw_log w2) (lw_offsets w2) (length (lw_offsets w1) + k)
         (frame_bytes serializable ser (at_frame w1 (lw_frame_id w1 + int k)) (fs ! k))"
    using Cons.IH [OF w1(2) prem] by blast
  have "stored_at (lw_log w1) (lw_offsets w1) (length (lw_offsets w)) ?fb"
    unfolding stored_at_def w1(5,6) by (simp add: nth_append) blast
  then have first: "stored_at (lw_log w2) (lw_offsets w2) (length (lw_offsets w)) ?fb"
    unfolding w2(4,5) by (rule stored_at_append)
  have "stored_at (lw_log w2) (lw_offsets w2) (length (lw_offsets w) + k)
       (frame_bytes serializable ser (at_frame w (lw_frame_id w + int k)) ((f # fs) ! k))" if "k < length (f # fs)" for k
    using that first w2(8) [of "k - 1"] w1(4,5) by (cases k) (simp_all add: cong(2) ac_simps)
  moreover have "length (nat_bytes 8 (length ?fb) @ ?fb @ x) \<le> length (f # fs) * 1000000000008"
    using wr w2(6) by (simp add: writable_def)
  moreover have "same_config w w2" using w1(3) w2(3) by (simp add: same_config_def)
  ultimately show ?case
    using w1(1,5,6) w2(1,2,4,5,7) by (auto simp del: of_nat_Suc)
qed

section \<open>Properties\<close>

lemma at_frame_names [simp]: "logged_names (at_frame w i) f = logged_names w f"
  by (simp add: logged_names_def)

lemma stored_drop:
  assumes "stored_at file offsets k fb" "length file < 2 ^ 64"
  shows "\<exists>rest. drop (unat (offsets ! k)) file = nat_bytes 8 (length fb) @ fb @ rest"
  using assms by (auto simp: stored_at_def unat_of_nat)

text \<open>What a reader of the finished log of \<open>w\<close> starts from.\<close>

definition finished_log :: "string \<Rightarrow> log_writer \<Rightarrow> log_reader" where
  "finished_log directory w = lr_of_files directory (lw_log (lw_close w)) (the (lw_saved (lw_close w)))"

lemma written_log:
  assumes w: "\<not> lw_using_buffers w" "sb_wf (lw_main w)"
    and wr: "\<forall>f \<in> set fs. \<forall>i. writable serializable ser (at_frame (lw_open_log dir w) i) f" and len: "length fs < 10000000"
  shows "\<exists>w'. write_all serializable ser fs (lw_open_log dir w) = Inr w' \<and> lw_ready w' \<and>
    (\<forall>k < length fs. \<exists>rest. drop (unat (lr_offsets (finished_log dir w') ! k)) (lr_log (finished_log dir w')) =
       nat_bytes 8 (length (frame_bytes serializable ser (at_frame (lw_open_log dir w) (int k)) (fs ! k))) @
       frame_bytes serializable ser (at_frame (lw_open_log dir w) (int k)) (fs ! k) @ rest) \<and>
    length (lr_offsets (finished_log dir w')) = length fs \<and> lr_enabled (finished_log dir w') = [] \<and> sb_wf (lr_main (finished_log dir w'))"
proof -
  define w0 where "w0 = lw_open_log dir w"
  have w0: "lw_ready w0" "lw_frame_id w0 = 0" "lw_offsets w0 = []" "lw_log w0 = []"
    using w by (simp_all add: w0_def lw_open_log_def lw_close_def lw_saveMetadata_def lw_ready_def Let_def)
  obtain w' x where w': "write_all serializable ser fs w0 = Inr w'" "lw_ready w'" "lw_log w' = x" "length x \<le> length fs * 1000000000008"
      "length (lw_offsets w') = length fs"
      "\<And>k. k < length fs \<Longrightarrow> stored_at x (lw_offsets w') k (frame_bytes serializable ser (at_frame w0 (int k)) (fs ! k))"
    using write_all_log [OF w0(1) wr [folded w0_def]] unfolding w0(2,3,4) by auto
  have fin: "lr_offsets (finished_log dir w') = lw_offsets w'" "lr_log (finished_log dir w') = x"
      "lr_enabled (finished_log dir w') = []" "sb_wf (lr_main (finished_log dir w'))"
    using w'(2,3) sb_piece_wf [of "[]"]
    by (simp_all add: finished_log_def lr_of_files_def lw_close_def lw_saveMetadata_def lw_ready_def sb_piece_def)
  have "length x < 2 ^ 64" using w'(4) len by simp
  then show ?thesis
    using w'(1,2,5,6) fin stored_drop unfolding w0_def [symmetric] by auto
qed

lemma frame_read_logged:
  fixes f :: "'b memory_frame" and k i serializable ser deser new_block n r w
  assumes f: "mf_wf f" "n \<in> set (logged_names w f) \<Longrightarrow> serializable n \<Longrightarrow> new_block n \<noteq> None" "length (logged_names w f) \<le> 40"
    and r: "lr_enabled r = []"
  defines "g \<equiv> frame_read serializable deser new_block r k (logged_names w f)
      (map (\<lambda>n. entry_bytes (entry serializable ser (at_frame w i) f n)) (logged_names w f)) n"
  shows "if n \<in> set (logged_names w f) \<and> serializable n
    then \<exists>b c. mf_find n f = Some b \<and> blk_directory c = Some (lr_directory r) \<and> blk_frame_id c = k \<and> buffer_logging c = lr_using_buffers r \<and>
      map_option contents g = Some (snd (deser n (ser n (staged (at_frame w i) b)) c))
    else g = None"
proof (cases "n \<in> set (logged_names w f) \<and> serializable n")
  case True
  then obtain b where b: "mf_find n f = Some b" using listed_ptr(2) [OF f(1)] by (auto simp: logged_names_def)
  from True f(2) obtain c where c: "new_block n = Some c" by auto
  let ?c = "c\<lparr>blk_owner := TOOL_MEM, buffer_logging := lr_using_buffers r, log_block := True, blk_directory := Some (lr_directory r), blk_frame_id := k\<rparr>"
  have "map_option contents g = Some (snd (deser n (ser n (staged (at_frame w i) b)) ?c))"
    using True f(3) r b c by (simp add: g_def frame_read_def map_of_zip_map read_block_def la_valid_def restored_def entry_def entry_bytes_def split_beta)
  then show ?thesis unfolding if_P [OF True] by (intro exI [of _ b] exI [of _ ?c] conjI) (simp_all add: b)
qed (auto simp: g_def frame_read_def map_of_zip_map read_block_def)

lemma read_written:
  assumes "k < length (lr_offsets r)"
    "drop (unat (lr_offsets r ! k)) (lr_log r) =
       nat_bytes 8 (length (frame_bytes serializable ser (at_frame w i) f)) @ frame_bytes serializable ser (at_frame w i) f @ rest"
    "writable serializable ser (at_frame w i) f" "logged_names w f \<noteq> []" "\<forall>n \<in> set (logged_names w f). c_str n = n" "sb_wf (lr_main r)"
  shows "\<exists>g m. lr_readFrame serializable deser new_block sfx k r = Inr (g, r\<lparr>lr_main := m\<rparr>) \<and> sb_wf m \<and>
    (\<forall>n. mf_find n g = frame_read serializable deser new_block r (int k) (logged_names w f)
       (map (\<lambda>n. entry_bytes (entry serializable ser (at_frame w i) f n)) (logged_names w f)) n)"
  using assms by (intro read_frame [OF assms(1,2)]) (simp_all add: frame_bytes_def writable_def distinct_logged)


text \<open>A log with one frame of one block, for the witnesses.\<close>

definition sample_memory :: "byte memory_frame" where
  "sample_memory =
     \<lparr>use_shared_memory = False, mf_owner = OWNER_VISION, shared_memory = [],
      private_memory = [(''a'', \<lparr>blk_version = 0, blk_size = 0, log_block = True, blk_owner = OWNER_VISION, blk_directory = None,
        buffer_logging = False, blk_frame_id = 0, contents = 7\<rparr>)],
      previously_added_owner = OWNER_UNKNOWN, suffix = []\<rparr>"

definition sample_writer :: log_writer where
  "sample_writer = \<lparr>lw_using_buffers = False, lw_use_all_blocks = False, lw_enabled = [], lw_open = False, lw_log = [], lw_directory = [],
     lw_frame_id = 0, lw_main = sb_new, lw_frames = 0, lw_offsets = [], lw_saved = None\<rparr>"

lemma sample_names: "logged_names (lw_open_log dir sample_writer) sample_memory = [''a'']"
  by (simp add: logged_names_def la_valid_def getBlockNames_def pm_getBlockNames_def checkOwner_def sample_memory_def sample_writer_def
      lw_open_log_def lw_close_def)

lemma sample_writable: "writable (\<lambda>_. True) (\<lambda>n b. [contents b]) (at_frame (lw_open_log dir sample_writer) i) sample_memory"
proof -
  have "mf_wf sample_memory" by (simp add: mf_wf_def sample_memory_def map_wf_def)
  then show ?thesis
    by (simp add: writable_def sample_names frame_bytes_def packed_def entry_bytes_def entry_def name_bytes_def)
qed


text \<open>
  A frame with more than 40 logged blocks is lost: it is written without complaint, but reading it
  back gives a frame without any block.
\<close>

theorem large_frame_lost:
  assumes "\<not> lw_using_buffers w" "sb_wf (lw_main w)"
    and "\<forall>i. writable serializable ser (at_frame (lw_open_log dir w) i) f" "40 < length (logged_names (lw_open_log dir w) f)"
    and "\<forall>n \<in> set (logged_names (lw_open_log dir w) f). c_str n = n"
  shows "\<exists>w' g r. write_all serializable ser [f] (lw_open_log dir w) = Inr w' \<and>
    lr_readFrame serializable deser new_block sfx 0 (finished_log dir w') = Inr (g, r) \<and> (\<forall>n. mf_find n g = None)"
proof -
  let ?w = "lw_open_log dir w"
  have "\<forall>f' \<in> set [f]. \<forall>i. writable serializable ser (at_frame ?w i) f'" using assms(3) by simp
  then obtain w' where w': "write_all serializable ser [f] ?w = Inr w'" "length (lr_offsets (finished_log dir w')) = length [f]"
      "\<forall>k < length [f]. \<exists>rest. drop (unat (lr_offsets (finished_log dir w') ! k)) (lr_log (finished_log dir w')) =
         nat_bytes 8 (length (frame_bytes serializable ser (at_frame ?w (int k)) ([f] ! k))) @
         frame_bytes serializable ser (at_frame ?w (int k)) ([f] ! k) @ rest"
      "sb_wf (lr_main (finished_log dir w'))"
    using written_log [OF assms(1,2), of "[f]" serializable ser dir] by auto
  obtain rest where at: "drop (unat (lr_offsets (finished_log dir w') ! 0)) (lr_log (finished_log dir w')) =
         nat_bytes 8 (length (frame_bytes serializable ser (at_frame ?w 0) f)) @ frame_bytes serializable ser (at_frame ?w 0) f @ rest"
    using w'(3) by auto
  have "0 < length (lr_offsets (finished_log dir w'))" "logged_names ?w f \<noteq> []" using w'(2) assms(4) by auto
  then obtain g m where "lr_readFrame serializable deser new_block sfx 0 (finished_log dir w') = Inr (g, (finished_log dir w')\<lparr>lr_main := m\<rparr>)"
      "\<forall>n. mf_find n g = None"
    using read_written [OF _ at spec [OF assms(3)] _ assms(5) w'(4), of deser new_block sfx] assms(4) by (auto simp: frame_read_def)
  then show ?thesis using w'(1) by blast
qed

text \<open>A frame with 41 blocks, for the witness.\<close>

definition crowded_memory :: "byte memory_frame" where
  "crowded_memory = sample_memory\<lparr>private_memory :=
     map (\<lambda>i. (replicate i (CHR ''a''), snd (hd (private_memory sample_memory)))) [0..<41]\<rparr>"

lemma replicate_less: "i < j \<Longrightarrow> replicate i c < (replicate j c :: string)"
proof (induction i arbitrary: j)
  case 0
  then show ?case by (cases j) simp_all
next
  case (Suc i)
  then show ?case by (cases j) simp_all
qed

lemma crowded_names: "logged_names (lw_open_log dir sample_writer) crowded_memory = map (\<lambda>i. replicate i (CHR ''a'')) [0..<41]"
  by (simp add: logged_names_def la_valid_def getBlockNames_def pm_getBlockNames_def checkOwner_def crowded_memory_def sample_memory_def
      sample_writer_def lw_open_log_def lw_close_def filter_map comp_def)

lemma crowded_writable: "writable (\<lambda>_. True) (\<lambda>n b. [contents b]) (at_frame (lw_open_log dir sample_writer) i) crowded_memory"
proof -
  have "mf_wf crowded_memory"
    by (simp add: mf_wf_def crowded_memory_def sample_memory_def map_wf_def comp_def sorted_wrt_map
        sorted_wrt_iff_nth_less replicate_less del: upt_rec_numeral)
  moreover have "length (frame_bytes (\<lambda>_. True) (\<lambda>n b. [contents b]) (at_frame (lw_open_log dir sample_writer) i) crowded_memory) \<le> 1000000000000"
    unfolding frame_bytes_def at_frame_names crowded_names
    by (simp add: packed_def entry_bytes_def entry_def name_bytes_def length_concat comp_def) (simp add: upt_conv_Cons)
  ultimately show ?thesis unfolding writable_def at_frame_names crowded_names by simp
qed

theorem large_frame_lost_witness:
  "\<exists>w' g r. write_all (\<lambda>_. True) (\<lambda>n b. [contents b]) [crowded_memory] (lw_open_log ''log'' sample_writer) = Inr w' \<and>
    lr_readFrame (\<lambda>_. True) (\<lambda>n bytes b. (True, hd bytes)) (\<lambda>n. Some (the (mf_find ''a'' crowded_memory))) [] 0
      (finished_log ''log'' w') = Inr (g, r) \<and> (\<forall>n. mf_find n g = None)"
proof (rule large_frame_lost)
  show "\<not> lw_using_buffers sample_writer" "sb_wf (lw_main sample_writer)"
    using sb_piece_wf [of "[]"] by (simp_all add: sample_writer_def sb_piece_def)
  show "\<forall>i. writable (\<lambda>_. True) (\<lambda>n b. [contents b]) (at_frame (lw_open_log ''log'' sample_writer) i) crowded_memory"
    using crowded_writable by blast
  show "40 < length (logged_names (lw_open_log ''log'' sample_writer) crowded_memory)"
    unfolding crowded_names by simp
  show "\<forall>n \<in> set (logged_names (lw_open_log ''log'' sample_writer) crowded_memory). c_str n = n"
    unfolding crowded_names by (auto simp: c_str_def takeWhile_eq_all_conv)
qed

lemma sint_nonneg_unat: "0 \<le> sint x \<Longrightarrow> unat x = nat (sint x)" for x :: "32 word"
  using uint_sint [of x] sint_lt [of x] by (simp add: take_bit_int_eq_self flip: nat_uint_eq)

text \<open>
  Only one of the two viewers checks its index: for an index past the last frame the plain viewer
  throws, while the cached viewer reads the offsets out of range.
\<close>

theorem cached_viewer_unchecked:
  assumes "length (lr_offsets (lv_reader v)) = unat (lr_frames (lv_reader v))" "unat (lr_frames (lv_reader v)) \<le> nat (lv_frame idx v)"
    "0 \<le> lv_frame idx v"
  shows "lv_getFrame serializable deser new_block sfx idx v = Inl (Invalid_Log_Frame (lv_frame idx v)) \<and>
    clv_getFrame serializable deser new_block sfx idx (v, \<lambda>_. None) = Inl Undefined"
proof -
  have "word_of_int (lv_frame idx v) = idx + word_of_int (lv_start v)" by (simp add: lv_frame_def)
  moreover have "unat (idx + word_of_int (lv_start v)) = nat (lv_frame idx v)"
    using assms(3) sint_nonneg_unat [of "idx + word_of_int (lv_start v)"] by (simp add: lv_frame_def)
  ultimately have "lr_frames (lv_reader v) \<le> word_of_int (lv_frame idx v)" using assms(2) by (simp add: word_le_nat_alt)
  then show ?thesis using assms by (simp add: lv_getFrame_def clv_getFrame_def Let_def lr_readFrame_def lr_readBuffer_def)
qed

theorem cached_viewer_unchecked_witness:
  "clv_getFrame (\<lambda>_. True) (\<lambda>n bytes b. (True, hd bytes)) (\<lambda>n. None) [] 3 (lv_new (lr_of_files [] [] (0, [])) 0 0, \<lambda>_. None)
   = (Inl Undefined :: log_error + (byte memory_frame \<times> log_viewer \<times> (int \<rightharpoonup> byte memory_frame)))"
  using cached_viewer_unchecked [of "lv_new (lr_of_files [] [] (0, [])) 0 0" 3 "\<lambda>_. True" "\<lambda>n bytes b. (True, hd bytes :: byte)" "\<lambda>n. None" "[]"]
  by (simp add: lv_new_def lr_of_files_def lv_frame_def)

end
