(* ===== verification/Tool_Protocol.thy ===== *)
theory Tool_Protocol
  imports C_Text Game_Control Memory_Blocks Memory_Frame
begin

text \<open>
  What the debugging tool tells a robot and what the robot does: the packet
  (\<open>src/core/common/ToolPacket.h\<close>, \<open>.cpp\<close>), the messages the tool builds
  (\<open>src/tools/UTNaoTool/CameraWindow.cpp\<close>, \<open>LogSelectWindow.cpp\<close>), their interpretation by the robot
  (\<open>src/core/communications/CommunicationModule.cpp\<close>), the camera block both threads of the robot share
  (\<open>src/core/memory/CameraBlock.h\<close>) and the control of logging in \<open>src/core/VisionCore.cpp\<close>.

  The UDP transport hands over whole packets; receiving one is \<open>listenToolUDP\<close>. The operations of the
  log on the disk are parameters here (\<open>open_log\<close>, \<open>write_log\<close>, \<open>close_log\<close> on a state of its own);
  \<open>Log_Files\<close> models them. Behaviors the interpreter is asked to run are collected in a list.
\<close>

section \<open>Camera parameters\<close>

record camera_params =
  kCameraAutoWhiteBalance :: int
  kCameraExposureAuto :: int
  kCameraBacklightCompensation :: int
  kCameraBrightness :: int
  kCameraContrast :: int
  kCameraSaturation :: int
  kCameraHue :: int
  kCameraExposure :: int
  kCameraGain :: int
  kCameraSharpness :: int

record camera_block =
  params_bottom_camera :: camera_params
  params_top_camera :: camera_params
  read_params_bottom_camera :: camera_params
  read_params_top_camera :: camera_params
  get_bottom_params :: bool
  get_top_params :: bool
  set_bottom_params :: bool
  set_top_params :: bool
  reset_top_camera :: bool
  reset_bottom_camera :: bool
  cameras_tested :: bool
  comm_module_request_received :: bool
  calibrate_white_balance :: bool

definition cb_new :: "camera_block \<Rightarrow> camera_block" where
  "cb_new c = c\<lparr>get_bottom_params := False, get_top_params := False, set_bottom_params := False, set_top_params := False,
     reset_top_camera := False, reset_bottom_camera := False, cameras_tested := False, comm_module_request_received := False,
     calibrate_white_balance := False\<rparr>"

definition copyFromImageCapture :: "camera_block \<Rightarrow> camera_block \<Rightarrow> camera_block" where
  "copyFromImageCapture raw c =
     (let c = (if comm_module_request_received c then c\<lparr>comm_module_request_received := False\<rparr>
               else c\<lparr>get_bottom_params := False, get_top_params := False, set_bottom_params := False, set_top_params := False,
                      reset_top_camera := False, reset_bottom_camera := False\<rparr>)
      in c\<lparr>cameras_tested := cameras_tested raw, read_params_bottom_camera := read_params_bottom_camera raw,
           read_params_top_camera := read_params_top_camera raw\<rparr>)"

definition copyToImageCapture :: "camera_block \<Rightarrow> camera_block \<Rightarrow> camera_block \<times> camera_block" where
  "copyToImageCapture raw c =
     (let c = c\<lparr>comm_module_request_received := False\<rparr>
      in (c, raw\<lparr>get_bottom_params := get_bottom_params raw \<or> get_bottom_params c,
                 get_top_params := get_top_params raw \<or> get_top_params c,
                 set_bottom_params := set_bottom_params raw \<or> set_bottom_params c,
                 set_top_params := set_top_params raw \<or> set_top_params c,
                 reset_top_camera := reset_top_camera raw \<or> reset_top_camera c,
                 reset_bottom_camera := reset_bottom_camera raw \<or> reset_bottom_camera c,
                 params_bottom_camera := params_bottom_camera c, params_top_camera := params_top_camera c\<rparr>))"

section \<open>Packets\<close>

datatype message_type =
    None_Message | StateInitial | StateReady | StateSet | StatePlaying | StatePenalized | StateFinished | StateTesting
  | StateTestOdometry | StateCameraTop | StateCameraBottom | LogSelect | LogBegin | LogEnd | LogComplete | StreamBegin | StreamEnd
  | RestartInterpreter | SetTopCameraParameters | SetBottomCameraParameters | GetCameraParameters | ResetCameraParameters
  | ManualControl | RunBehavior | SetStiffness

datatype stance = SITTING | STANDING

abbreviation DATA_LENGTH :: nat where "DATA_LENGTH \<equiv> 1024"

record tool_packet =
  tp_message :: message_type
  tp_frames :: int
  tp_interval :: real
  odom_x :: real
  odom_y :: real
  odom_theta :: real
  odom_time :: real
  odom_stance :: stance
  tp_data :: "char list"
  jointStiffness :: "joint \<Rightarrow> real"
  requiredObjects :: "nat \<Rightarrow> bool"
  hasRequiredObjects :: bool

definition tp_new :: "message_type \<Rightarrow> tool_packet \<Rightarrow> tool_packet" where
  "tp_new m p = p\<lparr>tp_message := m, tp_frames := 0, tp_interval := 0, odom_x := 0, odom_y := 0, odom_theta := 0, odom_time := 0,
     requiredObjects := (\<lambda>i. False), jointStiffness := (\<lambda>i. 0), tp_data := replicate DATA_LENGTH (CHR 0x00), hasRequiredObjects := False\<rparr>"

definition tp_text :: "message_type \<Rightarrow> string \<Rightarrow> tool_packet \<Rightarrow> tool_packet" where
  "tp_text m s p = p\<lparr>tp_message := m, tp_data := c_strncpy DATA_LENGTH (tp_data p) s\<rparr>"

section \<open>Messages the tool builds\<close>

text \<open>
  \<open>snprintf\<close> on a text without conversions: at most \<open>n - 1\<close> characters and a zero character; the rest of
  the array keeps its contents.
\<close>

definition c_snprintf :: "nat \<Rightarrow> char list \<Rightarrow> string \<Rightarrow> char list" where
  "c_snprintf n dst s = (let out = take (n - 1) s @ [CHR 0x00] in out @ drop (length out) dst)"

definition settingNames :: "string list" where
  "settingNames = [''AutoWhiteBalance'', ''ExposureAuto'', ''BacklightCompensation'', ''Brightness'', ''Contrast'', ''Saturation'',
     ''Hue'', ''Exposure'', ''Gain'', ''Sharpness'']"

definition camera_command :: "int list \<Rightarrow> string" where
  "camera_command vals = concat (map (\<lambda>(n, v). n @ '' '' @ show_int v @ '' '') (zip settingNames vals)) @ ''|''"

definition sendParams :: "bool \<Rightarrow> int list \<Rightarrow> tool_packet \<Rightarrow> tool_packet" where
  "sendParams showTop vals p =
     (let tp = tp_new SetBottomCameraParameters p;
          tp = (if showTop then tp\<lparr>tp_message := SetTopCameraParameters\<rparr> else tp)
      in tp\<lparr>tp_data := c_snprintf DATA_LENGTH (tp_data tp) (camera_command vals)\<rparr>)"

text \<open>
  \<open>memcpy\<close> copies 1024 bytes whatever the length of the text: the bytes after its end are whatever
  follows in memory, the argument \<open>junk\<close>.
\<close>

definition log_command :: "(string \<times> bool) list \<Rightarrow> string" where
  "log_command modules = concat (map (\<lambda>(n, c). n @ (if c then '' 1'' else '' 0'') @ '','') modules) @ ''|''"

definition sendLogSettings :: "(nat \<Rightarrow> char) \<Rightarrow> (string \<times> bool) list \<Rightarrow> tool_packet \<Rightarrow> tool_packet" where
  "sendLogSettings junk modules p =
     (let tp = tp_new LogSelect p; s = log_command modules @ [CHR 0x00]
      in tp\<lparr>tp_data := map (\<lambda>i. if i < length s then s ! i else junk i) [0..<DATA_LENGTH]\<rparr>)"

section \<open>Messages the robot reads\<close>

datatype tool_error = Text_Error text_error | Block_Error mem_error

text \<open>The loops read until the character \<open>|\<close>; reading on after the end of the array is an error.\<close>

fun camera_scan :: "char list \<Rightarrow> string \<Rightarrow> bool \<Rightarrow> string list \<Rightarrow> int list \<Rightarrow> text_error + (string list \<times> int list)" where
  "camera_scan [] token isName names vals = Inl Out_Of_Bounds"
| "camera_scan (c # msg) token isName names vals =
     (if c = CHR ''|'' then Inr (names, vals)
      else if c = CHR '' ''
      then if isName then camera_scan msg [] False (names @ [token]) vals
           else case c_stoi token of
                  Inl e \<Rightarrow> Inl e
                | Inr v \<Rightarrow> camera_scan msg [] True names (vals @ [v])
      else camera_scan msg (token @ [c]) isName names vals)"

definition set_param :: "string \<Rightarrow> int \<Rightarrow> camera_params \<Rightarrow> camera_params" where
  "set_param name v p =
     (if name = ''AutoWhiteBalance'' then p\<lparr>kCameraAutoWhiteBalance := v\<rparr>
      else if name = ''ExposureAuto'' then p\<lparr>kCameraExposureAuto := v\<rparr>
      else if name = ''BacklightCompensation'' then p\<lparr>kCameraBacklightCompensation := v\<rparr>
      else if name = ''Brightness'' then p\<lparr>kCameraBrightness := v\<rparr>
      else if name = ''Contrast'' then p\<lparr>kCameraContrast := v\<rparr>
      else if name = ''Saturation'' then p\<lparr>kCameraSaturation := v\<rparr>
      else if name = ''Hue'' then p\<lparr>kCameraHue := v\<rparr>
      else if name = ''Exposure'' then p\<lparr>kCameraExposure := v\<rparr>
      else if name = ''Gain'' then p\<lparr>kCameraGain := v\<rparr>
      else if name = ''Sharpness'' then p\<lparr>kCameraSharpness := v\<rparr>
      else p)"

fun camera_apply :: "string list \<Rightarrow> int list \<Rightarrow> camera_params \<Rightarrow> text_error + camera_params" where
  "camera_apply [] vals p = Inr p"
| "camera_apply (n # names) vals p =
     (if n \<notin> set settingNames then camera_apply names (tl vals) p
      else case vals of
             [] \<Rightarrow> Inl Out_Of_Bounds
           | v # vals \<Rightarrow> camera_apply names vals (set_param n v p))"

definition handleCameraParamsMessage :: "char list \<Rightarrow> camera_params \<Rightarrow> text_error + camera_params" where
  "handleCameraParamsMessage msg p =
     (case camera_scan msg [] True [] [] of Inl e \<Rightarrow> Inl e | Inr (names, vals) \<Rightarrow> camera_apply names vals p)"

text \<open>
  \<open>handleLoggingBlocksMessage\<close>: the state is the flag \<open>log_behavior_trace_\<close> of the behavior block and
  the memory frame. A wrong digit ends the interpretation with what was set before.
\<close>

definition set_logging :: "string \<Rightarrow> bool \<Rightarrow> bool \<times> 'b memory_frame \<Rightarrow> tool_error + (bool \<times> 'b memory_frame)" where
  "set_logging name flag st =
     (if name = ''behavior_trace'' then Inr (flag, snd st)
      else case setBlockLogging name flag (snd st) of
             Inl e \<Rightarrow> Inl (Block_Error e)
           | Inr f \<Rightarrow> Inr (fst st, f))"

function log_scan :: "char list \<Rightarrow> string \<Rightarrow> bool \<times> 'b memory_frame \<Rightarrow> tool_error + (bool \<times> 'b memory_frame)" where
  "log_scan msg block_name st =
     (case msg of
        [] \<Rightarrow> Inl (Text_Error Out_Of_Bounds)
      | c # msg \<Rightarrow>
          if c = CHR ''|'' then Inr st
          else if c = CHR '' ''
          then (case msg of
                  [] \<Rightarrow> Inl (Text_Error Out_Of_Bounds)
                | d # msg \<Rightarrow>
                    if d \<noteq> CHR ''0'' \<and> d \<noteq> CHR ''1'' then Inr st
                    else case set_logging block_name (d = CHR ''1'') st of
                           Inl e \<Rightarrow> Inl e
                         | Inr st \<Rightarrow>
                             (case msg of
                                [] \<Rightarrow> Inl (Text_Error Out_Of_Bounds)
                              | c # msg \<Rightarrow>
                                  if c \<noteq> CHR '','' then Inl (Text_Error Assertion_Failed)
                                  else log_scan msg [] st))
          else log_scan msg (block_name @ [c]) st)"
  by pat_completeness auto
termination by (relation "measure (\<lambda>(msg, n, st). length msg)") auto

declare log_scan.simps [simp del]

definition handleLoggingBlocksMessage :: "tool_packet \<Rightarrow> bool \<times> 'b memory_frame \<Rightarrow> tool_error + (bool \<times> 'b memory_frame)" where
  "handleLoggingBlocksMessage packet st = log_scan (tp_data packet) [] st"

section \<open>Control of logging\<close>

text \<open>
  The members of \<open>VisionCore\<close> that control logging. \<open>logtimer\<close> is the time at which the timer was last
  started, \<open>log_responses\<close> counts the messages \<open>LogComplete\<close> sent to the tool. \<open>frames_to_log_\<close> is an
  \<open>unsigned int\<close>.
\<close>

record 'l vision_logging =
  is_logging :: bool
  disable_log :: bool
  log_by_frame :: bool
  frames_to_log :: "32 word"
  log_interval :: real
  logtimer :: real
  logging_selections :: "tool_packet option"
  log_responses :: nat
  log_device :: 'l

record 'l log_ops =
  open_log :: "'l \<Rightarrow> 'l"
  write_log :: "'l \<Rightarrow> 'l"
  close_log :: "'l \<Rightarrow> 'l"

abbreviation (input) HEAD_STOP_THRESHOLD :: real where "HEAD_STOP_THRESHOLD \<equiv> 1 / 10"

definition setLogSelections :: "tool_packet \<Rightarrow> 'l vision_logging \<Rightarrow> 'l vision_logging" where
  "setLogSelections selections v = v\<lparr>logging_selections := Some selections\<rparr>"

definition enableMemoryLogging :: "'l log_ops \<Rightarrow> 'l vision_logging \<Rightarrow> 'l vision_logging" where
  "enableMemoryLogging ops v = v\<lparr>is_logging := True, log_device := open_log ops (log_device v)\<rparr>"

definition enableLogging_all :: "'l log_ops \<Rightarrow> 'l vision_logging \<Rightarrow> 'l vision_logging" where
  "enableLogging_all ops v = (if is_logging v then v else enableMemoryLogging ops (v\<lparr>is_logging := True\<rparr>))"

definition enableLogging :: "'l log_ops \<Rightarrow> real \<Rightarrow> int \<Rightarrow> real \<Rightarrow> 'l vision_logging \<Rightarrow> 'l vision_logging" where
  "enableLogging ops now frames frequency v =
     (if is_logging v then v
      else let v = v\<lparr>log_by_frame := (frames > 0), frames_to_log := word_of_int frames, log_interval := frequency\<rparr>;
               v = enableLogging_all ops v
           in v\<lparr>logtimer := now\<rparr>)"

definition startDisableLogging :: "'l vision_logging \<Rightarrow> 'l vision_logging" where
  "startDisableLogging v =
     (if is_logging v then v\<lparr>disable_log := True\<rparr> else v\<lparr>log_responses := log_responses v + 1\<rparr>)"

definition disableLogging :: "'l log_ops \<Rightarrow> 'l vision_logging \<Rightarrow> 'l vision_logging" where
  "disableLogging ops v =
     (if \<not> is_logging v then v
      else v\<lparr>log_device := close_log ops (log_device v), disable_log := False, is_logging := False, frames_to_log := 0\<rparr>)"

record log_input =
  li_now :: real
  li_head_moving :: bool
  li_head_stop_time :: real
  li_seconds_since_start :: real
  li_seen :: "nat \<Rightarrow> bool"

definition log_due :: "nat \<Rightarrow> log_input \<Rightarrow> 'l vision_logging \<Rightarrow> bool" where
  "log_due num_objects inp v =
     (let elapsed = li_now inp - logtimer v;
          headReady = (\<not> li_head_moving inp \<and> li_seconds_since_start inp - li_head_stop_time inp > HEAD_STOP_THRESHOLD)
      in if \<not> is_logging v then False
         else if log_interval v > 1 / 100000 \<and> elapsed < log_interval v then False
         else if log_interval v > 1 / 100000 \<and> \<not> headReady \<and> elapsed - log_interval v < 34 / 100 then False
         else case logging_selections v of
                None \<Rightarrow> True
              | Some s \<Rightarrow> \<not> hasRequiredObjects s \<or> list_ex (\<lambda>i. requiredObjects s i \<and> li_seen inp i) [0..<num_objects])"

definition optionallyWriteLog :: "'l log_ops \<Rightarrow> nat \<Rightarrow> log_input \<Rightarrow> 'l vision_logging \<Rightarrow> 'l vision_logging" where
  "optionallyWriteLog ops num_objects inp v =
     (if \<not> log_due num_objects inp v then v
      else let v = v\<lparr>log_device := write_log ops (log_device v), logtimer := li_now inp\<rparr>;
               v = (if log_by_frame v then v\<lparr>frames_to_log := frames_to_log v - 1\<rparr> else v)
           in if frames_to_log v = 0 \<and> log_by_frame v then v\<lparr>disable_log := True\<rparr> else v)"

text \<open>The end of \<open>processVisionFrame\<close>, after the frame has been processed.\<close>

definition finish_frame :: "'l log_ops \<Rightarrow> nat \<Rightarrow> log_input \<Rightarrow> 'l vision_logging \<Rightarrow> 'l vision_logging" where
  "finish_frame ops num_objects inp v =
     (let v = optionallyWriteLog ops num_objects inp v
      in if is_logging v \<and> disable_log v
         then let v = v\<lparr>disable_log := False\<rparr>; v = disableLogging ops v
              in v\<lparr>log_responses := log_responses v + 1\<rparr>
         else v)"

section \<open>Receiving a packet\<close>

record ('b, 'l) comm_module =
  cm_game :: game_state_block
  cm_camera :: camera_block
  cm_memory :: "'b memory_frame"
  cm_joint_commands :: joint_command_block
  test_odom_fwd :: real
  test_odom_side :: real
  test_odom_turn :: real
  test_odom_walk_time :: real
  test_odom_new :: bool
  test_stance :: stance
  log_behavior_trace :: bool
  cm_logging :: "'l vision_logging"
  interpreter_restart_requested :: "bool option"
  behaviors_run :: "string list"
  vtime :: "32 word"

definition camera_message ::
  "(camera_params \<Rightarrow> text_error + camera_params) \<Rightarrow> bool \<Rightarrow> camera_block \<Rightarrow> tool_error + camera_block" where
  "camera_message handle is_top c =
     (if is_top
      then let c = c\<lparr>set_top_params := True, comm_module_request_received := True\<rparr>
           in case handle (params_top_camera c) of Inl e \<Rightarrow> Inl (Text_Error e) | Inr p \<Rightarrow> Inr (c\<lparr>params_top_camera := p\<rparr>)
      else let c = c\<lparr>set_bottom_params := True, comm_module_request_received := True\<rparr>
           in case handle (params_bottom_camera c) of Inl e \<Rightarrow> Inl (Text_Error e) | Inr p \<Rightarrow> Inr (c\<lparr>params_bottom_camera := p\<rparr>))"

definition listenToolUDP ::
  "'l log_ops \<Rightarrow> int \<Rightarrow> real \<Rightarrow> tool_packet \<Rightarrow> ('b, 'l) comm_module \<Rightarrow> tool_error + ('b, 'l) comm_module" where
  "listenToolUDP ops clock now tp m =
     (let go = (\<lambda>st m. m\<lparr>cm_game := setState clock st (cm_game m)\<rparr>);
          odom = (\<lambda>m. m\<lparr>test_odom_fwd := odom_x tp, test_odom_side := odom_y tp, test_odom_turn := odom_theta tp\<rparr>)
      in case tp_message tp of
           StateInitial \<Rightarrow> Inr (go GS_INITIAL m)
         | StateReady \<Rightarrow> Inr (go GS_READY m)
         | StateSet \<Rightarrow> Inr (go GS_SET m)
         | StatePlaying \<Rightarrow> Inr (go GS_PLAYING m)
         | StatePenalized \<Rightarrow> Inr (go GS_PENALISED m)
         | StateFinished \<Rightarrow> Inr (go GS_FINISHED m)
         | StateTesting \<Rightarrow> Inr (go GS_TESTING m)
         | StateTestOdometry \<Rightarrow> Inr ((odom (go GS_TEST_ODOMETRY m))\<lparr>test_odom_walk_time := odom_time tp, test_odom_new := True\<rparr>)
         | StateCameraTop \<Rightarrow> Inr (go GS_TOP_CAM m)
         | StateCameraBottom \<Rightarrow> Inr (go GS_BOTTOM_CAM m)
         | LogSelect \<Rightarrow>
             (case handleLoggingBlocksMessage tp (log_behavior_trace m, cm_memory m) of
                Inl e \<Rightarrow> Inl e
              | Inr (trace, f) \<Rightarrow>
                  Inr (m\<lparr>log_behavior_trace := trace, cm_memory := f, cm_logging := setLogSelections tp (cm_logging m)\<rparr>))
         | LogBegin \<Rightarrow> Inr (m\<lparr>cm_logging := enableLogging ops now (tp_frames tp) (tp_interval tp) (cm_logging m)\<rparr>)
         | LogEnd \<Rightarrow> Inr (m\<lparr>cm_logging := startDisableLogging (cm_logging m)\<rparr>)
         | RestartInterpreter \<Rightarrow>
             Inr (m\<lparr>interpreter_restart_requested := map_option (\<lambda>_. True) (interpreter_restart_requested m)\<rparr>)
         | SetTopCameraParameters \<Rightarrow>
             map_sum id (\<lambda>c. m\<lparr>cm_camera := c\<rparr>) (camera_message (handleCameraParamsMessage (tp_data tp)) True (cm_camera m))
         | SetBottomCameraParameters \<Rightarrow>
             map_sum id (\<lambda>c. m\<lparr>cm_camera := c\<rparr>) (camera_message (handleCameraParamsMessage (tp_data tp)) False (cm_camera m))
         | GetCameraParameters \<Rightarrow>
             Inr (m\<lparr>cm_camera := (cm_camera m)\<lparr>get_top_params := True, get_bottom_params := True, comm_module_request_received := True\<rparr>\<rparr>)
         | ResetCameraParameters \<Rightarrow>
             Inr (m\<lparr>cm_camera := (cm_camera m)\<lparr>reset_bottom_camera := True, reset_top_camera := True, comm_module_request_received := True\<rparr>\<rparr>)
         | ManualControl \<Rightarrow>
             Inr ((odom (go GS_MANUAL_CONTROL m))\<lparr>test_stance := odom_stance tp, test_odom_walk_time := 10, test_odom_new := True\<rparr>)
         | RunBehavior \<Rightarrow>
             (let m = go GS_INITIAL m
              in if CHR 0x00 \<in> set (tp_data tp) then Inr (m\<lparr>behaviors_run := behaviors_run m @ [c_str (tp_data tp)]\<rparr>)
                 else Inl (Text_Error Out_Of_Bounds))
         | SetStiffness \<Rightarrow>
             Inr (m\<lparr>cm_joint_commands :=
                    (fold (\<lambda>i. setJointStiffness i (jointStiffness tp i)) all_joints (cm_joint_commands m))
                      \<lparr>send_stiffness := True, stiffness_time := 300\<rparr>\<rparr>)
         | _ \<Rightarrow> Inr m)"

definition updateVirtualTime :: "32 word \<Rightarrow> ('b, 'l) comm_module \<Rightarrow> ('b, 'l) comm_module" where
  "updateVirtualTime received m = m\<lparr>vtime := max (vtime m) received\<rparr>"

definition incrementVirtualTime :: "('b, 'l) comm_module \<Rightarrow> ('b, 'l) comm_module" where
  "incrementVirtualTime m = m\<lparr>vtime := vtime m + 1\<rparr>"

section \<open>Camera settings from the tool to the driver\<close>

abbreviation (input) plain :: "string \<Rightarrow> bool" where "plain w \<equiv> \<forall>c \<in> set w. c \<noteq> CHR '' '' \<and> c \<noteq> CHR ''|''"

abbreviation (input) int32 :: "int \<Rightarrow> bool" where "int32 v \<equiv> - (2 ^ 31) \<le> v \<and> v < 2 ^ 31"

lemma camera_scan_token: "plain w \<Longrightarrow> camera_scan (w @ rest) token b ns vs = camera_scan rest (token @ w) b ns vs"
  by (induction w arbitrary: token) auto

lemma camera_scan_pairs:
  assumes "\<forall>(n, v) \<in> set ps. plain n \<and> int32 v"
  shows "camera_scan (concat (map (\<lambda>(n, v). n @ '' '' @ show_int v @ '' '') ps) @ rest) [] True ns vs =
    camera_scan rest [] True (ns @ map fst ps) (vs @ map snd ps)"
  using assms
proof (induction ps arbitrary: ns vs)
  case (Cons q ps)
  obtain n v where q: "q = (n, v)" by (cases q)
  have nv: "plain n" "plain (show_int v)" "c_stoi (show_int v) = Inr v"
    using Cons.prems q show_int_chars [of _ v] stoi_show_int [of v] by auto
  show ?case
    using Cons.IH [of "ns @ [n]" "vs @ [v]"] Cons.prems nv q
    by (simp add: camera_scan_token [of n] camera_scan_token [of "show_int v"])
qed simp

lemma settingNames_plain: "n \<in> set settingNames \<Longrightarrow> plain n"
  by (auto simp: settingNames_def)

lemma camera_command_length:
  assumes "\<forall>v \<in> set vals. int32 v" "length vals = 10"
  shows "length (camera_command vals) \<le> 1023"
proof -
  have bound: "length (concat (map (\<lambda>(n, v). n @ '' '' @ show_int v @ '' '') (zip ns vs))) \<le> sum_list (map length ns) + 13 * length vs"
    if "\<forall>v \<in> set vs. int32 v" "length ns = length vs" for ns vs
    using that
  proof (induction ns vs rule: list_induct2')
    case (4 n ns v vs)
    then show ?case using show_int_length [of v] by simp
  qed simp_all
  show ?thesis using bound [of vals settingNames] assms by (simp add: camera_command_def settingNames_def)
qed

definition params_of :: "int list \<Rightarrow> camera_params" where
  "params_of vs = \<lparr>kCameraAutoWhiteBalance = vs ! 0, kCameraExposureAuto = vs ! 1, kCameraBacklightCompensation = vs ! 2,
     kCameraBrightness = vs ! 3, kCameraContrast = vs ! 4, kCameraSaturation = vs ! 5, kCameraHue = vs ! 6, kCameraExposure = vs ! 7,
     kCameraGain = vs ! 8, kCameraSharpness = vs ! 9\<rparr>"

lemma length_10: "length (xs :: 'a list) = 10 \<Longrightarrow> \<exists>a b c d e f g h i j. xs = [a, b, c, d, e, f, g, h, i, j]"
  by (simp add: eval_nat_numeral length_Suc_conv) blast

lemma camera_apply_all:
  assumes "length vals = 10" shows "camera_apply settingNames vals p = Inr (params_of vals)"
proof -
  obtain a b c d e f g h i j where "vals = [a, b, c, d, e, f, g, h, i, j]" using length_10 [OF assms] by blast
  then show ?thesis by (simp add: settingNames_def set_param_def params_of_def)
qed

lemma camera_message_read:
  assumes "\<forall>v \<in> set vals. int32 v" "length vals = 10"
  shows "handleCameraParamsMessage (tp_data (sendParams showTop vals p)) q = Inr (params_of vals)"
proof -
  define rest where "rest = CHR 0x00 # drop (Suc (length (camera_command vals))) (replicate 1024 (CHR 0x00))"
  have data: "tp_data (sendParams showTop vals p) = camera_command vals @ rest"
    using camera_command_length [OF assms] by (simp add: sendParams_def c_snprintf_def tp_new_def Let_def rest_def)
  have "\<forall>(n, v) \<in> set (zip settingNames vals). plain n \<and> int32 v"
    using assms(1) settingNames_plain by (auto dest: set_zip_leftD set_zip_rightD)
  moreover have "map fst (zip settingNames vals) = settingNames" "map snd (zip settingNames vals) = vals"
    using assms(2) by (simp_all add: settingNames_def)
  ultimately have "camera_scan (camera_command vals @ rest) [] True [] [] = Inr (settingNames, vals)"
    using camera_scan_pairs [of "zip settingNames vals" "''|'' @ rest" "[]" "[]"] unfolding camera_command_def append_assoc by simp
  then show ?thesis
    using camera_apply_all [OF assms(2)] by (simp add: handleCameraParamsMessage_def data)
qed



section \<open>The selection of blocks to log\<close>

lemma log_scan_token: "plain w \<Longrightarrow> log_scan (w @ rest) name st = log_scan rest (name @ w) st"
proof (induction w arbitrary: name)
  case (Cons c w)
  then show ?case by (subst append_Cons, subst log_scan.simps) simp
qed simp

lemma log_scan_end: "log_scan (CHR ''|'' # rest) name st = Inr st"
  by (simp add: log_scan.simps)

lemma log_scan_entry:
  assumes "plain n"
  shows "log_scan (n @ (if c then '' 1'' else '' 0'') @ '','' @ rest) [] st =
    (case set_logging n c st of Inl e \<Rightarrow> Inl e | Inr st \<Rightarrow> log_scan rest [] st)"
proof -
  have "log_scan ((if c then '' 1'' else '' 0'') @ '','' @ rest) n st =
    (case set_logging n c st of Inl e \<Rightarrow> Inl e | Inr st \<Rightarrow> log_scan rest [] st)"
    by (subst log_scan.simps) (simp split: sum.split)
  then show ?thesis by (simp only: log_scan_token [OF assms] append_Nil)
qed

text \<open>The settings of a list of modules, applied in order.\<close>

fun set_all :: "(string \<times> bool) list \<Rightarrow> bool \<times> 'b memory_frame \<Rightarrow> tool_error + (bool \<times> 'b memory_frame)" where
  "set_all [] st = Inr st"
| "set_all ((n, c) # ms) st = (case set_logging n c st of Inl e \<Rightarrow> Inl e | Inr st \<Rightarrow> set_all ms st)"

lemma log_scan_all:
  assumes "\<forall>(n, c) \<in> set modules. plain n"
  shows "log_scan (log_command modules @ rest) [] st = set_all modules st"
  using assms
proof (induction modules arbitrary: st)
  case Nil
  then show ?case by (simp add: log_command_def log_scan_end)
next
  case (Cons q ms)
  obtain n c where q: "q = (n, c)" by (cases q)
  have "log_command (q # ms) @ rest = n @ (if c then '' 1'' else '' 0'') @ '','' @ (log_command ms @ rest)"
    by (simp add: log_command_def q)
  then show ?case using log_scan_entry [of n c "log_command ms @ rest" st] Cons q by (simp split: sum.split)
qed

lemma sent_log_command:
  assumes "length (log_command modules) < 1024"
  shows "\<exists>rest. tp_data (sendLogSettings junk modules p) = log_command modules @ rest"
proof -
  define s where "s = log_command modules @ [CHR 0x00]"
  have len: "length s \<le> 1024" using assms by (simp add: s_def)
  have "[0..<1024] = [0..<length s] @ [length s..<1024]"
    using len upt_add_eq_append [of 0 "length s" "1024 - length s"] by simp
  then have "map (\<lambda>i. if i < length s then s ! i else junk i) [0..<1024] =
      map (\<lambda>i. if i < length s then s ! i else junk i) [0..<length s] @ map (\<lambda>i. if i < length s then s ! i else junk i) [length s..<1024]"
    by (simp only: map_append)
  also have "map (\<lambda>i. if i < length s then s ! i else junk i) [0..<length s] = s"
    by (intro nth_equalityI) simp_all
  finally have "tp_data (sendLogSettings junk modules p) = s @ map (\<lambda>i. if i < length s then s ! i else junk i) [length s..<1024]"
    by (simp add: sendLogSettings_def s_def [symmetric] Let_def)
  then show ?thesis by (simp add: s_def)
qed

text \<open>A block as a selection leaves it.\<close>

definition selected :: "(string \<times> bool) list \<Rightarrow> string \<Rightarrow> 'b mem_block \<Rightarrow> 'b mem_block" where
  "selected modules n b =
     (case map_of modules n of None \<Rightarrow> b | Some c \<Rightarrow> if n = ''behavior_trace'' then b else b\<lparr>log_block := c\<rparr>)"

definition selectable :: "(string \<times> bool) list \<Rightarrow> 'b memory_frame \<Rightarrow> bool" where
  "selectable modules f \<longleftrightarrow> mf_wf f \<and> distinct (map fst modules) \<and>
     (\<forall>(n, c) \<in> set modules. mf_key f n = n \<and> (\<forall>b. mf_find n f = Some b \<longrightarrow> may_access (mf_owner f) (blk_owner b)))"

lemma setBlockLogging_eq:
  assumes "mf_wf f" "\<forall>b. mf_find n f = Some b \<longrightarrow> may_access (mf_owner f) (blk_owner b)" "mf_key f n = n"
  shows "\<exists>f'. setBlockLogging n c f = Inr f' \<and> mf_wf f' \<and> mf_owner f' = mf_owner f \<and> mf_key f' = mf_key f \<and>
    (\<forall>k. mf_key f k = k \<longrightarrow> mf_find k f' = (if k = n then map_option (\<lambda>b. b\<lparr>log_block := c\<rparr>) (mf_find k f) else mf_find k f))"
proof (cases "mf_find n f")
  case None
  then show ?thesis using assms(1) by (auto simp: setBlockLogging_def getBlockPtr_eq)
next
  case (Some b)
  note put = mf_put_store [OF assms(1), where name = n and b = "b\<lparr>log_block := c\<rparr>"]
  have "setBlockLogging n c f = Inr (mf_put n (b\<lparr>log_block := c\<rparr>) f)"
    using Some assms(2) by (simp add: setBlockLogging_def getBlockPtr_eq asking_def)
  then show ?thesis using put assms(3) Some by auto
qed

lemma set_all_selected:
  assumes "selectable modules f"
  shows "\<exists>f'. set_all modules (trace, f) = Inr (case map_of modules ''behavior_trace'' of None \<Rightarrow> trace | Some c \<Rightarrow> c, f') \<and>
    mf_wf f' \<and> (\<forall>k. mf_key f k = k \<longrightarrow> mf_find k f' = map_option (selected modules k) (mf_find k f))"
  using assms
proof (induction modules arbitrary: trace f)
  case Nil
  then show ?case by (auto simp: selected_def selectable_def option.map_ident)
next
  case (Cons q ms)
  obtain n c where q: "q = (n, c)" by (cases q)
  have new: "map_of ms n = None" using Cons.prems q by (auto simp: selectable_def map_of_eq_None_iff)
  show ?case
  proof (cases "n = ''behavior_trace''")
    case True
    have "selectable ms f" using Cons.prems by (simp add: selectable_def)
    then obtain f' where "set_all ms (c, f) = Inr (c, f')" "mf_wf f'"
        "\<forall>k. mf_key f k = k \<longrightarrow> mf_find k f' = map_option (selected ms k) (mf_find k f)"
      using Cons.IH [of f c] new True by auto
    moreover have sel: "selected (q # ms) k = selected ms k" for k using q True new by (simp add: fun_eq_iff selected_def)
    ultimately show ?thesis using q True by (simp add: set_logging_def sel [unfolded q True])
  next
    case False
    have f: "mf_wf f" "\<forall>b. mf_find n f = Some b \<longrightarrow> may_access (mf_owner f) (blk_owner b)" "mf_key f n = n"
      using Cons.prems q by (simp_all add: selectable_def)
    obtain g where g: "setBlockLogging n c f = Inr g" "mf_wf g" "mf_owner g = mf_owner f" "mf_key g = mf_key f"
        "\<And>k. mf_key f k = k \<Longrightarrow> mf_find k g = (if k = n then map_option (\<lambda>b. b\<lparr>log_block := c\<rparr>) (mf_find k f) else mf_find k f)"
      using setBlockLogging_eq [OF f] by blast
    have same: "mf_find k g = mf_find k f" "mf_key f k = k" if "(k, d) \<in> set ms" for k d
    proof -
      show key: "mf_key f k = k" using Cons.prems that by (auto simp: selectable_def)
      have "k \<noteq> n" using new that by (force simp: map_of_eq_None_iff)
      then show "mf_find k g = mf_find k f" using g(5) [OF key] by simp
    qed
    have "selectable ms g"
      unfolding selectable_def g(3,4)
    proof (intro conjI ballI)
      fix q assume "q \<in> set ms"
      moreover obtain k d where q: "q = (k, d)" by (cases q)
      ultimately show "case q of (n, c) \<Rightarrow> mf_key f n = n \<and> (\<forall>b. mf_find n g = Some b \<longrightarrow> may_access (mf_owner f) (blk_owner b))"
        using same [of k d] Cons.prems by (auto simp: selectable_def)
    qed (use g(2) Cons.prems in \<open>simp_all add: selectable_def\<close>)
    then obtain f' where f': "set_all ms (trace, g) = Inr (case map_of ms ''behavior_trace'' of None \<Rightarrow> trace | Some c \<Rightarrow> c, f')" "mf_wf f'"
        "\<And>k. mf_key f k = k \<Longrightarrow> mf_find k f' = map_option (selected ms k) (mf_find k g)"
      using Cons.IH [of g trace] g(4) by auto
    have "map_option (selected ms k) (mf_find k g) = map_option (selected (q # ms) k) (mf_find k f)" if "mf_key f k = k" for k
      using g(5) [OF that] q False new by (cases "mf_find k f") (auto simp: selected_def)
    then show ?thesis using q False g(1) f' by (simp add: set_logging_def)
  qed
qed

text \<open>
  C15: The selection of blocks made in the tool is carried out on the robot: whatever follows the message
  in the packet, every selected block is marked for logging and every deselected one is not, other
  blocks are left alone, and the entry \<open>behavior_trace\<close> sets the flag of the behavior block instead.
\<close>

theorem log_selection_carried_out:
  assumes "\<forall>(n, c) \<in> set modules. \<forall>ch \<in> set n. ch \<noteq> CHR '' '' \<and> ch \<noteq> CHR ''|''" "length (log_command modules) < DATA_LENGTH"
    "selectable modules (cm_memory m)"
  shows "\<exists>m'. listenToolUDP ops clock now (sendLogSettings junk modules p) m = Inr m' \<and>
    log_behavior_trace m' = (case map_of modules ''behavior_trace'' of None \<Rightarrow> log_behavior_trace m | Some c \<Rightarrow> c) \<and>
    (\<forall>k. mf_key (cm_memory m) k = k \<longrightarrow> mf_find k (cm_memory m') = map_option (selected modules k) (mf_find k (cm_memory m)))"
proof -
  obtain rest where data: "tp_data (sendLogSettings junk modules p) = log_command modules @ rest"
    using sent_log_command [OF assms(2)] by blast
  obtain f' where "set_all modules (log_behavior_trace m, cm_memory m) =
        Inr (case map_of modules ''behavior_trace'' of None \<Rightarrow> log_behavior_trace m | Some c \<Rightarrow> c, f')"
      "\<forall>k. mf_key (cm_memory m) k = k \<longrightarrow> mf_find k f' = map_option (selected modules k) (mf_find k (cm_memory m))"
    using set_all_selected [OF assms(3)] by blast
  moreover have "tp_message (sendLogSettings junk modules p) = LogSelect"
    by (simp add: sendLogSettings_def tp_new_def Let_def)
  ultimately show ?thesis
    by (simp add: listenToolUDP_def handleLoggingBlocksMessage_def data log_scan_all [OF assms(1)] Let_def)
qed

theorem log_selection_carried_out_witness:
  "\<forall>junk p ops (m :: (nat, nat) comm_module). \<exists>m'. listenToolUDP ops 0 0 (sendLogSettings junk [(''a'', False), (''behavior_trace'', True)] p)
      (m\<lparr>cm_memory := sample_frame OWNER_MOTION\<rparr>) = Inr m' \<and> log_behavior_trace m'"
proof (intro allI)
  fix junk p ops and m :: "(nat, nat) comm_module"
  have "selectable [(''a'', False), (''behavior_trace'', True)] (cm_memory (m\<lparr>cm_memory := sample_frame OWNER_MOTION\<rparr>))"
    by (auto simp: selectable_def sample_frame_wf)
      (auto simp: sample_frame_def mf_key_def mf_find_def pm_getBlockPtr_def may_access_def split: if_splits)
  then show "\<exists>m'. listenToolUDP ops 0 0 (sendLogSettings junk [(''a'', False), (''behavior_trace'', True)] p)
      (m\<lparr>cm_memory := sample_frame OWNER_MOTION\<rparr>) = Inr m' \<and> log_behavior_trace m'"
    using log_selection_carried_out [of "[(''a'', False), (''behavior_trace'', True)]" "m\<lparr>cm_memory := sample_frame OWNER_MOTION\<rparr>" ops 0 0 junk p]
    by (auto simp: log_command_def)
qed

section \<open>Logging a number of frames\<close>

definition unpaced :: "'l vision_logging \<Rightarrow> bool" where
  "unpaced v \<longleftrightarrow> log_interval v \<le> 1 / 100000 \<and> (\<forall>s. logging_selections v = Some s \<longrightarrow> \<not> hasRequiredObjects s)"

definition frames_run :: "'l log_ops \<Rightarrow> nat \<Rightarrow> log_input list \<Rightarrow> 'l vision_logging \<Rightarrow> 'l vision_logging" where
  "frames_run ops num_objects inps v = fold (finish_frame ops num_objects) inps v"

lemma frames_run_simps [simp]:
  "frames_run ops k [] v = v" "frames_run ops k (inp # inps) v = frames_run ops k inps (finish_frame ops k inp v)"
  by (simp_all add: frames_run_def)

lemma log_due_unpaced: "unpaced v \<Longrightarrow> log_due k inp v = is_logging v"
  by (auto simp: unpaced_def log_due_def Let_def split: option.split)

lemma finish_frame_idle: "\<not> is_logging v \<Longrightarrow> finish_frame ops k inp v = v"
  by (simp add: finish_frame_def optionallyWriteLog_def log_due_def Let_def)

lemma frames_run_idle: "\<not> is_logging v \<Longrightarrow> frames_run ops k inps v = v"
  by (induction inps) (simp_all add: finish_frame_idle)

lemma finish_frame_counting:
  fixes ops :: "'l log_ops" and inp :: log_input and k :: nat
  assumes "unpaced v" "is_logging v" "log_by_frame v" "\<not> disable_log v" "0 < unat (frames_to_log v)"
  defines "v' \<equiv> finish_frame ops k inp v"
  shows "unat (frames_to_log v) = 1 \<Longrightarrow> \<not> is_logging v' \<and> log_device v' = close_log ops (write_log ops (log_device v)) \<and>
      log_responses v' = log_responses v + 1"
    and "1 < unat (frames_to_log v) \<Longrightarrow> unpaced v' \<and> is_logging v' \<and> log_by_frame v' \<and> \<not> disable_log v' \<and>
      unat (frames_to_log v') = unat (frames_to_log v) - 1 \<and> log_device v' = write_log ops (log_device v) \<and> log_responses v' = log_responses v"
proof -
  have un: "unat (frames_to_log v - 1) = unat (frames_to_log v) - 1"
    using assms(5) by (metis unat_gt_0 unat_minus_one)
  have z: "frames_to_log v - 1 = 0 \<longleftrightarrow> unat (frames_to_log v) = 1" using un assms(5) by (metis One_nat_def Suc_pred diff_Suc_1 unat_0 unat_eq_0)
  show "unat (frames_to_log v) = 1 \<Longrightarrow> \<not> is_logging v' \<and> log_device v' = close_log ops (write_log ops (log_device v)) \<and>
      log_responses v' = log_responses v + 1"
    using assms(2,3) z log_due_unpaced [OF assms(1)]
    by (simp add: v'_def finish_frame_def optionallyWriteLog_def disableLogging_def Let_def)
  show "1 < unat (frames_to_log v) \<Longrightarrow> unpaced v' \<and> is_logging v' \<and> log_by_frame v' \<and> \<not> disable_log v' \<and>
      unat (frames_to_log v') = unat (frames_to_log v) - 1 \<and> log_device v' = write_log ops (log_device v) \<and> log_responses v' = log_responses v"
    using assms(1,2,3,4) z un log_due_unpaced [OF assms(1)]
    by (simp add: v'_def finish_frame_def optionallyWriteLog_def unpaced_def Let_def)
qed

lemma frames_run_counting:
  assumes "unpaced v" "is_logging v" "log_by_frame v" "\<not> disable_log v" "unat (frames_to_log v) = Suc n" "Suc n \<le> length inps"
  shows "let v' = frames_run ops k inps v in \<not> is_logging v' \<and>
    log_device v' = close_log ops ((write_log ops ^^ Suc n) (log_device v)) \<and> log_responses v' = log_responses v + 1"
  using assms
proof (induction n arbitrary: v inps)
  case 0
  then obtain inp inps' where "inps = inp # inps'" by (cases inps) auto
  then show ?case using finish_frame_counting(1) [of v ops k inp] 0 by (simp add: frames_run_idle)
next
  case (Suc n)
  obtain inp inps' where inps: "inps = inp # inps'" using Suc.prems(6) by (cases inps) auto
  define w where "w = finish_frame ops k inp v"
  have w: "unpaced w" "is_logging w" "log_by_frame w" "\<not> disable_log w" "unat (frames_to_log w) = Suc n"
      "log_device w = write_log ops (log_device v)" "log_responses w = log_responses v"
    using finish_frame_counting(2) [of v ops k inp] Suc.prems by (simp_all add: w_def)
  show ?case using Suc.IH [OF w(1-5), of inps'] Suc.prems(6) w(6,7) by (simp add: inps w_def [symmetric] funpow_Suc_right Let_def del: funpow.simps)
qed

text \<open>
  C16: A request for a number of frames is fulfilled: when the tool asks for \<open>n\<close> frames without pause and
  without required objects, the log is opened, exactly \<open>n\<close> frames are written in the next \<open>n\<close> frames,
  then the log is closed and the tool is told so once; later frames change nothing.
\<close>

theorem requested_frames_logged:
  assumes "tp_message tp = LogBegin" "tp_frames tp = int n" "0 < n" "n < 2 ^ 31" "tp_interval tp \<le> 1 / 100000"
    and "\<not> is_logging (cm_logging m)" "\<not> disable_log (cm_logging m)"
    "\<forall>s. logging_selections (cm_logging m) = Some s \<longrightarrow> \<not> hasRequiredObjects s" "n \<le> length inps"
  shows "\<exists>m'. listenToolUDP ops clock now tp m = Inr m' \<and>
    (let v = frames_run ops num_objects inps (cm_logging m')
     in \<not> is_logging v \<and> log_device v = close_log ops ((write_log ops ^^ n) (open_log ops (log_device (cm_logging m)))) \<and>
        log_responses v = log_responses (cm_logging m) + 1)"
proof -
  let ?v = "enableLogging ops now (int n) (tp_interval tp) (cm_logging m)"
  obtain k where k: "n = Suc k" using assms(3) by (cases n) auto
  have "unat (word_of_int (int n) :: 32 word) = n" using assms(4) by (simp add: unat_of_nat)
  then have "unpaced ?v" "is_logging ?v" "log_by_frame ?v" "\<not> disable_log ?v" "unat (frames_to_log ?v) = Suc k"
      "log_device ?v = open_log ops (log_device (cm_logging m))" "log_responses ?v = log_responses (cm_logging m)"
    using assms(3,5-8) k by (simp_all add: enableLogging_def enableLogging_all_def enableMemoryLogging_def unpaced_def Let_def)
  then show ?thesis
    using frames_run_counting [of ?v k inps ops num_objects] assms(1,2,9) k by (simp add: listenToolUDP_def Let_def del: funpow.simps)
qed

theorem requested_frames_logged_witness:
  "\<forall>p (m :: (nat, nat) comm_module) inp.
     \<exists>m'. listenToolUDP \<lparr>open_log = \<lambda>_. 0, write_log = Suc, close_log = (\<lambda>k. k)\<rparr> 0 0 (p\<lparr>tp_message := LogBegin, tp_frames := 3, tp_interval := 0\<rparr>)
       (m\<lparr>cm_logging := (cm_logging m)\<lparr>is_logging := False, disable_log := False, logging_selections := None\<rparr>\<rparr>) = Inr m' \<and>
     log_device (frames_run \<lparr>open_log = \<lambda>_. 0, write_log = Suc, close_log = (\<lambda>k. k)\<rparr> 7 (replicate 5 inp) (cm_logging m')) = 3"
proof (intro allI)
  fix p :: tool_packet and inp and m :: "(nat, nat) comm_module"
  let ?ops = "\<lparr>open_log = \<lambda>_. 0, write_log = Suc, close_log = (\<lambda>k. k)\<rparr> :: nat log_ops"
  let ?m = "m\<lparr>cm_logging := (cm_logging m)\<lparr>is_logging := False, disable_log := False, logging_selections := None\<rparr>\<rparr>"
  let ?p = "p\<lparr>tp_message := LogBegin, tp_frames := 3, tp_interval := 0\<rparr>"
  have "\<exists>m'. listenToolUDP ?ops 0 0 ?p ?m = Inr m' \<and>
    (let v = frames_run ?ops 7 (replicate 5 inp) (cm_logging m')
     in \<not> is_logging v \<and> log_device v = close_log ?ops ((write_log ?ops ^^ 3) (open_log ?ops (log_device (cm_logging ?m)))) \<and>
        log_responses v = log_responses (cm_logging ?m) + 1)"
    by (rule requested_frames_logged) simp_all
  then show "\<exists>m'. listenToolUDP ?ops 0 0 ?p ?m = Inr m' \<and> log_device (frames_run ?ops 7 (replicate 5 inp) (cm_logging m')) = 3"
    by (simp add: Let_def numeral_3_eq_3) blast
qed

end
