(* ===== verification/Walk_Steps.thy ===== *)
theory Walk_Steps
  imports Walk_Generator
begin

text \<open>
  The walk as a sequence of steps (\<open>src/core/motion/rswalk2014/Walk2014Generator.cpp\<close>): the invariant of the state of the
  generator, the end of every step, the feet and the odometry. A frame is a call of \<open>makeJoints\<close> with the inputs of that moment.
\<close>

section \<open>Frames\<close>

record walk_input =
  wi_now :: int
  wi_kin :: kin_result
  wi_sensors :: sensor_vals
  wi_ballX :: real
  wi_ballY :: real
  wi_request :: rs_request

definition walk_frame :: "walk_input \<Rightarrow> walk_world \<Rightarrow> walk_world" where
  "walk_frame i w = fst (g_makeJoints (wi_now i) (wi_kin i) (wi_sensors i) (wi_ballX i) (wi_ballY i) (w\<lparr>ww_request := wi_request i\<rparr>))"

definition walking :: "walk_phase \<Rightarrow> bool" where
  "walking ph = (walk2014Option ph = O_WALK)"

text \<open>
  The invariant: a kick never runs, the feet only take part in a step while the robot walks, a step is timed with at least the period
  of the walk, and the time in a step is at most three periods.
\<close>

definition phase_ok :: "walk_phase \<Rightarrow> bool" where
  "phase_ok ph = (walk2014Option ph \<noteq> O_KICK \<and> (walkState ph \<noteq> S_NOT_WALKING \<longrightarrow> walking ph) \<and>
     (walking ph \<longrightarrow> 1 / 4 \<le> w_nextFootSwitchT ph) \<and>
     (w_t ph = 0 \<or> walking ph \<and> 1 / 4 \<le> w_T ph \<and> 0 < w_t ph \<and> w_t ph \<le> 3 * w_T ph))"

definition gen_ok :: "generator \<Rightarrow> bool" where
  "gen_ok g = (w_dt g = 1 / 100 \<and> g_curr g = walk_defaults \<and> w_kickT (g_kick g) = 0 \<and> phase_ok (g_ph g))"

lemma step_period_defaults: "1 / 4 \<le> step_period walk_defaults l"
  by (simp add: step_period_def walk_defaults_def)

lemma option_step_time [simp]:
  "w_t (option_step p c ph) = w_t ph" "w_T (option_step p c ph) = w_T ph"
  by (simp_all add: option_step_def beginMove_def)

lemma option_step_state:
  assumes "walkState ph \<noteq> S_NOT_WALKING \<longrightarrow> walking ph" "walking ph \<longrightarrow> 1 / 4 \<le> w_nextFootSwitchT ph" "1 / 4 \<le> w_T ph"
  shows "walk2014Option (option_step p c ph) \<in> {O_STAND, O_STANDUP, O_CROUCH, O_READY, O_WALK}"
    and "walkState (option_step p c ph) \<noteq> S_NOT_WALKING \<Longrightarrow> walking (option_step p c ph)"
    and "walking (option_step p c ph) \<Longrightarrow> 1 / 4 \<le> w_nextFootSwitchT (option_step p c ph)"
  using assms by (auto simp: option_step_def beginMove_def walking_def split: if_splits)

lemma execute_phase_simps [simp]:
  "walk2014Option (execute_phase p dt pw ph) = walk2014Option ph" "walkState (execute_phase p dt pw ph) = walkState ph"
  "w_T (execute_phase p dt pw ph) = w_T ph" "supportFoothasChanged (execute_phase p dt pw ph) = supportFoothasChanged ph"
  by (simp_all add: execute_phase_def split: walk_option.splits)

lemma execute_phase_time:
  assumes "walk2014Option ph \<in> {O_STAND, O_STANDUP, O_CROUCH, O_READY, O_WALK}"
  shows "w_t (execute_phase p dt pw ph) = (if walking ph then w_t ph else 0)"
    and "walking ph \<Longrightarrow> w_nextFootSwitchT (execute_phase p dt pw ph) = w_nextFootSwitchT ph"
  using assms by (auto simp: execute_phase_def walking_def)

text \<open>The phase after the sections 0 to 4: the time goes on while the robot walks.\<close>

definition before_step :: "rs_request \<Rightarrow> sensor_vals \<Rightarrow> generator \<Rightarrow> generator" where
  "before_step r s g = (let g = first_height s g in if w_t (g_ph g) = 0 then readRequest (rq_body r) g else g)"

lemma first_height_simps [simp]:
  "w_dt (first_height s g) = w_dt g" "g_curr (first_height s g) = g_curr g" "g_kick (first_height s g) = g_kick g"
  "g_st (first_height s g) = g_st g" "w_ankle (first_height s g) = w_ankle g" "w_t (g_ph (first_height s g)) = w_t (g_ph g)"
  "w_T (g_ph (first_height s g)) = w_T (g_ph g)" "walk2014Option (g_ph (first_height s g)) = walk2014Option (g_ph g)"
  "walkState (g_ph (first_height s g)) = walkState (g_ph g)" "w_nextFootSwitchT (g_ph (first_height s g)) = w_nextFootSwitchT (g_ph g)"
  "exactStepsRequested (first_height s g) = exactStepsRequested g" "just_finished_kick (first_height s g) = just_finished_kick g"
  by (simp_all add: first_height_def Let_def)

lemma before_step_simps [simp]:
  "w_dt (before_step r s g) = w_dt g" "g_curr (before_step r s g) = g_curr g" "g_kick (before_step r s g) = g_kick g"
  "g_st (before_step r s g) = g_st g" "w_t (g_ph (before_step r s g)) = w_t (g_ph g)"
  "walk2014Option (g_ph (before_step r s g)) = walk2014Option (g_ph g)" "walkState (g_ph (before_step r s g)) = walkState (g_ph g)"
  "w_nextFootSwitchT (g_ph (before_step r s g)) = w_nextFootSwitchT (g_ph g)"
  by (simp_all add: before_step_def Let_def)

lemma before_step_T:
  "w_T (g_ph (before_step r s g)) = (if w_t (g_ph g) = 0
     then step_period (g_curr g) (fst (snd (requested_speed (g_curr g) (exactStepsRequested g) (rq_body r)))) else w_T (g_ph g))"
  by (simp add: before_step_def Let_def)

lemma prepareStep_gen:
  "fst (prepareStep r s (g, m)) = executeOption (determineOption (actionType (rq_body r)) (g_tick (before_step r s g)))"
  by (simp add: prepareStep_def before_step_def Let_def)

lemma prepareStep_body: "ZMPL (snd (prepareStep r s (g, m))) = ZMPL m" "lastZMPL (snd (prepareStep r s (g, m))) = lastZMPL m"
  "isLeftPhase (snd (prepareStep r s (g, m))) = isLeftPhase m" "walkKickStart (snd (prepareStep r s (g, m))) = walkKickStart m"
  by (simp_all add: prepareStep_def setPendulumHeight_def Let_def)

lemma g_tick_simps [simp]:
  "w_dt (g_tick g) = w_dt g" "g_curr (g_tick g) = g_curr g" "g_st (g_tick g) = g_st g" "w_kickT (g_kick (g_tick g)) = w_kickT (g_kick g)"
  "w_t (g_ph (g_tick g)) = w_t (g_ph g) + w_dt g" "w_T (g_ph (g_tick g)) = w_T (g_ph g)" "walkState (g_ph (g_tick g)) = walkState (g_ph g)"
  "walk2014Option (g_ph (g_tick g)) = walk2014Option (g_ph g)" "w_nextFootSwitchT (g_ph (g_tick g)) = w_nextFootSwitchT (g_ph g)"
  by (simp_all add: g_tick_def)

lemma prepareStep_ok:
  fixes r :: rs_request and s :: sensor_vals and m :: body_model
  assumes ok: "gen_ok g"
  defines "g' \<equiv> fst (prepareStep r s (g, m))"
  shows "w_dt g' = 1 / 100" "g_curr g' = walk_defaults" "w_kickT (g_kick g') = 0" "g_st g' = g_st g"
    and "walk2014Option (g_ph g') \<in> {O_STAND, O_STANDUP, O_CROUCH, O_READY, O_WALK}"
    and "walkState (g_ph g') \<noteq> S_NOT_WALKING \<longrightarrow> walking (g_ph g')" "walking (g_ph g') \<longrightarrow> 1 / 4 \<le> w_nextFootSwitchT (g_ph g')"
    and "1 / 4 \<le> w_T (g_ph g')" "w_t (g_ph g) \<noteq> 0 \<Longrightarrow> w_T (g_ph g') = w_T (g_ph g)"
    and "w_t (g_ph g') = (if walking (g_ph g') then w_t (g_ph g) + 1 / 100 else 0)"
proof -
  define g1 where "g1 = g_tick (before_step r s g)"
  define ph where "ph = option_step walk_defaults (g_cmd g1) (g_ph g1)"
  have g: "w_dt g = 1 / 100" "g_curr g = walk_defaults" "w_kickT (g_kick g) = 0" "phase_ok (g_ph g)" using ok by (simp_all add: gen_ok_def)
  have g1: "w_dt g1 = 1 / 100" "g_curr g1 = walk_defaults" "w_kickT (g_kick g1) = 0" "g_st g1 = g_st g" "w_t (g_ph g1) = w_t (g_ph g) + 1 / 100"
    "walkState (g_ph g1) = walkState (g_ph g)" "walking (g_ph g1) = walking (g_ph g)" "w_nextFootSwitchT (g_ph g1) = w_nextFootSwitchT (g_ph g)"
    by (simp_all add: g1_def g walking_def)
  have T: "1 / 4 \<le> w_T (g_ph g1)" "w_t (g_ph g) \<noteq> 0 \<Longrightarrow> w_T (g_ph g1) = w_T (g_ph g)"
    using g(4) step_period_defaults by (auto simp: g1_def before_step_T g phase_ok_def)
  have g': "g' = executeOption (g1\<lparr>g_ph := ph\<rparr>)"
    by (simp add: g'_def prepareStep_gen g1_def [symmetric] determineOption_def g1 ph_def)
  have ph': "g_ph g' = execute_phase walk_defaults (1 / 100) (w_power (g_cmd g1)) ph" by (simp add: g' executeOption_def g1)
  have "walkState (g_ph g1) \<noteq> S_NOT_WALKING \<longrightarrow> walking (g_ph g1)" "walking (g_ph g1) \<longrightarrow> 1 / 4 \<le> w_nextFootSwitchT (g_ph g1)"
    using g(4) by (simp_all add: g1 phase_ok_def)
  note st = option_step_state [OF this T(1), of walk_defaults "g_cmd g1", folded ph_def]
  note ti = execute_phase_time [OF st(1), of walk_defaults "1 / 100" "w_power (g_cmd g1)", folded ph']
  have w: "walking (g_ph g') = walking ph" by (simp add: ph' walking_def)
  show "w_dt g' = 1 / 100" "g_curr g' = walk_defaults" "w_kickT (g_kick g') = 0" "g_st g' = g_st g" by (simp_all add: g' executeOption_def g1)
  show "walk2014Option (g_ph g') \<in> {O_STAND, O_STANDUP, O_CROUCH, O_READY, O_WALK}" using st(1) by (simp add: ph')
  show "walkState (g_ph g') \<noteq> S_NOT_WALKING \<longrightarrow> walking (g_ph g')" using st(2) by (simp add: w) (simp add: ph')
  show "walking (g_ph g') \<longrightarrow> 1 / 4 \<le> w_nextFootSwitchT (g_ph g')" using st(3) ti(2) by (simp add: w)
  show "1 / 4 \<le> w_T (g_ph g')" using T(1) by (simp add: ph' ph_def)
  show "w_T (g_ph g') = w_T (g_ph g)" if "w_t (g_ph g) \<noteq> 0" using T(2) that by (simp add: ph' ph_def)
  show "w_t (g_ph g') = (if walking (g_ph g') then w_t (g_ph g) + 1 / 100 else 0)" unfolding w ti(1) by (simp add: ph_def g1)
qed

lemma moveFeet_simps:
  assumes "walk2014Option (g_ph g) \<noteq> O_KICK"
  shows "g_ph (fst (moveFeet b y (g, r))) = g_ph g" "w_dt (fst (moveFeet b y (g, r))) = w_dt g" "g_curr (fst (moveFeet b y (g, r))) = g_curr g"
    "g_kick (fst (moveFeet b y (g, r))) = g_kick g"
  using assms by (auto simp: moveFeet_def walk_step_def Let_def)

lemma changeSupport_simps:
  "w_dt (fst (changeSupport (g, m))) = w_dt g" "g_curr (fst (changeSupport (g, m))) = g_curr g" "g_kick (fst (changeSupport (g, m))) = g_kick g"
  "walk2014Option (g_ph (fst (changeSupport (g, m)))) = walk2014Option (g_ph g)" "w_T (g_ph (fst (changeSupport (g, m)))) = w_T (g_ph g)"
  by (simp_all add: changeSupport_def switch_feet_def Let_def)

lemma changeSupport_time:
  assumes "walking (g_ph g)"
  shows "w_t (g_ph (fst (changeSupport (g, m)))) \<in> {0, w_t (g_ph g)} \<and> w_t (g_ph (fst (changeSupport (g, m)))) \<le> max 0 (3 * w_T (g_ph g))"
  using assms by (auto simp: changeSupport_def switch_feet_def Let_def walking_def)

lemma changeSupport_next:
  "w_nextFootSwitchT (g_ph (fst (changeSupport (g, m)))) \<in> {w_nextFootSwitchT (g_ph g), w_T (g_ph g)}"
  by (simp add: changeSupport_def switch_feet_def Let_def)

lemma changeSupport_idle:
  assumes "\<not> walking (g_ph g)"
  shows "walkState (g_ph (fst (changeSupport (g, m)))) = walkState (g_ph g)" "w_t (g_ph (fst (changeSupport (g, m)))) = w_t (g_ph g)"
  using assms by (simp_all add: changeSupport_def switch_feet_def Let_def walking_def)

lemma rest_of_cycle:
  "g_ph (g_balance s g) = g_ph g" "w_dt (g_balance s g) = w_dt g" "g_curr (g_balance s g) = g_curr g" "g_kick (g_balance s g) = g_kick g"
  "g_st (g_balance s g) = g_st g"
  "g_ph (fst (updateOdometry b (g, d))) = g_ph g" "w_dt (fst (updateOdometry b (g, d))) = w_dt g" "g_curr (fst (updateOdometry b (g, d))) = g_curr g"
  "g_kick (fst (updateOdometry b (g, d))) = g_kick g" "g_st (fst (updateOdometry b (g, d))) = g_st g"
  "g_ph (fst (limp_joints now m (g, j))) = g_ph g" "w_dt (fst (limp_joints now m (g, j))) = w_dt g" "g_curr (fst (limp_joints now m (g, j))) = g_curr g"
  "g_kick (fst (limp_joints now m (g, j))) = g_kick g" "g_st (fst (limp_joints now m (g, j))) = g_st g"
  by (simp_all add: g_balance_def updateOdometry_def limp_joints_def Let_def)

text \<open>The generator after a frame, without the parts that only look at it.\<close>

definition step_of :: "walk_input \<Rightarrow> walk_world \<Rightarrow> generator \<times> body_model" where
  "step_of i w =
     (let m = bm_update (wi_kin i) (wi_sensors i) (ww_body w);
          (g, m) = prepareStep (wi_request i) (wi_sensors i) (ww_gen w, m)
      in changeSupport (fst (moveFeet (isLeftPhase m) (wi_ballY i) (g, wi_request i)), m))"

lemma walk_frame_gen:
  "g_ph (ww_gen (walk_frame i w)) = g_ph (fst (step_of i w))" "w_dt (ww_gen (walk_frame i w)) = w_dt (fst (step_of i w))"
  "g_curr (ww_gen (walk_frame i w)) = g_curr (fst (step_of i w))" "g_kick (ww_gen (walk_frame i w)) = g_kick (fst (step_of i w))"
  "g_st (ww_gen (walk_frame i w)) = g_st (fst (step_of i w))" "ww_body (walk_frame i w) = snd (step_of i w)"
proof -
  have gs: "g_ph (ww_gen (walk_frame i w)) = g_ph (fst (step_of i w)) \<and> w_dt (ww_gen (walk_frame i w)) = w_dt (fst (step_of i w)) \<and>
    g_curr (ww_gen (walk_frame i w)) = g_curr (fst (step_of i w)) \<and> g_kick (ww_gen (walk_frame i w)) = g_kick (fst (step_of i w)) \<and>
    g_st (ww_gen (walk_frame i w)) = g_st (fst (step_of i w)) \<and> ww_body (walk_frame i w) = snd (step_of i w)"
    unfolding walk_frame_def g_makeJoints_def step_of_def Let_def
    by (auto simp: rest_of_cycle split: prod.splits) (metis fst_conv snd_conv rest_of_cycle)+
  then show "g_ph (ww_gen (walk_frame i w)) = g_ph (fst (step_of i w))" "w_dt (ww_gen (walk_frame i w)) = w_dt (fst (step_of i w))"
    "g_curr (ww_gen (walk_frame i w)) = g_curr (fst (step_of i w))" "g_kick (ww_gen (walk_frame i w)) = g_kick (fst (step_of i w))"
    "g_st (ww_gen (walk_frame i w)) = g_st (fst (step_of i w))" "ww_body (walk_frame i w) = snd (step_of i w)" by simp_all
qed

section \<open>The invariant\<close>

lemma walk_frame_cycle:
  fixes i :: walk_input
  assumes ok: "gen_ok (ww_gen w)"
  defines "ph \<equiv> g_ph (ww_gen w)" and "ph' \<equiv> g_ph (ww_gen (walk_frame i w))"
  shows "gen_ok (ww_gen (walk_frame i w))"
    and "w_t ph \<noteq> 0 \<Longrightarrow> w_t ph' = 0 \<or> w_t ph' = w_t ph + 1 / 100 \<and> w_T ph' = w_T ph"
proof -
  define m where "m = bm_update (wi_kin i) (wi_sensors i) (ww_body w)"
  obtain g1 m1 where p1: "prepareStep (wi_request i) (wi_sensors i) (ww_gen w, m) = (g1, m1)" by fastforce
  note ok1 = prepareStep_ok [OF ok, of "wi_request i" "wi_sensors i" m, unfolded p1 fst_conv]
  define g2 where "g2 = fst (moveFeet (isLeftPhase m1) (wi_ballY i) (g1, wi_request i))"
  have nk: "walk2014Option (g_ph g1) \<noteq> O_KICK" using ok1(5) by auto
  note g2 = moveFeet_simps [OF nk, of "isLeftPhase m1" "wi_ballY i" "wi_request i", folded g2_def]
  define g3 where "g3 = fst (changeSupport (g2, m1))"
  have st: "fst (step_of i w) = g3"
    by (simp add: step_of_def m_def [symmetric] p1 g2_def [symmetric] g3_def)
  note g3 = changeSupport_simps [of g2 m1, folded g3_def]
  have w3: "walking (g_ph g3) = walking (g_ph g1)" by (simp add: walking_def g3 g2)
  have t0: "0 \<le> w_t (g_ph (ww_gen w))" using ok by (auto simp: gen_ok_def phase_ok_def)
  have ok3: "phase_ok (g_ph g3) \<and> (w_t ph \<noteq> 0 \<longrightarrow> w_t (g_ph g3) = 0 \<or> w_t (g_ph g3) = w_t ph + 1 / 100 \<and> w_T (g_ph g3) = w_T ph)"
  proof (cases "walking (g_ph g1)")
    case True
    have t1: "w_t (g_ph g1) = w_t ph + 1 / 100" using ok1(10) True by (simp add: ph_def)
    have t: "w_t (g_ph g3) \<in> {0, w_t ph + 1 / 100}" "w_t (g_ph g3) \<le> max 0 (3 * w_T (g_ph g3))"
      using changeSupport_time [of g2 m1] True by (simp_all add: g2 g3_def t1 changeSupport_simps)
    have n: "1 / 4 \<le> w_nextFootSwitchT (g_ph g3)" using changeSupport_next [of g2 m1] ok1(7,8) True by (auto simp: g2 g3_def)
    have T: "1 / 4 \<le> w_T (g_ph g3)" "w_t ph \<noteq> 0 \<Longrightarrow> w_T (g_ph g3) = w_T ph" using ok1(8,9) by (simp_all add: g3 g2 ph_def)
    have o: "walk2014Option (g_ph g3) = O_WALK" using True w3 by (simp add: walking_def)
    show ?thesis using t n T t0 by (auto simp: phase_ok_def walking_def o ph_def)
  next
    case False
    then have "walking (g_ph g2) = False" by (simp add: g2)
    note idle = changeSupport_idle [of g2 m1, folded g3_def, unfolded this, simplified]
    have "w_t (g_ph g3) = 0" "walkState (g_ph g3) = S_NOT_WALKING" using idle ok1(6,10) False by (simp_all add: g2)
    then show ?thesis using False nk by (simp add: phase_ok_def w3 g3 g2)
  qed
  then show "gen_ok (ww_gen (walk_frame i w))" using ok1(1-3) by (simp add: gen_ok_def walk_frame_gen st g3 g2)
  show "w_t ph \<noteq> 0 \<Longrightarrow> w_t ph' = 0 \<or> w_t ph' = w_t ph + 1 / 100 \<and> w_T ph' = w_T ph"
    using ok3 by (simp add: ph'_def walk_frame_gen st)
qed

lemma g_reset_ok: "g_curr g = walk_defaults \<Longrightarrow> gen_ok (g_reset g)"
  by (simp add: gen_ok_def phase_ok_def g_reset_def g_initialise_def walking_def)

lemma g_new_ok: "gen_ok (g_new now mem)"
  by (simp add: gen_ok_def phase_ok_def g_new_def restoreDefaultWalkParameters_def g_initialise_def walking_def)

text \<open>C2: Whatever the sensors and the requests are: the robot finishes its walk before it does anything else, no step is longer than three periods.\<close>

theorem walk_invariant:
  "phase_ok (g_ph (ww_gen (fold walk_frame is \<lparr>ww_gen = g_new now mem, ww_request = r, ww_odometry = d, ww_body = m\<rparr>)))"
proof -
  have "gen_ok (ww_gen (fold walk_frame is w))" if "gen_ok (ww_gen w)" for w using that
    by (induction "is" arbitrary: w) (simp_all add: walk_frame_cycle(1))
  then have "gen_ok (ww_gen (fold walk_frame is \<lparr>ww_gen = g_new now mem, ww_request = r, ww_odometry = d, ww_body = m\<rparr>))"
    by (simp add: g_new_ok)
  then show ?thesis by (simp add: gen_ok_def)
qed

lemma step_runs_on:
  assumes "gen_ok (ww_gen w)" "\<forall>k \<le> length is. w_t (g_ph (ww_gen (fold walk_frame (take k is) w))) \<noteq> 0"
  shows "w_t (g_ph (ww_gen (fold walk_frame is w))) = w_t (g_ph (ww_gen w)) + real (length is) / 100 \<and>
    w_T (g_ph (ww_gen (fold walk_frame is w))) = w_T (g_ph (ww_gen w)) \<and> gen_ok (ww_gen (fold walk_frame is w))"
  using assms
proof (induction "is" arbitrary: w)
  case (Cons i "is")
  have t: "w_t (g_ph (ww_gen w)) \<noteq> 0" using Cons.prems(2) by (metis take0 fold_simps(1) zero_le)
  have "\<forall>k \<le> length is. w_t (g_ph (ww_gen (fold walk_frame (take k is) (walk_frame i w)))) \<noteq> 0"
    using Cons.prems(2) by (metis Suc_le_mono fold_simps(2) length_Cons take_Suc_Cons)
  moreover from this have "w_t (g_ph (ww_gen (walk_frame i w))) \<noteq> 0" by (metis take0 fold_simps(1) zero_le)
  then have "w_t (g_ph (ww_gen (walk_frame i w))) = w_t (g_ph (ww_gen w)) + 1 / 100" "w_T (g_ph (ww_gen (walk_frame i w))) = w_T (g_ph (ww_gen w))"
    using walk_frame_cycle(2) [OF Cons.prems(1) t, of i] by simp_all
  ultimately show ?case using Cons.IH [OF walk_frame_cycle(1) [OF Cons.prems(1)], of i] by (simp add: add_divide_distrib)
qed simp

text \<open>
  C4: Every step ends: if the pressure never changes sides, the support foot is changed when three periods are over. After \<open>n\<close> frames with
  \<open>n > 300 T\<close> the robot has begun a new step or stands.
\<close>

theorem every_step_ends:
  assumes "gen_ok (ww_gen w)" "300 * w_T (g_ph (ww_gen w)) < real (length is)"
  shows "\<exists>k \<le> length is. w_t (g_ph (ww_gen (fold walk_frame (take k is) w))) = 0"
proof (rule ccontr)
  assume "\<not> ?thesis"
  then have n: "\<forall>k \<le> length is. w_t (g_ph (ww_gen (fold walk_frame (take k is) w))) \<noteq> 0" by blast
  note r = step_runs_on [OF assms(1) this]
  have "w_t (g_ph (ww_gen (fold walk_frame is w))) \<noteq> 0" using n by (metis order_refl take_all)
  then have "w_t (g_ph (ww_gen (fold walk_frame is w))) \<le> 3 * w_T (g_ph (ww_gen w))" using r by (auto simp: gen_ok_def phase_ok_def)
  moreover have "0 \<le> w_t (g_ph (ww_gen w))" using assms(1) by (auto simp: gen_ok_def phase_ok_def)
  ultimately show False using r assms(2) by simp
qed

theorem every_step_ends_witness:
  "\<forall>now mem r d m i. \<exists>k \<le> 100. w_t (g_ph (ww_gen (fold walk_frame (take k (replicate 100 i))
     \<lparr>ww_gen = (g_new now mem)\<lparr>g_ph := (g_ph (g_new now mem))\<lparr>walk2014Option := O_WALK, w_t := 1 / 100, w_T := 1 / 4, w_nextFootSwitchT := 1 / 4\<rparr>\<rparr>,
       ww_request = r, ww_odometry = d, ww_body = m\<rparr>))) = 0"
proof (intro allI)
  fix now :: int and mem :: generator and r :: rs_request and d :: rs_odometry and m :: body_model and i :: walk_input
  let ?g = "(g_new now mem)\<lparr>g_ph := (g_ph (g_new now mem))\<lparr>walk2014Option := O_WALK, w_t := 1 / 100, w_T := 1 / 4, w_nextFootSwitchT := 1 / 4\<rparr>\<rparr>"
  have "gen_ok ?g" using g_new_ok [of now mem] by (simp add: gen_ok_def phase_ok_def walking_def)
  then show "\<exists>k \<le> 100. w_t (g_ph (ww_gen (fold walk_frame (take k (replicate 100 i))
     \<lparr>ww_gen = ?g, ww_request = r, ww_odometry = d, ww_body = m\<rparr>))) = 0"
    using every_step_ends [of "\<lparr>ww_gen = ?g, ww_request = r, ww_odometry = d, ww_body = m\<rparr>" "replicate 100 i"] by simp
qed

section \<open>The feet\<close>

lemma swing_foot_heights:
  assumes "0 \<le> h"
  shows "w_foothL (swing_left dt an c ph h s) = h" "w_foothR (swing_left dt an c ph h s) = 0"
    and "\<not> (fk \<and> w_t ph < w_T ph / 2) \<Longrightarrow> w_foothL (swing_right dt an fk c ph h s) = 0 \<and> w_foothR (swing_right dt an fk c ph h s) = h"
    and "fk \<Longrightarrow> w_t ph < w_T ph / 2 \<Longrightarrow> w_foothL (swing_right dt an fk c ph h s) = 2 / 100 * (1 - 2 * w_t ph / w_T ph) \<and>
      w_foothR (swing_right dt an fk c ph h s) = 2 / 100 * (1 - 2 * w_t ph / w_T ph)"
  using assms by (auto simp: swing_left_def swing_right_def Let_def split: prod.splits)

lemma prime_step_heights:
  "w_foothL (prime_step p s) = w_foothL s / p_start_lift_divisor p" "w_foothR (prime_step p s) = w_foothR s / p_start_lift_divisor p"
  by (simp_all add: prime_step_def)

text \<open>
  One foot is on the ground, or, if the generator believes that a kick has just ended (\<open>fk\<close>), both are at the same height of at most 2 cm.
\<close>

definition feet_ok :: "bool \<Rightarrow> step_vars \<Rightarrow> bool" where
  "feet_ok fk s = (0 \<le> w_foothL s \<and> 0 \<le> w_foothR s \<and>
     (w_foothL s = 0 \<or> w_foothR s = 0 \<or> fk \<and> w_foothL s = w_foothR s \<and> w_foothL s \<le> 2 / 100))"

lemma swing_feet:
  assumes "0 \<le> h" "0 \<le> w_t ph"
  shows "feet_ok fk (swing_left dt an c ph h s)" "feet_ok fk (swing_right dt an fk c ph h s)"
proof -
  show "feet_ok fk (swing_left dt an c ph h s)" using assms swing_foot_heights(1,2) by (simp add: feet_ok_def)
  show "feet_ok fk (swing_right dt an fk c ph h s)"
  proof (cases "fk \<and> w_t ph < w_T ph / 2")
    case True
    then have "0 \<le> 2 * w_t ph / w_T ph" "2 * w_t ph / w_T ph \<le> 1" using assms(2) by (simp_all add: field_simps)
    then show ?thesis using True swing_foot_heights(4) [OF assms(1), of fk ph dt an c s] by (simp add: feet_ok_def)
  next
    case False
    then show ?thesis using assms(1) swing_foot_heights(3) [OF assms(1) False, of dt an c s] by (simp add: feet_ok_def)
  qed
qed

lemma walk_step_feet:
  assumes "g_curr g = walk_defaults" "0 \<le> w_t (g_ph g)" "0 < w_nextFootSwitchT (g_ph g)"
  shows "feet_ok (just_finished_kick g) (g_st (walk_step b g))"
proof -
  define h where "h = (p_base_leg_lift walk_defaults + \<bar>w_forward (g_cmd g)\<bar> * p_fwd_extra_foot_height walk_defaults +
    \<bar>w_left (g_cmd g)\<bar> * p_left_extra_foot_height walk_defaults) * parabolicReturn (w_t (g_ph g) / w_nextFootSwitchT (g_ph g))"
  have "0 \<le> parabolicReturn (w_t (g_ph g) / w_nextFootSwitchT (g_ph g))" using parabolicReturn_bounds assms(2,3) by simp
  then have h: "0 \<le> h" by (auto simp: h_def walk_defaults_def intro!: mult_nonneg_nonneg add_nonneg_nonneg)
  define s where "s = (if b then swing_left (w_dt g) (w_ankle g) (g_cmd g) (g_ph g) h (g_st g)
    else swing_right (w_dt g) (w_ankle g) (just_finished_kick g) (g_cmd g) (g_ph g) h (g_st g))"
  have s: "feet_ok (just_finished_kick g) s" using swing_feet [OF h assms(2)] by (simp add: s_def)
  define s' where "s' = (if walkState (g_ph g) = S_STARTING then prime_step walk_defaults s else s)"
  have "walk_step b g = g\<lparr>g_st := s'\<lparr>w_shoulderPitchR := - w_forwardR s' * p_arm_swing walk_defaults,
      w_shoulderPitchL := - w_forwardL s' * p_arm_swing walk_defaults\<rparr>\<rparr>"
    by (simp add: walk_step_def Let_def assms(1) h_def [symmetric] s_def s'_def)
  moreover have "feet_ok (just_finished_kick g) s'" using s by (auto simp: s'_def feet_ok_def prime_step_heights walk_defaults_def)
  ultimately show ?thesis by (simp add: feet_ok_def)
qed

lemma prepareStep_finished: "just_finished_kick (fst (prepareStep r s (g, m))) = just_finished_kick g"
  by (simp add: prepareStep_gen executeOption_def determineOption_def skipToKickEnd_def g_tick_def before_step_def readRequest_def Let_def)

lemma changeSupport_feet: "feet_ok fk (g_st (fst (changeSupport (g, m)))) = feet_ok fk (g_st g)"
  by (simp add: changeSupport_def switch_feet_def feet_ok_def Let_def)



section \<open>The joints put the swinging foot where the step wants it\<close>

lemma balance_angles_other_leg:
  assumes "walk2014Option (g_ph g) \<noteq> O_KICK" "isLeftPhase m" "j \<noteq> RS_RAnklePitch"
  shows "balance_angles g m a j = a j"
  using assms by (simp add: balance_angles_def Let_def)

text \<open>
  The joints that are sent are those of the step; for half a second after the robot has got stuck on a foot the knee and the ankle of the
  swinging leg are changed.
\<close>

definition limping :: "int \<Rightarrow> walk_world \<Rightarrow> bool" where
  "limping now w = (now - w_limp (ww_gen w) < 500 \<and> w_armStuck (ww_gen w) \<and> kick_suppressed (ww_gen w) (ww_body w))"

lemma joints_of_limp: "joints_of (g\<lparr>w_limp := t, w_armStuck := b\<rparr>) m j = joints_of g m j"
  by (simp add: joints_of_def balance_angles_def walk_angles_def kick_suppressed_def addKickJoints_def set_arm_stiffness_def Let_def)

lemma sent_joints:
  assumes "g_makeJoints now kin sv ballX ballY w0 = (w, j)" "isLeftPhase (ww_body w)"
  defines "a \<equiv> jv_angles (joints_of (ww_gen w) (ww_body w) (sv_joints sv))"
  shows "jv_angles j = (if limping now w then a(RS_LKneePitch := a RS_LKneePitch - 4 / 10, RS_LAnklePitch := a RS_LAnklePitch + 6 / 10) else a)"
proof -
  let ?m = "bm_update kin sv (ww_body w0)"
  obtain g1 m1 where p: "prepareStep (ww_request w0) sv (ww_gen w0, ?m) = (g1, m1)" by fastforce
  obtain g2 r2 where mv: "moveFeet (isLeftPhase m1) ballY (g1, ww_request w0) = (g2, r2)" by fastforce
  obtain g3 m where c: "changeSupport (g2, m1) = (g3, m)" by fastforce
  obtain g d where o: "updateOdometry (isLeftPhase m) (g_balance sv g3, ww_odometry w0) = (g, d)" by fastforce
  obtain g' where li: "limp_joints now m (g, joints_of g m (sv_joints sv)) = (g', j)" and w: "ww_gen w = g'" "ww_body w = m"
    using assms(1) by (cases "limp_joints now m (g, joints_of g m (sv_joints sv))") (auto simp: g_makeJoints_def p mv c o Let_def)
  show ?thesis
  proof (cases "now - w_limp g \<ge> 6000 \<and> w_armStuck g \<and> kick_suppressed g m")
    case True
    then have "g' = g\<lparr>w_limp := now, w_armStuck := False\<rparr>" "jv_angles j = jv_angles (joints_of g m (sv_joints sv))"
      using li by (auto simp: limp_joints_def Let_def)
    then show ?thesis by (simp add: a_def w joints_of_limp limping_def)
  next
    case False
    then show ?thesis using li assms(2) by (auto simp: limp_joints_def Let_def a_def w limping_def)
  qed
qed

text \<open>
  C5: While the robot walks without a turn, the joints that are sent put every point of the swinging left foot where the step wants it: below the
  hip by the height of the leg, behind it by the step and the offset of the centre of mass, aside by the sideways angle, parallel to the body.
  In the half second in which the robot limps they do so up to exactly 0.4 in the knee and 0.6 in the ankle.
\<close>

theorem swing_foot_placed:
  fixes w w0 :: walk_world and j :: joint_vals and now :: int
  assumes frame: "g_makeJoints now kin sv ballX ballY w0 = (w, j)"
  defines "g \<equiv> ww_gen w" and "a \<equiv> jv_angles j" and "limp \<equiv> if limping now w then 1 else 0"
  defines "s \<equiv> g_st g" and "ph \<equiv> g_ph g"
  defines "h \<equiv> w_hiph ph - w_foothL s - w_ankle g" and "x \<equiv> w_forwardL s + w_comOffset ph" and "l \<equiv> w_leftL s"
  assumes walk: "walk2014Option ph = O_WALK" and left: "isLeftPhase (ww_body w)" and turn: "w_turnRL s = 0"
    and leg: "0 < w_thigh g" "0 < w_tibia g" "0 < h" "0 < cos l"
    and reach: "sqrt (h / cos l * (h / cos l) + x * x) < w_thigh g + w_tibia g" "\<bar>w_thigh g - w_tibia g\<bar> < sqrt (h / cos l * (h / cos l) + x * x)"
  shows "mf2b (w_thigh g) (w_tibia g) (a RS_LHipYawPitch) (a RS_LHipPitch) (a RS_LHipRoll) (a RS_LKneePitch + 4 / 10 * limp)
      (a RS_LAnklePitch - 6 / 10 * limp) (a RS_LAnkleRoll) xf yf zf =
    xyz_new (xf - 1000 * x) (yf - 1000 * h * tan l) (zf - 1000 * h)"
proof -
  define m where "m = ww_body w"
  define K where "K = (\<not> kick_suppressed g m)"
  obtain Hp Hr Kp Ap Ar where L: "left_leg (w_thigh g) (w_tibia g) (w_comOffset ph) K h (w_forwardL s) l 0 0 = (Hp, Hr, Kp, Ap, Ar)"
    by (metis prod_cases5)
  obtain Hp' Hr' Kp' Ap' Ar' where R: "right_leg (w_thigh g) (w_tibia g) (w_comOffset ph) K (w_hiph ph - w_foothR s - w_ankle g) (w_forwardR s)
      (w_leftR s) 0 0 = (Hp', Hr', Kp', Ap', Ar')" by (metis prod_cases5)
  define b where "b = jv_angles (joints_of g m (sv_joints sv))"
  have b: "b k = walk_angles g m (jv_angles (sv_joints sv)) k" if "k \<noteq> RS_RAnklePitch" for k
    using walk left that by (simp add: b_def joints_of_def balance_angles_other_leg ph_def m_def)
  have "b RS_LHipYawPitch = 0" "b RS_LHipPitch = - Hp" "b RS_LHipRoll = Hr" "b RS_LKneePitch = Kp" "b RS_LAnklePitch = - Ap" "b RS_LAnkleRoll = Ar"
    using walk turn L R by (simp_all add: b walk_angles_def Let_def s_def ph_def h_def l_def K_def)
  moreover have "a RS_LHipYawPitch = b RS_LHipYawPitch" "a RS_LHipPitch = b RS_LHipPitch" "a RS_LHipRoll = b RS_LHipRoll"
    "a RS_LKneePitch + 4 / 10 * limp = b RS_LKneePitch" "a RS_LAnklePitch - 6 / 10 * limp = b RS_LAnklePitch" "a RS_LAnkleRoll = b RS_LAnkleRoll"
    using sent_joints [OF frame left] by (simp_all add: a_def b_def g_def m_def limp_def)
  ultimately show ?thesis using left_leg_exact [OF leg reach [unfolded x_def] L] by (simp add: x_def)
qed

text \<open>A robot that lifts its left foot to stop.\<close>

definition stepping :: "int \<Rightarrow> generator \<Rightarrow> generator" where
  "stepping now mem = (g_new now mem)\<lparr>g_ph := (g_ph (g_new now mem))\<lparr>walk2014Option := O_WALK, walkState := S_STOPPING, w_t := 1 / 100, w_T := 1 / 4,
     w_nextFootSwitchT := 1 / 4\<rparr>, g_cmd := (g_cmd (g_new now mem))\<lparr>w_turn := 0\<rparr>\<rparr>"

lemma stepping_simps:
  "g_curr (stepping now mem) = walk_defaults" "w_dt (stepping now mem) = 1 / 100" "w_kickT (g_kick (stepping now mem)) = 0"
  "w_thigh (stepping now mem) = 1 / 10" "w_tibia (stepping now mem) = 1029 / 10000" "w_ankle (stepping now mem) = 4519 / 100000"
  "walk2014Option (g_ph (stepping now mem)) = O_WALK" "walkState (g_ph (stepping now mem)) = S_STOPPING" "w_t (g_ph (stepping now mem)) = 1 / 100"
  "w_T (g_ph (stepping now mem)) = 1 / 4" "w_nextFootSwitchT (g_ph (stepping now mem)) = 1 / 4" "\<not> supportFoothasChanged (g_ph (stepping now mem))"
  "w_forward (g_cmd (stepping now mem)) = 0" "w_left (g_cmd (stepping now mem)) = 0" "w_turn (g_cmd (stepping now mem)) = 0"
  "w_turnRL0 (g_st (stepping now mem)) = 0" "w_forwardL0 (g_st (stepping now mem)) = 0" "\<not> w_armStuck (stepping now mem)"
  by (simp_all add: stepping_def g_new_def restoreDefaultWalkParameters_def g_initialise_def)

lemma stepping_prepared:
  fixes r :: rs_request and sv :: sensor_vals and now :: int and mem :: generator and m :: body_model
  defines "g \<equiv> fst (prepareStep r sv (stepping now mem, m))"
  shows "g_curr g = walk_defaults" "w_thigh g = 1 / 10" "w_tibia g = 1029 / 10000" "w_ankle g = 4519 / 100000" "walk2014Option (g_ph g) = O_WALK"
    "w_hiph (g_ph g) = 21 / 100" "w_comOffset (g_ph g) = 1 / 100" "w_t (g_ph g) = 2 / 100" "w_T (g_ph g) = 1 / 4" "w_nextFootSwitchT (g_ph g) = 1 / 4"
    "walkState (g_ph g) = S_STOPPING" "w_forward (g_cmd g) = 0" "w_left (g_cmd g) = 0" "w_turn (g_cmd g) = 0" "\<not> supportFoothasChanged (g_ph g)"
    "\<not> w_armStuck g" "g_st g = g_st (stepping now mem)"
  by (simp_all add: g_def prepareStep_def first_height_def determineOption_def executeOption_def execute_phase_def option_step_def g_tick_def
      stepping_simps walk_defaults_def Let_def)

lemma bm_update_left: "isLeftPhase (bm_update kin sv m) = isLeftPhase m"
  by (simp add: bm_update_def processUpdate_def fs_update_def Let_def)

lemma stepping_step:
  assumes "g = fst (prepareStep r sv (stepping now mem, m))" "w_swingAngle (g_st (stepping now mem)) = 0"
  shows "w_foothL (g_st (walk_step True g)) = 7168 / 10000000" "w_turnRL (g_st (walk_step True g)) = 0" "w_leftL (g_st (walk_step True g)) = 0"
    "w_forwardL (g_st (walk_step True g)) = 0"
  using assms(2)
  by (simp_all add: assms(1) walk_step_def swing_left_def stepping_prepared stepping_simps walk_defaults_def parabolicReturn_def Let_def)

lemma walk_step_body:
  "g_ph (walk_step b g) = g_ph g" "w_thigh (walk_step b g) = w_thigh g" "w_tibia (walk_step b g) = w_tibia g" "w_ankle (walk_step b g) = w_ankle g"
  "w_armStuck (walk_step b g) = w_armStuck g"
  by (simp_all add: walk_step_def Let_def)

lemma rest_of_body:
  "w_thigh (g_balance sv g) = w_thigh g" "w_tibia (g_balance sv g) = w_tibia g" "w_ankle (g_balance sv g) = w_ankle g"
  "w_armStuck (g_balance sv g) = w_armStuck g"
  "w_thigh (fst (updateOdometry b (g, d))) = w_thigh g" "w_tibia (fst (updateOdometry b (g, d))) = w_tibia g"
  "w_ankle (fst (updateOdometry b (g, d))) = w_ankle g" "w_armStuck (fst (updateOdometry b (g, d))) = w_armStuck g"
  "w_thigh (fst (limp_joints now m (g, j))) = w_thigh g" "w_tibia (fst (limp_joints now m (g, j))) = w_tibia g"
  "w_ankle (fst (limp_joints now m (g, j))) = w_ankle g" "w_armStuck g \<or> \<not> w_armStuck (fst (limp_joints now m (g, j)))"
  by (simp_all add: g_balance_def updateOdometry_def limp_joints_def Let_def)

lemma stepping_frame:
  assumes "g_makeJoints now' kin sv ballX ballY \<lparr>ww_gen = (stepping now mem), ww_request = r, ww_odometry = d, ww_body = m\<lparr>isLeftPhase := True\<rparr>\<rparr> = (w, j)"
    "w_swingAngle (g_st (stepping now mem)) = 0"
  shows "walk2014Option (g_ph (ww_gen w)) = O_WALK" "isLeftPhase (ww_body w)" "w_thigh (ww_gen w) = 1 / 10" "w_tibia (ww_gen w) = 1029 / 10000"
    "w_ankle (ww_gen w) = 4519 / 100000" "w_hiph (g_ph (ww_gen w)) = 21 / 100" "w_comOffset (g_ph (ww_gen w)) = 1 / 100"
    "w_foothL (g_st (ww_gen w)) = 7168 / 10000000" "w_turnRL (g_st (ww_gen w)) = 0" "w_leftL (g_st (ww_gen w)) = 0" "w_forwardL (g_st (ww_gen w)) = 0"
    "\<not> limping now' w"
proof -
  let ?m = "bm_update kin sv (m\<lparr>isLeftPhase := True\<rparr>)"
  obtain g m1 where p: "prepareStep r sv (stepping now mem, ?m) = (g, m1)" by fastforce
  then have g: "g = fst (prepareStep r sv (stepping now mem, ?m))" and l: "isLeftPhase m1"
    using prepareStep_body(3) [of r sv "stepping now mem" ?m] by (simp_all add: bm_update_left)
  note s = stepping_prepared [of r sv now mem ?m, folded g] and f = stepping_step [OF g assms(2)]
  have c: "changeSupport (walk_step True g, m1) = ((walk_step True g)\<lparr>g_ph := (g_ph (walk_step True g))\<lparr>supportFoothasChanged := False\<rparr>\<rparr>, m1)"
    using s by (simp add: changeSupport_def walk_step_body Let_def)
  define g3 where "g3 = (walk_step True g)\<lparr>g_ph := (g_ph (walk_step True g))\<lparr>supportFoothasChanged := False\<rparr>\<rparr>"
  have mv: "moveFeet (isLeftPhase m1) ballY (g, r) = (walk_step True g, r)" using s(5,10) l by (simp add: moveFeet_def)
  obtain g5 d5 where o: "updateOdometry (isLeftPhase m1) (g_balance sv g3, d) = (g5, d5)" by fastforce
  obtain g6 j6 where li: "limp_joints now' m1 (g5, joints_of g5 m1 (sv_joints sv)) = (g6, j6)" by fastforce
  have w: "ww_gen w = g6" "ww_body w = m1" using assms(1) by (auto simp: g_makeJoints_def p mv c g3_def [symmetric] o li Let_def)
  have g5: "g_ph g5 = g_ph g3" "g_st g5 = g_st g3" "w_thigh g5 = w_thigh g3" "w_tibia g5 = w_tibia g3" "w_ankle g5 = w_ankle g3" "w_armStuck g5 = w_armStuck g3"
    using rest_of_cycle(6,10) [where b = "isLeftPhase m1" and g = "g_balance sv g3" and d = d]
      rest_of_body(5-8) [where b = "isLeftPhase m1" and g = "g_balance sv g3" and d = d]
    by (simp_all add: o rest_of_cycle(1,5) rest_of_body(1-4))
  have g6: "g_ph g6 = g_ph g5" "g_st g6 = g_st g5" "w_thigh g6 = w_thigh g5" "w_tibia g6 = w_tibia g5" "w_ankle g6 = w_ankle g5" "w_armStuck g5 \<or> \<not> w_armStuck g6"
    using rest_of_cycle(11,15) [where now = now' and m = m1 and g = g5 and j = "joints_of g5 m1 (sv_joints sv)"]
      rest_of_body(9-12) [where now = now' and m = m1 and g = g5 and j = "joints_of g5 m1 (sv_joints sv)"]
    by (simp_all add: li)
  note ws = walk_step_body [of True g]
  show "walk2014Option (g_ph (ww_gen w)) = O_WALK" "isLeftPhase (ww_body w)" "w_thigh (ww_gen w) = 1 / 10" "w_tibia (ww_gen w) = 1029 / 10000"
    "w_ankle (ww_gen w) = 4519 / 100000" "w_hiph (g_ph (ww_gen w)) = 21 / 100" "w_comOffset (g_ph (ww_gen w)) = 1 / 100"
    "w_foothL (g_st (ww_gen w)) = 7168 / 10000000" "w_turnRL (g_st (ww_gen w)) = 0" "w_leftL (g_st (ww_gen w)) = 0" "w_forwardL (g_st (ww_gen w)) = 0"
    "\<not> limping now' w"
    using g6 by (simp_all add: w l g5 g3_def s f ws limping_def)
qed

theorem swing_foot_placed_witness:
  "\<forall>now now' kin sv ballX ballY mem r d m. \<exists>w j. let g = (stepping now mem)\<lparr>g_st := (g_st (stepping now mem))\<lparr>w_swingAngle := 0\<rparr>\<rparr>; a = jv_angles j
     in g_makeJoints now' kin sv ballX ballY \<lparr>ww_gen = g, ww_request = r, ww_odometry = d, ww_body = m\<lparr>isLeftPhase := True\<rparr>\<rparr> = (w, j) \<and>
       mf2b (1 / 10) (1029 / 10000) (a RS_LHipYawPitch) (a RS_LHipPitch) (a RS_LHipRoll) (a RS_LKneePitch) (a RS_LAnklePitch) (a RS_LAnkleRoll) 0 0 0 =
       xyz_new (- 10) 0 (- 1640932 / 10000)"
proof (intro allI)
  fix now now' :: int and kin sv ballX ballY and mem :: generator and r d and m :: body_model
  define mem' where "mem' = mem\<lparr>g_st := (g_st mem)\<lparr>w_swingAngle := 0\<rparr>\<rparr>"
  have s: "(stepping now mem)\<lparr>g_st := (g_st (stepping now mem))\<lparr>w_swingAngle := 0\<rparr>\<rparr> = stepping now mem'" "w_swingAngle (g_st (stepping now mem')) = 0"
    by (simp_all add: mem'_def stepping_def g_new_def restoreDefaultWalkParameters_def g_initialise_def)
  obtain w j where f: "g_makeJoints now' kin sv ballX ballY \<lparr>ww_gen = stepping now mem', ww_request = r, ww_odometry = d, ww_body = m\<lparr>isLeftPhase := True\<rparr>\<rparr> = (w, j)"
    by fastforce
  note e = stepping_frame [OF f s(2)]
  have h: "21 / 100 - 7168 / 10000000 - 4519 / 100000 = (1640932 / 10000000 :: real)" by simp
  have len: "sqrt (1640932 / 10000000 * (1640932 / 10000000) + 1 / 100 * (1 / 100)) < (1 / 10 + 1029 / 10000 :: real)"
    "\<bar>1 / 10 - 1029 / 10000\<bar> < sqrt (1640932 / 10000000 * (1640932 / 10000000) + 1 / 100 * (1 / 100 :: real))"
    by (rule real_less_lsqrt real_less_rsqrt; simp add: power2_eq_square)+
  note p = swing_foot_placed [OF f e(1,2,9), where xf = 0 and yf = 0 and zf = 0, unfolded e cos_zero tan_zero h add_0_left div_by_1 mult_zero_right]
  have placed: "mf2b (1 / 10) (1029 / 10000) (jv_angles j RS_LHipYawPitch) (jv_angles j RS_LHipPitch) (jv_angles j RS_LHipRoll) (jv_angles j RS_LKneePitch)
      (jv_angles j RS_LAnklePitch) (jv_angles j RS_LAnkleRoll) 0 0 0 = xyz_new (- 10) 0 (- 1640932 / 10000)"
    using p [OF _ _ _ _ len] e(12) by simp
  show "\<exists>w j. let g = (stepping now mem)\<lparr>g_st := (g_st (stepping now mem))\<lparr>w_swingAngle := 0\<rparr>\<rparr>; a = jv_angles j
     in g_makeJoints now' kin sv ballX ballY \<lparr>ww_gen = g, ww_request = r, ww_odometry = d, ww_body = m\<lparr>isLeftPhase := True\<rparr>\<rparr> = (w, j) \<and>
       mf2b (1 / 10) (1029 / 10000) (a RS_LHipYawPitch) (a RS_LHipPitch) (a RS_LHipRoll) (a RS_LKneePitch) (a RS_LAnklePitch) (a RS_LAnkleRoll) 0 0 0 =
       xyz_new (- 10) 0 (- 1640932 / 10000)"
    unfolding s(1) Let_def using f placed by blast
qed

section \<open>Odometry\<close>

lemma walk_frame_odometry:
  "ro_forward (ww_odometry (walk_frame i w)) = ro_forward (ww_odometry w) + 1000 *
     (if isLeftPhase (ww_body (walk_frame i w)) then w_forwardR (g_st (ww_gen (walk_frame i w))) - w_prevForwardR (g_odo (ww_gen w))
      else w_forwardL (g_st (ww_gen (walk_frame i w))) - w_prevForwardL (g_odo (ww_gen w)))" (is ?a)
  "w_prevForwardR (g_odo (ww_gen (walk_frame i w))) = w_forwardR (g_st (ww_gen (walk_frame i w)))" (is ?b)
  "w_prevForwardL (g_odo (ww_gen (walk_frame i w))) = w_forwardL (g_st (ww_gen (walk_frame i w)))" (is ?c)
proof -
  define m where "m = bm_update (wi_kin i) (wi_sensors i) (ww_body w)"
  obtain g1 m1 where p1: "prepareStep (wi_request i) (wi_sensors i) (ww_gen w, m) = (g1, m1)" by fastforce
  obtain g2 r2 where p2: "moveFeet (isLeftPhase m1) (wi_ballY i) (g1, wi_request i) = (g2, r2)" by fastforce
  obtain g3 m3 where p3: "changeSupport (g2, m1) = (g3, m3)" by fastforce
  have o: "g_odo g1 = g_odo (ww_gen w)" "g_odo g2 = g_odo g1" "g_odo g3 = g_odo g2"
  proof -
    have "g_odo (fst (prepareStep (wi_request i) (wi_sensors i) (ww_gen w, m))) = g_odo (ww_gen w)"
      by (simp add: prepareStep_gen executeOption_def determineOption_def skipToKickEnd_def g_tick_def before_step_def readRequest_def first_height_def Let_def)
    then show "g_odo g1 = g_odo (ww_gen w)" by (simp add: p1)
    have "g_odo (fst (moveFeet (isLeftPhase m1) (wi_ballY i) (g1, wi_request i))) = g_odo g1"
      by (simp add: moveFeet_def walk_step_def kick_left_def kick_right_def Let_def split: prod.splits)
    then show "g_odo g2 = g_odo g1" by (simp add: p2)
    have "g_odo (fst (changeSupport (g2, m1))) = g_odo g2" by (simp add: changeSupport_def switch_feet_def Let_def)
    then show "g_odo g3 = g_odo g2" by (simp add: p3)
  qed
  show ?a ?b ?c
    by (simp_all add: walk_frame_def g_makeJoints_def Let_def m_def [symmetric] p1 p2 p3 updateOdometry_def limp_joints_def g_balance_def o
        ro_plus_def ro_new_def)
qed

text \<open>
  C25: The odometry follows the foot on the ground. While the same foot swings, the increments add up to the way of the other foot, whatever
  happens in between.
\<close>

theorem odometry_follows_support:
  assumes "is \<noteq> []" "\<forall>k < length is. isLeftPhase (ww_body (fold walk_frame (take (Suc k) is) w))"
  shows "ro_forward (ww_odometry (fold walk_frame is w)) =
    ro_forward (ww_odometry w) + 1000 * (w_forwardR (g_st (ww_gen (fold walk_frame is w))) - w_prevForwardR (g_odo (ww_gen w)))"
  using assms
proof (induction "is" arbitrary: w)
  case (Cons i "is")
  have h: "isLeftPhase (ww_body (walk_frame i w))" using Cons.prems(2) [rule_format, of 0] by simp
  note f = walk_frame_odometry [of i w]
  show ?case
  proof (cases "is = []")
    case True
    then show ?thesis using f(1) h by simp
  next
    case False
    have "\<forall>k < length is. isLeftPhase (ww_body (fold walk_frame (take (Suc k) is) (walk_frame i w)))"
      using Cons.prems(2) by (metis Suc_less_eq fold_simps(2) length_Cons take_Suc_Cons)
    from Cons.IH [OF False this] show ?thesis using f h by simp
  qed
qed simp

lemma prepareStep_changed: "w_kickT (g_kick g) = 0 \<Longrightarrow> supportFoothasChanged (g_ph (fst (prepareStep r s (g, m)))) = supportFoothasChanged (g_ph g)"
  by (simp add: prepareStep_gen executeOption_def determineOption_def g_tick_def before_step_def first_height_def option_step_def beginMove_def Let_def)

lemma first_frame_phase:
  assumes "gen_ok (ww_gen w)" "w_t (g_ph (ww_gen w)) = 0" "\<not> supportFoothasChanged (g_ph (ww_gen w))"
  shows "isLeftPhase (ww_body (walk_frame i w)) = isLeftPhase (ww_body w)"
proof -
  define m where "m = bm_update (wi_kin i) (wi_sensors i) (ww_body w)"
  obtain g1 m1 where p1: "prepareStep (wi_request i) (wi_sensors i) (ww_gen w, m) = (g1, m1)" by fastforce
  note ok1 = prepareStep_ok [OF assms(1), of "wi_request i" "wi_sensors i" m, unfolded p1 fst_conv]
  have k: "w_kickT (g_kick (ww_gen w)) = 0" using assms(1) by (simp add: gen_ok_def)
  have nk: "walk2014Option (g_ph g1) \<noteq> O_KICK" using ok1(5) by auto
  have c: "\<not> supportFoothasChanged (g_ph g1)" using prepareStep_changed [OF k, of "wi_request i" "wi_sensors i" m] assms(3) by (simp add: p1)
  have t: "w_t (g_ph g1) \<le> 1 / 100" "w_t (g_ph g1) \<le> 75 / 100 * w_T (g_ph g1)" "w_t (g_ph g1) \<le> 3 * w_T (g_ph g1)"
    using ok1(8,10) assms(2) by (auto split: if_splits)
  have "isLeftPhase m1 = isLeftPhase (ww_body w)"
    using prepareStep_body(3) [of "wi_request i" "wi_sensors i" "ww_gen w" m] by (simp add: p1) (simp add: m_def bm_update_simps)
  then show ?thesis using c t
    by (simp add: walk_frame_gen step_of_def m_def [symmetric] p1 changeSupport_def Let_def moveFeet_simps [OF nk] not_less)
qed

theorem odometry_follows_support_witness:
  "\<forall>now mem r d m i. ro_forward (ww_odometry (fold walk_frame [i]
       \<lparr>ww_gen = g_new now mem, ww_request = r, ww_odometry = d, ww_body = m\<lparr>isLeftPhase := True\<rparr>\<rparr>)) =
     ro_forward d + 1000 * w_forwardR (g_st (ww_gen (fold walk_frame [i]
       \<lparr>ww_gen = g_new now mem, ww_request = r, ww_odometry = d, ww_body = m\<lparr>isLeftPhase := True\<rparr>\<rparr>)))"
proof (intro allI)
  fix now :: int and mem :: generator and r :: rs_request and d :: rs_odometry and m :: body_model and i :: walk_input
  let ?w = "\<lparr>ww_gen = g_new now mem, ww_request = r, ww_odometry = d, ww_body = m\<lparr>isLeftPhase := True\<rparr>\<rparr>"
  have n: "w_t (g_ph (g_new now mem)) = 0" "\<not> supportFoothasChanged (g_ph (g_new now mem))" "w_prevForwardR (g_odo (g_new now mem)) = 0"
    by (simp_all add: g_new_def restoreDefaultWalkParameters_def g_initialise_def)
  have "isLeftPhase (ww_body (walk_frame i ?w))" using first_frame_phase [of ?w i] g_new_ok n by simp
  then show "ro_forward (ww_odometry (fold walk_frame [i] ?w)) = ro_forward d + 1000 * w_forwardR (g_st (ww_gen (fold walk_frame [i] ?w)))"
    using odometry_follows_support [of "[i]" ?w] n by simp
qed

end
