(* ===== verification/Spec2Isabelle.thy ===== *)
theory Spec2Isabelle
  imports Ring_Containers Dense_Matrix Inverse_Kinematics Sensor_Processing Sonar Lights State_Machine Geometry_Lines Rotation_3D Polygons Core_Exchange Log_Files Tool_Protocol Walk_Steps Generators Gyro_Calibration Walk_Module
begin

text \<open>
  Verification library for the robot soccer code base under \<open>src/\<close>: the program that runs on a
  Nao robot (\<open>src/core\<close>), its interfaces to the robot, and the debugging tool (\<open>src/tools/UTNaoTool\<close>).

  \<^bold>\<open>The program.\<close> Two processes run on a robot. The motion process (\<open>core/MotionCore.cpp\<close>) runs a frame
  every 10 ms: it reads joint angles and sensors, runs the kick, walk and getup modules and writes
  joint commands. The vision process (\<open>core/VisionCore.cpp\<close>) runs a frame per camera image: vision,
  localization, behaviors, communication and logging. All data is kept in memory blocks with names,
  collected in a memory frame that is private or in shared memory; the two processes exchange a set of
  \<open>sync\<close> blocks under a lock. The tool talks to the vision process with packets, reads the logs it
  writes, and receives streamed frames.

  \<^bold>\<open>Conventions.\<close> Every definition is a translation of a function, a data type or a marked part of
  one; names are those of the source, with a short prefix where several classes use the same name. A
  class is a \<open>record\<close>; its methods take and return the record. Error exits, exceptions and undefined
  behaviour are values of an option or sum type, so that a theorem that an operation succeeds says that
  none of them happens. Floating-point numbers are real numbers: rounding, NaN and infinities are not
  represented; HOL defines \<open>x / 0 = 0\<close>, and theorems about code that divides exclude the zero where the
  C++ result would differ. Integers whose width matters are words and wrap. Code outside of the
  repository, or generated by its build, and the devices are parameters: constructors and
  serialization of blocks, files of motions and keyframes, sensors, clocks.

  \<^bold>\<open>The theories.\<close>

  \<^item> \<open>Prelude\<close>: arrays, C division, fact collections, and the locale \<open>countdown\<close> for modules that stay active
    for a number of frames.
  \<^item> \<open>Ring_Containers\<close>: the cyclic buffers of \<open>core/common/RingBuffer.h\<close>, \<open>RingBufferWithSum.h\<close>,
    \<open>RingQueue.h\<close> and others; they refine lists (the last \<open>n\<close> values, their sum, a queue).
  \<^item> \<open>Stream_Buffer\<close>: \<open>core/memory/StreamBuffer.cpp\<close>, the packed byte buffers of logs and streams; packing
    and unpacking are inverse, with every access in bounds.
  \<^item> \<open>State_Machine\<close>: the generic state machine \<open>core/common/StateMachine.h\<close>; transitions never leave the
    arrays and do what the registered transitions say.
  \<^item> \<open>Cmath\<close>, \<open>Geometry_Points\<close>, \<open>Geometry_Lines\<close>, \<open>Polygons\<close>: \<open>core/math/Common.h\<close>, \<open>Geometry.cpp\<close> and
    \<open>Polygon.h\<close>; points, lines, segments, circles, angles, and the point-in-polygon test with its cache.
  \<^item> \<open>Dense_Matrix\<close>: \<open>core/common/NMatrix.cpp\<close>, the matrices of the filters; matrix algebra, the 2 by 2
    inverse and the Cholesky factor.
  \<^item> \<open>Pose_Math\<close>, \<open>Rotation_3D\<close>: \<open>core/math\<close> and \<open>core/common\<close> vectors, matrices, planar and spatial poses;
    they act as rigid motions, conversions are inverse.
  \<^item> \<open>Robot_Info\<close>: joints, sensors and their constants (\<open>core/common/RobotInfo.h\<close>, \<open>InterfaceInfo.cpp\<close>).
  \<^item> \<open>Body_Blocks\<close>: measures and masses of the robot (\<open>core/common/RobotDimensions.h\<close>, \<open>MassCalibration.h\<close>) and
    the blocks of sensors, their calibration and the body model.
  \<^item> \<open>Forward_Kinematics\<close>, \<open>Inverse_Kinematics\<close>: \<open>core/kinematics\<close>; poses of all limbs from the joint angles, the
    centre of mass, the contact with the ground; joint angles from poses of feet and hands. The leg angles are the inverse
    of the forward kinematics; the search for the elbow ends and finds a point at the right distances.
  \<^item> \<open>Sensor_Processing\<close>: \<open>core/sensor/SensorModule.cpp\<close> and the inertial filter; the calibration of the
    gyroscopes, the Kalman filter at rest and its prediction.
  \<^item> \<open>Sonar\<close>: \<open>core/sonar/SonarModule.cpp\<close>; the schedule of commands and the median of the readings.
  \<^item> \<open>Lights\<close>: \<open>core/lights/LEDModule.cpp\<close>; the functions set the lights with the device names they are called after.
  \<^item> \<open>Memory_Blocks\<close>: the contents of the joint, joint command, kick request, walk request and odometry
    blocks with their methods (\<open>core/memory/*Block.h\<close>); the request invariant.
  \<^item> \<open>Memory_Frame\<close>: blocks by name with owners (\<open>MemoryBlock.cpp\<close>, \<open>PrivateMemory.cpp\<close>,
    \<open>SharedMemory.h\<close>, \<open>MemoryFrame.cpp\<close>, \<open>Module.h\<close>). The locale \<open>block_store\<close> is the contract of a store;
    it is interpreted for private and for shared memory, and the lemmas on the frame rest on it.
  \<^item> \<open>Log_Files\<close>: \<open>LogWriter.cpp\<close>, \<open>LogReader.cpp\<close>, \<open>LogViewer.cpp\<close>: a log gives back the frames written to it.
  \<^item> \<open>C_Text\<close>: the conversions of the C library between text and numbers.
  \<^item> \<open>Kick_Motion\<close>, \<open>Special_Motion\<close>, \<open>Getup_Motion\<close>: the keyframe kicks, the parser and player of motion
    files, and the getup state machine (\<open>core/motion\<close>). Kick and keyframe module are interpretations of
    \<open>countdown\<close>; the getup machine has an inductively defined set of reachable states and an invariant.
  \<^item> \<open>Motion_Core\<close>: a frame of the motion process and the conversion between commanded and raw joints.
  \<^item> \<open>Core_Exchange\<close>: the two processes together: sequences of publishing and receiving steps. Odometry is
    conserved when the vision process does not read inside a motion cycle, and counted twice otherwise.
  \<^item> \<open>Game_Control\<close>: game state, speech and buttons (\<open>core/memory/GameStateBlock.cpp\<close>,
    \<open>core/sensor/ButtonModule.cpp\<close>); counting clicks refines an independent definition of a click.
  \<^item> \<open>Tool_Protocol\<close>: the packets of the tool, their interpretation by the robot, the camera block and the
    control of logging; messages built by the tool mean on the robot what was set in the tool.

  \<^item> \<open>RS_Body\<close>: joints, limits, commands and odometry of the walk engine (\<open>core/motion/rswalk2014\<close>, headers in \<open>utils\<close>
    and \<open>types\<close>); the engine has its own enumerations of joints and sensors.
  \<^item> \<open>Walk_Geometry\<close>: the geometry of \<open>Walk2014Generator.cpp\<close>. The generated formulas for the position of the foot and for its
    Jacobian are the chain of the leg and its derivative; the correction of the hip is the damped least squares solution; the leg
    angles put the foot where it is wanted.
  \<^item> \<open>Walk_Body\<close>: \<open>BodyModel.cpp\<close>, \<open>WalkCycle.cpp\<close>, \<open>PendulumModel.cpp\<close>; the centre of pressure and the shift of weight.
  \<^item> \<open>Walk_Generator\<close>: \<open>Walk2014Generator.cpp\<close>, one definition per section of its \<open>makeJoints\<close>; the clamp and the limits of a request.
  \<^item> \<open>Walk_Steps\<close>: the walk over any sequence of frames: its invariant, the end of every step, the feet and the odometry.
  \<^item> \<open>Walk_Requests\<close>: \<open>WalkEnginePreProcessor.cpp\<close>, line-up, dribble and kick before the generator.
  \<^item> \<open>Generators\<close>: the players of recorded poses, the choice between the generators (\<open>DistributedGenerator.cpp\<close>) and the
    clipper, which keeps the joints in their limits whatever generator it contains.
  \<^item> \<open>Gyro_Calibration\<close>: the calibration of the gyroscopes while the robot stands still, and how long it takes at least and at most
    (\<open>RSWalkModule2014.cpp\<close>, \<open>GyroConfig.cpp\<close>).
  \<^item> \<open>Walk_Module\<close>: the frame of the walk module (\<open>RSWalkModule2014.cpp\<close>), one definition per section of its \<open>processFrame\<close>, composed
    with the calibration, the generators and the clipper: what it commands is within the limits of the joints, and a robot that is not
    calibrated or has been picked up is not asked to move. \<open>Motion_Core\<close> takes the modules of the walk as a parameter; this
    module is not composed with it.

  \<^bold>\<open>Termination.\<close> All functions are total. Loops with a bound in the data are recursive over it
  (\<open>performKick\<close> over the remaining keyframes, the message scanners over the rest of the packet); the binary search of the
  clamp and the correction of the hip run for their fixed number of rounds; the loops that wrap an angle and the search for the elbow are general recursive functions with a measure; no fuel
  is used. Behaviour over many frames is stated over lists of frames of any length or by induction over
  reachable states.

  \<^bold>\<open>Not modelled.\<close> Image processing (\<open>core/vision\<close>), localization and opponent tracking; the walk engine's
  own kinematics, whose results the body model takes as an argument, and its files of recorded poses;
  the Python behaviors and the interpreter that runs
  them; sockets and threads; YAML configuration; the windows of the tool; the simulators; the
  vendored libraries (\<open>src/lib\<close>, \<open>core/common/half.hpp\<close>, tinyformat). Vision and localization are program logic on camera images and on matrices of an external library; the
  others are glue to code outside of the repository.
\<close>

end
